(* ===== verification/Prelude.thy ===== *)
theory Prelude
  imports Complex_Main "HOL-Library.Monad_Syntax" "HOL-Library.Multiset"
begin

text \<open>
  Shared vocabulary of the development: the collections of simplification and
  introduction rules that the component theories fill, generic facts on lists and
  options, and the array cells through which the C code reads and writes memory.

  A C function that may touch memory outside its object, read a cell that was never
  written, or call with arguments for which the C standard gives no meaning returns
  an option: None is the undefined behaviour, Some the result. Indices are of type
  int as in the source; cell_get and cell_set check them against the object.
\<close>

named_theorems cells \<open>reading and writing array cells at a known position\<close>
named_theorems refine \<open>abstraction of a concrete operation\<close>
named_theorems invars \<open>an operation preserves the invariant of its component\<close>

section \<open>Array cells\<close>

definition cell_get :: "'a option list \<Rightarrow> int \<Rightarrow> 'a option" where
  "cell_get xs i = (if 0 \<le> i \<and> nat i < length xs then xs ! nat i else None)"

definition cell_set :: "'a option list \<Rightarrow> int \<Rightarrow> 'a \<Rightarrow> 'a option list option" where
  "cell_set xs i v = (if 0 \<le> i \<and> nat i < length xs then Some (xs[nat i := Some v]) else None)"

text \<open>The C function memmove on n cells of one array; the ranges have to lie inside it.\<close>

definition cells_move :: "'a option list \<Rightarrow> nat \<Rightarrow> nat \<Rightarrow> nat \<Rightarrow> 'a option list option" where
  "cells_move xs dst src n =
     (if dst + n \<le> length xs \<and> src + n \<le> length xs
      then Some (take dst xs @ take n (drop src xs) @ drop (dst + n) xs) else None)"

lemma cell_get_app [cells]: "i = int (length pre) \<Longrightarrow> cell_get (pre @ x # post) i = x"
  by (simp add: cell_get_def nth_append)

lemma cell_set_app [cells]: "i = int (length pre) \<Longrightarrow> cell_set (pre @ x # post) i v = Some (pre @ Some v # post)"
  by (simp add: cell_set_def list_update_append)

lemma cell_get_nth: "i < length xs \<Longrightarrow> cell_get xs (int i) = xs ! i"
  by (simp add: cell_get_def)

lemma cell_set_nth: "i < length xs \<Longrightarrow> cell_set xs (int i) v = Some (xs[i := Some v])"
  by (simp add: cell_set_def)

lemma cell_set_length [simp]: "cell_set xs i v = Some ys \<Longrightarrow> length ys = length xs"
  by (auto simp: cell_set_def split: if_splits)

section \<open>Lists\<close>

definition insert_at :: "nat \<Rightarrow> 'a \<Rightarrow> 'a list \<Rightarrow> 'a list" where
  "insert_at i x xs = take i xs @ x # drop i xs"

definition delete_at :: "nat \<Rightarrow> 'a list \<Rightarrow> 'a list" where
  "delete_at i xs = take i xs @ drop (Suc i) xs"

definition swap_at :: "nat \<Rightarrow> nat \<Rightarrow> 'a list \<Rightarrow> 'a list" where
  "swap_at i j xs = xs[i := xs ! j, j := xs ! i]"

text \<open>The index of the first element equal to x, -1 when there is none.\<close>

fun find_index_from :: "int \<Rightarrow> ('a \<Rightarrow> bool) \<Rightarrow> 'a list \<Rightarrow> int" where
  "find_index_from i P [] = -1"
| "find_index_from i P (x # xs) = (if P x then i else find_index_from (i + 1) P xs)"

definition index_of :: "'a \<Rightarrow> 'a list \<Rightarrow> int" where
  "index_of x xs = find_index_from 0 (\<lambda>y. y = x) xs"

lemma find_index_from_bounds:
  "find_index_from i P xs = -1 \<or> (i \<le> find_index_from i P xs \<and> find_index_from i P xs < i + int (length xs))"
  by (induction xs arbitrary: i) (auto, (smt (verit))+)

lemma find_index_from_none: "0 \<le> i \<Longrightarrow> find_index_from i P xs = -1 \<longleftrightarrow> (\<forall>x\<in>set xs. \<not> P x)"
  by (induction xs arbitrary: i) auto

lemma find_index_from_some:
  "0 \<le> i \<Longrightarrow> find_index_from i P xs = i + int k \<Longrightarrow> k < length xs \<and> P (xs ! k) \<and> (\<forall>j<k. \<not> P (xs ! j))"
proof (induction xs arbitrary: i k)
  case (Cons x xs)
  show ?case
  proof (cases "P x")
    case True
    with Cons.prems show ?thesis by simp
  next
    case False
    note F = False
    show ?thesis
    proof (cases k)
      case 0
      with Cons.prems False have "find_index_from (i + 1) P xs = i" by simp
      with Cons.prems(1) find_index_from_bounds[of "i + 1" P xs] have False by auto
      then show ?thesis ..
    next
      case (Suc m)
      with Cons.prems F have "find_index_from (i + 1) P xs = (i + 1) + int m" by simp
      with Cons.IH[of "i + 1" m] Cons.prems have
        "m < length xs \<and> P (xs ! m) \<and> (\<forall>j<m. \<not> P (xs ! j))" by simp
      with Suc F show ?thesis by (auto simp: nth_Cons split: nat.splits)
    qed
  qed
qed simp

lemma index_of_absent: "index_of x xs = -1 \<longleftrightarrow> x \<notin> set xs"
  by (auto simp: index_of_def find_index_from_none)

lemma index_of_present:
  assumes "x \<in> set xs"
  obtains k where "index_of x xs = int k" "k < length xs" "xs ! k = x" "x \<notin> set (take k xs)"
proof -
  have ne: "index_of x xs \<noteq> -1" using assms by (simp add: index_of_absent)
  then obtain k where k: "index_of x xs = int k"
    using find_index_from_bounds[of 0 "\<lambda>y. y = x" xs] zero_le_imp_eq_int
    unfolding index_of_def by blast
  then have *: "k < length xs \<and> xs ! k = x \<and> (\<forall>j<k. xs ! j \<noteq> x)"
    using find_index_from_some[of 0 "\<lambda>y. y = x" xs k] by (simp add: index_of_def)
  then have "x \<notin> set (take k xs)" by (auto simp: in_set_conv_nth)
  with k * that show ?thesis by blast
qed

lemma mset_insert_at [simp]: "mset (insert_at i x xs) = add_mset x (mset xs)"
proof -
  have "mset (take i xs) + mset (drop i xs) = mset xs"
    by (simp flip: mset_append)
  then show ?thesis by (simp add: insert_at_def)
qed

lemma set_insert_at [simp]: "set (insert_at i x xs) = insert x (set xs)"
proof -
  have "set_mset (mset (insert_at i x xs)) = set_mset (add_mset x (mset xs))" by simp
  then show ?thesis by (simp del: mset_insert_at)
qed

lemma length_insert_at [simp]: "length (insert_at i x xs) = Suc (length xs)"
  by (simp add: insert_at_def)

lemma distinct_insert_at [simp]: "distinct (insert_at i x xs) \<longleftrightarrow> x \<notin> set xs \<and> distinct xs"
proof -
  have a: "distinct xs = distinct (take i xs @ drop i xs)" by simp
  have b: "set xs = set (take i xs @ drop i xs)" by simp
  show ?thesis unfolding insert_at_def a b by (auto simp del: append_take_drop_id)
qed

lemma mset_delete_at: "i < length xs \<Longrightarrow> add_mset (xs ! i) (mset (delete_at i xs)) = mset xs"
  by (metis add_mset_add_single append_take_drop_id delete_at_def Cons_nth_drop_Suc
      mset.simps(2) mset_append union_mset_add_mset_right)

lemma length_delete_at [simp]: "i < length xs \<Longrightarrow> length (delete_at i xs) = length xs - 1"
  by (auto simp: delete_at_def min_def)

lemma delete_insert_at [simp]: "i \<le> length xs \<Longrightarrow> delete_at i (insert_at i x xs) = xs"
  by (simp add: delete_at_def insert_at_def min_def)

lemma nth_insert_at [simp]: "i \<le> length xs \<Longrightarrow> insert_at i x xs ! i = x"
  by (simp add: insert_at_def nth_append min_def)

lemma set_delete_at_subset: "set (delete_at i xs) \<subseteq> set xs"
  by (auto simp: delete_at_def dest: in_set_takeD in_set_dropD)

lemma distinct_delete_at [simp]: "distinct xs \<Longrightarrow> distinct (delete_at i xs)"
  unfolding delete_at_def using set_take_disj_set_drop_if_distinct[of xs i "Suc i"] by simp

lemma set_delete_at: "distinct xs \<Longrightarrow> i < length xs \<Longrightarrow> set (delete_at i xs) = set xs - {xs ! i}"
proof -
  assume d: "distinct xs" and i: "i < length xs"
  then have xs: "xs = take i xs @ xs ! i # drop (Suc i) xs" by (simp add: id_take_nth_drop)
  then have "distinct (take i xs @ xs ! i # drop (Suc i) xs)" using d by simp
  moreover have "set xs = insert (xs ! i) (set (delete_at i xs))"
    unfolding delete_at_def by (subst xs) simp
  ultimately show ?thesis unfolding delete_at_def by auto
qed

section \<open>Characters and C strings\<close>

text \<open>A C string is the list of its characters before the terminating NUL.\<close>

definition NUL :: char where "NUL = CHR 0x00"
definition BSL :: char where "BSL = CHR 0x5C"
definition DQ :: char where "DQ = CHR 0x22"
definition SQ :: char where "SQ = CHR 0x27"

lemmas chr_defs = NUL_def BSL_def DQ_def SQ_def

definition whitespace :: string where
  "whitespace = [CHR 0x20, CHR 0x0C, CHR 0x0A, CHR 0x0D, CHR 0x09, CHR 0x0B]"

definition is_ws :: "char \<Rightarrow> bool" where
  "is_ws c \<longleftrightarrow> c \<in> set whitespace"

definition c_tolower :: "char \<Rightarrow> char" where
  "c_tolower c = (let n = (of_char c :: nat) in if 65 \<le> n \<and> n \<le> 90 then char_of (n + 32) else c)"

text \<open>strcasecmp (a, b) == 0 of the C library.\<close>

definition str_caseeq :: "string \<Rightarrow> string \<Rightarrow> bool" where
  "str_caseeq a b \<longleftrightarrow> map c_tolower a = map c_tolower b"

text \<open>The sign of strcmp: bytes are compared as unsigned characters.\<close>

fun c_strcmp :: "string \<Rightarrow> string \<Rightarrow> int" where
  "c_strcmp [] [] = 0"
| "c_strcmp [] (b # bs) = -1"
| "c_strcmp (a # as) [] = 1"
| "c_strcmp (a # as) (b # bs) =
     (if a = b then c_strcmp as bs
      else if (of_char a :: nat) < of_char b then -1 else 1)"

lemma c_strcmp_eq0: "c_strcmp a b = 0 \<longleftrightarrow> a = b"
  by (induction a b rule: c_strcmp.induct) auto

lemma c_strcmp_refl [simp]: "c_strcmp a a = 0"
  by (simp add: c_strcmp_eq0)

lemma c_strcmp_antisym: "c_strcmp a b = - c_strcmp b a"
  by (induction a b rule: c_strcmp.induct) (auto simp: not_less antisym_conv2)

lemma c_strcmp_total: "c_strcmp a b \<le> 0 \<or> c_strcmp b a \<le> 0"
  using c_strcmp_antisym[of a b] by linarith

lemma c_strcmp_trans: "c_strcmp a b \<le> 0 \<Longrightarrow> c_strcmp b c \<le> 0 \<Longrightarrow> c_strcmp a c \<le> 0"
proof (induction a b arbitrary: c rule: c_strcmp.induct)
  case (2 b bs c)
  then show ?case by (cases c) auto
next
  case (4 a as b bs c)
  then show ?case by (cases c) (auto split: if_splits)
qed auto

text \<open>
  strspn and strpbrk over the string from a position; strpbrk gives the position of the
  first character of the string that occurs in the accepted set.
\<close>

fun str_pbrk :: "string \<Rightarrow> string \<Rightarrow> nat \<Rightarrow> nat option" where
  "str_pbrk [] accept i = None"
| "str_pbrk (c # cs) accept i = (if c \<in> set accept then Some i else str_pbrk cs accept (Suc i))"

definition strpbrk :: "string \<Rightarrow> nat \<Rightarrow> string \<Rightarrow> nat option" where
  "strpbrk s off accept = str_pbrk (drop off s) accept off"

lemma str_pbrk_Some:
  "str_pbrk s accept i = Some p \<Longrightarrow>
   i \<le> p \<and> p - i < length s \<and> s ! (p - i) \<in> set accept \<and> (\<forall>j < p - i. s ! j \<notin> set accept)"
proof (induction s arbitrary: i)
  case (Cons c cs)
  show ?case
  proof (cases "c \<in> set accept")
    case True
    with Cons.prems show ?thesis by simp
  next
    case False
    with Cons.prems have "str_pbrk cs accept (Suc i) = Some p" by simp
    from Cons.IH[OF this] have h: "Suc i \<le> p" "p - Suc i < length cs" "cs ! (p - Suc i) \<in> set accept"
      "\<forall>j < p - Suc i. cs ! j \<notin> set accept" by auto
    then obtain d where "p - i = Suc d" "p - Suc i = d" by (metis Suc_diff_le diff_Suc_Suc)
    with h False show ?thesis by (auto simp: nth_Cons less_Suc_eq_0_disj split: nat.splits)
  qed
qed simp

lemma str_pbrk_None: "str_pbrk s accept i = None \<longleftrightarrow> (\<forall>c\<in>set s. c \<notin> set accept)"
  by (induction s arbitrary: i) auto

lemma strpbrk_Some:
  assumes "strpbrk s off accept = Some p"
  shows "off \<le> p" "p < length s" "s ! p \<in> set accept" "\<And>j. off \<le> j \<Longrightarrow> j < p \<Longrightarrow> s ! j \<notin> set accept"
proof -
  have h: "off \<le> p" "p - off < length (drop off s)" "drop off s ! (p - off) \<in> set accept"
    "\<forall>j < p - off. drop off s ! j \<notin> set accept"
    using str_pbrk_Some[of "drop off s" accept off p] assms by (auto simp: strpbrk_def)
  show "off \<le> p" by (rule h)
  show "p < length s" using h by auto
  show "s ! p \<in> set accept" using h by auto
  fix j assume "off \<le> j" "j < p"
  then show "s ! j \<notin> set accept" using h(4)[rule_format, of "j - off"] h(1,2) by auto
qed

section \<open>Numbers in strings\<close>

definition is_digit :: "char \<Rightarrow> bool" where
  "is_digit c \<longleftrightarrow> 48 \<le> (of_char c :: nat) \<and> (of_char c :: nat) \<le> 57"

definition digit_val :: "char \<Rightarrow> nat" where
  "digit_val c = of_char c - 48"

definition digits_val :: "string \<Rightarrow> int" where
  "digits_val ds = foldl (\<lambda>v c. 10 * v + int (digit_val c)) 0 ds"

text \<open>A long of 64 bits cast to int keeps the low 32 bits.\<close>

definition to_int32 :: "int \<Rightarrow> int" where
  "to_int32 x = (x + 2 ^ 31) mod 2 ^ 32 - 2 ^ 31"

text \<open>
  strtol in base 10: blanks, a sign, digits; the value saturates at the limits of long. The
  second component is what endptr points to, the whole string when there is no digit.
\<close>

definition c_strtol :: "string \<Rightarrow> int \<times> string" where
  "c_strtol s =
     (let t = dropWhile is_ws s;
          neg = (t \<noteq> [] \<and> hd t = CHR ''-'');
          u = (if t \<noteq> [] \<and> hd t \<in> {CHR ''-'', CHR ''+''} then tl t else t);
          ds = takeWhile is_digit u; v = (if neg then - digits_val ds else digits_val ds) in
      if ds = [] then (0, s)
      else (max (- (2 ^ 63)) (min (2 ^ 63 - 1) v), dropWhile is_digit u))"

text \<open>strtoul in base 10 for an unsigned long of 64 bits: a minus negates modulo 2^64.\<close>

definition c_strtoul :: "string \<Rightarrow> nat \<times> string" where
  "c_strtoul s =
     (let t = dropWhile is_ws s;
          neg = (t \<noteq> [] \<and> hd t = CHR ''-'');
          u = (if t \<noteq> [] \<and> hd t \<in> {CHR ''-'', CHR ''+''} then tl t else t);
          ds = takeWhile is_digit u; v = nat (digits_val ds) in
      if ds = [] then (0, s)
      else (if v \<ge> 2 ^ 64 then 2 ^ 64 - 1 else if neg then (2 ^ 64 - v) mod 2 ^ 64 else v, dropWhile is_digit u))"

text \<open>atoi, strtol without an end pointer.\<close>

definition c_atoi :: "string \<Rightarrow> int" where
  "c_atoi s = to_int32 (fst (c_strtol s))"

text \<open>The decimal digits printed for %d and %u.\<close>

fun show_nat :: "nat \<Rightarrow> string" where
  "show_nat n = (if n < 10 then [char_of (48 + n)] else show_nat (n div 10) @ [char_of (48 + n mod 10)])"

definition show_int :: "int \<Rightarrow> string" where
  "show_int i = (if i < 0 then CHR ''-'' # show_nat (nat (- i)) else show_nat (nat i))"

declare show_nat.simps [simp del]

lemma show_nat_digit: "n < 10 \<Longrightarrow> show_nat n = [char_of (48 + n)]"
  by (simp add: show_nat.simps)

lemma show_nat_ne [simp]: "show_nat n \<noteq> []"
  by (subst show_nat.simps) simp

lemma digit_char: "d < 10 \<Longrightarrow> is_digit (char_of (48 + d)) \<and> digit_val (char_of (48 + d)) = d"
  by (simp add: is_digit_def digit_val_def of_char_of)

lemma show_nat_digits: "\<forall>c\<in>set (show_nat n). is_digit c"
proof (induction n rule: show_nat.induct)
  case (1 n)
  show ?case
  proof (cases "n < 10")
    case True
    then show ?thesis using digit_char[of n] by (simp add: show_nat_digit)
  next
    case False
    then show ?thesis using 1 digit_char[of "n mod 10"] by (subst show_nat.simps) auto
  qed
qed

lemma digits_val_snoc: "digits_val (ds @ [c]) = 10 * digits_val ds + int (digit_val c)"
  by (simp add: digits_val_def)

lemma digits_val_show: "digits_val (show_nat n) = int n"
proof (induction n rule: show_nat.induct)
  case (1 n)
  show ?case
  proof (cases "n < 10")
    case True
    then show ?thesis using digit_char[of n] by (simp add: show_nat_digit digits_val_def)
  next
    case False
    have "10 * int (n div 10) + int (n mod 10) = int n" by (simp flip: of_nat_mult of_nat_add add: zdiv_int zmod_int)
    then show ?thesis
      using False 1 digit_char[of "n mod 10"] by (subst show_nat.simps) (simp add: digits_val_snoc)
  qed
qed

lemma is_digit_not_ws: "is_digit c \<Longrightarrow> \<not> is_ws c \<and> c \<noteq> CHR ''-'' \<and> c \<noteq> CHR ''+''"
  by (auto simp: is_digit_def is_ws_def whitespace_def)

lemma c_strtol_show:
  assumes "int n < 2 ^ 63" "rest = [] \<or> \<not> is_digit (hd rest)"
  shows "c_strtol (show_nat n @ rest) = (int n, rest)"
proof -
  obtain d ds where sh: "show_nat n = d # ds" by (cases "show_nat n") auto
  have d: "is_digit d" "\<forall>c\<in>set (show_nat n). is_digit c" using show_nat_digits[of n] sh by auto
  have a: "dropWhile is_ws (show_nat n @ rest) = show_nat n @ rest"
    using sh is_digit_not_ws[OF d(1)] by simp
  have b: "hd (show_nat n @ rest) \<notin> {CHR ''-'', CHR ''+''}"
    using sh is_digit_not_ws[OF d(1)] by simp
  have c: "takeWhile is_digit (show_nat n @ rest) = show_nat n"
    "dropWhile is_digit (show_nat n @ rest) = rest"
    using d(2) assms(2) by (auto simp: takeWhile_append dropWhile_append takeWhile_eq_Nil_iff dropWhile_eq_self_iff)
  define S where "S = show_nat n @ rest"
  have "S \<noteq> []" using sh by (simp add: S_def)
  then have "c_strtol S = (max (- (2 ^ 63)) (min (2 ^ 63 - 1) (digits_val (show_nat n))), rest)"
    using a b c sh unfolding S_def[symmetric] by (simp add: c_strtol_def Let_def)
  then show ?thesis using assms(1) by (simp add: S_def digits_val_show)
qed

section \<open>Rounding\<close>

text \<open>round and lround go half away from zero; a cast to int truncates.\<close>

definition c_round :: "rat \<Rightarrow> int" where
  "c_round x = (if 0 \<le> x then \<lfloor>x + 1 / 2\<rfloor> else - \<lfloor>1 / 2 - x\<rfloor>)"

definition c_trunc :: "rat \<Rightarrow> int" where
  "c_trunc x = (if 0 \<le> x then \<lfloor>x\<rfloor> else - \<lfloor>- x\<rfloor>)"

lemma c_round_int [simp]: "c_round (of_int i) = i"
proof -
  have "\<lfloor>of_int i + 1 / 2 :: rat\<rfloor> = i" by (simp add: floor_eq_iff)
  moreover have "\<lfloor>1 / 2 - of_int i :: rat\<rfloor> = - i" by (simp add: floor_eq_iff)
  ultimately show ?thesis by (simp add: c_round_def)
qed

lemma c_trunc_int [simp]: "c_trunc (of_int i) = i"
  by (simp add: c_trunc_def flip: of_int_minus)

lemma c_round_near: "\<bar>of_int (c_round x) - x\<bar> \<le> 1 / 2"
proof (cases "0 \<le> x")
  case True
  have "of_int \<lfloor>x + 1 / 2\<rfloor> \<le> x + 1 / 2" "x + 1 / 2 < of_int \<lfloor>x + 1 / 2\<rfloor> + 1" by linarith+
  then have "of_int \<lfloor>x + 1 / 2\<rfloor> - x \<le> 1 / 2" "x - of_int \<lfloor>x + 1 / 2\<rfloor> \<le> 1 / 2" by linarith+
  then show ?thesis using True unfolding c_round_def abs_le_iff by simp
next
  case False
  have "of_int \<lfloor>1 / 2 - x\<rfloor> \<le> 1 / 2 - x" "1 / 2 - x < of_int \<lfloor>1 / 2 - x\<rfloor> + 1" by linarith+
  then have "- of_int \<lfloor>1 / 2 - x\<rfloor> - x \<le> 1 / 2" "x + of_int \<lfloor>1 / 2 - x\<rfloor> \<le> 1 / 2" by linarith+
  then show ?thesis using False unfolding c_round_def abs_le_iff by simp
qed

end
