(* ===== verification/CList.thy ===== *)
theory CList
  imports Prelude
begin

text \<open>
  The pointer list of common/list.c. A list_t holds a capacity, a length and an array of
  capacity cells of which the first length are initialised (list_ok). elems reads the
  sequence a list stands for; every operation is shown to implement the operation on
  sequences it is named after, and the in-place merge sort to be a stable sort.

  Item pointers are of an arbitrary type. malloc and realloc succeed when alloc_ok says
  so; the source ignores a failing realloc, which the model does not follow further.
\<close>

section \<open>The state\<close>

record 'a list_t =
  capacity :: nat
  len :: nat
  items :: "'a option list"

definition list_ok :: "'a list_t \<Rightarrow> bool" where
  "list_ok l \<longleftrightarrow> length (items l) = capacity l \<and> 0 < capacity l \<and> len l \<le> capacity l
     \<and> list_all (\<lambda>x. x \<noteq> None) (take (len l) (items l))"

definition elems :: "'a list_t \<Rightarrow> 'a list" where
  "elems l = map the (take (len l) (items l))"

section \<open>The operations\<close>

definition create_list :: "bool \<Rightarrow> 'a list_t option" where
  "create_list alloc_ok =
     (if \<not> alloc_ok then None
      else Some \<lparr>capacity = 10, len = 0, items = replicate 10 None\<rparr>)"

definition list_resize :: "'a list_t \<Rightarrow> 'a list_t" where
  "list_resize l =
     (if len l = capacity l
      then l\<lparr>capacity := capacity l * 2, items := items l @ replicate (capacity l) None\<rparr>
      else l)"

definition list_add :: "'a list_t \<Rightarrow> 'a \<Rightarrow> 'a list_t option" where
  "list_add l x = (let l = list_resize l in
     do {
       cs \<leftarrow> cell_set (items l) (int (len l)) x;
       Some (l\<lparr>items := cs, len := len l + 1\<rparr>)
     })"

definition list_insert :: "'a list_t \<Rightarrow> int \<Rightarrow> 'a \<Rightarrow> 'a list_t option" where
  "list_insert l index x = (let l = list_resize l in
     if index < 0 \<or> int (len l) < index then None
     else do {
       cs \<leftarrow> cells_move (items l) (nat index + 1) (nat index) (len l - nat index);
       cs \<leftarrow> cell_set cs index x;
       Some (l\<lparr>len := len l + 1, items := cs\<rparr>)
     })"

definition list_del :: "'a list_t \<Rightarrow> int \<Rightarrow> 'a list_t option" where
  "list_del l index =
     (if index < 0 \<or> int (len l) - 1 < index then None
      else do {
        cs \<leftarrow> cells_move (items l) (nat index) (nat index + 1) (len l - 1 - nat index);
        Some (l\<lparr>len := len l - 1, items := cs\<rparr>)
      })"

text \<open>The loop of list_cat reads source by index while it adds to list.\<close>

fun list_cat_loop :: "'a list_t \<Rightarrow> 'a option list \<Rightarrow> 'a list_t option" where
  "list_cat_loop l [] = Some l"
| "list_cat_loop l (c # cs) = do { x \<leftarrow> c; l \<leftarrow> list_add l x; list_cat_loop l cs }"

definition list_cat :: "'a list_t \<Rightarrow> 'a list_t \<Rightarrow> 'a list_t option" where
  "list_cat l source = list_cat_loop l (take (len source) (items source))"

text \<open>qsort of the C library is a parameter: it orders the first length items.\<close>

definition list_qsort ::
    "(('a \<Rightarrow> 'a \<Rightarrow> int) \<Rightarrow> 'a list \<Rightarrow> 'a list) \<Rightarrow> 'a list_t \<Rightarrow> ('a \<Rightarrow> 'a \<Rightarrow> int) \<Rightarrow> 'a list_t" where
  "list_qsort qsort l compare =
     l\<lparr>items := map Some (qsort compare (elems l)) @ drop (len l) (items l)\<rparr>"

definition list_seq_find :: "'a list_t \<Rightarrow> ('a \<Rightarrow> 'b \<Rightarrow> int) \<Rightarrow> 'b \<Rightarrow> int" where
  "list_seq_find l compare data = find_index_from 0 (\<lambda>item. compare item data = 0) (elems l)"

definition list_find :: "'a list_t \<Rightarrow> 'a \<Rightarrow> int" where
  "list_find l item = find_index_from 0 (\<lambda>x. x = item) (elems l)"

definition cells_swap :: "'a option list \<Rightarrow> int \<Rightarrow> int \<Rightarrow> 'a option list option" where
  "cells_swap cs src dest = do {
     tmp \<leftarrow> cell_get cs src;
     y \<leftarrow> cell_get cs dest;
     cs \<leftarrow> cell_set cs src y;
     cell_set cs dest tmp
   }"

definition list_swap :: "'a list_t \<Rightarrow> int \<Rightarrow> int \<Rightarrow> 'a list_t option" where
  "list_swap l src dest = do { cs \<leftarrow> cells_swap (items l) src dest; Some (l\<lparr>items := cs\<rparr>) }"

text \<open>sway_assert logs and lets the function return when the item is not in the list.\<close>

definition list_move_to_end :: "'a list_t \<Rightarrow> 'a \<Rightarrow> 'a list_t option" where
  "list_move_to_end l item =
     (let i = find_index_from 0 (\<lambda>x. x = item) (elems l) in
      if i = -1 then Some l
      else do { l \<leftarrow> list_del l i; list_add l item })"

definition list_free_items :: "'a list_t option \<Rightarrow> 'a list" where
  "list_free_items l = (case l of None \<Rightarrow> [] | Some l \<Rightarrow> elems l)"

section \<open>The in-place merge sort\<close>

function list_rotate_loop :: "'a option list \<Rightarrow> int \<Rightarrow> int \<Rightarrow> 'a option list option" where
  "list_rotate_loop cs from_i to_i =
     (if from_i < to_i
      then do {
        x \<leftarrow> cell_get cs (to_i - 1);
        cs \<leftarrow> cell_set cs to_i x;
        list_rotate_loop cs from_i (to_i - 1)
      }
      else Some cs)"
  by pat_completeness auto
termination by (relation "measure (\<lambda>(cs, from_i, to_i). nat (to_i - from_i))") auto

definition list_rotate :: "'a option list \<Rightarrow> int \<Rightarrow> int \<Rightarrow> 'a option list option" where
  "list_rotate cs from_i to_i = do {
     tmp \<leftarrow> cell_get cs to_i;
     cs \<leftarrow> list_rotate_loop cs from_i to_i;
     cell_set cs from_i tmp
   }"

function list_merge_loop ::
    "('a \<Rightarrow> 'a \<Rightarrow> int) \<Rightarrow> 'a option list \<Rightarrow> int \<Rightarrow> int \<Rightarrow> int \<Rightarrow> int \<Rightarrow> 'a option list option" where
  "list_merge_loop compare cs left lst mid right =
     (if left \<le> mid \<and> right \<le> lst
      then do {
        x \<leftarrow> cell_get cs left;
        y \<leftarrow> cell_get cs right;
        if compare x y \<le> 0
        then list_merge_loop compare cs (left + 1) lst mid right
        else do {
          cs \<leftarrow> list_rotate cs left right;
          list_merge_loop compare cs (left + 1) lst (mid + 1) (right + 1)
        }
      }
      else Some cs)"
  by pat_completeness auto
termination
  by (relation "measure (\<lambda>(c, cs, left, lst, mid, right). nat (lst + 1 - right) + nat (mid + 1 - left) + nat (lst + 1 - right))") auto

definition list_inplace_merge ::
    "('a \<Rightarrow> 'a \<Rightarrow> int) \<Rightarrow> 'a option list \<Rightarrow> int \<Rightarrow> int \<Rightarrow> int \<Rightarrow> 'a option list option" where
  "list_inplace_merge compare cs left lst mid = do {
     x \<leftarrow> cell_get cs mid;
     y \<leftarrow> cell_get cs (mid + 1);
     if compare x y \<le> 0 then Some cs
     else list_merge_loop compare cs left lst mid (mid + 1)
   }"

text \<open>(lst + first) / 2 is the truncating division of C; both indices are non-negative here.\<close>

function list_inplace_sort ::
    "('a \<Rightarrow> 'a \<Rightarrow> int) \<Rightarrow> 'a option list \<Rightarrow> nat \<Rightarrow> nat \<Rightarrow> 'a option list option" where
  "list_inplace_sort compare cs first lst =
     (if lst \<le> first then Some cs
      else if lst - first = 1
      then do {
        x \<leftarrow> cell_get cs (int first);
        y \<leftarrow> cell_get cs (int lst);
        if compare x y > 0 then cells_swap cs (int first) (int lst) else Some cs
      }
      else let mid = (lst + first) div 2 in do {
        cs \<leftarrow> list_inplace_sort compare cs first mid;
        cs \<leftarrow> list_inplace_sort compare cs (mid + 1) lst;
        list_inplace_merge compare cs (int first) (int lst) (int mid)
      })"
  by pat_completeness auto
termination by (relation "measure (\<lambda>(c, cs, first, lst). lst - first)") auto

declare list_rotate_loop.simps [simp del] list_merge_loop.simps [simp del]
  list_inplace_sort.simps [simp del]

definition list_stable_sort :: "'a list_t \<Rightarrow> ('a \<Rightarrow> 'a \<Rightarrow> int) \<Rightarrow> 'a list_t option" where
  "list_stable_sort l compare =
     (if 1 < len l
      then do {
        cs \<leftarrow> list_inplace_sort compare (items l) 0 (len l - 1);
        Some (l\<lparr>items := cs\<rparr>)
      }
      else Some l)"


section \<open>A list as its sequence and the spare cells\<close>

lemma list_ok_mk [simp]:
  "list_ok \<lparr>capacity = c, len = length xs, items = map Some xs @ junk\<rparr> \<longleftrightarrow> c = length xs + length junk \<and> 0 < c"
  by (auto simp: list_ok_def list_all_iff)

lemma elems_mk [simp]:
  "elems \<lparr>capacity = c, len = length xs, items = map Some xs @ junk\<rparr> = xs"
  by (simp add: elems_def comp_def)

lemma list_reprE:
  assumes "list_ok l"
  obtains xs junk c where "l = \<lparr>capacity = c, len = length xs, items = map Some xs @ junk\<rparr>"
    "c = length xs + length junk" "0 < c" "elems l = xs"
proof -
  let ?xs = "elems l" and ?junk = "drop (len l) (items l)"
  have len: "length ?xs = len l" using assms by (simp add: elems_def list_ok_def min_def)
  have "map Some ?xs = take (len l) (items l)"
    using assms by (auto simp: elems_def list_ok_def list_all_iff intro!: map_idI)
  then have "items l = map Some ?xs @ ?junk" by (metis append_take_drop_id)
  moreover have "capacity l = length ?xs + length ?junk" "0 < capacity l"
    using assms len by (auto simp: list_ok_def)
  ultimately show ?thesis
    using len by (intro that[of "capacity l" ?xs ?junk]) (auto intro: list_t.equality)
qed

text \<open>After list_resize there is at least one spare cell.\<close>

lemma list_resize_repr:
  assumes "list_ok l"
  obtains c s junk where
    "list_resize l = \<lparr>capacity = c, len = length (elems l), items = map Some (elems l) @ s # junk\<rparr>"
    "c = Suc (length (elems l) + length junk)"
proof -
  from assms obtain xs junk c where l: "l = \<lparr>capacity = c, len = length xs, items = map Some xs @ junk\<rparr>"
    "c = length xs + length junk" "0 < c" "elems l = xs" by (rule list_reprE)
  show ?thesis
  proof (cases junk)
    case Nil
    obtain k where "c = Suc k" using l(3) gr0_conv_Suc by blast
    then show ?thesis
      using l Nil by (intro that[of "c * 2" None "replicate k None"]) (auto simp: list_resize_def)
  next
    case (Cons s js)
    then show ?thesis using l by (intro that[of c s js]) (auto simp: list_resize_def)
  qed
qed

lemma list_ok_len: "list_ok l \<Longrightarrow> len l = length (elems l)"
  by (auto simp: elems_def list_ok_def min_def)

lemma list_create_refine [refine]: "create_list True = Some l \<Longrightarrow> list_ok l \<and> elems l = []"
  by (auto simp: create_list_def list_ok_def elems_def)

lemma list_add_refine [refine]:
  assumes "list_ok l"
  shows "\<exists>l'. list_add l x = Some l' \<and> list_ok l' \<and> elems l' = elems l @ [x]"
proof -
  from list_resize_repr[OF assms] obtain c s junk where
    r: "list_resize l = \<lparr>capacity = c, len = length (elems l), items = map Some (elems l) @ s # junk\<rparr>"
      "c = Suc (length (elems l) + length junk)" .
  let ?xs = "elems l @ [x]"
  have "list_add l x = Some \<lparr>capacity = c, len = length ?xs, items = map Some ?xs @ junk\<rparr>"
    by (simp add: list_add_def r cells)
  then show ?thesis using r(2) list_ok_mk[of c ?xs junk] elems_mk[of c ?xs junk] by simp
qed

lemma list_insert_refine [refine]:
  assumes "list_ok l"
  shows "if 0 \<le> i \<and> i \<le> int (length (elems l))
    then \<exists>l'. list_insert l i x = Some l' \<and> list_ok l' \<and> elems l' = insert_at (nat i) x (elems l)
    else list_insert l i x = None"
proof -
  from list_resize_repr[OF assms] obtain c s junk where
    r: "list_resize l = \<lparr>capacity = c, len = length (elems l), items = map Some (elems l) @ s # junk\<rparr>"
      "c = Suc (length (elems l) + length junk)" .
  show ?thesis
  proof (cases "0 \<le> i \<and> i \<le> int (length (elems l))")
    case True
    then obtain k where k: "i = int k" "k \<le> length (elems l)" by (metis nonneg_int_cases of_nat_le_iff)
    let ?xs = "insert_at k x (elems l)"
    have m: "cells_move (map Some (elems l) @ s # junk) (Suc k) k (length (elems l) - k)
        = Some ((take (Suc k) (map Some (elems l) @ [s])) @ map Some (drop k (elems l)) @ junk)"
      using k by (cases "k = length (elems l)") (auto simp: cells_move_def take_map drop_map)
    have t: "take (Suc k) (map Some (elems l) @ [s]) = map Some (take k (elems l)) @ [(map Some (elems l) @ [s]) ! k]"
      using k by (subst take_Suc_conv_app_nth) (auto simp: take_map)
    have "cell_set (take (Suc k) (map Some (elems l) @ [s]) @ map Some (drop k (elems l)) @ junk) (int k) x
        = Some (map Some ?xs @ junk)"
      unfolding t using k by (simp add: cells insert_at_def min_def)
    then have "list_insert l i x = Some \<lparr>capacity = c, len = length ?xs, items = map Some ?xs @ junk\<rparr>"
      using k by (simp add: list_insert_def r m del: take_append append_assoc)
    then show ?thesis
      using True k r(2) list_ok_mk[of c ?xs junk] elems_mk[of c ?xs junk] by simp
  next
    case False
    then show ?thesis by (auto simp: list_insert_def r)
  qed
qed

lemma list_del_refine [refine]:
  assumes "list_ok l"
  shows "if 0 \<le> i \<and> i < int (length (elems l))
    then \<exists>l'. list_del l i = Some l' \<and> list_ok l' \<and> elems l' = delete_at (nat i) (elems l)
    else list_del l i = None"
proof -
  from assms obtain xs junk c where l: "l = \<lparr>capacity = c, len = length xs, items = map Some xs @ junk\<rparr>"
    "c = length xs + length junk" "0 < c" "elems l = xs" by (rule list_reprE)
  show ?thesis
  proof (cases "0 \<le> i \<and> i < int (length (elems l))")
    case True
    then obtain k where k: "i = int k" "k < length xs" using l by (metis nonneg_int_cases of_nat_less_iff)
    let ?xs = "delete_at k xs"
    let ?junk = "drop (length xs - 1) (map Some xs @ junk)"
    have m: "cells_move (map Some xs @ junk) k (Suc k) (length xs - 1 - k) = Some (map Some ?xs @ ?junk)"
    proof -
      have "Suc (length xs - 1) = length xs" using k by simp
      then show ?thesis using k by (simp add: cells_move_def delete_at_def take_map drop_map)
    qed
    have "list_del l i = Some \<lparr>capacity = c, len = length ?xs, items = map Some ?xs @ ?junk\<rparr>"
      using k m by (simp add: list_del_def l(1))
    moreover have "c = length ?xs + length ?junk" using k l(2) by simp
    ultimately show ?thesis
      using True k l list_ok_mk[of c ?xs ?junk] elems_mk[of c ?xs ?junk] by simp
  next
    case False
    then show ?thesis using list_ok_len[OF assms] by (auto simp: list_del_def)
  qed
qed

lemma update_map_Some_app:
  "i < length xs \<Longrightarrow> (map Some xs @ junk)[i := Some v] = map Some (xs[i := v]) @ junk"
  by (simp add: list_update_append1 map_update)

lemma cells_swap_app:
  assumes "i < length xs" "j < length xs"
  shows "cells_swap (map Some xs @ junk) (int i) (int j) = Some (map Some (swap_at i j xs) @ junk)"
proof -
  have g: "cell_get (map Some xs @ junk) (int k) = Some (xs ! k)" if "k < length xs" for k
    using that by (simp add: cell_get_def nth_append)
  have u: "cell_set (map Some ys @ junk) (int k) v = Some (map Some (ys[k := v]) @ junk)"
    if "k < length ys" for k ys v
    using that unfolding cell_set_def by (simp only: update_map_Some_app nat_int length_append length_map) simp
  show ?thesis using assms by (simp add: cells_swap_def g u swap_at_def)
qed

lemma list_swap_refine [refine]:
  assumes "list_ok l" "0 \<le> i" "i < int (length (elems l))" "0 \<le> j" "j < int (length (elems l))"
  shows "\<exists>l'. list_swap l i j = Some l' \<and> list_ok l' \<and> elems l' = swap_at (nat i) (nat j) (elems l)"
proof -
  from assms(1) obtain xs junk c where l: "l = \<lparr>capacity = c, len = length xs, items = map Some xs @ junk\<rparr>"
    "c = length xs + length junk" "0 < c" "elems l = xs" by (rule list_reprE)
  let ?xs = "swap_at (nat i) (nat j) xs"
  have len: "length ?xs = length xs" by (simp add: swap_at_def)
  have "cells_swap (map Some xs @ junk) i j = Some (map Some ?xs @ junk)"
    using cells_swap_app[of "nat i" xs "nat j" junk] assms l by simp
  then have "list_swap l i j = Some \<lparr>capacity = c, len = length ?xs, items = map Some ?xs @ junk\<rparr>"
    using len by (simp add: list_swap_def l(1))
  then show ?thesis
    using l len list_ok_mk[of c ?xs junk] elems_mk[of c ?xs junk] by simp
qed

definition move_to_end :: "'a \<Rightarrow> 'a list \<Rightarrow> 'a list" where
  "move_to_end x xs = (if x \<in> set xs then remove1 x xs @ [x] else xs)"

lemma delete_at_first:
  assumes "xs ! k = x" "k < length xs" "x \<notin> set (take k xs)"
  shows "delete_at k xs = remove1 x xs"
proof -
  have xs: "xs = take k xs @ x # drop (Suc k) xs" using assms by (metis id_take_nth_drop)
  have "remove1 x (take k xs @ x # drop (Suc k) xs) = take k xs @ drop (Suc k) xs"
    using assms(3) by (simp add: remove1_append)
  with xs show ?thesis by (simp add: delete_at_def)
qed

lemma list_move_to_end_refine [refine]:
  assumes "list_ok l"
  shows "\<exists>l'. list_move_to_end l x = Some l' \<and> list_ok l' \<and> elems l' = move_to_end x (elems l)"
proof (cases "x \<in> set (elems l)")
  case True
  then obtain k where k: "index_of x (elems l) = int k" "k < length (elems l)" "elems l ! k = x"
    "x \<notin> set (take k (elems l))" by (rule index_of_present)
  from list_del_refine[OF assms, of "int k"] k(2) obtain l1 where
    l1: "list_del l (int k) = Some l1" "list_ok l1" "elems l1 = delete_at k (elems l)" by auto
  from list_add_refine[OF l1(2), of x] obtain l2 where
    l2: "list_add l1 x = Some l2" "list_ok l2" "elems l2 = elems l1 @ [x]" by auto
  have "elems l2 = move_to_end x (elems l)"
    using True k l1(3) l2(3) by (simp add: move_to_end_def delete_at_first)
  then show ?thesis using k(1) l1 l2 by (simp add: list_move_to_end_def index_of_def)
next
  case False
  then show ?thesis
    using assms index_of_absent[of x "elems l"] by (simp add: list_move_to_end_def move_to_end_def index_of_def)
qed

lemma list_cat_loop_refine:
  "list_ok l \<Longrightarrow> \<exists>l'. list_cat_loop l (map Some xs) = Some l' \<and> list_ok l' \<and> elems l' = elems l @ xs"
proof (induction xs arbitrary: l)
  case (Cons x xs)
  from list_add_refine[OF Cons.prems, of x] obtain l1 where
    "list_add l x = Some l1" "list_ok l1" "elems l1 = elems l @ [x]" by auto
  with Cons.IH[of l1] show ?case by auto
qed simp

lemma list_cat_refine [refine]:
  assumes "list_ok l" "list_ok src"
  shows "\<exists>l'. list_cat l src = Some l' \<and> list_ok l' \<and> elems l' = elems l @ elems src"
proof -
  from assms(2) obtain xs junk c where s: "src = \<lparr>capacity = c, len = length xs, items = map Some xs @ junk\<rparr>"
    "elems src = xs" by (rule list_reprE)
  with list_cat_loop_refine[OF assms(1), of xs] show ?thesis by (simp add: list_cat_def)
qed

lemma list_find_index: "list_find l x = index_of x (elems l)"
  by (simp add: list_find_def index_of_def)


section \<open>The interface of a pointer list\<close>

text \<open>
  The operations a client calls on a list, and what they do on the sequence. list_cmd is one
  call; seq_cmd its meaning on sequences, None for a call whose index is out of range.
\<close>

datatype 'a list_cmd = Add 'a | Insert int 'a | Del int | Swap int int | ToEnd 'a

fun seq_cmd :: "'a list \<Rightarrow> 'a list_cmd \<Rightarrow> 'a list option" where
  "seq_cmd xs (Add x) = Some (xs @ [x])"
| "seq_cmd xs (Insert i x) =
     (if 0 \<le> i \<and> i \<le> int (length xs) then Some (insert_at (nat i) x xs) else None)"
| "seq_cmd xs (Del i) =
     (if 0 \<le> i \<and> i < int (length xs) then Some (delete_at (nat i) xs) else None)"
| "seq_cmd xs (Swap i j) =
     (if 0 \<le> i \<and> i < int (length xs) \<and> 0 \<le> j \<and> j < int (length xs)
      then Some (swap_at (nat i) (nat j) xs) else None)"
| "seq_cmd xs (ToEnd x) = Some (move_to_end x xs)"

fun run_cmds :: "('l \<Rightarrow> 'c \<Rightarrow> 'l option) \<Rightarrow> 'l \<Rightarrow> 'c list \<Rightarrow> 'l option" where
  "run_cmds step l [] = Some l"
| "run_cmds step l (c # cs) = do { l \<leftarrow> step l c; run_cmds step l cs }"

locale pointer_list =
  fixes abs :: "'l \<Rightarrow> 'a list"
    and ok :: "'l \<Rightarrow> bool"
    and exec :: "'l \<Rightarrow> 'a list_cmd \<Rightarrow> 'l option"
  assumes exec_refines:
    "ok l \<Longrightarrow> seq_cmd (abs l) c = Some xs \<Longrightarrow> \<exists>l'. exec l c = Some l' \<and> ok l' \<and> abs l' = xs"
begin

lemma run_refines:
  "ok l \<Longrightarrow> run_cmds seq_cmd (abs l) cs = Some xs \<Longrightarrow>
   \<exists>l'. run_cmds exec l cs = Some l' \<and> ok l' \<and> abs l' = xs"
proof (induction cs arbitrary: l)
  case (Cons c cs)
  from Cons.prems(2) obtain ys where ys: "seq_cmd (abs l) c = Some ys" "run_cmds seq_cmd ys cs = Some xs"
    by (auto simp: bind_eq_Some_conv)
  from exec_refines[OF Cons.prems(1) ys(1)] obtain l' where
    l': "exec l c = Some l'" "ok l'" "abs l' = ys" by blast
  with Cons.IH[of l'] ys(2) show ?case by simp
qed simp

lemma insert_del:
  assumes "ok l" "0 \<le> i" "i \<le> int (length (abs l))"
  shows "\<exists>l'. run_cmds exec l [Insert i x, Del i] = Some l' \<and> ok l' \<and> abs l' = abs l"
proof (rule run_refines[OF assms(1)])
  show "run_cmds seq_cmd (abs l) [Insert i x, Del i] = Some (abs l)"
    using assms by (simp add: nat_le_iff)
qed

end

fun list_exec :: "'a list_t \<Rightarrow> 'a list_cmd \<Rightarrow> 'a list_t option" where
  "list_exec l (Add x) = list_add l x"
| "list_exec l (Insert i x) = list_insert l i x"
| "list_exec l (Del i) = list_del l i"
| "list_exec l (Swap i j) = list_swap l i j"
| "list_exec l (ToEnd x) = list_move_to_end l x"

lemma list_exec_refines:
  assumes "list_ok l" "seq_cmd (elems l) c = Some xs"
  shows "\<exists>l'. list_exec l c = Some l' \<and> list_ok l' \<and> elems l' = xs"
proof (cases c)
  case (Add x)
  with assms list_add_refine[OF assms(1), of x] show ?thesis by auto
next
  case (Insert i x)
  with assms list_insert_refine[OF assms(1), of i x] show ?thesis by (auto split: if_splits)
next
  case (Del i)
  with assms list_del_refine[OF assms(1), of i] show ?thesis by (auto split: if_splits)
next
  case (Swap i j)
  with assms list_swap_refine[OF assms(1), of i j] show ?thesis by (auto split: if_splits)
next
  case (ToEnd x)
  with assms list_move_to_end_refine[OF assms(1), of x] show ?thesis by auto
qed

interpretation clist: pointer_list elems list_ok list_exec
  by unfold_locales (rule list_exec_refines)

text \<open>
  C25. A client of list.c that makes any number of list_add, list_insert, list_del, list_swap and
  list_move_to_end calls with indices in range for the sequence it builds never makes the
  library touch memory outside the array or read an unwritten cell, keeps the
  representation invariant, and ends with the sequence it asked for.
\<close>
theorem list_calls_refine_sequences:
  assumes "list_ok l" "run_cmds seq_cmd (elems l) cs = Some xs"
  shows "\<exists>l'. run_cmds list_exec l cs = Some l' \<and> list_ok l' \<and> elems l' = xs"
  by (rule clist.run_refines[OF assms])

lemma list_calls_refine_sequences_witness:
  "\<exists>l'. run_cmds list_exec \<lparr>capacity = 2, len = 2, items = [Some (3::nat), Some 5]\<rparr>
      [Insert 1 7, Add 9, ToEnd 3, Swap 0 2, Del 1] = Some l' \<and> list_ok l' \<and> elems l' = [9, 7, 3]"
proof (rule list_calls_refine_sequences)
  show "list_ok \<lparr>capacity = 2, len = 2, items = [Some (3::nat), Some 5]\<rparr>"
    by (simp add: list_ok_def)
  show "run_cmds seq_cmd (elems \<lparr>capacity = 2, len = 2, items = [Some (3::nat), Some 5]\<rparr>)
      [Insert 1 7, Add 9, ToEnd 3, Swap 0 2, Del 1] = Some [9, 7, 3]"
    by code_simp
qed

section \<open>The sort is stable\<close>

text \<open>A comparator whose test compare a b <= 0 is a total preorder.\<close>

locale comparison =
  fixes compare :: "'a \<Rightarrow> 'a \<Rightarrow> int"
  assumes total: "compare a b \<le> 0 \<or> compare b a \<le> 0"
    and trans_le: "compare a b \<le> 0 \<Longrightarrow> compare b c \<le> 0 \<Longrightarrow> compare a c \<le> 0"

definition cmp_le :: "('a \<Rightarrow> 'a \<Rightarrow> int) \<Rightarrow> 'a \<Rightarrow> 'a \<Rightarrow> bool" where
  "cmp_le compare a b \<longleftrightarrow> compare a b \<le> 0"

definition cmp_eqv :: "('a \<Rightarrow> 'a \<Rightarrow> int) \<Rightarrow> 'a \<Rightarrow> 'a \<Rightarrow> bool" where
  "cmp_eqv compare a b \<longleftrightarrow> compare a b \<le> 0 \<and> compare b a \<le> 0"

text \<open>ys is xs sorted stably: a permutation, in order, and equal items keep their order.\<close>

definition stably_sorted :: "('a \<Rightarrow> 'a \<Rightarrow> int) \<Rightarrow> 'a list \<Rightarrow> 'a list \<Rightarrow> bool" where
  "stably_sorted compare xs ys \<longleftrightarrow>
     mset ys = mset xs \<and> sorted_wrt (cmp_le compare) ys
     \<and> (\<forall>z. filter (cmp_eqv compare z) ys = filter (cmp_eqv compare z) xs)"

fun seq_merge :: "('a \<Rightarrow> 'a \<Rightarrow> int) \<Rightarrow> 'a list \<Rightarrow> 'a list \<Rightarrow> 'a list" where
  "seq_merge compare [] ys = ys"
| "seq_merge compare xs [] = xs"
| "seq_merge compare (x # xs) (y # ys) =
     (if compare x y \<le> 0 then x # seq_merge compare xs (y # ys)
      else y # seq_merge compare (x # xs) ys)"

lemma seq_merge_Nil [simp]: "seq_merge compare xs [] = xs"
  by (cases xs) auto

lemma seq_merge_mset [simp]: "mset (seq_merge compare xs ys) = mset xs + mset ys"
  by (induction compare xs ys rule: seq_merge.induct) auto

lemma seq_merge_set [simp]: "set (seq_merge compare xs ys) = set xs \<union> set ys"
  by (metis mset_append seq_merge_mset set_append set_mset_mset)

context comparison
begin

lemma cmp_le_trans: "cmp_le compare a b \<Longrightarrow> cmp_le compare b c \<Longrightarrow> cmp_le compare a c"
  unfolding cmp_le_def by (rule trans_le)

lemma not_le_le: "\<not> compare a b \<le> 0 \<Longrightarrow> compare b a \<le> 0"
  using total by blast

lemma seq_merge_sorted:
  "sorted_wrt (cmp_le compare) xs \<Longrightarrow> sorted_wrt (cmp_le compare) ys \<Longrightarrow>
   sorted_wrt (cmp_le compare) (seq_merge compare xs ys)"
proof (induction compare \<equiv> compare xs ys rule: seq_merge.induct)
  case (3 x xs y ys)
  then show ?case by (auto simp: cmp_le_def intro: trans_le not_le_le)
qed auto

lemma seq_merge_stable:
  "sorted_wrt (cmp_le compare) xs \<Longrightarrow>
   filter (cmp_eqv compare z) (seq_merge compare xs ys)
     = filter (cmp_eqv compare z) xs @ filter (cmp_eqv compare z) ys"
proof (induction compare \<equiv> compare xs ys rule: seq_merge.induct)
  case (3 x xs y ys)
  show ?case
  proof (cases "compare x y \<le> 0")
    case True
    with 3 show ?thesis by simp
  next
    case False
    have none: "\<not> cmp_eqv compare z u" if "cmp_eqv compare z y" "u \<in> set (x # xs)" for u
    proof
      assume "cmp_eqv compare z u"
      then have uy: "compare u y \<le> 0" using that(1) trans_le by (auto simp: cmp_eqv_def)
      have "u = x \<or> compare x u \<le> 0" using 3(3) that(2) by (auto simp: cmp_le_def)
      then show False using uy False trans_le by blast
    qed
    have e: "filter (cmp_eqv compare z) (x # xs) = []" if "cmp_eqv compare z y"
      using none[OF that] by (simp only: filter_empty_conv) blast
    show ?thesis using 3 False e by (auto split: if_splits)
  qed
qed auto

lemma seq_merge_ordered:
  "sorted_wrt (cmp_le compare) xs \<Longrightarrow> sorted_wrt (cmp_le compare) (y # ys) \<Longrightarrow> xs \<noteq> [] \<Longrightarrow>
   compare (last xs) y \<le> 0 \<Longrightarrow> seq_merge compare xs (y # ys) = xs @ y # ys"
proof (induction xs)
  case (Cons x xs)
  have "compare x y \<le> 0"
    using Cons.prems by (cases xs rule: rev_cases) (auto simp: cmp_le_def intro: trans_le)
  then show ?case using Cons by (cases xs) auto
qed simp

lemma stably_sorted_merge:
  assumes "stably_sorted compare xs xs'" "stably_sorted compare ys ys'"
  shows "stably_sorted compare (xs @ ys) (seq_merge compare xs' ys')"
  using assms seq_merge_sorted[of xs' ys'] seq_merge_stable[of xs']
  unfolding stably_sorted_def by auto

end

text \<open>What the array code does, on a window of the array.\<close>

lemma list_rotate_loop_app:
  "from_i = int (length pre) \<Longrightarrow> to_i = int (length pre + length xs) \<Longrightarrow>
   list_rotate_loop (pre @ map Some xs @ z # post) from_i to_i
     = Some (pre @ hd (map Some xs @ [z]) # map Some xs @ post)"
proof (induction xs arbitrary: z post to_i rule: rev_induct)
  case Nil
  then show ?case by (simp add: list_rotate_loop.simps)
next
  case (snoc x xs)
  have g: "cell_get (pre @ map Some xs @ Some x # z # post) (to_i - 1) = Some x"
    using cell_get_app[of "to_i - 1" "pre @ map Some xs" "Some x" "z # post"] snoc.prems by simp
  have s: "cell_set (pre @ map Some xs @ Some x # z # post) to_i x
      = Some (pre @ map Some xs @ Some x # Some x # post)"
    using cell_set_app[of to_i "pre @ map Some xs @ [Some x]" z post x] snoc.prems by simp
  have "list_rotate_loop (pre @ map Some (xs @ [x]) @ z # post) from_i to_i
      = list_rotate_loop (pre @ map Some xs @ Some x # Some x # post) from_i (to_i - 1)"
    using snoc.prems g s by (subst list_rotate_loop.simps) simp
  also have "\<dots> = Some (pre @ hd (map Some xs @ [Some x]) # map Some xs @ Some x # post)"
    using snoc.prems by (intro snoc.IH) auto
  finally show ?case by (cases xs) auto
qed

lemma list_rotate_app:
  assumes "from_i = int (length pre)" "to_i = int (length pre + length xs)"
  shows "list_rotate (pre @ map Some xs @ Some z # post) from_i to_i
     = Some (pre @ Some z # map Some xs @ post)"
proof -
  have g: "cell_get (pre @ map Some xs @ Some z # post) to_i = Some z"
    using cell_get_app[of to_i "pre @ map Some xs" "Some z" post] assms by simp
  have "hd (map Some xs @ [Some z]) # map Some xs @ post
      = hd (map Some xs @ [Some z]) # (map Some xs @ post)" by simp
  then show ?thesis
    unfolding list_rotate_def g bind.bind_lunit list_rotate_loop_app[OF assms]
    by (simp add: cell_set_app[OF assms(1)])
qed

lemma list_merge_loop_app:
  "left = int (length pre) \<Longrightarrow> mid = left + int (length xs) - 1 \<Longrightarrow> right = mid + 1 \<Longrightarrow>
   lst = right + int (length ys) - 1 \<Longrightarrow>
   list_merge_loop compare (pre @ map Some xs @ map Some ys @ post) left lst mid right
     = Some (pre @ map Some (seq_merge compare xs ys) @ post)"
proof (induction compare xs ys arbitrary: pre left mid right rule: seq_merge.induct)
  case (1 compare ys)
  then show ?case by (simp add: list_merge_loop.simps)
next
  case (2 compare x xs)
  then show ?case by (simp add: list_merge_loop.simps)
next
  case (3 compare x xs y ys)
  let ?cs = "pre @ map Some (x # xs) @ map Some (y # ys) @ post"
  have gx: "cell_get ?cs left = Some x" using 3(3) by (simp add: cells)
  have gy: "cell_get ?cs right = Some y"
    using cell_get_app[of right "pre @ map Some (x # xs)" "Some y" "map Some ys @ post"] "3.prems" by simp
  have c: "left \<le> mid \<and> right \<le> lst" using "3.prems" by simp
  show ?case
  proof (cases "compare x y \<le> 0")
    case True
    then show ?thesis
      using "3.IH"(1)[of "left + 1" "pre @ [Some x]" mid right] "3.prems" gx gy c
      by (subst list_merge_loop.simps) simp
  next
    case False
    have r: "list_rotate ?cs left right
        = Some (pre @ Some y # map Some (x # xs) @ map Some ys @ post)"
      using list_rotate_app[of left pre right "x # xs" y "map Some ys @ post"] "3.prems" by simp
    then show ?thesis
      using "3.IH"(2)[of "left + 1" "pre @ [Some y]" "mid + 1" "right + 1"] False "3.prems" gx gy c
      by (subst list_merge_loop.simps) simp
  qed
qed

context comparison
begin

lemma list_inplace_merge_app:
  assumes "sorted_wrt (cmp_le compare) xs" "sorted_wrt (cmp_le compare) ys" "xs \<noteq> []" "ys \<noteq> []"
    and "left = int (length pre)" "mid = left + int (length xs) - 1" "lst = mid + int (length ys)"
  shows "list_inplace_merge compare (pre @ map Some xs @ map Some ys @ post) left lst mid
     = Some (pre @ map Some (seq_merge compare xs ys) @ post)"
proof -
  let ?cs = "pre @ map Some xs @ map Some ys @ post"
  from assms(3) obtain xs1 x where x: "xs = xs1 @ [x]" by (metis rev_exhaust)
  from assms(4) obtain y ys1 where y: "ys = y # ys1" by (cases ys) auto
  have gx: "cell_get ?cs mid = Some x"
    using cell_get_app[of mid "pre @ map Some xs1" "Some x" "map Some ys @ post"] assms x by simp
  have gy: "cell_get ?cs (mid + 1) = Some y"
    using cell_get_app[of "mid + 1" "pre @ map Some xs" "Some y" "map Some ys1 @ post"] assms y by simp
  show ?thesis
  proof (cases "compare x y \<le> 0")
    case True
    then have "seq_merge compare xs ys = xs @ ys"
      using seq_merge_ordered[of xs y ys1] assms x y by simp
    then show ?thesis unfolding list_inplace_merge_def gx gy using True by simp
  next
    case False
    have "list_merge_loop compare ?cs left lst mid (mid + 1)
        = Some (pre @ map Some (seq_merge compare xs ys) @ post)"
      using assms by (intro list_merge_loop_app) auto
    then show ?thesis unfolding list_inplace_merge_def gx gy using False by simp
  qed
qed

lemma list_inplace_sort_app:
  "first = length pre \<Longrightarrow> Suc lst = first + length xs \<Longrightarrow> xs \<noteq> [] \<Longrightarrow>
   \<exists>ys. list_inplace_sort compare (pre @ map Some xs @ post) first lst = Some (pre @ map Some ys @ post)
     \<and> stably_sorted compare xs ys"
proof (induction "length xs" arbitrary: xs pre post first lst rule: less_induct)
  case less
  let ?cs = "pre @ map Some xs @ post"
  consider "length xs = 1" | "length xs = 2" | "2 < length xs"
    using less.prems(3) by (cases "length xs") fastforce+
  then show ?case
  proof cases
    case 1
    then obtain x where "xs = [x]" by (auto simp: length_Suc_conv)
    with less.prems show ?thesis
      by (intro exI[of _ xs]) (auto simp: list_inplace_sort.simps stably_sorted_def)
  next
    case 2
    then obtain x y where xy: "xs = [x, y]" by (auto simp: length_Suc_conv numeral_2_eq_2)
    have gx: "cell_get ?cs (int first) = Some x" using less.prems xy by (simp add: cells)
    have gy: "cell_get ?cs (int lst) = Some y"
      using cell_get_app[of "int lst" "pre @ [Some x]" "Some y" post] less.prems xy by simp
    have sw: "cells_swap ?cs (int first) (int lst) = Some (pre @ map Some [y, x] @ post)"
      using cell_set_app[of "int lst" "pre @ [Some y]" "Some y" post x] less.prems xy gx gy
      by (simp add: cells_swap_def cells)
    have step: "list_inplace_sort compare ?cs first lst
        = (if compare x y > 0 then cells_swap ?cs (int first) (int lst) else Some ?cs)"
      using less.prems xy gx gy by (subst list_inplace_sort.simps) simp
    show ?thesis
    proof (cases "compare x y > 0")
      case True
      then have "compare y x \<le> 0" using total[of x y] by simp
      have "\<not> (cmp_eqv compare z x \<and> cmp_eqv compare z y)" for z
        using True trans_le[of x z y] by (auto simp: cmp_eqv_def)
      then have "filter (cmp_eqv compare z) [y, x] = filter (cmp_eqv compare z) [x, y]" for z
        by (metis filter.simps)
      with \<open>compare y x \<le> 0\<close> have "stably_sorted compare xs [y, x]"
        unfolding xy stably_sorted_def by (simp add: cmp_le_def)
      then show ?thesis using True step sw by (intro exI[of _ "[y, x]"]) simp
    next
      case False
      then have "stably_sorted compare xs xs" using xy by (auto simp: stably_sorted_def cmp_le_def)
      then show ?thesis using False step by auto
    qed
  next
    case 3
    define mid where "mid = (lst + first) div 2"
    define n where "n = Suc mid - first"
    have n: "0 < n" "n < length xs" "Suc mid = first + n" "first < lst" "lst - first \<noteq> 1" "mid < lst"
      using less.prems(2) 3 unfolding n_def mid_def by auto
    let ?l = "take n xs" and ?r = "drop n xs"
    have cs: "?cs = pre @ map Some ?l @ map Some ?r @ post"
      by (metis append_assoc append_take_drop_id map_append)
    from less.hyps[of ?l first pre mid "map Some ?r @ post"] n less.prems obtain ys1 where
      ys1: "list_inplace_sort compare ?cs first mid = Some (pre @ map Some ys1 @ map Some ?r @ post)"
        "stably_sorted compare ?l ys1"
      unfolding cs by auto
    have len1: "length ys1 = n"
      using ys1(2) n mset_eq_length[of ys1 ?l] by (simp add: stably_sorted_def)
    have "\<exists>ys. list_inplace_sort compare ((pre @ map Some ys1) @ map Some ?r @ post) (mid + 1) lst
        = Some ((pre @ map Some ys1) @ map Some ys @ post) \<and> stably_sorted compare ?r ys"
    proof (rule less.hyps)
      show "length ?r < length xs" "?r \<noteq> []" using n by simp_all
      show "mid + 1 = length (pre @ map Some ys1)" using len1 n less.prems(1) by simp
      show "Suc lst = mid + 1 + length ?r" using n less.prems(1,2) by simp
    qed
    then obtain ys2 where
      ys2: "list_inplace_sort compare (pre @ map Some ys1 @ map Some ?r @ post) (mid + 1) lst
          = Some (pre @ map Some ys1 @ map Some ys2 @ post)"
        "stably_sorted compare ?r ys2"
      unfolding append_assoc by blast
    have len2: "length ys2 = length xs - n"
      using ys2(2) mset_eq_length[of ys2 ?r] by (simp add: stably_sorted_def)
    have m: "list_inplace_merge compare (pre @ map Some ys1 @ map Some ys2 @ post) (int first) (int lst) (int mid)
        = Some (pre @ map Some (seq_merge compare ys1 ys2) @ post)"
    proof (rule list_inplace_merge_app)
      show "sorted_wrt (cmp_le compare) ys1" "sorted_wrt (cmp_le compare) ys2"
        using ys1 ys2 by (auto simp: stably_sorted_def)
      show "ys1 \<noteq> []" using len1 n(1) by (metis list.size(3) less_irrefl)
      show "ys2 \<noteq> []" using len2 n(2) by (metis list.size(3) less_irrefl zero_less_diff)
      show "int first = int (length pre)" using less.prems by simp
      show "int mid = int first + int (length ys1) - 1" using len1 n by linarith
      show "int lst = int mid + int (length ys2)" using len2 n less.prems by linarith
    qed
    have "stably_sorted compare (?l @ ?r) (seq_merge compare ys1 ys2)"
      by (rule stably_sorted_merge[OF ys1(2) ys2(2)])
    moreover have "list_inplace_sort compare ?cs first lst
        = Some (pre @ map Some (seq_merge compare ys1 ys2) @ post)"
      using n(4-) ys1(1) ys2(1) m by (subst list_inplace_sort.simps) (simp add: Let_def flip: mid_def)
    ultimately show ?thesis by auto
  qed
qed

lemma list_stable_sort_spec:
  assumes "list_ok l"
  shows "\<exists>l'. list_stable_sort l compare = Some l' \<and> list_ok l'
    \<and> capacity l' = capacity l \<and> stably_sorted compare (elems l) (elems l')"
proof -
  from assms obtain xs junk c where l: "l = \<lparr>capacity = c, len = length xs, items = map Some xs @ junk\<rparr>"
    "c = length xs + length junk" "0 < c" "elems l = xs" by (rule list_reprE)
  show ?thesis
  proof (cases "1 < length xs")
    case True
    then obtain ys where ys: "list_inplace_sort compare (map Some xs @ junk) 0 (length xs - 1)
        = Some (map Some ys @ junk)" "stably_sorted compare xs ys"
      using list_inplace_sort_app[of 0 "[]" "length xs - 1" xs junk] by fastforce
    have len: "length ys = length xs" using ys(2) mset_eq_length by (auto simp: stably_sorted_def)
    have "list_stable_sort l compare = Some \<lparr>capacity = c, len = length ys, items = map Some ys @ junk\<rparr>"
      using True ys len by (simp add: list_stable_sort_def l(1))
    then show ?thesis
      using l ys len list_ok_mk[of c ys junk] elems_mk[of c ys junk] by simp
  next
    case False
    then have "sorted_wrt (cmp_le compare) xs" by (cases xs) auto
    then have "stably_sorted compare xs xs" by (simp add: stably_sorted_def)
    then show ?thesis using False assms l by (simp add: list_stable_sort_def)
  qed
qed

end

text \<open>
  C26. list_stable_sort, the in-place merge sort of list.c, ends, stays inside the array, keeps
  the representation invariant, and leaves the items ordered by the comparator, as a
  permutation in which items that compare equal keep their order, for every comparator
  whose test compare(a, b) <= 0 is a total preorder.
\<close>
theorem list_stable_sort_correct:
  assumes "list_ok l" "comparison compare"
  shows "\<exists>l'. list_stable_sort l compare = Some l' \<and> list_ok l'
    \<and> capacity l' = capacity l \<and> stably_sorted compare (elems l) (elems l')"
  by (rule comparison.list_stable_sort_spec[OF assms(2,1)])

lemma comparison_key: "comparison (\<lambda>a b. (f a :: int) - f b)"
  by unfold_locales auto

lemma list_stable_sort_correct_witness:
  "\<exists>l'. list_stable_sort \<lparr>capacity = 4, len = 4, items = [Some 31, Some 12, Some 30, Some 11]\<rparr>
      (\<lambda>a b. a div 10 - b div 10) = Some l' \<and> list_ok l' \<and> capacity l' = 4
    \<and> stably_sorted (\<lambda>a b. a div 10 - b div 10) [31, 12, 30, 11] (elems l')"
proof -
  let ?l = "\<lparr>capacity = 4, len = 4, items = [Some 31, Some 12, Some 30, Some (11::int)]\<rparr>"
  have "list_ok ?l" "elems ?l = [31, 12, 30, 11]" "capacity ?l = 4" by (simp_all add: list_ok_def elems_def)
  then show ?thesis using list_stable_sort_correct[of ?l, OF _ comparison_key] by metis
qed

end
