(* ===== verification/CStr.thy ===== *)
theory CStr
  imports Prelude CList
begin

text \<open>
  The string helpers of common/stringop.c. Strings are lists of characters; a function that
  edits its argument in place returns the edited string. Buffer offsets are written out where
  the source computes with pointers (strip_whitespace, unescape_string, argsep), so that a
  read outside the buffer is the value None.
\<close>

section \<open>Stripping\<close>

text \<open>The backwards loop over the trailing blanks; below index 0 there is nothing to read.\<close>

fun last_nonspace :: "string \<Rightarrow> nat \<Rightarrow> nat option" where
  "last_nonspace s i =
     (if i < length s then
        (if is_ws (s ! i) then (case i of 0 \<Rightarrow> None | Suc j \<Rightarrow> last_nonspace s j) else Some i)
      else None)"

declare last_nonspace.simps [simp del]

definition strip_whitespace :: "string \<Rightarrow> string option" where
  "strip_whitespace s =
     (let start = length (takeWhile is_ws s); t = drop start s in
      if t \<noteq> []
      then do { l \<leftarrow> last_nonspace t (length s - (start + 1)); Some (take (l + 1) t) }
      else Some t)"

fun strip_quotes_loop :: "bool \<Rightarrow> bool \<Rightarrow> bool \<Rightarrow> string \<Rightarrow> string" where
  "strip_quotes_loop in_str in_chr escaped [] = []"
| "strip_quotes_loop in_str in_chr escaped (c # cs) =
     (if c = SQ \<and> \<not> in_str \<and> \<not> escaped then strip_quotes_loop in_str (\<not> in_chr) escaped cs
      else if c = DQ \<and> \<not> in_chr \<and> \<not> escaped then strip_quotes_loop (\<not> in_str) in_chr escaped cs
      else if c = BSL then c # strip_quotes_loop in_str in_chr (\<not> escaped) cs
      else c # strip_quotes_loop in_str in_chr False cs)"

definition strip_quotes :: "string \<Rightarrow> string" where
  "strip_quotes s = strip_quotes_loop False False False s"

section \<open>Null-tolerant helpers\<close>

definition lenient_strcat :: "string option \<Rightarrow> string option \<Rightarrow> string option" where
  "lenient_strcat dest src =
     (case (dest, src) of (Some d, Some s) \<Rightarrow> Some (d @ s) | _ \<Rightarrow> dest)"

definition lenient_strncat :: "string option \<Rightarrow> string option \<Rightarrow> nat \<Rightarrow> string option" where
  "lenient_strncat dest src n =
     (case (dest, src) of (Some d, Some s) \<Rightarrow> Some (d @ take n s) | _ \<Rightarrow> dest)"

definition lenient_strcmp :: "string option \<Rightarrow> string option \<Rightarrow> int" where
  "lenient_strcmp a b =
     (case (a, b) of (None, None) \<Rightarrow> 0 | (None, Some _) \<Rightarrow> -1 | (Some _, None) \<Rightarrow> 1
      | (Some s, Some t) \<Rightarrow> c_strcmp s t)"

definition has_prefix :: "string \<Rightarrow> string \<Rightarrow> bool" where
  "has_prefix str prefix \<longleftrightarrow> take (length prefix) str = prefix"

section \<open>Splitting and joining\<close>

text \<open>strtok skips delimiters, then takes the characters up to the next delimiter.\<close>

lemma strtok_step:
  "dropWhile P s \<noteq> [] \<Longrightarrow> length (dropWhile (\<lambda>c. \<not> P c) (dropWhile P s)) < length s"
proof -
  assume ne: "dropWhile P s \<noteq> []"
  then obtain c cs where c: "dropWhile P s = c # cs" "\<not> P c" by (metis hd_dropWhile list.collapse)
  then have "length (dropWhile (\<lambda>c. \<not> P c) (dropWhile P s)) \<le> length cs"
    by (simp add: length_dropWhile_le)
  also have "length cs < length s" using c(1) length_dropWhile_le[of P s] by simp
  finally show ?thesis .
qed

function strtok_all :: "string \<Rightarrow> string \<Rightarrow> string list" where
  "strtok_all delims s =
     (let t = dropWhile (\<lambda>c. c \<in> set delims) s in
      if t = [] then []
      else takeWhile (\<lambda>c. c \<notin> set delims) t # strtok_all delims (dropWhile (\<lambda>c. c \<notin> set delims) t))"
  by pat_completeness auto
termination
  by (relation "measure (length \<circ> snd)") (auto intro: strtok_step)

declare strtok_all.simps [simp del]

definition split_string :: "string \<Rightarrow> string \<Rightarrow> string list" where
  "split_string str delims = strtok_all delims str"

record scan =
  in_string :: bool
  in_char :: bool
  in_brackets :: bool
  escaped :: bool

definition scan0 :: scan where
  "scan0 = \<lparr>in_string = False, in_char = False, in_brackets = False, escaped = False\<rparr>"

definition scan_free :: "scan \<Rightarrow> bool" where
  "scan_free st \<longleftrightarrow> \<not> in_string st \<and> \<not> in_char st \<and> \<not> in_brackets st \<and> \<not> escaped st"

text \<open>One character of split_args: None when it ends the token, else the state after it.\<close>

definition scan_char :: "scan \<Rightarrow> char \<Rightarrow> scan option" where
  "scan_char st c = (let st' =
     (if c = DQ \<and> \<not> in_char st \<and> \<not> escaped st then Some (st\<lparr>in_string := \<not> in_string st\<rparr>)
      else if c = SQ \<and> \<not> in_string st \<and> \<not> escaped st then Some (st\<lparr>in_char := \<not> in_char st\<rparr>)
      else if c = CHR ''['' \<and> \<not> in_string st \<and> \<not> in_char st \<and> \<not> in_brackets st \<and> \<not> escaped st
      then Some (st\<lparr>in_brackets := True\<rparr>)
      else if c = CHR '']'' \<and> \<not> in_string st \<and> \<not> in_char st \<and> in_brackets st \<and> \<not> escaped st
      then Some (st\<lparr>in_brackets := False\<rparr>)
      else if c = BSL then Some (st\<lparr>escaped := \<not> escaped st\<rparr>)
      else if scan_free st \<and> is_ws c then None
      else Some st) in
     map_option (\<lambda>s. if c \<noteq> BSL then s\<lparr>escaped := False\<rparr> else s) st')"

text \<open>tok holds the characters between start and end, in reverse order.\<close>

function split_args_loop :: "scan \<Rightarrow> string \<Rightarrow> string \<Rightarrow> string list" where
  "split_args_loop st tok [] = (if tok = [] then [] else [rev tok])"
| "split_args_loop st tok (c # cs) =
     (case scan_char st c of
        Some st' \<Rightarrow> split_args_loop st' (c # tok) cs
      | None \<Rightarrow> (if tok = [] then [] else [rev tok])
                @ split_args_loop (st\<lparr>escaped := False\<rparr>) [] (dropWhile is_ws cs))"
  by pat_completeness auto
termination
  by (relation "measure (\<lambda>(st, tok, s). length s)") (auto simp: le_imp_less_Suc length_dropWhile_le)

definition split_args :: "string option \<Rightarrow> string list" where
  "split_args start =
     (case start of None \<Rightarrow> [] | Some s \<Rightarrow> split_args_loop scan0 [] (dropWhile is_ws s))"

fun join_rest :: "string list \<Rightarrow> string" where
  "join_rest [] = []"
| "join_rest (a # as) = a @ CHR '' '' # join_rest as"

text \<open>Each argument is copied with a blank after it; the last blank becomes the terminator.\<close>

definition join_args :: "string list \<Rightarrow> string option" where
  "join_args argv = (if argv = [] then None else Some (butlast (join_rest argv)))"

section \<open>Escapes\<close>

definition rd :: "char list \<Rightarrow> nat \<Rightarrow> char option" where
  "rd m i = (if i < length m then Some (m ! i) else None)"

text \<open>The escapes that stand for one character, by the character after the backslash.\<close>

definition simple_escape :: "char \<Rightarrow> char option" where
  "simple_escape e =
     (if e = CHR ''a'' then Some (CHR 0x07) else if e = CHR ''b'' then Some (CHR 0x08)
      else if e = CHR ''f'' then Some (CHR 0x0C) else if e = CHR ''n'' then Some (CHR 0x0A)
      else if e = CHR ''r'' then Some (CHR 0x0D) else if e = CHR ''t'' then Some (CHR 0x09)
      else if e = CHR ''v'' then Some (CHR 0x0B) else if e = BSL then Some BSL
      else if e = SQ then Some SQ else if e = DQ then Some DQ
      else if e = CHR ''?'' then Some (CHR ''?'') else None)"

text \<open>
  The case of backslash x at index i of the buffer: at most two decimal digits are read, the
  first weighted with 0x10, in an unsigned char.
\<close>

definition unescape_x :: "char list \<Rightarrow> nat \<Rightarrow> char list option" where
  "unescape_x m i = do {
     d1 \<leftarrow> rd m (i + 1);
     (if is_digit d1 then do {
        d2 \<leftarrow> rd m (i + 2);
        if is_digit d2
        then Some (m[i + 2 := NUL, i + 1 := NUL, i := NUL,
                     i - 1 := char_of ((digit_val d1 * 16 + digit_val d2) mod 256)])
        else Some (m[i + 1 := NUL, i := NUL, i - 1 := char_of (digit_val d1)])
      }
      else Some (m[i := NUL, i - 1 := NUL]))
   }"

lemma unescape_x_length: "unescape_x m i = Some m' \<Longrightarrow> length m' = length m"
  by (auto simp: unescape_x_def bind_eq_Some_conv split: if_splits)

text \<open>The loop; the second component is the value of the early return of the NUL escape.\<close>

function unescape_loop :: "char list \<Rightarrow> nat \<Rightarrow> (char list \<times> nat option) option" where
  "unescape_loop m i =
     (case rd m i of None \<Rightarrow> None
      | Some c \<Rightarrow>
          if c = NUL then Some (m, None)
          else if c \<noteq> BSL then unescape_loop m (i + 1)
          else (case rd m (i + 1) of None \<Rightarrow> None
                | Some e \<Rightarrow>
                    if e = CHR ''0'' then Some (m[i := NUL], Some i)
                    else (case simple_escape e of
                            Some r \<Rightarrow> unescape_loop (m[i := r, i + 1 := NUL]) (i + 2)
                          | None \<Rightarrow>
                              if e = CHR ''x''
                              then (case unescape_x m (i + 1) of None \<Rightarrow> None
                                    | Some m' \<Rightarrow> unescape_loop m' (i + 2))
                              else unescape_loop m (i + 2))))"
  by pat_completeness auto
termination
  by (relation "measure (\<lambda>(m, i). length m - i)")
    (auto simp: rd_def unescape_x_length split: if_splits)

declare unescape_loop.simps [simp del]

text \<open>The C string left in the buffer and the returned length.\<close>

definition unescape_string :: "string \<Rightarrow> (string \<times> nat) option" where
  "unescape_string s =
     (case unescape_loop (s @ [NUL]) 0 of None \<Rightarrow> None
      | Some (m, Some r) \<Rightarrow> Some (takeWhile (\<lambda>c. c \<noteq> NUL) m, r)
      | Some (m, None) \<Rightarrow>
          (let t = filter (\<lambda>c. c \<noteq> NUL) (take (length s) m) in Some (t, length t)))"

section \<open>Separating commands\<close>

definition argsep_next_interesting :: "string \<Rightarrow> nat \<Rightarrow> string \<Rightarrow> nat option" where
  "argsep_next_interesting s off delim =
     (let special = strpbrk s off [DQ, SQ, BSL]; next_delim = strpbrk s off delim in
      case special of None \<Rightarrow> next_delim
      | Some sp \<Rightarrow> (case next_delim of None \<Rightarrow> special
                   | Some nd \<Rightarrow> if nd < sp then next_delim else special))"

lemma argsep_next_bounds:
  "argsep_next_interesting s off delim = Some p \<Longrightarrow> off \<le> p \<and> p < length s"
  by (auto simp: argsep_next_interesting_def Let_def dest: strpbrk_Some(1,2) split: option.splits if_splits)

text \<open>
  The loop of argsep over the offsets start and end of the string s. The result is the offset
  of the token, and the offset of the separator that ended it, None at the end of the string.
\<close>

function argsep_loop ::
    "string \<Rightarrow> string \<Rightarrow> nat \<Rightarrow> nat \<Rightarrow> bool \<Rightarrow> bool \<Rightarrow> bool \<Rightarrow> nat \<times> nat option" where
  "argsep_loop s delim start e instr inchr esc =
     (case argsep_next_interesting s e delim of None \<Rightarrow> (start, None)
      | Some p \<Rightarrow>
          let esc = (if esc \<and> p \<noteq> e then False else esc); c = s ! p in
          if c = DQ \<and> \<not> inchr \<and> \<not> esc then argsep_loop s delim start (p + 1) (\<not> instr) inchr esc
          else if c = SQ \<and> \<not> instr \<and> \<not> esc then argsep_loop s delim start (p + 1) instr (\<not> inchr) esc
          else if c = BSL then argsep_loop s delim start (p + 1) instr inchr (\<not> esc)
          else if \<not> instr \<and> \<not> inchr \<and> \<not> esc then
            (if p \<noteq> start then (start, Some p)
             else argsep_loop s delim (start + 1) (start + 1) instr inchr esc)
          else argsep_loop s delim start (e + 1) instr inchr esc)"
  by pat_completeness auto
termination
  by (relation "measure (\<lambda>(s, d, st, e, _). length s - e)")
    (auto dest!: argsep_next_bounds)

declare argsep_loop.simps [simp del]

text \<open>The returned token, what *stringp points to afterwards, and the matched separator.\<close>

definition argsep :: "string \<Rightarrow> string \<Rightarrow> string \<times> string option \<times> char" where
  "argsep s delim =
     (case argsep_loop s delim 0 0 False False False of
        (start, None) \<Rightarrow> (drop start s, None, NUL)
      | (start, Some p) \<Rightarrow> (take (p - start) (drop start s), Some (drop (p + 1) s), s ! p))"

section \<open>Paths\<close>

text \<open>One round of the loop of expand_path: a backslash goes between the first two adjacent blanks.\<close>

fun escape_double :: "string \<Rightarrow> string" where
  "escape_double (a # b # cs) =
     (if a = CHR '' '' \<and> b = CHR '' '' then a # BSL # b # cs else a # escape_double (b # cs))"
| "escape_double s = s"

fun has_double :: "string \<Rightarrow> bool" where
  "has_double (a # b # cs) = ((a = CHR '' '' \<and> b = CHR '' '') \<or> has_double (b # cs))"
| "has_double s = False"

fun count_double :: "string \<Rightarrow> nat" where
  "count_double (a # b # cs) =
     (if a = CHR '' '' \<and> b = CHR '' '' then 1 else 0) + count_double (b # cs)"
| "count_double s = 0"

lemma count_escape_double: "has_double s \<Longrightarrow> count_double (escape_double s) < count_double s"
proof (induction s rule: escape_double.induct)
  case (1 a b cs)
  then show ?case by (cases cs) (auto simp: BSL_def)
qed auto

function escape_spaces :: "string \<Rightarrow> string" where
  "escape_spaces path = (if has_double path then escape_spaces (escape_double path) else path)"
  by pat_completeness auto
termination
  by (relation "measure count_double") (auto intro: count_escape_double)

declare escape_spaces.simps [simp del]

text \<open>wordexp of the C library is a parameter: None when it fails, else the words.\<close>

definition expand_path :: "(string \<Rightarrow> string list option) \<Rightarrow> string \<Rightarrow> bool \<times> string" where
  "expand_path wordexp path =
     (let path = escape_spaces path in
      case wordexp path of
        Some (w # ws) \<Rightarrow> (True, the (join_args (w # ws)))
      | _ \<Rightarrow> (False, path))"

section \<open>Stripping: what is removed\<close>

definition rtrim :: "string \<Rightarrow> string" where
  "rtrim s = rev (dropWhile is_ws (rev s))"

lemma rtrim_snoc: "rtrim (s @ [c]) = (if is_ws c then rtrim s else s @ [c])"
  by (simp add: rtrim_def)

lemma last_nonspace_rtrim:
  "i < length t \<Longrightarrow>
   map_option (\<lambda>l. take (l + 1) t) (last_nonspace t i)
     = (if rtrim (take (i + 1) t) = [] then None else Some (rtrim (take (i + 1) t)))"
proof (induction i)
  case 0
  then obtain c cs where "t = c # cs" by (cases t) auto
  then show ?case by (simp add: last_nonspace.simps[of "c # cs" 0] rtrim_def)
next
  case (Suc i)
  have "take (Suc i + 1) t = take (i + 1) t @ [t ! Suc i]"
    using Suc.prems by (simp add: take_Suc_conv_app_nth)
  then show ?case
    using Suc by (subst last_nonspace.simps) (auto simp: rtrim_snoc)
qed

lemma rtrim_hd: "t \<noteq> [] \<Longrightarrow> \<not> is_ws (hd t) \<Longrightarrow> rtrim t \<noteq> []"
  by (cases t) (auto simp: rtrim_def dropWhile_eq_Nil_conv)

lemma strip_whitespace_trim: "strip_whitespace s = Some (rtrim (dropWhile is_ws s))"
proof -
  let ?t = "dropWhile is_ws s"
  have t: "drop (length (takeWhile is_ws s)) s = ?t" by (rule dropWhile_eq_drop[symmetric])
  have eq: "strip_whitespace s = (if ?t \<noteq> []
      then do { l \<leftarrow> last_nonspace ?t (length s - (length (takeWhile is_ws s) + 1)); Some (take (l + 1) ?t) }
      else Some ?t)"
    unfolding strip_whitespace_def Let_def t ..
  show ?thesis
  proof (cases "?t = []")
    case True
    show ?thesis unfolding eq unfolding True by (simp add: rtrim_def)
  next
    case False
    have len: "length s = length (takeWhile is_ws s) + length ?t"
      by (metis length_append takeWhile_dropWhile_id)
    let ?i = "length s - (length (takeWhile is_ws s) + 1)"
    have i: "?i < length ?t" "take (?i + 1) ?t = ?t" using False len by simp_all
    have "\<not> is_ws (hd ?t)" using False by (rule hd_dropWhile)
    then have "map_option (\<lambda>l. take (l + 1) ?t) (last_nonspace ?t ?i) = Some (rtrim ?t)"
      using last_nonspace_rtrim[OF i(1)] rtrim_hd[OF False] unfolding i(2) by simp
    then obtain l where "last_nonspace ?t ?i = Some l" "take (l + 1) ?t = rtrim ?t"
      by (cases "last_nonspace ?t ?i") auto
    then show ?thesis unfolding eq using False by simp
  qed
qed

lemma strip_quotes_plain [simp]:
  "DQ \<notin> set s \<Longrightarrow> SQ \<notin> set s \<Longrightarrow> strip_quotes_loop i c e s = s"
  by (induction s arbitrary: i c e) auto

lemma strip_quotes_double: "DQ \<notin> set s \<Longrightarrow> BSL \<notin> set s \<Longrightarrow> strip_quotes ([DQ] @ s @ [DQ]) = s"
proof -
  have "strip_quotes_loop True False False (s @ [DQ]) = s" if "DQ \<notin> set s" "BSL \<notin> set s"
    using that by (induction s) (auto simp: chr_defs)
  then show "DQ \<notin> set s \<Longrightarrow> BSL \<notin> set s \<Longrightarrow> ?thesis" by (simp add: strip_quotes_def chr_defs)
qed

section \<open>Ordering of optional strings\<close>

interpretation lenient: comparison lenient_strcmp
proof
  fix a b c :: "string option"
  show "lenient_strcmp a b \<le> 0 \<or> lenient_strcmp b a \<le> 0"
    using c_strcmp_total by (auto simp: lenient_strcmp_def split: option.splits)
  show "lenient_strcmp a b \<le> 0 \<Longrightarrow> lenient_strcmp b c \<le> 0 \<Longrightarrow> lenient_strcmp a c \<le> 0"
    by (cases a; cases b; cases c) (auto simp: lenient_strcmp_def intro: c_strcmp_trans)
qed

lemma lenient_strcmp_eq0: "lenient_strcmp a b = 0 \<longleftrightarrow> a = b"
  by (auto simp: lenient_strcmp_def c_strcmp_eq0 split: option.splits)

lemma has_prefix_iff: "has_prefix s p \<longleftrightarrow> (\<exists>r. s = p @ r)"
  by (metis append_take_drop_id append_eq_conv_conj has_prefix_def)

section \<open>split_string\<close>

lemma strtok_all_spec:
  "(\<forall>t \<in> set (strtok_all d s). t \<noteq> [] \<and> (\<forall>c\<in>set t. c \<notin> set d))
   \<and> concat (strtok_all d s) = filter (\<lambda>c. c \<notin> set d) s"
proof (induction d s rule: strtok_all.induct)
  case (1 d s)
  let ?t = "dropWhile (\<lambda>c. c \<in> set d) s"
  let ?u = "takeWhile (\<lambda>c. c \<notin> set d) ?t" and ?v = "dropWhile (\<lambda>c. c \<notin> set d) ?t"
  have fs: "filter (\<lambda>c. c \<notin> set d) s = filter (\<lambda>c. c \<notin> set d) ?t"
    by (induction s) auto
  show ?case
  proof (cases "?t = []")
    case True
    then show ?thesis using fs by (simp add: strtok_all.simps)
  next
    case False
    have "hd ?t \<notin> set d" using hd_dropWhile[OF False] by simp
    with False have "?u \<noteq> []" by (cases ?t) auto
    moreover have "filter (\<lambda>c. c \<notin> set d) ?t = ?u @ filter (\<lambda>c. c \<notin> set d) ?v"
      by (metis (mono_tags, lifting) filter_append filter_True set_takeWhileD takeWhile_dropWhile_id)
    moreover have "strtok_all d s = ?u # strtok_all d ?v"
      using False by (subst strtok_all.simps) (simp add: Let_def)
    moreover have "\<forall>c\<in>set ?u. c \<notin> set d" by (auto dest: set_takeWhileD)
    moreover note 1[OF refl False]
    ultimately show ?thesis unfolding fs by (metis concat.simps(2) set_ConsD)
  qed
qed

fun join_sep :: "char \<Rightarrow> string list \<Rightarrow> string" where
  "join_sep d [] = []"
| "join_sep d [t] = t"
| "join_sep d (t # ts) = t @ d # join_sep d ts"

lemma strtok_all_join:
  "\<forall>t\<in>set ts. t \<noteq> [] \<and> d \<notin> set t \<Longrightarrow> strtok_all [d] (join_sep d ts) = ts"
proof (induction d ts rule: join_sep.induct)
  case (1 d)
  then show ?case by (simp add: strtok_all.simps)
next
  case (2 d t)
  then have "takeWhile (\<lambda>c. c \<noteq> d) t = t" by (auto simp: takeWhile_eq_all_conv)
  moreover have "dropWhile (\<lambda>c. c \<noteq> d) t = []" using 2 by (auto simp only: dropWhile_eq_Nil_conv) auto
  moreover have "dropWhile (\<lambda>c. c = d) t = t" using 2 by (cases t) auto
  moreover have "strtok_all [d] [] = []" by (simp add: strtok_all.simps)
  moreover have "strtok_all [d] t = (let t = dropWhile (\<lambda>c. c = d) t in if t = [] then []
      else takeWhile (\<lambda>c. c \<noteq> d) t # strtok_all [d] (dropWhile (\<lambda>c. c \<noteq> d) t))"
    by (subst strtok_all.simps) (simp add: Let_def)
  ultimately show ?case using 2 by (simp only: Let_def join_sep.simps list.set if_False) simp
next
  case (3 d t u us)
  let ?r = "join_sep d (u # us)"
  have t: "t \<noteq> []" "d \<notin> set t" using 3 by auto
  then obtain c cs where c: "t = c # cs" "c \<noteq> d" by (cases t) auto
  have "takeWhile (\<lambda>c. c \<noteq> d) (t @ d # ?r) = t" "dropWhile (\<lambda>c. c \<noteq> d) (t @ d # ?r) = d # ?r"
    using t by (auto simp: takeWhile_append dropWhile_append)
  moreover have "dropWhile (\<lambda>c. c = d) (t @ d # ?r) = t @ d # ?r" using c by simp
  moreover have "strtok_all [d] (d # ?r) = strtok_all [d] ?r"
    by (subst (1 2) strtok_all.simps) (simp add: Let_def)
  ultimately show ?case using 3 t by (subst strtok_all.simps) (simp add: Let_def)
qed

section \<open>split_args takes join_args apart\<close>

fun scan_all :: "scan \<Rightarrow> string \<Rightarrow> scan option" where
  "scan_all st [] = Some st"
| "scan_all st (c # cs) = do { st \<leftarrow> scan_char st c; scan_all st cs }"

text \<open>A token the scanner takes as a whole: quotes and brackets are closed, blanks are inside them.\<close>

definition self_contained :: "string \<Rightarrow> bool" where
  "self_contained t \<longleftrightarrow> t \<noteq> [] \<and> scan_all scan0 t = Some scan0"

lemma split_args_loop_app:
  "scan_all st t = Some st' \<Longrightarrow>
   split_args_loop st tok (t @ r) = split_args_loop st' (rev t @ tok) r"
  by (induction t arbitrary: st tok) (auto simp: bind_eq_Some_conv)

lemma scan0_ws: "is_ws c \<Longrightarrow> scan_char scan0 c = None"
  by (auto simp: is_ws_def whitespace_def scan_char_def scan0_def scan_free_def chr_defs)

lemma self_contained_hd: "self_contained t \<Longrightarrow> \<not> is_ws (hd t)"
  using scan0_ws by (cases t) (fastforce simp: self_contained_def bind_eq_Some_conv)+

lemma split_args_join_rest:
  "\<forall>t\<in>set ts. self_contained t \<Longrightarrow> ts \<noteq> [] \<Longrightarrow>
   split_args_loop scan0 [] (dropWhile is_ws (butlast (join_rest ts))) = ts"
proof (induction ts)
  case (Cons t ts)
  have t: "t \<noteq> []" "scan_all scan0 t = Some scan0" "\<not> is_ws (hd t)"
    using Cons.prems self_contained_hd by (auto simp: self_contained_def)
  then have dw: "dropWhile is_ws (t @ r) = t @ r" for r by (cases t) auto
  show ?case
  proof (cases ts)
    case Nil
    then have "butlast (join_rest (t # ts)) = t @ []" by (simp add: butlast_append)
    then show ?thesis
      using t Nil dw[of "[]"] split_args_loop_app[OF t(2), of "[]" "[]"] by simp
  next
    case (Cons u us)
    have ne: "join_rest ts \<noteq> []" using \<open>ts = u # us\<close> by simp
    have "butlast (join_rest (t # ts)) = t @ CHR '' '' # butlast (join_rest ts)"
      using ne by (simp add: butlast_append)
    moreover have "is_ws (CHR '' '')" by (simp add: is_ws_def whitespace_def)
    moreover have "scan0\<lparr>escaped := False\<rparr> = scan0" by (simp add: scan0_def)
    ultimately show ?thesis
      using t Cons.IH Cons.prems \<open>ts = u # us\<close> scan0_ws
      by (simp add: dw split_args_loop_app)
  qed
qed simp

section \<open>unescape_string\<close>

text \<open>What unescaping means, one escape after the other.\<close>

fun unescape_spec :: "string \<Rightarrow> string" where
  "unescape_spec [] = []"
| "unescape_spec [c] = [c]"
| "unescape_spec (c # e # cs) =
     (if c \<noteq> BSL then c # unescape_spec (e # cs)
      else case simple_escape e of Some r \<Rightarrow> r # unescape_spec cs
           | None \<Rightarrow> c # e # unescape_spec cs)"

text \<open>No NUL or hexadecimal escape, no backslash left alone at the end.\<close>

fun plain_escapes :: "string \<Rightarrow> bool" where
  "plain_escapes [] = True"
| "plain_escapes [c] = (c \<noteq> BSL)"
| "plain_escapes (c # e # cs) =
     (if c \<noteq> BSL then plain_escapes (e # cs)
      else e \<noteq> CHR ''0'' \<and> e \<noteq> CHR ''x'' \<and> plain_escapes cs)"

lemma simple_escape_nz: "simple_escape e = Some r \<Longrightarrow> r \<noteq> NUL"
  by (auto simp: simple_escape_def chr_defs split: if_splits)

lemma simple_escape_0: "simple_escape (CHR ''0'') = None" "simple_escape (CHR ''x'') = None"
  by (simp_all add: simple_escape_def chr_defs)

lemma unescape_loop_plain:
  "plain_escapes s \<Longrightarrow> NUL \<notin> set s \<Longrightarrow>
   \<exists>out. unescape_loop (pre @ s @ [NUL]) (length pre) = Some (pre @ out @ [NUL], None)
     \<and> length out = length s \<and> filter (\<lambda>c. c \<noteq> NUL) out = unescape_spec s"
proof (induction s arbitrary: pre rule: unescape_spec.induct)
  case 1
  then show ?case by (simp add: unescape_loop.simps rd_def nth_append)
next
  case (2 c)
  then show ?case
    by (intro exI[of _ "[c]"]) (simp add: unescape_loop.simps[of "pre @ c # r" for r]
        unescape_loop.simps[of _ "Suc n" for n] rd_def nth_append)
next
  case (3 c e cs)
  have rc: "rd (pre @ (c # e # cs) @ [NUL]) (length pre) = Some c"
    and re: "rd (pre @ (c # e # cs) @ [NUL]) (length pre + 1) = Some e"
    by (simp_all add: rd_def nth_append)
  have cz: "c \<noteq> NUL" "e \<noteq> NUL" "NUL \<notin> set cs" using 3 by auto
  show ?case
  proof (cases "c = BSL")
    case False
    with 3(1)[OF False, of "pre @ [c]"] 3(4,5) obtain out where
      o: "unescape_loop ((pre @ [c]) @ (e # cs) @ [NUL]) (length (pre @ [c]))
        = Some ((pre @ [c]) @ out @ [NUL], None)"
      "length out = length (e # cs)" "filter (\<lambda>c. c \<noteq> NUL) out = unescape_spec (e # cs)"
      by auto
    have "unescape_loop (pre @ (c # e # cs) @ [NUL]) (length pre)
        = unescape_loop ((pre @ [c]) @ (e # cs) @ [NUL]) (length (pre @ [c]))"
      using rc cz False by (subst unescape_loop.simps) simp
    then show ?thesis using o cz False by (intro exI[of _ "c # out"]) simp
  next
    case True
    have step: "unescape_loop (pre @ (c # e # cs) @ [NUL]) (length pre)
        = (case simple_escape e of
             Some r \<Rightarrow> unescape_loop ((pre @ [r, NUL]) @ cs @ [NUL]) (length (pre @ [r, NUL]))
           | None \<Rightarrow> unescape_loop ((pre @ [c, e]) @ cs @ [NUL]) (length (pre @ [c, e])))"
      using rc re cz True 3(4) simple_escape_0
      by (subst unescape_loop.simps) (auto simp: list_update_append split: option.splits)
    show ?thesis
    proof (cases "simple_escape e")
      case None
      with 3(2)[of "pre @ [c, e]"] 3(4,5) True obtain out where "unescape_loop ((pre @ [c, e]) @ cs @ [NUL]) (length (pre @ [c, e]))
          = Some ((pre @ [c, e]) @ out @ [NUL], None)"
        "length out = length cs" "filter (\<lambda>c. c \<noteq> NUL) out = unescape_spec cs"
        by auto
      then show ?thesis using step None True cz by (intro exI[of _ "c # e # out"]) simp
    next
      case (Some r)
      with 3(3)[of r "pre @ [r, NUL]"] 3(4,5) True obtain out where "unescape_loop ((pre @ [r, NUL]) @ cs @ [NUL]) (length (pre @ [r, NUL]))
          = Some ((pre @ [r, NUL]) @ out @ [NUL], None)"
        "length out = length cs" "filter (\<lambda>c. c \<noteq> NUL) out = unescape_spec cs"
        by auto
      then show ?thesis
        using step Some True simple_escape_nz[OF Some] by (intro exI[of _ "r # NUL # out"]) simp
    qed
  qed
qed

text \<open>Every control character and quote written as its escape.\<close>

definition escape_char :: "char \<Rightarrow> string" where
  "escape_char c =
     (if c = CHR 0x07 then [BSL, CHR ''a''] else if c = CHR 0x08 then [BSL, CHR ''b'']
      else if c = CHR 0x0C then [BSL, CHR ''f''] else if c = CHR 0x0A then [BSL, CHR ''n'']
      else if c = CHR 0x0D then [BSL, CHR ''r''] else if c = CHR 0x09 then [BSL, CHR ''t'']
      else if c = CHR 0x0B then [BSL, CHR ''v''] else if c = BSL then [BSL, BSL]
      else if c = SQ then [BSL, SQ] else if c = DQ then [BSL, DQ] else [c])"

lemma escape_char_cases:
  "(escape_char c = [c] \<and> c \<noteq> BSL) \<or> (\<exists>e. escape_char c = [BSL, e] \<and> simple_escape e = Some c)"
  by (auto simp: escape_char_def simple_escape_def chr_defs)

lemma unescape_spec_escape:
  "unescape_spec (concat (map escape_char s)) = s \<and> plain_escapes (concat (map escape_char s))"
proof (induction s)
  case (Cons c s)
  from escape_char_cases[of c] show ?case
  proof
    assume c: "escape_char c = [c] \<and> c \<noteq> BSL"
    then show ?thesis using Cons by (cases "concat (map escape_char s)") auto
  next
    assume "\<exists>e. escape_char c = [BSL, e] \<and> simple_escape e = Some c"
    then obtain e where "escape_char c = [BSL, e]" "simple_escape e = Some c" by blast
    then show ?thesis using Cons simple_escape_0 by auto
  qed
qed simp

lemma NUL_escape: "NUL \<notin> set s \<Longrightarrow> NUL \<notin> set (concat (map escape_char s))"
  by (induction s) (auto simp: escape_char_def chr_defs split: if_splits)

section \<open>argsep\<close>

lemma argsep_next_set:
  "argsep_next_interesting s off delim = Some p \<Longrightarrow> s ! p \<in> {DQ, SQ, BSL} \<union> set delim"
  by (auto simp: argsep_next_interesting_def Let_def dest: strpbrk_Some(3) split: option.splits if_splits)

lemma argsep_loop_spec:
  "argsep_loop s delim start e instr inchr esc = (st, r) \<Longrightarrow> start \<le> e \<Longrightarrow> start \<le> length s \<Longrightarrow>
   start \<le> st \<and> st \<le> length s \<and> (\<forall>j. start \<le> j \<and> j < st \<longrightarrow> s ! j \<in> set delim)
   \<and> (\<forall>p. r = Some p \<longrightarrow> st < p \<and> p < length s \<and> s ! p \<in> set delim)"
proof (induction s delim start e instr inchr esc rule: argsep_loop.induct)
  case (1 s delim start e instr inchr esc)
  show ?case
  proof (cases "argsep_next_interesting s e delim")
    case None
    with 1(6,7,8) show ?thesis by (auto simp: argsep_loop.simps)
  next
    case (Some p)
    define esc' where "esc' = (if esc \<and> p \<noteq> e then False else esc)"
    have p: "e \<le> p" "p < length s" using argsep_next_bounds[OF Some] by auto
    have c: "s ! p \<in> {DQ, SQ, BSL} \<union> set delim" by (rule argsep_next_set[OF Some])
    note eq = 1(6)[unfolded argsep_loop.simps[of s delim start e] Some option.case Let_def esc'_def[symmetric]]
    note IH = 1(1-5)[OF Some esc'_def refl]
    show ?thesis
    proof (cases "s ! p = DQ \<and> \<not> inchr \<and> \<not> esc'")
      case True
      with eq IH(1) p 1(7,8) show ?thesis by simp
    next
      case f1: False
      show ?thesis
      proof (cases "s ! p = SQ \<and> \<not> instr \<and> \<not> esc'")
        case True
        with eq IH(2)[OF f1] f1 p 1(7,8) show ?thesis by (simp split: if_splits)
      next
        case f2: False
        show ?thesis
        proof (cases "s ! p = BSL")
          case True
          with eq IH(3)[OF f1 f2] f1 f2 p 1(7,8) show ?thesis by (simp split: if_splits)
        next
          case f3: False
          show ?thesis
          proof (cases "\<not> instr \<and> \<not> inchr \<and> \<not> esc'")
            case True
            then have d: "s ! p \<in> set delim" using f1 f2 f3 c by auto
            show ?thesis
            proof (cases "p = start")
              case True
              with eq IH(4)[OF f1 f2 f3] f1 f2 f3 p d \<open>\<not> instr \<and> \<not> inchr \<and> \<not> esc'\<close> 1(7,8)
              have "start + 1 \<le> st \<and> st \<le> length s \<and> (\<forall>j. start + 1 \<le> j \<and> j < st \<longrightarrow> s ! j \<in> set delim)
                \<and> (\<forall>p. r = Some p \<longrightarrow> st < p \<and> p < length s \<and> s ! p \<in> set delim)"
                by (simp split: if_splits)
              then show ?thesis using d True by (metis Suc_eq_plus1 Suc_leI Suc_leD le_neq_implies_less)
            next
              case False
              with eq f1 f2 f3 p d \<open>\<not> instr \<and> \<not> inchr \<and> \<not> esc'\<close> 1(7,8) show ?thesis
                by (auto split: if_splits)
            qed
          next
            case False
            with eq IH(5)[OF f1 f2 f3 False] f1 f2 f3 p 1(7,8) show ?thesis by (simp split: if_splits)
          qed
        qed
      qed
    qed
  qed
qed

section \<open>The properties\<close>

text \<open>
  C30. split_args undoes join_args: whenever the arguments are ones the scanner takes as a whole
  (not empty, quotes and criteria brackets closed, blanks only inside them or escaped), joining
  them with blanks and splitting the result gives the same arguments in the same order.
\<close>
theorem split_args_join_args:
  assumes "\<forall>t\<in>set ts. self_contained t" "ts \<noteq> []"
  shows "split_args (join_args ts) = ts"
  using split_args_join_rest[OF assms] assms(2) by (simp add: split_args_def join_args_def)

lemma split_args_join_args_witness:
  "split_args (join_args [''[app_id=x y]'', [DQ] @ ''a b'' @ [DQ], [BSL, CHR '' ''], ''move''])
    = [''[app_id=x y]'', [DQ] @ ''a b'' @ [DQ], [BSL, CHR '' ''], ''move'']"
proof (rule split_args_join_args)
  show "\<forall>t\<in>set [''[app_id=x y]'', [DQ] @ ''a b'' @ [DQ], [BSL, CHR '' ''], ''move'']. self_contained t"
    by code_simp
qed simp

lemma unescape_string_plain:
  assumes "plain_escapes s" "NUL \<notin> set s"
  shows "unescape_string s = Some (unescape_spec s, length (unescape_spec s))"
proof -
  from unescape_loop_plain[OF assms, of "[]"] obtain out where
    "unescape_loop (s @ [NUL]) 0 = Some (out @ [NUL], None)" "length out = length s"
    "filter (\<lambda>c. c \<noteq> NUL) out = unescape_spec s" by auto
  then show ?thesis by (simp add: unescape_string_def Let_def)
qed

lemma unescape_escape_roundtrip:
  "NUL \<notin> set s \<Longrightarrow> unescape_string (concat (map escape_char s)) = Some (s, length s)"
  using unescape_string_plain[of "concat (map escape_char s)"] unescape_spec_escape[of s] NUL_escape[of s]
  by auto

text \<open>
  C31. On every string without NUL, without a NUL or hexadecimal escape and without a backslash
  left alone at the end, unescape_string reads and writes only inside the buffer, replaces each
  known escape by its character, keeps unknown ones, and returns the length of the result.
\<close>
theorem unescape_string_correct:
  assumes "plain_escapes s" "NUL \<notin> set s"
  shows "unescape_string s = Some (unescape_spec s, length (unescape_spec s))"
  by (rule unescape_string_plain[OF assms])

lemma unescape_string_correct_witness:
  "unescape_string (''a'' @ [BSL] @ ''n'' @ [BSL, BSL] @ ''q'' @ [BSL, DQ, BSL] @ ''zb'')
     = Some (''a'' @ [CHR 0x0A, BSL] @ ''q'' @ [DQ, BSL] @ ''zb'', 8)"
proof -
  let ?s = "''a'' @ [BSL] @ ''n'' @ [BSL, BSL] @ ''q'' @ [BSL, DQ, BSL] @ ''zb''"
  have "unescape_spec ?s = ''a'' @ [CHR 0x0A, BSL] @ ''q'' @ [DQ, BSL] @ ''zb''"
    "plain_escapes ?s" "NUL \<notin> set ?s" by code_simp+
  then show ?thesis using unescape_string_correct[of ?s] by simp
qed

text \<open>
  C32. argsep always ends, and takes the string apart without losing or inventing a character:
  what it skips before the token consists of separators; if it reports a matched separator, the
  token is not empty, the separator follows it, and the rest of the string is what remains;
  otherwise the token is all that is left.
\<close>
theorem argsep_takes_apart:
  "\<exists>skip. set skip \<subseteq> set delim \<and>
     (case argsep s delim of
        (tok, None, m) \<Rightarrow> s = skip @ tok \<and> m = NUL
      | (tok, Some rest, m) \<Rightarrow> s = skip @ tok @ m # rest \<and> m \<in> set delim \<and> tok \<noteq> [])"
proof -
  obtain st r where l: "argsep_loop s delim 0 0 False False False = (st, r)" by fastforce
  from argsep_loop_spec[OF l] have h: "st \<le> length s" "\<forall>j<st. s ! j \<in> set delim"
    "\<forall>p. r = Some p \<longrightarrow> st < p \<and> p < length s \<and> s ! p \<in> set delim" by auto
  have "set (take st s) \<subseteq> set delim" using h(1,2) by (auto simp: in_set_conv_nth)
  moreover have "s = take st s @ take (p - st) (drop st s) @ s ! p # drop (p + 1) s"
    if "st < p" "p < length s" for p
    by (metis Suc_eq_plus1 append_assoc id_take_nth_drop le_add_diff_inverse less_imp_le_nat take_add that)
  ultimately show ?thesis
    using h(3) by (intro exI[of _ "take st s"]) (auto simp: argsep_def l split: option.splits)
qed

text \<open>
  split_string breaks a string at its delimiters and nowhere else: no token is empty or holds
  a delimiter, and the tokens in order hold exactly the other characters of the string.
\<close>
theorem split_string_tokens:
  "(\<forall>t \<in> set (split_string s d). t \<noteq> [] \<and> (\<forall>c\<in>set t. c \<notin> set d))
   \<and> concat (split_string s d) = filter (\<lambda>c. c \<notin> set d) s"
  unfolding split_string_def by (rule strtok_all_spec)

lemma split_string_tokens_witness:
  "[] \<notin> set (split_string ''--a,b;c,'' '',;'') \<and> concat (split_string ''--a,b;c,'' '',;'') = ''--abc''"
proof -
  have "filter (\<lambda>c. c \<notin> set '',;'') ''--a,b;c,'' = ''--abc''" by code_simp
  then show ?thesis using split_string_tokens[of "''--a,b;c,''" "'',;''"] by metis
qed

section \<open>Where the code does something else\<close>

text \<open>
  After a hexadecimal escape the NUL written behind it ends the loop: the escape that follows
  stays as it was. Only decimal digits are read, so A to F are not hexadecimal digits here.
\<close>
lemma unescape_hex_stops:
  "unescape_string ([BSL] @ ''x41'' @ [BSL] @ ''n'') = Some (''A'' @ [BSL] @ ''n'', 3)"
  "unescape_string ([BSL] @ ''xA'') = Some (''A'', 1)"
  by code_simp+

text \<open>A backslash alone at the end makes the loop step over the terminator and read behind it.\<close>
lemma unescape_trailing_backslash: "unescape_string (''a'' @ [BSL]) = None"
  by code_simp

text \<open>One backslash escapes the whole run of separators and quotes that touches it.\<close>
lemma argsep_escape_run: "argsep ([BSL] @ '',,b'') '','' = ([BSL] @ '',,b'', None, NUL)"
  by code_simp

end
