(* ===== verification/Cmd.thy ===== *)
theory Cmd
  imports Prelude
begin

text \<open>
  Results of commands (commands.c, cmd_results_new and checkarg). A result carries its status and,
  unless the command succeeded, a message. The messages are modelled by the constant parts the
  source formats; what the callers look at is the status.
\<close>

datatype cmd_status = CMD_SUCCESS | CMD_FAILURE | CMD_INVALID | CMD_DEFER | CMD_BLOCK
  | CMD_BLOCK_COMMANDS | CMD_BLOCK_END

record cmd_results =
  status :: cmd_status
  error :: "string option"

definition cmd_results_new :: "cmd_status \<Rightarrow> string option \<Rightarrow> cmd_results" where
  "cmd_results_new st msg = \<lparr>status = st, error = msg\<rparr>"

lemma status_cmd_results_new [simp]: "status (cmd_results_new st msg) = st"
  by (simp add: cmd_results_new_def)

datatype expected_args = EXPECTED_AT_LEAST | EXPECTED_AT_MOST | EXPECTED_EQUAL_TO

text \<open>None when the number of arguments is as expected.\<close>

definition checkarg :: "int \<Rightarrow> string \<Rightarrow> expected_args \<Rightarrow> int \<Rightarrow> cmd_results option" where
  "checkarg argc name type val =
     (let error_name =
        (case type of
           EXPECTED_AT_LEAST \<Rightarrow> if argc < val then Some ''at least '' else None
         | EXPECTED_AT_MOST \<Rightarrow> if argc > val then Some ''at most '' else None
         | EXPECTED_EQUAL_TO \<Rightarrow> if argc \<noteq> val then Some '''' else None) in
      map_option (\<lambda>e. cmd_results_new CMD_INVALID
        (Some (''Invalid '' @ name @ '' command (expected '' @ e @ show_int val @ '' argument''
               @ (if val \<noteq> 1 then ''s'' else '''') @ '', got '' @ show_int argc @ '')''))) error_name)"

lemma checkarg_least: "checkarg argc name EXPECTED_AT_LEAST val = None \<longleftrightarrow> val \<le> argc"
  by (auto simp: checkarg_def)

lemma checkarg_equal: "checkarg argc name EXPECTED_EQUAL_TO val = None \<longleftrightarrow> argc = val"
  by (auto simp: checkarg_def)

lemma checkarg_most: "checkarg argc name EXPECTED_AT_MOST val = None \<longleftrightarrow> argc \<le> val"
  by (auto simp: checkarg_def)

end
