(* ===== verification/Keyed.thy ===== *)
theory Keyed
  imports Prelude
begin

text \<open>
  Tables of bindings. Key, switch and gesture bindings are kept in a list that an equivalence on
  bindings turns into a table: adding overwrites the binding with the same key, removing deletes
  it. The loops over the list are the same in commands/bind.c and commands/gesture.c and are
  modelled once, with the comparison as an argument; the locale binding_table proves the laws of a
  table for them, and is interpreted on each comparison where it is defined.
\<close>

text \<open>switch_binding_add, gesture_binding_add: every equal entry is overwritten, else appended.\<close>

fun overwrite_loop :: "('b \<Rightarrow> 'b \<Rightarrow> bool) \<Rightarrow> 'b \<Rightarrow> 'b list \<Rightarrow> bool \<Rightarrow> 'b list \<times> bool" where
  "overwrite_loop same b [] overwritten = ([], overwritten)"
| "overwrite_loop same b (c # cs) overwritten =
     (if same b c
      then (let (ys, ov) = overwrite_loop same b cs True in (b # ys, ov))
      else (let (ys, ov) = overwrite_loop same b cs overwritten in (c # ys, ov)))"

definition table_add :: "('b \<Rightarrow> 'b \<Rightarrow> bool) \<Rightarrow> 'b \<Rightarrow> 'b list \<Rightarrow> 'b list" where
  "table_add same b xs =
     (case overwrite_loop same b xs False of (ys, overwritten) \<Rightarrow> if overwritten then ys else ys @ [b])"

text \<open>binding_upsert: the first equal entry is replaced and returned, else the binding is appended.\<close>

fun table_upsert :: "('b \<Rightarrow> 'b \<Rightarrow> bool) \<Rightarrow> 'b \<Rightarrow> 'b list \<Rightarrow> 'b list \<times> 'b option" where
  "table_upsert same b [] = ([b], None)"
| "table_upsert same b (c # cs) =
     (if same b c then (b # cs, Some c)
      else (let (ys, r) = table_upsert same b cs in (c # ys, r)))"

text \<open>The first equal entry is deleted; None when there is none.\<close>

fun table_remove :: "('b \<Rightarrow> 'b \<Rightarrow> bool) \<Rightarrow> 'b \<Rightarrow> 'b list \<Rightarrow> 'b list option" where
  "table_remove same b [] = None"
| "table_remove same b (c # cs) =
     (if same b c then Some cs else map_option (\<lambda>ys. c # ys) (table_remove same b cs))"

definition table_lookup :: "('b \<Rightarrow> 'b \<Rightarrow> bool) \<Rightarrow> 'b \<Rightarrow> 'b list \<Rightarrow> 'b option" where
  "table_lookup same k xs = find (same k) xs"

definition keys_unique :: "('b \<Rightarrow> 'b \<Rightarrow> bool) \<Rightarrow> 'b list \<Rightarrow> bool" where
  "keys_unique same xs \<longleftrightarrow> sorted_wrt (\<lambda>a b. \<not> same a b) xs"

lemma overwrite_loop_map:
  "overwrite_loop same b xs ov = (map (\<lambda>c. if same b c then b else c) xs, ov \<or> (\<exists>c\<in>set xs. same b c))"
  by (induction xs arbitrary: ov) auto

lemma table_add_eq:
  "table_add same b xs =
     (if \<exists>c\<in>set xs. same b c then map (\<lambda>c. if same b c then b else c) xs else xs @ [b])"
  by (auto simp: table_add_def overwrite_loop_map intro: map_idI)

locale binding_table =
  fixes same :: "'b \<Rightarrow> 'b \<Rightarrow> bool"
  assumes same_refl: "same a a"
    and same_sym: "same a b \<Longrightarrow> same b a"
    and same_trans: "same a b \<Longrightarrow> same b c \<Longrightarrow> same a c"
begin

lemma same_left: "same a b \<Longrightarrow> same a c \<longleftrightarrow> same b c"
  using same_sym same_trans by blast

lemma same_right: "same a b \<Longrightarrow> same c a \<longleftrightarrow> same c b"
  using same_sym same_trans by blast

lemma keys_unique_map:
  "keys_unique same xs \<Longrightarrow> keys_unique same (map (\<lambda>c. if same b c then b else c) xs)"
  unfolding keys_unique_def sorted_wrt_map
proof (rule sorted_wrt_mono_rel[rotated])
  show "\<not> same (if same b c then b else c) (if same b d then b else d)" if "\<not> same c d" for c d
    using that same_sym[of c b] same_sym[of b c] same_trans[of c b d] by (auto split: if_splits)
qed

lemma table_add_unique [invars]: "keys_unique same xs \<Longrightarrow> keys_unique same (table_add same b xs)"
proof (cases "\<exists>c\<in>set xs. same b c")
  case True
  then show "keys_unique same xs \<Longrightarrow> ?thesis" using keys_unique_map[of xs b] by (simp add: table_add_eq)
next
  case False
  moreover from False have "\<forall>c\<in>set xs. \<not> same c b" using same_sym by blast
  ultimately show "keys_unique same xs \<Longrightarrow> ?thesis"
    by (simp add: table_add_eq keys_unique_def sorted_wrt_append)
qed

lemma lookup_map_other:
  "\<not> same k b \<Longrightarrow> find (same k) (map (\<lambda>c. if same b c then b else c) xs) = find (same k) xs"
proof (induction xs)
  case (Cons x xs)
  then show ?case using same_right[of b x k] by auto
qed simp

lemma lookup_map_same:
  "same k b \<Longrightarrow> \<exists>c\<in>set xs. same b c \<Longrightarrow> find (same k) (map (\<lambda>c. if same b c then b else c) xs) = Some b"
proof (induction xs)
  case (Cons x xs)
  then show ?case using same_left[of k b x] by auto
qed simp

lemma find_app: "find P (xs @ ys) = (case find P xs of None \<Rightarrow> find P ys | Some x \<Rightarrow> Some x)"
  by (induction xs) auto

lemma table_add_lookup:
  "table_lookup same k (table_add same b xs) = (if same k b then Some b else table_lookup same k xs)"
proof (cases "\<exists>c\<in>set xs. same b c")
  case True
  then show ?thesis
    using lookup_map_other[of k b xs] lookup_map_same[of k b xs] by (simp add: table_add_eq table_lookup_def)
next
  case False
  then have "same k b \<Longrightarrow> find (same k) xs = None"
    by (auto simp: find_None_iff dest: same_left)
  then show ?thesis using False
    by (auto simp: table_add_eq table_lookup_def find_app split: option.splits)
qed

lemma table_upsert_add:
  "keys_unique same xs \<Longrightarrow> fst (table_upsert same b xs) = table_add same b xs
     \<and> snd (table_upsert same b xs) = table_lookup same b xs"
proof (induction xs)
  case (Cons c cs)
  show ?case
  proof (cases "same b c")
    case True
    then have none: "\<forall>d\<in>set cs. \<not> same b d"
      using Cons.prems same_left[of b c] by (auto simp: keys_unique_def)
    then have "map (\<lambda>c. if same b c then b else c) cs = cs" by (auto intro: map_idI)
    then show ?thesis using True by (simp add: table_add_eq table_lookup_def)
  next
    case False
    with Cons show ?thesis
      by (auto simp: table_add_eq table_lookup_def keys_unique_def split_beta)
  qed
qed (simp add: table_add_eq table_lookup_def)

lemma table_remove_None: "table_remove same b xs = None \<longleftrightarrow> table_lookup same b xs = None"
  by (induction xs) (auto simp: table_lookup_def)

lemma table_remove_set: "table_remove same b xs = Some ys \<Longrightarrow> set ys \<subseteq> set xs"
  by (induction xs arbitrary: ys) (fastforce split: if_splits)+

lemma table_remove_unique [invars]:
  "keys_unique same xs \<Longrightarrow> table_remove same b xs = Some ys \<Longrightarrow> keys_unique same ys"
proof (induction xs arbitrary: ys)
  case (Cons c cs)
  then show ?case using table_remove_set[of b cs]
    by (fastforce simp: keys_unique_def split: if_splits)
qed simp

lemma table_remove_lookup:
  "keys_unique same xs \<Longrightarrow> table_remove same b xs = Some ys \<Longrightarrow>
   table_lookup same k ys = (if same k b then None else table_lookup same k xs)"
proof (induction xs arbitrary: ys)
  case (Cons c cs)
  show ?case
  proof (cases "same b c")
    case True
    then have none: "\<forall>d\<in>set cs. \<not> same b d"
      using Cons.prems same_left[of b c] by (auto simp: keys_unique_def)
    have ys: "ys = cs" using True Cons.prems by simp
    have "same k b \<Longrightarrow> find (same k) cs = None"
      using none by (auto simp: find_None_iff dest: same_left)
    moreover have "\<not> same k b \<Longrightarrow> \<not> same k c" using True same_right[of b c k] by simp
    ultimately show ?thesis using ys by (auto simp: table_lookup_def)
  next
    case False
    then obtain zs where zs: "table_remove same b cs = Some zs" "ys = c # zs" using Cons.prems by auto
    have "same k b \<Longrightarrow> \<not> same k c" using False same_left[of k b c] by blast
    then show ?thesis using Cons.IH[OF _ zs(1)] Cons.prems zs(2) by (auto simp: table_lookup_def keys_unique_def)
  qed
qed simp

text \<open>Removal as the code does it: the table is left as it is when there is no such key.\<close>

lemma remove_or_keep_lookup:
  assumes "keys_unique same xs"
  shows "table_lookup same k (case table_remove same b xs of Some ys \<Rightarrow> ys | None \<Rightarrow> xs)
    = (if same k b then None else table_lookup same k xs)"
proof (cases "table_remove same b xs")
  case None
  then have "\<forall>c\<in>set xs. \<not> same b c"
    by (simp add: table_remove_None table_lookup_def find_None_iff)
  then have "same k b \<Longrightarrow> find (same k) xs = None"
    using same_left[of k b] by (auto simp: find_None_iff)
  then show ?thesis using None by (simp add: table_lookup_def)
next
  case (Some ys)
  then show ?thesis using table_remove_lookup[OF assms Some] by simp
qed

end

end
