(* ===== verification/Util.thy ===== *)
theory Util
  imports Complex_Main Prelude "HOL-Library.Word" "HOL-Library.Signed_Division"
begin

unbundle bit_operations_syntax

text \<open>
  common/util.c: index wrap-around, colours, booleans and movement amounts. A signed overflow or
  a division by zero is the value None; colours are 32-bit words. The components of a colour are
  rationals, where the source divides in float.
\<close>

section \<open>wrap\<close>

text \<open>The C operator % truncates, as smod does; the sum must fit an int of 32 bits.\<close>

definition wrap :: "int \<Rightarrow> int \<Rightarrow> int option" where
  "wrap i m =
     (if m = 0 then None
      else let s = i smod m + m in
        if - (2 ^ 31) \<le> s \<and> s < 2 ^ 31 then Some (s smod m) else None)"

lemma smod_nonneg: "0 \<le> s \<Longrightarrow> 0 < m \<Longrightarrow> (s :: int) smod m = s mod m"
  by (simp add: signed_modulo_int_def signed_divide_int_def minus_mult_div_eq_mod sgn_if)

lemma smod_range: "0 < m \<Longrightarrow> - m < (i :: int) smod m \<and> i smod m < m"
  using smod_int_range[of m i] by auto

lemma smod_mod: "0 < m \<Longrightarrow> ((i :: int) smod m + m) mod m = i mod m"
proof -
  have "i = i sdiv m * m + i smod m" by (simp add: sdiv_mult_smod_eq)
  then show ?thesis by (metis add.commute mod_add_self2 mod_mult_self1)
qed

section \<open>Colours\<close>

definition is_xdigit :: "char \<Rightarrow> bool" where
  "is_xdigit c \<longleftrightarrow> (let n = (of_char c :: nat) in
     (48 \<le> n \<and> n \<le> 57) \<or> (65 \<le> n \<and> n \<le> 70) \<or> (97 \<le> n \<and> n \<le> 102))"

definition xdigit_val :: "char \<Rightarrow> nat" where
  "xdigit_val c = (let n = (of_char c :: nat) in
     if n \<le> 57 then n - 48 else if n \<le> 70 then n - 55 else n - 87)"

text \<open>strtoul in base 16 on a string whose first two characters are digits: value and rest.\<close>

definition strtoul16 :: "string \<Rightarrow> nat \<times> string" where
  "strtoul16 s = (foldl (\<lambda>v c. 16 * v + xdigit_val c) 0 (takeWhile is_xdigit s), dropWhile is_xdigit s)"

definition parse_color :: "string \<Rightarrow> 32 word option" where
  "parse_color color =
     (let color = (if color \<noteq> [] \<and> hd color = CHR ''#'' then tl color else color);
          n = length color in
      if (n \<noteq> 6 \<and> n \<noteq> 8) \<or> \<not> is_xdigit (color ! 0) \<or> \<not> is_xdigit (color ! 1) then None
      else case strtoul16 color of (v, rest) \<Rightarrow>
        if rest \<noteq> [] then None
        else let parsed = (of_nat v :: 32 word) in
          Some (if n = 6 then push_bit 8 parsed OR 0xFF else parsed))"

definition color_to_rgba :: "32 word \<Rightarrow> rat list" where
  "color_to_rgba color =
     [of_nat (unat (drop_bit 24 color AND 0xFF)) / 255, of_nat (unat (drop_bit 16 color AND 0xFF)) / 255,
      of_nat (unat (drop_bit 8 color AND 0xFF)) / 255, of_nat (unat (color AND 0xFF)) / 255]"

section \<open>Booleans and movement amounts\<close>

definition parse_boolean :: "string \<Rightarrow> bool \<Rightarrow> bool" where
  "parse_boolean b current =
     (if str_caseeq b ''1'' \<or> str_caseeq b ''yes'' \<or> str_caseeq b ''on'' \<or> str_caseeq b ''true''
         \<or> str_caseeq b ''enable'' \<or> str_caseeq b ''enabled'' \<or> str_caseeq b ''active''
      then True
      else if str_caseeq b ''toggle'' then \<not> current
      else False)"

datatype movement_unit = MOVEMENT_UNIT_PX | MOVEMENT_UNIT_PPT | MOVEMENT_UNIT_DEFAULT
  | MOVEMENT_UNIT_INVALID

record movement_amount =
  amount :: int
  unit :: movement_unit

definition parse_movement_unit :: "string \<Rightarrow> movement_unit" where
  "parse_movement_unit u =
     (if str_caseeq u ''px'' then MOVEMENT_UNIT_PX
      else if str_caseeq u ''ppt'' then MOVEMENT_UNIT_PPT
      else if str_caseeq u ''default'' then MOVEMENT_UNIT_DEFAULT
      else MOVEMENT_UNIT_INVALID)"

text \<open>The amount and the number of arguments consumed.\<close>

definition parse_movement_amount :: "string list \<Rightarrow> movement_amount \<times> nat" where
  "parse_movement_amount argv =
     (case argv of
        [] \<Rightarrow> (\<lparr>amount = 0, unit = MOVEMENT_UNIT_INVALID\<rparr>, 0)
      | a # as \<Rightarrow>
          (case c_strtol a of (v, err) \<Rightarrow>
             let n = to_int32 v in
             if err \<noteq> [] then (\<lparr>amount = n, unit = parse_movement_unit err\<rparr>, 1)
             else (case as of
                     [] \<Rightarrow> (\<lparr>amount = n, unit = MOVEMENT_UNIT_DEFAULT\<rparr>, 1)
                   | b # _ \<Rightarrow>
                       (let u = parse_movement_unit b in
                        if u = MOVEMENT_UNIT_INVALID
                        then (\<lparr>amount = n, unit = MOVEMENT_UNIT_DEFAULT\<rparr>, 1)
                        else (\<lparr>amount = n, unit = u\<rparr>, 2)))))"

datatype wl_output_subpixel = SUBPIXEL_UNKNOWN | SUBPIXEL_NONE | SUBPIXEL_HORIZONTAL_RGB
  | SUBPIXEL_HORIZONTAL_BGR | SUBPIXEL_VERTICAL_RGB | SUBPIXEL_VERTICAL_BGR

definition subpixel_to_string :: "wl_output_subpixel \<Rightarrow> string" where
  "subpixel_to_string subpixel =
     (case subpixel of SUBPIXEL_UNKNOWN \<Rightarrow> ''unknown'' | SUBPIXEL_NONE \<Rightarrow> ''none''
      | SUBPIXEL_HORIZONTAL_RGB \<Rightarrow> ''rgb'' | SUBPIXEL_HORIZONTAL_BGR \<Rightarrow> ''bgr''
      | SUBPIXEL_VERTICAL_RGB \<Rightarrow> ''vrgb'' | SUBPIXEL_VERTICAL_BGR \<Rightarrow> ''vbgr'')"

text \<open>Milliseconds of a monotonic time, truncated to 32 bits.\<close>

definition get_current_time_in_msec :: "int \<times> int \<Rightarrow> 32 word" where
  "get_current_time_in_msec now = (case now of (sec, nsec) \<Rightarrow> word_of_int (sec * 1000 + nsec div 1000000))"

section \<open>Numbers in strings\<close>

text \<open>
  strtof for the decimal notation: a sign, digits with a point, an exponent. The value is the exact
  one where the C library rounds; hexadecimal floats, inf and nan are not read.
\<close>

definition frac_val :: "string \<Rightarrow> string \<Rightarrow> rat" where
  "frac_val ds es = of_int (digits_val (ds @ es)) / 10 ^ length es"

definition float_exponent :: "string \<Rightarrow> (rat \<times> string) option" where
  "float_exponent t =
     (case t of [] \<Rightarrow> None
      | e # r \<Rightarrow>
          if e \<noteq> CHR ''e'' \<and> e \<noteq> CHR ''E'' then None
          else
            (let neg = (r \<noteq> [] \<and> hd r = CHR ''-'');
                 u = (if r \<noteq> [] \<and> hd r \<in> {CHR ''-'', CHR ''+''} then tl r else r);
                 ds = takeWhile is_digit u; k = nat (digits_val ds) in
             if ds = [] then None
             else Some (if neg then 1 / 10 ^ k else 10 ^ k, dropWhile is_digit u)))"

definition c_strtof :: "string \<Rightarrow> rat \<times> string" where
  "c_strtof s =
     (let t = dropWhile is_ws s;
          neg = (t \<noteq> [] \<and> hd t = CHR ''-'');
          u = (if t \<noteq> [] \<and> hd t \<in> {CHR ''-'', CHR ''+''} then tl t else t);
          ds = takeWhile is_digit u; r = dropWhile is_digit u;
          point = (r \<noteq> [] \<and> hd r = CHR ''.'');
          es = (if point then takeWhile is_digit (tl r) else []);
          r = (if point then dropWhile is_digit (tl r) else r);
          v = (if neg then - frac_val ds es else frac_val ds es) in
      if ds = [] \<and> es = [] then (0, s)
      else case float_exponent r of None \<Rightarrow> (v, r) | Some (f, r) \<Rightarrow> (v * f, r))"

text \<open>strtol in base 0: hexadecimal after 0x, octal after 0, else decimal; digits_in reads the digits.\<close>

definition digits_in :: "nat \<Rightarrow> string \<Rightarrow> int" where
  "digits_in base t =
     foldl (\<lambda>v c. int base * v + int (xdigit_val c)) 0 (takeWhile (\<lambda>c. is_xdigit c \<and> xdigit_val c < base) t)"

definition c_strtol0 :: "string \<Rightarrow> int" where
  "c_strtol0 s =
     (let t = dropWhile is_ws s;
          neg = (t \<noteq> [] \<and> hd t = CHR ''-'');
          u = (if t \<noteq> [] \<and> hd t \<in> {CHR ''-'', CHR ''+''} then tl t else t);
          hex = (length u \<ge> 3 \<and> u ! 0 = CHR ''0'' \<and> (u ! 1 = CHR ''x'' \<or> u ! 1 = CHR ''X'') \<and> is_xdigit (u ! 2));
          v = (if hex then digits_in 16 (drop 2 u)
               else if u \<noteq> [] \<and> hd u = CHR ''0'' then digits_in 8 u else digits_in 10 u) in
      max (- (2 ^ 63)) (min (2 ^ 63 - 1) (if neg then - v else v)))"

text \<open>parse_float, whose NaN is None here; a value beyond the largest float is out of range.\<close>

definition FLT_MAX :: rat where "FLT_MAX = 2 ^ 128 - 2 ^ 104"

definition parse_float :: "string \<Rightarrow> rat option" where
  "parse_float s = (case c_strtof s of (v, r) \<Rightarrow> if r \<noteq> [] \<or> \<bar>v\<bar> > FLT_MAX then None else Some v)"

section \<open>Printing a colour and reading it back\<close>

definition xdigit_of :: "nat \<Rightarrow> char" where
  "xdigit_of n = (if n < 10 then char_of (48 + n) else char_of (87 + n))"

fun show_hex :: "nat \<Rightarrow> nat \<Rightarrow> string" where
  "show_hex 0 v = []"
| "show_hex (Suc k) v = show_hex k (v div 16) @ [xdigit_of (v mod 16)]"

lemma xdigit_of: "d < 16 \<Longrightarrow> is_xdigit (xdigit_of d) \<and> xdigit_val (xdigit_of d) = d"
  by (auto simp: is_xdigit_def xdigit_val_def xdigit_of_def of_char_of Let_def)

lemma show_hex_xdigits: "\<forall>c\<in>set (show_hex k v). is_xdigit c"
  by (induction k arbitrary: v) (auto simp: xdigit_of)

lemma show_hex_length [simp]: "length (show_hex k v) = k"
  by (induction k arbitrary: v) auto

lemma show_hex_value: "foldl (\<lambda>v c. 16 * v + xdigit_val c) 0 (show_hex k v) = v mod 16 ^ k"
proof (induction k arbitrary: v)
  case (Suc k)
  have "v mod 16 ^ Suc k = 16 * (v div 16 mod 16 ^ k) + v mod 16"
    by (simp add: mod_mult2_eq)
  then show ?case using Suc by (simp add: xdigit_of)
qed simp

lemma strtoul16_show: "strtoul16 (show_hex k v) = (v mod 16 ^ k, [])"
  using show_hex_xdigits[of k v]
  by (simp add: strtoul16_def show_hex_value takeWhile_eq_all_conv[THEN iffD2] dropWhile_eq_Nil_conv)

lemma parse_color_show:
  "k = 6 \<or> k = 8 \<Longrightarrow> parse_color (CHR ''#'' # show_hex k v)
    = (let p = of_nat (v mod 16 ^ k) in Some (if k = 6 then push_bit 8 p OR 0xFF else p))"
proof -
  assume k: "k = 6 \<or> k = 8"
  have "is_xdigit (show_hex k v ! i)" if "i < k" for i
    using show_hex_xdigits[of k v] that by simp
  then show ?thesis using k by (auto simp: parse_color_def Let_def strtoul16_show)
qed

lemma parse_color_show6:
  "parse_color (CHR ''#'' # show_hex 6 v) = Some (push_bit 8 (of_nat (v mod 16 ^ 6)) OR 0xFF)"
  using parse_color_show[of 6 v] by (simp only: Let_def simp_thms if_True)

lemma parse_color_show8: "parse_color (CHR ''#'' # show_hex 8 v) = Some (of_nat (v mod 16 ^ 8))"
  using parse_color_show[of 8 v] by (simp only: Let_def numeral_eq_iff num.distinct num.inject simp_thms if_False)

section \<open>The properties\<close>

text \<open>
  wrap takes every index, negative ones included, to the index modulo the positive bound,
  so into the range from 0 to the bound exclusive, and does not overflow for bounds up to 2^30.
\<close>
theorem wrap_mod:
  assumes "0 < m" "m \<le> 2 ^ 30"
  shows "wrap i m = Some (i mod m)"
proof -
  have "- m < i smod m" "i smod m < m" using smod_range[OF assms(1)] by auto
  moreover have "(i smod m + m) smod m = i mod m"
    using smod_nonneg[of "i smod m + m" m] smod_mod[OF assms(1)] calculation assms(1) by simp
  ultimately show ?thesis using assms by (simp add: wrap_def Let_def)
qed

lemma wrap_mod_witness: "wrap (-7) 3 = Some 2"
  using wrap_mod[of 3 "-7"] by simp

text \<open>
  parse_color reads back every colour: eight hexadecimal digits give the word they print, six
  digits give the colour with full alpha.
\<close>
theorem parse_color_roundtrip:
  "parse_color (CHR ''#'' # show_hex 8 (unat w)) = Some w
   \<and> parse_color (CHR ''#'' # show_hex 6 (unat (drop_bit 8 w))) = Some (w OR 0xFF)"
proof -
  have "unat w < 2 ^ 32" using unsigned_less[of w] by simp
  then have a: "unat w mod 16 ^ 8 = unat w" by simp
  define u where "u = unat (drop_bit 8 w)"
  have "unat w div 2 ^ 8 < 2 ^ 24"
    using \<open>unat w < 2 ^ 32\<close> by (simp add: div_less_iff_less_mult)
  moreover have "u = unat w div 2 ^ 8" unfolding u_def by (rule trans[OF unat_drop_bit_eq drop_bit_eq_div])
  ultimately have "u < 2 ^ 24" by (simp only:)
  then have b: "u mod 16 ^ 6 = u" by simp
  have d: "(of_nat u :: 32 word) = drop_bit 8 w" unfolding u_def by simp
  have e: "(of_nat (unat w) :: 32 word) = w" by simp
  have ff: "(0xFF :: 32 word) = mask 8" by (simp add: mask_eq_exp_minus_1)
  have c: "push_bit 8 (drop_bit 8 w) OR 0xFF = w OR 0xFF"
    unfolding ff by (rule bit_word_eqI) (auto simp: bit_simps)
  have "parse_color (CHR ''#'' # show_hex 8 (unat w)) = Some w"
    unfolding parse_color_show8 a e ..
  moreover have "parse_color (CHR ''#'' # show_hex 6 u) = Some (w OR 0xFF)"
    unfolding parse_color_show6 b d c ..
  ultimately show ?thesis unfolding u_def by blast
qed

end
