(* ===== verification/Gesture.thy ===== *)
theory Gesture
  imports CStr Cmd Keyed Util
begin

text \<open>
  Touchpad gestures: parsing, printing and matching of gestures and the tracker that turns a
  stream of updates into a gesture (common/gesture.c), and the table of gesture bindings with its
  commands (commands/gesture.c). Directions are the flags of a 32-bit word, finger counts 8-bit
  words; the motion of a gesture is rational where the source has double.
\<close>

section \<open>Gestures\<close>

datatype gesture_type = GESTURE_TYPE_NONE | GESTURE_TYPE_HOLD | GESTURE_TYPE_PINCH
  | GESTURE_TYPE_SWIPE

record gesture =
  ge_type :: gesture_type
  ge_fingers :: "8 word"
  ge_directions :: "32 word"

definition GESTURE_FINGERS_ANY :: "8 word" where "GESTURE_FINGERS_ANY = 0"

definition GESTURE_DIRECTION_UP :: "32 word" where "GESTURE_DIRECTION_UP = 1"
definition GESTURE_DIRECTION_DOWN :: "32 word" where "GESTURE_DIRECTION_DOWN = 2"
definition GESTURE_DIRECTION_LEFT :: "32 word" where "GESTURE_DIRECTION_LEFT = 4"
definition GESTURE_DIRECTION_RIGHT :: "32 word" where "GESTURE_DIRECTION_RIGHT = 8"
definition GESTURE_DIRECTION_INWARD :: "32 word" where "GESTURE_DIRECTION_INWARD = 16"
definition GESTURE_DIRECTION_OUTWARD :: "32 word" where "GESTURE_DIRECTION_OUTWARD = 32"
definition GESTURE_DIRECTION_CLOCKWISE :: "32 word" where "GESTURE_DIRECTION_CLOCKWISE = 64"
definition GESTURE_DIRECTION_COUNTERCLOCKWISE :: "32 word" where
  "GESTURE_DIRECTION_COUNTERCLOCKWISE = 128"

lemmas direction_defs = GESTURE_DIRECTION_UP_def GESTURE_DIRECTION_DOWN_def
  GESTURE_DIRECTION_LEFT_def GESTURE_DIRECTION_RIGHT_def GESTURE_DIRECTION_INWARD_def
  GESTURE_DIRECTION_OUTWARD_def GESTURE_DIRECTION_CLOCKWISE_def
  GESTURE_DIRECTION_COUNTERCLOCKWISE_def

section \<open>Parsing\<close>

datatype gesture_error = Bad_shape | Bad_type string | Bad_fingers string | Bad_direction string

fun parse_directions :: "32 word \<Rightarrow> string list \<Rightarrow> 32 word \<times> gesture_error option" where
  "parse_directions ds [] = (ds, None)"
| "parse_directions ds (item # rest) =
     (if item = ''any'' then parse_directions ds rest
      else if item = ''up'' then parse_directions (ds OR GESTURE_DIRECTION_UP) rest
      else if item = ''down'' then parse_directions (ds OR GESTURE_DIRECTION_DOWN) rest
      else if item = ''left'' then parse_directions (ds OR GESTURE_DIRECTION_LEFT) rest
      else if item = ''right'' then parse_directions (ds OR GESTURE_DIRECTION_RIGHT) rest
      else if item = ''inward'' then parse_directions (ds OR GESTURE_DIRECTION_INWARD) rest
      else if item = ''outward'' then parse_directions (ds OR GESTURE_DIRECTION_OUTWARD) rest
      else if item = ''clockwise'' then parse_directions (ds OR GESTURE_DIRECTION_CLOCKWISE) rest
      else if item = ''counterclockwise''
      then parse_directions (ds OR GESTURE_DIRECTION_COUNTERCLOCKWISE) rest
      else (ds, Some (Bad_direction item)))"

definition gesture_type_of :: "string \<Rightarrow> gesture_type option" where
  "gesture_type_of s =
     (if s = ''hold'' then Some GESTURE_TYPE_HOLD
      else if s = ''pinch'' then Some GESTURE_TYPE_PINCH
      else if s = ''swipe'' then Some GESTURE_TYPE_SWIPE
      else None)"

text \<open>One character from 1 to 9; atoi reads it.\<close>

definition finger_count :: "string \<Rightarrow> 8 word option" where
  "finger_count s =
     (case s of [c] \<Rightarrow> if is_digit c \<and> c \<noteq> CHR ''0'' then Some (of_nat (digit_val c)) else None
      | _ \<Rightarrow> None)"

text \<open>The output is filled as far as the parser gets; the second component is the error message.\<close>

definition gesture_parse :: "string \<Rightarrow> gesture \<times> gesture_error option" where
  "gesture_parse input =
     (let g0 = \<lparr>ge_type = GESTURE_TYPE_NONE, ge_fingers = GESTURE_FINGERS_ANY, ge_directions = 0\<rparr>;
          split = split_string input '':'' in
      if length split < 1 \<or> 3 < length split then (g0, Some Bad_shape)
      else (case gesture_type_of (split ! 0) of
        None \<Rightarrow> (g0, Some (Bad_type (split ! 0)))
      | Some t \<Rightarrow>
          let g = g0\<lparr>ge_type := t\<rparr>;
              dirs = (\<lambda>g next. case parse_directions 0 (split_string next ''+'') of
                        (ds, err) \<Rightarrow> (g\<lparr>ge_directions := ds\<rparr>, err)) in
          if length split \<le> 1 then (g, None)
          else (case finger_count (split ! 1) of
                  Some n \<Rightarrow> (let g = g\<lparr>ge_fingers := n\<rparr> in
                             if length split = 3 then dirs g (split ! 2) else (g, None))
                | None \<Rightarrow> if length split = 3 then (g, Some (Bad_fingers (split ! 1)))
                          else dirs g (split ! 1))))"

section \<open>Printing\<close>

definition gesture_type_string :: "gesture_type \<Rightarrow> string" where
  "gesture_type_string t =
     (case t of GESTURE_TYPE_NONE \<Rightarrow> ''none'' | GESTURE_TYPE_HOLD \<Rightarrow> ''hold''
      | GESTURE_TYPE_PINCH \<Rightarrow> ''pinch'' | GESTURE_TYPE_SWIPE \<Rightarrow> ''swipe'')"

definition gesture_direction_string :: "32 word \<Rightarrow> string option" where
  "gesture_direction_string d =
     (if d = 0 then Some ''none''
      else if d = GESTURE_DIRECTION_UP then Some ''up''
      else if d = GESTURE_DIRECTION_DOWN then Some ''down''
      else if d = GESTURE_DIRECTION_LEFT then Some ''left''
      else if d = GESTURE_DIRECTION_RIGHT then Some ''right''
      else if d = GESTURE_DIRECTION_INWARD then Some ''inward''
      else if d = GESTURE_DIRECTION_OUTWARD then Some ''outward''
      else if d = GESTURE_DIRECTION_CLOCKWISE then Some ''clockwise''
      else if d = GESTURE_DIRECTION_COUNTERCLOCKWISE then Some ''counterclockwise''
      else None)"

text \<open>The loop over the bits; the result is None until the first set bit.\<close>

fun directions_loop :: "32 word \<Rightarrow> nat list \<Rightarrow> string option \<Rightarrow> string option" where
  "directions_loop ds [] result = result"
| "directions_loop ds (b # bs) result =
     (let masked = ds AND push_bit b 1 in
      if masked \<noteq> 0
      then (let name = (case gesture_direction_string masked of Some n \<Rightarrow> n | None \<Rightarrow> ''unknown'') in
            directions_loop ds bs
              (case result of None \<Rightarrow> Some name | Some r \<Rightarrow> Some (r @ ''+'' @ name)))
      else directions_loop ds bs result)"

definition gesture_directions_to_string :: "32 word \<Rightarrow> string" where
  "gesture_directions_to_string ds =
     (case directions_loop ds [0..<32] None of None \<Rightarrow> ''any'' | Some r \<Rightarrow> r)"

definition gesture_to_string :: "gesture \<Rightarrow> string" where
  "gesture_to_string g =
     gesture_type_string (ge_type g) @ '':'' @ show_nat (unat (ge_fingers g)) @ '':''
       @ gesture_directions_to_string (ge_directions g)"

section \<open>Matching\<close>

definition gesture_check :: "gesture \<Rightarrow> gesture_type \<Rightarrow> 8 word \<Rightarrow> bool" where
  "gesture_check target t n =
     (if ge_type target \<noteq> t then False
      else if ge_fingers target \<noteq> GESTURE_FINGERS_ANY \<and> ge_fingers target \<noteq> n then False
      else True)"

definition gesture_match :: "gesture \<Rightarrow> gesture \<Rightarrow> bool \<Rightarrow> bool" where
  "gesture_match target to_match exact =
     (if \<not> gesture_check target (ge_type to_match) (ge_fingers to_match) then False
      else if exact \<and> ge_directions target \<noteq> ge_directions to_match then False
      else ge_directions target AND ge_directions to_match = ge_directions target)"

definition gesture_equal :: "gesture \<Rightarrow> gesture \<Rightarrow> bool" where
  "gesture_equal a b \<longleftrightarrow> ge_type a = ge_type b \<and> ge_fingers a = ge_fingers b \<and> ge_directions a = ge_directions b"

lemma drop_bit_1_less: "ds \<noteq> 0 \<Longrightarrow> unat (drop_bit 1 ds) < unat (ds :: 32 word)"
proof -
  assume "ds \<noteq> 0"
  then have "0 < unat ds" by (simp add: unat_gt_0)
  moreover have "unat (drop_bit 1 ds) = unat ds div 2 ^ 1"
    by (rule trans[OF unat_drop_bit_eq drop_bit_eq_div])
  ultimately show ?thesis by simp
qed

function directions_count_loop :: "32 word \<Rightarrow> 8 word \<Rightarrow> 8 word" where
  "directions_count_loop ds cnt =
     (if ds = 0 then cnt else directions_count_loop (drop_bit 1 ds) (cnt + ucast (ds AND 1)))"
  by pat_completeness auto
termination
  by (relation "measure (\<lambda>(ds, c). unat ds)") (simp_all only: wf_measure in_measure prod.case drop_bit_1_less not_False_eq_True)

declare directions_count_loop.simps [simp del]

definition gesture_directions_count :: "32 word \<Rightarrow> 8 word" where
  "gesture_directions_count ds = directions_count_loop ds 0"

text \<open>The difference of two counts, at most 32, in an int8_t.\<close>

definition gesture_directions_compare :: "32 word \<Rightarrow> 32 word \<Rightarrow> int" where
  "gesture_directions_compare a b =
     (let d = uint (gesture_directions_count a) - uint (gesture_directions_count b) in
      (d + 128) mod 256 - 128)"

definition gesture_compare :: "gesture \<Rightarrow> gesture \<Rightarrow> int" where
  "gesture_compare a b = gesture_directions_compare (ge_directions a) (ge_directions b)"

section \<open>The tracker\<close>

record gesture_tracker =
  t_type :: gesture_type
  t_fingers :: "8 word"
  t_dx :: rat
  t_dy :: rat
  t_scale :: rat
  t_rotation :: rat

definition gesture_tracker_begin :: "gesture_type \<Rightarrow> 8 word \<Rightarrow> gesture_tracker" where
  "gesture_tracker_begin t n =
     \<lparr>t_type = t, t_fingers = n, t_dx = 0, t_dy = 0, t_scale = 1, t_rotation = 0\<rparr>"

definition gesture_tracker_check :: "gesture_tracker \<Rightarrow> gesture_type \<Rightarrow> bool" where
  "gesture_tracker_check tr t \<longleftrightarrow> t_type tr = t"

definition gesture_tracker_update ::
    "gesture_tracker \<Rightarrow> rat \<Rightarrow> rat \<Rightarrow> rat \<Rightarrow> rat \<Rightarrow> gesture_tracker" where
  "gesture_tracker_update tr x y sc rot =
     (if t_type tr = GESTURE_TYPE_HOLD then tr
      else let tr = tr\<lparr>t_dx := t_dx tr + x, t_dy := t_dy tr + y\<rparr> in
        if t_type tr = GESTURE_TYPE_PINCH
        then tr\<lparr>t_scale := sc, t_rotation := t_rotation tr + rot\<rparr>
        else tr)"

definition gesture_tracker_cancel :: "gesture_tracker \<Rightarrow> gesture_tracker" where
  "gesture_tracker_cancel tr = tr\<lparr>t_type := GESTURE_TYPE_NONE\<rparr>"

definition pinch_directions :: "gesture_tracker \<Rightarrow> 32 word" where
  "pinch_directions tr =
     (let ds = 0;
          ds = (if t_rotation tr > 5 then ds OR GESTURE_DIRECTION_CLOCKWISE else ds);
          ds = (if t_rotation tr < -5 then ds OR GESTURE_DIRECTION_COUNTERCLOCKWISE else ds);
          ds = (if t_scale tr > 1 + 1 / 10 then ds OR GESTURE_DIRECTION_OUTWARD else ds);
          ds = (if t_scale tr < 1 - 1 / 10 then ds OR GESTURE_DIRECTION_INWARD else ds) in ds)"

definition swipe_direction :: "gesture_tracker \<Rightarrow> 32 word" where
  "swipe_direction tr =
     (if \<bar>t_dx tr\<bar> > \<bar>t_dy tr\<bar>
      then (if t_dx tr > 0 then GESTURE_DIRECTION_RIGHT else GESTURE_DIRECTION_LEFT)
      else (if t_dy tr > 0 then GESTURE_DIRECTION_DOWN else GESTURE_DIRECTION_UP))"

text \<open>PINCH falls through to SWIPE. When nothing is tracked the empty gesture is returned.\<close>

definition gesture_tracker_end :: "gesture_tracker \<Rightarrow> gesture \<times> gesture_tracker" where
  "gesture_tracker_end tr =
     (let result = \<lparr>ge_type = GESTURE_TYPE_NONE, ge_fingers = 0, ge_directions = 0\<rparr>;
          finish = (\<lambda>ds. (\<lparr>ge_type = t_type tr, ge_fingers = t_fingers tr, ge_directions = ds\<rparr>,
                          tr\<lparr>t_type := GESTURE_TYPE_NONE\<rparr>)) in
      case t_type tr of
        GESTURE_TYPE_PINCH \<Rightarrow> finish (pinch_directions tr OR swipe_direction tr)
      | GESTURE_TYPE_SWIPE \<Rightarrow> finish (swipe_direction tr)
      | GESTURE_TYPE_HOLD \<Rightarrow> finish 0
      | GESTURE_TYPE_NONE \<Rightarrow> (result, tr))"

section \<open>Gesture bindings\<close>

definition BINDING_EXACT :: "32 word" where "BINDING_EXACT = 512"

record sway_gesture_binding =
  g_input :: string
  g_flags :: "32 word"
  g_gesture :: gesture
  g_command :: "string option"

definition binding_gesture_equal :: "sway_gesture_binding \<Rightarrow> sway_gesture_binding \<Rightarrow> bool" where
  "binding_gesture_equal a b =
     (if g_input a \<noteq> g_input b then False
      else if \<not> gesture_equal (g_gesture a) (g_gesture b) then False
      else if g_flags a AND BINDING_EXACT \<noteq> g_flags b AND BINDING_EXACT then False
      else True)"

definition gesture_binding_add ::
    "sway_gesture_binding \<Rightarrow> sway_gesture_binding list \<Rightarrow> cmd_results \<times> sway_gesture_binding list" where
  "gesture_binding_add binding mode_bindings =
     (cmd_results_new CMD_SUCCESS None, table_add binding_gesture_equal binding mode_bindings)"

definition gesture_binding_remove ::
    "sway_gesture_binding \<Rightarrow> sway_gesture_binding list \<Rightarrow> cmd_results \<times> sway_gesture_binding list" where
  "gesture_binding_remove binding mode_bindings =
     (case table_remove binding_gesture_equal binding mode_bindings of
        Some bs \<Rightarrow> (cmd_results_new CMD_SUCCESS None, bs)
      | None \<Rightarrow> (cmd_results_new CMD_FAILURE (Some ''Could not find gesture binding''), mode_bindings))"

text \<open>The options at the front of the arguments; the warning flag only matters for logging.\<close>

fun gesture_options :: "sway_gesture_binding \<Rightarrow> string list \<Rightarrow> sway_gesture_binding \<times> string list" where
  "gesture_options b [] = (b, [])"
| "gesture_options b (a # as) =
     (if a = ''--exact'' then gesture_options (b\<lparr>g_flags := g_flags b OR BINDING_EXACT\<rparr>) as
      else if a = ''--no-warn'' then gesture_options b as
      else if has_prefix a ''--input-device=''
      then gesture_options (b\<lparr>g_input := drop (length ''--input-device='') a\<rparr>) as
      else (b, a # as))"

definition cmd_bind_or_unbind_gesture ::
    "string list \<Rightarrow> bool \<Rightarrow> sway_gesture_binding list \<Rightarrow> cmd_results \<times> sway_gesture_binding list" where
  "cmd_bind_or_unbind_gesture argv unbind mode_bindings =
     (let minargs = (if unbind then 1 else 2);
          bindtype = (if unbind then ''unbindgesture'' else ''bindgesture'') in
      case checkarg (int (length argv)) bindtype EXPECTED_AT_LEAST minargs of
        Some err \<Rightarrow> (err, mode_bindings)
      | None \<Rightarrow>
          (case gesture_options \<lparr>g_input = ''*'', g_flags = 0,
               g_gesture = \<lparr>ge_type = GESTURE_TYPE_NONE, ge_fingers = 0, ge_directions = 0\<rparr>,
               g_command = None\<rparr> argv of
             (b, argv) \<Rightarrow>
               if int (length argv) < minargs
               then (cmd_results_new CMD_FAILURE (Some ''Invalid command''), mode_bindings)
               else (case gesture_parse (hd argv) of
                       (g, Some errmsg) \<Rightarrow>
                         (cmd_results_new CMD_FAILURE (Some ''Invalid command''), mode_bindings)
                     | (g, None) \<Rightarrow>
                         let b = b\<lparr>g_gesture := g\<rparr> in
                         if unbind then gesture_binding_remove b mode_bindings
                         else gesture_binding_add (b\<lparr>g_command := join_args (tl argv)\<rparr>) mode_bindings)))"

definition cmd_bindgesture ::
    "string list \<Rightarrow> sway_gesture_binding list \<Rightarrow> cmd_results \<times> sway_gesture_binding list" where
  "cmd_bindgesture argv = cmd_bind_or_unbind_gesture argv False"

definition cmd_unbindgesture ::
    "string list \<Rightarrow> sway_gesture_binding list \<Rightarrow> cmd_results \<times> sway_gesture_binding list" where
  "cmd_unbindgesture argv = cmd_bind_or_unbind_gesture argv True"

section \<open>Printing a gesture and reading it back\<close>

definition direction_names :: "string list" where
  "direction_names = [''up'', ''down'', ''left'', ''right'', ''inward'', ''outward'', ''clockwise'',
     ''counterclockwise'']"

lemma less_8_cases: "(b::nat) < 8 \<Longrightarrow> b = 0 \<or> b = 1 \<or> b = 2 \<or> b = 3 \<or> b = 4 \<or> b = 5 \<or> b = 6 \<or> b = 7"
  by linarith

lemma direction_string_bit: "b < 8 \<Longrightarrow> gesture_direction_string (2 ^ b) = Some (direction_names ! b)"
  by (drule less_8_cases) (auto simp: gesture_direction_string_def direction_defs direction_names_def)

lemma parse_direction_bit:
  "b < 8 \<Longrightarrow> parse_directions ds (direction_names ! b # rest) = parse_directions (ds OR 2 ^ b) rest"
  by (drule less_8_cases) (auto simp: direction_defs direction_names_def)

lemma direction_name_chars: "b < 8 \<Longrightarrow> direction_names ! b \<noteq> [] \<and> CHR '':'' \<notin> set (direction_names ! b)
    \<and> CHR ''+'' \<notin> set (direction_names ! b)"
  by (drule less_8_cases) (auto simp: direction_names_def)

text \<open>Only the eight direction flags are set.\<close>

definition known_directions :: "32 word \<Rightarrow> bool" where
  "known_directions ds \<longleftrightarrow> ds AND 0xFF = ds"

lemma known_bit: "known_directions ds \<Longrightarrow> bit ds b \<Longrightarrow> b < 8"
proof -
  assume "known_directions ds" "bit ds b"
  then have "bit (ds AND mask 8) b" by (simp add: known_directions_def mask_eq_exp_minus_1)
  then show "b < 8" by (simp add: bit_and_iff bit_mask_iff)
qed

definition set_bits_of :: "32 word \<Rightarrow> nat list \<Rightarrow> nat list" where
  "set_bits_of ds bs = filter (bit ds) bs"

lemma masked_bit: "b < 32 \<Longrightarrow> (ds :: 32 word) AND 2 ^ b = (if bit ds b then 2 ^ b else 0)"
  by (rule bit_word_eqI) (auto simp: bit_simps)

lemma push_bit_1_nz: "b < 32 \<Longrightarrow> (2 :: 32 word) ^ b \<noteq> 0"
  by simp

definition snoc_names :: "string option \<Rightarrow> string list \<Rightarrow> string option" where
  "snoc_names r names = foldl (\<lambda>r n. Some (case r of None \<Rightarrow> n | Some s \<Rightarrow> s @ ''+'' @ n)) r names"

lemma directions_loop_names:
  "known_directions ds \<Longrightarrow> \<forall>b\<in>set bs. b < 32 \<Longrightarrow>
   directions_loop ds bs r = snoc_names r (map (\<lambda>b. direction_names ! b) (set_bits_of ds bs))"
proof (induction bs arbitrary: r)
  case (Cons b bs)
  then show ?case
    using known_bit[of ds b] direction_string_bit[of b] push_bit_1_nz[of b]
    by (auto simp: masked_bit set_bits_of_def snoc_names_def Let_def split: option.splits)
qed (simp add: snoc_names_def set_bits_of_def)

lemma snoc_names_join: "snoc_names (Some s) names = Some (join_sep (CHR ''+'') (s # names))"
proof (induction names arbitrary: s)
  case (Cons n names)
  have "snoc_names (Some s) (n # names) = snoc_names (Some (s @ CHR ''+'' # n)) names"
    by (simp add: snoc_names_def)
  then show ?case using Cons.IH[of "s @ CHR ''+'' # n"] by (cases names) auto
qed (simp add: snoc_names_def)

lemma directions_string:
  assumes "known_directions ds"
  shows "gesture_directions_to_string ds =
    (let names = map (\<lambda>b. direction_names ! b) (set_bits_of ds [0..<32]) in
     if names = [] then ''any'' else join_sep (CHR ''+'') names)"
proof -
  have e: "directions_loop ds [0..<32] None
      = snoc_names None (map (\<lambda>b. direction_names ! b) (set_bits_of ds [0..<32]))"
    by (rule directions_loop_names[OF assms]) auto
  show ?thesis
  proof (cases "map (\<lambda>b. direction_names ! b) (set_bits_of ds [0..<32])")
    case Nil
    then show ?thesis unfolding gesture_directions_to_string_def e by (simp add: snoc_names_def)
  next
    case (Cons n ns)
    have "snoc_names None (n # ns) = snoc_names (Some n) ns" by (simp add: snoc_names_def)
    then show ?thesis
      unfolding gesture_directions_to_string_def e Cons by (simp add: snoc_names_join)
  qed
qed

lemma parse_direction_bits:
  "\<forall>b\<in>set bs. b < 8 \<Longrightarrow> parse_directions ds (map (\<lambda>b. direction_names ! b) bs)
     = (foldl (\<lambda>d b. d OR 2 ^ b) ds bs, None)"
proof (induction bs arbitrary: ds)
  case (Cons b bs)
  then show ?case using parse_direction_bit[of b] by simp
qed simp

lemma bit_foldl_or:
  "n < 32 \<Longrightarrow> bit (foldl (\<lambda>d b. d OR 2 ^ b) (ds :: 32 word) bs) n \<longleftrightarrow> bit ds n \<or> n \<in> set bs"
  by (induction bs arbitrary: ds) (auto simp: bit_simps)

lemma foldl_or_bits: "foldl (\<lambda>d b. d OR 2 ^ b) (0 :: 32 word) (set_bits_of ds [0..<32]) = ds"
  by (rule bit_word_eqI) (simp add: bit_foldl_or set_bits_of_def)

lemma join_sep_chars: "set (join_sep d ts) \<subseteq> insert d (\<Union> (set ` set ts))"
  by (induction d ts rule: join_sep.induct) auto

lemma join_sep_ne: "\<forall>t\<in>set ts. t \<noteq> [] \<Longrightarrow> ts \<noteq> [] \<Longrightarrow> join_sep d ts \<noteq> []"
  by (induction d ts rule: join_sep.induct) auto

lemma directions_string_parse:
  assumes "known_directions ds"
  shows "parse_directions 0 (split_string (gesture_directions_to_string ds) ''+'') = (ds, None)
    \<and> gesture_directions_to_string ds \<noteq> [] \<and> CHR '':'' \<notin> set (gesture_directions_to_string ds)"
proof -
  let ?bs = "set_bits_of ds [0..<32]"
  let ?ns = "map (\<lambda>b. direction_names ! b) ?bs"
  have b8: "\<forall>b\<in>set ?bs. b < 8" using known_bit[OF assms] by (auto simp: set_bits_of_def)
  then have ch: "\<forall>t\<in>set ?ns. t \<noteq> [] \<and> CHR ''+'' \<notin> set t \<and> CHR '':'' \<notin> set t"
    using direction_name_chars by auto
  show ?thesis
  proof (cases "?ns = []")
    case True
    then have "ds = 0" using foldl_or_bits[of ds] by simp
    moreover have "parse_directions 0 (split_string ''any'' ''+'') = (0, None)" by code_simp
    moreover have "gesture_directions_to_string ds = ''any''"
      using True unfolding directions_string[OF assms] Let_def by simp
    ultimately show ?thesis by simp
  next
    case False
    have s: "split_string (join_sep (CHR ''+'') ?ns) ''+'' = ?ns"
      unfolding split_string_def by (rule strtok_all_join) (use ch in auto)
    have "CHR '':'' \<notin> set (join_sep (CHR ''+'') ?ns)"
      using join_sep_chars[of "CHR ''+''" ?ns] ch by auto
    moreover have "join_sep (CHR ''+'') ?ns \<noteq> []" by (rule join_sep_ne) (use ch False in auto)
    ultimately show ?thesis
      using False s parse_direction_bits[OF b8] by (simp add: directions_string[OF assms] foldl_or_bits)
  qed
qed

section \<open>The bindings form a table\<close>

interpretation gesture_table: binding_table binding_gesture_equal
  by unfold_locales (auto simp: binding_gesture_equal_def gesture_equal_def split: if_splits)

lemma gesture_commands_unique [invars]:
  assumes "keys_unique binding_gesture_equal bs"
  shows "keys_unique binding_gesture_equal (snd (cmd_bind_or_unbind_gesture argv unbind bs))"
  using assms gesture_table.table_add_unique gesture_table.table_remove_unique
  by (auto simp: cmd_bind_or_unbind_gesture_def gesture_binding_add_def gesture_binding_remove_def Let_def
      split: option.splits prod.splits if_splits)

section \<open>The properties\<close>

text \<open>
  C28. Reading a printed gesture gives it back: for every hold, pinch or swipe gesture with one to
  nine fingers and any combination of the eight directions, gesture_parse accepts the string
  gesture_to_string prints and fills in the same type, fingers and directions.
\<close>
theorem gesture_parse_to_string:
  assumes "ge_type g \<noteq> GESTURE_TYPE_NONE" "1 \<le> unat (ge_fingers g)" "unat (ge_fingers g) \<le> 9"
    and "known_directions (ge_directions g)"
  shows "gesture_parse (gesture_to_string g) = (g, None)"
proof -
  let ?t = "gesture_type_string (ge_type g)" and ?n = "show_nat (unat (ge_fingers g))"
  let ?d = "gesture_directions_to_string (ge_directions g)"
  note d = directions_string_parse[OF assms(4)]
  have n: "?n = [char_of (48 + unat (ge_fingers g))]" using assms(3) by (simp add: show_nat_digit)
  have nd: "finger_count ?n = Some (ge_fingers g)"
  proof -
    have "is_digit (char_of (48 + unat (ge_fingers g)))" "digit_val (char_of (48 + unat (ge_fingers g))) = unat (ge_fingers g)"
      using digit_char[of "unat (ge_fingers g)"] assms(3) by auto
    moreover have "char_of (48 + unat (ge_fingers g)) \<noteq> CHR ''0''"
    proof
      assume "char_of (48 + unat (ge_fingers g)) = CHR ''0''"
      then have "digit_val (CHR ''0'') = unat (ge_fingers g)" using calculation(2) by (simp only:)
      moreover have "digit_val (CHR ''0'') = 0" by code_simp
      ultimately show False using assms(2) by simp
    qed
    ultimately show ?thesis by (simp add: n finger_count_def)
  qed
  have tt: "gesture_type_of ?t = Some (ge_type g)" "?t \<noteq> []" "CHR '':'' \<notin> set ?t"
    using assms(1) by (cases "ge_type g"; simp add: gesture_type_of_def gesture_type_string_def)+
  have "CHR '':'' \<notin> set ?n" using show_nat_digits[of "unat (ge_fingers g)"] by (auto simp: is_digit_def)
  then have "strtok_all [CHR '':''] (join_sep (CHR '':'') [?t, ?n, ?d]) = [?t, ?n, ?d]"
    using d tt by (intro strtok_all_join) auto
  then have "split_string (gesture_to_string g) '':'' = [?t, ?n, ?d]"
    by (simp add: split_string_def gesture_to_string_def)
  then show ?thesis using d nd tt by (simp add: gesture_parse_def Let_def)
qed

lemma gesture_parse_to_string_witness:
  "gesture_parse (gesture_to_string \<lparr>ge_type = GESTURE_TYPE_SWIPE, ge_fingers = 3, ge_directions = 5\<rparr>)
     = (\<lparr>ge_type = GESTURE_TYPE_SWIPE, ge_fingers = 3, ge_directions = 5\<rparr>, None)"
  by (rule gesture_parse_to_string) (simp_all add: known_directions_def)

text \<open>
  C29. Binding a gesture makes it the one found for every gesture binding with the same device,
  gesture and exactness and leaves every other binding alone; unbinding removes it alone; and the
  table never holds two bindings with the same key.
\<close>
theorem gesture_bindings_table:
  assumes "keys_unique binding_gesture_equal bs"
  shows "table_lookup binding_gesture_equal k (snd (gesture_binding_add b bs))
       = (if binding_gesture_equal k b then Some b else table_lookup binding_gesture_equal k bs)
    \<and> table_lookup binding_gesture_equal k (snd (gesture_binding_remove b bs))
       = (if binding_gesture_equal k b then None else table_lookup binding_gesture_equal k bs)
    \<and> keys_unique binding_gesture_equal (snd (cmd_bind_or_unbind_gesture argv unbind bs))"
proof (intro conjI)
  show "table_lookup binding_gesture_equal k (snd (gesture_binding_add b bs))
       = (if binding_gesture_equal k b then Some b else table_lookup binding_gesture_equal k bs)"
    by (simp add: gesture_binding_add_def gesture_table.table_add_lookup)
  show "table_lookup binding_gesture_equal k (snd (gesture_binding_remove b bs))
       = (if binding_gesture_equal k b then None else table_lookup binding_gesture_equal k bs)"
    using gesture_table.remove_or_keep_lookup[OF assms, of k b]
    by (cases "binding_gesture_equal k b") (simp_all add: gesture_binding_remove_def split: option.splits)
  show "keys_unique binding_gesture_equal (snd (cmd_bind_or_unbind_gesture argv unbind bs))"
    by (rule gesture_commands_unique[OF assms])
qed

lemma gesture_bindings_table_witness:
  "keys_unique binding_gesture_equal
     (snd (cmd_bind_or_unbind_gesture [''--exact'', ''swipe:3:left'', ''nop''] False []))"
  using gesture_bindings_table[of "[]"] by (simp add: keys_unique_def)

text \<open>A gesture for any number of fingers prints as 0 fingers, which is not read back.\<close>
lemma gesture_any_fingers_not_parsed:
  "gesture_to_string \<lparr>ge_type = GESTURE_TYPE_HOLD, ge_fingers = GESTURE_FINGERS_ANY, ge_directions = 0\<rparr> = ''hold:0:any''"
  "snd (gesture_parse ''hold:0:any'') = Some (Bad_fingers ''0'')"
  by code_simp+

end
