(* ===== verification/Modes.thy ===== *)
theory Modes
  imports Gesture
begin

text \<open>
  The data of key, mouse, switch and edge bindings and the modes that hold them (include/sway/config.h).
  A list of key codes is a list of words; syms is NULL unless a binding was translated to codes.
\<close>

datatype binding_input_type = BINDING_KEYCODE | BINDING_KEYSYM | BINDING_MOUSECODE | BINDING_MOUSESYM
  | BINDING_SWITCH | BINDING_GESTURE

definition BINDING_RELEASE :: "32 word" where "BINDING_RELEASE = 1"
definition BINDING_LOCKED :: "32 word" where "BINDING_LOCKED = 2"
definition BINDING_BORDER :: "32 word" where "BINDING_BORDER = 4"
definition BINDING_CONTENTS :: "32 word" where "BINDING_CONTENTS = 8"
definition BINDING_TITLEBAR :: "32 word" where "BINDING_TITLEBAR = 16"
definition BINDING_CODE :: "32 word" where "BINDING_CODE = 32"
definition BINDING_RELOAD :: "32 word" where "BINDING_RELOAD = 64"
definition BINDING_INHIBITED :: "32 word" where "BINDING_INHIBITED = 128"
definition BINDING_NOREPEAT :: "32 word" where "BINDING_NOREPEAT = 256"

text \<open>XKB_LAYOUT_INVALID, the group of a binding that names none.\<close>

definition XKB_LAYOUT_INVALID :: "32 word" where "XKB_LAYOUT_INVALID = 0xffffffff"

record sway_binding =
  bn_type :: binding_input_type
  bn_order :: int
  bn_input :: string
  bn_flags :: "32 word"
  bn_keys :: "32 word list"
  bn_syms :: "32 word list option"
  bn_modifiers :: "32 word"
  bn_group :: "32 word"
  bn_command :: "string option"

datatype switch_type = SWITCH_TYPE_LID | SWITCH_TYPE_TABLET_MODE | SWITCH_TYPE_KEYPAD_SLIDE

datatype sway_switch_trigger = SWITCH_TRIGGER_OFF | SWITCH_TRIGGER_ON | SWITCH_TRIGGER_TOGGLE

record sway_switch_binding =
  sw_type :: switch_type
  sw_trigger :: sway_switch_trigger
  sw_flags :: "32 word"
  sw_command :: "string option"

record sway_mode =
  md_name :: string
  md_keysym_bindings :: "sway_binding list"
  md_keycode_bindings :: "sway_binding list"
  md_mouse_bindings :: "sway_binding list"
  md_switch_bindings :: "sway_switch_binding list"
  md_gesture_bindings :: "sway_gesture_binding list"
  md_pango :: bool

text \<open>A command bound to an edge of the output; the edges are a mask of left, top, right and bottom.\<close>

record edge_binding =
  eb_edges :: "32 word"
  eb_range :: int
  eb_command :: string
  eb_fire_on_exit :: bool
  eb_workspace_name :: "string option"
  eb_motion_gate :: int
  eb_was_inside :: bool

definition mode_named :: "string \<Rightarrow> bool \<Rightarrow> sway_mode" where
  "mode_named name pango = \<lparr>md_name = name, md_keysym_bindings = [], md_keycode_bindings = [],
     md_mouse_bindings = [], md_switch_bindings = [], md_gesture_bindings = [], md_pango = pango\<rparr>"

end
