(* ===== verification/Tree_State.thy ===== *)
theory Tree_State
  imports Complex_Main "HOL-Library.Word" Prelude Util Modes
begin

text \<open>
  The tree of outputs, workspaces and containers (include/sway/tree/*.h, sway/tree/node.c). Every
  object lives in a store indexed by the id of its node (node_init hands out next_id); a pointer
  is an id, NULL is None. A list_t of pointers is the list of ids it stands for (theory CList).
  Of the double-buffered container state the pending part is kept; coordinates, sizes and
  fractions, doubles in the source, are rationals. A container holding a view has no child list
  in the source; here its list is empty.
\<close>

section \<open>Data\<close>

type_synonym id = nat

datatype container_layout = L_NONE | L_HORIZ | L_VERT | L_STACKED | L_TABBED

datatype container_border = B_NONE | B_PIXEL | B_NORMAL | B_CSD

datatype fullscreen_mode = FULLSCREEN_NONE | FULLSCREEN_WORKSPACE | FULLSCREEN_GLOBAL

datatype node = N_ROOT | N_OUTPUT id | N_WORKSPACE id | N_CONTAINER id

record box =
  b_x :: int
  b_y :: int
  b_width :: int
  b_height :: int

text \<open>
  The smallest normal and the largest double stand for an absent minimum and maximum.
\<close>

definition DBL_MIN :: rat where "DBL_MIN = 1 / 2 ^ 1022"
definition DBL_MAX :: rat where "DBL_MAX = 2 ^ 1024 - 2 ^ 971"

text \<open>The size limits a client asks for, as view_get_constraints reports them.\<close>

record constraints =
  k_min_w :: rat
  k_max_w :: rat
  k_min_h :: rat
  k_max_h :: rat

definition no_constraints :: constraints where
  "no_constraints = \<lparr>k_min_w = DBL_MIN, k_max_w = DBL_MAX, k_min_h = DBL_MIN, k_max_h = DBL_MAX\<rparr>"

datatype tearing_mode = TEARING_WINDOW_HINT | TEARING_OVERRIDE_FALSE | TEARING_OVERRIDE_TRUE

datatype shortcuts_inhibit = SHORTCUTS_INHIBIT_DEFAULT | SHORTCUTS_INHIBIT_ENABLE | SHORTCUTS_INHIBIT_DISABLE

text \<open>
  A rule of the configuration or the criteria of a command (struct criteria). The source keeps a
  compiled regular expression, the model its text; 0 stands for an unset number.
\<close>

datatype pattern = PATTERN_PCRE2 string | PATTERN_FOCUSED

datatype criteria_type = CT_COMMAND | CT_ASSIGN_OUTPUT | CT_ASSIGN_WORKSPACE | CT_ASSIGN_WORKSPACE_NUMBER
  | CT_NO_FOCUS

datatype urgent_pick = URGENT_LATEST | URGENT_OLDEST

datatype window_type = TYPE_NORMAL | TYPE_DIALOG | TYPE_UTILITY | TYPE_TOOLBAR | TYPE_SPLASH | TYPE_MENU
  | TYPE_DROPDOWN_MENU | TYPE_POPUP_MENU | TYPE_TOOLTIP | TYPE_NOTIFICATION

record criteria =
  cr_type :: "criteria_type option"
  cr_raw :: string
  cr_cmdlist :: "string option"
  cr_target :: "string option"
  cr_title :: "pattern option"
  cr_shell :: "pattern option"
  cr_app_id :: "pattern option"
  cr_con_mark :: "pattern option"
  cr_con_id :: "32 word"
  cr_class :: "pattern option"
  cr_id :: "32 word"
  cr_instance :: "pattern option"
  cr_window_role :: "pattern option"
  cr_window_type :: "window_type option"
  cr_all :: bool
  cr_floating :: bool
  cr_tiling :: bool
  cr_urgent :: "urgent_pick option"
  cr_workspace :: "pattern option"
  cr_pid :: int
  cr_sandbox_engine :: "pattern option"
  cr_sandbox_app_id :: "pattern option"
  cr_sandbox_instance_id :: "pattern option"
  cr_tag :: "pattern option"

record view_t =
  v_constraints :: constraints
  v_urgent :: bool
  v_urgent_timer :: bool
  v_class :: "string option"
  v_app_id :: "string option"
  v_using_csd :: bool
  v_transient_for :: "id option"
  v_title :: "string option"
  v_instance :: "string option"
  v_shell :: string
  v_window_role :: "string option"
  v_window_type :: "32 word"
  v_x11_window_id :: "32 word"
  v_x11_parent_id :: "32 word"
  v_sandbox_engine :: "string option"
  v_sandbox_app_id :: "string option"
  v_sandbox_instance_id :: "string option"
  v_tag :: "string option"
  v_natural_width :: int
  v_natural_height :: int
  v_pid :: int
  v_allow_request_urgent :: bool
  v_xdg_decoration :: bool
  v_tearing_mode :: tearing_mode
  v_max_render_time :: int
  v_shortcuts_inhibit :: shortcuts_inhibit
  v_executed_criteria :: "criteria list"

record container =
  c_view :: "view_t option"
  c_layout :: container_layout
  c_x :: rat
  c_y :: rat
  c_width :: rat
  c_height :: rat
  c_fullscreen :: fullscreen_mode
  c_workspace :: "id option"
  c_parent :: "id option"
  c_children :: "id list"
  c_border :: container_border
  c_border_thickness :: int
  c_border_top :: bool
  c_border_bottom :: bool
  c_border_left :: bool
  c_border_right :: bool
  c_content_x :: rat
  c_content_y :: rat
  c_content_width :: rat
  c_content_height :: rat
  c_saved_x :: rat
  c_saved_y :: rat
  c_saved_width :: rat
  c_saved_height :: rat
  c_width_fraction :: rat
  c_height_fraction :: rat
  c_child_total_width :: rat
  c_child_total_height :: rat
  c_is_sticky :: bool
  c_scratchpad :: bool
  c_minimized :: bool
  c_minimized_was_floating :: bool
  c_maximized :: bool
  c_max_snapshot :: "(id \<times> rat \<times> rat \<times> rat) list"
  c_saved_border :: container_border
  c_transform :: box
  c_title :: "string option"
  c_title_format :: "string option"
  c_formatted_title :: "string option"
  c_marks :: "string list"
  c_alpha :: rat
  c_prev_split_layout :: container_layout

record side_gaps =
  g_top :: int
  g_right :: int
  g_bottom :: int
  g_left :: int

record workspace =
  w_name :: string
  w_representation :: string
  w_x :: rat
  w_y :: rat
  w_width :: int
  w_height :: int
  w_layout :: container_layout
  w_prev_split_layout :: container_layout
  w_current_gaps :: side_gaps
  w_gaps_inner :: int
  w_gaps_outer :: side_gaps
  w_output :: "id option"
  w_floating :: "id list"
  w_tiling :: "id list"
  w_minimized :: "id list"
  w_fullscreen :: "id option"
  w_output_priority :: "string list"
  w_urgent :: bool
  w_focused_column_idx :: int
  w_default_float :: bool

record output_t =
  o_name :: string
  o_identifier :: string
  o_lx :: int
  o_ly :: int
  o_width :: int
  o_height :: int
  o_usable_area :: box
  o_enabled :: bool
  o_workspaces :: "id list"
  o_scale :: rat
  o_mode_width :: int
  o_mode_height :: int

record node_info =
  n_dirty :: bool
  n_destroying :: bool
  n_ntxnrefs :: nat

text \<open>The nodes a seat has seen, most recently focused first.\<close>

record seat =
  s_name :: string
  s_focus_stack :: "node list"
  s_has_focus :: bool
  s_workspace :: "id option"
  s_prev_workspace_name :: "string option"
  s_cursor_x :: rat
  s_cursor_y :: rat
  s_deferred_bindings :: "sway_binding list"

datatype smart_gaps = SMART_GAPS_OFF | SMART_GAPS_ON | SMART_GAPS_INVERSE_OUTER

datatype edge_borders = E_NONE | E_VERTICAL | E_HORIZONTAL | E_BOTH

datatype edge_smart = ESMART_OFF | ESMART_ON | ESMART_NO_GAPS

text \<open>
  A workspace block of the configuration (struct workspace_config); INT_MIN stands for an unset gap.
\<close>

definition INT_MIN :: int where "INT_MIN = - (2 ^ 31)"
definition INT_MAX :: int where "INT_MAX = 2 ^ 31 - 1"

record ws_config =
  wc_workspace :: string
  wc_outputs :: "string list"
  wc_gaps_outer :: side_gaps
  wc_gaps_inner :: int

datatype focus_follows_mouse_mode = FOLLOWS_NO | FOLLOWS_YES | FOLLOWS_ALWAYS

datatype focus_wrapping_mode = WRAP_NO | WRAP_YES | WRAP_FORCE | WRAP_WORKSPACE

datatype mouse_warping_mode = WARP_NO | WARP_OUTPUT | WARP_CONTAINER

datatype alignment = ALIGN_LEFT | ALIGN_CENTER | ALIGN_RIGHT

datatype xwayland_mode = XWAYLAND_MODE_DISABLED | XWAYLAND_MODE_LAZY | XWAYLAND_MODE_IMMEDIATE

datatype fowa = FOWA_SMART | FOWA_URGENT | FOWA_FOCUS | FOWA_NONE

datatype popup_during_fullscreen = POPUP_SMART | POPUP_IGNORE | POPUP_LEAVE

record border_colors =
  bc_border :: "rat list"
  bc_background :: "rat list"
  bc_text :: "rat list"
  bc_indicator :: "rat list"
  bc_child_border :: "rat list"

text \<open>The rest of struct sway_config.\<close>

record options =
  op_swaynag_command :: "string option"
  op_swaybg_command :: "string option"
  op_cmd_queue :: "string list"
  op_criteria :: "criteria list"
  op_floating_mod :: "32 word"
  op_floating_mod_inverse :: bool
  op_dragging_key :: "32 word"
  op_resizing_key :: "32 word"
  op_default_layout :: container_layout
  op_font :: string
  op_focus_on_window_activation :: fowa
  op_popup_during_fullscreen :: popup_during_fullscreen
  op_xwayland :: xwayland_mode
  op_titlebar_border_thickness :: int
  op_titlebar_h_padding :: int
  op_titlebar_v_padding :: int
  op_focus_follows_mouse :: focus_follows_mouse_mode
  op_mouse_warping :: mouse_warping_mode
  op_focus_wrapping :: focus_wrapping_mode
  op_active :: bool
  op_failed :: bool
  op_reading :: bool
  op_validating :: bool
  op_title_align :: alignment
  op_primary_selection :: bool
  op_tiling_drag :: bool
  op_tiling_drag_threshold :: int
  op_border :: container_border
  op_floating_border :: container_border
  op_border_thickness :: int
  op_floating_border_thickness :: int
  op_corner_radius :: int
  op_floating_snap_threshold :: int
  op_shadow_enabled :: bool
  op_shadow_blur_radius :: int
  op_shadow_opacity :: rat
  op_shadow_color :: "rat list"
  op_opacity :: rat
  op_opacity_focused :: rat
  op_has_focused_tab_title :: bool
  op_focused :: border_colors
  op_focused_inactive :: border_colors
  op_focused_tab_title :: border_colors
  op_unfocused :: border_colors
  op_urgent :: border_colors
  op_placeholder :: border_colors
  op_background :: "rat list"
  op_modes :: "sway_mode list"
  op_current_mode :: nat
  op_binding_order :: int
  op_edge_bindings :: "edge_binding list"
  op_font_height :: int

record config =
  cfg_default_column_width_fraction :: rat
  cfg_min_column_width_fraction :: rat
  cfg_titlebar_height :: int
  cfg_reloading :: bool
  cfg_smart_gaps :: smart_gaps
  cfg_hide_edge_borders :: edge_borders
  cfg_hide_edge_borders_smart :: edge_smart
  cfg_hide_lone_tab :: bool
  cfg_popup_smart :: bool
  cfg_gaps_outer :: side_gaps
  cfg_gaps_inner :: int
  cfg_workspace_configs :: "ws_config list"
  cfg_auto_back_and_forth :: bool
  cfg_pango_markup :: bool
  cfg_show_marks :: bool
  cfg_urgent_timeout :: nat
  cfg_floating_minimum_width :: int
  cfg_floating_minimum_height :: int
  cfg_floating_maximum_width :: int
  cfg_floating_maximum_height :: int
  cfg_default_orientation :: container_layout
  cfg_symbols :: "(string \<times> string) list"
  cfg_opts :: options

datatype event = Ev_window id string | Ev_workspace "id option" "id option" string | Ev_minimize id bool
  | Ev_close id | Ev_csd id bool | Ev_mode string bool | Ev_binding sway_binding | Ev_exec string | Ev_terminate

text \<open>
  The overview (sway/desktop/overview.c): the thumbnails shown, each with the place of its picture,
  the highlighted box and the digits typed so far.
\<close>

datatype overview_scope = OVERVIEW_CURRENT | OVERVIEW_ALL | OVERVIEW_MINIMIZED

datatype overview_action = OVERVIEW_FOCUS | OVERVIEW_PULL | OVERVIEW_SWAP | OVERVIEW_RESTORE

record overview_thumbnail =
  th_con :: id
  th_ws :: id
  th_action :: overview_action
  th_w :: int
  th_h :: int
  th_dst :: box

record overview_state =
  ov_active :: bool
  ov_thumbnails :: "overview_thumbnail list"
  ov_hover :: "box option"
  ov_digit_buf :: int
  ov_digit_count :: int
  ov_focus_con :: "id option"
  ov_seat :: nat
  ov_scope :: overview_scope
  ov_action :: overview_action
  ov_content :: "32 word"
  ov_trigger_mods :: "32 word"
  ov_tab_cycled :: bool

record sway =
  cons :: "id \<Rightarrow> container"
  wss :: "id \<Rightarrow> workspace"
  outs :: "id \<Rightarrow> output_t"
  ninfo :: "node \<Rightarrow> node_info"
  next_id :: nat
  dirty_nodes :: "node list"
  outputs :: "id list"
  fallback_output :: "id option"
  scratchpad :: "id list"
  fullscreen_global :: "id option"
  root_box :: box
  seats :: "seat list"
  cfg :: config
  events :: "event list"
  overview :: overview_state

definition current_mode :: "config \<Rightarrow> sway_mode" where
  "current_mode k = op_modes (cfg_opts k) ! op_current_mode (cfg_opts k)"

section \<open>Writing through a pointer\<close>

definition upd_con :: "id \<Rightarrow> (container \<Rightarrow> container) \<Rightarrow> sway \<Rightarrow> sway" where
  "upd_con c f s = s\<lparr>cons := (cons s)(c := f (cons s c))\<rparr>"

definition upd_ws :: "id \<Rightarrow> (workspace \<Rightarrow> workspace) \<Rightarrow> sway \<Rightarrow> sway" where
  "upd_ws w f s = s\<lparr>wss := (wss s)(w := f (wss s w))\<rparr>"

definition upd_out :: "id \<Rightarrow> (output_t \<Rightarrow> output_t) \<Rightarrow> sway \<Rightarrow> sway" where
  "upd_out p f s = s\<lparr>outs := (outs s)(p := f (outs s p))\<rparr>"

definition upd_seat :: "nat \<Rightarrow> (seat \<Rightarrow> seat) \<Rightarrow> sway \<Rightarrow> sway" where
  "upd_seat k f s = s\<lparr>seats := (seats s)[k := f (seats s ! k)]\<rparr>"

definition emit :: "event \<Rightarrow> sway \<Rightarrow> sway" where
  "emit e s = s\<lparr>events := events s @ [e]\<rparr>"

lemma upd_con_simps [simp]:
  "cons (upd_con c f s) = (cons s)(c := f (cons s c))"
  "wss (upd_con c f s) = wss s" "outs (upd_con c f s) = outs s" "ninfo (upd_con c f s) = ninfo s"
  "next_id (upd_con c f s) = next_id s" "dirty_nodes (upd_con c f s) = dirty_nodes s"
  "outputs (upd_con c f s) = outputs s" "fallback_output (upd_con c f s) = fallback_output s"
  "scratchpad (upd_con c f s) = scratchpad s" "fullscreen_global (upd_con c f s) = fullscreen_global s"
  "root_box (upd_con c f s) = root_box s" "seats (upd_con c f s) = seats s"
  "cfg (upd_con c f s) = cfg s" "events (upd_con c f s) = events s" "overview (upd_con c f s) = overview s"
  by (simp_all add: upd_con_def)

lemma upd_ws_simps [simp]:
  "wss (upd_ws w f s) = (wss s)(w := f (wss s w))"
  "cons (upd_ws w f s) = cons s" "outs (upd_ws w f s) = outs s" "ninfo (upd_ws w f s) = ninfo s"
  "next_id (upd_ws w f s) = next_id s" "dirty_nodes (upd_ws w f s) = dirty_nodes s"
  "outputs (upd_ws w f s) = outputs s" "fallback_output (upd_ws w f s) = fallback_output s"
  "scratchpad (upd_ws w f s) = scratchpad s" "fullscreen_global (upd_ws w f s) = fullscreen_global s"
  "root_box (upd_ws w f s) = root_box s" "seats (upd_ws w f s) = seats s"
  "cfg (upd_ws w f s) = cfg s" "events (upd_ws w f s) = events s" "overview (upd_ws w f s) = overview s"
  by (simp_all add: upd_ws_def)

lemma upd_out_simps [simp]:
  "outs (upd_out p f s) = (outs s)(p := f (outs s p))"
  "cons (upd_out p f s) = cons s" "wss (upd_out p f s) = wss s" "ninfo (upd_out p f s) = ninfo s"
  "next_id (upd_out p f s) = next_id s" "dirty_nodes (upd_out p f s) = dirty_nodes s"
  "outputs (upd_out p f s) = outputs s" "fallback_output (upd_out p f s) = fallback_output s"
  "scratchpad (upd_out p f s) = scratchpad s" "fullscreen_global (upd_out p f s) = fullscreen_global s"
  "root_box (upd_out p f s) = root_box s" "seats (upd_out p f s) = seats s"
  "cfg (upd_out p f s) = cfg s" "events (upd_out p f s) = events s" "overview (upd_out p f s) = overview s"
  by (simp_all add: upd_out_def)

lemma upd_seat_simps [simp]:
  "seats (upd_seat k f s) = (seats s)[k := f (seats s ! k)]"
  "cons (upd_seat k f s) = cons s" "wss (upd_seat k f s) = wss s" "outs (upd_seat k f s) = outs s"
  "ninfo (upd_seat k f s) = ninfo s" "next_id (upd_seat k f s) = next_id s"
  "dirty_nodes (upd_seat k f s) = dirty_nodes s" "outputs (upd_seat k f s) = outputs s"
  "fallback_output (upd_seat k f s) = fallback_output s" "scratchpad (upd_seat k f s) = scratchpad s"
  "fullscreen_global (upd_seat k f s) = fullscreen_global s" "root_box (upd_seat k f s) = root_box s"
  "cfg (upd_seat k f s) = cfg s" "events (upd_seat k f s) = events s" "overview (upd_seat k f s) = overview s"
  by (simp_all add: upd_seat_def)

lemma emit_simps [simp]:
  "cons (emit e s) = cons s" "wss (emit e s) = wss s" "outs (emit e s) = outs s"
  "ninfo (emit e s) = ninfo s" "next_id (emit e s) = next_id s" "dirty_nodes (emit e s) = dirty_nodes s"
  "outputs (emit e s) = outputs s" "fallback_output (emit e s) = fallback_output s"
  "scratchpad (emit e s) = scratchpad s" "fullscreen_global (emit e s) = fullscreen_global s"
  "root_box (emit e s) = root_box s" "seats (emit e s) = seats s" "cfg (emit e s) = cfg s"
  "overview (emit e s) = overview s"
  by (simp_all add: emit_def)

section \<open>Nodes\<close>

text \<open>node_init: the next id, a clean node.\<close>

definition node_init :: "(id \<Rightarrow> node) \<Rightarrow> sway \<Rightarrow> id \<times> sway" where
  "node_init mk s =
     (let i = next_id s in
      (i, s\<lparr>next_id := i + 1,
            ninfo := (ninfo s)(mk i := \<lparr>n_dirty = False, n_destroying = False, n_ntxnrefs = 0\<rparr>)\<rparr>))"

fun node_type_to_str :: "node \<Rightarrow> string" where
  "node_type_to_str N_ROOT = ''root''"
| "node_type_to_str (N_OUTPUT p) = ''output''"
| "node_type_to_str (N_WORKSPACE w) = ''workspace''"
| "node_type_to_str (N_CONTAINER c) = ''container''"

definition node_set_dirty :: "node \<Rightarrow> sway \<Rightarrow> sway" where
  "node_set_dirty n s =
     (if n_dirty (ninfo s n) \<or> n_destroying (ninfo s n) then s
      else s\<lparr>ninfo := (ninfo s)(n := (ninfo s n)\<lparr>n_dirty := True\<rparr>),
             dirty_nodes := dirty_nodes s @ [n]\<rparr>)"

definition node_is_view :: "sway \<Rightarrow> node \<Rightarrow> bool" where
  "node_is_view s n = (case n of N_CONTAINER c \<Rightarrow> c_view (cons s c) \<noteq> None | _ \<Rightarrow> False)"

definition node_get_name :: "sway \<Rightarrow> (id \<Rightarrow> string option) \<Rightarrow> node \<Rightarrow> string option" where
  "node_get_name s title n =
     (case n of N_ROOT \<Rightarrow> Some ''root'' | N_OUTPUT p \<Rightarrow> Some (o_name (outs s p))
      | N_WORKSPACE w \<Rightarrow> Some (w_name (wss s w)) | N_CONTAINER c \<Rightarrow> title c)"

definition node_get_output :: "sway \<Rightarrow> node \<Rightarrow> id option" where
  "node_get_output s n =
     (case n of
        N_CONTAINER c \<Rightarrow> (case c_workspace (cons s c) of None \<Rightarrow> None | Some w \<Rightarrow> w_output (wss s w))
      | N_WORKSPACE w \<Rightarrow> w_output (wss s w)
      | N_OUTPUT p \<Rightarrow> Some p
      | N_ROOT \<Rightarrow> None)"

definition node_get_layout :: "sway \<Rightarrow> node \<Rightarrow> container_layout" where
  "node_get_layout s n =
     (case n of N_CONTAINER c \<Rightarrow> c_layout (cons s c) | N_WORKSPACE w \<Rightarrow> w_layout (wss s w)
      | _ \<Rightarrow> L_NONE)"

definition node_get_parent :: "sway \<Rightarrow> node \<Rightarrow> node option" where
  "node_get_parent s n =
     (case n of
        N_CONTAINER c \<Rightarrow>
          (case c_parent (cons s c) of Some p \<Rightarrow> Some (N_CONTAINER p)
           | None \<Rightarrow> map_option N_WORKSPACE (c_workspace (cons s c)))
      | N_WORKSPACE w \<Rightarrow> map_option N_OUTPUT (w_output (wss s w))
      | N_OUTPUT p \<Rightarrow> Some N_ROOT
      | N_ROOT \<Rightarrow> None)"

definition node_get_children :: "sway \<Rightarrow> node \<Rightarrow> id list" where
  "node_get_children s n =
     (case n of N_CONTAINER c \<Rightarrow> c_children (cons s c) | N_WORKSPACE w \<Rightarrow> w_tiling (wss s w)
      | _ \<Rightarrow> [])"

text \<open>
  The loop of node_has_ancestor. Every step goes one node up; the fuel is the longest chain there
  can be: the containers, a workspace, an output and the root.
\<close>

fun node_has_ancestor_loop :: "nat \<Rightarrow> sway \<Rightarrow> node option \<Rightarrow> node \<Rightarrow> bool" where
  "node_has_ancestor_loop 0 s parent ancestor = False"
| "node_has_ancestor_loop (Suc fuel) s parent ancestor =
     (case parent of None \<Rightarrow> False
      | Some p \<Rightarrow>
          if p = ancestor then True
          else if ancestor = N_ROOT \<and>
            (case p of N_CONTAINER c \<Rightarrow> c_fullscreen (cons s c) = FULLSCREEN_GLOBAL | _ \<Rightarrow> False)
          then True
          else node_has_ancestor_loop fuel s (node_get_parent s p) ancestor)"

definition node_has_ancestor :: "sway \<Rightarrow> node \<Rightarrow> node \<Rightarrow> bool" where
  "node_has_ancestor s n ancestor =
     (if ancestor = N_ROOT \<and>
         (case n of N_CONTAINER c \<Rightarrow> c_fullscreen (cons s c) = FULLSCREEN_GLOBAL | _ \<Rightarrow> False)
      then True
      else node_has_ancestor_loop (next_id s + 3) s (node_get_parent s n) ancestor)"

section \<open>What marking a node dirty keeps\<close>

lemma node_set_dirty_simps [simp]:
  "cons (node_set_dirty n s) = cons s" "wss (node_set_dirty n s) = wss s"
  "outs (node_set_dirty n s) = outs s" "next_id (node_set_dirty n s) = next_id s"
  "outputs (node_set_dirty n s) = outputs s" "fallback_output (node_set_dirty n s) = fallback_output s"
  "scratchpad (node_set_dirty n s) = scratchpad s"
  "fullscreen_global (node_set_dirty n s) = fullscreen_global s"
  "root_box (node_set_dirty n s) = root_box s" "seats (node_set_dirty n s) = seats s"
  "cfg (node_set_dirty n s) = cfg s" "events (node_set_dirty n s) = events s" "overview (node_set_dirty n s) = overview s"
  by (simp_all add: node_set_dirty_def)

text \<open>The list of dirty nodes holds exactly the nodes marked dirty, each once.\<close>

definition dirty_ok :: "sway \<Rightarrow> bool" where
  "dirty_ok s \<longleftrightarrow> distinct (dirty_nodes s) \<and> (\<forall>n. n_dirty (ninfo s n) \<longleftrightarrow> n \<in> set (dirty_nodes s))"

lemma node_set_dirty_ok [invars]: "dirty_ok s \<Longrightarrow> dirty_ok (node_set_dirty n s)"
  by (auto simp: dirty_ok_def node_set_dirty_def)

lemma node_set_dirty_in:
  "dirty_ok s \<Longrightarrow> \<not> n_destroying (ninfo s n) \<Longrightarrow> n \<in> set (dirty_nodes (node_set_dirty n s))"
  by (auto simp: dirty_ok_def node_set_dirty_def)

section \<open>New objects\<close>

text \<open>
  The zeroed memory of a container, a workspace and an output.
\<close>

definition box_zero :: box where
  "box_zero = \<lparr>b_x = 0, b_y = 0, b_width = 0, b_height = 0\<rparr>"

definition con_zero :: container where
  "con_zero = \<lparr>c_view = None, c_layout = L_NONE, c_x = 0, c_y = 0, c_width = 0, c_height = 0,
     c_fullscreen = FULLSCREEN_NONE, c_workspace = None, c_parent = None, c_children = [],
     c_border = B_NONE, c_border_thickness = 0, c_border_top = False, c_border_bottom = False,
     c_border_left = False, c_border_right = False, c_content_x = 0, c_content_y = 0,
     c_content_width = 0, c_content_height = 0, c_saved_x = 0, c_saved_y = 0, c_saved_width = 0,
     c_saved_height = 0, c_width_fraction = 0, c_height_fraction = 0, c_child_total_width = 0,
     c_child_total_height = 0, c_is_sticky = False, c_scratchpad = False, c_minimized = False,
     c_minimized_was_floating = False, c_maximized = False, c_max_snapshot = [],
     c_saved_border = B_NONE, c_transform = box_zero, c_title = None, c_title_format = None,
     c_formatted_title = None, c_marks = [],
     c_alpha = 0, c_prev_split_layout = L_NONE\<rparr>"

definition gaps_zero :: side_gaps where
  "gaps_zero = \<lparr>g_top = 0, g_right = 0, g_bottom = 0, g_left = 0\<rparr>"

definition ws_zero :: workspace where
  "ws_zero = \<lparr>w_name = [], w_representation = [], w_x = 0, w_y = 0, w_width = 0, w_height = 0,
     w_layout = L_NONE, w_prev_split_layout = L_NONE, w_current_gaps = gaps_zero, w_gaps_inner = 0,
     w_gaps_outer = gaps_zero, w_output = None, w_floating = [], w_tiling = [], w_minimized = [],
     w_fullscreen = None, w_output_priority = [], w_urgent = False, w_focused_column_idx = 0,
     w_default_float = False\<rparr>"

text \<open>The root before anything is added to it (root_create).\<close>

definition out_zero :: output_t where
  "out_zero = \<lparr>o_name = [], o_identifier = [], o_lx = 0, o_ly = 0, o_width = 0, o_height = 0,
     o_usable_area = box_zero, o_enabled = False, o_workspaces = [],
     o_scale = 1, o_mode_width = 0, o_mode_height = 0\<rparr>"

definition overview_zero :: overview_state where
  "overview_zero = \<lparr>ov_active = False, ov_thumbnails = [], ov_hover = None, ov_digit_buf = 0, ov_digit_count = 0,
     ov_focus_con = None, ov_seat = 0, ov_scope = OVERVIEW_CURRENT, ov_action = OVERVIEW_FOCUS, ov_content = 0,
     ov_trigger_mods = 0, ov_tab_cycled = False\<rparr>"

definition root_create :: "config \<Rightarrow> sway" where
  "root_create c = \<lparr>cons = (\<lambda>_. con_zero), wss = (\<lambda>_. ws_zero), outs = (\<lambda>_. out_zero),
     ninfo = (\<lambda>_. \<lparr>n_dirty = False, n_destroying = False, n_ntxnrefs = 0\<rparr>), next_id = 1,
     dirty_nodes = [], outputs = [], fallback_output = None, scratchpad = [],
     fullscreen_global = None, root_box = box_zero, seats = [], cfg = c, events = [],
     overview = overview_zero\<rparr>"

section \<open>The default configuration\<close>

text \<open>
  config_defaults. Fractions are those of the float literals of the source; the keysym translation
  state, an object of xkbcommon, and the swaynag instance are left out.
\<close>

definition border_colors_of :: "32 word \<Rightarrow> 32 word \<Rightarrow> 32 word \<Rightarrow> 32 word \<Rightarrow> 32 word \<Rightarrow> border_colors" where
  "border_colors_of border background text indicator child =
     \<lparr>bc_border = color_to_rgba border, bc_background = color_to_rgba background, bc_text = color_to_rgba text,
      bc_indicator = color_to_rgba indicator, bc_child_border = color_to_rgba child\<rparr>"

definition border_colors_zero :: border_colors where
  "border_colors_zero = \<lparr>bc_border = [0, 0, 0, 0], bc_background = [0, 0, 0, 0], bc_text = [0, 0, 0, 0],
     bc_indicator = [0, 0, 0, 0], bc_child_border = [0, 0, 0, 0]\<rparr>"

definition default_options :: options where
  "default_options = \<lparr>op_swaynag_command = Some ''swaynag'', op_swaybg_command = Some ''swaybg'', op_cmd_queue = [],
     op_criteria = [], op_floating_mod = 0, op_floating_mod_inverse = False, op_dragging_key = 0x110,
     op_resizing_key = 0x111, op_default_layout = L_NONE, op_font = ''monospace 10'',
     op_focus_on_window_activation = FOWA_URGENT, op_popup_during_fullscreen = POPUP_SMART,
     op_xwayland = XWAYLAND_MODE_LAZY, op_titlebar_border_thickness = 1, op_titlebar_h_padding = 5,
     op_titlebar_v_padding = 4, op_focus_follows_mouse = FOLLOWS_YES, op_mouse_warping = WARP_OUTPUT,
     op_focus_wrapping = WRAP_YES, op_active = False, op_failed = False, op_reading = False,
     op_validating = False, op_title_align = ALIGN_LEFT, op_primary_selection = True, op_tiling_drag = True,
     op_tiling_drag_threshold = 9, op_border = B_NORMAL, op_floating_border = B_NORMAL,
     op_border_thickness = 2, op_floating_border_thickness = 2, op_corner_radius = 0,
     op_floating_snap_threshold = 10, op_shadow_enabled = False, op_shadow_blur_radius = 6,
     op_shadow_opacity = 1 / 2, op_shadow_color = [0, 0, 0, 1], op_opacity = 1, op_opacity_focused = -1,
     op_has_focused_tab_title = False,
     op_focused = border_colors_of 0x4C7899FF 0x285577FF 0xFFFFFFFF 0x2E9EF4FF 0x285577FF,
     op_focused_inactive = border_colors_of 0x333333FF 0x5F676AFF 0xFFFFFFFF 0x484E50FF 0x5F676AFF,
     op_focused_tab_title = border_colors_zero,
     op_unfocused = border_colors_of 0x333333FF 0x222222FF 0x888888FF 0x292D2EFF 0x222222FF,
     op_urgent = border_colors_of 0x2F343AFF 0x900000FF 0xFFFFFFFF 0x900000FF 0x900000FF,
     op_placeholder = border_colors_of 0x000000FF 0x0C0C0CFF 0xFFFFFFFF 0x000000FF 0x0C0C0CFF,
     op_background = color_to_rgba 0xFFFFFFFF,
     op_modes = [mode_named ''default'' False], op_current_mode = 0, op_binding_order = 0,
     op_edge_bindings = [], op_font_height = 0\<rparr>"

definition config_defaults :: config where
  "config_defaults = \<lparr>cfg_default_column_width_fraction = 1 / 2,
     cfg_min_column_width_fraction = 13421773 / 67108864, cfg_titlebar_height = 8, cfg_reloading = False,
     cfg_smart_gaps = SMART_GAPS_OFF, cfg_hide_edge_borders = E_NONE,
     cfg_hide_edge_borders_smart = ESMART_OFF, cfg_hide_lone_tab = False, cfg_popup_smart = True,
     cfg_gaps_outer = gaps_zero, cfg_gaps_inner = 0, cfg_workspace_configs = [],
     cfg_auto_back_and_forth = False, cfg_pango_markup = False, cfg_show_marks = True,
     cfg_urgent_timeout = 500, cfg_floating_minimum_width = 75, cfg_floating_minimum_height = 50,
     cfg_floating_maximum_width = 0, cfg_floating_maximum_height = 0, cfg_default_orientation = L_NONE,
     cfg_symbols = [], cfg_opts = default_options\<rparr>"

section \<open>A small tree\<close>

text \<open>
  The state the witnesses evaluate on: output 5 shows workspace 6, 1000 by 600 pixels, with two
  columns 1 and 2; column 1 holds the views 3 and 4, column 2 the view 7.
\<close>

definition sample_view :: view_t where
  "sample_view = \<lparr>v_constraints = no_constraints, v_urgent = False, v_urgent_timer = False, v_class = None, v_app_id = None,
     v_using_csd = False, v_transient_for = None, v_title = None, v_instance = None,
     v_shell = ''xdg_shell'', v_window_role = None, v_window_type = 0, v_x11_window_id = 0, v_x11_parent_id = 0,
     v_sandbox_engine = None, v_sandbox_app_id = None, v_sandbox_instance_id = None, v_tag = None,
     v_natural_width = 0, v_natural_height = 0, v_pid = 0,
     v_allow_request_urgent = True, v_xdg_decoration = False, v_tearing_mode = TEARING_WINDOW_HINT,
     v_max_render_time = 0, v_shortcuts_inhibit = SHORTCUTS_INHIBIT_DEFAULT, v_executed_criteria = []\<rparr>"

definition sample_cfg :: config where
  "sample_cfg = \<lparr>cfg_default_column_width_fraction = 1 / 2, cfg_min_column_width_fraction = 0,
     cfg_titlebar_height = 20, cfg_reloading = False, cfg_smart_gaps = SMART_GAPS_OFF,
     cfg_hide_edge_borders = E_NONE, cfg_hide_edge_borders_smart = ESMART_OFF,
     cfg_hide_lone_tab = False, cfg_popup_smart = False, cfg_gaps_outer = gaps_zero,
     cfg_gaps_inner = 0, cfg_workspace_configs = [], cfg_auto_back_and_forth = False,
     cfg_pango_markup = False, cfg_show_marks = False, cfg_urgent_timeout = 500,
     cfg_floating_minimum_width = 0, cfg_floating_minimum_height = 0,
     cfg_floating_maximum_width = 0, cfg_floating_maximum_height = 0, cfg_default_orientation = L_NONE,
     cfg_symbols = [], cfg_opts = default_options\<rparr>"

definition sample :: sway where
  "sample = (root_create sample_cfg)\<lparr>next_id := 8, outputs := [5],
     cons := (\<lambda>_. con_zero)(
       1 := con_zero\<lparr>c_layout := L_VERT, c_workspace := Some 6, c_children := [3, 4], c_width := 600, c_height := 600\<rparr>,
       2 := con_zero\<lparr>c_layout := L_VERT, c_workspace := Some 6, c_children := [7], c_width := 300, c_height := 600\<rparr>,
       3 := con_zero\<lparr>c_view := Some sample_view, c_workspace := Some 6, c_parent := Some 1, c_width := 600, c_height := 400, c_height_fraction := 2\<rparr>,
       4 := con_zero\<lparr>c_view := Some sample_view, c_workspace := Some 6, c_parent := Some 1, c_width := 600, c_height := 200\<rparr>,
       7 := con_zero\<lparr>c_view := Some sample_view, c_workspace := Some 6, c_parent := Some 2, c_width := 300, c_height := 600\<rparr>),
     wss := (\<lambda>_. ws_zero)(6 := ws_zero\<lparr>w_name := ''1'', w_layout := L_HORIZ, w_width := 1000, w_height := 600,
       w_output := Some 5, w_tiling := [1, 2]\<rparr>),
     outs := (\<lambda>_. out_zero)(5 := out_zero\<lparr>o_name := ''A'', o_width := 1000, o_height := 600,
       o_usable_area := \<lparr>b_x = 0, b_y = 0, b_width = 1000, b_height = 600\<rparr>, o_enabled := True, o_workspaces := [6]\<rparr>)\<rparr>"

lemmas sample_defs = sample_def root_create_def sample_cfg_def sample_view_def no_constraints_def
  con_zero_def ws_zero_def out_zero_def box_zero_def gaps_zero_def

end
