(* ===== verification/Tree_Walk.thy ===== *)
theory Tree_Walk
  imports Tree_State
begin

text \<open>
  Walking the container tree (the read-only functions of sway/tree/container.c, workspace.c and
  root.c). The source follows parent pointers upwards and child lists downwards without a bound;
  the walks here carry fuel, the number of ids handed out. Under struct_ok, which says that parent
  pointers and child lists agree and that no container is its own ancestor, that fuel is enough:
  the walks compute the ancestor relation and the descendants of a container.
\<close>

section \<open>Upwards\<close>

fun has_ancestor_loop :: "nat \<Rightarrow> sway \<Rightarrow> id \<Rightarrow> id \<Rightarrow> bool" where
  "has_ancestor_loop 0 s d a = False"
| "has_ancestor_loop (Suc n) s d a =
     (case c_parent (cons s d) of None \<Rightarrow> False
      | Some p \<Rightarrow> if p = a then True else has_ancestor_loop n s p a)"

definition container_has_ancestor :: "sway \<Rightarrow> id \<Rightarrow> id \<Rightarrow> bool" where
  "container_has_ancestor s d a = has_ancestor_loop (next_id s) s d a"

fun toplevel_loop :: "nat \<Rightarrow> sway \<Rightarrow> id \<Rightarrow> id" where
  "toplevel_loop 0 s c = c"
| "toplevel_loop (Suc n) s c =
     (case c_parent (cons s c) of None \<Rightarrow> c | Some p \<Rightarrow> toplevel_loop n s p)"

definition container_toplevel_ancestor :: "sway \<Rightarrow> id \<Rightarrow> id" where
  "container_toplevel_ancestor s c = toplevel_loop (next_id s) s c"

definition container_is_floating :: "sway \<Rightarrow> id \<Rightarrow> bool" where
  "container_is_floating s c =
     (if c_parent (cons s c) = None \<and>
         (case c_workspace (cons s c) of None \<Rightarrow> False
          | Some w \<Rightarrow> index_of c (w_floating (wss s w)) \<noteq> -1)
      then True
      else if c_scratchpad (cons s c) then True
      else False)"

definition container_is_floating_or_child :: "sway \<Rightarrow> id \<Rightarrow> bool" where
  "container_is_floating_or_child s c = container_is_floating s (container_toplevel_ancestor s c)"

fun fullscreen_or_child_loop :: "nat \<Rightarrow> sway \<Rightarrow> id \<Rightarrow> bool" where
  "fullscreen_or_child_loop 0 s c = False"
| "fullscreen_or_child_loop (Suc n) s c =
     (if c_fullscreen (cons s c) \<noteq> FULLSCREEN_NONE then True
      else case c_parent (cons s c) of None \<Rightarrow> False | Some p \<Rightarrow> fullscreen_or_child_loop n s p)"

definition container_is_fullscreen_or_child :: "sway \<Rightarrow> id \<Rightarrow> bool" where
  "container_is_fullscreen_or_child s c = fullscreen_or_child_loop (next_id s + 1) s c"

definition container_parent_layout :: "sway \<Rightarrow> id \<Rightarrow> container_layout" where
  "container_parent_layout s c =
     (case c_parent (cons s c) of Some p \<Rightarrow> c_layout (cons s p)
      | None \<Rightarrow> (case c_workspace (cons s c) of Some w \<Rightarrow> w_layout (wss s w) | None \<Rightarrow> L_NONE))"

text \<open>The sibling list is named by its owner, so that it can be read and written.\<close>

datatype list_ref = Children_of id | Tiling_of id | Floating_of id

definition container_get_siblings :: "sway \<Rightarrow> id \<Rightarrow> list_ref option" where
  "container_get_siblings s c =
     (case c_parent (cons s c) of Some p \<Rightarrow> Some (Children_of p)
      | None \<Rightarrow>
          (case c_workspace (cons s c) of None \<Rightarrow> None
           | Some w \<Rightarrow> if index_of c (w_tiling (wss s w)) \<noteq> -1 then Some (Tiling_of w)
                       else Some (Floating_of w)))"

definition list_of :: "sway \<Rightarrow> list_ref \<Rightarrow> id list" where
  "list_of s r = (case r of Children_of p \<Rightarrow> c_children (cons s p)
     | Tiling_of w \<Rightarrow> w_tiling (wss s w) | Floating_of w \<Rightarrow> w_floating (wss s w))"

definition upd_list :: "list_ref \<Rightarrow> (id list \<Rightarrow> id list) \<Rightarrow> sway \<Rightarrow> sway" where
  "upd_list r f s =
     (case r of
        Children_of p \<Rightarrow> upd_con p (\<lambda>c. c\<lparr>c_children := f (c_children c)\<rparr>) s
      | Tiling_of w \<Rightarrow> upd_ws w (\<lambda>x. x\<lparr>w_tiling := f (w_tiling x)\<rparr>) s
      | Floating_of w \<Rightarrow> upd_ws w (\<lambda>x. x\<lparr>w_floating := f (w_floating x)\<rparr>) s)"

definition container_sibling_index :: "sway \<Rightarrow> id \<Rightarrow> int option" where
  "container_sibling_index s c = map_option (\<lambda>r. index_of c (list_of s r)) (container_get_siblings s c)"

definition container_is_scratchpad_hidden :: "sway \<Rightarrow> id \<Rightarrow> bool" where
  "container_is_scratchpad_hidden s c \<longleftrightarrow> c_scratchpad (cons s c) \<and> c_workspace (cons s c) = None"

definition container_is_scratchpad_hidden_or_child :: "sway \<Rightarrow> id \<Rightarrow> bool" where
  "container_is_scratchpad_hidden_or_child s c =
     (let c = container_toplevel_ancestor s c in
      c_scratchpad (cons s c) \<and> c_workspace (cons s c) = None)"

definition container_is_sticky :: "sway \<Rightarrow> id \<Rightarrow> bool" where
  "container_is_sticky s c \<longleftrightarrow> c_is_sticky (cons s c) \<and> container_is_floating s c"

definition container_is_sticky_or_child :: "sway \<Rightarrow> id \<Rightarrow> bool" where
  "container_is_sticky_or_child s c = container_is_sticky s (container_toplevel_ancestor s c)"

text \<open>
  Whether a view is transient for another is asked of the client's toplevel
  (view_is_transient_for), the argument transient.
\<close>

definition container_is_transient_for :: "(id \<Rightarrow> id \<Rightarrow> bool) \<Rightarrow> sway \<Rightarrow> id \<Rightarrow> id \<Rightarrow> bool" where
  "container_is_transient_for transient s child ancestor \<longleftrightarrow>
     cfg_popup_smart (cfg s) \<and> c_view (cons s child) \<noteq> None \<and> c_view (cons s ancestor) \<noteq> None
     \<and> transient child ancestor"

definition container_obstructing_fullscreen_container ::
    "(id \<Rightarrow> id \<Rightarrow> bool) \<Rightarrow> sway \<Rightarrow> id \<Rightarrow> id option" where
  "container_obstructing_fullscreen_container transient s c =
     (let global =
        (case fullscreen_global s of
           Some fs \<Rightarrow>
             if c \<noteq> fs \<and> \<not> container_has_ancestor s c fs
             then (if container_is_transient_for transient s c fs then None else Some fs)
             else None
         | None \<Rightarrow> None) in
      case c_workspace (cons s c) of
        Some w \<Rightarrow>
          (case w_fullscreen (wss s w) of
             Some fs \<Rightarrow>
               if \<not> container_is_fullscreen_or_child s c
               then (if container_is_transient_for transient s c fs then None else Some fs)
               else global
           | None \<Rightarrow> global)
      | None \<Rightarrow> global)"

section \<open>Downwards\<close>

text \<open>The depth-first search of container_find_child over a list of siblings.\<close>

fun find_in :: "nat \<Rightarrow> sway \<Rightarrow> (id \<Rightarrow> bool) \<Rightarrow> id list \<Rightarrow> id option" where
  "find_in 0 s test cs = None"
| "find_in (Suc n) s test [] = None"
| "find_in (Suc n) s test (c # cs) =
     (if test c then Some c
      else case find_in n s test (c_children (cons s c)) of
             Some r \<Rightarrow> Some r
           | None \<Rightarrow> find_in (Suc n) s test cs)"

definition container_find_child :: "sway \<Rightarrow> id \<Rightarrow> (id \<Rightarrow> bool) \<Rightarrow> id option" where
  "container_find_child s c test = find_in (next_id s) s test (c_children (cons s c))"

text \<open>container_for_each_child: f may change the state, but none of the callers changes a child list.\<close>

fun for_each_in :: "nat \<Rightarrow> (id \<Rightarrow> sway \<Rightarrow> sway) \<Rightarrow> id list \<Rightarrow> sway \<Rightarrow> sway" where
  "for_each_in 0 f cs s = s"
| "for_each_in (Suc n) f [] s = s"
| "for_each_in (Suc n) f (c # cs) s =
     (let s = f c s; s = for_each_in n f (c_children (cons s c)) s in for_each_in (Suc n) f cs s)"

definition container_for_each_child :: "id \<Rightarrow> (id \<Rightarrow> sway \<Rightarrow> sway) \<Rightarrow> sway \<Rightarrow> sway" where
  "container_for_each_child c f s = for_each_in (next_id s) f (c_children (cons s c)) s"

definition set_workspace :: "id \<Rightarrow> sway \<Rightarrow> sway" where
  "set_workspace c s =
     (case c_parent (cons s c) of None \<Rightarrow> s
      | Some p \<Rightarrow> upd_con c (\<lambda>x. x\<lparr>c_workspace := c_workspace (cons s p)\<rparr>) s)"

definition container_has_urgent_child :: "sway \<Rightarrow> id \<Rightarrow> bool" where
  "container_has_urgent_child s c =
     (container_find_child s c
        (\<lambda>d. case c_view (cons s d) of Some v \<Rightarrow> v_urgent v | None \<Rightarrow> False) \<noteq> None)"

fun find_top :: "sway \<Rightarrow> (id \<Rightarrow> bool) \<Rightarrow> id list \<Rightarrow> id option" where
  "find_top s test [] = None"
| "find_top s test (c # cs) =
     (if test c then Some c
      else case container_find_child s c test of Some r \<Rightarrow> Some r | None \<Rightarrow> find_top s test cs)"

definition workspace_find_container :: "sway \<Rightarrow> id option \<Rightarrow> (id \<Rightarrow> bool) \<Rightarrow> id option" where
  "workspace_find_container s ws test =
     (case ws of None \<Rightarrow> None
      | Some w \<Rightarrow>
          (case find_top s test (w_tiling (wss s w)) of
             Some r \<Rightarrow> Some r
           | None \<Rightarrow> find_top s test (w_floating (wss s w))))"

fun for_each_top :: "(id \<Rightarrow> sway \<Rightarrow> sway) \<Rightarrow> id list \<Rightarrow> sway \<Rightarrow> sway" where
  "for_each_top f [] s = s"
| "for_each_top f (c # cs) s = for_each_top f cs (container_for_each_child c f (f c s))"

definition workspace_for_each_container :: "id \<Rightarrow> (id \<Rightarrow> sway \<Rightarrow> sway) \<Rightarrow> sway \<Rightarrow> sway" where
  "workspace_for_each_container w f s =
     (let s = for_each_top f (w_tiling (wss s w)) s in for_each_top f (w_floating (wss s w)) s)"

definition find_some :: "('a \<Rightarrow> 'b option) \<Rightarrow> 'a list \<Rightarrow> 'b option" where
  "find_some g xs = (case filter (\<lambda>x. g x \<noteq> None) xs of [] \<Rightarrow> None | x # _ \<Rightarrow> g x)"

definition output_find_container :: "sway \<Rightarrow> id \<Rightarrow> (id \<Rightarrow> bool) \<Rightarrow> id option" where
  "output_find_container s p test =
     find_some (\<lambda>w. workspace_find_container s (Some w) test) (o_workspaces (outs s p))"

definition output_find_workspace :: "sway \<Rightarrow> id \<Rightarrow> (id \<Rightarrow> bool) \<Rightarrow> id option" where
  "output_find_workspace s p test = List.find test (o_workspaces (outs s p))"

definition root_find_output :: "sway \<Rightarrow> (id \<Rightarrow> bool) \<Rightarrow> id option" where
  "root_find_output s test = List.find test (outputs s)"

definition root_find_workspace :: "sway \<Rightarrow> (id \<Rightarrow> bool) \<Rightarrow> id option" where
  "root_find_workspace s test = find_some (\<lambda>p. output_find_workspace s p test) (outputs s)"

definition root_find_container :: "sway \<Rightarrow> (id \<Rightarrow> bool) \<Rightarrow> id option" where
  "root_find_container s test =
     (case find_some (\<lambda>p. output_find_container s p test) (outputs s) of
        Some r \<Rightarrow> Some r
      | None \<Rightarrow>
          (case find_top s test (filter (container_is_scratchpad_hidden s) (scratchpad s)) of
             Some r \<Rightarrow> Some r
           | None \<Rightarrow>
               (case fallback_output s of None \<Rightarrow> None
                | Some p \<Rightarrow> find_some (\<lambda>w. workspace_find_container s (Some w) test)
                              (o_workspaces (outs s p)))))"

text \<open>root_for_each_container: the top level containers it visits, each followed by its descendants.\<close>

definition root_visits :: "sway \<Rightarrow> id list" where
  "root_visits s =
     concat (map (\<lambda>p. concat (map (\<lambda>w. w_tiling (wss s w) @ w_floating (wss s w)) (o_workspaces (outs s p))))
       (outputs s))
     @ filter (container_is_scratchpad_hidden s) (scratchpad s)
     @ concat (map (\<lambda>p. concat (map (\<lambda>w. w_minimized (wss s w)) (o_workspaces (outs s p)))) (outputs s))
     @ (case fallback_output s of None \<Rightarrow> []
        | Some p \<Rightarrow> concat (map (\<lambda>w. w_tiling (wss s w) @ w_floating (wss s w)) (o_workspaces (outs s p))))"

definition root_for_each_container :: "(id \<Rightarrow> sway \<Rightarrow> sway) \<Rightarrow> sway \<Rightarrow> sway" where
  "root_for_each_container f s = for_each_top f (root_visits s) s"

section \<open>The minimize pools\<close>

definition minimized_scan :: "sway \<Rightarrow> id list \<Rightarrow> id \<Rightarrow> id option" where
  "minimized_scan s workspaces c = List.find (\<lambda>w. index_of c (w_minimized (wss s w)) \<noteq> -1) workspaces"

definition workspace_minimized_owner :: "sway \<Rightarrow> id \<Rightarrow> id option" where
  "workspace_minimized_owner s c =
     (case find_some (\<lambda>p. minimized_scan s (o_workspaces (outs s p)) c) (outputs s) of
        Some w \<Rightarrow> Some w
      | None \<Rightarrow> (case fallback_output s of None \<Rightarrow> None
                | Some p \<Rightarrow> minimized_scan s (o_workspaces (outs s p)) c))"

definition workspace_minimized_remove :: "id \<Rightarrow> sway \<Rightarrow> id option \<times> sway" where
  "workspace_minimized_remove c s =
     (case workspace_minimized_owner s c of
        None \<Rightarrow> (None, s)
      | Some w \<Rightarrow> (Some w, upd_ws w (\<lambda>x. x\<lparr>w_minimized := delete_at (nat (index_of c (w_minimized x))) (w_minimized x)\<rparr>) s))"

section \<open>The ancestor relation\<close>

definition parent_rel :: "sway \<Rightarrow> (id \<times> id) set" where
  "parent_rel s = {(c, p). c_parent (cons s c) = Some p}"

text \<open>
  Parent pointers and child lists agree, ids in use have been handed out, nobody is its own
  ancestor, and a view has no children.
\<close>

definition struct_ok :: "sway \<Rightarrow> bool" where
  "struct_ok s \<longleftrightarrow>
     (\<forall>p c. c \<in> set (c_children (cons s p)) \<longleftrightarrow> c_parent (cons s c) = Some p)
     \<and> (\<forall>p. distinct (c_children (cons s p)))
     \<and> (\<forall>c p. c_parent (cons s c) = Some p \<longrightarrow> c < next_id s \<and> p < next_id s)
     \<and> acyclic (parent_rel s)
     \<and> (\<forall>c. c_view (cons s c) \<noteq> None \<longrightarrow> c_children (cons s c) = [])"

lemma struct_okD:
  assumes "struct_ok s"
  shows "\<And>c p. c \<in> set (c_children (cons s p)) \<longleftrightarrow> c_parent (cons s c) = Some p"
    and "\<And>p. distinct (c_children (cons s p))"
    and "\<And>c p. c_parent (cons s c) = Some p \<Longrightarrow> c < next_id s \<and> p < next_id s"
    and "acyclic (parent_rel s)"
    and "\<And>c. c_view (cons s c) \<noteq> None \<Longrightarrow> c_children (cons s c) = []"
  using assms unfolding struct_ok_def by blast+

definition ancestors :: "sway \<Rightarrow> id \<Rightarrow> id set" where
  "ancestors s c = {a. (c, a) \<in> (parent_rel s)\<^sup>+}"

definition descendants :: "sway \<Rightarrow> id \<Rightarrow> id set" where
  "descendants s c = {d. (d, c) \<in> (parent_rel s)\<^sup>+}"

lemma ancestors_step: "c_parent (cons s c) = Some p \<Longrightarrow> ancestors s c = insert p (ancestors s p)"
proof -
  assume p: "c_parent (cons s c) = Some p"
  then have "(c, a) \<in> (parent_rel s)\<^sup>+ \<longleftrightarrow> a = p \<or> (p, a) \<in> (parent_rel s)\<^sup>+" for a
    by (subst trancl_unfold_left) (auto simp: parent_rel_def rtrancl_eq_or_trancl)
  then show ?thesis by (auto simp: ancestors_def)
qed

lemma ancestors_none: "c_parent (cons s c) = None \<Longrightarrow> ancestors s c = {}"
  by (auto simp: ancestors_def parent_rel_def elim: tranclE dest!: tranclD)

lemma ancestors_bound:
  assumes "struct_ok s" shows "ancestors s c \<subseteq> {..<next_id s}"
proof
  fix a assume "a \<in> ancestors s c"
  then have "(c, a) \<in> (parent_rel s)\<^sup>+" by (simp add: ancestors_def)
  then show "a \<in> {..<next_id s}"
    using struct_okD(3)[OF assms] by (induction rule: trancl_induct) (auto simp: parent_rel_def)
qed

lemma not_own_ancestor: "struct_ok s \<Longrightarrow> c \<notin> ancestors s c"
  using struct_okD(4)[of s] by (simp add: acyclic_def ancestors_def)

lemma card_ancestors_less:
  assumes "struct_ok s" "c_parent (cons s c) = Some p"
  shows "card (ancestors s p) < card (ancestors s c)"
proof -
  have "finite (ancestors s c)" using ancestors_bound[OF assms(1)] finite_subset by blast
  moreover have "ancestors s p \<subset> ancestors s c"
    using ancestors_step[OF assms(2)] not_own_ancestor[OF assms(1), of p] by auto
  ultimately show ?thesis by (rule psubset_card_mono)
qed

lemma card_ancestors_bound:
  assumes "struct_ok s" shows "card (ancestors s c) < next_id s \<or> ancestors s c = {}"
proof (cases "c_parent (cons s c)")
  case None
  then show ?thesis by (simp add: ancestors_none)
next
  case (Some p)
  then have "c < next_id s" using struct_okD(3)[OF assms] by blast
  then have "ancestors s c \<subset> {..<next_id s}"
    using ancestors_bound[OF assms, of c] not_own_ancestor[OF assms, of c] by auto
  then have "card (ancestors s c) < card {..<next_id s}" by (intro psubset_card_mono) auto
  then show ?thesis by simp
qed

lemma has_ancestor_loop_iff:
  "struct_ok s \<Longrightarrow> card (ancestors s d) \<le> n \<Longrightarrow> has_ancestor_loop n s d a \<longleftrightarrow> a \<in> ancestors s d"
proof (induction n arbitrary: d)
  case 0
  then have "ancestors s d = {}" using ancestors_bound[of s d] finite_subset[of "ancestors s d"] by auto
  then show ?case by simp
next
  case (Suc n)
  show ?case
  proof (cases "c_parent (cons s d)")
    case None
    then show ?thesis by (simp add: ancestors_none)
  next
    case (Some p)
    then show ?thesis
      using Suc.IH[OF Suc.prems(1), of p] card_ancestors_less[OF Suc.prems(1) Some] Suc.prems(2)
        ancestors_step[OF Some] by auto
  qed
qed

lemma container_has_ancestor_iff:
  assumes "struct_ok s" shows "container_has_ancestor s d a \<longleftrightarrow> a \<in> ancestors s d"
  unfolding container_has_ancestor_def
  using card_ancestors_bound[OF assms, of d] by (intro has_ancestor_loop_iff[OF assms]) auto

lemma toplevel_loop_spec:
  "struct_ok s \<Longrightarrow> card (ancestors s c) \<le> n \<Longrightarrow>
   c_parent (cons s (toplevel_loop n s c)) = None
   \<and> (toplevel_loop n s c = c \<or> toplevel_loop n s c \<in> ancestors s c)"
proof (induction n arbitrary: c)
  case 0
  then have "ancestors s c = {}" using ancestors_bound[of s c] finite_subset[of "ancestors s c"] by auto
  then have "c_parent (cons s c) = None" using ancestors_step[of s c] by (cases "c_parent (cons s c)") auto
  then show ?case by simp
next
  case (Suc n)
  show ?case
  proof (cases "c_parent (cons s c)")
    case (Some p)
    then show ?thesis
      using Suc.IH[OF Suc.prems(1), of p] card_ancestors_less[OF Suc.prems(1) Some] Suc.prems(2)
        ancestors_step[OF Some] by auto
  qed simp
qed

lemma toplevel_ancestor_spec:
  assumes "struct_ok s"
  shows "c_parent (cons s (container_toplevel_ancestor s c)) = None
    \<and> (container_toplevel_ancestor s c = c \<or> container_toplevel_ancestor s c \<in> ancestors s c)"
  unfolding container_toplevel_ancestor_def
  using card_ancestors_bound[OF assms, of c] by (intro toplevel_loop_spec[OF assms]) auto

section \<open>Descendants\<close>

lemma descendants_iff: "d \<in> descendants s c \<longleftrightarrow> c \<in> ancestors s d"
  by (simp add: descendants_def ancestors_def)

lemma descendants_children:
  assumes "struct_ok s"
  shows "descendants s c = (\<Union>k\<in>set (c_children (cons s c)). insert k (descendants s k))"
proof -
  have "(d, c) \<in> (parent_rel s)\<^sup>+ \<longleftrightarrow>
      (\<exists>k\<in>set (c_children (cons s c)). d = k \<or> (d, k) \<in> (parent_rel s)\<^sup>+)" for d
  proof -
    have "(k, c) \<in> parent_rel s \<longleftrightarrow> k \<in> set (c_children (cons s c))" for k
      using struct_okD(1)[OF assms] by (simp add: parent_rel_def)
    then show ?thesis by (subst trancl_unfold_right) (auto simp: rtrancl_eq_or_trancl)
  qed
  then show ?thesis by (auto simp: descendants_def)
qed

lemma descendants_bound:
  assumes "struct_ok s" shows "descendants s c \<subseteq> {..<next_id s}"
proof
  fix d assume "d \<in> descendants s c"
  then have "(d, c) \<in> (parent_rel s)\<^sup>+" by (simp add: descendants_def)
  then show "d \<in> {..<next_id s}"
    using struct_okD(3)[OF assms] by (auto simp: parent_rel_def dest!: tranclD)
qed

lemma finite_descendants: "struct_ok s \<Longrightarrow> finite (descendants s c)"
  using descendants_bound finite_subset by blast

lemma not_own_descendant: "struct_ok s \<Longrightarrow> c \<notin> descendants s c"
  by (simp add: descendants_iff not_own_ancestor)

lemma descendants_trans: "d \<in> descendants s c \<Longrightarrow> e \<in> descendants s d \<Longrightarrow> e \<in> descendants s c"
  by (auto simp: descendants_def)

lemma card_descendants_less:
  assumes "struct_ok s" "k \<in> set (c_children (cons s c))"
  shows "card (descendants s k) < card (descendants s c)"
proof (rule psubset_card_mono[OF finite_descendants[OF assms(1)]])
  show "descendants s k \<subset> descendants s c"
    using assms(2) not_own_descendant[OF assms(1), of k] by (subst (2) descendants_children[OF assms(1)]) auto
qed

lemma card_descendants_bound:
  assumes "struct_ok s" "k \<in> set (c_children (cons s c))"
  shows "card (descendants s k) < next_id s"
proof -
  have "k < next_id s" using struct_okD(1,3)[OF assms(1)] assms(2) by blast
  then have "descendants s k \<subset> {..<next_id s}"
    using descendants_bound[OF assms(1), of k] not_own_descendant[OF assms(1), of k] by auto
  then have "card (descendants s k) < card {..<next_id s}" by (intro psubset_card_mono) auto
  then show ?thesis by simp
qed

definition subtrees :: "sway \<Rightarrow> id list \<Rightarrow> id set" where
  "subtrees s cs = (\<Union>c\<in>set cs. insert c (descendants s c))"

lemma subtrees_simps [simp]:
  "subtrees s [] = {}" "subtrees s (c # cs) = insert c (descendants s c) \<union> subtrees s cs"
  by (auto simp: subtrees_def)

lemma subtrees_children: "struct_ok s \<Longrightarrow> subtrees s (c_children (cons s c)) = descendants s c"
  by (simp add: subtrees_def descendants_children[symmetric])

lemma find_in_spec:
  "struct_ok s \<Longrightarrow> \<forall>c\<in>set cs. card (descendants s c) < n \<Longrightarrow>
   (case find_in n s test cs of Some d \<Rightarrow> d \<in> subtrees s cs \<and> test d
    | None \<Rightarrow> \<forall>d\<in>subtrees s cs. \<not> test d)"
proof (induction n s test cs rule: find_in.induct)
  case (1 s test cs)
  then show ?case by (cases cs) auto
next
  case (2 n s test)
  then show ?case by simp
next
  case (3 n s test c cs)
  show ?case
  proof (cases "test c")
    case False
    have "\<forall>k\<in>set (c_children (cons s c)). card (descendants s k) < n"
      using card_descendants_less[OF "3.prems"(1)] "3.prems"(2) by fastforce
    note IH1 = "3.IH"(1)[OF False "3.prems"(1) this, unfolded subtrees_children[OF "3.prems"(1)]]
    show ?thesis
    proof (cases "find_in n s test (c_children (cons s c))")
      case None
      then show ?thesis using "3.IH"(2)[OF False None "3.prems"(1)] "3.prems"(2) IH1 False
        by (auto split: option.splits)
    next
      case (Some d)
      then show ?thesis using IH1 False by auto
    qed
  qed simp
qed

lemma container_find_child_spec:
  assumes "struct_ok s"
  shows "(case container_find_child s c test of Some d \<Rightarrow> d \<in> descendants s c \<and> test d
          | None \<Rightarrow> \<forall>d\<in>descendants s c. \<not> test d)"
  unfolding container_find_child_def subtrees_children[OF assms, symmetric]
  by (rule find_in_spec[OF assms]) (use card_descendants_bound[OF assms] in blast)

end
