(* ===== verification/Layout.thy ===== *)
theory Layout
  imports Tree_Walk
begin

text \<open>
  Sizes (sway/tree/layout.c, the size part of container.c, view_autoconfigure of view.c): pixel
  widths and fractions of a workspace, the size limits a container inherits from its views, the
  clamps built from them, the box of a view inside its borders, and how the children of a column
  share its height.
\<close>

section \<open>Pixels and fractions\<close>

definition layout_get_default_width :: "sway \<Rightarrow> rat" where
  "layout_get_default_width s = cfg_default_column_width_fraction (cfg s)"

definition workspace_width_fraction :: "workspace \<Rightarrow> rat \<Rightarrow> rat" where
  "workspace_width_fraction ws fraction =
     (if fraction \<ge> 1 then of_int (w_width ws) else of_int (w_width ws - w_gaps_inner ws) * fraction)"

definition workspace_height_fraction :: "workspace \<Rightarrow> rat \<Rightarrow> rat" where
  "workspace_height_fraction ws fraction =
     (if fraction \<ge> 1 then of_int (w_height ws) else of_int (w_height ws - w_gaps_inner ws) * fraction)"

definition workspace_width_to_fraction :: "workspace \<Rightarrow> rat \<Rightarrow> rat" where
  "workspace_width_to_fraction ws pixel_width =
     (let divisor = of_int (w_width ws - w_gaps_inner ws) in
      if divisor > 0 then pixel_width / divisor else 0)"

definition workspace_height_to_fraction :: "workspace \<Rightarrow> rat \<Rightarrow> rat" where
  "workspace_height_to_fraction ws pixel_height =
     (let divisor = of_int (w_height ws - w_gaps_inner ws) in
      if divisor > 0 then pixel_height / divisor else 0)"

definition workspace_clamp_column_width :: "sway \<Rightarrow> workspace \<Rightarrow> rat \<Rightarrow> rat" where
  "workspace_clamp_column_width s ws pixel_width =
     (let default_w = workspace_width_fraction ws (cfg_default_column_width_fraction (cfg s));
          min_w = workspace_width_fraction ws (cfg_min_column_width_fraction (cfg s)) in
      if pixel_width \<ge> default_w \<or> pixel_width < min_w then default_w else pixel_width)"

definition column_set_width_px :: "id \<Rightarrow> rat \<Rightarrow> sway \<Rightarrow> sway" where
  "column_set_width_px col width_px s =
     (let s = upd_con col (\<lambda>c. c\<lparr>c_width := width_px\<rparr>) s in
      case c_workspace (cons s col) of
        None \<Rightarrow> s
      | Some w \<Rightarrow>
          if w_width (wss s w) > 0
          then upd_con col (\<lambda>c. c\<lparr>c_width_fraction := workspace_width_to_fraction (wss s w) width_px\<rparr>) s
          else s)"

section \<open>Size limits\<close>

definition merge_constraints :: "constraints \<Rightarrow> constraints \<Rightarrow> constraints" where
  "merge_constraints a k =
     \<lparr>k_min_w = max (k_min_w a) (k_min_w k), k_max_w = min (k_max_w a) (k_max_w k),
      k_min_h = max (k_min_h a) (k_min_h k), k_max_h = min (k_max_h a) (k_max_h k)\<rparr>"

definition view_size_constraints :: "sway \<Rightarrow> container \<Rightarrow> view_t \<Rightarrow> constraints" where
  "view_size_constraints s con v =
     (let k = v_constraints v;
          bw = of_int (if c_border con \<noteq> B_NONE then c_border_thickness con else 0);
          top = (if c_border con = B_NORMAL \<and> c_fullscreen con = FULLSCREEN_NONE
                 then of_int (cfg_titlebar_height (cfg s)) else bw) in
      \<lparr>k_min_w = (if k_min_w k \<noteq> DBL_MIN then k_min_w k + 2 * bw else DBL_MIN),
       k_max_w = (if k_max_w k \<noteq> DBL_MAX then k_max_w k + 2 * bw else DBL_MAX),
       k_min_h = (if k_min_h k \<noteq> DBL_MIN then k_min_h k + top + bw else DBL_MIN),
       k_max_h = (if k_max_h k \<noteq> DBL_MAX then k_max_h k + top + bw else DBL_MAX)\<rparr>)"

fun size_constraints_fuel :: "nat \<Rightarrow> sway \<Rightarrow> id \<Rightarrow> constraints" where
  "size_constraints_fuel 0 s c = no_constraints"
| "size_constraints_fuel (Suc n) s c =
     (case c_view (cons s c) of
        Some v \<Rightarrow> view_size_constraints s (cons s c) v
      | None \<Rightarrow> foldl (\<lambda>a k. merge_constraints a (size_constraints_fuel n s k)) no_constraints
                  (c_children (cons s c)))"

definition container_get_size_constraints :: "sway \<Rightarrow> id \<Rightarrow> constraints" where
  "container_get_size_constraints s c = size_constraints_fuel (next_id s + 1) s c"

definition clamp_box :: "constraints \<Rightarrow> container \<Rightarrow> container" where
  "clamp_box k con =
     (let w = c_width con; w = (if k_min_w k \<noteq> DBL_MIN then max w (k_min_w k) else w);
          w = (if k_max_w k \<noteq> DBL_MAX then min w (k_max_w k) else w);
          h = c_height con; h = (if k_min_h k \<noteq> DBL_MIN then max h (k_min_h k) else h);
          h = (if k_max_h k \<noteq> DBL_MAX then min h (k_max_h k) else h) in
      con\<lparr>c_width := w, c_height := h\<rparr>)"

definition container_clamp_pixels :: "id \<Rightarrow> sway \<Rightarrow> sway" where
  "container_clamp_pixels c s = upd_con c (clamp_box (container_get_size_constraints s c)) s"

definition container_clamp_size :: "id \<Rightarrow> sway \<Rightarrow> sway" where
  "container_clamp_size c s =
     (let s = upd_con c (clamp_box (container_get_size_constraints s c)) s in
      case c_workspace (cons s c) of None \<Rightarrow> s
      | Some w \<Rightarrow> upd_con c (\<lambda>x. x\<lparr>
          c_width_fraction := workspace_width_to_fraction (wss s w) (c_width x),
          c_height_fraction := workspace_height_to_fraction (wss s w) (c_height x)\<rparr>) s)"

definition tiled_clamp_width_min :: "sway \<Rightarrow> id \<Rightarrow> rat" where
  "tiled_clamp_width_min s c =
     (let k = container_get_size_constraints s c;
          min_w = (if k_min_w k \<noteq> DBL_MIN then k_min_w k else 0) in
      case c_workspace (cons s c) of
        Some w \<Rightarrow>
          if cfg_min_column_width_fraction (cfg s) > 0
          then max min_w (workspace_width_fraction (wss s w) (cfg_min_column_width_fraction (cfg s)))
          else min_w
      | None \<Rightarrow> min_w)"

definition tiled_clamp_height_min :: "sway \<Rightarrow> id \<Rightarrow> rat" where
  "tiled_clamp_height_min s c =
     (let k = container_get_size_constraints s c in if k_min_h k \<noteq> DBL_MIN then k_min_h k else 0)"

definition container_clamp_tiled_width :: "sway \<Rightarrow> id \<Rightarrow> rat \<Rightarrow> rat \<Rightarrow> rat" where
  "container_clamp_tiled_width s c desired available =
     (let k = container_get_size_constraints s c; lo = tiled_clamp_width_min s c;
          hi = (if k_max_w k \<noteq> DBL_MAX then k_max_w k else available) in
      max lo (min desired (min available hi)))"

definition container_clamp_tiled_height :: "sway \<Rightarrow> id \<Rightarrow> rat \<Rightarrow> rat \<Rightarrow> rat" where
  "container_clamp_tiled_height s c desired available =
     (let k = container_get_size_constraints s c; lo = tiled_clamp_height_min s c;
          hi = (if k_max_h k \<noteq> DBL_MAX then k_max_h k else available) in
      max lo (min desired (min available hi)))"

definition container_clamp_tiled_height_resize :: "sway \<Rightarrow> id \<Rightarrow> rat \<Rightarrow> rat \<Rightarrow> rat" where
  "container_clamp_tiled_height_resize s c desired available =
     (let k = container_get_size_constraints s c;
          lo = (if k_min_h k \<noteq> DBL_MIN then k_min_h k else 60);
          hi = (if k_max_h k \<noteq> DBL_MAX then k_max_h k else available) in
      max lo (min desired (min available hi)))"

definition container_clamp_content_size :: "container \<Rightarrow> rat \<times> rat \<Rightarrow> rat \<times> rat" where
  "container_clamp_content_size con wh =
     (case c_view con of None \<Rightarrow> wh
      | Some v \<Rightarrow>
          (case wh of (w, h) \<Rightarrow>
             let k = v_constraints v;
                 w = (if k_min_w k \<noteq> DBL_MIN then max w (k_min_w k) else w);
                 w = (if k_max_w k \<noteq> DBL_MAX then min w (k_max_w k) else w);
                 h = (if k_min_h k \<noteq> DBL_MIN then max h (k_min_h k) else h);
                 h = (if k_max_h k \<noteq> DBL_MAX then min h (k_max_h k) else h) in (w, h)))"

section \<open>Borders of a view\<close>

fun only_visible_loop :: "nat \<Rightarrow> sway \<Rightarrow> id \<Rightarrow> bool" where
  "only_visible_loop 0 s c = True"
| "only_visible_loop (Suc n) s c =
     (if container_parent_layout s c \<noteq> L_TABBED \<and> container_parent_layout s c \<noteq> L_STACKED
         \<and> (case container_get_siblings s c of None \<Rightarrow> False | Some r \<Rightarrow> length (list_of s r) > 1)
      then False
      else case c_parent (cons s c) of None \<Rightarrow> True | Some p \<Rightarrow> only_visible_loop n s p)"

definition view_is_only_visible :: "sway \<Rightarrow> id \<Rightarrow> bool" where
  "view_is_only_visible s c = only_visible_loop (next_id s + 1) s c"

fun ancestor_only_visible_loop :: "nat \<Rightarrow> sway \<Rightarrow> id \<Rightarrow> bool \<Rightarrow> bool" where
  "ancestor_only_visible_loop 0 s c only = only"
| "ancestor_only_visible_loop (Suc n) s c only =
     (let only =
        (if container_parent_layout s c \<noteq> L_TABBED \<and> container_parent_layout s c \<noteq> L_STACKED
         then (if (case container_get_siblings s c of None \<Rightarrow> False | Some r \<Rightarrow> length (list_of s r) > 1)
               then False else only)
         else True) in
      case c_parent (cons s c) of None \<Rightarrow> only | Some p \<Rightarrow> ancestor_only_visible_loop n s p only)"

definition view_ancestor_is_only_visible :: "sway \<Rightarrow> id \<Rightarrow> bool" where
  "view_ancestor_is_only_visible s c = ancestor_only_visible_loop (next_id s + 1) s c True"

definition gaps_to_edge :: "workspace \<Rightarrow> bool" where
  "gaps_to_edge ws =
     (let g = w_current_gaps ws in g_top g > 0 \<or> g_right g > 0 \<or> g_bottom g > 0 \<or> g_left g > 0)"

text \<open>The borders shown for a tiled view (view_autoconfigure, first half).\<close>

definition tiled_borders :: "sway \<Rightarrow> id \<Rightarrow> workspace \<Rightarrow> container \<Rightarrow> container" where
  "tiled_borders s c ws con =
     (let con = (if cfg_hide_edge_borders (cfg s) \<in> {E_BOTH, E_VERTICAL}
                 then con\<lparr>c_border_left := (c_x con \<noteq> w_x ws),
                          c_border_right := (of_int (c_trunc (c_x con + c_width con)) \<noteq> w_x ws + of_int (w_width ws))\<rparr>
                 else con);
          con = (if cfg_hide_edge_borders (cfg s) \<in> {E_BOTH, E_HORIZONTAL}
                 then con\<lparr>c_border_top := (c_y con \<noteq> w_y ws),
                          c_border_bottom := (of_int (c_trunc (c_y con + c_height con)) \<noteq> w_y ws + of_int (w_height ws))\<rparr>
                 else con);
          smart = (cfg_hide_edge_borders_smart (cfg s) = ESMART_ON
                   \<or> (cfg_hide_edge_borders_smart (cfg s) = ESMART_NO_GAPS \<and> \<not> gaps_to_edge ws)) in
      if smart
      then (let show_border = \<not> view_is_only_visible s c in
            con\<lparr>c_border_left := (c_border_left con \<and> show_border),
                c_border_right := (c_border_right con \<and> show_border),
                c_border_top := (c_border_top con \<and> show_border),
                c_border_bottom := (c_border_bottom con \<and> show_border)\<rparr>)
      else con)"

text \<open>The box left for the content, given the vertical offset of a title area (second half).\<close>

definition content_box :: "int \<Rightarrow> container \<Rightarrow> rat \<Rightarrow> rat \<times> rat \<times> rat \<times> rat" where
  "content_box titlebar con y_offset =
     (let b = (\<lambda>on. if on then of_int (c_border_thickness con) else 0);
          left = b (c_border_left con); right = b (c_border_right con);
          top = b (c_border_top con); bottom = b (c_border_bottom con) in
      case c_border con of
        B_PIXEL \<Rightarrow> (c_x con + left, c_y con + top + y_offset,
                   c_width con - left - right, c_height con - y_offset - top - bottom)
      | B_NORMAL \<Rightarrow>
          if y_offset \<noteq> 0
          then (c_x con + left, c_y con + y_offset,
                c_width con - left - right, c_height con - y_offset - bottom)
          else (c_x con + left, c_y con + of_int titlebar,
                c_width con - left - right, c_height con - of_int titlebar - bottom)
      | _ \<Rightarrow> (c_x con, c_y con + y_offset, c_width con, c_height con - y_offset))"

text \<open>The container with its borders decided, and the vertical offset of the title area.\<close>

definition view_borders :: "sway \<Rightarrow> id \<Rightarrow> container \<times> rat" where
  "view_borders s c =
     (let titlebar = cfg_titlebar_height (cfg s);
          con = (cons s c)\<lparr>c_border_top := True, c_border_bottom := True,
                    c_border_left := True, c_border_right := True\<rparr>;
          con = (case c_workspace con of
                   Some w \<Rightarrow> if \<not> container_is_floating_or_child s c
                             then tiled_borders s c (wss s w) con else con
                 | None \<Rightarrow> con);
          siblings = (case container_get_siblings s c of None \<Rightarrow> [] | Some r \<Rightarrow> list_of s r);
          show_titlebar = (length siblings > 1 \<or> \<not> cfg_hide_lone_tab (cfg s));
          parent_layout = container_parent_layout s c in
      if \<not> container_is_floating s c \<and> show_titlebar \<and> parent_layout = L_TABBED
      then (con\<lparr>c_border_top := False\<rparr>, of_int titlebar)
      else if \<not> container_is_floating s c \<and> show_titlebar \<and> parent_layout = L_STACKED
      then (con\<lparr>c_border_top := False\<rparr>, of_int (titlebar * int (length siblings)))
      else (con, 0))"

definition set_content :: "rat \<Rightarrow> rat \<Rightarrow> rat \<Rightarrow> rat \<Rightarrow> container \<Rightarrow> container" where
  "set_content x y w h con =
     con\<lparr>c_content_x := x, c_content_y := y, c_content_width := w, c_content_height := h\<rparr>"

definition autoconfigured :: "sway \<Rightarrow> id \<Rightarrow> container" where
  "autoconfigured s c =
     (let con = cons s c; fs = c_fullscreen con;
          ws_output = (case c_workspace con of None \<Rightarrow> None | Some w \<Rightarrow> w_output (wss s w)) in
      if container_is_scratchpad_hidden s c \<and> fs \<noteq> FULLSCREEN_GLOBAL then con
      else if ws_output \<noteq> None \<and> fs = FULLSCREEN_WORKSPACE then
        (let p = outs s (the ws_output) in
         set_content (of_int (o_lx p)) (of_int (o_ly p)) (of_int (o_width p)) (of_int (o_height p)) con)
      else if fs = FULLSCREEN_GLOBAL then
        (let r = root_box s in
         set_content (of_int (b_x r)) (of_int (b_y r)) (of_int (b_width r)) (of_int (b_height r)) con)
      else
        (case view_borders s c of (con, y_offset) \<Rightarrow>
           case content_box (cfg_titlebar_height (cfg s)) con y_offset of (x, y, w, h) \<Rightarrow>
             case container_clamp_content_size con (w, h) of (w, h) \<Rightarrow>
               set_content x y (max w 1) (max h 1) con))"

definition view_autoconfigure :: "id \<Rightarrow> sway \<Rightarrow> sway" where
  "view_autoconfigure c s = upd_con c (\<lambda>_. autoconfigured s c) s"

section \<open>Sharing the height of a column\<close>

text \<open>
  container_fit_vertical_children. hf_share is the share of one existing child before scaling; the
  list of shares runs in parallel with the children.
\<close>

definition min_share :: "sway \<Rightarrow> rat \<Rightarrow> id \<Rightarrow> rat" where
  "min_share s usable c =
     (let k = container_get_size_constraints s c in
      if k_min_h k \<noteq> DBL_MIN then k_min_h k / usable else 0)"

definition hf_share :: "sway \<Rightarrow> rat \<Rightarrow> nat \<Rightarrow> id option \<Rightarrow> id \<Rightarrow> rat" where
  "hf_share s usable n new_child c =
     (let v = (if new_child = Some c then 1 / of_nat n
               else if c_height (cons s c) > 0 then c_height (cons s c) / usable
               else 1 / of_nat (n - 1)) in
      max v (min_share s usable c))"

definition fit_shares :: "sway \<Rightarrow> rat \<Rightarrow> id list \<Rightarrow> id option \<Rightarrow> (id \<times> rat) list" where
  "fit_shares s usable cs new_child =
     (let n = length cs; has_new = (case new_child of None \<Rightarrow> False | Some c \<Rightarrow> c \<in> set cs);
          share = (\<lambda>c. hf_share s usable n new_child c);
          t_new = (case new_child of Some c \<Rightarrow> if has_new then max (1 / of_nat n) (min_share s usable c)
                                              else 1 / of_nat n
                   | None \<Rightarrow> 1 / of_nat n);
          s_old = sum_list (map share cs) - (if has_new then share (the new_child) else 0);
          k = (if s_old > 1 - t_new \<and> s_old > 0 then (1 - t_new) / s_old else 1);
          scaled = (\<lambda>c. share c * k);
          short = (\<lambda>c. if min_share s usable c > 0 \<and> scaled c < min_share s usable c
                       then min_share s usable c - scaled c else 0);
          deficit = sum_list (map (\<lambda>c. if new_child = Some c then 0 else short c) cs);
          t_new = (case new_child of
                     Some c \<Rightarrow> if deficit > 0 \<and> has_new then max (t_new - deficit) (min_share s usable c)
                               else t_new
                   | None \<Rightarrow> t_new) in
      map (\<lambda>c. (c, if new_child = Some c then t_new else scaled c + short c)) cs)"

fun set_height_fractions :: "(id \<times> rat) list \<Rightarrow> sway \<Rightarrow> sway" where
  "set_height_fractions [] s = s"
| "set_height_fractions ((c, f) # cs) s =
     set_height_fractions cs (upd_con c (\<lambda>x. x\<lparr>c_height_fraction := f\<rparr>) s)"

definition container_fit_vertical_children :: "id option \<Rightarrow> id option \<Rightarrow> sway \<Rightarrow> sway" where
  "container_fit_vertical_children col new_child s =
     (case col of None \<Rightarrow> s
      | Some p \<Rightarrow>
          if c_view (cons s p) \<noteq> None \<or> c_layout (cons s p) \<noteq> L_VERT \<or> c_children (cons s p) = [] then s
          else
            (let cs = c_children (cons s p); n = length cs;
                 gap = (case c_workspace (cons s p) of None \<Rightarrow> 0 | Some w \<Rightarrow> of_int (w_gaps_inner (wss s w)));
                 h = c_height (cons s p);
                 usable = (if h > 0 then h - gap * of_nat (n - 1) else h) in
             if usable \<le> 0
             then set_height_fractions (map (\<lambda>c. (c, 1 / of_nat n)) cs) s
             else set_height_fractions (fit_shares s usable cs new_child) s))"

section \<open>Pixels and fractions invert each other\<close>

lemma width_fraction_roundtrip:
  assumes "f < 1" "w_gaps_inner ws < w_width ws"
  shows "workspace_width_to_fraction ws (workspace_width_fraction ws f) = f"
  using assms by (simp add: workspace_width_to_fraction_def workspace_width_fraction_def Let_def)

lemma clamp_tiled_width_range:
  "tiled_clamp_width_min s c \<le> container_clamp_tiled_width s c d a
   \<and> container_clamp_tiled_width s c d a \<le> max (tiled_clamp_width_min s c) a"
  by (auto simp: container_clamp_tiled_width_def Let_def)

lemma clamp_tiled_height_range:
  "tiled_clamp_height_min s c \<le> container_clamp_tiled_height s c d a
   \<and> container_clamp_tiled_height s c d a \<le> max (tiled_clamp_height_min s c) a"
  by (auto simp: container_clamp_tiled_height_def Let_def)

text \<open>The clamp of a width that is already within the limits is that width.\<close>

lemma clamp_tiled_width_id:
  "tiled_clamp_width_min s c \<le> d \<Longrightarrow> d \<le> a \<Longrightarrow>
   d \<le> (let k = container_get_size_constraints s c in if k_max_w k \<noteq> DBL_MAX then k_max_w k else a) \<Longrightarrow>
   container_clamp_tiled_width s c d a = d"
  by (auto simp: container_clamp_tiled_width_def Let_def split: if_splits)

section \<open>Without limits\<close>

text \<open>When no view asks for a limit, no container has one.\<close>

lemma no_limits_everywhere:
  assumes "\<forall>c v. c_view (cons s c) = Some v \<longrightarrow> v_constraints v = no_constraints"
  shows "container_get_size_constraints s c = no_constraints"
proof -
  have merge: "foldl (\<lambda>a k. merge_constraints a no_constraints) no_constraints cs = no_constraints" for cs :: "id list"
    by (induction cs) (simp_all add: merge_constraints_def no_constraints_def)
  have "size_constraints_fuel n s c = no_constraints" for n
  proof (induction n arbitrary: c)
    case (Suc n)
    show ?case
    proof (cases "c_view (cons s c)")
      case None
      then show ?thesis using Suc merge by simp
    next
      case (Some v)
      then show ?thesis using assms by (simp add: view_size_constraints_def no_constraints_def Let_def)
    qed
  qed simp
  then show ?thesis by (simp add: container_get_size_constraints_def)
qed

end
