(* ===== verification/Shape.thy ===== *)
theory Shape
  imports Layout
begin

text \<open>
  What a change of geometry leaves alone. shape erases from a container its coordinates, sizes,
  fractions, borders and titles, wshape from a workspace its box, gaps and titles; two states have
  the same shape when everything else agrees, up to the dirty flags. The invariants of the tree and
  the size limits of containers only depend on the shape, so every function that only computes sizes
  keeps them (collection shape).
\<close>

named_theorems shape \<open>functions that keep the shape of the tree\<close>

definition shape_of :: "container \<Rightarrow> container" where
  "shape_of c = c\<lparr>c_x := 0, c_y := 0, c_width := 0, c_height := 0,
     c_border_top := True, c_border_bottom := True, c_border_left := True, c_border_right := True,
     c_content_x := 0, c_content_y := 0, c_content_width := 0, c_content_height := 0,
     c_saved_x := 0, c_saved_y := 0, c_saved_width := 0, c_saved_height := 0,
     c_width_fraction := 0, c_height_fraction := 0,
     c_child_total_width := 0, c_child_total_height := 0,
     c_transform := \<lparr>b_x = 0, b_y = 0, b_width = 0, b_height = 0\<rparr>, c_title := None, c_formatted_title := None\<rparr>"

definition wshape_of :: "workspace \<Rightarrow> workspace" where
  "wshape_of w = w\<lparr>w_representation := [], w_x := 0, w_y := 0, w_width := 0, w_height := 0,
     w_current_gaps := \<lparr>g_top = 0, g_right = 0, g_bottom = 0, g_left = 0\<rparr>,
     w_focused_column_idx := 0\<rparr>"

definition same_shape :: "sway \<Rightarrow> sway \<Rightarrow> bool" where
  "same_shape s s' \<longleftrightarrow>
     (\<forall>c. shape_of (cons s' c) = shape_of (cons s c)) \<and> (\<forall>w. wshape_of (wss s' w) = wshape_of (wss s w))
     \<and> outs s' = outs s \<and> next_id s' = next_id s \<and> outputs s' = outputs s
     \<and> fallback_output s' = fallback_output s \<and> scratchpad s' = scratchpad s
     \<and> fullscreen_global s' = fullscreen_global s \<and> seats s' = seats s \<and> cfg s' = cfg s"

lemma same_shape_refl [shape]: "same_shape s s"
  by (simp add: same_shape_def)

lemma same_shape_trans: "same_shape s t \<Longrightarrow> same_shape t u \<Longrightarrow> same_shape s u"
  by (simp add: same_shape_def)

lemma shape_fields:
  assumes "shape_of c' = shape_of c"
  shows "c_view c' = c_view c" "c_layout c' = c_layout c" "c_fullscreen c' = c_fullscreen c"
    "c_workspace c' = c_workspace c" "c_parent c' = c_parent c" "c_children c' = c_children c"
    "c_border c' = c_border c" "c_border_thickness c' = c_border_thickness c"
    "c_is_sticky c' = c_is_sticky c" "c_scratchpad c' = c_scratchpad c" "c_minimized c' = c_minimized c"
    "c_minimized_was_floating c' = c_minimized_was_floating c" "c_maximized c' = c_maximized c"
    "c_max_snapshot c' = c_max_snapshot c" "c_saved_border c' = c_saved_border c" "c_title_format c' = c_title_format c"
    "c_marks c' = c_marks c"
  using assms unfolding shape_of_def by (cases c; cases c'; simp)+

lemma wshape_fields:
  assumes "wshape_of w' = wshape_of w"
  shows "w_name w' = w_name w" "w_layout w' = w_layout w" "w_gaps_inner w' = w_gaps_inner w"
    "w_gaps_outer w' = w_gaps_outer w" "w_output w' = w_output w" "w_floating w' = w_floating w"
    "w_tiling w' = w_tiling w" "w_minimized w' = w_minimized w" "w_fullscreen w' = w_fullscreen w"
  using assms unfolding wshape_of_def by (cases w; cases w'; simp)+

lemma same_shape_conD: "same_shape s s' \<Longrightarrow> shape_of (cons s' c) = shape_of (cons s c)"
  by (simp add: same_shape_def)

lemma same_shape_wsD: "same_shape s s' \<Longrightarrow> wshape_of (wss s' w) = wshape_of (wss s w)"
  by (simp add: same_shape_def)

lemmas same_shape_con = shape_fields[OF same_shape_conD]

lemmas same_shape_ws = wshape_fields[OF same_shape_wsD]

lemma same_shape_rest:
  assumes "same_shape s s'"
  shows "outs s' = outs s" "next_id s' = next_id s" "outputs s' = outputs s" "scratchpad s' = scratchpad s"
    "fullscreen_global s' = fullscreen_global s" "seats s' = seats s" "cfg s' = cfg s"
    "fallback_output s' = fallback_output s"
  using assms unfolding same_shape_def by blast+

section \<open>What only depends on the shape\<close>

lemma same_shape_parent_rel: "same_shape s s' \<Longrightarrow> parent_rel s' = parent_rel s"
  by (simp add: parent_rel_def same_shape_con)

lemma same_shape_struct: "same_shape s s' \<Longrightarrow> struct_ok s \<Longrightarrow> struct_ok s'"
  unfolding struct_ok_def by (simp add: same_shape_con same_shape_rest same_shape_parent_rel)

lemma same_shape_descendants: "same_shape s s' \<Longrightarrow> descendants s' c = descendants s c"
  by (simp add: descendants_def same_shape_parent_rel)

lemma view_size_constraints_shape:
  assumes "same_shape s s'"
  shows "view_size_constraints s' (cons s' c) v = view_size_constraints s (cons s c) v"
  by (simp add: view_size_constraints_def Let_def same_shape_con[OF assms] same_shape_rest[OF assms])

lemma size_constraints_fuel_shape:
  assumes "same_shape s s'"
  shows "size_constraints_fuel n s' c = size_constraints_fuel n s c"
proof (induction n arbitrary: c)
  case (Suc n)
  show ?case
  proof (cases "c_view (cons s c)")
    case None
    then show ?thesis using Suc by (simp add: same_shape_con[OF assms])
  next
    case (Some v)
    then have "c_view (cons s' c) = Some v" by (simp add: same_shape_con[OF assms])
    with Some show ?thesis using view_size_constraints_shape[OF assms] by simp
  qed
qed simp

lemma size_constraints_shape:
  "same_shape s s' \<Longrightarrow> container_get_size_constraints s' c = container_get_size_constraints s c"
  unfolding container_get_size_constraints_def by (simp only: size_constraints_fuel_shape same_shape_rest(2))

lemma tiled_clamp_height_min_shape:
  "same_shape s s' \<Longrightarrow> tiled_clamp_height_min s' c = tiled_clamp_height_min s c"
  by (simp add: tiled_clamp_height_min_def Let_def size_constraints_shape)

lemma tiled_clamp_width_min_shape:
  "same_shape s s' \<Longrightarrow> wss s' = wss s \<Longrightarrow> tiled_clamp_width_min s' c = tiled_clamp_width_min s c"
  by (simp add: tiled_clamp_width_min_def Let_def size_constraints_shape same_shape_con same_shape_rest
      split: option.split)

lemma clamp_tiled_width_shape:
  "same_shape s s' \<Longrightarrow> wss s' = wss s \<Longrightarrow> container_clamp_tiled_width s' c d a = container_clamp_tiled_width s c d a"
  by (simp add: container_clamp_tiled_width_def Let_def size_constraints_shape tiled_clamp_width_min_shape)

lemma clamp_tiled_height_shape:
  "same_shape s s' \<Longrightarrow> container_clamp_tiled_height s' c d a = container_clamp_tiled_height s c d a"
  by (simp add: container_clamp_tiled_height_def Let_def size_constraints_shape tiled_clamp_height_min_shape)

section \<open>Writes that keep the shape\<close>

lemma same_shape_upd_con: "(\<And>x. shape_of (f x) = shape_of x) \<Longrightarrow> same_shape s (upd_con c f s)"
  by (simp add: same_shape_def)

lemmas same_shape_upd_con_after [shape] = same_shape_trans[OF _ same_shape_upd_con]

lemma same_shape_upd_con_at: "shape_of (f (cons s c)) = shape_of (cons s c) \<Longrightarrow> same_shape s (upd_con c f s)"
  by (simp add: same_shape_def)

lemmas same_shape_upd_con_at_after [shape] = same_shape_trans[OF _ same_shape_upd_con_at]

lemma same_shape_upd_ws: "(\<And>x. wshape_of (f x) = wshape_of x) \<Longrightarrow> same_shape s (upd_ws w f s)"
  by (simp add: same_shape_def)

lemmas same_shape_upd_ws_after [shape] = same_shape_trans[OF _ same_shape_upd_ws]

lemma same_shape_dirty: "same_shape s (node_set_dirty n s)"
  by (simp add: same_shape_def)

lemmas same_shape_dirty_after [shape] = same_shape_trans[OF _ same_shape_dirty]

lemma same_shape_emit: "same_shape s (emit e s)"
  by (simp add: same_shape_def)

lemmas same_shape_emit_after [shape] = same_shape_trans[OF _ same_shape_emit]

lemma shape_of_geometry [simp]:
  "shape_of (c\<lparr>c_x := a\<rparr>) = shape_of c" "shape_of (c\<lparr>c_y := a\<rparr>) = shape_of c"
  "shape_of (c\<lparr>c_width := a\<rparr>) = shape_of c" "shape_of (c\<lparr>c_height := a\<rparr>) = shape_of c"
  "shape_of (c\<lparr>c_width_fraction := a\<rparr>) = shape_of c" "shape_of (c\<lparr>c_height_fraction := a\<rparr>) = shape_of c"
  "shape_of (c\<lparr>c_child_total_width := a\<rparr>) = shape_of c" "shape_of (c\<lparr>c_child_total_height := a\<rparr>) = shape_of c"
  "shape_of (c\<lparr>c_content_x := a\<rparr>) = shape_of c" "shape_of (c\<lparr>c_content_y := a\<rparr>) = shape_of c"
  "shape_of (c\<lparr>c_content_width := a\<rparr>) = shape_of c" "shape_of (c\<lparr>c_content_height := a\<rparr>) = shape_of c"
  "shape_of (c\<lparr>c_saved_x := a\<rparr>) = shape_of c" "shape_of (c\<lparr>c_saved_y := a\<rparr>) = shape_of c"
  "shape_of (c\<lparr>c_saved_width := a\<rparr>) = shape_of c" "shape_of (c\<lparr>c_saved_height := a\<rparr>) = shape_of c"
  "shape_of (c\<lparr>c_border_top := b\<rparr>) = shape_of c" "shape_of (c\<lparr>c_border_bottom := b\<rparr>) = shape_of c"
  "shape_of (c\<lparr>c_border_left := b\<rparr>) = shape_of c" "shape_of (c\<lparr>c_border_right := b\<rparr>) = shape_of c"
  "shape_of (c\<lparr>c_title := t\<rparr>) = shape_of c" "shape_of (c\<lparr>c_formatted_title := t\<rparr>) = shape_of c" "shape_of (c\<lparr>c_transform := x\<rparr>) = shape_of c"
  unfolding shape_of_def by (cases c; simp)+

lemma wshape_of_geometry [simp]:
  "wshape_of (w\<lparr>w_x := a\<rparr>) = wshape_of w" "wshape_of (w\<lparr>w_y := a\<rparr>) = wshape_of w"
  "wshape_of (w\<lparr>w_width := i\<rparr>) = wshape_of w" "wshape_of (w\<lparr>w_height := i\<rparr>) = wshape_of w"
  "wshape_of (w\<lparr>w_current_gaps := g\<rparr>) = wshape_of w" "wshape_of (w\<lparr>w_representation := r\<rparr>) = wshape_of w"
  "wshape_of (w\<lparr>w_focused_column_idx := i\<rparr>) = wshape_of w"
  unfolding wshape_of_def by (cases w; simp)+

lemma set_height_fractions_shape: "same_shape s (set_height_fractions cs s)"
proof (induction cs arbitrary: s)
  case (Cons x cs)
  obtain c f where x: "x = (c, f)" by (cases x)
  show ?case unfolding x set_height_fractions.simps
    by (rule same_shape_trans[OF same_shape_upd_con Cons.IH]) simp
qed (simp add: same_shape_refl)

lemmas set_height_fractions_after [shape] = same_shape_trans[OF _ set_height_fractions_shape]

lemma set_height_fractions_wss [simp]: "wss (set_height_fractions cs s) = wss s"
  by (induction cs arbitrary: s) auto

lemma fit_vertical_shape: "same_shape s (container_fit_vertical_children col new s)"
  by (auto simp: container_fit_vertical_children_def Let_def set_height_fractions_shape same_shape_refl
      split: option.splits)

lemmas fit_vertical_after [shape] = same_shape_trans[OF _ fit_vertical_shape]

lemma fit_vertical_wss [simp]: "wss (container_fit_vertical_children col new s) = wss s"
  by (auto simp: container_fit_vertical_children_def Let_def split: option.splits)

lemma shape_of_tiled_borders [simp]: "shape_of (tiled_borders s c ws con) = shape_of con"
  by (simp add: tiled_borders_def Let_def)

lemma shape_of_set_content [simp]: "shape_of (set_content x y w h con) = shape_of con"
  by (simp add: set_content_def)

lemma shape_of_view_borders: "shape_of (fst (view_borders s c)) = shape_of (cons s c)"
  by (auto simp: view_borders_def Let_def split: option.splits)

lemma shape_of_autoconfigured [simp]: "shape_of (autoconfigured s c) = shape_of (cons s c)"
  using shape_of_view_borders[of s c] by (auto simp: autoconfigured_def Let_def split: prod.splits)

lemma view_autoconfigure_shape: "same_shape s (view_autoconfigure c s)"
  unfolding view_autoconfigure_def by (rule same_shape_upd_con_at) simp

lemmas view_autoconfigure_after [shape] = same_shape_trans[OF _ view_autoconfigure_shape]

lemma view_autoconfigure_wss [simp]: "wss (view_autoconfigure c s) = wss s"
  by (simp add: view_autoconfigure_def)

end
