(* ===== verification/Viewport.thy ===== *)
theory Viewport
  imports Shape
begin

text \<open>
  The column layout (sway/tree/viewport.c and the sizing functions of workspace.c that use it):
  the heights of the windows of a column, the widths of the columns of a workspace, and how a row
  makes room for a column or fills the room a column leaves. The functions that compute sizes are
  separated from the writes to the containers.
\<close>

section \<open>Heights in a column\<close>

definition child_hf :: "sway \<Rightarrow> id \<Rightarrow> rat" where
  "child_hf s c = (if c_height_fraction (cons s c) > 0 then c_height_fraction (cons s c) else 1)"

text \<open>
  One pass of the redistribution: rows pairs a child with its height; the leftover is updated
  after every child, the sum of the flexible fractions is the one at the start of the pass.
\<close>

definition is_flexible :: "sway \<Rightarrow> rat \<Rightarrow> rat \<Rightarrow> id \<times> rat \<Rightarrow> bool" where
  "is_flexible s usable leftover row =
     (case row of (c, h) \<Rightarrow>
        (leftover > 0 \<and> h < container_clamp_tiled_height s c usable usable)
        \<or> (leftover < 0 \<and> h > tiled_clamp_height_min s c))"

fun redistribute :: "sway \<Rightarrow> rat \<Rightarrow> rat \<Rightarrow> (id \<times> rat) list \<Rightarrow> rat \<Rightarrow> (id \<times> rat) list \<times> rat" where
  "redistribute s usable flex_sum [] leftover = ([], leftover)"
| "redistribute s usable flex_sum ((c, h) # rows) leftover =
     (if (leftover > 0 \<and> h \<ge> container_clamp_tiled_height s c usable usable)
         \<or> (leftover < 0 \<and> h \<le> tiled_clamp_height_min s c)
      then (case redistribute s usable flex_sum rows leftover of (rs, l) \<Rightarrow> ((c, h) # rs, l))
      else (let want = h + leftover * (child_hf s c / flex_sum);
                next = container_clamp_tiled_height s c want usable in
            case redistribute s usable flex_sum rows (leftover - (next - h)) of
              (rs, l) \<Rightarrow> ((c, next) # rs, l)))"

fun height_passes :: "nat \<Rightarrow> sway \<Rightarrow> rat \<Rightarrow> (id \<times> rat) list \<Rightarrow> rat \<Rightarrow> (id \<times> rat) list \<times> rat" where
  "height_passes 0 s usable rows leftover = (rows, leftover)"
| "height_passes (Suc n) s usable rows leftover =
     (if leftover = 0 then (rows, leftover)
      else (let flex_sum = sum_list (map (\<lambda>r. child_hf s (fst r)) (filter (is_flexible s usable leftover) rows)) in
            if flex_sum \<le> 0 then (rows, leftover)
            else (case redistribute s usable flex_sum rows leftover of
                    (rows, leftover) \<Rightarrow> height_passes n s usable rows leftover)))"

definition window_heights :: "sway \<Rightarrow> rat \<Rightarrow> id list \<Rightarrow> (id \<times> rat) list" where
  "window_heights s usable cs =
     (if sum_list (map (tiled_clamp_height_min s) cs) > usable
      then map (\<lambda>c. (c, tiled_clamp_height_min s c)) cs
      else
        (let total_hf = sum_list (map (child_hf s) cs);
             rows = map (\<lambda>c. (c, container_clamp_tiled_height s c (usable * (child_hf s c / total_hf)) usable)) cs;
             leftover = usable - sum_list (map snd rows) in
         case height_passes 2 s usable rows leftover of
           (rows, leftover) \<Rightarrow>
             if leftover \<noteq> 0 \<and> rows \<noteq> []
             then (let (c, h) = last rows in
                   butlast rows @ [(c, container_clamp_tiled_height s c (h + leftover) usable)])
             else rows))"

fun place_windows :: "id \<Rightarrow> rat \<Rightarrow> rat \<Rightarrow> (id \<times> rat) list \<Rightarrow> sway \<Rightarrow> sway" where
  "place_windows col gap y [] s = s"
| "place_windows col gap y ((c, h) # rows) s =
     (let p = cons s col;
          s = upd_con c (\<lambda>x. x\<lparr>c_height := h, c_x := c_x p, c_y := c_y p + y, c_width := c_width p\<rparr>) s;
          s = node_set_dirty (N_CONTAINER c) s;
          s = (if c_view (cons s c) \<noteq> None then view_autoconfigure c s else s) in
      place_windows col gap (y + h + gap) rows s)"

definition viewport_arrange_windows :: "id \<Rightarrow> sway \<Rightarrow> sway" where
  "viewport_arrange_windows col s =
     (if c_view (cons s col) \<noteq> None \<or> c_children (cons s col) = [] then s
      else
        (let cs = c_children (cons s col); n = length cs;
             gap = (case c_workspace (cons s col) of None \<Rightarrow> 0 | Some w \<Rightarrow> of_int (w_gaps_inner (wss s w)));
             usable = max 0 (c_height (cons s col) - gap * of_nat (n - 1)) in
         place_windows col gap 0 (window_heights s usable cs) s))"

section \<open>Widths of a row\<close>

definition col_width_headroom :: "sway \<Rightarrow> id \<Rightarrow> rat \<Rightarrow> rat" where
  "col_width_headroom s col width =
     (let k = container_get_size_constraints s col in
      if k_max_w k \<noteq> DBL_MAX then max 0 (k_max_w k - width) else DBL_MAX)"

text \<open>
  The rows of the underflow loop hold a column, its width and whether it is locked; headroom is
  col_width_headroom in this state. One round hands out the spare width from left to right.
\<close>

fun grow_round :: "(id \<Rightarrow> rat \<Rightarrow> rat) \<Rightarrow> rat \<Rightarrow> rat \<Rightarrow> nat \<Rightarrow> (id \<times> rat \<times> bool) list \<Rightarrow> rat
    \<Rightarrow> (id \<times> rat \<times> bool) list \<times> rat" where
  "grow_round headroom spare base n [] taken = ([], taken)"
| "grow_round headroom spare base n ((c, w, locked) # rows) taken =
     (if locked \<or> spare - taken \<le> 1 / 2
      then (case grow_round headroom spare base n rows taken of (rs, t) \<Rightarrow> ((c, w, locked) # rs, t))
      else if headroom c w \<le> 1 / 2
      then (case grow_round headroom spare base n rows taken of (rs, t) \<Rightarrow> ((c, w, True) # rs, t))
      else (let share = (if base > 0 then spare * w / base else spare / of_nat n);
                grow = min (min share (headroom c w)) (spare - taken) in
            case grow_round headroom spare base n rows (taken + grow) of
              (rs, t) \<Rightarrow> ((c, w + grow, locked) # rs, t)))"

definition grow_base :: "(id \<times> rat \<times> bool) list \<Rightarrow> rat" where
  "grow_base rows = sum_list (map (\<lambda>(c, w, l). if l then 0 else w) rows)"

definition grow_room :: "(id \<Rightarrow> rat \<Rightarrow> rat) \<Rightarrow> (id \<times> rat \<times> bool) list \<Rightarrow> rat" where
  "grow_room headroom rows = sum_list (map (\<lambda>(c, w, l). if l then 0 else headroom c w) rows)"

lemma ceiling_less:
  "\<not> spare * 2 \<le> 1 \<Longrightarrow> \<not> t * 2 \<le> 1 \<Longrightarrow> \<lceil>2 * spare - 2 * t\<rceil> < \<lceil>2 * (spare :: rat)\<rceil>"
  by linarith

lemma ceiling_pos: "\<not> spare * 2 \<le> 1 \<Longrightarrow> 0 < \<lceil>2 * (spare :: rat)\<rceil>"
  by linarith

function grow_loop :: "(id \<Rightarrow> rat \<Rightarrow> rat) \<Rightarrow> nat \<Rightarrow> rat \<Rightarrow> (id \<times> rat \<times> bool) list \<Rightarrow> (id \<times> rat \<times> bool) list" where
  "grow_loop headroom n spare rows =
     (if spare \<le> 1 / 2 then rows
      else if grow_room headroom rows \<le> 1 / 2 then rows
      else case grow_round headroom spare (grow_base rows) n rows 0 of
             (rows, taken) \<Rightarrow>
               if taken \<le> 1 / 2 then rows else grow_loop headroom n (spare - taken) rows)"
  by pat_completeness auto
termination
  by (relation "measure (\<lambda>(h, n, spare, rows). nat \<lceil>2 * spare\<rceil>)") (auto simp: ceiling_less ceiling_pos)

declare grow_loop.simps [simp del]

definition column_widths :: "sway \<Rightarrow> rat \<Rightarrow> id list \<Rightarrow> rat list" where
  "column_widths s total_w cols =
     (let w = map (\<lambda>c. container_clamp_tiled_width s c (c_width (cons s c)) total_w) cols;
          total = sum_list w in
      if total > total_w \<and> total > 0
      then map (\<lambda>(c, v). container_clamp_tiled_width s c (v * (total_w / total)) total_w) (zip cols w)
      else if total < total_w - 1 / 2
      then map (\<lambda>(c, v, l). v)
             (grow_loop (col_width_headroom s) (length cols) (total_w - total)
                (map (\<lambda>(c, v). (c, v, False)) (zip cols w)))
      else w)"

section \<open>Room in a row\<close>

definition workspace_view_remaining_width :: "sway \<Rightarrow> id \<Rightarrow> int \<Rightarrow> rat" where
  "workspace_view_remaining_width s w start_index =
     (let ws = wss s w; n = int (length (w_tiling ws));
          start = (if start_index < 0 then n - 1 else start_index);
          cols = take (nat (start + 1)) (w_tiling ws);
          free = of_int (w_width ws)
            - sum_list (map (\<lambda>c. c_width (cons s c) + of_int (w_gaps_inner ws)) cols) in
      if free > 0 then free else 0)"

text \<open>
  viewport_scan_visible: the candidate indices, at most max_cand of them, and the width occupied
  by the columns that are not excluded. An exclude_idx of -1 excludes nothing.
\<close>

definition viewport_scan_visible :: "sway \<Rightarrow> id \<Rightarrow> int \<Rightarrow> bool \<Rightarrow> nat \<Rightarrow> int list \<times> rat" where
  "viewport_scan_visible s w exclude_idx exclude_occupied max_cand =
     (let ws = wss s w; idxs = [0..<length (w_tiling ws)];
          counted = filter (\<lambda>i. \<not> (exclude_occupied \<and> int i = exclude_idx)) idxs;
          sum = sum_list (map (\<lambda>i. c_width (cons s (w_tiling ws ! i))) counted);
          n = length counted;
          candidates = take max_cand (map int (filter (\<lambda>i. int i \<noteq> exclude_idx) idxs)) in
      (candidates, if n > 1 then sum + of_int (w_gaps_inner ws * (int n - 1)) else sum))"

text \<open>
  The inner loop of viewport_absorb_farthest: the slot of the candidate farthest from the focus.
  Used slots hold -1. The tie is broken by comparing the candidate with the slot found so far, as
  in the source.
\<close>

fun farthest_slot :: "int \<Rightarrow> int list \<Rightarrow> int \<Rightarrow> int \<Rightarrow> int \<Rightarrow> int" where
  "farthest_slot focus_idx [] ci farthest farthest_dist = farthest"
| "farthest_slot focus_idx (cand # cands) ci farthest farthest_dist =
     (if cand < 0 then farthest_slot focus_idx cands (ci + 1) farthest farthest_dist
      else let dist = \<bar>cand - focus_idx\<bar> in
        if dist > farthest_dist \<or> (dist = farthest_dist \<and> cand > farthest)
        then farthest_slot focus_idx cands (ci + 1) ci dist
        else farthest_slot focus_idx cands (ci + 1) farthest farthest_dist)"

fun absorb_loop :: "nat \<Rightarrow> id \<Rightarrow> int \<Rightarrow> int list \<Rightarrow> rat \<Rightarrow> sway \<Rightarrow> rat \<times> sway" where
  "absorb_loop 0 w focus_idx cands remaining s = (remaining, s)"
| "absorb_loop (Suc k) w focus_idx cands remaining s =
     (if remaining = 0 then (remaining, s)
      else (let f = farthest_slot focus_idx cands 0 (-1) (-1) in
        if f < 0 then (remaining, s)
        else (let ws = wss s w; c = w_tiling ws ! nat (cands ! nat f);
                  orig = c_width (cons s c);
                  new_cw = container_clamp_tiled_width s c (orig - remaining) (of_int (w_width ws));
                  s = upd_con c (\<lambda>x. x\<lparr>c_width := new_cw,
                        c_width_fraction := workspace_width_to_fraction ws new_cw\<rparr>) s in
              absorb_loop k w focus_idx (cands[nat f := -1]) (remaining - (orig - new_cw))
                (node_set_dirty (N_CONTAINER c) s))))"

definition viewport_absorb_farthest :: "id \<Rightarrow> int list \<Rightarrow> int \<Rightarrow> rat \<Rightarrow> sway \<Rightarrow> rat \<times> sway" where
  "viewport_absorb_farthest w candidates focus_idx remaining s =
     absorb_loop (length candidates) w focus_idx candidates remaining s"

definition viewport_visible_range :: "workspace \<Rightarrow> int \<times> int" where
  "viewport_visible_range ws =
     (if w_tiling ws \<noteq> [] then (0, int (length (w_tiling ws)) - 1) else (-1, -1))"

definition grow_column :: "id \<Rightarrow> id \<Rightarrow> rat \<Rightarrow> sway \<Rightarrow> sway" where
  "grow_column w c width s =
     node_set_dirty (N_CONTAINER c)
       (upd_con c (\<lambda>x. x\<lparr>c_width := width, c_width_fraction := workspace_width_to_fraction (wss s w) width\<rparr>) s)"

text \<open>Steps 1 and 2 of viewport_grow_to_fill: each column grows up to the default width.\<close>

fun grow_to_default :: "id \<Rightarrow> rat \<Rightarrow> id list \<Rightarrow> rat \<Rightarrow> sway \<Rightarrow> rat \<times> sway" where
  "grow_to_default w default_w [] remaining s = (remaining, s)"
| "grow_to_default w default_w (c # cs) remaining s =
     (if remaining \<le> 1 then (remaining, s)
      else (let orig = c_width (cons s c); give = min (max 0 (default_w - orig)) remaining in
            if give > 1
            then grow_to_default w default_w cs (remaining - give) (grow_column w c (orig + give) s)
            else grow_to_default w default_w cs remaining s))"

definition smallest_column :: "sway \<Rightarrow> id list \<Rightarrow> id" where
  "smallest_column s cols =
     foldl (\<lambda>m c. if c_width (cons s c) < c_width (cons s m) then c else m) (hd cols) cols"

definition viewport_grow_to_fill :: "id \<Rightarrow> int \<Rightarrow> rat \<Rightarrow> sway \<Rightarrow> int \<times> sway" where
  "viewport_grow_to_fill w col_idx freed_width s =
     (let ws = wss s w; cols = w_tiling ws in
      if cols = [] \<or> freed_width \<le> 1 then (-1, s)
      else
        (let remaining = min (freed_width + of_int (w_gaps_inner ws)) (of_int (w_width ws));
             default_w = workspace_width_fraction ws (cfg_default_column_width_fraction (cfg s));
             (remaining, s) = (if col_idx - 1 \<ge> 0
               then grow_to_default w default_w [cols ! nat (col_idx - 1)] remaining s else (remaining, s));
             (remaining, s) = grow_to_default w default_w (drop (nat col_idx) cols) remaining s;
             s = (if remaining > 1
                  then (let m = smallest_column s cols in grow_column w m (c_width (cons s m) + remaining) s)
                  else s) in
         (if col_idx - 1 \<ge> 0 then col_idx - 1 else -1, s)))"

fun grow_evenly_loop :: "id \<Rightarrow> rat \<Rightarrow> rat \<Rightarrow> rat \<Rightarrow> id list \<Rightarrow> sway \<Rightarrow> sway" where
  "grow_evenly_loop w freed give given [] s = s"
| "grow_evenly_loop w freed give given (c # cs) s =
     (let add = (if cs = [] then freed - given else give);
          new_w = min (c_width (cons s c) + add) (of_int (w_width (wss s w))) in
      grow_evenly_loop w freed give (given + add) cs (grow_column w c new_w s))"

definition viewport_grow_evenly :: "id \<Rightarrow> rat \<Rightarrow> sway \<Rightarrow> int \<times> sway" where
  "viewport_grow_evenly w freed_width s =
     (let cols = w_tiling (wss s w) in
      if cols = [] \<or> freed_width \<le> 1 then (-1, s)
      else (int (length cols) - 1,
            grow_evenly_loop w freed_width (freed_width / of_nat (length cols)) 0 cols s))"

definition make_room :: "id \<Rightarrow> int list \<Rightarrow> int \<Rightarrow> rat \<Rightarrow> sway \<Rightarrow> rat \<times> sway" where
  "make_room w vis focus_idx overflow s =
     (if overflow > 0 \<and> vis \<noteq> [] then viewport_absorb_farthest w vis focus_idx overflow s
      else (overflow, s))"

text \<open>
  workspace_fit_new_column sizes a column that was just inserted; its candidate buffer holds 32
  indices.
\<close>

definition workspace_fit_new_column :: "id \<Rightarrow> id \<Rightarrow> int \<Rightarrow> sway \<Rightarrow> sway" where
  "workspace_fit_new_column w col idx s =
     (let ws = wss s w; k = container_get_size_constraints s col;
          default_w = max (workspace_width_fraction ws (cfg_default_column_width_fraction (cfg s))) (k_min_w k);
          min_w = max (workspace_width_fraction ws (cfg_min_column_width_fraction (cfg s))) (k_min_w k);
          n = int (length (w_tiling ws));
          focus_idx = (if w_focused_column_idx ws \<ge> 0 then w_focused_column_idx ws else idx - 1);
          focus_idx = (if focus_idx < 0 then 0 else focus_idx);
          focus_idx = (if focus_idx \<ge> n then (if n > 0 then n - 1 else 0) else focus_idx);
          exclude_idx = index_of col (w_tiling ws);
          (vis, occupied) = viewport_scan_visible s w exclude_idx (exclude_idx \<ge> 0) 32;
          gap = of_int (w_gaps_inner ws);
          free = max 0 (of_int (w_width ws) - occupied - gap) in
      if free \<ge> default_w then column_set_width_px col default_w s
      else if free \<ge> min_w then column_set_width_px col free s
      else
        (case make_room w vis focus_idx (occupied + gap + default_w - of_int (w_width ws)) s of
           (overflow, s) \<Rightarrow>
             column_set_width_px col
               (if overflow > 0 then max min_w (default_w - overflow) else default_w) s))"

fun even_freed_loop :: "id \<Rightarrow> int \<Rightarrow> id list \<Rightarrow> nat \<Rightarrow> rat \<Rightarrow> sway \<Rightarrow> (int + nat \<times> rat) \<times> sway" where
  "even_freed_loop w gaps [] i remaining s = (Inr (i, remaining), s)"
| "even_freed_loop w gaps (c # cs) i remaining s =
     (if remaining \<le> 1 then (Inr (i, remaining), s)
      else if c_width (cons s c) > remaining then (Inl (int i), grow_column w c remaining s)
      else even_freed_loop w gaps cs (i + 1) (remaining - (c_width (cons s c) + of_int gaps)) s)"

definition workspace_even_freed :: "id \<Rightarrow> int \<Rightarrow> rat \<Rightarrow> sway \<Rightarrow> int \<times> sway" where
  "workspace_even_freed w column_idx freed_width s =
     (let ws = wss s w; cols = w_tiling ws in
      if cols = [] \<or> freed_width \<le> 0 then (-1, s)
      else
        (let freed_width = min (freed_width + of_int (w_gaps_inner ws)) (of_int (w_width ws));
             (last_vis, s) = viewport_grow_evenly w freed_width s in
         if last_vis \<ge> 0 then (last_vis, s)
         else
           (let start = (if column_idx < int (length cols) then column_idx else int (length cols) - 1) in
            case even_freed_loop w (w_gaps_inner ws) (drop (nat start) cols) (nat start) freed_width s of
              (Inl i, s) \<Rightarrow> (i, s)
            | (Inr (i, remaining), s) \<Rightarrow>
                (start, if remaining > 1 \<and> int i > start
                        then (let c = cols ! (i - 1) in grow_column w c (c_width (cons s c) + remaining) s)
                        else s))))"

section \<open>Arithmetic of a round\<close>

lemma grow_round_sum:
  "grow_round hr spare base n rows taken = (rs, t) \<Longrightarrow>
   map fst rs = map fst rows
   \<and> sum_list (map (fst \<circ> snd) rs) - sum_list (map (fst \<circ> snd) rows) = t - taken"
proof (induction rows arbitrary: taken rs t)
  case (Cons r rows)
  obtain c w l where r: "r = (c, w, l)" by (cases r)
  show ?case
    using Cons.prems Cons.IH unfolding r
    by (auto simp: Let_def split: prod.splits if_splits)
qed simp

lemma grow_round_bound:
  "grow_round hr spare base n rows taken = (rs, t) \<Longrightarrow> taken \<le> spare \<Longrightarrow> t \<le> spare"
proof (induction rows arbitrary: taken rs t)
  case (Cons r rows)
  obtain c w l where r: "r = (c, w, l)" by (cases r)
  show ?case
    using Cons.prems Cons.IH unfolding r
    by (auto simp: Let_def split: prod.splits if_splits)
qed simp

text \<open>The underflow loop keeps the columns, and never hands out more than the spare width.\<close>

lemma grow_loop_spec:
  "0 \<le> spare \<Longrightarrow>
   map fst (grow_loop hr n spare rows) = map fst rows
   \<and> sum_list (map (fst \<circ> snd) (grow_loop hr n spare rows)) \<le> sum_list (map (fst \<circ> snd) rows) + spare"
proof (induction hr n spare rows rule: grow_loop.induct)
  case (1 hr n spare rows)
  show ?case
  proof (cases "spare \<le> 1 / 2 \<or> grow_room hr rows \<le> 1 / 2")
    case True
    then show ?thesis using "1.prems" by (auto simp: grow_loop.simps)
  next
    case False
    obtain rs t where g: "grow_round hr spare (grow_base rows) n rows 0 = (rs, t)" by fastforce
    note s = grow_round_sum[OF g] and b = grow_round_bound[OF g]
    show ?thesis
    proof (cases "t \<le> 1 / 2")
      case True
      have "grow_loop hr n spare rows = rs" using False True g by (subst grow_loop.simps) simp
      then show ?thesis using s b "1.prems" by (auto simp: comp_def)
    next
      case F: False
      have "grow_loop hr n spare rows = grow_loop hr n (spare - t) rs"
        using False F g by (subst grow_loop.simps) simp
      moreover have "0 \<le> spare - t" using b "1.prems" by simp
      ultimately show ?thesis using 1(1)[OF _ _ g[symmetric] F] False s by (auto simp: comp_def)
    qed
  qed
qed

section \<open>Only sizes change\<close>

lemma place_windows_shape: "same_shape s (place_windows col gap y rows s)"
proof (induction rows arbitrary: y s)
  case (Cons r rows)
  obtain c h where r: "r = (c, h)" by (cases r)
  show ?case unfolding r place_windows.simps Let_def
    by (rule same_shape_trans[OF _ Cons.IH]) (auto intro!: shape)
qed (simp add: same_shape_refl)

lemmas place_windows_after [shape] = same_shape_trans[OF _ place_windows_shape]

lemma viewport_arrange_windows_shape: "same_shape s (viewport_arrange_windows col s)"
  by (simp add: viewport_arrange_windows_def Let_def place_windows_shape same_shape_refl)

lemmas viewport_arrange_windows_after [shape] = same_shape_trans[OF _ viewport_arrange_windows_shape]

lemma grow_column_shape: "same_shape s (grow_column w c width s)"
  unfolding grow_column_def by (auto intro!: shape)

lemmas grow_column_after [shape] = same_shape_trans[OF _ grow_column_shape]

lemma grow_column_wss [simp]: "wss (grow_column w c width s) = wss s"
  by (simp add: grow_column_def)

lemma column_set_width_px_shape: "same_shape s (column_set_width_px col width s)"
  unfolding column_set_width_px_def Let_def by (auto intro!: shape split: option.splits)

lemmas column_set_width_px_after [shape] = same_shape_trans[OF _ column_set_width_px_shape]

lemma absorb_loop_shape: "same_shape s (snd (absorb_loop k w f cands r s))"
proof (induction k arbitrary: cands r s)
  case (Suc k)
  show ?case unfolding absorb_loop.simps Let_def
    by (auto intro!: same_shape_trans[OF _ Suc.IH] shape)
qed (simp add: same_shape_refl)

lemma viewport_absorb_farthest_shape:
  "same_shape s (snd (viewport_absorb_farthest w cands f r s))"
  by (simp add: viewport_absorb_farthest_def absorb_loop_shape)

lemmas viewport_absorb_farthest_after [shape] = same_shape_trans[OF _ viewport_absorb_farthest_shape]

lemma grow_to_default_shape: "same_shape s (snd (grow_to_default w d cs r s))"
proof (induction cs arbitrary: r s)
  case (Cons c cs)
  have "same_shape s (snd (grow_to_default w d cs r' (grow_column w c width s)))" for r' width
    by (rule same_shape_trans[OF grow_column_shape Cons.IH])
  then show ?case using Cons.IH by (simp add: Let_def same_shape_refl)
qed (simp add: same_shape_refl)

lemma grow_evenly_loop_shape: "same_shape s (grow_evenly_loop w f g given cs s)"
proof (induction cs arbitrary: given s)
  case (Cons c cs)
  show ?case unfolding grow_evenly_loop.simps Let_def
    by (rule same_shape_trans[OF grow_column_shape Cons.IH])
qed (simp add: same_shape_refl)

lemma make_room_shape: "make_room w vis f r s = (v, s') \<Longrightarrow> same_shape s s'"
  using viewport_absorb_farthest_shape[of s w vis f r]
  by (auto simp: make_room_def same_shape_refl split: if_splits)

lemma same_shape_if: "same_shape s a \<Longrightarrow> same_shape s b \<Longrightarrow> same_shape s (if P then a else b)"
  by simp

lemma workspace_fit_new_column_shape: "same_shape s (workspace_fit_new_column w col idx s)"
  unfolding workspace_fit_new_column_def Let_def
  by (simp only: split: prod.split)
    (intro allI impI same_shape_if column_set_width_px_shape same_shape_trans[OF make_room_shape column_set_width_px_shape];
     assumption)

lemmas workspace_fit_new_column_after [shape] = same_shape_trans[OF _ workspace_fit_new_column_shape]

end
