(* ===== verification/Viewport_Laws.thy ===== *)
theory Viewport_Laws
  imports Viewport
begin

text \<open>
  The laws of the column layout: heights respect the limits of the windows and are proportional
  when no limit binds, widths fit the workspace and fill it when no limit binds, and absorbing an
  overflow conserves pixels.
\<close>

section \<open>Heights\<close>

lemma clamp_height_lo: "tiled_clamp_height_min s c \<le> container_clamp_tiled_height s c d a"
  using clamp_tiled_height_range by blast

lemma redistribute_spec:
  "redistribute s u fs rows l = (rs, l') \<Longrightarrow>
   \<forall>r\<in>set rows. tiled_clamp_height_min s (fst r) \<le> snd r \<Longrightarrow>
   map fst rs = map fst rows \<and> (\<forall>r\<in>set rs. tiled_clamp_height_min s (fst r) \<le> snd r)
   \<and> sum_list (map snd rs) + l' = sum_list (map snd rows) + l"
proof (induction rows arbitrary: l rs l')
  case (Cons r rows)
  obtain c h where r: "r = (c, h)" by (cases r)
  show ?case
  proof (cases "(l > 0 \<and> h \<ge> container_clamp_tiled_height s c u u)
         \<or> (l < 0 \<and> h \<le> tiled_clamp_height_min s c)")
    case True
    obtain rs' l'' where q: "redistribute s u fs rows l = (rs', l'')" by fastforce
    have "rs = (c, h) # rs'" "l' = l''" using Cons.prems(1) True q by (simp_all add: r)
    then show ?thesis using Cons.IH[OF q] Cons.prems(2) by (simp add: r)
  next
    case False
    define nxt where "nxt = container_clamp_tiled_height s c (h + l * (child_hf s c / fs)) u"
    obtain rs' l'' where q: "redistribute s u fs rows (l - (nxt - h)) = (rs', l'')" by fastforce
    have "rs = (c, nxt) # rs'" "l' = l''"
      using Cons.prems(1) False q unfolding r redistribute.simps Let_def nxt_def by (simp_all del: redistribute.simps)
    moreover have "tiled_clamp_height_min s c \<le> nxt" unfolding nxt_def by (rule clamp_height_lo)
    ultimately show ?thesis using Cons.IH[OF q] Cons.prems(2) by (simp add: r)
  qed
qed simp

lemma height_passes_spec:
  "height_passes n s u rows l = (rs, l') \<Longrightarrow>
   \<forall>r\<in>set rows. tiled_clamp_height_min s (fst r) \<le> snd r \<Longrightarrow>
   map fst rs = map fst rows \<and> (\<forall>r\<in>set rs. tiled_clamp_height_min s (fst r) \<le> snd r)
   \<and> sum_list (map snd rs) + l' = sum_list (map snd rows) + l"
proof (induction n arbitrary: rows l)
  case (Suc n)
  define fs where "fs = sum_list (map (\<lambda>r. child_hf s (fst r)) (filter (is_flexible s u l) rows))"
  show ?case
  proof (cases "l = 0 \<or> fs \<le> 0")
    case True
    then show ?thesis using Suc.prems unfolding height_passes.simps Let_def fs_def by (auto split: if_splits)
  next
    case False
    obtain rs1 l1 where q: "redistribute s u fs rows l = (rs1, l1)" by fastforce
    have h: "height_passes n s u rs1 l1 = (rs, l')"
      using Suc.prems(1) False q unfolding height_passes.simps Let_def fs_def[symmetric] by simp
    note spec = redistribute_spec[OF q Suc.prems(2)]
    show ?thesis using Suc.IH[OF h] spec by simp
  qed
qed simp

lemma window_heights_general:
  "map fst (window_heights s u cs) = cs
   \<and> (\<forall>r\<in>set (window_heights s u cs). tiled_clamp_height_min s (fst r) \<le> snd r)"
proof (cases "sum_list (map (tiled_clamp_height_min s) cs) > u")
  case True
  then show ?thesis by (simp add: window_heights_def comp_def)
next
  case False
  define rows where "rows = map (\<lambda>c. (c, container_clamp_tiled_height s c
      (u * (child_hf s c / sum_list (map (child_hf s) cs))) u)) cs"
  define l where "l = u - sum_list (map snd rows)"
  obtain rs l' where q: "height_passes 2 s u rows l = (rs, l')" by fastforce
  have lo: "\<forall>r\<in>set rows. tiled_clamp_height_min s (fst r) \<le> snd r"
    by (auto simp: rows_def clamp_height_lo)
  have spec: "map fst rs = cs" "\<forall>r\<in>set rs. tiled_clamp_height_min s (fst r) \<le> snd r"
    using height_passes_spec[OF q lo] by (simp_all add: rows_def comp_def)
  have w: "window_heights s u cs = (if l' \<noteq> 0 \<and> rs \<noteq> []
      then butlast rs @ [(fst (last rs), container_clamp_tiled_height s (fst (last rs)) (snd (last rs) + l') u)]
      else rs)"
    using False q unfolding window_heights_def Let_def rows_def l_def
    by (simp add: case_prod_beta)
  show ?thesis
  proof (cases "l' \<noteq> 0 \<and> rs \<noteq> []")
    case True
    have "map fst (butlast rs @ [(fst (last rs), v)]) = cs" for v
      using True spec(1) by (metis (no_types, lifting) append_butlast_last_id fst_conv list.simps(8,9) map_append)
    moreover have "set (butlast rs) \<subseteq> set rs" using in_set_butlastD by fastforce
    ultimately show ?thesis unfolding w using True spec(2) clamp_height_lo by auto
  next
    case False
    then have "window_heights s u cs = rs" unfolding w by (rule if_not_P)
    then show ?thesis using spec by simp
  qed
qed

text \<open>When no limit binds, the shares are exact and nothing is left to redistribute.\<close>

definition height_free :: "sway \<Rightarrow> rat \<Rightarrow> id \<Rightarrow> rat \<Rightarrow> bool" where
  "height_free s u c h \<longleftrightarrow> container_clamp_tiled_height s c h u = h"

lemma window_heights_free:
  assumes "cs \<noteq> []" "sum_list (map (tiled_clamp_height_min s) cs) \<le> u"
    and "\<forall>c\<in>set cs. height_free s u c (u * (child_hf s c / sum_list (map (child_hf s) cs)))"
  shows "window_heights s u cs = map (\<lambda>c. (c, u * (child_hf s c / sum_list (map (child_hf s) cs)))) cs"
proof -
  let ?t = "sum_list (map (child_hf s) cs)"
  have pos: "0 < child_hf s c" for c by (simp add: child_hf_def)
  have t: "0 < ?t"
    using assms(1) pos by (cases cs) (auto intro!: add_pos_nonneg sum_list_nonneg simp: less_imp_le)
  have rows: "map (\<lambda>c. (c, container_clamp_tiled_height s c (u * (child_hf s c / ?t)) u)) cs
      = map (\<lambda>c. (c, u * (child_hf s c / ?t))) cs"
    using assms(3) by (simp add: height_free_def)
  have "sum_list (map (\<lambda>c. u * (child_hf s c / ?t)) cs) = u * (?t / ?t)"
    by (simp add: sum_list_const_mult sum_list_mult_const divide_inverse mult.assoc)
  then have "sum_list (map (\<lambda>c. u * (child_hf s c / ?t)) cs) = u" using t by simp
  then have l: "u - sum_list (map snd (map (\<lambda>c. (c, u * (child_hf s c / ?t))) cs)) = 0"
    by (simp add: comp_def)
  have "\<not> sum_list (map (tiled_clamp_height_min s) cs) > u" using assms(2) by simp
  then show ?thesis unfolding window_heights_def Let_def rows l
    by (simp add: numeral_2_eq_2)
qed

text \<open>
  C14. viewport_arrange_windows gives every window of a column a height, in order, never below the
  window's own minimum; when the minima alone exceed the usable height every window gets exactly its
  minimum; and when no limit binds the heights are exactly the shares of the height fractions.
\<close>

theorem window_heights_correct:
  assumes "cs \<noteq> []"
  shows "map fst (window_heights s u cs) = cs
    \<and> (\<forall>r\<in>set (window_heights s u cs). tiled_clamp_height_min s (fst r) \<le> snd r)
    \<and> (sum_list (map (tiled_clamp_height_min s) cs) > u
        \<longrightarrow> window_heights s u cs = map (\<lambda>c. (c, tiled_clamp_height_min s c)) cs)
    \<and> (sum_list (map (tiled_clamp_height_min s) cs) \<le> u
        \<and> (\<forall>c\<in>set cs. height_free s u c (u * (child_hf s c / sum_list (map (child_hf s) cs))))
        \<longrightarrow> window_heights s u cs
              = map (\<lambda>c. (c, u * (child_hf s c / sum_list (map (child_hf s) cs)))) cs)"
  using window_heights_general[of s u cs] window_heights_free[OF assms, of s u]
  by (simp add: window_heights_def)

section \<open>Absorbing an overflow\<close>

definition free_slots :: "int list \<Rightarrow> nat list" where
  "free_slots cands = map nat (filter (\<lambda>i. 0 \<le> i) cands)"

lemma farthest_slot_range:
  "farthest_slot f cands ci fa fd = fa \<or>
   (\<exists>i<length cands. farthest_slot f cands ci fa fd = ci + int i \<and> 0 \<le> cands ! i)"
proof (induction cands arbitrary: ci fa fd)
  case (Cons x xs)
  have step: "farthest_slot f xs (ci + 1) fa' fd' = fa' \<or>
     (\<exists>i<length (x # xs). farthest_slot f xs (ci + 1) fa' fd' = ci + int i \<and> 0 \<le> (x # xs) ! i)"
    for fa' fd' using Cons.IH[of "ci + 1" fa' fd']
    by (metis (no_types, lifting) Suc_less_eq add.assoc add.commute length_Cons nth_Cons_Suc of_nat_Suc)
  show ?case
  proof (cases "x < 0")
    case True
    then show ?thesis using step[of fa fd] by simp
  next
    case F: False
    have "0 < length (x # xs) \<and> ci = ci + int 0 \<and> 0 \<le> (x # xs) ! 0" using F by simp
    then have "\<exists>i<length (x # xs). ci = ci + int i \<and> 0 \<le> (x # xs) ! i" by blast
    moreover have "farthest_slot f (x # xs) ci fa fd = farthest_slot f xs (ci + 1) fa fd
        \<or> farthest_slot f (x # xs) ci fa fd = farthest_slot f xs (ci + 1) ci \<bar>x - f\<bar>"
      using F by (simp add: Let_def)
    ultimately show ?thesis using step[of fa fd] step[of ci "\<bar>x - f\<bar>"] by metis
  qed
qed simp

lemma farthest_slot_found:
  "0 \<le> fa \<Longrightarrow> 0 \<le> ci \<Longrightarrow> 0 \<le> farthest_slot f cands ci fa fd"
  using farthest_slot_range[of f cands ci fa fd] by auto

lemma farthest_slot_none:
  "0 \<le> ci \<Longrightarrow> farthest_slot f cands ci (-1) (-1) < 0 \<Longrightarrow> free_slots cands = []"
proof (induction cands arbitrary: ci)
  case (Cons x xs)
  show ?case
  proof (cases "x < 0")
    case True
    then show ?thesis using Cons.IH[of "ci + 1"] Cons.prems by (simp add: free_slots_def)
  next
    case False
    have "-1 < \<bar>x - f\<bar>" by linarith
    then show ?thesis using False Cons.prems farthest_slot_found[of ci "ci + 1" f xs "\<bar>x - f\<bar>"]
      by (simp add: Let_def)
  qed
qed (simp add: free_slots_def)

lemma free_slots_split:
  assumes "i < length cands" "0 \<le> cands ! i"
  shows "\<exists>A B. free_slots cands = A @ nat (cands ! i) # B \<and> free_slots (cands[i := -1]) = A @ B"
proof -
  have "free_slots cands = free_slots (take i cands) @ nat (cands ! i) # free_slots (drop (Suc i) cands)"
    using assms by (subst id_take_nth_drop[of i cands]) (simp_all add: free_slots_def)
  moreover have "free_slots (cands[i := -1]) = free_slots (take i cands) @ free_slots (drop (Suc i) cands)"
    using assms by (simp add: upd_conv_take_nth_drop free_slots_def)
  ultimately show ?thesis by blast
qed

definition col_at :: "sway \<Rightarrow> id \<Rightarrow> nat \<Rightarrow> id" where
  "col_at s w i = w_tiling (wss s w) ! i"

definition total_width :: "sway \<Rightarrow> id list \<Rightarrow> rat" where
  "total_width s cols = sum_list (map (\<lambda>c. c_width (cons s c)) cols)"

text \<open>The width of a column is between its minimum and the largest width a clamp allows.\<close>

definition width_in_limits :: "sway \<Rightarrow> id \<Rightarrow> id \<Rightarrow> bool" where
  "width_in_limits s w c \<longleftrightarrow>
     (let k = container_get_size_constraints s c; avail = of_int (w_width (wss s w)) in
      tiled_clamp_width_min s c \<le> c_width (cons s c) \<and> c_width (cons s c) \<le> avail
      \<and> (k_max_w k \<noteq> DBL_MAX \<longrightarrow> c_width (cons s c) \<le> k_max_w k))"

lemma clamp_shrink:
  assumes "width_in_limits s w c" "0 \<le> r"
  shows "container_clamp_tiled_width s c (c_width (cons s c) - r) (of_int (w_width (wss s w)))
    = max (tiled_clamp_width_min s c) (c_width (cons s c) - r)"
proof -
  let ?k = "container_get_size_constraints s c"
  let ?a = "of_int (w_width (wss s w)) :: rat"
  have "c_width (cons s c) - r \<le> min ?a (if k_max_w ?k \<noteq> DBL_MAX then k_max_w ?k else ?a)"
    using assms unfolding width_in_limits_def Let_def by auto
  then have "min (c_width (cons s c) - r) (min ?a (if k_max_w ?k \<noteq> DBL_MAX then k_max_w ?k else ?a))
      = c_width (cons s c) - r" by (rule min.absorb1)
  then show ?thesis unfolding container_clamp_tiled_width_def Let_def by simp
qed

text \<open>What absorbing has to keep, over the list of columns still to be tried.\<close>

definition absorbed :: "sway \<Rightarrow> rat \<Rightarrow> id list \<Rightarrow> sway \<Rightarrow> rat \<Rightarrow> bool" where
  "absorbed s r cols s' r' \<longleftrightarrow>
     0 \<le> r' \<and> r' \<le> r \<and> total_width s' cols - r' = total_width s cols - r
     \<and> (\<forall>c. c \<notin> set cols \<longrightarrow> cons s' c = cons s c)
     \<and> (\<forall>c\<in>set cols. tiled_clamp_width_min s c \<le> c_width (cons s' c) \<and> c_width (cons s' c) \<le> c_width (cons s c))
     \<and> (0 < r' \<longrightarrow> (\<forall>c\<in>set cols. c_width (cons s' c) = tiled_clamp_width_min s c))"

definition shrink_column :: "id \<Rightarrow> id \<Rightarrow> rat \<Rightarrow> sway \<Rightarrow> sway" where
  "shrink_column w c r s =
     grow_column w c (container_clamp_tiled_width s c (c_width (cons s c) - r) (of_int (w_width (wss s w)))) s"

lemma absorb_loop_Suc:
  "absorb_loop (Suc k) w f cands r s =
     (if r = 0 then (r, s)
      else (let i = farthest_slot f cands 0 (-1) (-1) in
        if i < 0 then (r, s)
        else (let c = col_at s w (nat (cands ! nat i)); s' = shrink_column w c r s in
              absorb_loop k w f (cands[nat i := -1]) (r - (c_width (cons s c) - c_width (cons s' c))) s')))"
  by (simp add: Let_def col_at_def shrink_column_def grow_column_def)

declare absorb_loop.simps(2) [simp del]

lemma shrink_column_frame:
  "wss (shrink_column w c r s) = wss s"
  "d \<noteq> c \<Longrightarrow> cons (shrink_column w c r s) d = cons s d"
  "tiled_clamp_width_min (shrink_column w c r s) d = tiled_clamp_width_min s d"
  "width_in_limits s w d \<Longrightarrow> d \<noteq> c \<Longrightarrow> width_in_limits (shrink_column w c r s) w d"
  "col_at (shrink_column w c r s) = col_at s"
proof -
  have sh: "same_shape s (shrink_column w c r s)" unfolding shrink_column_def by (rule grow_column_shape)
  show w: "wss (shrink_column w c r s) = wss s" by (simp add: shrink_column_def)
  show cons: "cons (shrink_column w c r s) d = cons s d" if "d \<noteq> c"
    using that by (simp add: shrink_column_def grow_column_def)
  show lo: "tiled_clamp_width_min (shrink_column w c r s) d = tiled_clamp_width_min s d"
    by (rule tiled_clamp_width_min_shape[OF sh w])
  show "width_in_limits (shrink_column w c r s) w d" if "width_in_limits s w d" "d \<noteq> c"
    using that unfolding width_in_limits_def by (simp add: cons w lo size_constraints_shape[OF sh])
  show "col_at (shrink_column w c r s) = col_at s" unfolding col_at_def fun_eq_iff by (simp add: w)
qed

lemma shrink_column_width:
  assumes "width_in_limits s w c" "0 \<le> r"
  shows "c_width (cons (shrink_column w c r s) c) = max (tiled_clamp_width_min s c) (c_width (cons s c) - r)"
  using clamp_shrink[OF assms] by (simp add: shrink_column_def grow_column_def)

lemma absorbed_none: "0 \<le> r \<Longrightarrow> \<forall>c\<in>set cols. width_in_limits s w c \<Longrightarrow> r = 0 \<or> cols = [] \<Longrightarrow> absorbed s r cols s r"
  by (auto simp: absorbed_def width_in_limits_def Let_def)

lemma total_width_frame:
  "\<forall>c\<in>set cols. cons s' c = cons s c \<Longrightarrow> total_width s' cols = total_width s cols"
  unfolding total_width_def by (metis (mono_tags, lifting) map_eq_conv)

lemma absorbed_step:
  assumes lim: "width_in_limits s w c" "0 \<le> r" and new: "c \<notin> set (A @ B)"
    and rest: "absorbed (shrink_column w c r s)
        (r - (c_width (cons s c) - c_width (cons (shrink_column w c r s) c))) (A @ B) s' r'"
  shows "absorbed s r (A @ c # B) s' r'"
proof -
  let ?s = "shrink_column w c r s"
  define r1 where "r1 = r - (c_width (cons s c) - c_width (cons ?s c))"
  note wc = shrink_column_width[OF lim]
  have lo: "tiled_clamp_width_min s c \<le> c_width (cons s c)" using lim(1) by (simp add: width_in_limits_def Let_def)
  have r1: "0 \<le> r1" "r1 \<le> r" "0 < r1 \<longrightarrow> c_width (cons ?s c) = tiled_clamp_width_min s c"
    unfolding r1_def wc using lim(2) lo by (auto simp: max_def)
  note ab = rest[unfolded absorbed_def r1_def[symmetric] shrink_column_frame(3)]
  have c: "cons s' c = cons ?s c" using ab new by blast
  have "total_width ?s (A @ B) = total_width s (A @ B)"
    using new by (intro total_width_frame ballI shrink_column_frame(2)) auto
  then have "total_width s' (A @ c # B) - r' = total_width s (A @ c # B) - r"
    using ab c unfolding r1_def total_width_def by simp
  moreover have "\<forall>d. d \<notin> set (A @ c # B) \<longrightarrow> cons s' d = cons s d"
    using ab shrink_column_frame(2)[of _ c w r s] by auto
  moreover have "\<forall>d\<in>set (A @ B). c_width (cons ?s d) = c_width (cons s d)"
  proof
    fix d assume "d \<in> set (A @ B)"
    then have "d \<noteq> c" using new by blast
    from shrink_column_frame(2)[OF this, of w r s]
    show "c_width (cons ?s d) = c_width (cons s d)" by (rule arg_cong)
  qed
  moreover have "tiled_clamp_width_min s c \<le> c_width (cons s' c)" "c_width (cons s' c) \<le> c_width (cons s c)"
    unfolding c wc using lo lim(2) by auto
  ultimately show ?thesis unfolding absorbed_def using ab r1 c by auto
qed

lemma absorb_loop_correct:
  assumes "distinct (map (col_at s w) (free_slots cands))" "length (free_slots cands) \<le> k" "0 \<le> r"
    and "\<forall>c\<in>set (map (col_at s w) (free_slots cands)). width_in_limits s w c"
  shows "absorbed s r (map (col_at s w) (free_slots cands))
      (snd (absorb_loop k w f cands r s)) (fst (absorb_loop k w f cands r s))"
  using assms
proof (induction k arbitrary: cands r s)
  case 0
  then show ?case by (simp add: absorbed_none)
next
  case (Suc k)
  let ?i = "farthest_slot f cands 0 (-1) (-1)"
  show ?case
  proof (cases "r = 0 \<or> ?i < 0")
    case True
    then have "r = 0 \<or> free_slots cands = []" using farthest_slot_none[of 0 f cands] by auto
    moreover have "absorb_loop (Suc k) w f cands r s = (r, s)"
      using True unfolding absorb_loop_Suc Let_def by (elim disjE) (simp_all only: if_True if_cancel simp_thms)
    ultimately show ?thesis using absorbed_none[of r] Suc.prems(3,4) by simp
  next
    case False
    have i: "nat ?i < length cands" "0 \<le> cands ! nat ?i"
      using farthest_slot_range[of f cands 0 "-1" "-1"] False by auto
    obtain A B where ab: "free_slots cands = A @ nat (cands ! nat ?i) # B"
      "free_slots (cands[nat ?i := -1]) = A @ B" using free_slots_split[OF i] by blast
    define c where "c = col_at s w (nat (cands ! nat ?i))"
    let ?s = "shrink_column w c r s"
    let ?r = "r - (c_width (cons s c) - c_width (cons ?s c))"
    let ?A = "map (col_at s w) A" and ?B = "map (col_at s w) B"
    have cols: "map (col_at s w) (free_slots cands) = ?A @ c # ?B" by (simp add: ab c_def)
    have lim: "width_in_limits s w c" "c \<notin> set (?A @ ?B)" using Suc.prems(1,4) unfolding cols by auto
    have "0 \<le> ?r" unfolding shrink_column_width[OF lim(1) Suc.prems(3)]
      using lim(1) Suc.prems(3) by (auto simp: width_in_limits_def Let_def max_def)
    moreover have "\<forall>d\<in>set (?A @ ?B). width_in_limits ?s w d"
    proof
      fix d assume d: "d \<in> set (?A @ ?B)"
      then have "d \<noteq> c" using lim(2) by blast
      moreover have "width_in_limits s w d" using d Suc.prems(4) unfolding cols by auto
      ultimately show "width_in_limits ?s w d" using shrink_column_frame(4) by blast
    qed
    moreover have "distinct (?A @ ?B)" "length (A @ B) \<le> k" using Suc.prems(1,2) cols ab by auto
    ultimately have "absorbed ?s ?r (?A @ ?B) (snd (absorb_loop k w f (cands[nat ?i := -1]) ?r ?s))
        (fst (absorb_loop k w f (cands[nat ?i := -1]) ?r ?s))"
      using Suc.IH[of ?s "cands[nat ?i := -1]" ?r] unfolding ab(2) shrink_column_frame(5) by simp
    then show ?thesis unfolding cols
      using absorbed_step[OF lim(1) Suc.prems(3) lim(2)] False
      by (simp add: absorb_loop_Suc Let_def c_def)
  qed
qed

text \<open>
  C15. viewport_absorb_farthest shrinks candidate columns until an overflow is gone: the pixels taken
  from the columns are exactly the pixels removed from the overflow, no column goes below its
  minimum or grows, no other container changes, and if an overflow is left then every candidate is
  down to its minimum.
\<close>

theorem viewport_absorb_farthest_correct:
  assumes "distinct (map (col_at s w) (free_slots cands))" "0 \<le> r"
    and "\<forall>c\<in>set (map (col_at s w) (free_slots cands)). width_in_limits s w c"
  shows "absorbed s r (map (col_at s w) (free_slots cands))
      (snd (viewport_absorb_farthest w cands f r s)) (fst (viewport_absorb_farthest w cands f r s))"
  unfolding viewport_absorb_farthest_def
  by (rule absorb_loop_correct[OF assms(1) _ assms(2,3)]) (simp add: free_slots_def)

section \<open>Widths of a row\<close>

lemma grow_round_mono:
  "grow_round hr spare base n rows taken = (rs, t) \<Longrightarrow> 0 \<le> spare \<Longrightarrow> taken \<le> spare \<Longrightarrow>
   \<forall>(c, w, l)\<in>set rows. 0 \<le> w \<Longrightarrow> (\<And>c w. 0 \<le> hr c w) \<Longrightarrow>
   taken \<le> t \<and> list_all2 (\<lambda>(c, w, l) (c', w', l'). c' = c \<and> w \<le> w') rows rs"
proof (induction rows arbitrary: taken rs t)
  case (Cons r rows)
  obtain c w l where r: "r = (c, w, l)" by (cases r)
  define g where "g = min (min (if base > 0 then spare * w / base else spare / of_nat n) (hr c w)) (spare - taken)"
  have w: "0 \<le> w" "\<forall>(c, w, l)\<in>set rows. 0 \<le> w" using Cons.prems(4) by (auto simp: r)
  have g: "0 \<le> g" "taken + g \<le> spare" unfolding g_def using Cons.prems(2,3,5) w by (auto simp: min_def)
  obtain rs1 t1 where q1: "grow_round hr spare base n rows taken = (rs1, t1)" by fastforce
  obtain rs2 t2 where q2: "grow_round hr spare base n rows (taken + g) = (rs2, t2)" by fastforce
  have "(rs, t) = ((c, w, l) # rs1, t1) \<or> (rs, t) = ((c, w, True) # rs1, t1) \<or> (rs, t) = ((c, w + g, l) # rs2, t2)"
    using Cons.prems(1) q1 q2 unfolding r grow_round.simps Let_def g_def[symmetric]
    by (simp split: if_splits)
  then show ?case
    using Cons.IH[OF q1 Cons.prems(2,3) w(2) Cons.prems(5)] Cons.IH[OF q2 Cons.prems(2) g(2) w(2) Cons.prems(5)] g(1)
    by (auto simp: r)
qed simp

definition wider :: "(id \<times> rat \<times> bool) list \<Rightarrow> (id \<times> rat \<times> bool) list \<Rightarrow> bool" where
  "wider rows rs \<longleftrightarrow> list_all2 (\<lambda>(c, w, l) (c', w', l'). c' = c \<and> w \<le> w') rows rs"

lemma wider_refl: "wider rows rows"
  unfolding wider_def by (rule list_all2_refl) auto

lemma wider_trans: "wider a b \<Longrightarrow> wider b c \<Longrightarrow> wider a c"
  unfolding wider_def by (rule list_all2_trans) auto

lemma wider_nonneg: "wider rows rs \<Longrightarrow> \<forall>(c, w, l)\<in>set rows. 0 \<le> w \<Longrightarrow> \<forall>(c, w, l)\<in>set rs. 0 \<le> w"
  unfolding wider_def by (induction rows rs rule: list_all2_induct) auto

lemma grow_loop_wider:
  "0 \<le> spare \<Longrightarrow> \<forall>(c, w, l)\<in>set rows. 0 \<le> w \<Longrightarrow> (\<And>c w. 0 \<le> hr c w) \<Longrightarrow> wider rows (grow_loop hr n spare rows)"
proof (induction hr n spare rows rule: grow_loop.induct)
  case (1 hr n spare rows)
  obtain rs t where g: "grow_round hr spare (grow_base rows) n rows 0 = (rs, t)" by fastforce
  have w: "wider rows rs" unfolding wider_def
    using grow_round_mono[OF g "1.prems"(1) _ "1.prems"(2,3)] "1.prems"(1) by auto
  have t: "0 \<le> spare - t" using grow_round_bound[OF g "1.prems"(1)] by simp
  show ?case
  proof (cases "spare \<le> 1 / 2 \<or> grow_room hr rows \<le> 1 / 2")
    case True
    then show ?thesis by (auto simp: grow_loop.simps wider_refl)
  next
    case False
    show ?thesis
    proof (cases "t \<le> 1 / 2")
      case True
      then show ?thesis using False g w by (subst grow_loop.simps) simp
    next
      case F: False
      have "wider rs (grow_loop hr n (spare - t) rs)"
        using "1.IH"[OF _ _ g[symmetric] F] False t wider_nonneg[OF w "1.prems"(2)] "1.prems"(3) by simp
      then show ?thesis using False F g wider_trans[OF w] by (subst grow_loop.simps) simp
    qed
  qed
qed

lemma DBL_MAX_big: "1 < DBL_MAX"
  by (simp add: DBL_MAX_def)

text \<open>Without a limit a round hands out everything but at most half a pixel.\<close>

definition grow_share :: "rat \<Rightarrow> rat \<Rightarrow> nat \<Rightarrow> rat \<Rightarrow> rat" where
  "grow_share spare base n w = (if base > 0 then spare * w / base else spare / of_nat n)"

lemma grow_round_stop:
  "spare - taken \<le> 1 / 2 \<Longrightarrow> snd (grow_round hr spare base n rows taken) = taken"
  by (induction rows) (auto split: prod.splits)

lemma grow_round_unlimited:
  "0 \<le> spare \<Longrightarrow> spare \<le> DBL_MAX \<Longrightarrow> 0 \<le> taken \<Longrightarrow> (\<And>c w. hr c w = DBL_MAX) \<Longrightarrow>
   \<forall>(c, w, l)\<in>set rows. 0 \<le> w \<and> \<not> l \<Longrightarrow>
   taken + sum_list (map (\<lambda>(c, w, l). grow_share spare base n w) rows) = spare \<Longrightarrow>
   spare - snd (grow_round hr spare base n rows taken) \<le> 1 / 2"
proof (induction rows arbitrary: taken)
  case (Cons r rows)
  obtain c w l where r: "r = (c, w, l)" by (cases r)
  show ?case
  proof (cases "spare - taken \<le> 1 / 2")
    case True
    then show ?thesis using grow_round_stop[OF True] by simp
  next
    case False
    define g where "g = grow_share spare base n w"
    have l: "\<not> l" "0 \<le> w" using Cons.prems(5) by (auto simp: r)
    have nn: "0 \<le> grow_share spare base n v" if "0 \<le> v" for v
      using that Cons.prems(1) by (simp add: grow_share_def)
    then have "0 \<le> sum_list (map (\<lambda>(c, w, l). grow_share spare base n w) rows)"
      using Cons.prems(5) by (intro sum_list_nonneg) auto
    then have g: "0 \<le> g" "g \<le> spare - taken" using nn[OF l(2)] Cons.prems(6) by (auto simp: g_def r)
    then have "min (min g DBL_MAX) (spare - taken) = g" using Cons.prems(2,3) by (simp add: min_def)
    then have "snd (grow_round hr spare base n (r # rows) taken) = snd (grow_round hr spare base n rows (taken + g))"
      using False l(1) DBL_MAX_big Cons.prems(4) unfolding r grow_round.simps Let_def g_def grow_share_def
      by (simp split: prod.splits)
    moreover have "spare - snd (grow_round hr spare base n rows (taken + g)) \<le> 1 / 2"
      using Cons.prems g(1) by (intro Cons.IH) (auto simp: r g_def)
    ultimately show ?thesis by simp
  qed
qed simp

lemma shares_sum:
  assumes "rows \<noteq> []" "n = length rows" "0 \<le> base" "base = sum_list (map (\<lambda>(c, w, l). w) rows)"
  shows "sum_list (map (\<lambda>(c, w, l). grow_share spare base n w) rows) = spare"
proof (cases "base > 0")
  case True
  then have "sum_list (map (\<lambda>(c, w, l). grow_share spare base n w) rows)
      = sum_list (map (\<lambda>r. (spare / base) * (case r of (c, w, l) \<Rightarrow> w)) rows)"
    by (intro arg_cong[of _ _ sum_list] map_cong) (auto simp: grow_share_def)
  also have "\<dots> = (spare / base) * base" unfolding sum_list_const_mult assms(4) ..
  finally show ?thesis using True by simp
next
  case False
  then have "sum_list (map (\<lambda>(c, w, l). grow_share spare base n w) rows) = sum_list (map (\<lambda>r. spare / of_nat n) rows)"
    by (intro arg_cong[of _ _ sum_list] map_cong) (auto simp: grow_share_def)
  then show ?thesis using assms(1,2) by (simp add: sum_list_triv)
qed

lemma grow_loop_unlimited:
  assumes "rows \<noteq> []" "n = length rows" "0 \<le> spare" "spare \<le> DBL_MAX" "\<And>c w. hr c w = DBL_MAX"
    and "\<forall>(c, w, l)\<in>set rows. 0 \<le> w \<and> \<not> l"
  shows "sum_list (map (fst \<circ> snd) rows) + spare - 1 / 2 \<le> sum_list (map (fst \<circ> snd) (grow_loop hr n spare rows))"
proof (cases "spare \<le> 1 / 2")
  case True
  then show ?thesis by (simp add: grow_loop.simps)
next
  case False
  obtain rs t where g: "grow_round hr spare (grow_base rows) n rows 0 = (rs, t)" by fastforce
  have base: "grow_base rows = sum_list (map (\<lambda>(c, w, l). w) rows)" unfolding grow_base_def
    using assms(6) by (intro arg_cong[of _ _ sum_list] map_cong) auto
  have "0 \<le> grow_base rows" unfolding base using assms(6) by (intro sum_list_nonneg) auto
  then have "spare - t \<le> 1 / 2"
    using grow_round_unlimited[where hr = hr and taken = 0, OF assms(3,4) order_refl assms(5,6), of "grow_base rows" n]
      shares_sum[OF assms(1,2) _ base] g by simp
  moreover have "sum_list (map (fst \<circ> snd) rs) = sum_list (map (fst \<circ> snd) rows) + t"
    using grow_round_sum[OF g] by simp
  moreover have "1 / 2 < grow_room hr rows"
  proof -
    have "grow_room hr rows = sum_list (map (\<lambda>r. DBL_MAX) rows)" unfolding grow_room_def
      using assms(5,6) by (intro arg_cong[of _ _ sum_list] map_cong) auto
    also have "\<dots> = of_nat (length rows) * DBL_MAX" by (simp add: sum_list_triv)
    also have "\<dots> \<ge> 1 * DBL_MAX" using assms(1) DBL_MAX_big by (intro mult_right_mono) (auto simp: Suc_le_eq)
    finally show ?thesis using DBL_MAX_big by linarith
  qed
  ultimately have "grow_loop hr n spare rows = rs"
    using False g by (subst grow_loop.simps) (simp add: grow_loop.simps)
  then show ?thesis using \<open>spare - t \<le> 1 / 2\<close> grow_round_sum[OF g] by simp
qed

text \<open>The widths clamped to the limits of the columns, and the widths scaled to the row.\<close>

definition clamped_width :: "sway \<Rightarrow> rat \<Rightarrow> id \<Rightarrow> rat" where
  "clamped_width s total_w c = container_clamp_tiled_width s c (c_width (cons s c)) total_w"

definition scaled_width :: "sway \<Rightarrow> rat \<Rightarrow> id list \<Rightarrow> id \<Rightarrow> rat" where
  "scaled_width s total_w cols c =
     clamped_width s total_w c * (total_w / sum_list (map (clamped_width s total_w) cols))"

lemma column_widths_cases:
  "column_widths s total_w cols =
     (let total = sum_list (map (clamped_width s total_w) cols) in
      if total > total_w \<and> total > 0
      then map (\<lambda>c. container_clamp_tiled_width s c (scaled_width s total_w cols c) total_w) cols
      else if total < total_w - 1 / 2
      then map (fst \<circ> snd) (grow_loop (col_width_headroom s) (length cols) (total_w - total)
             (map (\<lambda>c. (c, clamped_width s total_w c, False)) cols))
      else map (clamped_width s total_w) cols)"
proof -
  have "zip cols (map f cols) = map (\<lambda>c. (c, f c)) cols" for f :: "id \<Rightarrow> rat" by (induction cols) auto
  then show ?thesis unfolding column_widths_def Let_def scaled_width_def clamped_width_def
    by (auto simp: comp_def case_prod_beta)
qed

lemma clamp_width_lo: "tiled_clamp_width_min s c \<le> container_clamp_tiled_width s c d a"
  using clamp_tiled_width_range by blast

lemma headroom_nonneg: "0 \<le> col_width_headroom s c w"
  using DBL_MAX_big by (simp add: col_width_headroom_def Let_def)

lemma clamp_width_le:
  "tiled_clamp_width_min s c \<le> d \<Longrightarrow> container_clamp_tiled_width s c d a \<le> d"
  by (simp add: container_clamp_tiled_width_def Let_def)

lemma clamp_width_unlimited:
  "tiled_clamp_width_min s c \<le> d \<Longrightarrow> d \<le> a \<Longrightarrow> k_max_w (container_get_size_constraints s c) = DBL_MAX \<Longrightarrow>
   container_clamp_tiled_width s c d a = d"
  by (simp add: container_clamp_tiled_width_def Let_def)

lemma list_all2_map_self: "list_all2 P xs (map f xs) \<longleftrightarrow> (\<forall>x\<in>set xs. P x (f x))"
  by (induction xs) auto

lemma wider_map:
  "wider (map (\<lambda>c. (c, f c, False)) cols) rs \<Longrightarrow> list_all2 (\<lambda>c v. f c \<le> v) cols (map (fst \<circ> snd) rs)"
proof (induction cols arbitrary: rs)
  case Nil
  then show ?case by (auto simp: wider_def)
next
  case (Cons c cols)
  then show ?case by (cases rs) (auto simp: wider_def)
qed

text \<open>The three branches of column_widths, for columns whose minima are not negative.\<close>

lemma clamped_width_lo: "tiled_clamp_width_min s c \<le> clamped_width s total_w c"
  unfolding clamped_width_def by (rule clamp_width_lo)

lemma clamped_width_nonneg:
  "\<forall>c\<in>set cols. 0 \<le> tiled_clamp_width_min s c \<Longrightarrow> \<forall>c\<in>set cols. 0 \<le> clamped_width s total_w c"
  using clamped_width_lo order_trans by blast

lemma scaled_width_sum:
  "0 < sum_list (map (clamped_width s total_w) cols) \<Longrightarrow> sum_list (map (scaled_width s total_w cols) cols) = total_w"
  unfolding scaled_width_def sum_list_mult_const by simp

lemma scaled_width_le:
  assumes "\<forall>c\<in>set cols. 0 \<le> clamped_width s total_w c" "0 \<le> total_w" "c \<in> set cols"
    and "0 < sum_list (map (clamped_width s total_w) cols)"
  shows "scaled_width s total_w cols c \<le> total_w"
proof -
  let ?total = "sum_list (map (clamped_width s total_w) cols)"
  have "clamped_width s total_w c \<le> ?total" using assms(1,3) by (intro member_le_sum_list) auto
  then have "clamped_width s total_w c * total_w \<le> ?total * total_w" using assms(2) by (rule mult_right_mono)
  then have "clamped_width s total_w c * total_w \<le> total_w * ?total" by (simp only: mult.commute)
  then show ?thesis using assms(4) unfolding scaled_width_def by (simp add: divide_le_eq)
qed

text \<open>
  row_fits says what the row promises about the widths ws it ends up with.
\<close>

definition row_fits :: "sway \<Rightarrow> rat \<Rightarrow> id list \<Rightarrow> rat list \<Rightarrow> bool" where
  "row_fits s total_w cols ws \<longleftrightarrow>
     list_all2 (\<lambda>c v. tiled_clamp_width_min s c \<le> v) cols ws
     \<and> ((\<forall>c\<in>set cols. tiled_clamp_width_min s c \<le> scaled_width s total_w cols c) \<longrightarrow>
         sum_list ws \<le> total_w
         \<and> ((\<forall>c. k_max_w (container_get_size_constraints s c) = DBL_MAX) \<longrightarrow> total_w - 1 / 2 \<le> sum_list ws))"

lemma row_fits_scaled:
  assumes "\<forall>c\<in>set cols. 0 \<le> tiled_clamp_width_min s c" "0 \<le> total_w"
    and pos: "0 < sum_list (map (clamped_width s total_w) cols)"
  shows "row_fits s total_w cols
    (map (\<lambda>c. container_clamp_tiled_width s c (scaled_width s total_w cols c) total_w) cols)"
    (is "row_fits _ _ _ ?ws")
proof -
  note small = scaled_width_le[OF clamped_width_nonneg[OF assms(1)] assms(2) _ pos]
  have "sum_list ?ws \<le> total_w" if "\<forall>c\<in>set cols. tiled_clamp_width_min s c \<le> scaled_width s total_w cols c"
  proof -
    have "sum_list ?ws \<le> sum_list (map (scaled_width s total_w cols) cols)"
      using that by (intro sum_list_mono) (simp add: clamp_width_le)
    then show ?thesis using scaled_width_sum[OF pos] by simp
  qed
  moreover have "sum_list ?ws = total_w"
    if "\<forall>c\<in>set cols. tiled_clamp_width_min s c \<le> scaled_width s total_w cols c"
      "\<forall>c. k_max_w (container_get_size_constraints s c) = DBL_MAX"
  proof -
    have "?ws = map (scaled_width s total_w cols) cols"
      using that small by (intro map_cong) (simp_all add: clamp_width_unlimited)
    then have "sum_list ?ws = sum_list (map (scaled_width s total_w cols) cols)" by (rule arg_cong)
    then show ?thesis unfolding scaled_width_sum[OF pos] .
  qed
  ultimately show ?thesis unfolding row_fits_def
    by (simp add: list_all2_map_self clamp_width_lo)
qed

lemma row_fits_grown:
  assumes "cols \<noteq> []" "total_w \<le> DBL_MAX" "\<forall>c\<in>set cols. 0 \<le> tiled_clamp_width_min s c"
    and under: "sum_list (map (clamped_width s total_w) cols) < total_w - 1 / 2"
  shows "row_fits s total_w cols (map (fst \<circ> snd)
    (grow_loop (col_width_headroom s) (length cols) (total_w - sum_list (map (clamped_width s total_w) cols))
      (map (\<lambda>c. (c, clamped_width s total_w c, False)) cols)))"
proof -
  define rows where "rows = map (\<lambda>c. (c, clamped_width s total_w c, False)) cols"
  define spare where "spare = total_w - sum_list (map (clamped_width s total_w) cols)"
  let ?g = "grow_loop (col_width_headroom s) (length cols) spare rows"
  have rows: "\<forall>(c, w, l)\<in>set rows. 0 \<le> w \<and> \<not> l" "sum_list (map (fst \<circ> snd) rows) + spare = total_w"
    using clamped_width_nonneg[OF assms(3)] by (auto simp: rows_def spare_def comp_def)
  have "0 \<le> sum_list (map (clamped_width s total_w) cols)"
    using clamped_width_nonneg[OF assms(3)] by (intro sum_list_nonneg) auto
  then have spare: "0 \<le> spare" "spare \<le> DBL_MAX" using under assms(2) by (auto simp: spare_def)
  have "wider rows ?g" using rows(1) spare(1) headroom_nonneg by (intro grow_loop_wider) auto
  then have "list_all2 (\<lambda>c v. clamped_width s total_w c \<le> v) cols (map (fst \<circ> snd) ?g)"
    unfolding rows_def by (rule wider_map)
  then have lo: "list_all2 (\<lambda>c v. tiled_clamp_width_min s c \<le> v) cols (map (fst \<circ> snd) ?g)"
    by (rule list_all2_mono) (use clamped_width_lo order_trans in blast)
  have le: "sum_list (map (fst \<circ> snd) ?g) \<le> total_w" using grow_loop_spec[OF spare(1)] rows(2) by metis
  have "total_w - 1 / 2 \<le> sum_list (map (fst \<circ> snd) ?g)"
    if "\<forall>c. k_max_w (container_get_size_constraints s c) = DBL_MAX"
  proof -
    have "\<And>c w. col_width_headroom s c w = DBL_MAX" using that by (simp add: col_width_headroom_def)
    then have "sum_list (map (fst \<circ> snd) rows) + spare - 1 / 2 \<le> sum_list (map (fst \<circ> snd) ?g)"
      using rows(1) assms(1) spare by (intro grow_loop_unlimited) (auto simp: rows_def)
    then show ?thesis unfolding rows(2) .
  qed
  then show ?thesis using lo le unfolding row_fits_def rows_def[symmetric] spare_def[symmetric] by blast
qed

lemma row_fits_columns:
  assumes "cols \<noteq> []" "0 \<le> total_w" "total_w \<le> DBL_MAX" "\<forall>c\<in>set cols. 0 \<le> tiled_clamp_width_min s c"
  shows "row_fits s total_w cols (column_widths s total_w cols)"
proof -
  have "row_fits s total_w cols (map (clamped_width s total_w) cols)"
    if "sum_list (map (clamped_width s total_w) cols) \<le> total_w"
      "\<not> sum_list (map (clamped_width s total_w) cols) < total_w - 1 / 2"
    using that clamped_width_lo by (simp add: row_fits_def list_all2_map_self)
  then show ?thesis
    using row_fits_scaled[OF assms(4,2)] row_fits_grown[OF assms(1,3,4)] assms(2)
    unfolding column_widths_cases Let_def by force
qed


section \<open>Examples\<close>

lemma sample_constraints: "container_get_size_constraints sample c = no_constraints"
  by (rule no_limits_everywhere) (auto simp: sample_defs)

lemma sample_min_height: "tiled_clamp_height_min sample c = 0"
  by (simp add: tiled_clamp_height_min_def sample_constraints) (simp add: no_constraints_def)

lemma sample_min_width: "tiled_clamp_width_min sample c = 0"
proof -
  have "cfg_min_column_width_fraction (cfg sample) = 0" by (simp add: sample_def root_create_def sample_cfg_def)
  then show ?thesis
    by (simp add: tiled_clamp_width_min_def sample_constraints split: option.split) (simp add: no_constraints_def)
qed

lemma sample_cons:
  "c_height_fraction (cons sample 3) = 2" "c_height_fraction (cons sample 4) = 0"
  "c_width (cons sample 1) = 600" "c_width (cons sample 2) = 300"
  by (simp_all add: sample_defs)

lemma sample_ws: "w_tiling (wss sample 6) = [1, 2]" "w_width (wss sample 6) = 1000" "w_gaps_inner (wss sample 6) = 0"
  by (simp_all add: sample_defs)

lemma sample_clamp_height: "container_clamp_tiled_height sample c d a = max 0 (min d a)"
  by (simp add: container_clamp_tiled_height_def sample_constraints sample_min_height)
    (simp add: no_constraints_def)

lemma sample_clamp_width: "container_clamp_tiled_width sample c d a = max 0 (min d a)"
  by (simp add: container_clamp_tiled_width_def sample_constraints sample_min_width)
    (simp add: no_constraints_def)

lemma window_heights_correct_witness:
  "window_heights sample 600 [3, 4] = [(3, 400), (4, 200)]"
  using window_heights_correct[of "[3, 4]" sample 600]
  by (simp add: sample_min_height height_free_def sample_clamp_height child_hf_def sample_cons)

lemma viewport_absorb_farthest_correct_witness:
  "absorbed sample 100 [1, 2] (snd (viewport_absorb_farthest 6 [0, 1] 0 100 sample))
     (fst (viewport_absorb_farthest 6 [0, 1] 0 100 sample))"
  using viewport_absorb_farthest_correct[of sample 6 "[0, 1]" 100 0]
  by (simp add: free_slots_def col_at_def sample_ws width_in_limits_def sample_constraints
      sample_min_width sample_cons sample_cons(3)[unfolded One_nat_def]) (simp add: no_constraints_def)


text \<open>
  Two passes do not always share an overflow out, because the leftover shrinks inside a pass while
  the sum of the fractions does not: three equal windows of which the last has a minimum of 500
  pixels do fit in 600 pixels, but the heights sum up to more.
\<close>

definition overflow_sample :: sway where
  "overflow_sample = upd_con 3 (\<lambda>c. c\<lparr>c_view := Some (sample_view\<lparr>v_constraints := no_constraints\<lparr>k_min_h := 500\<rparr>\<rparr>)\<rparr>) sample"

lemma overflow_constraints:
  "container_get_size_constraints overflow_sample 3 = no_constraints\<lparr>k_min_h := 500\<rparr>"
  "container_get_size_constraints overflow_sample 4 = no_constraints"
  "container_get_size_constraints overflow_sample 7 = no_constraints"
proof -
  have "DBL_MIN \<noteq> 500" by (simp add: DBL_MIN_def)
  then show "container_get_size_constraints overflow_sample 3 = no_constraints\<lparr>k_min_h := 500\<rparr>"
    by (simp add: container_get_size_constraints_def overflow_sample_def sample_defs view_size_constraints_def
        numeral_eq_Suc Let_def)
  show "container_get_size_constraints overflow_sample 4 = no_constraints"
    "container_get_size_constraints overflow_sample 7 = no_constraints"
    by (simp_all add: container_get_size_constraints_def overflow_sample_def sample_defs view_size_constraints_def
        numeral_eq_Suc Let_def)
qed

lemma overflow_fractions:
  "child_hf overflow_sample 3 = 2" "child_hf overflow_sample 4 = 1" "child_hf overflow_sample 7 = 1"
  by (simp_all add: child_hf_def overflow_sample_def sample_defs)

lemma overflow_min:
  "tiled_clamp_height_min overflow_sample 3 = 500" "tiled_clamp_height_min overflow_sample 4 = 0"
  "tiled_clamp_height_min overflow_sample 7 = 0"
proof -
  have "DBL_MIN \<noteq> 500" by (simp add: DBL_MIN_def)
  then show "tiled_clamp_height_min overflow_sample 3 = 500" "tiled_clamp_height_min overflow_sample 4 = 0"
    "tiled_clamp_height_min overflow_sample 7 = 0"
    by (simp_all add: tiled_clamp_height_min_def overflow_constraints no_constraints_def)
qed

lemma overflow_clamp:
  "container_clamp_tiled_height overflow_sample 3 d a = max 500 (min d a)"
  "container_clamp_tiled_height overflow_sample 4 d a = max 0 (min d a)"
  "container_clamp_tiled_height overflow_sample 7 d a = max 0 (min d a)"
  by (simp_all add: container_clamp_tiled_height_def overflow_constraints overflow_min)
    (simp_all add: no_constraints_def)

lemma window_heights_overflow:
  "sum_list (map (tiled_clamp_height_min overflow_sample) [4, 7, 3]) = 500
   \<and> 600 < sum_list (map snd (window_heights overflow_sample 600 [4, 7, 3]))"
  by (simp add: overflow_min window_heights_def overflow_fractions overflow_clamp is_flexible_def
      numeral_2_eq_2 Let_def)

end
