(* ===== verification/Floating.thy ===== *)
theory Floating
  imports Shape
begin

text \<open>
  Floating containers (the floating_* and container_floating_* functions of sway/tree/container.c):
  size limits, moving a container with its children, centering, and the geometry a view's content
  gives its container. Functions of wlroots are arguments: layout_box is the box of the whole output
  layout, output_layout_box the box of one output in it, closest the point of a box nearest to a
  point (wlr_box_closest_point).
\<close>

section \<open>Boxes\<close>

definition container_get_box :: "sway \<Rightarrow> id \<Rightarrow> box" where
  "container_get_box s c =
     (let x = cons s c in
      \<lparr>b_x = c_trunc (c_x x), b_y = c_trunc (c_y x), b_width = c_trunc (c_width x), b_height = c_trunc (c_height x)\<rparr>)"

definition workspace_get_box :: "sway \<Rightarrow> id \<Rightarrow> box" where
  "workspace_get_box s w =
     (let x = wss s w in
      \<lparr>b_x = c_trunc (w_x x), b_y = c_trunc (w_y x), b_width = w_width x, b_height = w_height x\<rparr>)"

definition output_get_box :: "sway \<Rightarrow> id \<Rightarrow> box" where
  "output_get_box s p =
     (let x = outs s p in \<lparr>b_x = o_lx x, b_y = o_ly x, b_width = o_width x, b_height = o_height x\<rparr>)"

text \<open>wlr_box_empty: a box is empty when a side is not positive.\<close>

definition box_empty :: "box \<Rightarrow> bool" where
  "box_empty b \<longleftrightarrow> b_width b \<le> 0 \<or> b_height b \<le> 0"

section \<open>Size limits of floating containers\<close>

text \<open>min_width, max_width, min_height, max_height, in the order of the parameters.\<close>

definition floating_calculate_constraints :: "config \<Rightarrow> box \<Rightarrow> int \<times> int \<times> int \<times> int" where
  "floating_calculate_constraints c layout_box =
     (if cfg_floating_minimum_width c = -1 then 0
      else if cfg_floating_minimum_width c = 0 then 75 else cfg_floating_minimum_width c,
      if cfg_floating_maximum_width c = -1 then INT_MAX
      else if cfg_floating_maximum_width c = 0 then b_width layout_box else cfg_floating_maximum_width c,
      if cfg_floating_minimum_height c = -1 then 0
      else if cfg_floating_minimum_height c = 0 then 50 else cfg_floating_minimum_height c,
      if cfg_floating_maximum_height c = -1 then INT_MAX
      else if cfg_floating_maximum_height c = 0 then b_height layout_box else cfg_floating_maximum_height c)"

definition fit_between :: "int \<Rightarrow> int \<Rightarrow> rat \<Rightarrow> rat" where
  "fit_between lo hi v = max (of_int lo) (min v (of_int hi))"

text \<open>container_set_geometry_from_content; both asserts return without a change.\<close>

definition geometry_from_content :: "int \<Rightarrow> container \<Rightarrow> container" where
  "geometry_from_content titlebar con =
     (let framed = (c_border con \<noteq> B_CSD \<and> c_fullscreen con = FULLSCREEN_NONE);
          border_width = (if framed \<and> c_border con \<noteq> B_NONE then of_int (c_border_thickness con) else 0);
          top = (if framed then (if c_border con = B_NORMAL then of_int titlebar else border_width) else 0) in
      con\<lparr>c_x := c_content_x con - border_width, c_y := c_content_y con - top,
          c_width := c_content_width con + border_width * 2,
          c_height := top + c_content_height con + border_width\<rparr>)"

definition container_set_geometry_from_content :: "id \<Rightarrow> sway \<Rightarrow> sway" where
  "container_set_geometry_from_content c s =
     (if c_view (cons s c) = None \<or> \<not> container_is_floating s c then s
      else node_set_dirty (N_CONTAINER c)
             (upd_con c (geometry_from_content (cfg_titlebar_height (cfg s))) s))"

definition floating_natural_resize :: "box \<Rightarrow> id \<Rightarrow> sway \<Rightarrow> sway" where
  "floating_natural_resize layout_box c s =
     (case floating_calculate_constraints (cfg s) layout_box of
        (min_w, max_w, min_h, max_h) \<Rightarrow>
          (case c_view (cons s c) of
             None \<Rightarrow> upd_con c (\<lambda>x. x\<lparr>c_width := fit_between min_w max_w (c_width x),
                                     c_height := fit_between min_h max_h (c_height x)\<rparr>) s
           | Some v \<Rightarrow>
               (case container_clamp_content_size (cons s c)
                       (fit_between min_w max_w (of_int (v_natural_width v)),
                        fit_between min_h max_h (of_int (v_natural_height v))) of
                  (w, h) \<Rightarrow> container_set_geometry_from_content c
                             (upd_con c (\<lambda>x. x\<lparr>c_content_width := w, c_content_height := h\<rparr>) s))))"

definition centered :: "rat \<Rightarrow> int \<Rightarrow> rat \<Rightarrow> rat" where
  "centered start room extent = start + (of_int room - extent) / 2"

definition center_box :: "box \<Rightarrow> workspace \<Rightarrow> container \<Rightarrow> container" where
  "center_box ob ws con =
     (if c_width con > of_int (w_width ws) \<or> c_height con > of_int (w_height ws)
      then con\<lparr>c_x := centered (of_int (b_x ob)) (b_width ob) (c_width con),
               c_y := centered (of_int (b_y ob)) (b_height ob) (c_height con)\<rparr>
      else con\<lparr>c_x := centered (w_x ws) (w_width ws) (c_width con),
               c_y := centered (w_y ws) (w_height ws) (c_height con)\<rparr>)"

definition center_content :: "box \<Rightarrow> workspace \<Rightarrow> container \<Rightarrow> container" where
  "center_content ob ws con =
     (let con = (if c_content_width con > of_int (w_width ws) \<or> c_content_height con > of_int (w_height ws)
        then con\<lparr>c_content_x := centered (of_int (b_x ob)) (b_width ob) (c_content_width con),
                 c_content_y := centered (of_int (b_y ob)) (b_height ob) (c_content_height con)\<rparr>
        else con\<lparr>c_content_x := centered (w_x ws) (w_width ws) (c_content_width con),
                 c_content_y := centered (w_y ws) (w_height ws) (c_content_height con)\<rparr>) in
      con\<lparr>c_border_top := True, c_border_bottom := True, c_border_left := True, c_border_right := True\<rparr>)"

definition container_floating_resize_and_center :: "box \<Rightarrow> (id option \<Rightarrow> box) \<Rightarrow> id \<Rightarrow> sway \<Rightarrow> sway" where
  "container_floating_resize_and_center layout_box output_layout_box c s =
     (case c_workspace (cons s c) of
        None \<Rightarrow> floating_natural_resize layout_box c s
      | Some w \<Rightarrow>
          (let ob = output_layout_box (w_output (wss s w)) in
           if box_empty ob
           then upd_con c (\<lambda>x. x\<lparr>c_x := 0, c_y := 0, c_width := 0, c_height := 0\<rparr>) s
           else
             (let s = floating_natural_resize layout_box c s in
              if c_view (cons s c) = None
              then upd_con c (center_box ob (wss s w)) s
              else container_set_geometry_from_content c (upd_con c (center_content ob (wss s w)) s))))"

definition container_floating_set_default_size :: "box \<Rightarrow> id \<Rightarrow> sway \<Rightarrow> sway" where
  "container_floating_set_default_size layout_box c s =
     (case c_workspace (cons s c) of None \<Rightarrow> s
      | Some w \<Rightarrow>
          (case floating_calculate_constraints (cfg s) layout_box of
             (min_w, max_w, min_h, max_h) \<Rightarrow>
               (let box = workspace_get_box s w;
                    width = fit_between min_w max_w (of_int (b_width box) * (1 / 2));
                    height = fit_between min_h max_h (of_int (b_height box) * (3 / 4)) in
                if c_view (cons s c) = None
                then upd_con c (\<lambda>x. x\<lparr>c_width := width, c_height := height\<rparr>) s
                else container_set_geometry_from_content c
                       (upd_con c (\<lambda>x. x\<lparr>c_content_width := width, c_content_height := height\<rparr>) s))))"

section \<open>Moving\<close>

fun translate_fuel :: "nat \<Rightarrow> rat \<Rightarrow> rat \<Rightarrow> id \<Rightarrow> sway \<Rightarrow> sway" where
  "translate_fuel 0 dx dy c s = s"
| "translate_fuel (Suc n) dx dy c s =
     (let s = upd_con c (\<lambda>x. x\<lparr>c_x := c_x x + dx, c_y := c_y x + dy,
                 c_content_x := c_content_x x + dx, c_content_y := c_content_y x + dy\<rparr>) s;
          s = fold (translate_fuel n dx dy) (c_children (cons s c)) s in
      node_set_dirty (N_CONTAINER c) s)"

definition container_floating_translate :: "id \<Rightarrow> rat \<Rightarrow> rat \<Rightarrow> sway \<Rightarrow> sway" where
  "container_floating_translate c dx dy s = translate_fuel (next_id s + 1) dx dy c s"

definition container_floating_move_to_center :: "id \<Rightarrow> sway \<Rightarrow> sway" where
  "container_floating_move_to_center c s =
     (if \<not> container_is_floating s c then s
      else case c_workspace (cons s c) of None \<Rightarrow> s
      | Some w \<Rightarrow>
          (let ws = wss s w; x = cons s c in
           container_floating_translate c
             (centered (w_x ws) (w_width ws) (c_width x) - c_x x)
             (centered (w_y ws) (w_height ws) (c_height x) - c_y x) s))"

text \<open>The loop of container_floating_find_output over the outputs.\<close>

fun find_output_loop :: "(box \<Rightarrow> rat \<Rightarrow> rat \<Rightarrow> rat \<times> rat) \<Rightarrow> sway \<Rightarrow> rat \<Rightarrow> rat \<Rightarrow> id list
    \<Rightarrow> id option \<Rightarrow> rat \<Rightarrow> id option" where
  "find_output_loop closest s cx cy [] best closest_d = best"
| "find_output_loop closest s cx cy (p # ps) best closest_d =
     (case closest (output_get_box s p) cx cy of
        (x, y) \<Rightarrow>
          if cx = x \<and> cy = y then Some p
          else let d = (x - cx) * (x - cx) + (y - cy) * (y - cy) in
            if d < closest_d then find_output_loop closest s cx cy ps (Some p) d
            else find_output_loop closest s cx cy ps best closest_d)"

definition container_floating_find_output ::
    "(box \<Rightarrow> rat \<Rightarrow> rat \<Rightarrow> rat \<times> rat) \<Rightarrow> sway \<Rightarrow> id \<Rightarrow> id option" where
  "container_floating_find_output closest s c =
     (let x = cons s c in
      find_output_loop closest s (c_x x + c_width x / 2) (c_y x + c_height x / 2) (outputs s) None DBL_MAX)"

definition relocated :: "box \<Rightarrow> box \<Rightarrow> container \<Rightarrow> container" where
  "relocated old new con =
     (let rel_x = c_x con - of_int (b_x old) + c_width con / 2;
          rel_y = c_y con - of_int (b_y old) + c_height con / 2 in
      con\<lparr>c_x := of_int (b_x new) + (rel_x * of_int (b_width new)) / of_int (b_width old) - c_width con / 2,
          c_y := of_int (b_y new) + (rel_y * of_int (b_height new)) / of_int (b_height old) - c_height con / 2\<rparr>)"

definition floating_fix_coordinates :: "id \<Rightarrow> box \<Rightarrow> box \<Rightarrow> sway \<Rightarrow> sway" where
  "floating_fix_coordinates c old new s =
     (if b_width old = 0 \<or> b_height old = 0 then container_floating_move_to_center c s
      else upd_con c (relocated old new) s)"

section \<open>Only geometry changes\<close>

lemma shape_of_geometry_from_content [simp]: "shape_of (geometry_from_content t con) = shape_of con"
  by (simp add: geometry_from_content_def Let_def)

lemma set_geometry_shape: "same_shape s (container_set_geometry_from_content c s)"
  unfolding container_set_geometry_from_content_def by (auto intro!: shape)

lemmas set_geometry_after [shape] = same_shape_trans[OF _ set_geometry_shape]

lemma natural_resize_shape: "same_shape s (floating_natural_resize b c s)"
  unfolding floating_natural_resize_def by (auto intro!: shape split: option.split prod.split)

lemmas natural_resize_after [shape] = same_shape_trans[OF _ natural_resize_shape]

lemma shape_of_center [simp]: "shape_of (center_box ob ws con) = shape_of con"
  "shape_of (center_content ob ws con) = shape_of con"
  by (simp_all add: center_box_def center_content_def Let_def)

lemma resize_and_center_shape: "same_shape s (container_floating_resize_and_center b ob c s)"
  unfolding container_floating_resize_and_center_def Let_def by (auto intro!: shape split: option.split)

lemma default_size_shape: "same_shape s (container_floating_set_default_size b c s)"
  unfolding container_floating_set_default_size_def Let_def by (auto intro!: shape split: option.split prod.split)

lemma fold_shape:
  "(\<And>c t. same_shape t (f c t)) \<Longrightarrow> same_shape s (fold f cs s)"
  by (induction cs arbitrary: s) (auto intro: same_shape_trans same_shape_refl)

lemma translate_fuel_shape: "same_shape s (translate_fuel n dx dy c s)"
proof (induction n arbitrary: c s)
  case (Suc n)
  show ?case unfolding translate_fuel.simps Let_def
    by (intro same_shape_dirty_after same_shape_trans[OF _ fold_shape[OF Suc.IH]] same_shape_upd_con) simp
qed (simp add: same_shape_refl)

lemma translate_shape: "same_shape s (container_floating_translate c dx dy s)"
  unfolding container_floating_translate_def by (rule translate_fuel_shape)

lemmas translate_after [shape] = same_shape_trans[OF _ translate_shape]

lemma move_to_center_shape: "same_shape s (container_floating_move_to_center c s)"
  unfolding container_floating_move_to_center_def Let_def by (auto intro!: shape split: option.split)

lemma fix_coordinates_shape: "same_shape s (floating_fix_coordinates c old new s)"
  unfolding floating_fix_coordinates_def
  by (auto simp: relocated_def Let_def intro!: move_to_center_shape same_shape_upd_con)

lemmas fix_coordinates_after [shape] = same_shape_trans[OF _ fix_coordinates_shape]

section \<open>Moving a container moves its whole subtree\<close>

definition moved :: "rat \<Rightarrow> rat \<Rightarrow> container \<Rightarrow> container" where
  "moved dx dy x = x\<lparr>c_x := c_x x + dx, c_y := c_y x + dy,
     c_content_x := c_content_x x + dx, c_content_y := c_content_y x + dy\<rparr>"

lemma moved_children [simp]: "c_children (moved dx dy x) = c_children x"
  by (simp add: moved_def)

lemma moved_zero [simp]: "moved 0 0 x = x"
  by (simp add: moved_def)

lemma subtree_disjoint:
  assumes "struct_ok s" "a \<in> set (c_children (cons s p))" "b \<in> set (c_children (cons s p))" "a \<noteq> b"
  shows "insert a (descendants s a) \<inter> insert b (descendants s b) = {}"
proof -
  have pa: "c_parent (cons s a) = Some p" "c_parent (cons s b) = Some p"
    using struct_okD(1)[OF assms(1)] assms(2,3) by blast+
  have chain: "e \<in> insert x (ancestors s x) \<or> x \<in> insert e (ancestors s e)"
    if "d \<in> insert x (descendants s x)" "d \<in> insert e (descendants s e)" for d x e
  proof -
    have lin: "(d, u) \<in> (parent_rel s)\<^sup>* \<Longrightarrow> (d, v) \<in> (parent_rel s)\<^sup>* \<Longrightarrow>
        (u, v) \<in> (parent_rel s)\<^sup>* \<or> (v, u) \<in> (parent_rel s)\<^sup>*" for u v
    proof (induction rule: rtrancl_induct)
      case (step y z)
      then show ?case
        by (auto simp: parent_rel_def elim: converse_rtranclE intro: rtrancl_into_rtrancl)
    qed auto
    have "(d, x) \<in> (parent_rel s)\<^sup>*" "(d, e) \<in> (parent_rel s)\<^sup>*"
      using that by (auto simp: descendants_def trancl_into_rtrancl)
    then show ?thesis using lin by (auto simp: ancestors_def rtrancl_eq_or_trancl)
  qed
  have "ancestors s a = ancestors s b" using ancestors_step[OF pa(1)] ancestors_step[OF pa(2)] by simp
  then show ?thesis
    using chain[of _ a b] not_own_ancestor[OF assms(1)] assms(4) by blast
qed

text \<open>What the recursion does to the containers, for siblings with disjoint subtrees.\<close>

lemma translate_fuel_cons:
  "struct_ok s \<Longrightarrow> card (descendants s c) < n \<Longrightarrow>
   cons (translate_fuel n dx dy c s) d
     = (if d = c \<or> d \<in> descendants s c then moved dx dy (cons s d) else cons s d)"
proof (induction n arbitrary: c s d)
  case (Suc n)
  define s1 where "s1 = upd_con c (moved dx dy) s"
  have sh1: "same_shape s s1" unfolding s1_def by (rule same_shape_upd_con) (simp add: moved_def)
  have kids: "c_children (cons s1 c) = c_children (cons s c)" by (simp add: s1_def)
  have loop: "cons (fold (translate_fuel n dx dy) ks t) d
      = (if d \<in> subtrees s ks then moved dx dy (cons t d) else cons t d)"
    if "same_shape s t" "set ks \<subseteq> set (c_children (cons s c))" "distinct ks" for ks t d
    using that
  proof (induction ks arbitrary: t)
    case (Cons k ks)
    let ?t = "translate_fuel n dx dy k t"
    have k: "k \<in> set (c_children (cons s c))" using Cons.prems(2) by simp
    have lt: "struct_ok t" "descendants t k = descendants s k"
      using same_shape_struct[OF Cons.prems(1) Suc.prems(1)] same_shape_descendants[OF Cons.prems(1)] by auto
    have "card (descendants t k) < n"
      using card_descendants_less[OF Suc.prems(1) k] Suc.prems(2) lt(2) by simp
    note IH = Suc.IH[OF lt(1) this, unfolded lt(2)]
    have sh: "same_shape s ?t" by (rule same_shape_trans[OF Cons.prems(1) translate_fuel_shape])
    have disj: "insert k (descendants s k) \<inter> subtrees s ks = {}"
      using subtree_disjoint[OF Suc.prems(1) k] Cons.prems(2,3) by (fastforce simp: subtrees_def)
    have "cons (fold (translate_fuel n dx dy) ks ?t) d
        = (if d \<in> subtrees s ks then moved dx dy (cons ?t d) else cons ?t d)"
      using Cons.prems(2,3) by (intro Cons.IH[OF sh]) auto
    then show ?case using IH disj by (auto simp: Int_Un_distrib)
  qed simp
  have "cons (translate_fuel (Suc n) dx dy c s) d
      = cons (fold (translate_fuel n dx dy) (c_children (cons s c)) s1) d"
    unfolding translate_fuel.simps Let_def by (simp add: s1_def moved_def[abs_def])
  also have "\<dots> = (if d \<in> descendants s c then moved dx dy (cons s1 d) else cons s1 d)"
    using loop[OF sh1 subset_refl struct_okD(2)[OF Suc.prems(1)]] subtrees_children[OF Suc.prems(1)] by simp
  finally show ?case using not_own_descendant[OF Suc.prems(1), of c] by (auto simp: s1_def)
qed simp

end
