(* ===== verification/Focus.thy ===== *)
theory Focus
  imports Tree_Walk
begin

text \<open>
  The focus stack of a seat (sway/input/seat.c): every container and workspace the seat has seen,
  most recently focused first. The queries walk the stack; seat_set_raw_focus moves a node to its
  front. A seat is given by its position in the list of seats.
\<close>

section \<open>Queries\<close>

definition seat_get_focus :: "seat \<Rightarrow> node option" where
  "seat_get_focus t =
     (if \<not> s_has_focus t then None
      else case s_focus_stack t of [] \<Rightarrow> None | n # _ \<Rightarrow> Some n)"

definition seat_get_focused_container :: "seat \<Rightarrow> id option" where
  "seat_get_focused_container t =
     (case seat_get_focus t of Some (N_CONTAINER c) \<Rightarrow> Some c | _ \<Rightarrow> None)"

definition seat_get_focus_inactive_view :: "sway \<Rightarrow> seat \<Rightarrow> node \<Rightarrow> id option" where
  "seat_get_focus_inactive_view s t ancestor =
     (case ancestor of
        N_CONTAINER c \<Rightarrow>
          if node_is_view s ancestor then Some c
          else (case List.find (\<lambda>n. node_is_view s n \<and> node_has_ancestor s n ancestor) (s_focus_stack t) of
                  Some (N_CONTAINER d) \<Rightarrow> Some d | _ \<Rightarrow> None)
      | _ \<Rightarrow> (case List.find (\<lambda>n. node_is_view s n \<and> node_has_ancestor s n ancestor) (s_focus_stack t) of
                  Some (N_CONTAINER d) \<Rightarrow> Some d | _ \<Rightarrow> None))"

definition seat_get_focus_inactive :: "sway \<Rightarrow> seat \<Rightarrow> node \<Rightarrow> node option" where
  "seat_get_focus_inactive s t n =
     (if node_is_view s n then Some n
      else case List.find (\<lambda>m. node_has_ancestor s m n) (s_focus_stack t) of
             Some m \<Rightarrow> Some m
           | None \<Rightarrow> (case n of N_WORKSPACE w \<Rightarrow> Some n | _ \<Rightarrow> None))"

definition container_node_on :: "sway \<Rightarrow> id \<Rightarrow> bool \<Rightarrow> node \<Rightarrow> bool" where
  "container_node_on s w floating n =
     (case n of
        N_CONTAINER c \<Rightarrow> container_is_floating_or_child s c = floating \<and> c_workspace (cons s c) = Some w
      | _ \<Rightarrow> False)"

definition node_container :: "node \<Rightarrow> id option" where
  "node_container n = (case n of N_CONTAINER c \<Rightarrow> Some c | _ \<Rightarrow> None)"

definition seat_get_focus_inactive_tiling :: "sway \<Rightarrow> seat \<Rightarrow> id \<Rightarrow> id option" where
  "seat_get_focus_inactive_tiling s t w =
     (if w_tiling (wss s w) = [] then None
      else case List.find (container_node_on s w False) (s_focus_stack t) of
             None \<Rightarrow> None | Some n \<Rightarrow> node_container n)"

definition seat_get_focus_inactive_floating :: "sway \<Rightarrow> seat \<Rightarrow> id \<Rightarrow> id option" where
  "seat_get_focus_inactive_floating s t w =
     (if w_floating (wss s w) = [] then None
      else case List.find (container_node_on s w True) (s_focus_stack t) of
             None \<Rightarrow> None | Some n \<Rightarrow> node_container n)"

definition seat_get_active_tiling_child :: "sway \<Rightarrow> seat \<Rightarrow> node \<Rightarrow> node option" where
  "seat_get_active_tiling_child s t parent =
     (if node_is_view s parent then Some parent
      else List.find (\<lambda>n. node_get_parent s n = Some parent \<and>
             (case parent of
                N_WORKSPACE w \<Rightarrow> (case n of N_CONTAINER c \<Rightarrow> index_of c (w_tiling (wss s w)) \<noteq> -1 | _ \<Rightarrow> False)
              | _ \<Rightarrow> True)) (s_focus_stack t))"

definition seat_get_focused_workspace :: "sway \<Rightarrow> seat \<Rightarrow> id option" where
  "seat_get_focused_workspace s t =
     (case seat_get_focus_inactive s t N_ROOT of
        Some (N_CONTAINER c) \<Rightarrow> c_workspace (cons s c)
      | Some (N_WORKSPACE w) \<Rightarrow> Some w
      | _ \<Rightarrow> None)"

fun last_known_workspace :: "sway \<Rightarrow> node list \<Rightarrow> id option" where
  "last_known_workspace s [] = None"
| "last_known_workspace s (n # ns) =
     (case n of
        N_CONTAINER c \<Rightarrow>
          (case c_workspace (cons s c) of Some w \<Rightarrow> Some w | None \<Rightarrow> last_known_workspace s ns)
      | N_WORKSPACE w \<Rightarrow> Some w
      | _ \<Rightarrow> last_known_workspace s ns)"

definition seat_get_last_known_workspace :: "sway \<Rightarrow> seat \<Rightarrow> id option" where
  "seat_get_last_known_workspace s t = last_known_workspace s (s_focus_stack t)"

text \<open>
  input_manager_get_seat finds a seat by name. When seat0 does not exist the source creates it; the
  model then answers a seat that has seen nothing.
\<close>

definition input_manager_get_seat :: "sway \<Rightarrow> string \<Rightarrow> seat option" where
  "input_manager_get_seat s name = List.find (\<lambda>t. s_name t = name) (seats s)"

definition seat_zero :: "string \<Rightarrow> seat" where
  "seat_zero name = \<lparr>s_name = name, s_focus_stack = [], s_has_focus = False, s_workspace = None,
     s_prev_workspace_name = None, s_cursor_x = 0, s_cursor_y = 0, s_deferred_bindings = []\<rparr>"

definition input_manager_get_default_seat :: "sway \<Rightarrow> seat" where
  "input_manager_get_default_seat s =
     (case input_manager_get_seat s ''seat0'' of Some t \<Rightarrow> t | None \<Rightarrow> seat_zero ''seat0'')"

section \<open>Moving the focus\<close>

text \<open>seat_node_from_node: containers and workspaces get a place at the end of the stack.\<close>

definition seat_node_from_node :: "node \<Rightarrow> seat \<Rightarrow> seat" where
  "seat_node_from_node n t =
     (case n of N_ROOT \<Rightarrow> t | N_OUTPUT p \<Rightarrow> t
      | _ \<Rightarrow> if n \<in> set (s_focus_stack t) then t else t\<lparr>s_focus_stack := s_focus_stack t @ [n]\<rparr>)"

definition raise_node :: "node \<Rightarrow> seat \<Rightarrow> seat" where
  "raise_node n t =
     (let t = seat_node_from_node n t in t\<lparr>s_focus_stack := n # remove1 n (s_focus_stack t)\<rparr>)"

definition seat_set_raw_focus :: "nat \<Rightarrow> node \<Rightarrow> sway \<Rightarrow> sway" where
  "seat_set_raw_focus k n s =
     (let s = upd_seat k (raise_node n) s; s = node_set_dirty n s in
      case node_get_parent s n of None \<Rightarrow> s | Some p \<Rightarrow> node_set_dirty p s)"

definition seat_node_destroy :: "node \<Rightarrow> seat \<Rightarrow> seat" where
  "seat_node_destroy n t =
     (if n \<in> set (s_focus_stack t)
      then (let t = t\<lparr>s_focus_stack := remove1 n (s_focus_stack t)\<rparr> in
            if s_focus_stack t = [] then t\<lparr>s_has_focus := False\<rparr> else t)
      else t)"

section \<open>The stack holds every node once\<close>

definition seat_ok :: "seat \<Rightarrow> bool" where
  "seat_ok t \<longleftrightarrow> distinct (s_focus_stack t) \<and> N_ROOT \<notin> set (s_focus_stack t)
     \<and> (\<forall>p. N_OUTPUT p \<notin> set (s_focus_stack t))"

definition focusable :: "node \<Rightarrow> bool" where
  "focusable n = (case n of N_CONTAINER c \<Rightarrow> True | N_WORKSPACE w \<Rightarrow> True | _ \<Rightarrow> False)"

lemma seat_node_from_node_stack:
  "focusable n \<Longrightarrow> s_focus_stack (seat_node_from_node n t)
     = (if n \<in> set (s_focus_stack t) then s_focus_stack t else s_focus_stack t @ [n])"
  by (cases n) (auto simp: seat_node_from_node_def focusable_def)

lemma raise_node_stack:
  assumes "focusable n"
  shows "s_focus_stack (raise_node n t) = n # remove1 n (s_focus_stack t)"
proof (cases "n \<in> set (s_focus_stack t)")
  case False
  then have "remove1 n (s_focus_stack t @ [n]) = s_focus_stack t"
    by (simp add: remove1_append remove1_idem)
  then show ?thesis using False by (simp add: raise_node_def seat_node_from_node_stack[OF assms] remove1_idem)
qed (simp add: raise_node_def seat_node_from_node_stack[OF assms])

lemma remove1_filter: "distinct xs \<Longrightarrow> remove1 n xs = filter (\<lambda>m. m \<noteq> n) xs"
  by (induction xs) (auto intro!: filter_True[symmetric])

lemma seat_okD: "seat_ok t \<Longrightarrow> distinct (s_focus_stack t)"
  by (simp add: seat_ok_def)

lemma raise_node_ok:
  assumes "focusable n" "seat_ok t" shows "seat_ok (raise_node n t)"
proof -
  have "n \<noteq> N_ROOT" "n \<noteq> N_OUTPUT p" for p using assms(1) by (auto simp: focusable_def)
  then show ?thesis
    using assms(2) unfolding seat_ok_def raise_node_stack[OF assms(1)] remove1_filter[OF seat_okD[OF assms(2)]]
    by auto
qed

lemma seat_node_destroy_ok: "seat_ok t \<Longrightarrow> seat_ok (seat_node_destroy n t)"
  using remove1_filter[OF seat_okD] by (auto simp: seat_ok_def seat_node_destroy_def Let_def)

text \<open>
  C17. The focus stack: raising a node keeps every other node in its order and keeps the stack free
  of repetitions, and afterwards the node is the one seat_get_focus_inactive answers for each of its
  ancestors that is not a view.
\<close>

theorem raise_node_refocuses:
  assumes "seat_ok t" "focusable n" "node_has_ancestor s n a" "\<not> node_is_view s a"
  shows "seat_ok (raise_node n t)
    \<and> s_focus_stack (raise_node n t) = n # filter (\<lambda>m. m \<noteq> n) (s_focus_stack t)
    \<and> seat_get_focus_inactive s (raise_node n t) a = Some n"
  using raise_node_ok[OF assms(2,1)] assms(3,4) remove1_filter[OF seat_okD[OF assms(1)]]
  by (simp add: seat_get_focus_inactive_def raise_node_stack[OF assms(2)])

lemma raise_node_refocuses_witness:
  "seat_get_focus_inactive sample (raise_node (N_CONTAINER 4)
      (seat_zero ''seat0''\<lparr>s_focus_stack := [N_WORKSPACE 6, N_CONTAINER 3, N_CONTAINER 4]\<rparr>)) (N_WORKSPACE 6)
   = Some (N_CONTAINER 4)"
proof -
  let ?t = "seat_zero ''seat0''\<lparr>s_focus_stack := [N_WORKSPACE 6, N_CONTAINER 3, N_CONTAINER 4]\<rparr>"
  have "seat_ok ?t" by (simp add: seat_ok_def)
  moreover have "node_has_ancestor sample (N_CONTAINER 4) (N_WORKSPACE 6)"
    by (simp add: node_has_ancestor_def node_get_parent_def sample_defs numeral_eq_Suc)
  moreover have "focusable (N_CONTAINER 4)" "\<not> node_is_view sample (N_WORKSPACE 6)"
    by (simp_all add: focusable_def node_is_view_def)
  ultimately show ?thesis using raise_node_refocuses[of ?t "N_CONTAINER 4" sample "N_WORKSPACE 6"] by blast
qed

end
