(* ===== verification/Arrange.thy ===== *)
theory Arrange
  imports Viewport_Laws Floating Focus
begin

text \<open>
  Arranging (sway/tree/arrange.c, workspace_arrange_columns of viewport.c, workspace_add_gaps of
  workspace.c): from the box of an output to the boxes of its workspaces, columns, containers and
  views. arrange_container recurses into the children; its fuel, the number of ids handed out plus
  one, is enough for every tree whose links are sound (arrange_fuel_enough).
\<close>

definition MIN_SANE_W :: int where "MIN_SANE_W = 100"
definition MIN_SANE_H :: int where "MIN_SANE_H = 60"

section \<open>Horizontal and vertical splits\<close>

text \<open>
  The fractions of a list of siblings: children without one get the average of the others, then all
  are scaled to the sum 1.
\<close>

definition filled_fraction :: "rat list \<Rightarrow> rat \<Rightarrow> rat" where
  "filled_fraction fs f =
     (let current = sum_list fs; new_children = length (filter (\<lambda>f. f \<le> 0) fs) in
      if f \<le> 0
      then (if current \<le> 0 then 1
            else if length fs > new_children then current / (of_nat (length fs) - of_nat new_children)
            else current)
      else f)"

definition normalized_fractions :: "rat list \<Rightarrow> rat list" where
  "normalized_fractions fs =
     (let filled = map (filled_fraction fs) fs; whole = sum_list filled in map (\<lambda>f. f / whole) filled)"

text \<open>The gap between siblings: none below a tabbed or stacked container.\<close>

fun gap_loop :: "nat \<Rightarrow> sway \<Rightarrow> id \<Rightarrow> rat \<Rightarrow> rat" where
  "gap_loop 0 s temp gap = gap"
| "gap_loop (Suc n) s temp gap =
     (let gap = (if container_parent_layout s temp = L_TABBED \<or> container_parent_layout s temp = L_STACKED
                 then 0 else gap) in
      case c_parent (cons s temp) of None \<Rightarrow> gap | Some p \<Rightarrow> gap_loop n s p gap)"

definition sibling_gap :: "sway \<Rightarrow> id \<Rightarrow> rat" where
  "sibling_gap s child =
     gap_loop (next_id s + 1) s child
       (case c_workspace (cons s child) of None \<Rightarrow> 0 | Some w \<Rightarrow> of_int (w_gaps_inner (wss s w)))"

text \<open>The length left for the children of a split, and the gap between two of them.\<close>

definition split_room :: "sway \<Rightarrow> id list \<Rightarrow> int \<Rightarrow> int \<Rightarrow> rat \<times> rat" where
  "split_room s cs extent min_sane =
     (let n = int (length cs);
          total_gap = min (sibling_gap s (hd cs) * of_int (n - 1)) (max 0 (of_int (extent - min_sane * n))) in
      (of_int extent - total_gap, of_int \<lfloor>total_gap / of_int (n - 1)\<rfloor>))"

definition collapse_box :: "container \<Rightarrow> container" where
  "collapse_box c = (if c_width c < 10 \<or> c_height c < 10 then c\<lparr>c_width := 0, c_height := 0\<rparr> else c)"

fun horiz_loop :: "box \<Rightarrow> rat \<Rightarrow> rat \<Rightarrow> rat \<Rightarrow> id list \<Rightarrow> sway \<Rightarrow> sway" where
  "horiz_loop parent room gap child_x [] s = s"
| "horiz_loop parent room gap child_x (c # cs) s =
     (let s = upd_con c (\<lambda>x. collapse_box (x\<lparr>c_child_total_width := room, c_x := child_x,
                c_y := of_int (b_y parent),
                c_width := (if cs = [] then of_int (b_x parent) + of_int (b_width parent) - child_x
                            else of_int (c_round (c_width_fraction x * room))),
                c_height := of_int (b_height parent)\<rparr>)) s in
      horiz_loop parent room gap (child_x + c_width (cons s c) + gap) cs s)"

fun set_width_fractions :: "(id \<times> rat) list \<Rightarrow> sway \<Rightarrow> sway" where
  "set_width_fractions [] s = s"
| "set_width_fractions ((c, f) # cs) s =
     set_width_fractions cs (upd_con c (\<lambda>x. x\<lparr>c_width_fraction := f\<rparr>) s)"

definition apply_horiz_layout :: "id list \<Rightarrow> box \<Rightarrow> sway \<Rightarrow> sway" where
  "apply_horiz_layout cs parent s =
     (if cs = [] then s
      else
        (let s = set_width_fractions
                   (zip cs (normalized_fractions (map (\<lambda>c. c_width_fraction (cons s c)) cs))) s in
         case split_room s cs (b_width parent) MIN_SANE_W of
           (room, gap) \<Rightarrow> horiz_loop parent room gap (of_int (b_x parent)) cs s))"

fun vert_loop :: "box \<Rightarrow> rat \<Rightarrow> rat \<Rightarrow> rat \<Rightarrow> id list \<Rightarrow> sway \<Rightarrow> sway" where
  "vert_loop parent room gap child_y [] s = s"
| "vert_loop parent room gap child_y (c # cs) s =
     (let s = upd_con c (\<lambda>x. collapse_box (x\<lparr>c_child_total_height := room,
                c_x := of_int (b_x parent), c_y := child_y, c_width := of_int (b_width parent),
                c_height := (if cs = [] then of_int (b_y parent) + of_int (b_height parent) - child_y
                             else of_int (c_round (c_height_fraction x * room)))\<rparr>)) s in
      vert_loop parent room gap (child_y + c_height (cons s c) + gap) cs s)"

definition apply_vert_layout :: "id list \<Rightarrow> box \<Rightarrow> sway \<Rightarrow> sway" where
  "apply_vert_layout cs parent s =
     (if cs = [] then s
      else
        (let s = set_height_fractions
                   (zip cs (normalized_fractions (map (\<lambda>c. c_height_fraction (cons s c)) cs))) s in
         case split_room s cs (b_height parent) MIN_SANE_H of
           (room, gap) \<Rightarrow> vert_loop parent room gap (of_int (b_y parent)) cs s))"

text \<open>Tabbed and stacked children all get the whole box below the title bars; x is set to 0.\<close>

definition tab_child :: "box \<Rightarrow> int \<Rightarrow> container \<Rightarrow> container" where
  "tab_child parent offset x =
     x\<lparr>c_x := 0, c_y := of_int (b_y parent + offset), c_width := of_int (b_width parent),
       c_height := of_int (b_height parent - offset)\<rparr>"

definition apply_tabbed_layout :: "id list \<Rightarrow> box \<Rightarrow> sway \<Rightarrow> sway" where
  "apply_tabbed_layout cs parent s =
     fold (\<lambda>c s. upd_con c (\<lambda>x. tab_child parent
             (if c_view x \<noteq> None then 0 else cfg_titlebar_height (cfg s)) x) s) cs s"

definition apply_stacked_layout :: "id list \<Rightarrow> box \<Rightarrow> sway \<Rightarrow> sway" where
  "apply_stacked_layout cs parent s =
     fold (\<lambda>c s. upd_con c (\<lambda>x. tab_child parent
             (if c_view x \<noteq> None then 0 else cfg_titlebar_height (cfg s) * int (length cs)) x) s) cs s"

definition apply_layout :: "container_layout \<Rightarrow> id list \<Rightarrow> box \<Rightarrow> sway \<Rightarrow> sway" where
  "apply_layout layout cs parent s =
     (case layout of
        L_HORIZ \<Rightarrow> apply_horiz_layout cs parent s
      | L_VERT \<Rightarrow> apply_vert_layout cs parent s
      | L_TABBED \<Rightarrow> apply_tabbed_layout cs parent s
      | L_STACKED \<Rightarrow> apply_stacked_layout cs parent s
      | L_NONE \<Rightarrow> apply_horiz_layout cs parent s)"

section \<open>Containers\<close>

fun arrange_container_fuel :: "nat \<Rightarrow> id \<Rightarrow> sway \<Rightarrow> sway" where
  "arrange_container_fuel 0 c s = s"
| "arrange_container_fuel (Suc n) c s =
     (if cfg_reloading (cfg s) then s
      else if c_view (cons s c) \<noteq> None
      then node_set_dirty (N_CONTAINER c) (view_autoconfigure c s)
      else if c_parent (cons s c) = None \<and> c_workspace (cons s c) \<noteq> None \<and> c_layout (cons s c) = L_VERT
      then node_set_dirty (N_CONTAINER c) (viewport_arrange_windows c s)
      else
        (let cs = c_children (cons s c);
             s = apply_layout (c_layout (cons s c)) cs (container_get_box s c) s;
             s = fold (arrange_container_fuel n) cs s in
         node_set_dirty (N_CONTAINER c) s))"

definition arrange_container :: "id \<Rightarrow> sway \<Rightarrow> sway" where
  "arrange_container c s = arrange_container_fuel (next_id s + 1) c s"

definition arrange_children :: "id list \<Rightarrow> container_layout \<Rightarrow> box \<Rightarrow> sway \<Rightarrow> sway" where
  "arrange_children cs layout parent s = fold arrange_container cs (apply_layout layout cs parent s)"

section \<open>Columns\<close>

text \<open>The placement loop of workspace_arrange_columns; pos is the ideal, prev_edge the pixel position.\<close>

definition place_column :: "id \<Rightarrow> rat \<Rightarrow> rat \<Rightarrow> rat \<Rightarrow> int \<Rightarrow> int \<Rightarrow> id \<Rightarrow> sway \<Rightarrow> sway" where
  "place_column w ox oy usable_h prev_edge edge c s =
     node_set_dirty (N_CONTAINER c)
       (upd_con c (\<lambda>x. x\<lparr>c_x := ox + of_int prev_edge, c_y := oy, c_height := usable_h,
          c_width := of_int (edge - prev_edge),
          c_width_fraction := workspace_width_to_fraction (wss s w) (of_int (edge - prev_edge))\<rparr>) s)"

definition arrange_column :: "id \<Rightarrow> sway \<Rightarrow> sway" where
  "arrange_column c s =
     (if c_view (cons s c) = None
      then (if c_layout (cons s c) = L_VERT then viewport_arrange_windows c s else arrange_container c s)
      else s)"

fun place_columns :: "id \<Rightarrow> int \<Rightarrow> rat \<Rightarrow> rat \<Rightarrow> rat \<Rightarrow> rat \<Rightarrow> int \<Rightarrow> (id \<times> rat) list \<Rightarrow> sway \<Rightarrow> sway" where
  "place_columns w gaps ox oy usable_h pos prev_edge [] s = s"
| "place_columns w gaps ox oy usable_h pos prev_edge ((c, width) # cols) s =
     (let pos = pos + width; edge = c_round pos;
          s = arrange_column c (place_column w ox oy usable_h prev_edge edge c s) in
      place_columns w gaps ox oy usable_h (pos + of_int gaps) (edge + gaps) cols s)"

definition workspace_arrange_columns :: "id \<Rightarrow> box \<Rightarrow> sway \<Rightarrow> sway" where
  "workspace_arrange_columns w parent s =
     (let ws = wss s w; cols = w_tiling ws; gaps = w_gaps_inner ws; n = int (length cols) in
      if cols = [] then s
      else
        (let total_w = of_int (max 0 (b_width parent - gaps * (n - 1))) in
         place_columns w gaps (w_x ws) (w_y ws) (of_int (b_height parent)) 0 0
           (zip cols (column_widths s total_w cols)) s))"

section \<open>Workspaces, outputs, root\<close>

definition workspace_has_single_visible_container :: "sway \<Rightarrow> id \<Rightarrow> bool" where
  "workspace_has_single_visible_container s w =
     (let t = input_manager_get_default_seat s;
          focus = seat_get_focus_inactive_tiling s t w;
          focus = (case focus of
             Some c \<Rightarrow> if c_view (cons s c) = None
                       then seat_get_focus_inactive_view s t (N_CONTAINER c) else Some c
           | None \<Rightarrow> None) in
      case focus of
        Some c \<Rightarrow> c_view (cons s c) \<noteq> None \<and> view_ancestor_is_only_visible s c
      | None \<Rightarrow> False)"

text \<open>
  Two opposite gaps, clamped so that at least min_sane pixels are left (the casts to int truncate).
\<close>

definition clamp_gaps :: "int \<Rightarrow> int \<Rightarrow> int \<Rightarrow> int \<Rightarrow> int \<times> int" where
  "clamp_gaps extent min_sane a b =
     (if extent - a - b < min_sane \<and> a + b > 0
      then (let total_gap = max 0 (extent - min_sane);
                a' = c_trunc (of_int a / (of_int a + of_int b) * of_int total_gap) in
            (a', total_gap - a'))
      else (a, b))"

definition add_gaps :: "side_gaps \<Rightarrow> workspace \<Rightarrow> workspace" where
  "add_gaps g ws =
     (let top = max 0 (g_top g + w_gaps_inner ws); right = max 0 (g_right g + w_gaps_inner ws);
          bottom = max 0 (g_bottom g + w_gaps_inner ws); left = max 0 (g_left g + w_gaps_inner ws);
          (left, right) = clamp_gaps (w_width ws) MIN_SANE_W left right;
          (top, bottom) = clamp_gaps (w_height ws) MIN_SANE_H top bottom in
      ws\<lparr>w_current_gaps := \<lparr>g_top = top, g_right = right, g_bottom = bottom, g_left = left\<rparr>,
         w_x := w_x ws + of_int left, w_y := w_y ws + of_int top,
         w_width := w_width ws - (left + right), w_height := w_height ws - (top + bottom)\<rparr>)"

definition workspace_add_gaps :: "id \<Rightarrow> sway \<Rightarrow> sway" where
  "workspace_add_gaps w s =
     (if cfg_smart_gaps (cfg s) = SMART_GAPS_ON \<and> workspace_has_single_visible_container s w
      then upd_ws w (\<lambda>x. x\<lparr>w_current_gaps := gaps_zero\<rparr>) s
      else if cfg_smart_gaps (cfg s) = SMART_GAPS_INVERSE_OUTER \<and> \<not> workspace_has_single_visible_container s w
      then upd_ws w (add_gaps gaps_zero) s
      else upd_ws w (\<lambda>x. add_gaps (w_gaps_outer x) x) s)"

definition set_box :: "box \<Rightarrow> container \<Rightarrow> container" where
  "set_box b x = x\<lparr>c_x := of_int (b_x b), c_y := of_int (b_y b),
     c_width := of_int (b_width b), c_height := of_int (b_height b)\<rparr>"

definition move_floaters :: "id \<Rightarrow> box \<Rightarrow> box \<Rightarrow> box \<Rightarrow> sway \<Rightarrow> sway" where
  "move_floaters w prev_box ws_box output_box s =
     fold (\<lambda>f s. let s = floating_fix_coordinates f prev_box ws_box s in
              if c_scratchpad (cons s f) then upd_con f (\<lambda>x. x\<lparr>c_transform := output_box\<rparr>) s else s)
       (w_floating (wss s w)) s"

definition arrange_workspace :: "id \<Rightarrow> sway \<Rightarrow> sway" where
  "arrange_workspace w s =
     (if cfg_reloading (cfg s) then s
      else case w_output (wss s w) of None \<Rightarrow> s
      | Some p \<Rightarrow>
          (let old = wss s w; area = o_usable_area (outs s p);
               first_arrange = (w_width old = 0 \<and> w_height old = 0);
               prev_box = workspace_get_box s w;
               x = of_int (o_lx (outs s p) + b_x area); y = of_int (o_ly (outs s p) + b_y area);
               diff_x = x - (w_x old - of_int (g_left (w_current_gaps old)));
               diff_y = y - (w_y old - of_int (g_top (w_current_gaps old)));
               s = upd_ws w (\<lambda>ws. ws\<lparr>w_width := b_width area, w_height := b_height area, w_x := x, w_y := y\<rparr>) s;
               s = (if \<not> first_arrange \<and> (diff_x \<noteq> 0 \<or> diff_y \<noteq> 0)
                    then move_floaters w prev_box (workspace_get_box s w) (output_get_box s p) s else s);
               s = node_set_dirty (N_WORKSPACE w) (workspace_add_gaps w s) in
           case w_fullscreen (wss s w) of
             Some fs \<Rightarrow> arrange_container fs (upd_con fs (set_box (output_get_box s p)) s)
           | None \<Rightarrow>
               (let s = workspace_arrange_columns w (workspace_get_box s w) s in
                fold arrange_container (w_floating (wss s w)) s)))"

text \<open>
  arrange.c asks output->wlr_output->enabled; the tree of the model has the flag of the sway_output. The two
  differ while a configured output is powered off: the source then leaves its workspaces as they are.
\<close>

definition arrange_output :: "id \<Rightarrow> sway \<Rightarrow> sway" where
  "arrange_output p s =
     (if cfg_reloading (cfg s) then s
      else if \<not> o_enabled (outs s p) then s
      else fold arrange_workspace (o_workspaces (outs s p)) s)"

text \<open>layout_box is the box of the output layout (wlr_output_layout_get_box).\<close>

definition arrange_root :: "box \<Rightarrow> sway \<Rightarrow> sway" where
  "arrange_root layout_box s =
     (if cfg_reloading (cfg s) then s
      else
        (let s = s\<lparr>root_box := layout_box\<rparr> in
         case fullscreen_global s of
           Some fs \<Rightarrow> arrange_container fs (upd_con fs (set_box layout_box) s)
         | None \<Rightarrow> fold arrange_output (outputs s) s))"

definition arrange_node :: "box \<Rightarrow> node \<Rightarrow> sway \<Rightarrow> sway" where
  "arrange_node layout_box n s =
     (case n of
        N_ROOT \<Rightarrow> arrange_root layout_box s
      | N_OUTPUT p \<Rightarrow> arrange_output p s
      | N_WORKSPACE w \<Rightarrow> arrange_workspace w s
      | N_CONTAINER c \<Rightarrow> arrange_container c s)"

section \<open>Only sizes change\<close>

lemma shape_of_collapse [simp]: "shape_of (collapse_box c) = shape_of c"
  by (simp add: collapse_box_def)

lemma shape_of_set_box [simp]: "shape_of (set_box b c) = shape_of c"
  by (simp add: set_box_def)

lemma shape_of_tab_child [simp]: "shape_of (tab_child b k c) = shape_of c"
  by (simp add: tab_child_def)

lemma horiz_loop_shape: "same_shape s (horiz_loop p t g x cs s)"
proof (induction cs arbitrary: x s)
  case (Cons c cs)
  show ?case unfolding horiz_loop.simps Let_def
    by (rule same_shape_trans[OF same_shape_upd_con Cons.IH]) simp
qed (simp add: same_shape_refl)

lemma vert_loop_shape: "same_shape s (vert_loop p t g x cs s)"
proof (induction cs arbitrary: x s)
  case (Cons c cs)
  show ?case unfolding vert_loop.simps Let_def
    by (rule same_shape_trans[OF same_shape_upd_con Cons.IH]) simp
qed (simp add: same_shape_refl)

lemma set_width_fractions_shape: "same_shape s (set_width_fractions cs s)"
proof (induction cs arbitrary: s)
  case (Cons x cs)
  obtain c f where x: "x = (c, f)" by (cases x)
  show ?case unfolding x set_width_fractions.simps
    by (rule same_shape_trans[OF same_shape_upd_con Cons.IH]) simp
qed (simp add: same_shape_refl)

lemma apply_horiz_shape: "same_shape s (apply_horiz_layout cs p s)"
  unfolding apply_horiz_layout_def Let_def
  by (auto intro!: same_shape_trans[OF set_width_fractions_shape horiz_loop_shape] same_shape_refl
      split: prod.split)

lemma apply_vert_shape: "same_shape s (apply_vert_layout cs p s)"
  unfolding apply_vert_layout_def Let_def
  by (auto intro!: same_shape_trans[OF set_height_fractions_shape vert_loop_shape] same_shape_refl
      split: prod.split)

lemma apply_tabbed_shape: "same_shape s (apply_tabbed_layout cs p s)"
  unfolding apply_tabbed_layout_def by (rule fold_shape) (rule same_shape_upd_con, simp)

lemma apply_stacked_shape: "same_shape s (apply_stacked_layout cs p s)"
  unfolding apply_stacked_layout_def by (rule fold_shape) (rule same_shape_upd_con, simp)

lemma apply_layout_shape: "same_shape s (apply_layout l cs p s)"
  unfolding apply_layout_def
  by (cases l) (simp_all add: apply_horiz_shape apply_vert_shape apply_tabbed_shape apply_stacked_shape)

lemmas apply_layout_after [shape] = same_shape_trans[OF _ apply_layout_shape]

lemma arrange_fuel_shape: "same_shape s (arrange_container_fuel n c s)"
proof (induction n arbitrary: c s)
  case (Suc n)
  note rec = same_shape_trans[OF apply_layout_shape fold_shape[OF Suc.IH]]
  show ?case unfolding arrange_container_fuel.simps Let_def
    by (intro same_shape_if same_shape_refl same_shape_dirty_after view_autoconfigure_shape
        viewport_arrange_windows_shape rec)
qed (simp add: same_shape_refl)

lemma arrange_container_shape: "same_shape s (arrange_container c s)"
  unfolding arrange_container_def by (rule arrange_fuel_shape)

lemmas arrange_container_after [shape] = same_shape_trans[OF _ arrange_container_shape]

lemma place_column_shape: "same_shape s (place_column w ox oy h p e c s)"
  unfolding place_column_def by (auto intro!: shape)

lemma arrange_column_shape: "same_shape s (arrange_column c s)"
  unfolding arrange_column_def by (intro same_shape_if same_shape_refl viewport_arrange_windows_shape arrange_container_shape)

lemma place_columns_shape: "same_shape s (place_columns w g ox oy h pos prev cols s)"
proof (induction cols arbitrary: pos prev s)
  case (Cons x cols)
  obtain c wd where x: "x = (c, wd)" by (cases x)
  show ?case unfolding x place_columns.simps Let_def
    by (rule same_shape_trans[OF same_shape_trans[OF place_column_shape arrange_column_shape] Cons.IH])
qed (simp add: same_shape_refl)

lemma arrange_columns_shape: "same_shape s (workspace_arrange_columns w p s)"
  unfolding workspace_arrange_columns_def Let_def
  by (intro same_shape_if same_shape_refl place_columns_shape)

lemmas arrange_columns_after [shape] = same_shape_trans[OF _ arrange_columns_shape]

lemma wshape_of_add_gaps [simp]: "wshape_of (add_gaps g ws) = wshape_of ws"
  by (simp add: add_gaps_def Let_def split: prod.split)

lemma add_gaps_shape: "same_shape s (workspace_add_gaps w s)"
  unfolding workspace_add_gaps_def by (intro same_shape_if same_shape_upd_ws) simp_all

lemmas add_gaps_after [shape] = same_shape_trans[OF _ add_gaps_shape]

lemma move_floaters_shape: "same_shape s (move_floaters w a b c s)"
  unfolding move_floaters_def Let_def
  by (rule fold_shape) (intro same_shape_if fix_coordinates_shape same_shape_upd_con_after; simp add: shape)

lemmas move_floaters_after [shape] = same_shape_trans[OF _ move_floaters_shape]

lemma fold_shape_after:
  "same_shape s t \<Longrightarrow> (\<And>c t. same_shape t (f c t)) \<Longrightarrow> same_shape s (fold f cs t)"
  by (rule same_shape_trans[OF _ fold_shape])

lemma arrange_workspace_shape: "same_shape s (arrange_workspace w s)"
proof -
  have area: "same_shape s (upd_ws w (\<lambda>ws. ws\<lparr>w_width := a, w_height := b, w_x := x, w_y := y\<rparr>) s)" for a b x y
    by (rule same_shape_upd_ws) simp
  have fs: "same_shape s (arrange_container f (upd_con f (set_box b) t))" if "same_shape s t" for f b t
    by (rule arrange_container_after, rule same_shape_upd_con_after[OF that]) simp
  have cols: "same_shape s (fold arrange_container fl (workspace_arrange_columns w b t))"
    if "same_shape s t" for fl b t
    by (rule fold_shape_after[OF arrange_columns_after[OF that] arrange_container_shape])
  show ?thesis unfolding arrange_workspace_def Let_def
    by (auto split: option.split intro!: fs cols same_shape_dirty_after add_gaps_after move_floaters_after area same_shape_refl)
qed

lemma arrange_output_shape: "same_shape s (arrange_output p s)"
  unfolding arrange_output_def by (intro same_shape_if same_shape_refl fold_shape arrange_workspace_shape)

end
