(* ===== verification/Arrange_Laws.thy ===== *)
theory Arrange_Laws
  imports Arrange
begin

text \<open>
  The laws of arranging: the fuel of arrange_container is enough, only the container and its
  descendants change, fractions are normalised, splits and columns tile their parent exactly, gaps
  leave a sane box, and arranging a row of columns again changes nothing.
\<close>

section \<open>The fuel is enough\<close>

lemma fold_arrange_fuel:
  assumes IH: "\<And>t k. struct_ok t \<Longrightarrow> card (descendants t k) < n \<Longrightarrow> card (descendants t k) < m \<Longrightarrow>
      arrange_container_fuel n k t = arrange_container_fuel m k t"
    and "struct_ok s" "same_shape s t" "\<forall>k\<in>set ks. card (descendants s k) < n \<and> card (descendants s k) < m"
  shows "fold (arrange_container_fuel n) ks t = fold (arrange_container_fuel m) ks t"
  using assms(3,4)
proof (induction ks arbitrary: t)
  case (Cons k ks)
  have "struct_ok t" "descendants t k = descendants s k"
    using same_shape_struct[OF Cons.prems(1) assms(2)] same_shape_descendants[OF Cons.prems(1)] by auto
  then have "arrange_container_fuel n k t = arrange_container_fuel m k t" using IH Cons.prems(2) by auto
  moreover have "same_shape s (arrange_container_fuel m k t)"
    by (rule same_shape_trans[OF Cons.prems(1) arrange_fuel_shape])
  ultimately show ?case using Cons.IH Cons.prems(2) by simp
qed simp

lemma arrange_fuel_enough:
  "struct_ok s \<Longrightarrow> card (descendants s c) < n \<Longrightarrow> card (descendants s c) < m \<Longrightarrow>
   arrange_container_fuel n c s = arrange_container_fuel m c s"
proof (induction n arbitrary: m c s)
  case (Suc n)
  obtain m' where m: "m = Suc m'" using Suc.prems(3) by (cases m) auto
  let ?s = "apply_layout (c_layout (cons s c)) (c_children (cons s c)) (container_get_box s c) s"
  have "\<forall>k\<in>set (c_children (cons s c)). card (descendants s k) < n \<and> card (descendants s k) < m'"
    using card_descendants_less[OF Suc.prems(1)] Suc.prems(2,3) m by fastforce
  then have "fold (arrange_container_fuel n) (c_children (cons s c)) ?s
      = fold (arrange_container_fuel m') (c_children (cons s c)) ?s"
    by (intro fold_arrange_fuel[OF Suc.IH Suc.prems(1) apply_layout_shape]) auto
  then show ?case unfolding m arrange_container_fuel.simps Let_def by simp
qed simp

lemma arrange_container_unfold:
  assumes "struct_ok s" "c < next_id s"
  shows "arrange_container c s =
     (if cfg_reloading (cfg s) then s
      else if c_view (cons s c) \<noteq> None
      then node_set_dirty (N_CONTAINER c) (view_autoconfigure c s)
      else if c_parent (cons s c) = None \<and> c_workspace (cons s c) \<noteq> None \<and> c_layout (cons s c) = L_VERT
      then node_set_dirty (N_CONTAINER c) (viewport_arrange_windows c s)
      else node_set_dirty (N_CONTAINER c)
             (arrange_children (c_children (cons s c)) (c_layout (cons s c)) (container_get_box s c) s))"
proof -
  let ?cs = "c_children (cons s c)"
  let ?t = "apply_layout (c_layout (cons s c)) ?cs (container_get_box s c) s"
  have small: "card (descendants s k) < next_id s" if "k \<in> set ?cs" for k
    using card_descendants_bound[OF assms(1) that] .
  have step: "fold (arrange_container_fuel (next_id s)) ks t = fold arrange_container ks t"
    if "same_shape s t" "set ks \<subseteq> set ?cs" for ks t
    using that
  proof (induction ks arbitrary: t)
    case (Cons k ks)
    have "struct_ok t" "card (descendants t k) < next_id s" "next_id t = next_id s"
      using same_shape_struct[OF Cons.prems(1) assms(1)] same_shape_descendants[OF Cons.prems(1)]
        same_shape_rest(2)[OF Cons.prems(1)] small Cons.prems(2) by auto
    then have "arrange_container_fuel (next_id s) k t = arrange_container k t"
      unfolding arrange_container_def using arrange_fuel_enough[of t k "next_id s" "next_id s + 1"] by simp
    moreover have "same_shape s (arrange_container k t)" by (rule arrange_container_after[OF Cons.prems(1)])
    ultimately show ?case using Cons.IH Cons.prems(2) by simp
  qed simp
  have "fold (arrange_container_fuel (next_id s)) ?cs ?t = fold arrange_container ?cs ?t"
    by (rule step[OF apply_layout_shape subset_refl])
  then show ?thesis
    unfolding arrange_container_def[of c] Suc_eq_plus1[symmetric] arrange_container_fuel.simps Let_def arrange_children_def
    by simp
qed

section \<open>Only the subtree changes\<close>

lemma horiz_loop_frame: "d \<notin> set cs \<Longrightarrow> cons (horiz_loop p t g x cs s) d = cons s d"
  by (induction cs arbitrary: x s) (auto simp: Let_def)

lemma vert_loop_frame: "d \<notin> set cs \<Longrightarrow> cons (vert_loop p t g x cs s) d = cons s d"
  by (induction cs arbitrary: x s) (auto simp: Let_def)

lemma set_width_fractions_frame: "d \<notin> fst ` set cs \<Longrightarrow> cons (set_width_fractions cs s) d = cons s d"
  by (induction cs arbitrary: s) auto

lemma set_height_fractions_frame: "d \<notin> fst ` set cs \<Longrightarrow> cons (set_height_fractions cs s) d = cons s d"
  by (induction cs arbitrary: s) auto

lemma fold_upd_con_frame: "d \<notin> set cs \<Longrightarrow> cons (fold (\<lambda>c s. upd_con c (f c s) s) cs s) d = cons s d"
  by (induction cs arbitrary: s) auto

lemma apply_layout_frame:
  assumes "d \<notin> set cs" shows "cons (apply_layout l cs p s) d = cons s d"
proof -
  have zip: "d \<notin> fst ` set (zip cs xs)" for xs :: "rat list" using assms by (auto dest: set_zip_leftD)
  show ?thesis unfolding apply_layout_def apply_horiz_layout_def apply_vert_layout_def
      apply_tabbed_layout_def apply_stacked_layout_def Let_def
    using assms by (auto simp: horiz_loop_frame vert_loop_frame set_width_fractions_frame[OF zip]
        set_height_fractions_frame[OF zip] fold_upd_con_frame split: container_layout.split prod.split)
qed

lemma place_windows_frame: "d \<notin> fst ` set rows \<Longrightarrow> cons (place_windows col gap y rows s) d = cons s d"
  by (induction rows arbitrary: y s) (auto simp: Let_def view_autoconfigure_def)

lemma viewport_arrange_windows_frame:
  "d \<notin> set (c_children (cons s col)) \<Longrightarrow> cons (viewport_arrange_windows col s) d = cons s d"
  using window_heights_general[of s _ "c_children (cons s col)"]
  by (simp add: viewport_arrange_windows_def Let_def place_windows_frame flip: set_map)

lemma fold_frame:
  assumes "\<And>k t. k \<in> set ks \<Longrightarrow> same_shape s t \<Longrightarrow> cons (f k t) d = cons t d" "\<And>k t. same_shape t (f k t)"
    and "same_shape s t"
  shows "cons (fold f ks t) d = cons t d"
  using assms(1,3)
proof (induction ks arbitrary: t)
  case (Cons k ks)
  have "same_shape s (f k t)" by (rule same_shape_trans[OF Cons.prems(2) assms(2)])
  then have "cons (fold f ks (f k t)) d = cons (f k t) d" using Cons.prems(1) by (intro Cons.IH) auto
  then show ?case using Cons.prems by simp
qed simp

lemma arrange_fuel_frame:
  "struct_ok s \<Longrightarrow> d \<notin> descendants s c \<Longrightarrow> d \<noteq> c \<or> c_view (cons s c) = None \<Longrightarrow>
   cons (arrange_container_fuel n c s) d = cons s d"
proof (induction n arbitrary: c s)
  case (Suc n)
  let ?cs = "c_children (cons s c)"
  let ?s = "apply_layout (c_layout (cons s c)) ?cs (container_get_box s c) s"
  have kid: "d \<notin> descendants s k \<and> d \<noteq> k" if "k \<in> set ?cs" for k
    using that Suc.prems(2) descendants_children[OF Suc.prems(1), of c] by auto
  have "cons (fold (arrange_container_fuel n) ?cs ?s) d = cons ?s d"
  proof (rule fold_frame[OF _ arrange_fuel_shape apply_layout_shape])
    fix k t assume k: "k \<in> set ?cs" and t: "same_shape s t"
    show "cons (arrange_container_fuel n k t) d = cons t d"
      using kid[OF k] same_shape_descendants[OF t] by (intro Suc.IH same_shape_struct[OF t Suc.prems(1)]) auto
  qed
  moreover have "cons ?s d = cons s d" using kid by (intro apply_layout_frame) auto
  moreover have "cons (viewport_arrange_windows c s) d = cons s d"
    using kid by (intro viewport_arrange_windows_frame) auto
  ultimately show ?case using Suc.prems(3)
    unfolding arrange_container_fuel.simps Let_def by (auto simp: view_autoconfigure_def)
qed simp

lemma arrange_container_frame:
  "struct_ok s \<Longrightarrow> d \<notin> descendants s c \<Longrightarrow> d \<noteq> c \<or> c_view (cons s c) = None \<Longrightarrow>
   cons (arrange_container c s) d = cons s d"
  unfolding arrange_container_def by (rule arrange_fuel_frame)

section \<open>Workspaces keep their boxes\<close>

lemma horiz_loop_wss: "wss (horiz_loop p t g x cs s) = wss s"
  by (induction cs arbitrary: x s) (auto simp: Let_def)

lemma vert_loop_wss: "wss (vert_loop p t g x cs s) = wss s"
  by (induction cs arbitrary: x s) (auto simp: Let_def)

lemma set_width_fractions_wss: "wss (set_width_fractions cs s) = wss s"
  by (induction cs arbitrary: s) auto

lemma fold_wss: "(\<And>c t. wss (f c t) = wss t) \<Longrightarrow> wss (fold f cs s) = wss s"
  by (induction cs arbitrary: s) auto

lemma apply_layout_wss: "wss (apply_layout l cs p s) = wss s"
  unfolding apply_layout_def apply_horiz_layout_def apply_vert_layout_def
      apply_tabbed_layout_def apply_stacked_layout_def Let_def
  by (auto simp: horiz_loop_wss vert_loop_wss set_width_fractions_wss fold_wss
      split: container_layout.split prod.split)

lemma place_windows_wss: "wss (place_windows col gap y rows s) = wss s"
  by (induction rows arbitrary: y s) (auto simp: Let_def)

lemma viewport_arrange_windows_wss: "wss (viewport_arrange_windows col s) = wss s"
  by (simp add: viewport_arrange_windows_def Let_def place_windows_wss)

lemma arrange_fuel_wss: "wss (arrange_container_fuel n c s) = wss s"
proof (induction n arbitrary: c s)
  case (Suc n)
  show ?case unfolding arrange_container_fuel.simps Let_def
    by (simp add: fold_wss[OF Suc.IH] apply_layout_wss viewport_arrange_windows_wss)
qed simp

lemma arrange_column_wss: "wss (arrange_column c s) = wss s"
  by (simp add: arrange_column_def viewport_arrange_windows_wss arrange_container_def arrange_fuel_wss
      del: arrange_container_fuel.simps)

section \<open>Fractions\<close>

lemma filled_fraction_pos: "0 < filled_fraction fs f"
proof -
  have "of_nat (length (filter (\<lambda>f. f \<le> 0) fs)) \<le> (of_nat (length fs) :: rat)" by (simp add: length_filter_le)
  then show ?thesis by (auto simp: filled_fraction_def Let_def intro!: divide_pos_pos)
qed

lemma sum_list_pos: "xs \<noteq> [] \<Longrightarrow> (\<And>x. x \<in> set xs \<Longrightarrow> 0 < x) \<Longrightarrow> 0 < sum_list (xs :: rat list)"
proof (induction xs)
  case (Cons x xs)
  then show ?case by (cases "xs = []") (auto intro: add_pos_pos)
qed simp

lemma normalized_fractions_sum:
  assumes "fs \<noteq> []"
  shows "sum_list (normalized_fractions fs) = 1 \<and> (\<forall>f\<in>set (normalized_fractions fs). 0 < f)
    \<and> length (normalized_fractions fs) = length fs"
proof -
  have pos: "0 < sum_list (map (filled_fraction fs) fs)"
    using assms filled_fraction_pos by (intro sum_list_pos) auto
  have "sum_list (map (\<lambda>f. f / k) xs) = sum_list xs / k" for k and xs :: "rat list"
    by (induction xs) (auto simp: add_divide_distrib)
  then show ?thesis unfolding normalized_fractions_def Let_def using pos filled_fraction_pos
    by (auto simp del: map_map intro!: divide_pos_pos)
qed

section \<open>Tiling\<close>

text \<open>
  The intervals (position, length) start at x, are separated by gap and end at e.
\<close>

fun tiles :: "rat \<Rightarrow> rat \<Rightarrow> rat \<Rightarrow> (rat \<times> rat) list \<Rightarrow> bool" where
  "tiles gap x e [] \<longleftrightarrow> True"
| "tiles gap x e [(p, l)] \<longleftrightarrow> p = x \<and> p + l = e"
| "tiles gap x e ((p, l) # r # rest) \<longleftrightarrow> p = x \<and> tiles gap (x + l + gap) e (r # rest)"

lemma tiles_Cons:
  "tiles gap x e ((p, l) # rs) \<longleftrightarrow> p = x \<and> (if rs = [] then p + l = e else tiles gap (x + l + gap) e rs)"
  by (cases rs) auto

definition x_span :: "sway \<Rightarrow> id \<Rightarrow> rat \<times> rat" where
  "x_span s c = (c_x (cons s c), c_width (cons s c))"

lemma collapse_keeps: "10 \<le> c_width (collapse_box x) \<Longrightarrow> collapse_box x = x"
  by (simp add: collapse_box_def split: if_splits)

lemma horiz_loop_tiles:
  assumes "distinct cs" "\<forall>c\<in>set cs. 10 \<le> c_width (cons (horiz_loop p t g x cs s) c)"
  shows "tiles g x (of_int (b_x p) + of_int (b_width p)) (map (x_span (horiz_loop p t g x cs s)) cs)
    \<and> (\<forall>c\<in>set cs. c_y (cons (horiz_loop p t g x cs s) c) = of_int (b_y p)
          \<and> c_height (cons (horiz_loop p t g x cs s) c) = of_int (b_height p))"
  using assms
proof (induction cs arbitrary: x s)
  case (Cons c cs)
  define raw where "raw = (\<lambda>y :: container. y\<lparr>c_child_total_width := t, c_x := x,
                c_y := of_int (b_y p),
                c_width := (if cs = [] then of_int (b_x p) + of_int (b_width p) - x
                            else of_int (c_round (c_width_fraction y * t))),
                c_height := of_int (b_height p)\<rparr>)"
  define s1 where "s1 = upd_con c (\<lambda>y. collapse_box (raw y)) s"
  let ?s' = "horiz_loop p t g (x + c_width (cons s1 c) + g) cs s1"
  have eq: "horiz_loop p t g x (c # cs) s = ?s'"
    unfolding horiz_loop.simps Let_def s1_def raw_def by simp
  have c: "cons ?s' c = cons s1 c" using Cons.prems(1) by (intro horiz_loop_frame) simp
  then have w: "10 \<le> c_width (cons s1 c)" using Cons.prems(2) eq by simp
  then have "cons s1 c = raw (cons s c)" unfolding s1_def by (simp add: collapse_keeps)
  then have fields: "c_x (cons s1 c) = x" "c_y (cons s1 c) = of_int (b_y p)"
      "c_height (cons s1 c) = of_int (b_height p)"
      "cs = [] \<Longrightarrow> c_width (cons s1 c) = of_int (b_x p) + of_int (b_width p) - x"
    by (simp_all add: raw_def)
  have IH: "tiles g (x + c_width (cons s1 c) + g) (of_int (b_x p) + of_int (b_width p)) (map (x_span ?s') cs)
    \<and> (\<forall>c\<in>set cs. c_y (cons ?s' c) = of_int (b_y p) \<and> c_height (cons ?s' c) = of_int (b_height p))"
    using Cons.prems unfolding eq by (intro Cons.IH) auto
  show ?case unfolding eq using IH c fields
    by (simp add: x_span_def[of _ c] tiles_Cons del: horiz_loop.simps)
qed simp

text \<open>The gap between two children: never more than the gap of the workspace, and less only for want of room.\<close>

lemma gap_loop_cases: "gap_loop n s c g = g \<or> gap_loop n s c g = 0"
proof (induction n arbitrary: c g)
  case (Suc n)
  have zero: "gap_loop n s d 0 = 0" for d using Suc[of d 0] by simp
  show ?case using Suc[of _ g] by (cases "c_parent (cons s c)") (auto simp: Let_def zero)
qed simp

lemma sibling_gap_int: "\<exists>k. sibling_gap s c = of_int k"
proof -
  have "\<exists>k. (case c_workspace (cons s c) of None \<Rightarrow> 0 | Some w \<Rightarrow> of_int (w_gaps_inner (wss s w))) = (of_int k :: rat)"
    by (cases "c_workspace (cons s c)") (auto intro: exI[of _ 0])
  then show ?thesis unfolding sibling_gap_def
    using gap_loop_cases[of "next_id s + 1" s c] by (metis of_int_0)
qed

lemma sibling_gap_shape:
  assumes "same_shape s s'"
  shows "sibling_gap s' c = sibling_gap s c"
proof -
  have "container_parent_layout s' d = container_parent_layout s d" for d
    by (simp add: container_parent_layout_def same_shape_con[OF assms] same_shape_ws[OF assms] split: option.split)
  then have "gap_loop n s' d g = gap_loop n s d g" for n d g
    by (induction n arbitrary: d g) (simp_all add: same_shape_con[OF assms] Let_def split: option.split)
  then show ?thesis
    by (cases "c_workspace (cons s c)")
      (simp_all add: sibling_gap_def same_shape_con[OF assms] same_shape_ws[OF assms] same_shape_rest[OF assms] del: gap_loop.simps)
qed

lemma split_room_gap:
  assumes "split_room s cs extent m = (room, gap)" "0 \<le> sibling_gap s (hd cs)" "cs \<noteq> []"
  shows "0 \<le> gap \<and> gap \<le> sibling_gap s (hd cs)
    \<and> (2 \<le> length cs \<and> sibling_gap s (hd cs) * of_int (int (length cs) - 1) \<le> of_int (extent - m * int (length cs))
        \<longrightarrow> gap = sibling_gap s (hd cs))"
proof -
  let ?g = "sibling_gap s (hd cs)" and ?n = "of_int (int (length cs) - 1) :: rat"
  define whole where "whole = min (?g * ?n) (max 0 (of_int (extent - m * int (length cs))))"
  have gap: "gap = of_int \<lfloor>whole / ?n\<rfloor>" using assms(1) by (simp add: split_room_def Let_def whole_def)
  show ?thesis
  proof (cases "length cs = 1")
    case True
    then show ?thesis using assms(2) by (simp add: gap)
  next
    case False
    moreover have "0 < length cs" using assms(3) by simp
    ultimately have "1 < int (length cs)" by linarith
    then have n: "0 < ?n" by simp
    have w: "0 \<le> whole" "whole \<le> ?g * ?n" using assms(2) n by (simp_all add: whole_def)
    then have q: "0 \<le> whole / ?n" "whole / ?n \<le> ?g" using n by (simp_all add: divide_le_eq)
    then have "0 \<le> gap" "gap \<le> ?g" unfolding gap by (simp, linarith)
    moreover have "gap = ?g" if "?g * ?n \<le> of_int (extent - m * int (length cs))"
    proof -
      have "whole / ?n = ?g" using that assms(2) n by (simp add: whole_def min_def max_def)
      then show ?thesis using sibling_gap_int[of s "hd cs"] unfolding gap by auto
    qed
    ultimately show ?thesis by blast
  qed
qed


section \<open>Gaps\<close>

lemma c_trunc_between: "0 \<le> x \<Longrightarrow> x \<le> of_int k \<Longrightarrow> 0 \<le> c_trunc x \<and> c_trunc x \<le> k"
  by (simp add: c_trunc_def floor_le_iff)

lemma clamp_gaps_sane:
  assumes "0 \<le> a" "0 \<le> b" "clamp_gaps extent m a b = (a', b')" "0 \<le> m"
  shows "0 \<le> a' \<and> 0 \<le> b' \<and> a' + b' \<le> a + b \<and> min extent m \<le> extent - (a' + b')"
proof (cases "extent - a - b < m \<and> a + b > 0")
  case True
  define k where "k = max 0 (extent - m)"
  have ab: "a' = c_trunc (of_int a / (of_int a + of_int b) * of_int k)" "b' = k - a'"
    using True assms(3) unfolding clamp_gaps_def k_def Let_def by auto
  have "0 < (of_int a + of_int b :: rat)" using True by (simp flip: of_int_add)
  then have f: "0 \<le> (of_int a / (of_int a + of_int b) :: rat)" "(of_int a / (of_int a + of_int b) :: rat) \<le> 1"
    using assms(1,2) by simp_all
  have k: "0 \<le> k" "(0 :: rat) \<le> of_int k" by (simp_all add: k_def)
  have "0 \<le> of_int a / (of_int a + of_int b) * (of_int k :: rat)" using f(1) k(2) by (rule mult_nonneg_nonneg)
  moreover have "of_int a / (of_int a + of_int b) * (of_int k :: rat) \<le> of_int k"
    using mult_right_mono[OF f(2) k(2)] by simp
  ultimately have "0 \<le> a' \<and> a' \<le> k" unfolding ab(1) by (rule c_trunc_between)
  then show ?thesis using True assms(1,2,4) ab(2) unfolding k_def by (auto simp: max_def min_def)
next
  case False
  then show ?thesis using assms by (auto simp: clamp_gaps_def min_def)
qed


section \<open>Columns\<close>

text \<open>The pixel positions and lengths the placement loop computes, without the containers.\<close>

fun column_edges :: "int \<Rightarrow> rat \<Rightarrow> int \<Rightarrow> rat list \<Rightarrow> (int \<times> int) list" where
  "column_edges gaps pos prev [] = []"
| "column_edges gaps pos prev (w # ws) =
     (let edge = c_round (pos + w) in
      (prev, edge - prev) # column_edges gaps (pos + w + of_int gaps) (edge + gaps) ws)"

definition geometry :: "sway \<Rightarrow> id \<Rightarrow> (rat \<times> rat) \<times> rat \<times> rat" where
  "geometry s c = (x_span s c, c_y (cons s c), c_height (cons s c))"

lemma top_not_descendant: "c_parent (cons s d) = None \<Longrightarrow> d \<notin> descendants s c"
  by (simp add: descendants_iff ancestors_none)

lemma arrange_column_frame:
  assumes "struct_ok s" "c_parent (cons s d) = None"
  shows "cons (arrange_column c s) d = cons s d"
proof -
  have "d \<notin> set (c_children (cons s c))" using assms struct_okD(1)[OF assms(1)] by auto
  then show ?thesis unfolding arrange_column_def
    by (simp add: viewport_arrange_windows_frame arrange_container_frame[OF assms(1) top_not_descendant[OF assms(2)]])
qed

lemma place_arrange_shape: "same_shape s (arrange_column c (place_column w ox oy h p e c s))"
  by (rule same_shape_trans[OF place_column_shape arrange_column_shape])

lemma place_arrange_cons:
  assumes "struct_ok s" "c_parent (cons s d) = None"
  shows "cons (arrange_column c (place_column w ox oy h p e c s)) d = cons (place_column w ox oy h p e c s) d"
  using same_shape_struct[OF place_column_shape assms(1)] same_shape_con(5)[OF place_column_shape] assms(2)
  by (intro arrange_column_frame) auto

lemma place_columns_frame:
  "struct_ok s \<Longrightarrow> c_parent (cons s d) = None \<Longrightarrow> d \<notin> fst ` set cols \<Longrightarrow>
   cons (place_columns w g ox oy h pos prev cols s) d = cons s d"
proof (induction cols arbitrary: pos prev s)
  case (Cons r cols)
  obtain c wd where r: "r = (c, wd)" by (cases r)
  let ?s = "\<lambda>e. arrange_column c (place_column w ox oy h prev e c s)"
  have "struct_ok (?s e)" "c_parent (cons (?s e) d) = None" for e
    using same_shape_struct[OF place_arrange_shape Cons.prems(1)] same_shape_con(5)[OF place_arrange_shape] Cons.prems(2) by auto
  moreover have "cons (?s e) d = cons s d" for e
    using place_arrange_cons[OF Cons.prems(1,2)] Cons.prems(3) by (simp add: r place_column_def)
  ultimately show ?case using Cons.IH Cons.prems(3) unfolding r place_columns.simps Let_def by simp
qed simp

lemma place_columns_geometry:
  assumes "struct_ok s" "\<forall>c\<in>fst ` set cols. c_parent (cons s c) = None" "distinct (map fst cols)"
  shows "map (geometry (place_columns w g ox oy h pos prev cols s)) (map fst cols)
    = map (\<lambda>(p, l). ((ox + of_int p, of_int l), oy, h)) (column_edges g pos prev (map snd cols))"
  using assms
proof (induction cols arbitrary: pos prev s)
  case (Cons r cols)
  obtain c wd where r: "r = (c, wd)" by (cases r)
  define e where "e = c_round (pos + wd)"
  let ?s = "arrange_column c (place_column w ox oy h prev e c s)"
  let ?t = "place_columns w g ox oy h (pos + wd + of_int g) (e + g) cols ?s"
  have eq: "place_columns w g ox oy h pos prev (r # cols) s = ?t"
    unfolding r place_columns.simps Let_def e_def ..
  have ok: "struct_ok ?s" "c_parent (cons ?s d) = c_parent (cons s d)" for d
    using same_shape_struct[OF place_arrange_shape Cons.prems(1)] same_shape_con(5)[OF place_arrange_shape] by auto
  have top: "c_parent (cons s c) = None" using Cons.prems(2) by (simp add: r)
  have "cons ?t c = cons ?s c"
    using Cons.prems(3) ok top by (intro place_columns_frame) (auto simp: r)
  also have "\<dots> = cons (place_column w ox oy h prev e c s) c" by (rule place_arrange_cons[OF Cons.prems(1) top])
  finally have c: "geometry ?t c = ((ox + of_int prev, of_int (e - prev)), oy, h)"
    by (simp add: geometry_def x_span_def place_column_def)
  have "map (geometry ?t) (map fst cols)
      = map (\<lambda>(p, l). ((ox + of_int p, of_int l), oy, h)) (column_edges g (pos + wd + of_int g) (e + g) (map snd cols))"
    using Cons.prems(2,3) ok by (intro Cons.IH) auto
  then show ?case unfolding eq using c by (simp add: r e_def Let_def)
qed simp

lemma column_edges_tile:
  "ws \<noteq> [] \<Longrightarrow> tiles (of_int g) (ox + of_int prev)
     (ox + of_int (c_round (pos + sum_list ws + of_int (g * (int (length ws) - 1)))))
     (map (\<lambda>(p, l). (ox + of_int p, of_int l)) (column_edges g pos prev ws))"
proof (induction ws arbitrary: pos prev)
  case (Cons w ws)
  show ?case
  proof (cases "ws = []")
    case False
    have "column_edges g p q ws \<noteq> []" for p q using False by (cases ws) (auto simp: Let_def)
    then show ?thesis
      using Cons.IH[OF False, of "c_round (pos + w) + g" "pos + w + of_int g"]
      by (simp add: tiles_Cons Let_def algebra_simps)
  qed (simp add: Let_def)
qed simp

lemma column_widths_length: "length (column_widths s total_w cols) = length cols"
proof -
  have "length (grow_loop hr n spare rows) = length rows" if "0 \<le> spare" for hr n spare rows
    using grow_loop_spec[OF that, of hr n rows] by (metis length_map)
  then show ?thesis unfolding column_widths_cases Let_def by simp
qed

definition row_width :: "sway \<Rightarrow> id \<Rightarrow> box \<Rightarrow> rat" where
  "row_width s w p = of_int (b_width p - w_gaps_inner (wss s w) * (int (length (w_tiling (wss s w))) - 1))"

definition plain_row :: "sway \<Rightarrow> id \<Rightarrow> box \<Rightarrow> bool" where
  "plain_row s w p \<longleftrightarrow>
     (let cols = w_tiling (wss s w); gaps = w_gaps_inner (wss s w) in
      cols \<noteq> [] \<and> distinct cols \<and> (\<forall>c\<in>set cols. c_parent (cons s c) = None)
      \<and> 0 \<le> gaps \<and> 1 \<le> b_width p \<and> gaps * (int (length cols) - 1) \<le> b_width p \<and> of_int (b_width p) \<le> DBL_MAX)"

text \<open>The widths fit: scaled to the row no column is below its minimum, and no column has a maximum.\<close>

definition fitting_row :: "sway \<Rightarrow> id \<Rightarrow> box \<Rightarrow> bool" where
  "fitting_row s w p \<longleftrightarrow> plain_row s w p
     \<and> (\<forall>c\<in>set (w_tiling (wss s w)). 0 \<le> tiled_clamp_width_min s c
          \<and> tiled_clamp_width_min s c \<le> scaled_width s (row_width s w p) (w_tiling (wss s w)) c
          \<and> k_max_w (container_get_size_constraints s c) = DBL_MAX)"

lemma fitting_plain: "fitting_row s w p \<Longrightarrow> plain_row s w p"
  by (simp add: fitting_row_def)

text \<open>Columns that have room beside each other at their clamped widths always fit.\<close>

lemma scaled_with_room:
  assumes "\<forall>c\<in>set cols. 0 \<le> tiled_clamp_width_min s c" "c \<in> set cols"
    and "0 < sum_list (map (clamped_width s t) cols)" "sum_list (map (clamped_width s t) cols) \<le> t"
  shows "tiled_clamp_width_min s c \<le> scaled_width s t cols c"
proof -
  have "1 \<le> t / sum_list (map (clamped_width s t) cols)" using assms(3,4) by simp
  then have "clamped_width s t c * 1 \<le> scaled_width s t cols c"
    unfolding scaled_width_def using clamped_width_nonneg[OF assms(1), of t] assms(2) by (intro mult_left_mono) auto
  then show ?thesis using clamped_width_lo[of s c t] by linarith
qed

lemma arrange_columns_place:
  assumes "plain_row s w p"
  shows "workspace_arrange_columns w p s =
    place_columns w (w_gaps_inner (wss s w)) (w_x (wss s w)) (w_y (wss s w)) (of_int (b_height p)) 0 0
      (zip (w_tiling (wss s w)) (column_widths s (row_width s w p) (w_tiling (wss s w)))) s"
proof -
  have "max 0 (b_width p - w_gaps_inner (wss s w) * (int (length (w_tiling (wss s w))) - 1))
      = b_width p - w_gaps_inner (wss s w) * (int (length (w_tiling (wss s w))) - 1)" "w_tiling (wss s w) \<noteq> []"
    using assms unfolding plain_row_def Let_def by auto
  then show ?thesis unfolding workspace_arrange_columns_def row_width_def Let_def by simp
qed

lemma arrange_columns_geometry:
  assumes "struct_ok s" "plain_row s w p"
  shows "map (geometry (workspace_arrange_columns w p s)) (w_tiling (wss s w))
    = map (\<lambda>(q, l). ((w_x (wss s w) + of_int q, of_int l), w_y (wss s w), of_int (b_height p)))
        (column_edges (w_gaps_inner (wss s w)) 0 0 (column_widths s (row_width s w p) (w_tiling (wss s w))))"
proof -
  let ?cols = "w_tiling (wss s w)"
  let ?z = "zip ?cols (column_widths s (row_width s w p) ?cols)"
  have z: "map fst ?z = ?cols" "map snd ?z = column_widths s (row_width s w p) ?cols"
    by (simp_all add: column_widths_length)
  have fz: "fst ` set ?z = set ?cols" by (metis z(1) set_map)
  have "distinct ?cols" "\<forall>c\<in>fst ` set ?z. c_parent (cons s c) = None"
    using assms(2) unfolding fz by (auto simp: plain_row_def Let_def)
  then show ?thesis
    using place_columns_geometry[OF assms(1), of ?z] unfolding arrange_columns_place[OF assms(2)] z by simp
qed

text \<open>The underflow loop asks only the columns of the row for their headroom.\<close>

lemma grow_round_cong:
  "\<forall>r\<in>set rows. \<forall>v. hr (fst r) v = hr' (fst r) v \<Longrightarrow>
   grow_round hr spare base n rows taken = grow_round hr' spare base n rows taken"
proof (induction rows arbitrary: taken)
  case (Cons r rows)
  then show ?case by (cases r) (simp add: Let_def)
qed simp

lemma grow_loop_cong:
  "\<forall>c\<in>fst ` set rows. \<forall>v. hr c v = hr' c v \<Longrightarrow> grow_loop hr n spare rows = grow_loop hr' n spare rows"
proof (induction hr n spare rows rule: grow_loop.induct)
  case (1 hr n spare rows)
  have room: "grow_room hr rows = grow_room hr' rows" unfolding grow_room_def
    using "1.prems" by (intro arg_cong[of _ _ sum_list] map_cong refl) (simp add: case_prod_beta)
  have round: "grow_round hr spare (grow_base rows) n rows 0 = grow_round hr' spare (grow_base rows) n rows 0"
    using "1.prems" by (intro grow_round_cong) auto
  obtain rs t where g: "grow_round hr spare (grow_base rows) n rows 0 = (rs, t)" by fastforce
  have "fst ` set rs = fst ` set rows" using grow_round_sum[OF g] by (metis set_map)
  then have "grow_loop hr n (spare - t) rs = grow_loop hr' n (spare - t) rs"
    if "\<not> spare \<le> 1 / 2" "\<not> grow_room hr rows \<le> 1 / 2" "\<not> t \<le> 1 / 2"
    using "1.IH"[OF that(1,2) g[symmetric] that(3)] "1.prems" by simp
  then show ?case using g round room by (subst (1 2) grow_loop.simps) auto
qed

text \<open>Columns that fit fill the row to within half a pixel.\<close>

lemma fitting_widths:
  assumes "cols \<noteq> []" "0 \<le> t" "t \<le> DBL_MAX"
    and fit: "\<forall>c\<in>set cols. 0 \<le> tiled_clamp_width_min s c \<and> tiled_clamp_width_min s c \<le> scaled_width s t cols c
      \<and> k_max_w (container_get_size_constraints s c) = DBL_MAX"
  shows "t - 1 / 2 \<le> sum_list (column_widths s t cols)" "sum_list (column_widths s t cols) \<le> t"
    "\<forall>v\<in>set (column_widths s t cols). 0 \<le> v"
proof -
  have lo: "\<forall>c\<in>set cols. 0 \<le> tiled_clamp_width_min s c" using fit by blast
  note f = row_fits_columns[OF assms(1-3) lo, unfolded row_fits_def]
  show "sum_list (column_widths s t cols) \<le> t" using f fit by blast
  have "list_all2 (\<lambda>_ v. 0 \<le> v) cols (column_widths s t cols)"
    using f[THEN conjunct1] lo by (auto simp: list_all2_conv_all_nth) (metis nth_mem order_trans)
  then show "\<forall>v\<in>set (column_widths s t cols). 0 \<le> v" by (auto simp: in_set_conv_nth list_all2_conv_all_nth)
  let ?total = "sum_list (map (clamped_width s t) cols)"
  note nn = clamped_width_nonneg[OF lo, of t]
  consider "t < ?total" "0 < ?total" | "?total < t - 1 / 2" | "t - 1 / 2 \<le> ?total" "\<not> (t < ?total \<and> 0 < ?total)"
    by linarith
  then show "t - 1 / 2 \<le> sum_list (column_widths s t cols)"
  proof cases
    case 1
    have "container_clamp_tiled_width s c (scaled_width s t cols c) t = scaled_width s t cols c" if "c \<in> set cols" for c
      using that fit scaled_width_le[OF nn assms(2) that 1(2)] by (intro clamp_width_unlimited) auto
    then have "column_widths s t cols = map (scaled_width s t cols) cols"
      using 1 unfolding column_widths_cases Let_def by simp
    then show ?thesis using scaled_width_sum[OF 1(2)] by simp
  next
    case 2
    let ?rows = "map (\<lambda>c. (c, clamped_width s t c, False)) cols"
    have "grow_loop (col_width_headroom s) (length cols) (t - ?total) ?rows
        = grow_loop (\<lambda>_ _. DBL_MAX) (length cols) (t - ?total) ?rows"
      using fit by (intro grow_loop_cong) (auto simp: col_width_headroom_def)
    moreover have "0 \<le> ?total" using nn by (intro sum_list_nonneg) auto
    then have "sum_list (map (fst \<circ> snd) ?rows) + (t - ?total) - 1 / 2
        \<le> sum_list (map (fst \<circ> snd) (grow_loop (\<lambda>_ _. DBL_MAX) (length cols) (t - ?total) ?rows))"
      using 2 nn assms(1,3) by (intro grow_loop_unlimited) auto
    ultimately show ?thesis using 2 unfolding column_widths_cases Let_def by (simp add: comp_def)
  next
    case 3
    then show ?thesis unfolding column_widths_cases Let_def by auto
  qed
qed

lemma fitting_row_widths:
  assumes "fitting_row s w p"
  shows "row_width s w p - 1 / 2 \<le> sum_list (column_widths s (row_width s w p) (w_tiling (wss s w)))
    \<and> sum_list (column_widths s (row_width s w p) (w_tiling (wss s w))) \<le> row_width s w p
    \<and> (\<forall>v\<in>set (column_widths s (row_width s w p) (w_tiling (wss s w))). 0 \<le> v)"
proof -
  note pr = fitting_plain[OF assms, unfolded plain_row_def Let_def]
  have t: "0 \<le> row_width s w p" "row_width s w p \<le> of_int (b_width p)"
    using pr unfolding row_width_def of_int_le_iff of_int_0_le_iff by (auto simp: mult_nonneg_nonneg Suc_le_eq)
  then have "row_width s w p \<le> DBL_MAX" using pr by linarith
  then show ?thesis
    using fitting_widths[of "w_tiling (wss s w)" "row_width s w p" s] t(1) assms pr unfolding fitting_row_def by blast
qed

lemma c_round_fill:
  assumes "1 \<le> k" "of_int k - 1 / 2 \<le> x" "x \<le> of_int k"
  shows "c_round x = k"
proof -
  have "(1 :: rat) \<le> of_int k" using assms(1) by simp
  then have "0 \<le> x" using assms(2) by linarith
  moreover have "\<lfloor>x + 1 / 2\<rfloor> = k" using assms(2,3) by (intro floor_unique) linarith+
  ultimately show ?thesis by (simp add: c_round_def)
qed

lemma map_x_span: "map (x_span s) cs = map fst (map (geometry s) cs)"
  by (simp add: geometry_def comp_def)

lemma arrange_columns_tile:
  assumes "struct_ok s" "fitting_row s w p"
  shows "tiles (of_int (w_gaps_inner (wss s w))) (w_x (wss s w)) (w_x (wss s w) + of_int (b_width p))
      (map (x_span (workspace_arrange_columns w p s)) (w_tiling (wss s w)))
    \<and> (\<forall>c\<in>set (w_tiling (wss s w)).
          c_y (cons (workspace_arrange_columns w p s) c) = w_y (wss s w)
          \<and> c_height (cons (workspace_arrange_columns w p s) c) = of_int (b_height p))"
proof -
  let ?cols = "w_tiling (wss s w)" and ?g = "w_gaps_inner (wss s w)" and ?s' = "workspace_arrange_columns w p s"
  let ?ws = "column_widths s (row_width s w p) ?cols"
  note geo = arrange_columns_geometry[OF assms(1) fitting_plain[OF assms(2)]]
  have len: "length ?ws = length ?cols" by (rule column_widths_length)
  have sum: "c_round (0 + sum_list ?ws + of_int (?g * (int (length ?ws) - 1))) = b_width p"
  proof (rule c_round_fill)
    have "row_width s w p = of_int (b_width p) - of_int (?g * (int (length ?cols) - 1))"
      by (simp only: row_width_def of_int_diff)
    then show "of_int (b_width p) - 1 / 2 \<le> 0 + sum_list ?ws + of_int (?g * (int (length ?ws) - 1))"
      "0 + sum_list ?ws + of_int (?g * (int (length ?ws) - 1)) \<le> of_int (b_width p)"
      using fitting_row_widths[OF assms(2)] unfolding len by linarith+
    show "1 \<le> b_width p" using fitting_plain[OF assms(2)] unfolding plain_row_def Let_def by blast
  qed
  have "?ws \<noteq> []" using fitting_plain[OF assms(2)] len unfolding plain_row_def Let_def by auto
  then have "tiles (of_int ?g) (w_x (wss s w)) (w_x (wss s w) + of_int (b_width p))
      (map (\<lambda>(q, l). (w_x (wss s w) + of_int q, of_int l)) (column_edges ?g 0 0 ?ws))"
    using column_edges_tile[of ?ws ?g "w_x (wss s w)" 0 0] unfolding sum by simp
  moreover have "map (x_span ?s') ?cols = map (\<lambda>(q, l). (w_x (wss s w) + of_int q, of_int l)) (column_edges ?g 0 0 ?ws)"
    unfolding map_x_span geo by (simp add: comp_def case_prod_beta)
  moreover have "\<forall>x\<in>set (map (geometry ?s') ?cols). snd x = (w_y (wss s w), of_int (b_height p))"
    unfolding geo by auto
  then have "\<forall>c\<in>set ?cols. c_y (cons ?s' c) = w_y (wss s w) \<and> c_height (cons ?s' c) = of_int (b_height p)"
    by (simp add: geometry_def)
  ultimately show ?thesis by simp
qed

text \<open>
  C20. A row of columns fills its workspace exactly: the columns start at the left edge, are one
  inner gap apart, the last one ends on the right edge to the pixel, and all have the top and the
  height of the workspace, whatever widths the columns had before, when scaled to the row no column
  falls below its minimum width (min_column_width and the limits of its windows) and no column of the
  row has a maximum width.
\<close>

theorem arrange_columns_fill:
  assumes "struct_ok s" "fitting_row s w p"
  shows "tiles (of_int (w_gaps_inner (wss s w))) (w_x (wss s w)) (w_x (wss s w) + of_int (b_width p))
      (map (x_span (workspace_arrange_columns w p s)) (w_tiling (wss s w)))
    \<and> (\<forall>c\<in>set (w_tiling (wss s w)).
          c_y (cons (workspace_arrange_columns w p s) c) = w_y (wss s w)
          \<and> c_height (cons (workspace_arrange_columns w p s) c) = of_int (b_height p))"
  by (rule arrange_columns_tile[OF assms])

section \<open>A row that was arranged stays as it is\<close>

lemma c_round_shift: "0 \<le> x \<Longrightarrow> 0 \<le> k \<Longrightarrow> c_round (x + of_int k) = c_round x + k"
proof -
  assume x: "0 \<le> x" "0 \<le> k"
  then have "(0 :: rat) \<le> of_int k" by simp
  then have "0 \<le> x + of_int k" using x(1) by linarith
  moreover have "\<lfloor>x + of_int k + 1 / 2\<rfloor> = \<lfloor>x + 1 / 2\<rfloor> + k" 
    using floor_add_int[of "x + 1 / 2" k] by (simp add: algebra_simps)
  ultimately show ?thesis using x(1) by (simp add: c_round_def)
qed

lemma c_round_mono: "0 \<le> x \<Longrightarrow> x \<le> y \<Longrightarrow> c_round x \<le> c_round y"
  by (simp add: c_round_def floor_mono)

lemma column_edges_widths:
  "0 \<le> pos \<Longrightarrow> 0 \<le> g \<Longrightarrow> \<forall>w\<in>set ws. 0 \<le> w \<Longrightarrow> prev \<le> c_round pos \<Longrightarrow>
   \<forall>x\<in>set (column_edges g pos prev ws). 0 \<le> snd x"
proof (induction ws arbitrary: pos prev)
  case (Cons w ws)
  let ?e = "c_round (pos + w)"
  have e: "c_round pos \<le> ?e" using Cons.prems by (intro c_round_mono) auto
  have "0 \<le> pos + w" "(0 :: rat) \<le> of_int g" using Cons.prems by auto
  then have "0 \<le> pos + w + of_int g" "c_round (pos + w + of_int g) = ?e + g"
    using c_round_shift[of "pos + w" g] Cons.prems(2) by auto
  then have "\<forall>x\<in>set (column_edges g (pos + w + of_int g) (?e + g) ws). 0 \<le> snd x"
    using Cons.prems by (intro Cons.IH) auto
  then show ?case using e Cons.prems(4) by (simp add: Let_def)
qed simp

text \<open>Integer widths are placed as they are.\<close>

fun int_edges :: "int \<Rightarrow> int \<Rightarrow> int list \<Rightarrow> (int \<times> int) list" where
  "int_edges gaps prev [] = []"
| "int_edges gaps prev (l # ls) = (prev, l) # int_edges gaps (prev + l + gaps) ls"

lemma column_edges_of_int: "column_edges g (of_int prev) prev (map of_int ls) = int_edges g prev ls"
proof (induction ls arbitrary: prev)
  case (Cons l ls)
  have "c_round (of_int prev + of_int l) = prev + l" by (simp flip: of_int_add)
  then show ?case using Cons.IH[of "prev + l + g"] by (simp add: Let_def)
qed simp

lemma column_edges_is_int: "column_edges g pos prev ws = int_edges g prev (map snd (column_edges g pos prev ws))"
  by (induction ws arbitrary: pos prev) (simp_all add: Let_def)

lemma int_edges_sum: "ls \<noteq> [] \<Longrightarrow> tiles (of_int g) ox e (map (\<lambda>(p, l). (ox' + of_int p, of_int l)) (int_edges g prev ls)) \<Longrightarrow>
    ox = ox' + of_int prev \<Longrightarrow> e = ox + of_int (sum_list ls + g * (int (length ls) - 1))"
proof (induction ls arbitrary: prev ox)
  case (Cons l ls)
  show ?case
  proof (cases "ls = []")
    case False
    then have "int_edges g (prev + l + g) ls \<noteq> []" by (cases ls) auto
    then show ?thesis using Cons.IH[OF False, of "ox + of_int l + of_int g" "prev + l + g"] Cons.prems False
      by (simp add: tiles_Cons algebra_simps)
  qed (use Cons.prems in simp)
qed simp

lemma place_columns_wss: "wss (place_columns w g ox oy h pos prev cols s) = wss s"
proof (induction cols arbitrary: pos prev s)
  case (Cons r cols)
  then show ?case by (cases r) (simp add: Let_def arrange_column_wss place_column_def)
qed simp

lemma arrange_columns_wss: "wss (workspace_arrange_columns w p s) = wss s"
  by (simp add: workspace_arrange_columns_def Let_def place_columns_wss)

lemma plain_row_after: "plain_row s w p \<Longrightarrow> plain_row (workspace_arrange_columns w p s) w p"
  unfolding plain_row_def Let_def arrange_columns_wss by (simp add: same_shape_con(5)[OF arrange_columns_shape])

lemma column_widths_exact:
  assumes "\<forall>c\<in>set cols. clamped_width s t c = c_width (cons s c)" "sum_list (map (\<lambda>c. c_width (cons s c)) cols) = t"
  shows "column_widths s t cols = map (\<lambda>c. c_width (cons s c)) cols"
proof -
  have eq: "map (clamped_width s t) cols = map (\<lambda>c. c_width (cons s c)) cols" using assms(1) by simp
  show ?thesis unfolding column_widths_cases Let_def eq assms(2) by simp
qed

text \<open>The pixel widths of an arranged row.\<close>

lemma arranged_widths:
  assumes "struct_ok s" "fitting_row s w p"
  defines "ls \<equiv> map snd (column_edges (w_gaps_inner (wss s w)) 0 0
      (column_widths s (row_width s w p) (w_tiling (wss s w))))"
  shows "map (\<lambda>c. c_width (cons (workspace_arrange_columns w p s) c)) (w_tiling (wss s w)) = map of_int ls"
    "\<forall>l\<in>set ls. 0 \<le> l" "of_int (sum_list ls) = row_width s w p"
proof -
  let ?cols = "w_tiling (wss s w)" and ?g = "w_gaps_inner (wss s w)" and ?s' = "workspace_arrange_columns w p s"
  let ?ws = "column_widths s (row_width s w p) ?cols"
  have "map (\<lambda>c. c_width (cons ?s' c)) ?cols = map (snd \<circ> fst) (map (geometry ?s') ?cols)"
    by (simp add: geometry_def x_span_def comp_def)
  then show "map (\<lambda>c. c_width (cons ?s' c)) ?cols = map of_int ls"
    unfolding arrange_columns_geometry[OF assms(1) fitting_plain[OF assms(2)]] ls_def by (simp add: comp_def case_prod_beta)
  have g: "0 \<le> ?g" "?cols \<noteq> []" using fitting_plain[OF assms(2)] unfolding plain_row_def Let_def by auto
  show "\<forall>l\<in>set ls. 0 \<le> l"
    unfolding ls_def using column_edges_widths[of 0 ?g ?ws 0] fitting_row_widths[OF assms(2)] g
    by (simp add: c_round_def)
  have n: "length ls = length ?cols" unfolding ls_def
    by (metis arrange_columns_geometry[OF assms(1) fitting_plain[OF assms(2)]] length_map)
  have "map (x_span ?s') ?cols = map (\<lambda>(q, l). (w_x (wss s w) + of_int q, of_int l)) (int_edges ?g 0 ls)"
    unfolding map_x_span arrange_columns_geometry[OF assms(1) fitting_plain[OF assms(2)]] ls_def column_edges_is_int[symmetric]
    by (simp add: comp_def case_prod_beta)
  then have "w_x (wss s w) + of_int (b_width p)
      = w_x (wss s w) + of_int (sum_list ls + ?g * (int (length ls) - 1))"
    using arrange_columns_tile[OF assms(1,2)] g(2) n by (intro int_edges_sum[of ls ?g _ _ "w_x (wss s w)" 0]) auto
  then have "(of_int (b_width p) :: rat) = of_int (sum_list ls + ?g * (int (length ls) - 1))" by simp
  then have "b_width p = sum_list ls + ?g * (int (length ls) - 1)" by (simp only: of_int_eq_iff)
  then show "of_int (sum_list ls) = row_width s w p" unfolding row_width_def n of_int_eq_iff by simp
qed

text \<open>
  C21. The layout is a fixed point, as the comment in workspace_arrange_columns asks: when the columns
  of a row fit as in C20, and rounding to pixels left none of them below its minimum width, arranging
  them once more leaves every column where it is.
\<close>

theorem arrange_columns_fixed_point:
  assumes "struct_ok s" "fitting_row s w p"
    and "\<forall>c\<in>set (w_tiling (wss s w)). tiled_clamp_width_min s c \<le> c_width (cons (workspace_arrange_columns w p s) c)"
  shows "map (geometry (workspace_arrange_columns w p (workspace_arrange_columns w p s))) (w_tiling (wss s w))
    = map (geometry (workspace_arrange_columns w p s)) (w_tiling (wss s w))"
proof -
  let ?cols = "w_tiling (wss s w)" and ?g = "w_gaps_inner (wss s w)" and ?s' = "workspace_arrange_columns w p s"
  define ls where "ls = map snd (column_edges ?g 0 0 (column_widths s (row_width s w p) ?cols))"
  note ar = arranged_widths[OF assms(1,2), folded ls_def] and plain = fitting_plain[OF assms(2)]
  have ok: "struct_ok ?s'" "plain_row ?s' w p"
    using same_shape_struct[OF arrange_columns_shape assms(1)] plain_row_after[OF plain] by auto
  have t: "row_width ?s' w p = row_width s w p" by (simp add: row_width_def arrange_columns_wss)
  have le: "c_width (cons ?s' c) \<le> row_width s w p" if "c \<in> set ?cols" for c
  proof -
    have "c_width (cons ?s' c) \<in> set (map of_int ls)" using that unfolding ar(1)[symmetric] by simp
    then obtain l where l: "l \<in> set ls" "c_width (cons ?s' c) = of_int l" by auto
    then have "l \<le> sum_list ls" using ar(2) by (intro member_le_sum_list) auto
    then show ?thesis using l ar(3) by (metis of_int_le_iff)
  qed
  have "clamped_width ?s' (row_width s w p) c = c_width (cons ?s' c)" if "c \<in> set ?cols" for c
    unfolding clamped_width_def using le[OF that] assms(2,3) that
    by (intro clamp_width_unlimited)
      (simp_all add: fitting_row_def tiled_clamp_width_min_shape[OF arrange_columns_shape arrange_columns_wss]
        size_constraints_shape[OF arrange_columns_shape])
  moreover have "sum_list (map (\<lambda>c. c_width (cons ?s' c)) ?cols) = row_width s w p"
    unfolding ar(1) ar(3)[symmetric] by (induction ls) auto
  ultimately have "column_widths ?s' (row_width s w p) ?cols = map of_int ls"
    using column_widths_exact[of ?cols ?s'] ar(1) by simp
  then have "column_edges ?g 0 0 (column_widths ?s' (row_width s w p) ?cols)
      = column_edges ?g 0 0 (column_widths s (row_width s w p) ?cols)"
    using column_edges_of_int[of ?g 0 ls] column_edges_is_int[of ?g 0 0 "column_widths s (row_width s w p) ?cols"]
    by (simp add: ls_def)
  then show ?thesis
    using arrange_columns_geometry[OF ok]
    unfolding t arrange_columns_wss arrange_columns_geometry[OF assms(1) plain] by simp
qed

section \<open>Examples\<close>

lemma sample_struct: "struct_ok sample"
proof -
  have par: "c_parent (cons sample c) = (if c = 3 \<or> c = 4 then Some 1 else if c = 7 then Some 2 else None)" for c
    by (simp add: sample_defs)
  have kid: "c_children (cons sample p) = (if p = 1 then [3, 4] else if p = 2 then [7] else [])" for p
    by (simp add: sample_defs)
  have "parent_rel sample = {(3, 1), (4, 1), (7, 2)}" unfolding parent_rel_def par by (auto split: if_splits)
  then have "(parent_rel sample)\<inverse> \<subseteq> less_than" by auto
  then have "acyclic ((parent_rel sample)\<inverse>)" by (rule wf_acyclic[OF wf_subset[OF wf_less_than]])
  then have "acyclic (parent_rel sample)" by simp
  moreover have "c_workspace (cons sample c) = (if c \<in> {1, 2, 3, 4, 7} then Some 6 else None)" for c
    by (simp add: sample_defs)
  moreover have "c_view (cons sample c) = (if c \<in> {3, 4, 7} then Some sample_view else None)" for c
    by (simp add: sample_defs)
  moreover have "next_id sample = 8" by (simp add: sample_def)
  ultimately show ?thesis unfolding struct_ok_def kid par by (auto split: if_splits)
qed

text \<open>The same tree under the default configuration, where a column takes at least a fifth of its workspace.\<close>

definition default_sample :: sway where
  "default_sample = sample\<lparr>cfg := (cfg sample)\<lparr>cfg_min_column_width_fraction := cfg_min_column_width_fraction config_defaults\<rparr>\<rparr>"

abbreviation sample_box :: box where "sample_box \<equiv> \<lparr>b_x = 0, b_y = 0, b_width = 1000, b_height = 600\<rparr>"

lemma default_struct: "struct_ok default_sample"
  using sample_struct by (simp add: struct_ok_def parent_rel_def default_sample_def)

lemma default_constraints: "container_get_size_constraints default_sample c = no_constraints"
  by (rule no_limits_everywhere) (auto simp: default_sample_def sample_defs)

lemma default_fields:
  "wss default_sample = wss sample" "cons default_sample = cons sample"
  "cfg_min_column_width_fraction (cfg default_sample) = 13421773 / 67108864"
  by (simp_all add: default_sample_def config_defaults_def)

lemma default_min:
  "tiled_clamp_width_min default_sample (Suc 0) = 13421773000 / 67108864" "tiled_clamp_width_min default_sample 2 = 13421773000 / 67108864"
proof -
  have "c_workspace (cons sample (Suc 0)) = Some 6" "c_workspace (cons sample 2) = Some 6" by (simp_all add: sample_defs)
  then show "tiled_clamp_width_min default_sample (Suc 0) = 13421773000 / 67108864"
    "tiled_clamp_width_min default_sample 2 = 13421773000 / 67108864"
    by (simp_all add: tiled_clamp_width_min_def default_constraints default_fields workspace_width_fraction_def Let_def
        sample_ws no_constraints_def)
qed

lemma default_clamped:
  "clamped_width default_sample 1000 (Suc 0) = 600" "clamped_width default_sample 1000 2 = 300"
proof -
  have "c_width (cons sample (Suc 0)) = 600" "c_width (cons sample 2) = 300" by (simp_all add: sample_defs)
  then show "clamped_width default_sample 1000 (Suc 0) = 600" "clamped_width default_sample 1000 2 = 300"
    by (simp_all add: clamped_width_def container_clamp_tiled_width_def default_min default_constraints default_fields Let_def no_constraints_def)
qed

lemma default_row: "row_width default_sample 6 sample_box = 1000"
  by (simp add: row_width_def default_fields sample_ws)

lemma default_fits: "fitting_row default_sample 6 sample_box"
proof -
  have "c_parent (cons sample (Suc 0)) = None" "c_parent (cons sample 2) = None" by (simp_all add: sample_defs)
  moreover have "(1000 :: rat) \<le> DBL_MAX" by (simp add: DBL_MAX_def)
  ultimately have "plain_row default_sample 6 sample_box"
    by (simp add: plain_row_def default_fields sample_ws)
  then show ?thesis
    by (simp add: fitting_row_def default_row default_fields(1) sample_ws default_constraints default_min scaled_width_def default_clamped)
      (simp add: no_constraints_def)
qed

text \<open>The widths 600 and 300 grow to 667 and 333 pixels.\<close>

lemma default_widths: "column_widths default_sample 1000 [Suc 0, 2] = [2000 / 3, 1000 / 3]"
proof -
  have big: "\<not> DBL_MAX \<le> 1 / 2" "\<not> DBL_MAX * 2 \<le> 1 / 2" "(200 / 3 :: rat) \<le> DBL_MAX" "(100 / 3 :: rat) \<le> DBL_MAX"
    by (simp_all add: DBL_MAX_def)
  have "col_width_headroom default_sample c v = DBL_MAX" for c v
    by (simp add: col_width_headroom_def default_constraints no_constraints_def)
  then show ?thesis using big
    by (simp add: column_widths_cases Let_def default_clamped grow_loop.simps grow_room_def grow_base_def min_def)
qed

lemma default_pixels:
  "c_width (cons (workspace_arrange_columns 6 sample_box default_sample) (Suc 0)) = 667"
  "c_width (cons (workspace_arrange_columns 6 sample_box default_sample) 2) = 333"
proof -
  have "c_round (2000 / 3) = 667" "c_round 1000 = 1000" by (simp_all add: c_round_def floor_eq_iff)
  then have "column_edges 0 0 0 [2000 / 3, 1000 / 3] = [(0, 667), (667, 333)]" by (simp add: Let_def)
  then have g: "map (geometry (workspace_arrange_columns 6 sample_box default_sample)) [Suc 0, 2]
      = map (\<lambda>(q, l). ((w_x (wss sample 6) + of_int q, of_int l), w_y (wss sample 6), of_int 600)) [(0, 667), (667, 333)]"
    using arrange_columns_geometry[OF default_struct fitting_plain[OF default_fits]]
    by (simp add: default_fields(1) sample_ws default_row default_widths)
  then show "c_width (cons (workspace_arrange_columns 6 sample_box default_sample) (Suc 0)) = 667"
    "c_width (cons (workspace_arrange_columns 6 sample_box default_sample) 2) = 333"
    by (simp_all add: geometry_def x_span_def)
qed

lemma sibling_gap_top:
  "c_parent (cons s c) = None \<Longrightarrow> sibling_gap s c =
     (if container_parent_layout s c = L_TABBED \<or> container_parent_layout s c = L_STACKED then 0
      else case c_workspace (cons s c) of None \<Rightarrow> 0 | Some w \<Rightarrow> of_int (w_gaps_inner (wss s w)))"
  by (simp add: sibling_gap_def)


lemma arrange_columns_fill_witness:
  "tiles 0 0 1000 (map (x_span (workspace_arrange_columns 6 sample_box default_sample)) [1, 2])"
proof -
  have "w_x (wss sample 6) = 0" by (simp add: sample_defs)
  then show ?thesis using arrange_columns_fill[OF default_struct default_fits] by (simp add: default_fields(1) sample_ws)
qed

lemma arrange_columns_fixed_point_witness:
  "map (geometry (workspace_arrange_columns 6 sample_box (workspace_arrange_columns 6 sample_box default_sample))) [1, 2]
   = map (geometry (workspace_arrange_columns 6 sample_box default_sample)) [1, 2]"
proof -
  have "\<forall>c\<in>set (w_tiling (wss default_sample 6)).
      tiled_clamp_width_min default_sample c \<le> c_width (cons (workspace_arrange_columns 6 sample_box default_sample) c)"
    by (simp add: default_fields(1) sample_ws default_pixels default_min)
  then show ?thesis using arrange_columns_fixed_point[OF default_struct default_fits] by (simp only: default_fields(1) sample_ws)
qed

end
