(* ===== verification/Title.thy ===== *)
theory Title
  imports CStr Shape
begin

text \<open>
  Titles and tree representations (container.c, view.c, workspace.c, common/pango.c). The source
  formats a string twice, first to count and then to write into a buffer of the counted length; the
  functions here return both the count, as the source adds it up, and the text written, and the
  laws say they agree.
\<close>

section \<open>Markup\<close>

text \<open>
  escape_markup_text goes over the text twice, with a buffer only the second time; the two passes run the
  same branches and are one function here that gives the count of the first and the text of the second.
\<close>

fun escape_markup_text :: "string \<Rightarrow> nat \<times> string" where
  "escape_markup_text [] = (0, [])"
| "escape_markup_text (c # cs) =
     (let (n, t) = (if c = CHR ''&'' then (5, ''&amp;'') else if c = CHR ''<'' then (4, ''&lt;'')
                    else if c = CHR ''>'' then (4, ''&gt;'') else if c = SQ then (6, ''&apos;'')
                    else if c = DQ then (6, ''&quot;'') else (1, [c]));
          (m, ts) = escape_markup_text cs in
      (n + m, t @ ts))"

definition append_prop :: "config \<Rightarrow> string option \<Rightarrow> nat \<times> string" where
  "append_prop c prop =
     (case prop of None \<Rightarrow> (0, [])
      | Some v \<Rightarrow> if cfg_pango_markup c
                  then (let text = snd (escape_markup_text v) in (length text, text))
                  else (length v, v))"

section \<open>Representations\<close>

definition layout_letter :: "container_layout \<Rightarrow> string" where
  "layout_letter l = (case l of L_VERT \<Rightarrow> ''V['' | L_HORIZ \<Rightarrow> ''H['' | L_TABBED \<Rightarrow> ''T[''
     | L_STACKED \<Rightarrow> ''S['' | L_NONE \<Rightarrow> ''D['')"

definition identifier_of :: "container \<Rightarrow> string option" where
  "identifier_of child =
     (case c_view child of
        Some v \<Rightarrow> (case v_class v of Some k \<Rightarrow> Some k | None \<Rightarrow> v_app_id v)
      | None \<Rightarrow> c_formatted_title child)"

definition identifier_text :: "container \<Rightarrow> string" where
  "identifier_text child = (case identifier_of child of Some t \<Rightarrow> t | None \<Rightarrow> ''(null)'')"

fun build_children :: "sway \<Rightarrow> bool \<Rightarrow> id list \<Rightarrow> nat \<times> string" where
  "build_children s first [] = (0, [])"
| "build_children s first (c # cs) =
     (let sep = (if first then [] else '' ''); text = identifier_text (cons s c);
          (n, rest) = build_children s False cs in
      ((if first then 0 else 1) + length text + n, sep @ text @ rest))"

definition container_build_representation :: "sway \<Rightarrow> container_layout \<Rightarrow> id list \<Rightarrow> nat \<times> string" where
  "container_build_representation s layout cs =
     (let (n, body) = build_children s True cs in (2 + n + 1, layout_letter layout @ body @ '']''))"

section \<open>Title formats\<close>

text \<open>
  One placeholder at the head of the format: the length counted, the text written, and the number of
  characters of the format consumed.
\<close>

definition placeholder :: "sway \<Rightarrow> container \<Rightarrow> string \<Rightarrow> nat \<times> string \<times> nat" where
  "placeholder s con f =
     (let prop = (\<lambda>p n. case append_prop (cfg s) p of (k, t) \<Rightarrow> (k, t, n)) in
      if has_prefix f ''%title''
      then (case c_view con of
              Some v \<Rightarrow> prop (v_title v) 6
            | None \<Rightarrow> (case container_build_representation s (c_layout con) (c_children con) of (k, t) \<Rightarrow> (k, t, 6)))
      else case c_view con of
        Some v \<Rightarrow>
          if has_prefix f ''%app_id'' then prop (v_app_id v) 7
          else if has_prefix f ''%class'' then prop (v_class v) 6
          else if has_prefix f ''%instance'' then prop (v_instance v) 9
          else if has_prefix f ''%shell'' then prop (Some (v_shell v)) 6
          else if has_prefix f ''%sandbox_engine'' then prop (v_sandbox_engine v) 15
          else if has_prefix f ''%sandbox_app_id'' then prop (v_sandbox_app_id v) 15
          else if has_prefix f ''%sandbox_instance_id'' then prop (v_sandbox_instance_id v) 20
          else (1, ''%'', 1)
      | None \<Rightarrow> (1, ''%'', 1))"

lemma placeholder_consumes: "0 < snd (snd (placeholder s con f))"
  by (simp add: placeholder_def Let_def split: option.split prod.split)

lemma after_percent:
  assumes "dropWhile (\<lambda>c. c \<noteq> CHR ''%'') f \<noteq> []" "0 < k"
  shows "length (drop k (dropWhile (\<lambda>c. c \<noteq> CHR ''%'') f)) < length f"
proof -
  have "length (drop k (dropWhile (\<lambda>c. c \<noteq> CHR ''%'') f)) < length (dropWhile (\<lambda>c. c \<noteq> CHR ''%'') f)"
    using assms by simp
  then show ?thesis using length_dropWhile_le[of "\<lambda>c. c \<noteq> CHR ''%''" f] by linarith
qed

text \<open>The loop copies up to the next percent sign (strchr) and then expands the placeholder.\<close>

function title_loop :: "sway \<Rightarrow> container \<Rightarrow> string \<Rightarrow> nat \<times> string" where
  "title_loop s con format =
     (let next = dropWhile (\<lambda>c. c \<noteq> CHR ''%'') format; before = takeWhile (\<lambda>c. c \<noteq> CHR ''%'') format in
      if next = [] then (length format, format)
      else (case placeholder s con next of
              (k, text, used) \<Rightarrow>
                (case title_loop s con (drop used next) of
                   (n, rest) \<Rightarrow> (length before + k + n, before @ text @ rest))))"
  by pat_completeness auto
termination
proof (relation "measure (\<lambda>(s, con, f). length f)")
  fix s con format nxt before k y tx used
  assume a: "nxt = dropWhile (\<lambda>c. c \<noteq> CHR ''%'') format"
      "before = takeWhile (\<lambda>c. c \<noteq> CHR ''%'') format" "nxt \<noteq> []"
    and p: "(k, y) = placeholder s con nxt" "(tx, used) = y"
  have "0 < snd (snd (placeholder s con nxt))" by (rule placeholder_consumes)
  moreover have "placeholder s con nxt = (k, tx, used)" using p by simp
  ultimately have "0 < used" by simp
  then show "((s, con, drop used nxt), s, con, format) \<in> measure (\<lambda>(s, con, f). length f)"
    using after_percent[of format used] a by simp
qed simp

declare title_loop.simps [simp del]

definition parse_title_format :: "sway \<Rightarrow> id \<Rightarrow> nat \<times> string" where
  "parse_title_format s c =
     (let con = cons s c in
      case c_title_format con of
        Some f \<Rightarrow>
          if f = ''%title''
          then (case c_view con of
                  Some v \<Rightarrow> append_prop (cfg s) (v_title v)
                | None \<Rightarrow> container_build_representation s (c_layout con) (c_children con))
          else title_loop s con f
      | None \<Rightarrow>
          (case c_view con of
             Some v \<Rightarrow> append_prop (cfg s) (v_title v)
           | None \<Rightarrow> container_build_representation s (c_layout con) (c_children con)))"

section \<open>Writing them to the tree\<close>

definition workspace_update_representation :: "id \<Rightarrow> sway \<Rightarrow> sway" where
  "workspace_update_representation w s =
     upd_ws w (\<lambda>x. x\<lparr>w_representation := snd (container_build_representation s (w_layout x) (w_tiling x))\<rparr>) s"

text \<open>The title bar texts are scene nodes and not modelled.\<close>

definition retitle :: "id \<Rightarrow> sway \<Rightarrow> sway" where
  "retitle c s =
     (if c_view (cons s c) = None
      then upd_con c (\<lambda>x. x\<lparr>c_formatted_title := Some (snd (parse_title_format s c))\<rparr>) s else s)"

fun update_representation_loop :: "nat \<Rightarrow> id \<Rightarrow> sway \<Rightarrow> sway" where
  "update_representation_loop 0 c s = s"
| "update_representation_loop (Suc n) c s =
     (let s = retitle c s in
      case c_parent (cons s c) of
        Some p \<Rightarrow> update_representation_loop n p s
      | None \<Rightarrow> (case c_workspace (cons s c) of
                  Some w \<Rightarrow> workspace_update_representation w s | None \<Rightarrow> s))"

definition container_update_representation :: "id \<Rightarrow> sway \<Rightarrow> sway" where
  "container_update_representation c s = update_representation_loop (next_id s + 1) c s"

definition view_update_title :: "id \<Rightarrow> bool \<Rightarrow> sway \<Rightarrow> sway" where
  "view_update_title c force s =
     (case c_view (cons s c) of None \<Rightarrow> s
      | Some v \<Rightarrow>
          if \<not> force \<and> v_title v = c_title (cons s c) then s
          else
            (let (len, text) = parse_title_format s c;
                 s = upd_con c (\<lambda>x. x\<lparr>c_formatted_title := (if len \<noteq> 0 then Some text else None),
                                     c_title := v_title v\<rparr>) s in
             emit (Ev_window c ''title'') s))"

definition marks_text :: "config \<Rightarrow> string list \<Rightarrow> string option" where
  "marks_text cf marks =
     (if cfg_show_marks cf \<and> marks \<noteq> []
      then Some (concat (map (\<lambda>m. CHR ''['' # m @ '']'') (filter (\<lambda>m. take 1 m \<noteq> ''_'') marks)))
      else None)"

section \<open>The two passes agree\<close>

lemma escape_markup_length: "fst (escape_markup_text s) = length (snd (escape_markup_text s))"
  by (induction s) (auto simp: Let_def split: prod.split)

lemma append_prop_length: "fst (append_prop c p) = length (snd (append_prop c p))"
  by (simp add: append_prop_def Let_def split: option.split)

lemma build_children_length: "fst (build_children s first cs) = length (snd (build_children s first cs))"
  by (induction s first cs rule: build_children.induct) (auto simp: Let_def split: prod.split)

lemma build_representation_length:
  "fst (container_build_representation s l cs) = length (snd (container_build_representation s l cs))"
  using build_children_length[of s True cs]
  by (auto simp: container_build_representation_def layout_letter_def split: prod.split container_layout.split)

lemma placeholder_length: "placeholder s con f = (k, text, used) \<Longrightarrow> k = length text"
  using append_prop_length build_representation_length
  by (auto simp: placeholder_def Let_def split: option.splits prod.splits if_splits)
     (metis fst_conv snd_conv)+

lemma title_loop_plain:
  "dropWhile (\<lambda>c. c \<noteq> CHR ''%'') f = [] \<Longrightarrow> title_loop s con f = (length f, f)"
  by (subst title_loop.simps) simp

lemma title_loop_placeholder:
  assumes "dropWhile (\<lambda>c. c \<noteq> CHR ''%'') f = nxt" "nxt \<noteq> []" "placeholder s con nxt = (k, tx, used)"
    and "title_loop s con (drop used nxt) = (n, rest)"
  shows "title_loop s con f = (length (takeWhile (\<lambda>c. c \<noteq> CHR ''%'') f) + k + n,
                               takeWhile (\<lambda>c. c \<noteq> CHR ''%'') f @ tx @ rest)"
  by (subst title_loop.simps) (simp only: assms Let_def prod.case if_False)

lemma title_loop_length: "fst (title_loop s con f) = length (snd (title_loop s con f))"
proof (induction s con f rule: title_loop.induct)
  case (1 s con format)
  show ?case
  proof (cases "dropWhile (\<lambda>c. c \<noteq> CHR ''%'') format = []")
    case False
    obtain k tx used where p: "placeholder s con (dropWhile (\<lambda>c. c \<noteq> CHR ''%'') format) = (k, tx, used)"
      by (metis prod_cases3)
    obtain n rest where r: "title_loop s con (drop used (dropWhile (\<lambda>c. c \<noteq> CHR ''%'') format)) = (n, rest)"
      by fastforce
    have "n = length rest" using "1"[OF refl refl False p[symmetric] refl] by (simp add: r)
    then show ?thesis using title_loop_placeholder[OF refl False p r] placeholder_length[OF p] by simp
  qed (simp add: title_loop_plain)
qed

text \<open>
  C34. Formatting a title never overflows its buffer: the length the first pass of parse_title_format
  counts is exactly the length of the text the second pass writes, for every title format, view and
  tree, with and without markup; and the same holds for the representation of a workspace.
\<close>

theorem title_passes_agree:
  "fst (parse_title_format s c) = length (snd (parse_title_format s c))
   \<and> fst (container_build_representation s l cs) = length (snd (container_build_representation s l cs))"
  by (simp add: parse_title_format_def Let_def append_prop_length build_representation_length title_loop_length
      split: option.split)

section \<open>Only titles change\<close>

lemma update_workspace_representation_shape: "same_shape s (workspace_update_representation w s)"
  unfolding workspace_update_representation_def by (rule same_shape_upd_ws) simp

lemmas update_workspace_representation_after [shape] = same_shape_trans[OF _ update_workspace_representation_shape]

lemma retitle_shape: "same_shape s (retitle c s)"
  unfolding retitle_def by (auto intro!: shape)

lemma update_representation_shape: "same_shape s (container_update_representation c s)"
proof -
  have "same_shape s (update_representation_loop n c s)" for n
  proof (induction n arbitrary: c s)
    case (Suc n)
    show ?case unfolding update_representation_loop.simps Let_def
      by (auto split: option.split intro!: same_shape_trans[OF retitle_shape Suc.IH] retitle_shape
          same_shape_trans[OF retitle_shape update_workspace_representation_shape])
  qed (simp add: same_shape_refl)
  then show ?thesis by (simp only: container_update_representation_def)
qed

lemmas update_representation_after [shape] = same_shape_trans[OF _ update_representation_shape]

lemma view_update_title_shape: "same_shape s (view_update_title c force s)"
  unfolding view_update_title_def Let_def by (auto split: option.split prod.split intro!: shape)

end
