(* ===== verification/Reparent.thy ===== *)
theory Reparent
  imports Floating Focus Arrange Title
begin

text \<open>
  Moving containers in the tree (container_detach, container_insert_child, container_add_child,
  container_add_sibling and the fullscreen functions of sway/tree/container.c, the insertion
  functions of sway/tree/workspace.c). Detaching and inserting set the workspace of the whole subtree
  and keep the fullscreen pointers of the workspaces and of the root.

  Leaving fullscreen may move the focus, and moving the focus may move floating containers, which
  may leave fullscreen again: the function that moves the focus is the component e_refocus of the
  environment, and theory Refocus ties the knot. The other components are what wlroots answers:
  the boxes of the output layout, the output at a point, next to one or farthest from it, the nearest point
  of a box, which views are transient for which, the size of a picture of a window in the overview, and the
  windows that the scene holds.
\<close>

section \<open>The environment\<close>

datatype direction = DIR_UP | DIR_DOWN | DIR_LEFT | DIR_RIGHT

record env =
  e_transient :: "id \<Rightarrow> id \<Rightarrow> bool"
  e_layout_box :: box
  e_output_box :: "id option \<Rightarrow> box"
  e_closest :: "box \<Rightarrow> rat \<Rightarrow> rat \<Rightarrow> rat \<times> rat"
  e_seat :: "nat option"
  e_output_at :: "rat \<Rightarrow> rat \<Rightarrow> id option"
  e_adjacent :: "direction \<Rightarrow> id \<Rightarrow> rat \<Rightarrow> rat \<Rightarrow> id option"
  e_farthest :: "direction \<Rightarrow> id \<Rightarrow> rat \<Rightarrow> rat \<Rightarrow> id option"
  e_thumbnail :: "id \<Rightarrow> overview_action \<Rightarrow> (int \<times> int) option"
  e_in_scene :: "id \<Rightarrow> bool \<Rightarrow> id list"
  e_refocus :: "nat \<Rightarrow> node option \<Rightarrow> sway \<Rightarrow> sway"

definition seat_at :: "sway \<Rightarrow> nat \<Rightarrow> seat" where
  "seat_at s k = (if k < length (seats s) then seats s ! k else seat_zero ''seat0'')"

text \<open>
  The seat of the handler context or else the default seat, which exists from the start
  (input_manager_current_seat).
\<close>

definition input_manager_current_seat :: "env \<Rightarrow> sway \<Rightarrow> nat" where
  "input_manager_current_seat E s =
     (case e_seat E of Some k \<Rightarrow> k | None \<Rightarrow> nat (find_index_from 0 (\<lambda>t. s_name t = ''seat0'') (seats s)))"

definition each_seat :: "(nat \<Rightarrow> sway \<Rightarrow> sway) \<Rightarrow> sway \<Rightarrow> sway" where
  "each_seat f s = fold f [0..<length (seats s)] s"

text \<open>handle_new_node runs for every seat when a node is created.\<close>

definition handle_new_node :: "node \<Rightarrow> sway \<Rightarrow> sway" where
  "handle_new_node n s = s\<lparr>seats := map (seat_node_from_node n) (seats s)\<rparr>"

definition container_create :: "view_t option \<Rightarrow> sway \<Rightarrow> id \<times> sway" where
  "container_create view s =
     (case node_init N_CONTAINER s of
        (c, s) \<Rightarrow>
          (c, handle_new_node (N_CONTAINER c)
                (upd_con c (\<lambda>_. con_zero\<lparr>c_layout := L_NONE, c_view := view, c_alpha := 1\<rparr>) s)))"

section \<open>Leaving and entering fullscreen\<close>

definition restore_saved :: "container \<Rightarrow> container" where
  "restore_saved x = x\<lparr>c_x := c_saved_x x, c_y := c_saved_y x,
     c_width := c_saved_width x, c_height := c_saved_height x\<rparr>"

definition save_geometry :: "container \<Rightarrow> container" where
  "save_geometry x = x\<lparr>c_saved_x := c_x x, c_saved_y := c_y x,
     c_saved_width := c_width x, c_saved_height := c_height x\<rparr>"

text \<open>A seat whose focus is the container or below it looks for another focus.\<close>

definition leave_scratchpad_focus :: "env \<Rightarrow> id \<Rightarrow> sway \<Rightarrow> sway" where
  "leave_scratchpad_focus E c s =
     each_seat (\<lambda>k s.
        case seat_get_focused_container (seat_at s k) of
          None \<Rightarrow> s
        | Some f \<Rightarrow>
            if f = c \<or> container_has_ancestor s f c
            then e_refocus E k (seat_get_focus_inactive s (seat_at s k) N_ROOT) s else s) s"

definition clear_fullscreen_pointer :: "env \<Rightarrow> id \<Rightarrow> sway \<Rightarrow> sway" where
  "clear_fullscreen_pointer E c s =
     (if c_fullscreen (cons s c) = FULLSCREEN_WORKSPACE
      then (case c_workspace (cons s c) of
              None \<Rightarrow> s
            | Some w \<Rightarrow>
                (let s = upd_ws w (\<lambda>x. x\<lparr>w_fullscreen := None\<rparr>) s in
                 if container_is_floating s c
                   \<and> w_output (wss s w) \<noteq> container_floating_find_output (e_closest E) s c
                 then container_floating_move_to_center c s else s))
      else s\<lparr>fullscreen_global := None\<rparr>)"

definition container_fullscreen_disable :: "env \<Rightarrow> id \<Rightarrow> sway \<Rightarrow> sway" where
  "container_fullscreen_disable E c s =
     (if c_fullscreen (cons s c) = FULLSCREEN_NONE then s
      else
        (let s = (if container_is_floating s c then upd_con c restore_saved s else s);
             s = clear_fullscreen_pointer E c s;
             s = (if container_is_floating s c \<and> (c_width (cons s c) = 0 \<or> c_height (cons s c) = 0)
                  then container_floating_resize_and_center (e_layout_box E) (e_output_box E) c s else s);
             s = upd_con c (\<lambda>x. x\<lparr>c_fullscreen := FULLSCREEN_NONE\<rparr>) s;
             s = emit (Ev_window c ''fullscreen_mode'') s in
         if c_scratchpad (cons s c) then leave_scratchpad_focus E c s else s))"

definition disable_if :: "env \<Rightarrow> id option \<Rightarrow> sway \<Rightarrow> sway" where
  "disable_if E fs s = (case fs of None \<Rightarrow> s | Some f \<Rightarrow> container_fullscreen_disable E f s)"

text \<open>The seats whose focus is elsewhere only remember the container below their focus.\<close>

definition raise_below_focus :: "nat \<Rightarrow> node \<Rightarrow> sway \<Rightarrow> sway" where
  "raise_below_focus k n s =
     (let focus = seat_get_focus_inactive s (seat_at s k) N_ROOT;
          s = seat_set_raw_focus k n s in
      case focus of None \<Rightarrow> s | Some f \<Rightarrow> seat_set_raw_focus k f s)"

definition container_fullscreen_workspace :: "env \<Rightarrow> id \<Rightarrow> sway \<Rightarrow> sway" where
  "container_fullscreen_workspace E c s =
     (if c_fullscreen (cons s c) \<noteq> FULLSCREEN_NONE then s
      else
        (let s = upd_con c (\<lambda>x. (save_geometry x)\<lparr>c_fullscreen := FULLSCREEN_WORKSPACE\<rparr>) s;
             s = (case c_workspace (cons s c) of None \<Rightarrow> s
                  | Some w \<Rightarrow>
                      each_seat (\<lambda>k s.
                         if seat_get_focused_workspace s (seat_at s k) = c_workspace (cons s c)
                         then e_refocus E k (Some (N_CONTAINER c)) s
                         else raise_below_focus k (N_CONTAINER c) s)
                        (upd_ws w (\<lambda>x. x\<lparr>w_fullscreen := Some c\<rparr>) s)) in
         emit (Ev_window c ''fullscreen_mode'') s))"

definition container_fullscreen_global :: "env \<Rightarrow> id \<Rightarrow> sway \<Rightarrow> sway" where
  "container_fullscreen_global E c s =
     (if c_fullscreen (cons s c) \<noteq> FULLSCREEN_NONE then s
      else
        (let s = upd_con c save_geometry (s\<lparr>fullscreen_global := Some c\<rparr>);
             s = each_seat (\<lambda>k s.
                   case seat_get_focused_container (seat_at s k) of
                     None \<Rightarrow> s
                   | Some f \<Rightarrow> if f \<noteq> c then e_refocus E k (Some (N_CONTAINER c)) s else s) s;
             s = upd_con c (\<lambda>x. x\<lparr>c_fullscreen := FULLSCREEN_GLOBAL\<rparr>) s in
         emit (Ev_window c ''fullscreen_mode'') s))"

definition container_set_fullscreen :: "env \<Rightarrow> id \<Rightarrow> fullscreen_mode \<Rightarrow> sway \<Rightarrow> sway" where
  "container_set_fullscreen E c mode s =
     (if c_fullscreen (cons s c) = mode then s
      else case mode of
        FULLSCREEN_NONE \<Rightarrow> container_fullscreen_disable E c s
      | FULLSCREEN_WORKSPACE \<Rightarrow>
          (let s = disable_if E (fullscreen_global s) s;
               s = (case c_workspace (cons s c) of None \<Rightarrow> s
                    | Some w \<Rightarrow> disable_if E (w_fullscreen (wss s w)) s) in
           container_fullscreen_workspace E c s)
      | FULLSCREEN_GLOBAL \<Rightarrow>
          (let s = disable_if E (fullscreen_global s) s;
               s = (if c_fullscreen (cons s c) = FULLSCREEN_WORKSPACE
                    then container_fullscreen_disable E c s else s) in
           container_fullscreen_global E c s))"

section \<open>A subtree in its new place\<close>

text \<open>
  After a container has moved to a workspace that shows another fullscreen container, that one
  leaves fullscreen and the container, or its descendant, takes the place.
\<close>

definition fullscreen_in :: "sway \<Rightarrow> fullscreen_mode \<Rightarrow> id \<Rightarrow> id option" where
  "fullscreen_in s mode c =
     (if c_fullscreen (cons s c) = mode then Some c
      else container_find_child s c (\<lambda>d. c_fullscreen (cons s d) = mode))"

definition take_workspace_fullscreen :: "env \<Rightarrow> id \<Rightarrow> sway \<Rightarrow> sway" where
  "take_workspace_fullscreen E fs s =
     (case c_workspace (cons s fs) of
        None \<Rightarrow> s
      | Some w \<Rightarrow>
          if w_fullscreen (wss s w) = Some fs then s
          else
            (let s = disable_if E (w_fullscreen (wss s w)) s in
             case c_workspace (cons s fs) of
               None \<Rightarrow> s
             | Some w \<Rightarrow> arrange_workspace w (upd_ws w (\<lambda>x. x\<lparr>w_fullscreen := Some fs\<rparr>) s)))"

definition container_handle_fullscreen_reparent :: "env \<Rightarrow> id \<Rightarrow> sway \<Rightarrow> sway" where
  "container_handle_fullscreen_reparent E c s =
     (case fullscreen_in s FULLSCREEN_GLOBAL c of
        Some fs \<Rightarrow>
          if fullscreen_global s = Some fs then s
          else (let s = disable_if E (fullscreen_global s) s in
                arrange_root (e_layout_box E) (s\<lparr>fullscreen_global := Some fs\<rparr>))
      | None \<Rightarrow>
          (case fullscreen_in s FULLSCREEN_WORKSPACE c of
             None \<Rightarrow> s
           | Some fs \<Rightarrow> take_workspace_fullscreen E fs s))"

definition adopt :: "id \<Rightarrow> id option \<Rightarrow> id option \<Rightarrow> sway \<Rightarrow> sway" where
  "adopt c parent w s =
     container_for_each_child c set_workspace
       (upd_con c (\<lambda>x. x\<lparr>c_parent := parent, c_workspace := w\<rparr>) s)"

section \<open>Detaching\<close>

definition remove_id :: "id \<Rightarrow> id list \<Rightarrow> id list" where
  "remove_id c xs = (if index_of c xs \<noteq> -1 then delete_at (nat (index_of c xs)) xs else xs)"

definition drop_fullscreen_pointers :: "id \<Rightarrow> sway \<Rightarrow> sway" where
  "drop_fullscreen_pointers c s =
     (let hides = (\<lambda>fs. case fs of None \<Rightarrow> False | Some f \<Rightarrow> f = c \<or> container_has_ancestor s f c);
          s1 = (case c_workspace (cons s c) of
                  None \<Rightarrow> s
                | Some w \<Rightarrow> if hides (w_fullscreen (wss s w)) then upd_ws w (\<lambda>x. x\<lparr>w_fullscreen := None\<rparr>) s else s) in
      if hides (fullscreen_global s1) then s1\<lparr>fullscreen_global := None\<rparr> else s1)"

definition container_detach :: "id \<Rightarrow> sway \<Rightarrow> sway" where
  "container_detach c s =
     (let old_workspace = c_workspace (cons s c); old_parent = c_parent (cons s c);
          s = drop_fullscreen_pointers c s;
          s = (case container_get_siblings s c of None \<Rightarrow> s | Some r \<Rightarrow> upd_list r (remove_id c) s);
          s = adopt c None None s;
          s = (case old_parent of
                 Some p \<Rightarrow> node_set_dirty (N_CONTAINER p) (container_update_representation p s)
               | None \<Rightarrow>
                   (case old_workspace of
                      Some w \<Rightarrow> node_set_dirty (N_WORKSPACE w) (workspace_update_representation w s)
                    | None \<Rightarrow> s)) in
      node_set_dirty (N_CONTAINER c) s)"

definition detach_attached :: "id \<Rightarrow> sway \<Rightarrow> sway" where
  "detach_attached c s = (if c_workspace (cons s c) \<noteq> None then container_detach c s else s)"

section \<open>Inserting below a container\<close>

text \<open>
  The index is meant to be one between 0 and the number of children. list_insert does not check it and
  would move memory out of bounds (theory CList has the buffer); insert_at stays inside the list.
\<close>

definition container_insert_child :: "env \<Rightarrow> id \<Rightarrow> id \<Rightarrow> int \<Rightarrow> sway \<Rightarrow> sway" where
  "container_insert_child E parent child i s =
     (let s = detach_attached child s;
          s = upd_list (Children_of parent) (insert_at (nat i) child) s;
          s = adopt child (Some parent) (c_workspace (cons s parent)) s;
          s = container_handle_fullscreen_reparent E child s;
          s = container_update_representation parent s in
      container_fit_vertical_children (Some parent) (Some child) s)"

definition container_add_child :: "env \<Rightarrow> id \<Rightarrow> id \<Rightarrow> sway \<Rightarrow> sway" where
  "container_add_child E parent child s =
     (let s = detach_attached child s;
          s = upd_list (Children_of parent) (\<lambda>xs. xs @ [child]) s;
          s = adopt child (Some parent) (c_workspace (cons s parent)) s;
          s = container_handle_fullscreen_reparent E child s;
          s = container_update_representation parent s;
          s = node_set_dirty (N_CONTAINER parent) (node_set_dirty (N_CONTAINER child) s) in
      container_fit_vertical_children (Some parent) (Some child) s)"

text \<open>
  The container called fixed has a parent or a workspace; the source dereferences its sibling list.
\<close>

definition container_add_sibling :: "env \<Rightarrow> id \<Rightarrow> id \<Rightarrow> bool \<Rightarrow> sway \<Rightarrow> sway" where
  "container_add_sibling E fixed active after s =
     (let s = detach_attached active s in
      case container_get_siblings s fixed of
        None \<Rightarrow> s
      | Some r \<Rightarrow>
          (let i = index_of fixed (list_of s r);
               s = upd_list r (insert_at (nat (i + (if after then 1 else 0))) active) s;
               s = adopt active (c_parent (cons s fixed)) (c_workspace (cons s fixed)) s;
               s = container_handle_fullscreen_reparent E active s;
               s = container_update_representation active s in
           container_fit_vertical_children (c_parent (cons s active)) (Some active) s))"

section \<open>Inserting into a workspace\<close>

definition workspace_insert_tiling_direct :: "env \<Rightarrow> id \<Rightarrow> id \<Rightarrow> int \<Rightarrow> sway \<Rightarrow> sway" where
  "workspace_insert_tiling_direct E w c i s =
     (let s = upd_list (Tiling_of w) (insert_at (nat i) c) s;
          s = adopt c (c_parent (cons s c)) (Some w) s;
          s = container_handle_fullscreen_reparent E c s;
          s = workspace_update_representation w s in
      node_set_dirty (N_CONTAINER c) (node_set_dirty (N_WORKSPACE w) s))"

definition workspace_attach_tiling :: "env \<Rightarrow> id \<Rightarrow> id \<Rightarrow> sway \<Rightarrow> sway" where
  "workspace_attach_tiling E w c s =
     (let s = upd_list (Tiling_of w) (\<lambda>xs. xs @ [c]) s;
          s = adopt c (c_parent (cons s c)) (Some w) s;
          s = container_handle_fullscreen_reparent E c s;
          s = workspace_update_representation w s in
      node_set_dirty (N_CONTAINER c) (node_set_dirty (N_WORKSPACE w) s))"

text \<open>A container parked in a minimize pool leaves it first.\<close>

definition unpark :: "id \<Rightarrow> sway \<Rightarrow> sway" where
  "unpark c s =
     (if c_minimized (cons s c)
      then (case workspace_minimized_remove c s of
              (old, s) \<Rightarrow>
                (let s = upd_con c (\<lambda>x. x\<lparr>c_minimized := False\<rparr>) s in
                 case old of
                   Some w \<Rightarrow> if n_destroying (ninfo s (N_WORKSPACE w)) then s
                             else emit (Ev_workspace (Some w) (Some w) ''minimized'') s
                 | None \<Rightarrow> s))
      else s)"

definition workspace_add_floating :: "env \<Rightarrow> id \<Rightarrow> id \<Rightarrow> sway \<Rightarrow> sway" where
  "workspace_add_floating E w c s =
     (let s = unpark c s;
          s = detach_attached c s;
          s = upd_list (Floating_of w) (\<lambda>xs. xs @ [c]) s;
          s = adopt c (c_parent (cons s c)) (Some w) s;
          s = container_handle_fullscreen_reparent E c s in
      node_set_dirty (N_CONTAINER c) (node_set_dirty (N_WORKSPACE w) s))"

definition workspace_insert_tiling :: "env \<Rightarrow> id \<Rightarrow> id \<Rightarrow> int \<Rightarrow> sway \<Rightarrow> id \<times> sway" where
  "workspace_insert_tiling E w c i s =
     (let s = detach_attached c s;
          (c, s) = (if c_view (cons s c) \<noteq> None
            then (case container_create None s of
                    (col, s) \<Rightarrow>
                      (let s = upd_con col (\<lambda>x. x\<lparr>c_layout := L_VERT\<rparr>) s;
                           s = container_add_child E col c s;
                           s = upd_con col (\<lambda>x. x\<lparr>c_width_fraction := layout_get_default_width s\<rparr>) s;
                           s = upd_con c (\<lambda>x. x\<lparr>c_height_fraction := 1,
                                 c_height := workspace_height_fraction (wss s w) 1\<rparr>) s in
                       (col, s)))
            else (c, s));
          s = workspace_insert_tiling_direct E w c i s in
      (c, workspace_fit_new_column w c i s))"

end
