(* ===== verification/Reparent_Laws.thy ===== *)
theory Reparent_Laws
  imports Reparent
begin

text \<open>
  The invariant of the tree and what keeps it. tree_ok says that child lists and parent pointers
  agree (struct_ok), that a child is on the workspace of its parent, that the tiling and floating
  lists of a workspace hold top level containers of that workspace, each once, and that the
  fullscreen container of a workspace is on that workspace. Every function that moves containers
  keeps it, whatever moves the focus meanwhile, as long as that keeps it too (locale refocusing).
\<close>

named_theorems keeps \<open>functions that keep the invariant and the parent pointers of the tree\<close>

section \<open>The invariant\<close>

definition roots :: "sway \<Rightarrow> id \<Rightarrow> id list" where
  "roots s w = w_tiling (wss s w) @ w_floating (wss s w)"

definition tree_ok :: "sway \<Rightarrow> bool" where
  "tree_ok s \<longleftrightarrow> struct_ok s
     \<and> (\<forall>c p. c_parent (cons s c) = Some p \<longrightarrow> c_workspace (cons s c) = c_workspace (cons s p))
     \<and> (\<forall>w. distinct (roots s w))
     \<and> (\<forall>w c. c \<in> set (roots s w) \<longrightarrow> c_parent (cons s c) = None)
     \<and> (\<forall>w c. c \<in> set (roots s w) \<longrightarrow> c_workspace (cons s c) = Some w)
     \<and> (\<forall>w c. w_fullscreen (wss s w) = Some c \<longrightarrow> c_workspace (cons s c) = Some w)
     \<and> (\<forall>c w. c_workspace (cons s c) = Some w \<longrightarrow> c < next_id s)"

lemma tree_okD:
  assumes "tree_ok s"
  shows "struct_ok s"
    and "\<And>c p. c_parent (cons s c) = Some p \<Longrightarrow> c_workspace (cons s c) = c_workspace (cons s p)"
    and "\<And>w. distinct (roots s w)"
    and "\<And>w c. c \<in> set (roots s w) \<Longrightarrow> c_parent (cons s c) = None"
    and "\<And>w c. c \<in> set (roots s w) \<Longrightarrow> c_workspace (cons s c) = Some w"
    and "\<And>w c. w_fullscreen (wss s w) = Some c \<Longrightarrow> c_workspace (cons s c) = Some w"
    and "\<And>c w. c_workspace (cons s c) = Some w \<Longrightarrow> c < next_id s"
  using assms unfolding tree_ok_def by blast+

lemma tree_okI:
  assumes "struct_ok s"
    and "\<And>c p. c_parent (cons s c) = Some p \<Longrightarrow> c_workspace (cons s c) = c_workspace (cons s p)"
    and "\<And>w. distinct (roots s w)"
    and "\<And>w c. c \<in> set (roots s w) \<Longrightarrow> c_parent (cons s c) = None"
    and "\<And>w c. c \<in> set (roots s w) \<Longrightarrow> c_workspace (cons s c) = Some w"
    and "\<And>w c. w_fullscreen (wss s w) = Some c \<Longrightarrow> c_workspace (cons s c) = Some w"
    and "\<And>c w. c_workspace (cons s c) = Some w \<Longrightarrow> c < next_id s"
  shows "tree_ok s"
  using assms unfolding tree_ok_def by blast

text \<open>What the invariant reads.\<close>

definition same_tree :: "sway \<Rightarrow> sway \<Rightarrow> bool" where
  "same_tree s s' \<longleftrightarrow> next_id s' = next_id s
     \<and> (\<forall>c. c_parent (cons s' c) = c_parent (cons s c) \<and> c_children (cons s' c) = c_children (cons s c)
          \<and> c_workspace (cons s' c) = c_workspace (cons s c)
          \<and> (c_view (cons s' c) = None) = (c_view (cons s c) = None))
     \<and> (\<forall>w. w_tiling (wss s' w) = w_tiling (wss s w) \<and> w_floating (wss s' w) = w_floating (wss s w)
          \<and> (w_fullscreen (wss s' w) = w_fullscreen (wss s w) \<or> w_fullscreen (wss s' w) = None))"

lemma same_tree_ok:
  assumes "same_tree s s'" "tree_ok s" shows "tree_ok s'"
proof -
  have eqs: "c_parent (cons s' c) = c_parent (cons s c)" "c_children (cons s' c) = c_children (cons s c)"
      "c_workspace (cons s' c) = c_workspace (cons s c)" "(c_view (cons s' c) = None) = (c_view (cons s c) = None)"
      "roots s' w = roots s w" "next_id s' = next_id s" for c w
    using assms(1) by (simp_all add: same_tree_def roots_def)
  have fs: "w_fullscreen (wss s w) = Some c" if "w_fullscreen (wss s' w) = Some c" for w c
    using assms(1) that unfolding same_tree_def by (metis option.distinct(1))
  have pr: "parent_rel s' = parent_rel s" by (simp add: parent_rel_def eqs)
  have "struct_ok s'" using tree_okD(1)[OF assms(2)] by (simp add: struct_ok_def pr eqs)
  then show ?thesis
    using tree_okD[OF assms(2)] fs by (intro tree_okI) (simp_all add: eqs)
qed

text \<open>The forest of containers: who is whose child.\<close>

definition same_forest :: "sway \<Rightarrow> sway \<Rightarrow> bool" where
  "same_forest s s' \<longleftrightarrow> next_id s' = next_id s
     \<and> (\<forall>c. c_parent (cons s' c) = c_parent (cons s c) \<and> c_children (cons s' c) = c_children (cons s c)
          \<and> (c_view (cons s' c) = None) = (c_view (cons s c) = None))"

lemma same_forestD:
  assumes "same_forest s s'"
  shows "next_id s' = next_id s" "c_parent (cons s' c) = c_parent (cons s c)"
    "c_children (cons s' c) = c_children (cons s c)" "(c_view (cons s' c) = None) = (c_view (cons s c) = None)"
  using assms by (auto simp: same_forest_def)

lemma same_forest_refl: "same_forest s s"
  by (simp add: same_forest_def)

lemma same_forest_trans: "same_forest s t \<Longrightarrow> same_forest t u \<Longrightarrow> same_forest s u"
  by (simp add: same_forest_def)

lemma same_forest_descendants: "same_forest s s' \<Longrightarrow> descendants s' c = descendants s c"
  by (simp add: descendants_def parent_rel_def same_forest_def)

text \<open>
  A stray container has no parent and is in no list of a workspace, like a new column before it is
  inserted: nothing but the functions that insert it makes it more than that.
\<close>

definition stray :: "sway \<Rightarrow> id \<Rightarrow> bool" where
  "stray s c \<longleftrightarrow> c_parent (cons s c) = None \<and> (\<forall>w. c \<notin> set (roots s w))"

definition others :: "id set \<Rightarrow> id list \<Rightarrow> id list" where
  "others X xs = filter (\<lambda>c. c \<notin> X) xs"

definition same_strays :: "id set \<Rightarrow> sway \<Rightarrow> sway \<Rightarrow> bool" where
  "same_strays X s s' \<longleftrightarrow>
     (\<forall>c. c \<notin> X \<longrightarrow> stray s c \<longrightarrow> stray s' c \<and> c_workspace (cons s' c) = c_workspace (cons s c))
     \<and> (\<forall>w. others X (w_tiling (wss s' w)) = others X (w_tiling (wss s w)))"

lemma others_none [simp]: "others {} xs = xs"
  by (simp add: others_def)

lemma others_mono: "X \<subseteq> Y \<Longrightarrow> others X xs = others X ys \<Longrightarrow> others Y xs = others Y ys"
proof -
  assume x: "X \<subseteq> Y" and e: "others X xs = others X ys"
  have "others Y zs = others Y (others X zs)" for zs
    using x by (auto simp: others_def intro!: filter_cong)
  then show ?thesis using e by metis
qed

lemma others_insert_at [simp]: "others {c} (insert_at i c xs) = others {c} xs"
proof -
  have "others {c} xs = others {c} (take i xs @ drop i xs)" by simp
  then show ?thesis by (simp add: others_def insert_at_def del: append_take_drop_id)
qed

lemma others_remove1 [simp]: "others {c} (remove1 c xs) = others {c} xs"
  by (induction xs) (auto simp: others_def)

lemma same_strays_refl: "same_strays X s s"
  by (simp add: same_strays_def)

lemma same_strays_trans: "same_strays X s t \<Longrightarrow> same_strays X t u \<Longrightarrow> same_strays X s u"
  by (simp add: same_strays_def)

lemma same_strays_mono: "same_strays X s t \<Longrightarrow> X \<subseteq> Y \<Longrightarrow> same_strays Y s t"
  unfolding same_strays_def using others_mono by blast

text \<open>A step that keeps the invariant, the forest, and the strays other than those in X.\<close>

definition keeps_but :: "id set \<Rightarrow> sway \<Rightarrow> sway \<Rightarrow> bool" where
  "keeps_but X s s' \<longleftrightarrow> (tree_ok s \<longrightarrow> tree_ok s' \<and> same_forest s s' \<and> same_strays X s s')"

abbreviation keeps :: "sway \<Rightarrow> sway \<Rightarrow> bool" where
  "keeps \<equiv> keeps_but {}"

lemma keeps_refl [keeps]: "keeps_but X s s"
  by (simp add: keeps_but_def same_forest_refl same_strays_refl)

lemma keeps_trans: "keeps_but X s t \<Longrightarrow> keeps_but X t u \<Longrightarrow> keeps_but X s u"
  by (auto simp: keeps_but_def intro: same_forest_trans same_strays_trans)

lemma keeps_mono: "keeps_but X s t \<Longrightarrow> X \<subseteq> Y \<Longrightarrow> keeps_but Y s t"
  by (auto simp: keeps_but_def intro: same_strays_mono)

lemma keeps_weaken: "keeps s t \<Longrightarrow> keeps_but X s t"
  by (erule keeps_mono) simp

lemma keeps_root:
  "keeps_but {c} s t \<Longrightarrow> c \<in> set (roots s w) \<Longrightarrow> (\<And>v. tree_ok s \<Longrightarrow> w_tiling (wss t v) = w_tiling (wss s v))
   \<Longrightarrow> keeps s t"
  unfolding keeps_but_def same_strays_def others_none stray_def by (metis singletonD)

lemma keepsD: "keeps_but X s s' \<Longrightarrow> tree_ok s \<Longrightarrow> tree_ok s'"
  by (simp add: keeps_but_def)

lemma keeps_forest: "keeps_but X s s' \<Longrightarrow> tree_ok s \<Longrightarrow> same_forest s s'"
  by (simp add: keeps_but_def)

lemma keeps_stray: "keeps_but X s s' \<Longrightarrow> tree_ok s \<Longrightarrow> stray s c \<Longrightarrow> c \<notin> X \<Longrightarrow>
  stray s' c \<and> c_workspace (cons s' c) = c_workspace (cons s c)"
  by (simp add: keeps_but_def same_strays_def)

lemma keeps_local: "(tree_ok s \<Longrightarrow> keeps_but X s t) \<Longrightarrow> keeps_but X s t"
  by (simp add: keeps_but_def)

lemma same_tree_strays: "same_tree s s' \<Longrightarrow> same_strays X s s'"
  by (simp add: same_strays_def stray_def same_tree_def roots_def)

lemma same_tree_keeps: "same_tree s s' \<Longrightarrow> keeps_but X s s'"
  using same_tree_ok same_tree_strays by (auto simp: keeps_but_def same_forest_def same_tree_def)

lemma same_shape_tree: "same_shape s s' \<Longrightarrow> same_tree s s'"
  by (simp add: same_tree_def same_shape_con same_shape_ws same_shape_rest)

lemma same_shape_keeps: "same_shape s s' \<Longrightarrow> keeps s s'"
  by (rule same_tree_keeps[OF same_shape_tree])

lemmas shape_keeps = keeps_trans[OF _ same_shape_keeps]

lemma keeps_if: "(b \<Longrightarrow> keeps s t) \<Longrightarrow> (\<not> b \<Longrightarrow> keeps s u) \<Longrightarrow> keeps s (if b then t else u)"
  by simp

lemma keeps_upd_con:
  assumes "\<And>x. c_parent (f x) = c_parent x \<and> c_children (f x) = c_children x
      \<and> c_workspace (f x) = c_workspace x \<and> (c_view (f x) = None) = (c_view x = None)"
  shows "keeps s (upd_con c f s)"
  by (rule same_tree_keeps) (simp add: same_tree_def assms)

lemma keeps_upd_ws:
  assumes "\<And>x. w_tiling (f x) = w_tiling x \<and> w_floating (f x) = w_floating x
      \<and> (w_fullscreen (f x) = w_fullscreen x \<or> w_fullscreen (f x) = None)"
  shows "keeps s (upd_ws w f s)"
  by (rule same_tree_keeps) (simp add: same_tree_def assms)

lemma keeps_global: "keeps s (s\<lparr>fullscreen_global := g\<rparr>)"
  by (rule same_tree_keeps) (simp add: same_tree_def)

lemma keeps_root_box: "keeps s (s\<lparr>root_box := b\<rparr>)"
  by (rule same_tree_keeps) (simp add: same_tree_def)

lemma keeps_emit: "keeps s (emit e s)"
  by (rule same_tree_keeps) (simp add: same_tree_def)

lemma keeps_dirty: "keeps s (node_set_dirty n s)"
  by (rule same_tree_keeps) (simp add: same_tree_def)

lemma keeps_upd_seat: "keeps s (upd_seat k f s)"
  by (rule same_tree_keeps) (simp add: same_tree_def)

lemma keeps_seats: "keeps s (s\<lparr>seats := ts\<rparr>)"
  by (rule same_tree_keeps) (simp add: same_tree_def)

lemma keeps_pointer:
  assumes "c_workspace (cons s c) = Some w"
  shows "keeps s (upd_ws w (\<lambda>x. x\<lparr>w_fullscreen := Some c\<rparr>) s)"
  unfolding keeps_but_def
proof (intro impI conjI)
  let ?s' = "upd_ws w (\<lambda>x. x\<lparr>w_fullscreen := Some c\<rparr>) s"
  assume ok: "tree_ok s"
  have "struct_ok ?s'" using tree_okD(1)[OF ok] by (simp add: struct_ok_def parent_rel_def)
  moreover have "roots ?s' v = roots s v" for v by (simp add: roots_def)
  ultimately show "tree_ok ?s'"
    using tree_okD[OF ok] assms by (intro tree_okI) (auto split: if_splits)
qed (simp_all add: same_forest_def same_strays_def stray_def roots_def)

lemmas keeps_emit_after [keeps] = keeps_trans[OF _ keeps_emit]
  and keeps_dirty_after [keeps] = keeps_trans[OF _ keeps_dirty]
  and keeps_upd_seat_after [keeps] = keeps_trans[OF _ keeps_upd_seat]
  and keeps_global_after [keeps] = keeps_trans[OF _ keeps_global]
  and keeps_root_box_after [keeps] = keeps_trans[OF _ keeps_root_box]
  and keeps_con_after = keeps_trans[OF _ keeps_upd_con]
  and keeps_ws_after = keeps_trans[OF _ keeps_upd_ws]

lemma keeps_raw_focus: "keeps s (seat_set_raw_focus k n s)"
  unfolding seat_set_raw_focus_def Let_def by (auto split: option.split intro!: keeps)

lemmas keeps_raw_focus_after [keeps] = keeps_trans[OF _ keeps_raw_focus]

lemma raise_below_focus_keeps: "keeps s (raise_below_focus k n s)"
  unfolding raise_below_focus_def Let_def by (auto split: option.split intro!: keeps)

lemma keeps_fold: "(\<And>x t. keeps t (f x t)) \<Longrightarrow> keeps s (fold f xs s)"
  by (induction xs arbitrary: s) (auto intro: keeps_trans keeps_refl)

lemma keeps_each_seat: "(\<And>k t. keeps t (f k t)) \<Longrightarrow> keeps s (each_seat f s)"
  unfolding each_seat_def by (rule keeps_fold)

lemma arrange_root_keeps: "keeps s (arrange_root b s)"
  unfolding arrange_root_def Let_def
  by (auto split: option.split intro!: keeps
      shape_keeps[OF _ fold_shape[OF arrange_output_shape]] shape_keeps[OF _ arrange_container_shape]
      keeps_con_after)
    (simp add: set_box_def)+

lemmas arrange_root_after [keeps] = keeps_trans[OF _ arrange_root_keeps]

section \<open>The workspace of a subtree\<close>

definition put_ws :: "id set \<Rightarrow> id option \<Rightarrow> sway \<Rightarrow> sway" where
  "put_ws D W s = s\<lparr>cons := (\<lambda>d. if d \<in> D then (cons s d)\<lparr>c_workspace := W\<rparr> else cons s d)\<rparr>"

lemma put_ws_simps [simp]:
  "wss (put_ws D W s) = wss s" "next_id (put_ws D W s) = next_id s"
  "c_parent (cons (put_ws D W s) c) = c_parent (cons s c)"
  "c_children (cons (put_ws D W s) c) = c_children (cons s c)"
  "c_view (cons (put_ws D W s) c) = c_view (cons s c)"
  "c_workspace (cons (put_ws D W s) c) = (if c \<in> D then W else c_workspace (cons s c))"
  "roots (put_ws D W s) w = roots s w"
  by (simp_all add: put_ws_def roots_def)

lemma put_ws_empty: "put_ws {} W s = s"
  by (simp add: put_ws_def)

lemma put_ws_union: "put_ws A W (put_ws B W s) = put_ws (A \<union> B) W s"
  by (simp add: put_ws_def fun_eq_iff)

lemma put_ws_forest: "same_forest s (put_ws D W s)"
  by (simp add: same_forest_def)

lemma same_forest_struct: "same_forest s s' \<Longrightarrow> struct_ok s \<Longrightarrow> struct_ok s'"
  unfolding struct_ok_def by (simp add: same_forestD parent_rel_def)

lemma same_forest_subtrees: "same_forest s s' \<Longrightarrow> subtrees s' cs = subtrees s cs"
  by (simp add: subtrees_def same_forest_descendants)

lemma set_workspace_put:
  "c_parent (cons s c) = Some p \<Longrightarrow> set_workspace c s = put_ws {c} (c_workspace (cons s p)) s"
  by (simp add: set_workspace_def put_ws_def upd_con_def fun_eq_iff)

lemma for_each_set_workspace:
  assumes "struct_ok s" "\<forall>c\<in>set cs. c_parent (cons s c) = Some p" "c_workspace (cons s p) = W"
    and "\<forall>c\<in>set cs. card (descendants s c) < n"
  shows "for_each_in n set_workspace cs s = put_ws (subtrees s cs) W s"
  using assms
proof (induction n set_workspace cs s arbitrary: p rule: for_each_in.induct)
  case (1 cs s)
  then show ?case by (cases cs) (auto simp: put_ws_empty)
next
  case (2 n s)
  then show ?case by (simp add: put_ws_empty)
next
  case (3 n c cs s)
  let ?s1 = "put_ws {c} W s"
  let ?s2 = "put_ws (insert c (descendants s c)) W s"
  have one: "set_workspace c s = ?s1" using set_workspace_put[of s c p] "3.prems"(2,3) by simp
  note f1 = put_ws_forest[of s "{c}" W]
  have ok1: "struct_ok ?s1" by (rule same_forest_struct[OF f1 "3.prems"(1)])
  have kids: "c_children (cons ?s1 c) = c_children (cons s c)" by simp
  have two: "for_each_in n set_workspace (c_children (cons ?s1 c)) ?s1 = ?s2"
  proof -
    have "for_each_in n set_workspace (c_children (cons ?s1 c)) ?s1
        = put_ws (subtrees ?s1 (c_children (cons ?s1 c))) W ?s1"
    proof (rule "3.hyps"(1)[OF one[symmetric] ok1, of c])
      show "\<forall>k\<in>set (c_children (cons ?s1 c)). c_parent (cons ?s1 k) = Some c"
        using struct_okD(1)[OF "3.prems"(1)] by simp
      show "\<forall>k\<in>set (c_children (cons ?s1 c)). card (descendants ?s1 k) < n"
        using card_descendants_less[OF "3.prems"(1)] "3.prems"(4)
        by (fastforce simp: same_forest_descendants[OF f1])
    qed simp
    then show ?thesis
      by (simp add: same_forest_subtrees[OF f1] subtrees_children[OF "3.prems"(1)] put_ws_union Un_commute)
  qed
  note f2 = put_ws_forest[of s "insert c (descendants s c)" W]
  have "for_each_in (Suc n) set_workspace cs ?s2 = put_ws (subtrees ?s2 cs) W ?s2"
    by (rule "3.hyps"(2)[OF one[symmetric] two[symmetric] same_forest_struct[OF f2 "3.prems"(1)], of p])
      (use "3.prems" in \<open>auto simp: same_forest_descendants[OF f2]\<close>)
  then show ?case
    by (simp add: one two[unfolded kids] same_forest_subtrees[OF f2] put_ws_union Un_commute)
qed

lemma for_each_child_set_workspace:
  assumes "struct_ok s"
  shows "container_for_each_child c set_workspace s = put_ws (descendants s c) (c_workspace (cons s c)) s"
  unfolding container_for_each_child_def subtrees_children[OF assms, symmetric]
  using struct_okD(1)[OF assms] card_descendants_bound[OF assms]
  by (intro for_each_set_workspace[OF assms, of _ c]) auto

lemma subtree_workspace:
  assumes "tree_ok s" "d \<in> descendants s c" shows "c_workspace (cons s d) = c_workspace (cons s c)"
proof -
  have "(d, c) \<in> (parent_rel s)\<^sup>+" using assms(2) by (simp add: descendants_def)
  then show ?thesis
    by (induction rule: trancl_induct) (auto simp: parent_rel_def tree_okD(2)[OF assms(1)])
qed

section \<open>Unlinking and linking\<close>

lemma remove_id_remove1: "remove_id c xs = remove1 c xs"
proof (cases "c \<in> set xs")
  case True
  then obtain k where k: "index_of c xs = int k" "k < length xs" "xs ! k = c" "c \<notin> set (take k xs)"
    by (rule index_of_present)
  have "xs = take k xs @ c # drop (Suc k) xs" using k(2,3) by (metis id_take_nth_drop)
  then have "remove1 c xs = take k xs @ drop (Suc k) xs" using k(4) by (metis remove1_append remove1.simps(2))
  then show ?thesis by (simp add: remove_id_def k(1) delete_at_def)
next
  case False
  then show ?thesis by (simp add: remove_id_def index_of_absent remove1_idem)
qed

text \<open>A container without parent and workspace: nothing points at it from above.\<close>

definition unlinked :: "sway \<Rightarrow> id \<Rightarrow> bool" where
  "unlinked s c \<longleftrightarrow> c_parent (cons s c) = None \<and> c_workspace (cons s c) = None"

definition link_con :: "id \<Rightarrow> id option \<Rightarrow> id option \<Rightarrow> sway \<Rightarrow> sway" where
  "link_con c p W s = upd_con c (\<lambda>x. x\<lparr>c_parent := p, c_workspace := W\<rparr>) s"

lemma link_con_simps [simp]:
  "wss (link_con c p W s) = wss s" "next_id (link_con c p W s) = next_id s"
  "c_parent (cons (link_con c p W s) d) = (if d = c then p else c_parent (cons s d))"
  "c_workspace (cons (link_con c p W s) d) = (if d = c then W else c_workspace (cons s d))"
  "c_children (cons (link_con c p W s) d) = c_children (cons s d)"
  "c_view (cons (link_con c p W s) d) = c_view (cons s d)"
  by (simp_all add: link_con_def)

lemma link_con_roots [simp]: "roots (link_con c p W s) w = roots s w"
  by (simp add: roots_def)

lemma adopt_put:
  assumes "struct_ok (link_con c p W s)"
  shows "adopt c p W s = put_ws (insert c (descendants (link_con c p W s) c)) W (link_con c p W s)"
proof -
  have "adopt c p W s = put_ws (descendants (link_con c p W s) c) W (link_con c p W s)"
    unfolding adopt_def link_con_def[symmetric] for_each_child_set_workspace[OF assms] by simp
  also have "\<dots> = put_ws (insert c (descendants (link_con c p W s) c)) W (link_con c p W s)"
    by (simp add: put_ws_def link_con_def upd_con_def fun_eq_iff)
  finally show ?thesis .
qed

lemma trancl_minus_source:
  assumes "\<And>x y. (x, y) \<in> R \<longleftrightarrow> (x, y) \<in> Q \<and> x \<noteq> c" "acyclic Q"
  shows "(d, c) \<in> R\<^sup>+ \<longleftrightarrow> (d, c) \<in> Q\<^sup>+"
proof
  assume "(d, c) \<in> R\<^sup>+"
  then show "(d, c) \<in> Q\<^sup>+" by (rule trancl_mono) (use assms(1) in auto)
next
  have nc: "(c, c) \<notin> Q\<^sup>+" using assms(2) by (simp add: acyclic_def)
  assume "(d, c) \<in> Q\<^sup>+"
  then show "(d, c) \<in> R\<^sup>+"
  proof (induction rule: converse_trancl_induct)
    case (base d)
    then have "d \<noteq> c" using nc by blast
    then show ?case using base assms(1) by blast
  next
    case (step d e)
    then have "d \<noteq> c" using nc by (meson trancl_into_trancl2)
    then show ?case using step assms(1) by (meson trancl_into_trancl2)
  qed
qed

text \<open>
  The parent pointer of c is cleared or set: the descendants of c stay the same, whatever its parent.
\<close>

lemma descendants_relink:
  assumes "acyclic (parent_rel s)" "acyclic (parent_rel t)"
    and "\<And>d. d \<noteq> c \<Longrightarrow> c_parent (cons t d) = c_parent (cons s d)"
  shows "descendants t c = descendants s c"
proof -
  let ?R = "{(x, y). (x, y) \<in> parent_rel s \<and> x \<noteq> c}"
  have s: "(d, c) \<in> ?R\<^sup>+ \<longleftrightarrow> (d, c) \<in> (parent_rel s)\<^sup>+" for d
    by (rule trancl_minus_source[OF _ assms(1)]) simp
  have t: "(d, c) \<in> ?R\<^sup>+ \<longleftrightarrow> (d, c) \<in> (parent_rel t)\<^sup>+" for d
    by (rule trancl_minus_source[OF _ assms(2)]) (auto simp: parent_rel_def assms(3))
  show ?thesis by (simp add: descendants_def s[symmetric] t[symmetric])
qed

lemma descendants_parent:
  assumes "c_parent (cons s d) = Some p"
  shows "d \<in> descendants s c \<longleftrightarrow> p \<in> insert c (descendants s c)"
  by (auto simp: descendants_iff ancestors_step[OF assms])

lemma descendants_none: "c_parent (cons s d) = None \<Longrightarrow> d \<notin> descendants s c"
  by (simp add: descendants_iff ancestors_none)

definition take_out :: "id \<Rightarrow> sway \<Rightarrow> sway" where
  "take_out c s = (case container_get_siblings s c of None \<Rightarrow> s | Some r \<Rightarrow> upd_list r (remove_id c) s)"

lemma take_out_lists:
  assumes "tree_ok s"
  shows "c_children (cons (take_out c s) p) = remove1 c (c_children (cons s p))"
    and "w_tiling (wss (take_out c s) w) = remove1 c (w_tiling (wss s w))"
    and "w_floating (wss (take_out c s) w) = remove1 c (w_floating (wss s w))"
proof -
  note ok = tree_okD[OF assms] and ch = struct_okD(1)[OF tree_okD(1)[OF assms]]
  have out: "remove1 c (c_children (cons s q)) = c_children (cons s q)" if "c_parent (cons s c) \<noteq> Some q" for q
    using that ch[of c q] by (simp add: remove1_idem)
  have off: "remove1 c (w_tiling (wss s v)) = w_tiling (wss s v) \<and> remove1 c (w_floating (wss s v)) = w_floating (wss s v)"
    if "c_parent (cons s c) \<noteq> None \<or> c_workspace (cons s c) \<noteq> Some v" for v
  proof -
    have "c \<notin> set (roots s v)" using that ok(4)[of c v] ok(5)[of c v] by auto
    then show ?thesis by (simp add: remove1_idem roots_def)
  qed
  have one: "w_tiling (wss s v) = remove1 c (w_tiling (wss s v)) \<or> w_floating (wss s v) = remove1 c (w_floating (wss s v))" for v
    using ok(3)[of v] by (metis disjoint_iff distinct_append remove1_idem roots_def)
  have fl: "remove1 c (w_floating (wss s v)) = w_floating (wss s v)" if "c \<in> set (w_tiling (wss s v))" for v
    using ok(3)[of v] that by (auto simp: roots_def intro!: remove1_idem)
  note defs = take_out_def container_get_siblings_def upd_list_def remove_id_remove1 index_of_absent
  show "c_children (cons (take_out c s) p) = remove1 c (c_children (cons s p))"
    using out[of p] by (auto simp: defs split: option.split)
  show "w_tiling (wss (take_out c s) w) = remove1 c (w_tiling (wss s w))"
    using off[of w] by (auto simp: defs remove1_idem split: option.split)
  show "w_floating (wss (take_out c s) w) = remove1 c (w_floating (wss s w))"
    using off[of w] fl[of w] by (auto simp: defs split: option.split)
qed

lemma take_out_simps [simp]:
  "next_id (take_out c s) = next_id s" "c_parent (cons (take_out c s) d) = c_parent (cons s d)"
  "c_workspace (cons (take_out c s) d) = c_workspace (cons s d)"
  "c_view (cons (take_out c s) d) = c_view (cons s d)"
  "w_fullscreen (wss (take_out c s) w) = w_fullscreen (wss s w)"
  by (auto simp: take_out_def upd_list_def split: option.split list_ref.split)

lemma drop_pointers_simps [simp]:
  "next_id (drop_fullscreen_pointers c s) = next_id s" "cons (drop_fullscreen_pointers c s) = cons s"
  "w_tiling (wss (drop_fullscreen_pointers c s) w) = w_tiling (wss s w)"
  "w_floating (wss (drop_fullscreen_pointers c s) w) = w_floating (wss s w)"
  by (auto simp: drop_fullscreen_pointers_def Let_def split: option.split)

lemma drop_pointers_keeps: "keeps s (drop_fullscreen_pointers c s)"
  by (rule same_tree_keeps)
    (auto simp: same_tree_def drop_fullscreen_pointers_def Let_def split: option.split)

lemma drop_pointers_fullscreen:
  assumes "tree_ok s" "w_fullscreen (wss (drop_fullscreen_pointers c s) w) = Some f"
  shows "f \<noteq> c \<and> f \<notin> descendants s c \<and> w_fullscreen (wss s w) = Some f"
proof -
  have f: "w_fullscreen (wss s w) = Some f" and
    h: "c_workspace (cons s c) = Some w \<Longrightarrow> f \<noteq> c \<and> \<not> container_has_ancestor s f c"
    using assms(2) by (auto simp: drop_fullscreen_pointers_def Let_def split: option.splits if_splits)
  have "c_workspace (cons s f) = Some w" by (rule tree_okD(6)[OF assms(1) f])
  then show ?thesis
    using h f subtree_workspace[OF assms(1), of f c] container_has_ancestor_iff[OF tree_okD(1)[OF assms(1)], of f c]
    by (auto simp: descendants_iff)
qed

text \<open>Detaching up to representations and dirty marks, and what it leaves.\<close>

definition detach_core :: "id \<Rightarrow> sway \<Rightarrow> sway" where
  "detach_core c s = adopt c None None (take_out c (drop_fullscreen_pointers c s))"

lemma detach_core_shape: "same_shape (detach_core c s) (container_detach c s)"
  unfolding container_detach_def detach_core_def take_out_def Let_def
  by (intro same_shape_dirty_after)
    (auto split: option.split intro!: same_shape_dirty_after update_representation_shape
      update_workspace_representation_shape same_shape_refl)

lemma set_roots_take_out:
  assumes "tree_ok s" shows "set (roots (take_out c s) w) = set (roots s w) - {c}"
proof -
  have "distinct (w_tiling (wss s w))" "distinct (w_floating (wss s w))"
    using tree_okD(3)[OF assms, of w] by (simp_all add: roots_def)
  then show ?thesis by (auto simp: take_out_lists[OF assms] roots_def)
qed

lemma unlink_struct:
  assumes "tree_ok s"
  shows "struct_ok (link_con c None None (take_out c s))"
    and "descendants (link_con c None None (take_out c s)) c = descendants s c"
proof -
  let ?u = "link_con c None None (take_out c s)"
  note st = struct_okD[OF tree_okD(1)[OF assms]]
  have sub: "parent_rel ?u \<subseteq> parent_rel s" by (auto simp: parent_rel_def split: if_splits)
  then have ac: "acyclic (parent_rel ?u)" by (rule acyclic_subset[OF st(4)])
  have ch: "c_children (cons ?u p) = remove1 c (c_children (cons s p))" for p
    by (simp add: take_out_lists[OF assms])
  have in_ch: "d \<in> set (c_children (cons ?u p)) \<longleftrightarrow> c_parent (cons ?u d) = Some p" for d p
    unfolding ch set_remove1_eq[OF st(2)] using st(1)[of d p] by simp
  have dist: "distinct (c_children (cons ?u p))" for p unfolding ch by (rule distinct_remove1[OF st(2)])
  have bnd: "d < next_id ?u \<and> p < next_id ?u" if "c_parent (cons ?u d) = Some p" for d p
    using that st(3)[of d p] by (simp split: if_splits)
  have vw: "c_children (cons ?u d) = []" if "c_view (cons ?u d) \<noteq> None" for d
    using that st(5)[of d] unfolding ch by simp
  show "struct_ok ?u" unfolding struct_ok_def using in_ch dist bnd ac vw by blast
  show "descendants ?u c = descendants s c" by (rule descendants_relink[OF st(4) ac]) simp
qed

lemma detach_core_put:
  assumes "tree_ok s"
  shows "detach_core c s = put_ws (insert c (descendants s c)) None
           (link_con c None None (take_out c (drop_fullscreen_pointers c s)))"
proof -
  have ok: "tree_ok (drop_fullscreen_pointers c s)" by (rule keepsD[OF drop_pointers_keeps assms])
  have "descendants (drop_fullscreen_pointers c s) c = descendants s c"
    by (simp add: descendants_def parent_rel_def)
  then show ?thesis
    unfolding detach_core_def adopt_put[OF unlink_struct(1)[OF ok]] unlink_struct(2)[OF ok] by simp
qed

lemma detach_core_ok:
  assumes ok: "tree_ok s" shows "tree_ok (detach_core c s)"
proof -
  let ?t = "drop_fullscreen_pointers c s" and ?D = "insert c (descendants s c)"
  let ?u = "link_con c None None (take_out c ?t)"
  have okt: "tree_ok ?t" by (rule keepsD[OF drop_pointers_keeps ok])
  have roots: "set (roots ?u w) = set (roots s w) - {c}" for w
    using set_roots_take_out[OF okt, of c w] by (simp add: roots_def)
  have dist: "distinct (roots ?u w)" for w
  proof -
    have "distinct (w_tiling (wss s w) @ w_floating (wss s w))" using tree_okD(3)[OF ok, of w] by (simp add: roots_def)
    then show ?thesis by (auto simp: roots_def take_out_lists[OF okt])
  qed
  show ?thesis unfolding detach_core_put[OF ok]
  proof (rule tree_okI)
    show "struct_ok (put_ws ?D None ?u)"
      by (rule same_forest_struct[OF put_ws_forest unlink_struct(1)[OF okt]])
  next
    fix d p assume "c_parent (cons (put_ws ?D None ?u) d) = Some p"
    then have "d \<noteq> c" "c_parent (cons s d) = Some p" by (auto split: if_splits)
    then show "c_workspace (cons (put_ws ?D None ?u) d) = c_workspace (cons (put_ws ?D None ?u) p)"
      using tree_okD(2)[OF ok] descendants_parent[of s d p c] by auto
  next
    fix w show "distinct (roots (put_ws ?D None ?u) w)" using dist by simp
  next
    fix w d assume "d \<in> set (roots (put_ws ?D None ?u) w)"
    then have d: "d \<noteq> c" "d \<in> set (roots s w)" using roots by auto
    show "c_parent (cons (put_ws ?D None ?u) d) = None" using tree_okD(4)[OF ok d(2)] by simp
    show "c_workspace (cons (put_ws ?D None ?u) d) = Some w"
      using d tree_okD(4,5)[OF ok d(2)] descendants_none[of s d c] by simp
  next
    fix w f assume "w_fullscreen (wss (put_ws ?D None ?u) w) = Some f"
    then have "f \<notin> ?D" "w_fullscreen (wss s w) = Some f" using drop_pointers_fullscreen[OF ok, of c w f] by auto
    then show "c_workspace (cons (put_ws ?D None ?u) f) = Some w" using tree_okD(6)[OF ok] by simp
  next
    fix d w assume "c_workspace (cons (put_ws ?D None ?u) d) = Some w"
    then show "d < next_id (put_ws ?D None ?u)" using tree_okD(7)[OF ok, of d w] by (simp split: if_splits)
  qed
qed

lemma detach_ok: "tree_ok s \<Longrightarrow> tree_ok (container_detach c s)"
  by (rule keepsD[OF same_shape_keeps[OF detach_core_shape] detach_core_ok])

lemma detach_core_effect:
  assumes "tree_ok s"
  shows "c_parent (cons (detach_core c s) d) = (if d = c then None else c_parent (cons s d))"
    and "c_children (cons (detach_core c s) d) = remove1 c (c_children (cons s d))"
    and "c_workspace (cons (detach_core c s) d)
          = (if d = c \<or> d \<in> descendants s c then None else c_workspace (cons s d))"
    and "w_tiling (wss (detach_core c s) w) = remove1 c (w_tiling (wss s w))"
    and "w_floating (wss (detach_core c s) w) = remove1 c (w_floating (wss s w))"
    and "c_view (cons (detach_core c s) d) = c_view (cons s d)"
    and "next_id (detach_core c s) = next_id s"
  using take_out_lists[OF keepsD[OF drop_pointers_keeps assms], of c]
  by (simp_all add: detach_core_put[OF assms])

lemmas detach_fields = same_shape_con[OF detach_core_shape] same_shape_ws[OF detach_core_shape]
  same_shape_rest[OF detach_core_shape]

lemma upd_list_simps [simp]:
  "next_id (upd_list r f s) = next_id s" "c_parent (cons (upd_list r f s) d) = c_parent (cons s d)"
  "c_workspace (cons (upd_list r f s) d) = c_workspace (cons s d)"
  "c_view (cons (upd_list r f s) d) = c_view (cons s d)"
  "w_fullscreen (wss (upd_list r f s) w) = w_fullscreen (wss s w)"
  by (auto simp: upd_list_def split: list_ref.split)

lemma roots_upd_children [simp]: "roots (upd_list (Children_of p) f s) w = roots s w"
  by (simp add: roots_def upd_list_def)

definition inserts :: "(id list \<Rightarrow> id list) \<Rightarrow> id \<Rightarrow> bool" where
  "inserts f c \<longleftrightarrow> (\<forall>xs. \<exists>i. f xs = insert_at i c xs)"

lemma inserts_insert_at: "inserts (insert_at i c) c"
  by (auto simp: inserts_def)

lemma inserts_append: "inserts (\<lambda>xs. xs @ [c]) c"
  unfolding inserts_def
proof
  fix xs show "\<exists>i. xs @ [c] = insert_at i c xs" by (rule exI[of _ "length xs"]) (simp add: insert_at_def)
qed

lemma insertsD:
  assumes "inserts f c"
  shows "set (f xs) = insert c (set xs)" "distinct (f xs) \<longleftrightarrow> c \<notin> set xs \<and> distinct xs"
proof -
  obtain i where i: "f xs = insert_at i c xs" using assms by (auto simp: inserts_def)
  show "set (f xs) = insert c (set xs)" by (simp add: i)
  show "distinct (f xs) \<longleftrightarrow> c \<notin> set xs \<and> distinct xs" by (simp add: i)
qed

lemma inserts_others: "inserts f c \<Longrightarrow> others {c} (f xs) = others {c} xs"
  by (metis inserts_def others_insert_at)

lemma unlinked_subtree:
  assumes "tree_ok s" "unlinked s c" "d \<in> insert c (descendants s c)"
  shows "c_workspace (cons s d) = None"
  using assms subtree_workspace[OF assms(1), of d c] by (auto simp: unlinked_def)

lemma unlinked_not_root: "tree_ok s \<Longrightarrow> unlinked s c \<Longrightarrow> c \<notin> set (roots s w)"
  using tree_okD(5)[of s c w] by (auto simp: unlinked_def)

lemma link_child_struct:
  assumes ok: "struct_ok s" and par: "c_parent (cons s c) = None" and bounds: "c < next_id s" "p < next_id s"
    and above: "p \<notin> insert c (descendants s c)" and nv: "c_view (cons s p) = None" and f: "inserts f c"
  shows "struct_ok (link_con c (Some p) W (upd_list (Children_of p) f s))"
    and "descendants (link_con c (Some p) W (upd_list (Children_of p) f s)) c = descendants s c"
proof -
  let ?u = "link_con c (Some p) W (upd_list (Children_of p) f s)"
  note st = struct_okD[OF ok]
  have ch: "c_children (cons ?u q) = (if q = p then f (c_children (cons s p)) else c_children (cons s q))" for q
    by (simp add: upd_list_def)
  have pa: "c_parent (cons ?u d) = (if d = c then Some p else c_parent (cons s d))" for d
    by (simp add: upd_list_def)
  have rel: "parent_rel ?u = insert (c, p) (parent_rel s)" using par by (auto simp: parent_rel_def split: if_splits)
  have "(p, c) \<notin> (parent_rel s)\<^sup>*" using above by (auto simp: descendants_def rtrancl_eq_or_trancl)
  then have ac: "acyclic (parent_rel ?u)" unfolding rel using st(4) by simp
  have nc: "c \<notin> set (c_children (cons s q))" for q using st(1)[of c q] par by simp
  have in_ch: "d \<in> set (c_children (cons ?u q)) \<longleftrightarrow> c_parent (cons ?u d) = Some q" for d q
    unfolding ch pa using insertsD(1)[OF f] st(1)[of d q] nc[of q] by auto
  have dist: "distinct (c_children (cons ?u q))" for q
    unfolding ch using insertsD(2)[OF f] st(2) nc by simp
  have bnd: "d < next_id ?u \<and> q < next_id ?u" if "c_parent (cons ?u d) = Some q" for d q
    using that st(3)[of d q] bounds unfolding pa by (simp add: upd_list_def split: if_splits)
  have vw: "c_children (cons ?u d) = []" if "c_view (cons ?u d) \<noteq> None" for d
    using that st(5)[of d] nv by (auto simp: upd_list_def split: if_splits)
  show "struct_ok ?u" unfolding struct_ok_def using in_ch dist bnd ac vw by blast
  show "descendants ?u c = descendants s c" by (rule descendants_relink[OF st(4) ac]) (simp add: upd_list_def)
qed

lemma link_child_put:
  assumes "struct_ok s" "c_parent (cons s c) = None" "c < next_id s" "p < next_id s"
    and "p \<notin> insert c (descendants s c)" "c_view (cons s p) = None" "inserts f c"
  shows "adopt c (Some p) W (upd_list (Children_of p) f s)
    = put_ws (insert c (descendants s c)) W (link_con c (Some p) W (upd_list (Children_of p) f s))"
  unfolding adopt_put[OF link_child_struct(1)[OF assms]] link_child_struct(2)[OF assms] ..

lemma link_child_ok:
  assumes ok: "tree_ok s" and un: "unlinked s c" and bounds: "c < next_id s" "p < next_id s"
    and above: "p \<notin> insert c (descendants s c)" and nv: "c_view (cons s p) = None" and f: "inserts f c"
  shows "tree_ok (adopt c (Some p) (c_workspace (cons s p)) (upd_list (Children_of p) f s))"
proof -
  let ?D = "insert c (descendants s c)" and ?W = "c_workspace (cons s p)"
  let ?u = "link_con c (Some p) ?W (upd_list (Children_of p) f s)" and ?v = "put_ws ?D ?W"
  have par: "c_parent (cons s c) = None" using un by (simp add: unlinked_def)
  note pre = tree_okD(1)[OF ok] par bounds above nv f
  have r: "roots ?u w = roots s w" for w by (simp add: roots_def upd_list_def)
  have ws: "c_workspace (cons (?v ?u) d) = (if d \<in> ?D then ?W else c_workspace (cons s d))" for d
    by (simp add: upd_list_def)
  have pa: "c_parent (cons (?v ?u) d) = (if d = c then Some p else c_parent (cons s d))" for d
    by (simp add: upd_list_def)
  have nx: "next_id (?v ?u) = next_id s" by (simp add: upd_list_def)
  show ?thesis unfolding link_child_put[OF pre]
  proof (rule tree_okI)
    show "struct_ok (?v ?u)" by (rule same_forest_struct[OF put_ws_forest link_child_struct(1)[OF pre]])
  next
    fix d q assume d: "c_parent (cons (?v ?u) d) = Some q"
    show "c_workspace (cons (?v ?u) d) = c_workspace (cons (?v ?u) q)"
    proof (cases "d = c")
      case True
      then show ?thesis using d above unfolding pa ws by simp
    next
      case False
      then have q: "c_parent (cons s d) = Some q" using d by simp
      show ?thesis unfolding ws using False descendants_parent[OF q, of c] tree_okD(2)[OF ok q] by simp
    qed
  next
    fix w show "distinct (roots (?v ?u) w)" using tree_okD(3)[OF ok] by (simp add: r)
  next
    fix w d assume "d \<in> set (roots (?v ?u) w)"
    then have d: "d \<in> set (roots s w)" by (simp add: r)
    then have "d \<noteq> c" using unlinked_not_root[OF ok un] by blast
    then show "c_parent (cons (?v ?u) d) = None" "c_workspace (cons (?v ?u) d) = Some w"
      unfolding pa ws using tree_okD(4,5)[OF ok d] descendants_none[of s d c] by simp_all
  next
    fix w g assume "w_fullscreen (wss (?v ?u) w) = Some g"
    then have g: "c_workspace (cons s g) = Some w" using tree_okD(6)[OF ok, of w g] by (simp add: upd_list_def)
    then show "c_workspace (cons (?v ?u) g) = Some w"
      unfolding ws using unlinked_subtree[OF ok un, of g] by auto
  next
    fix d w assume d: "c_workspace (cons (?v ?u) d) = Some w"
    show "d < next_id (?v ?u)" unfolding nx
    proof (cases "d \<in> ?D")
      case True
      then show "d < next_id s" using bounds(1) descendants_bound[OF pre(1), of c] by auto
    next
      case False
      then show "d < next_id s" using d tree_okD(7)[OF ok, of d w] unfolding ws by simp
    qed
  qed
qed

text \<open>A top level container of no workspace, or of the workspace w but in neither list of it.\<close>

definition loose :: "sway \<Rightarrow> id \<Rightarrow> id \<Rightarrow> bool" where
  "loose s w c \<longleftrightarrow> c_parent (cons s c) = None \<and> c \<notin> set (roots s w)
     \<and> (c_workspace (cons s c) = None \<or> c_workspace (cons s c) = Some w)"

lemma unlinked_loose: "tree_ok s \<Longrightarrow> unlinked s c \<Longrightarrow> loose s w c"
  using unlinked_not_root by (auto simp: loose_def unlinked_def)

lemma link_root_struct:
  assumes ok: "struct_ok s" and par: "c_parent (cons s c) = None" and r: "r = Tiling_of w \<or> r = Floating_of w"
  shows "same_forest s (link_con c None W (upd_list r f s))"
    and "descendants (link_con c None W (upd_list r f s)) c = descendants s c"
proof -
  show sf: "same_forest s (link_con c None W (upd_list r f s))"
    using par r by (auto simp: same_forest_def upd_list_def)
  show "descendants (link_con c None W (upd_list r f s)) c = descendants s c"
    by (rule same_forest_descendants[OF sf])
qed

lemma link_root_put:
  assumes "struct_ok s" "c_parent (cons s c) = None" "r = Tiling_of w \<or> r = Floating_of w"
  shows "adopt c None W (upd_list r f s)
    = put_ws (insert c (descendants s c)) W (link_con c None W (upd_list r f s))"
  using adopt_put[OF same_forest_struct[OF link_root_struct(1)[OF assms] assms(1)]]
  by (simp only: link_root_struct(2)[OF assms])

lemma link_root_ok:
  assumes ok: "tree_ok s" and lo: "loose s w c" and bound: "c < next_id s"
    and r: "r = Tiling_of w \<or> r = Floating_of w" and f: "inserts f c"
  shows "tree_ok (adopt c None (Some w) (upd_list r f s))"
proof -
  let ?D = "insert c (descendants s c)"
  let ?v = "put_ws ?D (Some w) (link_con c None (Some w) (upd_list r f s))"
  have par: "c_parent (cons s c) = None" and nr: "c \<notin> set (roots s w)" using lo by (auto simp: loose_def)
  note pre = tree_okD(1)[OF ok] par r
  have ros: "set (roots ?v v) = (if v = w then insert c (set (roots s w)) else set (roots s v))" for v
    using r by (auto simp: roots_def upd_list_def insertsD(1)[OF f])
  have dis: "distinct (roots ?v v)" for v
    using r tree_okD(3)[OF ok, of v] nr by (auto simp: roots_def upd_list_def insertsD[OF f] split: if_splits)
  have ws: "c_workspace (cons ?v d) = (if d \<in> ?D then Some w else c_workspace (cons s d))" for d by simp
  have pa: "c_parent (cons ?v d) = c_parent (cons s d)" for d using par by simp
  have sub: "c_workspace (cons s d) = None \<or> c_workspace (cons s d) = Some w" if "d \<in> ?D" for d
    using lo that subtree_workspace[OF ok, of d c] unfolding loose_def by auto
  show ?thesis unfolding link_root_put[OF pre]
  proof (rule tree_okI)
    show "struct_ok ?v"
      by (rule same_forest_struct[OF put_ws_forest same_forest_struct[OF link_root_struct(1)[OF pre] pre(1)]])
  next
    fix d q assume "c_parent (cons ?v d) = Some q"
    then have q: "c_parent (cons s d) = Some q" by (simp only: pa)
    then have "d \<noteq> c" using par by auto
    then show "c_workspace (cons ?v d) = c_workspace (cons ?v q)"
      unfolding ws using descendants_parent[OF q, of c] tree_okD(2)[OF ok q] by simp
  next
    fix v show "distinct (roots ?v v)" by (rule dis)
  next
    fix v d assume "d \<in> set (roots ?v v)"
    then have d: "d = c \<and> v = w \<or> d \<noteq> c \<and> d \<in> set (roots s v)"
      unfolding ros using nr lo tree_okD(5)[OF ok, of c v] by (auto simp: loose_def split: if_splits)
    then show "c_parent (cons ?v d) = None"
      unfolding pa using par tree_okD(4)[OF ok, of d v] by auto
    show "c_workspace (cons ?v d) = Some v"
      using d descendants_none[OF tree_okD(4)[OF ok], of d v c] tree_okD(5)[OF ok, of d v] unfolding ws by auto
  next
    fix v g assume "w_fullscreen (wss ?v v) = Some g"
    then have g: "c_workspace (cons s g) = Some v" using tree_okD(6)[OF ok, of v g] by simp
    then show "c_workspace (cons ?v g) = Some v" unfolding ws using sub[of g] by auto
  next
    fix d v assume d: "c_workspace (cons ?v d) = Some v"
    show "d < next_id ?v"
    proof (cases "d \<in> ?D")
      case True
      then show ?thesis using bound descendants_bound[OF pre(1), of c] by auto
    next
      case False
      then show ?thesis using d tree_okD(7)[OF ok, of d v] by simp
    qed
  qed
qed

section \<open>One container changes its parent\<close>

definition reparented :: "sway \<Rightarrow> id \<Rightarrow> id option \<Rightarrow> sway \<Rightarrow> bool" where
  "reparented s c P s' \<longleftrightarrow> next_id s' = next_id s
     \<and> (\<forall>d. c_parent (cons s' d) = (if d = c then P else c_parent (cons s d)))
     \<and> (\<forall>d. (c_view (cons s' d) = None) = (c_view (cons s d) = None))"

lemma reparentedD:
  assumes "reparented s c P s'"
  shows "next_id s' = next_id s" "c_parent (cons s' d) = (if d = c then P else c_parent (cons s d))"
    "(c_view (cons s' d) = None) = (c_view (cons s d) = None)"
  using assms by (simp_all add: reparented_def)

lemma reparented_trans: "reparented s c P t \<Longrightarrow> reparented t c Q u \<Longrightarrow> reparented s c Q u"
  by (simp add: reparented_def)

lemma reparented_forest: "reparented s c P t \<Longrightarrow> same_forest t u \<Longrightarrow> reparented s c P u"
  by (simp add: reparented_def same_forest_def)

lemma reparented_descendants:
  "reparented s c P t \<Longrightarrow> struct_ok s \<Longrightarrow> struct_ok t \<Longrightarrow> descendants t c = descendants s c"
  by (rule descendants_relink) (auto simp: struct_okD reparentedD)

text \<open>The invariant holds afterwards, and one container has changed its parent.\<close>

definition moves :: "sway \<Rightarrow> id \<Rightarrow> id option \<Rightarrow> sway \<Rightarrow> bool" where
  "moves s c P s' \<longleftrightarrow> tree_ok s' \<and> reparented s c P s' \<and> same_strays {c} s s'"

lemma moves_keeps: "moves s c P t \<Longrightarrow> keeps t u \<Longrightarrow> moves s c P u"
  using same_strays_mono[of "{}" t u "{c}"]
  by (auto simp: moves_def keeps_but_def intro: reparented_forest same_strays_trans)

lemma moves_trans: "moves s c P t \<Longrightarrow> (tree_ok t \<Longrightarrow> moves t c Q u) \<Longrightarrow> moves s c Q u"
  by (auto simp: moves_def intro: reparented_trans same_strays_trans)

lemma movesD: "moves s c P t \<Longrightarrow> tree_ok t" "moves s c P t \<Longrightarrow> reparented s c P t"
  by (simp_all add: moves_def)

lemma moves_stray: "moves s c P t \<Longrightarrow> stray s d \<Longrightarrow> d \<noteq> c \<Longrightarrow>
  stray t d \<and> c_workspace (cons t d) = c_workspace (cons s d)"
  by (simp add: moves_def same_strays_def)

lemma moves_tiling: "moves s c P t \<Longrightarrow> others {c} (w_tiling (wss t w)) = others {c} (w_tiling (wss s w))"
  by (simp add: moves_def same_strays_def)

lemma keeps_moves:
  "keeps_but {c} s t \<Longrightarrow> tree_ok s \<Longrightarrow> c_parent (cons s c) = P \<Longrightarrow> moves s c P t"
  by (auto simp: moves_def keeps_but_def same_forest_def reparented_def)

lemma keeps_moves_trans: "keeps s t \<Longrightarrow> tree_ok s \<Longrightarrow> moves t c P u \<Longrightarrow> moves s c P u"
  using same_strays_mono[of "{}" s t "{c}"]
  by (auto simp: moves_def keeps_but_def same_forest_def reparented_def intro: same_strays_trans)

lemma detach_strays: "tree_ok s \<Longrightarrow> same_strays {c} s (container_detach c s)"
  by (auto simp: same_strays_def stray_def roots_def detach_fields detach_core_effect descendants_none)

lemma detach_moves:
  assumes "tree_ok s" shows "moves s c None (container_detach c s)"
  unfolding moves_def reparented_def
  using detach_ok[OF assms] detach_strays[OF assms] by (simp add: detach_fields detach_core_effect[OF assms])

lemma detach_unlinked: "tree_ok s \<Longrightarrow> unlinked (container_detach c s) c"
  by (simp add: unlinked_def detach_fields detach_core_effect)

text \<open>
  The functions that insert detach a container only when it has a workspace: one without a workspace
  must have no parent either.
\<close>

definition attachable :: "sway \<Rightarrow> id \<Rightarrow> bool" where
  "attachable s c \<longleftrightarrow> c < next_id s \<and> (c_workspace (cons s c) = None \<longrightarrow> c_parent (cons s c) = None)"

lemma detach_attached_moves:
  assumes "tree_ok s" "attachable s c"
  shows "moves s c None (detach_attached c s)" and "unlinked (detach_attached c s) c"
proof -
  show "moves s c None (detach_attached c s)"
    using assms detach_moves[OF assms(1), of c] keeps_moves[OF keeps_refl assms(1), of c]
    by (auto simp: detach_attached_def attachable_def)
  show "unlinked (detach_attached c s) c"
    using assms detach_unlinked by (auto simp: detach_attached_def attachable_def unlinked_def)
qed

text \<open>Where a container may go: below a container that holds no view and is not below it.\<close>

definition can_hold :: "sway \<Rightarrow> id \<Rightarrow> id \<Rightarrow> bool" where
  "can_hold s p c \<longleftrightarrow> p < next_id s \<and> p \<notin> insert c (descendants s c) \<and> c_view (cons s p) = None"

lemma can_hold_moves:
  assumes "can_hold s p c" "moves s c P t" "tree_ok s" shows "can_hold t p c"
  using assms reparentedD[OF movesD(2)[OF assms(2)]]
    reparented_descendants[OF movesD(2)[OF assms(2)] tree_okD(1)[OF assms(3)] tree_okD(1)[OF movesD(1)[OF assms(2)]]]
  by (simp add: can_hold_def)

lemma link_child_moves:
  assumes "tree_ok s" "unlinked s c" "c < next_id s" "can_hold s p c" "inserts f c"
  shows "moves s c (Some p) (adopt c (Some p) (c_workspace (cons s p)) (upd_list (Children_of p) f s))"
proof -
  have h: "c_parent (cons s c) = None" "p < next_id s" "p \<notin> insert c (descendants s c)" "c_view (cons s p) = None"
    using assms(2,4) by (auto simp: can_hold_def unlinked_def)
  note put = link_child_put[OF tree_okD(1)[OF assms(1)] h(1) assms(3) h(2-4) assms(5)]
  show ?thesis
    using link_child_ok[OF assms(1-3) h(2-4) assms(5)] unfolding moves_def put
    by (simp add: reparented_def same_strays_def stray_def roots_def descendants_none) (simp add: upd_list_def)
qed

lemma link_root_moves:
  assumes "tree_ok s" "loose s w c" "c < next_id s" "r = Tiling_of w \<or> r = Floating_of w" "inserts f c"
  shows "moves s c None (adopt c None (Some w) (upd_list r f s))"
proof -
  have par: "c_parent (cons s c) = None" using assms(2) by (simp add: loose_def)
  note put = link_root_put[OF tree_okD(1)[OF assms(1)] par assms(4)]
  have "set (roots (upd_list r f s) v) \<subseteq> insert c (set (roots s v))" for v
    using assms(4) insertsD(1)[OF assms(5)] by (auto simp: roots_def upd_list_def split: if_splits)
  moreover have "others {c} (w_tiling (wss (upd_list r f s) v)) = others {c} (w_tiling (wss s v))" for v
    using assms(4) inserts_others[OF assms(5)] by (auto simp: upd_list_def)
  ultimately show ?thesis
    using link_root_ok[OF assms] unfolding moves_def put
    by (auto simp: reparented_def same_strays_def stray_def descendants_none par link_con_roots)
qed

lemma detach_attached_next:
  "tree_ok s \<Longrightarrow> attachable s c \<Longrightarrow> c < next_id (detach_attached c s)"
  using reparentedD(1)[OF movesD(2)[OF detach_attached_moves(1)]] by (simp add: attachable_def)

lemma attach_child_moves:
  assumes "tree_ok s" "attachable s c" "can_hold s p c" "inserts f c"
  shows "moves s c (Some p) (adopt c (Some p) (c_workspace (cons (detach_attached c s) p))
           (upd_list (Children_of p) f (detach_attached c s)))"
proof -
  note d = detach_attached_moves[OF assms(1,2)]
  show ?thesis
    by (rule moves_trans[OF d(1) link_child_moves[OF movesD(1)[OF d(1)] d(2) detach_attached_next[OF assms(1,2)]
          can_hold_moves[OF assms(3) d(1) assms(1)] assms(4)]])
qed

lemma attach_root_moves:
  assumes "tree_ok s" "attachable s c" "r = Tiling_of w \<or> r = Floating_of w" "inserts f c"
  shows "moves s c None (adopt c None (Some w) (upd_list r f (detach_attached c s)))"
proof -
  note d = detach_attached_moves[OF assms(1,2)]
  show ?thesis
    by (rule moves_trans[OF d(1) link_root_moves[OF movesD(1)[OF d(1)] unlinked_loose[OF movesD(1)[OF d(1)] d(2)]
          detach_attached_next[OF assms(1,2)] assms(3,4)]])
qed

lemma unpark_fields [simp]:
  "next_id (unpark c s) = next_id s" "c_parent (cons (unpark c s) d) = c_parent (cons s d)"
  "c_children (cons (unpark c s) d) = c_children (cons s d)"
  "c_workspace (cons (unpark c s) d) = c_workspace (cons s d)" "c_view (cons (unpark c s) d) = c_view (cons s d)"
  "w_tiling (wss (unpark c s) w) = w_tiling (wss s w)" "w_floating (wss (unpark c s) w) = w_floating (wss s w)"
  "w_fullscreen (wss (unpark c s) w) = w_fullscreen (wss s w)"
  by (auto simp: unpark_def workspace_minimized_remove_def Let_def split: option.split)

lemma unpark_keeps: "keeps s (unpark c s)"
  by (rule same_tree_keeps) (simp add: same_tree_def)

text \<open>A container outside the subtree that moves keeps its parent and its workspace.\<close>

lemma detach_attached_outside:
  assumes "tree_ok s" "d \<notin> insert c (descendants s c)"
  shows "c_parent (cons (detach_attached c s) d) = c_parent (cons s d)"
    and "c_workspace (cons (detach_attached c s) d) = c_workspace (cons s d)"
  using assms(2) by (auto simp: detach_attached_def detach_fields detach_core_effect[OF assms(1)])

section \<open>Focus moves that keep the tree\<close>

text \<open>
  What the functions below need from the function that moves the focus: it keeps the invariant and
  does not change who is whose child.
\<close>

locale refocusing =
  fixes E :: env
  assumes refocus_keeps: "keeps s (e_refocus E k n s)"
begin

lemmas refocus_after = keeps_trans[OF _ refocus_keeps]

lemma leave_scratchpad_focus_keeps: "keeps s (leave_scratchpad_focus E c s)"
  unfolding leave_scratchpad_focus_def
  by (rule keeps_each_seat) (auto split: option.split intro!: keeps_refl refocus_keeps)

lemma clear_pointer_keeps: "keeps s (clear_fullscreen_pointer E c s)"
  unfolding clear_fullscreen_pointer_def Let_def
  by (auto split: option.split intro!: keeps shape_keeps[OF _ move_to_center_shape] keeps_upd_ws)

lemma fullscreen_disable_keeps: "keeps s (container_fullscreen_disable E c s)"
proof -
  have a: "keeps s (if b then upd_con c restore_saved s else s)" for b
    by (auto intro!: keeps_refl keeps_upd_con simp: restore_saved_def)
  have d: "keeps t (if b then container_floating_resize_and_center l o' c t else t)" for b l o' t
    by (auto intro!: keeps_refl same_shape_keeps resize_and_center_shape)
  have e: "keeps t (upd_con c (\<lambda>x. x\<lparr>c_fullscreen := FULLSCREEN_NONE\<rparr>) t)" for t
    by (rule keeps_upd_con) simp
  have f: "keeps t (if b then leave_scratchpad_focus E c t else t)" for b t
    by (simp add: leave_scratchpad_focus_keeps keeps_refl)
  show ?thesis unfolding container_fullscreen_disable_def Let_def
    by (rule keeps_if, rule keeps_refl)
      (rule keeps_trans[OF keeps_trans[OF keeps_trans[OF keeps_trans[OF keeps_trans[OF
        a clear_pointer_keeps] d] e] keeps_emit] f])
qed

lemmas fullscreen_disable_after = keeps_trans[OF _ fullscreen_disable_keeps]

lemma disable_if_keeps: "keeps s (disable_if E fs s)"
  unfolding disable_if_def by (auto split: option.split intro!: keeps_refl fullscreen_disable_keeps)

lemmas disable_if_after = keeps_trans[OF _ disable_if_keeps]

lemma fullscreen_workspace_keeps: "keeps s (container_fullscreen_workspace E c s)"
proof -
  let ?t = "upd_con c (\<lambda>x. (save_geometry x)\<lparr>c_fullscreen := FULLSCREEN_WORKSPACE\<rparr>) s"
  have t: "keeps s ?t" by (rule keeps_upd_con) (simp add: save_geometry_def)
  have p: "keeps s (upd_ws w (\<lambda>x. x\<lparr>w_fullscreen := Some c\<rparr>) ?t)" if "c_workspace (cons ?t c) = Some w" for w
    by (rule keeps_trans[OF t keeps_pointer[OF that]])
  show ?thesis unfolding container_fullscreen_workspace_def Let_def
    by (rule keeps_if, rule keeps_refl, rule keeps_emit_after)
      (auto simp only: split: option.split intro!: t keeps_trans[OF p keeps_each_seat] keeps_if refocus_keeps
        raise_below_focus_keeps)
qed

lemma fullscreen_global_keeps: "keeps s (container_fullscreen_global E c s)"
proof -
  have a: "keeps s (upd_con c save_geometry (s\<lparr>fullscreen_global := Some c\<rparr>))"
    by (rule keeps_trans[OF keeps_global keeps_upd_con]) (simp add: save_geometry_def)
  have b: "keeps t (upd_con c (\<lambda>x. x\<lparr>c_fullscreen := FULLSCREEN_GLOBAL\<rparr>) t)" for t
    by (rule keeps_upd_con) simp
  show ?thesis unfolding container_fullscreen_global_def Let_def
    by (rule keeps_if, rule keeps_refl, rule keeps_emit_after, rule keeps_trans[OF keeps_trans[OF a keeps_each_seat] b])
      (auto split: option.split intro!: keeps_refl refocus_keeps)
qed

lemma set_fullscreen_keeps: "keeps s (container_set_fullscreen E c mode s)"
  unfolding container_set_fullscreen_def Let_def
  by (auto simp only: split: fullscreen_mode.split option.split intro!: keeps_if keeps_refl fullscreen_disable_keeps
      keeps_trans[OF _ fullscreen_workspace_keeps] keeps_trans[OF _ fullscreen_global_keeps]
      disable_if_keeps disable_if_after fullscreen_disable_after)

lemma take_fullscreen_keeps: "keeps s (take_workspace_fullscreen E fs s)"
  unfolding take_workspace_fullscreen_def Let_def
  by (auto simp only: split: option.split intro!: keeps_if keeps_refl shape_keeps[OF _ arrange_workspace_shape]
      disable_if_keeps keeps_trans[OF disable_if_keeps keeps_pointer])

lemma reparent_keeps: "keeps s (container_handle_fullscreen_reparent E c s)"
  unfolding container_handle_fullscreen_reparent_def Let_def
  by (auto simp only: split: option.split intro!: keeps_if keeps_refl take_fullscreen_keeps arrange_root_after
      keeps_global_after disable_if_keeps)

lemmas reparent_after = keeps_trans[OF _ reparent_keeps]

lemma insert_child_moves:
  assumes "tree_ok s" "attachable s c" "can_hold s p c"
  shows "moves s c (Some p) (container_insert_child E p c i s)"
  unfolding container_insert_child_def Let_def upd_list_simps
  by (rule moves_keeps[OF attach_child_moves[OF assms inserts_insert_at[of "nat i"]]])
    (intro shape_keeps[OF _ fit_vertical_shape] shape_keeps[OF _ update_representation_shape] reparent_keeps)

lemma add_child_moves:
  assumes "tree_ok s" "attachable s c" "can_hold s p c"
  shows "moves s c (Some p) (container_add_child E p c s)"
  unfolding container_add_child_def Let_def upd_list_simps
  by (rule moves_keeps[OF attach_child_moves[OF assms inserts_append]])
    (intro shape_keeps[OF _ fit_vertical_shape] keeps_dirty_after shape_keeps[OF _ update_representation_shape] reparent_keeps)

lemma add_sibling_moves:
  assumes ok: "tree_ok s" and at: "attachable s c" and out: "d \<notin> insert c (descendants s c)"
    and placed: "c_parent (cons s d) \<noteq> None \<or> c_workspace (cons s d) \<noteq> None"
  shows "moves s c (c_parent (cons s d)) (container_add_sibling E d c after s)"
proof -
  let ?t = "detach_attached c s"
  note o = detach_attached_outside[OF ok out]
  have rest: "keeps t (container_fit_vertical_children q (Some c) (container_update_representation c
      (container_handle_fullscreen_reparent E c t)))" for q t
    by (intro shape_keeps[OF _ fit_vertical_shape] shape_keeps[OF _ update_representation_shape] reparent_keeps)
  show ?thesis
  proof (cases "c_parent (cons s d)")
    case (Some p)
    have st: "struct_ok s" by (rule tree_okD(1)[OF ok])
    have hold: "can_hold s p c"
      unfolding can_hold_def using out struct_okD(1,3,5)[OF st] Some descendants_parent[OF Some, of c] by force
    have "container_get_siblings ?t d = Some (Children_of p)" by (simp add: container_get_siblings_def o Some)
    moreover have "c_workspace (cons ?t p) = c_workspace (cons ?t d)"
      using tree_okD(2)[OF movesD(1)[OF detach_attached_moves(1)[OF ok at]]] o(1) Some by metis
    ultimately show ?thesis
      unfolding container_add_sibling_def Let_def
      using moves_keeps[OF attach_child_moves[OF ok at hold inserts_insert_at] rest] by (simp add: o Some)
  next
    case None
    then obtain w where w: "c_workspace (cons s d) = Some w" using placed by blast
    obtain r where r: "container_get_siblings ?t d = Some r" "r = Tiling_of w \<or> r = Floating_of w"
      by (simp add: container_get_siblings_def o None w) metis
    show ?thesis
      unfolding container_add_sibling_def Let_def
      using moves_keeps[OF attach_root_moves[OF ok at r(2) inserts_insert_at] rest] by (simp add: r(1) o None w)
  qed
qed

lemma insert_direct_moves:
  assumes "tree_ok s" "loose s w c" "c < next_id s"
  shows "moves s c None (workspace_insert_tiling_direct E w c i s)"
proof -
  have "c_parent (cons s c) = None" using assms(2) by (simp add: loose_def)
  then show ?thesis
    unfolding workspace_insert_tiling_direct_def Let_def
    by (simp only: upd_list_simps)
      (rule moves_keeps[OF link_root_moves[OF assms disjI1[OF refl] inserts_insert_at[of "nat i"]]],
       intro keeps_dirty_after shape_keeps[OF _ update_workspace_representation_shape] reparent_keeps)
qed

lemma attach_tiling_moves:
  assumes "tree_ok s" "loose s w c" "c < next_id s"
  shows "moves s c None (workspace_attach_tiling E w c s)"
proof -
  have "c_parent (cons s c) = None" using assms(2) by (simp add: loose_def)
  then show ?thesis
    unfolding workspace_attach_tiling_def Let_def
    by (simp only: upd_list_simps)
      (rule moves_keeps[OF link_root_moves[OF assms disjI1[OF refl] inserts_append]],
       intro keeps_dirty_after shape_keeps[OF _ update_workspace_representation_shape] reparent_keeps)
qed

lemma add_floating_moves:
  assumes "tree_ok s" "attachable s c"
  shows "moves s c None (workspace_add_floating E w c s)"
proof -
  have u: "keeps s (unpark c s)" by (rule unpark_keeps)
  note ok = keepsD[OF u assms(1)]
  have at: "attachable (unpark c s) c" using assms(2) by (simp add: attachable_def unpark_fields)
  note d = detach_attached_moves[OF ok at]
  have "c_parent (cons (detach_attached c (unpark c s)) c) = None" using d(2) by (simp add: unlinked_def)
  then have "moves (unpark c s) c None (workspace_add_floating E w c s)"
    unfolding workspace_add_floating_def Let_def
    by (simp only: upd_list_simps)
      (rule moves_keeps[OF attach_root_moves[OF ok at disjI2[OF refl] inserts_append, of w]],
       intro keeps_dirty_after reparent_keeps)
  then show ?thesis by (rule keeps_moves_trans[OF u assms(1)])
qed

end

end
