(* ===== verification/Refocus.thy ===== *)
theory Refocus
  imports Reparent
begin

text \<open>
  Moving the focus of a seat (seat_set_workspace_focus and handle_seat_node_destroy of
  sway/input/seat.c) and destroying empty workspaces (sway/tree/workspace.c). The model is that of a
  seat on which no layer surface has the focus and no session lock is active, so that seat_set_focus
  and seat_set_focus_raw are seat_set_workspace_focus; what they send to clients is not modelled.

  Moving the focus takes sticky containers along, which can end a fullscreen state and move the focus
  again. One level of this is seat_set_workspace_focus, which uses e_refocus for the nested
  calls; refocus_depth allows a number of nested levels, and with_focus puts it into the environment.
\<close>

section \<open>The workspace an output shows\<close>

definition output_get_active_workspace :: "env \<Rightarrow> sway \<Rightarrow> id \<Rightarrow> id option" where
  "output_get_active_workspace E s p =
     (case seat_get_active_tiling_child s (seat_at s (input_manager_current_seat E s)) (N_OUTPUT p) of
        None \<Rightarrow> (case o_workspaces (outs s p) of [] \<Rightarrow> None | w # _ \<Rightarrow> Some w)
      | Some n \<Rightarrow> (case n of N_WORKSPACE w \<Rightarrow> Some w | _ \<Rightarrow> None))"

definition workspace_is_visible :: "env \<Rightarrow> sway \<Rightarrow> id \<Rightarrow> bool" where
  "workspace_is_visible E s w =
     (if n_destroying (ninfo s (N_WORKSPACE w)) then False
      else case w_output (wss s w) of None \<Rightarrow> False
           | Some p \<Rightarrow> output_get_active_workspace E s p = Some w)"

definition workspace_update_focused_column_idx :: "env \<Rightarrow> id \<Rightarrow> sway \<Rightarrow> sway" where
  "workspace_update_focused_column_idx E w s =
     upd_ws w (\<lambda>x. x\<lparr>w_focused_column_idx :=
       (case seat_get_focused_container (seat_at s (input_manager_current_seat E s)) of
          None \<Rightarrow> -1
        | Some c \<Rightarrow> if c_workspace (cons s c) \<noteq> Some w then -1
                    else index_of (container_toplevel_ancestor s c) (w_tiling x))\<rparr>) s"

section \<open>Urgency\<close>

definition workspace_detect_urgent :: "id \<Rightarrow> sway \<Rightarrow> sway" where
  "workspace_detect_urgent w s =
     (let new_urgent = (workspace_find_container s (Some w)
            (\<lambda>c. case c_view (cons s c) of Some v \<Rightarrow> v_urgent v | None \<Rightarrow> False) \<noteq> None) in
      if w_urgent (wss s w) \<noteq> new_urgent
      then emit (Ev_workspace None (Some w) ''urgent'') (upd_ws w (\<lambda>x. x\<lparr>w_urgent := new_urgent\<rparr>) s)
      else s)"

definition upd_view :: "id \<Rightarrow> (view_t \<Rightarrow> view_t) \<Rightarrow> sway \<Rightarrow> sway" where
  "upd_view c f s = upd_con c (\<lambda>x. x\<lparr>c_view := map_option f (c_view x)\<rparr>) s"

text \<open>
  view_set_urgent. A view in a minimize pool has no workspace and is not hidden in the scratchpad:
  the source then dereferences the missing workspace, here nothing is detected.
\<close>

definition view_set_urgent :: "env \<Rightarrow> id \<Rightarrow> bool \<Rightarrow> sway \<Rightarrow> sway" where
  "view_set_urgent E c enable s =
     (case c_view (cons s c) of None \<Rightarrow> s
      | Some v \<Rightarrow>
          if v_urgent v = enable then s
          else if enable \<and> seat_get_focused_container (seat_at s (input_manager_current_seat E s)) = Some c
          then s
          else
            (let s = upd_view c (\<lambda>v. if enable then v\<lparr>v_urgent := True\<rparr>
                                     else v\<lparr>v_urgent := False, v_urgent_timer := False\<rparr>) s;
                 s = emit (Ev_window c ''urgent'') s in
             if container_is_scratchpad_hidden_or_child s c then s
             else case c_workspace (cons s c) of None \<Rightarrow> s | Some w \<Rightarrow> workspace_detect_urgent w s))"

text \<open>Focusing an urgent view ends its urgency, after a timeout when the workspace changed.\<close>

definition focus_ends_urgency :: "env \<Rightarrow> id option \<Rightarrow> id option \<Rightarrow> id option \<Rightarrow> sway \<Rightarrow> sway" where
  "focus_ends_urgency E container last_ws new_ws s =
     (case container of None \<Rightarrow> s
      | Some c \<Rightarrow>
          (case c_view (cons s c) of None \<Rightarrow> s
           | Some v \<Rightarrow>
               if v_urgent v \<and> \<not> v_urgent_timer v
               then (if last_ws \<noteq> None \<and> last_ws \<noteq> new_ws \<and> cfg_urgent_timeout (cfg s) > 0
                     then upd_view c (\<lambda>v. v\<lparr>v_urgent_timer := True\<rparr>) s
                     else view_set_urgent E c False s)
               else s))"

section \<open>Destroying a node\<close>

definition seat_set_focus_raw :: "env \<Rightarrow> nat \<Rightarrow> node option \<Rightarrow> sway \<Rightarrow> sway" where
  "seat_set_focus_raw E k n s =
     (let s = e_refocus E k n s in
      case n of
        Some (N_CONTAINER c) \<Rightarrow>
          (case c_workspace (cons s c) of None \<Rightarrow> s | Some w \<Rightarrow> workspace_update_focused_column_idx E w s)
      | _ \<Rightarrow> s)"

text \<open>From the parent upwards, the view last focused below a node, or the workspace itself.\<close>

fun next_focus_from :: "nat \<Rightarrow> sway \<Rightarrow> seat \<Rightarrow> node option \<Rightarrow> node option" where
  "next_focus_from 0 s t parent = None"
| "next_focus_from (Suc n) s t parent =
     (case parent of None \<Rightarrow> None
      | Some p \<Rightarrow>
          (case seat_get_focus_inactive_view s t p of
             Some c \<Rightarrow> Some (N_CONTAINER c)
           | None \<Rightarrow> (case p of N_WORKSPACE w \<Rightarrow> Some p
                      | _ \<Rightarrow> next_focus_from n s t (node_get_parent s p))))"

definition fallback_focus :: "sway \<Rightarrow> seat \<Rightarrow> node option" where
  "fallback_focus s t =
     (case seat_get_last_known_workspace s t of None \<Rightarrow> None
      | Some w \<Rightarrow> (case seat_get_focus_inactive_view s t (N_WORKSPACE w) of
                    Some c \<Rightarrow> Some (N_CONTAINER c) | None \<Rightarrow> Some (N_WORKSPACE w)))"

definition workspace_node_destroyed :: "env \<Rightarrow> nat \<Rightarrow> id \<Rightarrow> sway \<Rightarrow> sway" where
  "workspace_node_destroyed E k w s =
     (let s = upd_seat k (seat_node_destroy (N_WORKSPACE w)) s in
      if s_workspace (seat_at s k) = Some w
      then (let n = seat_get_focus_inactive s (seat_at s k) N_ROOT;
                s = seat_set_focus_raw E k None s in
            case n of
              Some m \<Rightarrow> seat_set_focus_raw E k (Some m) s
            | None \<Rightarrow> upd_seat k (\<lambda>t. t\<lparr>s_workspace := None\<rparr>) s)
      else s)"

text \<open>The container c has left the focus stack of seat k: where the focus, or its memory, goes.\<close>

definition refocus_after_loss :: "env \<Rightarrow> nat \<Rightarrow> id \<Rightarrow> bool \<Rightarrow> node \<Rightarrow> sway \<Rightarrow> sway" where
  "refocus_after_loss E k c needs_new_focus nxt s =
     (if (case nxt of N_WORKSPACE w \<Rightarrow> \<not> workspace_is_visible E s w | _ \<Rightarrow> False) then s
      else if needs_new_focus
      then (let s = (if c_scratchpad (cons s c) then e_refocus E k None s else s) in
            if seat_get_focus (seat_at s k) = Some nxt then s else seat_set_focus_raw E k (Some nxt) s)
      else
        (let focus = seat_get_focus_inactive s (seat_at s k) N_ROOT;
             s = seat_set_raw_focus k nxt s;
             s = (case focus of
                    Some (N_CONTAINER f) \<Rightarrow>
                      (case c_workspace (cons s f) of None \<Rightarrow> s
                       | Some w \<Rightarrow> seat_set_raw_focus k (N_WORKSPACE w) s)
                  | _ \<Rightarrow> s) in
         case focus of None \<Rightarrow> s | Some f \<Rightarrow> seat_set_raw_focus k f s))"

definition container_node_destroyed :: "env \<Rightarrow> nat \<Rightarrow> id \<Rightarrow> sway \<Rightarrow> sway" where
  "container_node_destroyed E k c s =
     (let parent = node_get_parent s (N_CONTAINER c); focus = seat_get_focus (seat_at s k);
          needs_new_focus = (case focus of None \<Rightarrow> False
            | Some f \<Rightarrow> f = N_CONTAINER c \<or> node_has_ancestor s f (N_CONTAINER c));
          s = upd_seat k (seat_node_destroy (N_CONTAINER c)) s in
      if parent = None \<and> \<not> needs_new_focus then s
      else
        (case (case next_focus_from (next_id s + 3) s (seat_at s k) parent of
                 Some n \<Rightarrow> Some n | None \<Rightarrow> fallback_focus s (seat_at s k)) of
           None \<Rightarrow> s
         | Some nxt \<Rightarrow> refocus_after_loss E k c needs_new_focus nxt s))"

definition handle_seat_node_destroy :: "env \<Rightarrow> node \<Rightarrow> nat \<Rightarrow> sway \<Rightarrow> sway" where
  "handle_seat_node_destroy E n k s =
     (if n \<notin> set (s_focus_stack (seat_at s k)) then s
      else case n of
        N_WORKSPACE w \<Rightarrow> workspace_node_destroyed E k w s
      | N_CONTAINER c \<Rightarrow> container_node_destroyed E k c s
      | _ \<Rightarrow> s)"

definition node_set_destroying :: "node \<Rightarrow> sway \<Rightarrow> sway" where
  "node_set_destroying n s = s\<lparr>ninfo := (ninfo s)(n := (ninfo s n)\<lparr>n_destroying := True\<rparr>)\<rparr>"

section \<open>Destroying a workspace\<close>

definition workspace_detach :: "id \<Rightarrow> sway \<Rightarrow> sway" where
  "workspace_detach w s =
     (case w_output (wss s w) of None \<Rightarrow> s
      | Some p \<Rightarrow>
          (let s = upd_out p (\<lambda>x. x\<lparr>o_workspaces := remove_id w (o_workspaces x)\<rparr>) s;
               s = upd_ws w (\<lambda>x. x\<lparr>w_output := None\<rparr>) s in
           node_set_dirty (N_OUTPUT p) (node_set_dirty (N_WORKSPACE w) s)))"

definition workspace_begin_destroy :: "env \<Rightarrow> id \<Rightarrow> sway \<Rightarrow> sway" where
  "workspace_begin_destroy E w s =
     (let s = emit (Ev_workspace None (Some w) ''empty'') s;
          s = each_seat (handle_seat_node_destroy E (N_WORKSPACE w)) s;
          s = (if w_output (wss s w) \<noteq> None then workspace_detach w s else s) in
      node_set_destroying (N_WORKSPACE w) (node_set_dirty (N_WORKSPACE w) s))"

definition workspace_consider_destroy :: "env \<Rightarrow> id \<Rightarrow> sway \<Rightarrow> sway" where
  "workspace_consider_destroy E w s =
     (if w_tiling (wss s w) \<noteq> [] \<or> w_floating (wss s w) \<noteq> [] \<or> w_minimized (wss s w) \<noteq> [] then s
      else if (case w_output (wss s w) of None \<Rightarrow> False
               | Some p \<Rightarrow> output_get_active_workspace E s p = Some w) then s
      else if list_ex (\<lambda>t. seat_get_focus_inactive s t N_ROOT = Some (N_WORKSPACE w)) (seats s) then s
      else workspace_begin_destroy E w s)"

section \<open>Setting the focus\<close>

text \<open>A container that is no view hands the focus to the view last focused inside it.\<close>

definition focus_target :: "sway \<Rightarrow> seat \<Rightarrow> node \<Rightarrow> node option" where
  "focus_target s t n =
     (case n of
        N_CONTAINER c \<Rightarrow>
          if c_view (cons s c) = None then map_option N_CONTAINER (seat_get_focus_inactive_view s t n)
          else Some n
      | _ \<Rightarrow> Some n)"

fun raise_ancestors :: "nat \<Rightarrow> nat \<Rightarrow> id option \<Rightarrow> sway \<Rightarrow> sway" where
  "raise_ancestors 0 k c s = s"
| "raise_ancestors (Suc n) k c s =
     (case c of None \<Rightarrow> s
      | Some p \<Rightarrow> (let s = seat_set_raw_focus k (N_CONTAINER p) s in raise_ancestors n k (c_parent (cons s p)) s))"

text \<open>The static set_workspace of seat.c.\<close>

definition seat_set_workspace :: "nat \<Rightarrow> id option \<Rightarrow> sway \<Rightarrow> sway" where
  "seat_set_workspace k new_ws s =
     (let old = s_workspace (seat_at s k) in
      if old = new_ws then s
      else
        (let s = (case old of None \<Rightarrow> s
                  | Some w \<Rightarrow> upd_seat k (\<lambda>t. t\<lparr>s_prev_workspace_name := Some (w_name (wss s w))\<rparr>) s);
             s = emit (Ev_workspace old new_ws ''focus'') s in
         upd_seat k (\<lambda>t. t\<lparr>s_workspace := new_ws\<rparr>) s))"

text \<open>
  The sticky containers of the workspace left move to the new one; each step of the loop passes one
  floating container or moves it away, so the number of ids bounds the steps.
\<close>

fun sticky_loop :: "nat \<Rightarrow> env \<Rightarrow> id \<Rightarrow> id \<Rightarrow> nat \<Rightarrow> sway \<Rightarrow> sway" where
  "sticky_loop 0 E old new i s = s"
| "sticky_loop (Suc n) E old new i s =
     (let fl = w_floating (wss s old) in
      if i < length fl
      then (if container_is_sticky s (fl ! i)
            then sticky_loop n E old new i (workspace_add_floating E new (fl ! i) (container_detach (fl ! i) s))
            else sticky_loop n E old new (i + 1) s)
      else s)"

definition mark_unfocused :: "node option \<Rightarrow> sway \<Rightarrow> sway" where
  "mark_unfocused last_focus s =
     (case last_focus of None \<Rightarrow> s
      | Some f \<Rightarrow>
          (let s = node_set_dirty f s in
           case node_get_parent s f of None \<Rightarrow> s | Some p \<Rightarrow> node_set_dirty p s))"

text \<open>The parents of the container, its workspace, and the container itself go to the front.\<close>

definition raise_focus :: "nat \<Rightarrow> id option \<Rightarrow> id option \<Rightarrow> sway \<Rightarrow> sway" where
  "raise_focus k container new_ws s =
     (let s = (case container of None \<Rightarrow> s
               | Some c \<Rightarrow> raise_ancestors (next_id s) k (c_parent (cons s c)) s);
          s = (case new_ws of None \<Rightarrow> s | Some w \<Rightarrow> seat_set_raw_focus k (N_WORKSPACE w) s) in
      case container of None \<Rightarrow> s | Some c \<Rightarrow> seat_set_raw_focus k (N_CONTAINER c) s)"

definition focus_leaves :: "env \<Rightarrow> id option \<Rightarrow> id option \<Rightarrow> sway \<Rightarrow> sway" where
  "focus_leaves E last_ws new_ws s =
     (case (last_ws, new_ws) of
        (Some old, Some new) \<Rightarrow> if old \<noteq> new then sticky_loop (next_id s) E old new 0 s else s
      | _ \<Rightarrow> s)"

definition focus_arrives :: "env \<Rightarrow> nat \<Rightarrow> id option \<Rightarrow> id option \<Rightarrow> sway \<Rightarrow> sway" where
  "focus_arrives E k last_ws new_ws s =
     (let s = (case last_ws of None \<Rightarrow> s | Some w \<Rightarrow> workspace_consider_destroy E w s);
          s = upd_seat k (\<lambda>t. t\<lparr>s_has_focus := True\<rparr>) s;
          s = (case new_ws of None \<Rightarrow> s
               | Some w \<Rightarrow> if cfg_smart_gaps (cfg s) \<noteq> SMART_GAPS_OFF then arrange_workspace w s else s);
          s = (case last_ws of None \<Rightarrow> s
               | Some w \<Rightarrow> if last_ws \<noteq> new_ws then upd_ws w (\<lambda>x. x\<lparr>w_focused_column_idx := -1\<rparr>) s else s) in
      case new_ws of None \<Rightarrow> s | Some w \<Rightarrow> workspace_update_focused_column_idx E w s)"

definition set_focus_to :: "env \<Rightarrow> nat \<Rightarrow> id option \<Rightarrow> id option \<Rightarrow> sway \<Rightarrow> sway" where
  "set_focus_to E k container new_ws s =
     (let last_focus = seat_get_focus (seat_at s k);
          new_output = (case new_ws of None \<Rightarrow> None | Some w \<Rightarrow> w_output (wss s w));
          last_ws = (case new_output of None \<Rightarrow> None | Some p \<Rightarrow> output_get_active_workspace E s p);
          s = (case new_output of None \<Rightarrow> s
               | Some p \<Rightarrow> if last_ws \<noteq> new_ws then node_set_dirty (N_OUTPUT p) s else s);
          s = raise_focus k container new_ws (mark_unfocused last_focus s);
          s = seat_set_workspace k new_ws s;
          s = (case container of None \<Rightarrow> s
               | Some c \<Rightarrow> if c_view (cons s c) \<noteq> None then emit (Ev_window c ''focus'') s else s);
          s = focus_leaves E last_ws new_ws s;
          s = focus_ends_urgency E container last_ws new_ws s in
      focus_arrives E k last_ws new_ws s)"

definition seat_set_workspace_focus :: "env \<Rightarrow> nat \<Rightarrow> node option \<Rightarrow> sway \<Rightarrow> sway" where
  "seat_set_workspace_focus E k node s =
     (case node of
        None \<Rightarrow> upd_seat k (\<lambda>t. t\<lparr>s_has_focus := False\<rparr>) s
      | Some n \<Rightarrow>
          (case focus_target s (seat_at s k) n of
             None \<Rightarrow> s
           | Some n \<Rightarrow>
               if seat_get_focus (seat_at s k) = Some n then s
               else
                 (let container = node_container n;
                      new_ws = (case n of N_WORKSPACE w \<Rightarrow> Some w
                                | N_CONTAINER c \<Rightarrow> c_workspace (cons s c) | _ \<Rightarrow> None) in
                  if (case container of None \<Rightarrow> False
                      | Some c \<Rightarrow> container_obstructing_fullscreen_container (e_transient E) s c \<noteq> None)
                  then s
                  else if fullscreen_global s \<noteq> None \<and> container = None \<and> new_ws \<noteq> None then s
                  else set_focus_to E k container new_ws s)))"

section \<open>Tying the knot\<close>

fun refocus_depth :: "nat \<Rightarrow> env \<Rightarrow> nat \<Rightarrow> node option \<Rightarrow> sway \<Rightarrow> sway" where
  "refocus_depth 0 E k n s = s"
| "refocus_depth (Suc d) E k n s = seat_set_workspace_focus (E\<lparr>e_refocus := refocus_depth d E\<rparr>) k n s"

definition with_focus :: "nat \<Rightarrow> env \<Rightarrow> env" where
  "with_focus d E = E\<lparr>e_refocus := refocus_depth d E\<rparr>"

end
