(* ===== verification/Refocus_Laws.thy ===== *)
theory Refocus_Laws
  imports Refocus Reparent_Laws
begin

text \<open>
  Moving the focus keeps the invariant of the tree and changes no parent, at any depth of nesting:
  the interface refocusing of theory Reparent_Laws is discharged for the model's own focus function.
\<close>

section \<open>Containers without a parent\<close>

lemma remove1_children_root:
  "struct_ok s \<Longrightarrow> c_parent (cons s c) = None \<Longrightarrow> remove1 c (c_children (cons s p)) = c_children (cons s p)"
  using struct_okD(1)[of s c p] by (simp add: remove1_idem)

lemma detach_root_keeps:
  assumes "c_parent (cons s c) = None" shows "keeps_but {c} s (container_detach c s)"
proof (rule keeps_local)
  assume ok: "tree_ok s"
  show ?thesis
    using detach_ok[OF ok] detach_strays[OF ok] remove1_children_root[OF tree_okD(1)[OF ok] assms]
    by (simp add: keeps_but_def same_forest_def assms detach_fields detach_core_effect[OF ok])
qed

lemma link_root_keeps:
  assumes "loose s w c" "c < next_id s" "r = Tiling_of w \<or> r = Floating_of w" "inserts f c"
  shows "keeps_but {c} s (adopt c None (Some w) (upd_list r f s))"
proof (rule keeps_local)
  assume ok: "tree_ok s"
  have par: "c_parent (cons s c) = None" using assms(1) by (simp add: loose_def)
  have "same_forest s (adopt c None (Some w) (upd_list r f s))"
    unfolding link_root_put[OF tree_okD(1)[OF ok] par assms(3)]
    by (rule same_forest_trans[OF link_root_struct(1)[OF tree_okD(1)[OF ok] par assms(3)] put_ws_forest])
  then show ?thesis using link_root_moves[OF ok assms] by (simp add: keeps_but_def moves_def)
qed

lemma detach_attached_root:
  assumes "tree_ok s" "c_parent (cons s c) = None" "c < next_id s"
  shows "keeps_but {c} s (detach_attached c s)" "unlinked (detach_attached c s) c" "c < next_id (detach_attached c s)"
proof -
  have at: "attachable s c" using assms by (simp add: attachable_def)
  show "keeps_but {c} s (detach_attached c s)"
    using detach_root_keeps[OF assms(2)] keeps_refl by (simp add: detach_attached_def)
  show "unlinked (detach_attached c s) c" by (rule detach_attached_moves(2)[OF assms(1) at])
  show "c < next_id (detach_attached c s)" by (rule detach_attached_next[OF assms(1) at])
qed

lemma floating_root:
  assumes "tree_ok s" "c \<in> set (w_floating (wss s w))"
  shows "c_parent (cons s c) = None" "c < next_id s"
proof -
  have r: "c \<in> set (roots s w)" using assms(2) by (simp add: roots_def)
  show "c_parent (cons s c) = None" by (rule tree_okD(4)[OF assms(1) r])
  show "c < next_id s" by (rule tree_okD(7)[OF assms(1) tree_okD(5)[OF assms(1) r]])
qed

section \<open>Steps that keep the tree\<close>

lemma keeps_upd_out: "keeps s (upd_out p f s)"
  by (rule same_tree_keeps) (simp add: same_tree_def)

lemma keeps_ninfo: "keeps s (s\<lparr>ninfo := f\<rparr>)"
  by (rule same_tree_keeps) (simp add: same_tree_def)

lemmas keeps_upd_out_after [keeps] = keeps_trans[OF _ keeps_upd_out]

lemma workspace_detach_keeps: "keeps s (workspace_detach w s)"
  unfolding workspace_detach_def Let_def
  by (auto split: option.split intro!: keeps keeps_ws_after)

lemma focused_idx_keeps: "keeps s (workspace_update_focused_column_idx E w s)"
  unfolding workspace_update_focused_column_idx_def by (rule keeps_upd_ws) simp

lemmas focused_idx_after [keeps] = keeps_trans[OF _ focused_idx_keeps]

lemma upd_view_keeps: "keeps s (upd_view c f s)"
  unfolding upd_view_def by (rule keeps_upd_con) simp

lemma detect_urgent_keeps: "keeps s (workspace_detect_urgent w s)"
  unfolding workspace_detect_urgent_def Let_def
  by (rule keeps_if[OF keeps_emit_after[OF keeps_upd_ws] keeps_refl]) simp

lemma set_urgent_keeps: "keeps s (view_set_urgent E c b s)"
  unfolding view_set_urgent_def Let_def
  by (auto simp only: split: option.split intro!: keeps_if keeps_refl keeps_emit_after upd_view_keeps
      keeps_trans[OF _ detect_urgent_keeps])

lemma ends_urgency_keeps: "keeps s (focus_ends_urgency E c a b s)"
  unfolding focus_ends_urgency_def
  by (auto simp only: split: option.split intro!: keeps_if keeps_refl upd_view_keeps set_urgent_keeps)

lemma raise_ancestors_keeps: "keeps s (raise_ancestors n k c s)"
proof (induction n arbitrary: c s)
  case (Suc n)
  show ?case
    by (auto simp: Let_def split: option.split intro: keeps_refl keeps_trans[OF keeps_raw_focus Suc.IH])
qed (simp add: keeps_refl)

lemma raise_focus_keeps: "keeps s (raise_focus k c w s)"
  unfolding raise_focus_def Let_def
  by (auto split: option.split intro!: keeps raise_ancestors_keeps)

lemma seat_set_workspace_keeps: "keeps s (seat_set_workspace k w s)"
  unfolding seat_set_workspace_def Let_def by (auto split: option.split intro!: keeps)

lemma mark_unfocused_keeps: "keeps s (mark_unfocused f s)"
  unfolding mark_unfocused_def Let_def by (auto split: option.split intro!: keeps)

context refocusing
begin

lemma focus_raw_keeps: "keeps s (seat_set_focus_raw E k n s)"
  unfolding seat_set_focus_raw_def Let_def
  by (auto split: option.split node.split intro!: focused_idx_after refocus_keeps)

lemmas focus_raw_after = keeps_trans[OF _ focus_raw_keeps]

lemma add_floating_keeps:
  assumes "c_parent (cons s c) = None" "c < next_id s"
  shows "keeps_but {c} s (workspace_add_floating E w c s)"
proof (rule keeps_local)
  assume ok: "tree_ok s"
  let ?t = "detach_attached c (unpark c s)"
  note oku = keepsD[OF unpark_keeps ok]
  note d = detach_attached_root[OF oku, of c c]
  have un: "unlinked ?t c" and nx: "c < next_id ?t" and k: "keeps_but {c} s ?t"
    using d assms keeps_trans[OF keeps_weaken[OF unpark_keeps]] by simp_all
  have okt: "tree_ok ?t" by (rule keepsD[OF k ok])
  have par: "c_parent (cons ?t c) = None" using un by (simp add: unlinked_def)
  note rest = keeps_weaken[OF keeps_dirty_after[OF keeps_dirty_after[OF reparent_keeps]]]
  show ?thesis
    unfolding workspace_add_floating_def Let_def
    by (simp only: upd_list_simps par)
      (rule keeps_trans[OF keeps_trans[OF k
        link_root_keeps[OF unlinked_loose[OF okt un] nx disjI2[OF refl] inserts_append]] rest])
qed

lemma add_floating_tiling:
  assumes "tree_ok s" "c_parent (cons s c) = None" "c < next_id s"
  shows "w_tiling (wss (workspace_add_floating E w c s) v) = w_tiling (wss (detach_attached c (unpark c s)) v)"
proof -
  let ?t = "detach_attached c (unpark c s)"
  note d = detach_attached_root[OF keepsD[OF unpark_keeps assms(1)], of c c]
  have un: "unlinked ?t c" and nx: "c < next_id ?t" using d assms(2,3) by simp_all
  have okt: "tree_ok ?t" by (rule keepsD[OF d(1) keepsD[OF unpark_keeps assms(1)]]) (simp_all add: assms)
  have par: "c_parent (cons ?t c) = None" using un by (simp add: unlinked_def)
  let ?u = "adopt c None (Some w) (upd_list (Floating_of w) (\<lambda>xs. xs @ [c]) ?t)"
  have lo: "loose ?t w c" by (rule unlinked_loose[OF okt un])
  have "w_tiling (wss ?u v) = w_tiling (wss ?t v)"
    unfolding link_root_put[OF tree_okD(1)[OF okt] par disjI2[OF refl]] by (simp add: upd_list_def)
  moreover have "w_tiling (wss (container_handle_fullscreen_reparent E c ?u) v) = w_tiling (wss ?u v)"
    using reparent_keeps[of ?u c] link_root_ok[OF okt lo nx disjI2[OF refl] inserts_append]
    by (simp add: keeps_but_def same_strays_def)
  ultimately show ?thesis unfolding workspace_add_floating_def Let_def by (simp add: par)
qed

lemma refloat_keeps:
  assumes "c \<in> set (w_floating (wss s old))"
  shows "keeps s (workspace_add_floating E new c (container_detach c s))"
proof (rule keeps_local)
  assume ok: "tree_ok s"
  note r = floating_root[OF ok assms]
  have "c_parent (cons (container_detach c s) c) = None" "c < next_id (container_detach c s)"
    using r by (simp_all add: detach_fields detach_core_effect[OF ok])
  then have "keeps_but {c} s (workspace_add_floating E new c (container_detach c s))"
    by (intro keeps_trans[OF detach_root_keeps[OF r(1)] add_floating_keeps])
  then show ?thesis
  proof (rule keeps_root[of _ _ _ old])
    show "c \<in> set (roots s old)" using assms by (simp add: roots_def)
    fix v
    have un: "unlinked (container_detach c s) c" by (rule detach_unlinked[OF ok])
    have "c \<notin> set (w_tiling (wss s v))"
    proof
      assume "c \<in> set (w_tiling (wss s v))"
      then have "v = old" using tree_okD(5)[OF ok, of c v] tree_okD(5)[OF ok, of c old] assms by (auto simp: roots_def)
      then show False using tree_okD(3)[OF ok, of old] assms \<open>c \<in> set (w_tiling (wss s v))\<close> by (auto simp: roots_def)
    qed
    then show "w_tiling (wss (workspace_add_floating E new c (container_detach c s)) v) = w_tiling (wss s v)"
      using add_floating_tiling[OF detach_ok[OF ok], of c c new v] r un
      by (simp add: detach_fields detach_core_effect[OF ok] unlinked_def detach_attached_def remove1_idem)
  qed
qed

lemma sticky_loop_keeps: "keeps s (sticky_loop n E old new i s)"
proof (induction n arbitrary: i s)
  case (Suc n)
  show ?case
    unfolding sticky_loop.simps Let_def
    by (auto intro!: keeps_refl Suc.IH keeps_trans[OF refloat_keeps[of _ _ old] Suc.IH])
qed (simp add: keeps_refl)

lemma loss_keeps: "keeps s (refocus_after_loss E k c b n s)"
  unfolding refocus_after_loss_def Let_def
  by (intro keeps_if keeps_refl)
    (auto split: option.split node.split intro!: keeps focus_raw_keeps focus_raw_after refocus_keeps)

lemma container_destroyed_keeps: "keeps s (container_node_destroyed E k c s)"
  unfolding container_node_destroyed_def Let_def
  by (auto split: option.split intro!: keeps keeps_trans[OF _ loss_keeps])

lemma workspace_destroyed_keeps: "keeps s (workspace_node_destroyed E k w s)"
  unfolding workspace_node_destroyed_def Let_def
  by (auto split: option.split intro!: keeps focus_raw_keeps focus_raw_after)

lemma node_destroy_keeps: "keeps s (handle_seat_node_destroy E n k s)"
  unfolding handle_seat_node_destroy_def
  by (auto split: node.split intro!: keeps_refl container_destroyed_keeps workspace_destroyed_keeps)

lemma workspace_begin_destroy_keeps: "keeps s (workspace_begin_destroy E w s)"
proof -
  have a: "keeps s (each_seat (handle_seat_node_destroy E (N_WORKSPACE w)) (emit e s))" for e
    by (rule keeps_trans[OF keeps_emit keeps_each_seat[OF node_destroy_keeps]])
  have b: "keeps t (if b then workspace_detach w t else t)" for b t
    by (simp add: workspace_detach_keeps keeps_refl)
  show ?thesis unfolding workspace_begin_destroy_def Let_def node_set_destroying_def
    by (rule keeps_trans[OF keeps_dirty_after[OF keeps_trans[OF a b]] keeps_ninfo])
qed

lemma consider_destroy_keeps: "keeps s (workspace_consider_destroy E w s)"
  unfolding workspace_consider_destroy_def
  by (intro keeps_if keeps_refl workspace_begin_destroy_keeps)

lemmas consider_destroy_after = keeps_trans[OF _ consider_destroy_keeps]

lemma focus_leaves_keeps: "keeps s (focus_leaves E a b s)"
  unfolding focus_leaves_def by (auto split: option.split intro: keeps_refl sticky_loop_keeps)

lemma focus_arrives_keeps: "keeps s (focus_arrives E k a b s)"
proof -
  have c: "keeps t (case a of None \<Rightarrow> t | Some w \<Rightarrow> workspace_consider_destroy E w t)" for t
    by (auto split: option.split intro: keeps_refl consider_destroy_keeps)
  have d: "keeps t (case b of None \<Rightarrow> t | Some w \<Rightarrow> if P then arrange_workspace w t else t)" for t P
    by (auto split: option.split intro: keeps_refl same_shape_keeps arrange_workspace_shape)
  have e: "keeps t (case a of None \<Rightarrow> t | Some w \<Rightarrow> if P then upd_ws w (\<lambda>x. x\<lparr>w_focused_column_idx := -1\<rparr>) t else t)" for t P
    by (auto split: option.split intro!: keeps_refl keeps_upd_ws)
  have f: "keeps t (case b of None \<Rightarrow> t | Some w \<Rightarrow> workspace_update_focused_column_idx E w t)" for t
    by (auto split: option.split intro: keeps_refl focused_idx_keeps)
  show ?thesis unfolding focus_arrives_def Let_def
    by (rule keeps_trans[OF keeps_trans[OF keeps_trans[OF keeps_trans[OF c keeps_upd_seat] d] e] f])
qed

lemma set_focus_to_keeps: "keeps s (set_focus_to E k c w s)"
proof -
  have a: "keeps t (case p of None \<Rightarrow> t | Some q \<Rightarrow> if P then node_set_dirty (N_OUTPUT q) t else t)" for t p P
    by (auto split: option.split intro!: keeps)
  have e: "keeps t (case c of None \<Rightarrow> t | Some d \<Rightarrow> if P d then emit (ev d) t else t)" for t P ev
    by (auto split: option.split intro!: keeps)
  show ?thesis unfolding set_focus_to_def Let_def
    by (rule keeps_trans[OF keeps_trans[OF keeps_trans[OF keeps_trans[OF keeps_trans[OF keeps_trans[OF
          keeps_trans[OF a mark_unfocused_keeps] raise_focus_keeps] seat_set_workspace_keeps] e]
          focus_leaves_keeps] ends_urgency_keeps] focus_arrives_keeps])
qed

lemma workspace_focus_keeps: "keeps s (seat_set_workspace_focus E k n s)"
  unfolding seat_set_workspace_focus_def Let_def
  by (auto simp only: split: option.split intro!: keeps_if keeps_refl keeps_upd_seat set_focus_to_keeps)

end

section \<open>The model's focus function\<close>

lemma refocusing_depth: "refocusing (E\<lparr>e_refocus := refocus_depth d E\<rparr>)"
proof (induction d)
  case 0
  show ?case by unfold_locales (simp add: keeps_refl)
next
  case (Suc d)
  show ?case by unfold_locales (simp add: refocusing.workspace_focus_keeps[OF Suc])
qed

interpretation live: refocusing "with_focus d E" for d E
  unfolding with_focus_def by (rule refocusing_depth)

end
