(* ===== verification/Destroy.thy ===== *)
theory Destroy
  imports Refocus_Laws
begin

text \<open>
  Taking containers out of the tree for good (container_begin_destroy, container_reap_empty of
  sway/tree/container.c, root_scratchpad_remove_container of sway/tree/root.c), marks, and raising a
  floating container. Destroying a container moves the focus of every seat that had it in its stack.
\<close>

section \<open>Destroying\<close>

definition root_scratchpad_remove_container :: "id \<Rightarrow> sway \<Rightarrow> sway" where
  "root_scratchpad_remove_container c s =
     (if \<not> c_scratchpad (cons s c) then s
      else
        (let s = upd_con c (\<lambda>x. x\<lparr>c_scratchpad := False\<rparr>) s in
         if index_of c (scratchpad s) \<noteq> -1
         then emit (Ev_window c ''move'') (s\<lparr>scratchpad := remove_id c (scratchpad s)\<rparr>) else s))"

definition container_begin_destroy :: "env \<Rightarrow> id \<Rightarrow> sway \<Rightarrow> sway" where
  "container_begin_destroy E c s =
     (let s = (if c_view (cons s c) \<noteq> None then emit (Ev_window c ''close'') s else s);
          s = (case c_workspace (cons s c) of
                 Some w \<Rightarrow> if c_fullscreen (cons s c) = FULLSCREEN_WORKSPACE
                           then upd_ws w (\<lambda>x. x\<lparr>w_fullscreen := None\<rparr>) s else s
               | None \<Rightarrow> s);
          s = (if c_scratchpad (cons s c) \<and> c_fullscreen (cons s c) = FULLSCREEN_GLOBAL
               then container_fullscreen_disable E c s else s);
          s = each_seat (handle_seat_node_destroy E (N_CONTAINER c)) s;
          s = node_set_destroying (N_CONTAINER c) (node_set_dirty (N_CONTAINER c) s);
          s = (if c_scratchpad (cons s c) then root_scratchpad_remove_container c s else s);
          s = (if c_minimized (cons s c)
               then upd_con c (\<lambda>x. x\<lparr>c_minimized := False\<rparr>) (snd (workspace_minimized_remove c s)) else s);
          s = (if c_fullscreen (cons s c) = FULLSCREEN_GLOBAL
               then container_fullscreen_disable E c s else s) in
      if c_parent (cons s c) \<noteq> None \<or> c_workspace (cons s c) \<noteq> None then container_detach c s else s)"

text \<open>The loop upwards ends early, with False, at a container that still has children.\<close>

fun reap_loop :: "nat \<Rightarrow> env \<Rightarrow> id option \<Rightarrow> sway \<Rightarrow> sway \<times> bool" where
  "reap_loop 0 E c s = (s, False)"
| "reap_loop (Suc n) E c s =
     (case c of None \<Rightarrow> (s, True)
      | Some c \<Rightarrow>
          if c_children (cons s c) \<noteq> [] then (s, False)
          else reap_loop n E (c_parent (cons s c)) (container_begin_destroy E c s))"

definition container_reap_empty :: "env \<Rightarrow> id \<Rightarrow> sway \<Rightarrow> sway" where
  "container_reap_empty E c s =
     (if c_view (cons s c) \<noteq> None then s
      else
        (let w = c_workspace (cons s c) in
         case reap_loop (next_id s + 1) E (Some c) s of
           (s, all_empty) \<Rightarrow>
             if all_empty then (case w of None \<Rightarrow> s | Some w \<Rightarrow> workspace_consider_destroy E w s) else s))"

section \<open>Marks\<close>

definition container_has_mark :: "sway \<Rightarrow> id \<Rightarrow> string \<Rightarrow> bool" where
  "container_has_mark s c mark \<longleftrightarrow> list_ex (\<lambda>m. m = mark) (c_marks (cons s c))"

definition container_add_mark :: "id \<Rightarrow> string \<Rightarrow> sway \<Rightarrow> sway" where
  "container_add_mark c mark s =
     emit (Ev_window c ''mark'') (upd_con c (\<lambda>x. x\<lparr>c_marks := c_marks x @ [mark]\<rparr>) s)"

definition container_clear_marks :: "id \<Rightarrow> sway \<Rightarrow> sway" where
  "container_clear_marks c s = emit (Ev_window c ''mark'') (upd_con c (\<lambda>x. x\<lparr>c_marks := []\<rparr>) s)"

definition container_find_mark :: "sway \<Rightarrow> string \<Rightarrow> id option" where
  "container_find_mark s mark = root_find_container s (\<lambda>c. container_has_mark s c mark)"

definition container_find_and_unmark :: "string \<Rightarrow> sway \<Rightarrow> bool \<times> sway" where
  "container_find_and_unmark mark s =
     (case container_find_mark s mark of
        None \<Rightarrow> (False, s)
      | Some c \<Rightarrow>
          if mark \<in> set (c_marks (cons s c))
          then (True, emit (Ev_window c ''mark'') (upd_con c (\<lambda>x. x\<lparr>c_marks := remove1 mark (c_marks x)\<rparr>) s))
          else (False, s))"

section \<open>Raising\<close>

definition move_to_end :: "id \<Rightarrow> id list \<Rightarrow> id list" where
  "move_to_end c xs = (if c \<in> set xs then remove1 c xs @ [c] else xs)"

definition container_raise_floating :: "id \<Rightarrow> sway \<Rightarrow> sway" where
  "container_raise_floating c s =
     (let f = container_toplevel_ancestor s c in
      if container_is_floating s f
      then (case c_workspace (cons s f) of
              None \<Rightarrow> s
            | Some w \<Rightarrow> node_set_dirty (N_WORKSPACE w)
                          (upd_ws w (\<lambda>x. x\<lparr>w_floating := move_to_end f (w_floating x)\<rparr>) s))
      else s)"

section \<open>What they keep\<close>

lemma keeps_scratchpad: "keeps s (s\<lparr>scratchpad := xs\<rparr>)"
  by (rule same_tree_keeps) (simp add: same_tree_def)

lemma scratchpad_remove_keeps: "keeps s (root_scratchpad_remove_container c s)"
  unfolding root_scratchpad_remove_container_def Let_def
  by (auto simp only: intro!: keeps_if keeps_refl keeps_emit_after keeps_trans[OF _ keeps_scratchpad] keeps_upd_con)
    simp_all

lemma minimized_remove_keeps: "keeps s (snd (workspace_minimized_remove c s))"
  unfolding workspace_minimized_remove_def
  by (auto split: option.split intro!: keeps_refl keeps_upd_ws)

lemma detach_if_moves:
  assumes "tree_ok s"
  shows "moves s c None (if c_parent (cons s c) \<noteq> None \<or> c_workspace (cons s c) \<noteq> None
           then container_detach c s else s)"
  using detach_moves[OF assms, of c] keeps_moves[OF keeps_refl assms, of c] by auto

lemma raise_floating_keeps: "keeps s (container_raise_floating c s)"
proof -
  have "keeps s (upd_ws w (\<lambda>x. x\<lparr>w_floating := move_to_end f (w_floating x)\<rparr>) s)" for w f
    unfolding keeps_but_def
  proof
    let ?s' = "upd_ws w (\<lambda>x. x\<lparr>w_floating := move_to_end f (w_floating x)\<rparr>) s"
    assume ok: "tree_ok s"
    have st: "struct_ok ?s'" using tree_okD(1)[OF ok] by (simp add: struct_ok_def parent_rel_def)
    have m: "mset (move_to_end f xs) = mset xs" for xs :: "id list" by (simp add: move_to_end_def)
    have se: "set (roots ?s' v) = set (roots s v)" for v
      using mset_eq_setD[OF m] by (simp add: roots_def)
    have di: "distinct (roots ?s' v)" for v
      using tree_okD(3)[OF ok, of v] mset_eq_imp_distinct_iff[OF m] mset_eq_setD[OF m]
      by (cases "v = w") (simp_all add: roots_def)
    have "tree_ok ?s'"
      by (rule tree_okI) (use st se di tree_okD[OF ok] in \<open>auto split: if_splits\<close>)
    then show "tree_ok ?s' \<and> same_forest s ?s' \<and> same_strays {} s ?s'"
      by (simp add: same_forest_def same_strays_def stray_def se)
  qed
  then show ?thesis
    unfolding container_raise_floating_def Let_def by (auto split: option.split intro!: keeps)
qed

context refocusing
begin

lemma begin_destroy_via:
  "\<exists>u. keeps s u \<and> container_begin_destroy E c s
     = (if c_parent (cons u c) \<noteq> None \<or> c_workspace (cons u c) \<noteq> None then container_detach c u else u)"
proof -
  have a: "keeps t (if b then emit e t else t)" for b e t by (auto intro!: keeps)
  have b: "keeps t (case w of Some v \<Rightarrow> if b then upd_ws v (\<lambda>x. x\<lparr>w_fullscreen := None\<rparr>) t else t | None \<Rightarrow> t)" for w b t
    by (auto split: option.split intro!: keeps_refl keeps_upd_ws)
  have d: "keeps t (if b then container_fullscreen_disable E c t else t)" for b t
    by (auto intro!: keeps_refl fullscreen_disable_keeps)
  have e: "keeps t (node_set_destroying n (node_set_dirty n t))" for n t
    unfolding node_set_destroying_def by (rule keeps_trans[OF keeps_dirty keeps_ninfo])
  have f: "keeps t (if b then root_scratchpad_remove_container c t else t)" for b t
    by (auto intro!: keeps_refl scratchpad_remove_keeps)
  have g: "keeps t (if b then upd_con c (\<lambda>x. x\<lparr>c_minimized := False\<rparr>) (snd (workspace_minimized_remove c t)) else t)" for b t
    by (intro keeps_if keeps_refl keeps_trans[OF minimized_remove_keeps keeps_upd_con]) simp
  note k = keeps_trans[OF keeps_trans[OF keeps_trans[OF keeps_trans[OF keeps_trans[OF keeps_trans[OF keeps_trans[OF
    a b] d] keeps_each_seat[OF node_destroy_keeps]] e] f] g] d]
  show ?thesis unfolding container_begin_destroy_def Let_def by (rule exI, rule conjI[OF k refl])
qed

lemma begin_destroy_moves:
  assumes "tree_ok s" shows "moves s c None (container_begin_destroy E c s)"
proof -
  obtain u where u: "keeps s u" "container_begin_destroy E c s
      = (if c_parent (cons u c) \<noteq> None \<or> c_workspace (cons u c) \<noteq> None then container_detach c u else u)"
    using begin_destroy_via by blast
  show ?thesis unfolding u(2)
    by (rule keeps_moves_trans[OF u(1) assms detach_if_moves[OF keepsD[OF u(1) assms]]])
qed

lemma begin_destroy_unlinked:
  assumes "tree_ok s" shows "unlinked (container_begin_destroy E c s) c"
proof -
  obtain u where u: "keeps s u" "container_begin_destroy E c s
      = (if c_parent (cons u c) \<noteq> None \<or> c_workspace (cons u c) \<noteq> None then container_detach c u else u)"
    using begin_destroy_via by blast
  show ?thesis unfolding u(2) using detach_unlinked[OF keepsD[OF u(1) assms]] by (auto simp: unlinked_def)
qed

lemma begin_destroy_ok: "tree_ok s \<Longrightarrow> tree_ok (container_begin_destroy E c s)"
  by (rule movesD(1)[OF begin_destroy_moves])

lemma reap_loop_ok: "tree_ok s \<Longrightarrow> tree_ok (fst (reap_loop n E c s))"
proof (induction n arbitrary: c s)
  case (Suc n)
  then show ?case using begin_destroy_ok by (auto split: option.split)
qed simp

lemma reap_empty_ok: "tree_ok s \<Longrightarrow> tree_ok (container_reap_empty E c s)"
  unfolding container_reap_empty_def Let_def
  using reap_loop_ok[of s "next_id s + 1" "Some c"] keepsD[OF consider_destroy_keeps]
  by (auto split: prod.split option.split)

end

end
