(* ===== verification/Columns.thy ===== *)
theory Columns
  imports Destroy
begin

text \<open>
  Columns of a workspace (sway/tree/workspace.c): opening a window in a new column, merging columns
  that no longer fit, inserting and exchanging columns, dropping a window next to another, and
  switching a container between tiling and floating (container_set_floating of container.c).
\<close>

section \<open>A new column\<close>

definition bounded_width :: "constraints \<Rightarrow> rat \<Rightarrow> rat \<Rightarrow> rat" where
  "bounded_width k floor_w width =
     max (if k_max_w k \<noteq> DBL_MAX then min width (k_max_w k) else width) floor_w"

definition bounded_height :: "constraints \<Rightarrow> rat \<Rightarrow> rat" where
  "bounded_height k height =
     (let h = (if k_min_h k \<noteq> DBL_MIN then max height (k_min_h k) else height) in
      if k_max_h k \<noteq> DBL_MAX then min h (k_max_h k) else h)"

definition workspace_create_new_column :: "env \<Rightarrow> id \<Rightarrow> id \<Rightarrow> rat \<Rightarrow> rat \<Rightarrow> sway \<Rightarrow> id \<times> sway" where
  "workspace_create_new_column E w view width_px height_px s =
     (case container_create None s of
        (col, s) \<Rightarrow>
          (let s = upd_con col (\<lambda>x. x\<lparr>c_layout := L_VERT, c_workspace := Some w\<rparr>) s;
               s = container_add_child E col view s;
               k = container_get_size_constraints s col; ws = wss s w;
               floor_w = max (workspace_width_fraction ws (cfg_min_column_width_fraction (cfg s)))
                             (if k_min_w k \<noteq> DBL_MIN then k_min_w k else 0);
               s = column_set_width_px col
                     (bounded_width k floor_w (if width_px < 0 then of_int (w_width ws) else width_px)) s;
               s = (if height_px < 0
                    then upd_con view (\<lambda>x. x\<lparr>c_height_fraction := 1,
                           c_height := bounded_height k (of_int (w_height ws))\<rparr>) s
                    else upd_con view (\<lambda>x. x\<lparr>c_height_fraction := workspace_height_to_fraction ws height_px,
                           c_height := height_px\<rparr>) s) in
           (col, node_set_dirty (N_CONTAINER col) s)))"

definition workspace_create_new_column_at :: "env \<Rightarrow> id \<Rightarrow> id \<Rightarrow> int \<Rightarrow> sway \<Rightarrow> id \<times> sway" where
  "workspace_create_new_column_at E w view index s =
     workspace_create_new_column E w view
       (workspace_clamp_column_width s (wss s w) (workspace_view_remaining_width s w (index - 1))) (-1) s"

section \<open>Columns that no longer fit\<close>

definition columns_min_width :: "sway \<Rightarrow> id \<Rightarrow> rat" where
  "columns_min_width s w =
     (let ws = wss s w; cols = w_tiling ws;
          cfg_min_px = workspace_width_fraction ws (cfg_min_column_width_fraction (cfg s)) in
      sum_list (map (\<lambda>c. max (k_min_w (container_get_size_constraints s c)) cfg_min_px) cols)
        + of_int (w_gaps_inner ws * (int (length cols) - 1)))"

text \<open>A stack whose children are together too tall for it becomes tabbed.\<close>

definition tab_if_too_tall :: "id \<Rightarrow> id \<Rightarrow> sway \<Rightarrow> sway" where
  "tab_if_too_tall w dst s =
     (let kids = c_children (cons s dst);
          col_h = (if c_height (cons s dst) > 0 then c_height (cons s dst) else of_int (w_height (wss s w)));
          sum_min_h = sum_list (map (\<lambda>c. let h = k_min_h (container_get_size_constraints s c) in
                        if h \<noteq> DBL_MIN then h else 0) kids) in
      if c_layout (cons s dst) = L_VERT \<and> kids \<noteq> []
         \<and> sum_min_h + of_int (w_gaps_inner (wss s w) * (int (length kids) - 1)) > col_h + 1 / 2
      then upd_con dst (\<lambda>x. x\<lparr>c_layout := L_TABBED\<rparr>) s else s)"

text \<open>
  The last column is merged into the one before its neighbour, or into the neighbour when there is
  no other; every round has one column less.
\<close>

fun fix_overflow_loop :: "nat \<Rightarrow> env \<Rightarrow> id \<Rightarrow> sway \<Rightarrow> sway" where
  "fix_overflow_loop 0 E w s = s"
| "fix_overflow_loop (Suc fuel) E w s =
     (let cols = w_tiling (wss s w); n = length cols in
      if n \<le> 1 then s
      else if columns_min_width s w \<le> of_int (w_width (wss s w)) + 1 / 2 then s
      else
        (let src = cols ! (n - 1); dst = cols ! (if n \<ge> 3 then n - 3 else n - 2);
             s = (if c_view (cons s src) \<noteq> None then container_add_child E dst src s
                  else fold (container_add_child E dst) (c_children (cons s src)) s);
             s = tab_if_too_tall w dst s in
         fix_overflow_loop fuel E w (container_begin_destroy E src s)))"

definition workspace_fix_overflow :: "env \<Rightarrow> id \<Rightarrow> sway \<Rightarrow> sway" where
  "workspace_fix_overflow E w s =
     (if w_width (wss s w) \<le> 0 then s
      else
        (let s = fix_overflow_loop (length (w_tiling (wss s w))) E w s in
         node_set_dirty (N_WORKSPACE w) (workspace_update_representation w (arrange_workspace w s))))"

section \<open>Opening a window\<close>

definition detach_and_reap :: "env \<Rightarrow> id \<Rightarrow> sway \<Rightarrow> sway" where
  "detach_and_reap E c s =
     (if c_workspace (cons s c) \<noteq> None
      then (let old_parent = c_parent (cons s c); s = container_detach c s in
            case old_parent of None \<Rightarrow> s | Some p \<Rightarrow> container_reap_empty E p s)
      else s)"

text \<open>The new column goes right of the column that has the focus, or to the end.\<close>

definition focused_column :: "env \<Rightarrow> sway \<Rightarrow> id \<Rightarrow> int" where
  "focused_column E s w =
     (case seat_get_focus_inactive s (seat_at s (input_manager_current_seat E s)) (N_WORKSPACE w) of
        Some (N_CONTAINER c) \<Rightarrow>
          if container_is_floating_or_child s c then int (length (w_tiling (wss s w)))
          else (let i = index_of (container_toplevel_ancestor s c) (w_tiling (wss s w)) in
                if i \<ge> 0 then i else int (length (w_tiling (wss s w))))
      | _ \<Rightarrow> int (length (w_tiling (wss s w))))"

definition place_column_at :: "env \<Rightarrow> id \<Rightarrow> id \<Rightarrow> int \<Rightarrow> sway \<Rightarrow> sway" where
  "place_column_at E w col idx s =
     (let s = upd_list (Tiling_of w) (insert_at (nat idx) col) s;
          s = adopt col (c_parent (cons s col)) (Some w) s;
          s = container_handle_fullscreen_reparent E col s;
          s = workspace_update_representation w s in
      node_set_dirty (N_CONTAINER col) (node_set_dirty (N_WORKSPACE w) s))"

definition workspace_add_tiling :: "env \<Rightarrow> id \<Rightarrow> id \<Rightarrow> sway \<Rightarrow> id option \<times> sway" where
  "workspace_add_tiling E w c s =
     (let s = detach_and_reap E c (unpark c s); was_view = (c_view (cons s c) \<noteq> None);
          focus_idx = focused_column E s w;
          (col, s) = (if was_view then workspace_create_new_column_at E w c (-1) s
                      else (c, upd_con c (\<lambda>x. x\<lparr>c_parent := None\<rparr>) s));
          n = int (length (w_tiling (wss s w)));
          idx = (if focus_idx \<ge> 0 \<and> focus_idx < n then focus_idx + 1 else n);
          s = place_column_at E w col idx s;
          s = (if was_view then workspace_fit_new_column w col idx s else s);
          s = workspace_fix_overflow E w s in
      (if was_view then Some c
       else if index_of col (w_tiling (wss s w)) < 0
       then (case w_tiling (wss s w) of [] \<Rightarrow> None | d # _ \<Rightarrow> Some d)
       else Some col,
       s))"

section \<open>Inserting a column\<close>

text \<open>The workspace the container came from, and the state.\<close>

definition workspace_insert_column :: "env \<Rightarrow> id \<Rightarrow> id \<Rightarrow> int \<Rightarrow> sway \<Rightarrow> id option \<times> sway" where
  "workspace_insert_column E w c index s =
     (let old_ws = c_workspace (cons s c); s = unpark c s;
          s = (case c_parent (cons s c) of None \<Rightarrow> s
               | Some p \<Rightarrow> (let s = container_detach c s in
                            if c_children (cons s p) = [] then container_reap_empty E p s else s));
          (col, s) = (if c_view (cons s c) \<noteq> None then workspace_create_new_column_at E w c index s else (c, s));
          s = (if c_workspace (cons s col) \<noteq> None \<and> c_workspace (cons s col) \<noteq> Some w
               then container_detach col s else s);
          n = int (length (w_tiling (wss s w))); index = min (max index 0) n;
          cur = index_of col (w_tiling (wss s w)) in
      if cur \<ge> 0 \<and> cur = index then (old_ws, s)
      else
        (let s = (if cur \<ge> 0 then upd_list (Tiling_of w) (delete_at (nat cur)) s else s);
             index = (if cur \<ge> 0 \<and> cur < index then index - 1 else index) in
         (old_ws, place_column_at E w col index (upd_con col (\<lambda>x. x\<lparr>c_parent := None\<rparr>) s))))"

section \<open>Dropping a window\<close>

datatype edge = EDGE_NONE | EDGE_TOP | EDGE_BOTTOM | EDGE_LEFT | EDGE_RIGHT

definition reorder :: "id \<Rightarrow> id \<Rightarrow> edge \<Rightarrow> bool \<Rightarrow> id list \<Rightarrow> id list" where
  "reorder view target edge after xs =
     (let vi = index_of view xs; ti = index_of target xs in
      if vi < 0 \<or> ti < 0 then xs
      else if edge = EDGE_NONE then swap_at (nat vi) (nat ti) xs
      else
        (let ys = delete_at (nat vi) xs; ti = index_of target ys in
         if ti \<ge> 0 then insert_at (nat (ti + (if after then 1 else 0))) view ys else ys))"

definition drop_index :: "sway \<Rightarrow> id \<Rightarrow> id \<Rightarrow> bool \<Rightarrow> int" where
  "drop_index s w target_col after =
     (let ti = index_of target_col (w_tiling (wss s w)) in
      if ti \<ge> 0 then ti + (if after then 1 else 0)
      else if after then int (length (w_tiling (wss s w))) else 0)"

definition drop_into_column :: "env \<Rightarrow> id \<Rightarrow> id \<Rightarrow> id \<Rightarrow> bool \<Rightarrow> sway \<Rightarrow> sway" where
  "drop_into_column E view target col after s =
     (let kids = c_children (cons s col); ti = index_of target kids;
          ti = (if ti < 0 then (if after then int (length kids) else 0) else ti);
          s = upd_list (Children_of col) (insert_at (nat (ti + (if after then 1 else 0))) view) s;
          s = adopt view (Some col) (c_workspace (cons s col)) s in
      container_fit_vertical_children (Some col) (Some view) s)"

definition reap_if_empty :: "env \<Rightarrow> id option \<Rightarrow> sway \<Rightarrow> sway" where
  "reap_if_empty E p s =
     (case p of None \<Rightarrow> s | Some p \<Rightarrow> if c_children (cons s p) = [] then container_reap_empty E p s else s)"

definition workspace_insert_window :: "env \<Rightarrow> id \<Rightarrow> id \<Rightarrow> id \<Rightarrow> edge \<Rightarrow> bool \<Rightarrow> sway \<Rightarrow> id option \<times> sway" where
  "workspace_insert_window E w view target edge after s =
     (if view = target then (c_workspace (cons s view), s)
      else
        (let old_ws = c_workspace (cons s view);
             view_col = container_toplevel_ancestor s view; target_col = container_toplevel_ancestor s target in
         if view_col = target_col \<and> target \<noteq> view_col
         then (old_ws, upd_list (Children_of view_col) (reorder view target edge after) s)
         else if view_col \<noteq> target_col \<and> (edge = EDGE_LEFT \<or> edge = EDGE_RIGHT)
           \<and> c_children (cons s view_col) = [view]
         then (old_ws, snd (workspace_insert_column E w view_col (drop_index s w target_col after) s))
         else
           (let old_parent = c_parent (cons s view); s = container_detach view s;
                s = (if edge = EDGE_TOP \<or> edge = EDGE_BOTTOM \<or> edge = EDGE_NONE
                     then drop_into_column E view target target_col after s
                     else snd (workspace_insert_column E w view (drop_index s w target_col after) s)) in
            (old_ws, reap_if_empty E old_parent s))))"

section \<open>Exchanging\<close>

definition swap_widths :: "id \<Rightarrow> id \<Rightarrow> sway \<Rightarrow> sway \<Rightarrow> sway" where
  "swap_widths a b old s =
     upd_con b (\<lambda>x. x\<lparr>c_width_fraction := c_width_fraction (cons old a), c_width := c_width (cons old a)\<rparr>)
       (upd_con a (\<lambda>x. x\<lparr>c_width_fraction := c_width_fraction (cons old b), c_width := c_width (cons old b)\<rparr>) s)"

definition swapped_in_row :: "id \<Rightarrow> id \<Rightarrow> int \<Rightarrow> int \<Rightarrow> id list \<Rightarrow> id list" where
  "swapped_in_row a b idx_a idx_b xs =
     (let xs = insert_at (nat (if idx_b > idx_a then idx_b - 1 else idx_b)) a (delete_at (nat idx_a) xs);
          nb = index_of b xs in
      if nb \<ge> 0 then insert_at (nat idx_a) b (delete_at (nat nb) xs) else xs)"

definition exchange_columns :: "env \<Rightarrow> id \<Rightarrow> id \<Rightarrow> id \<Rightarrow> id \<Rightarrow> int \<Rightarrow> int \<Rightarrow> sway \<Rightarrow> sway" where
  "exchange_columns E a b ws_a ws_b idx_a idx_b old =
     (let s = container_detach b (container_detach a old);
          idx_a = min idx_a (int (length (w_tiling (wss s ws_b))));
          idx_b = min idx_b (int (length (w_tiling (wss s ws_a))));
          s = upd_list (Tiling_of ws_b) (insert_at (nat idx_a) a) s;
          s = upd_list (Tiling_of ws_a) (insert_at (nat idx_b) b) s;
          s = upd_con a (\<lambda>x. x\<lparr>c_workspace := Some ws_b\<rparr>) s;
          s = upd_con b (\<lambda>x. x\<lparr>c_workspace := Some ws_a\<rparr>) s;
          s = swap_widths a b old s;
          s = container_for_each_child b set_workspace (container_for_each_child a set_workspace s);
          s = container_handle_fullscreen_reparent E b (container_handle_fullscreen_reparent E a s) in
      node_set_dirty (N_WORKSPACE ws_b) (node_set_dirty (N_WORKSPACE ws_a) s))"

definition workspace_swap_columns :: "env \<Rightarrow> id \<Rightarrow> id \<Rightarrow> sway \<Rightarrow> sway" where
  "workspace_swap_columns E a b s =
     (if a = b then s
      else case (c_workspace (cons s a), c_workspace (cons s b)) of
        (Some ws_a, Some ws_b) \<Rightarrow>
          (let idx_a = index_of a (w_tiling (wss s ws_a)); idx_b = index_of b (w_tiling (wss s ws_b)) in
           if idx_a < 0 \<or> idx_b < 0 then s
           else
             (let s = (if ws_a = ws_b
                    then node_set_dirty (N_WORKSPACE ws_a)
                           (swap_widths a b s (upd_list (Tiling_of ws_a) (swapped_in_row a b idx_a idx_b) s))
                    else exchange_columns E a b ws_a ws_b idx_a idx_b s);
                  s = workspace_update_representation ws_a s;
                  s = (if ws_b \<noteq> ws_a then workspace_update_representation ws_b s else s) in
              node_set_dirty (N_CONTAINER b) (node_set_dirty (N_CONTAINER a) s)))
      | _ \<Rightarrow> s)"

definition swap_positions :: "id \<Rightarrow> id \<Rightarrow> sway \<Rightarrow> sway \<Rightarrow> sway" where
  "swap_positions a b old s =
     upd_con b (\<lambda>x. x\<lparr>c_x := c_x (cons old a), c_y := c_y (cons old a)\<rparr>)
       (upd_con a (\<lambda>x. x\<lparr>c_x := c_x (cons old b), c_y := c_y (cons old b)\<rparr>) s)"

definition exchange_floating :: "env \<Rightarrow> id \<Rightarrow> id \<Rightarrow> id \<Rightarrow> id \<Rightarrow> sway \<Rightarrow> sway" where
  "exchange_floating E a b ws_a ws_b old =
     (let s = container_detach b (container_detach a old);
          s = upd_list (Floating_of ws_b) (\<lambda>xs. xs @ [a]) s;
          s = upd_list (Floating_of ws_a) (\<lambda>xs. xs @ [b]) s;
          s = upd_con a (\<lambda>x. x\<lparr>c_workspace := Some ws_b\<rparr>) s;
          s = upd_con b (\<lambda>x. x\<lparr>c_workspace := Some ws_a\<rparr>) s;
          s = swap_positions a b old s;
          s = container_for_each_child b set_workspace (container_for_each_child a set_workspace s);
          s = container_handle_fullscreen_reparent E b (container_handle_fullscreen_reparent E a s) in
      node_set_dirty (N_WORKSPACE ws_b) (node_set_dirty (N_WORKSPACE ws_a) s))"

text \<open>Both containers are on a workspace; the source dereferences them.\<close>

definition workspace_swap_floating :: "env \<Rightarrow> id \<Rightarrow> id \<Rightarrow> sway \<Rightarrow> sway" where
  "workspace_swap_floating E a b s =
     (if a = b then s
      else case (c_workspace (cons s a), c_workspace (cons s b)) of
        (Some ws_a, Some ws_b) \<Rightarrow>
          (let s = (if ws_a = ws_b then swap_positions a b s s else exchange_floating E a b ws_a ws_b s);
               s = node_set_dirty (N_CONTAINER b) (node_set_dirty (N_CONTAINER a) s);
               s = workspace_update_representation ws_a s in
           if ws_b \<noteq> ws_a then workspace_update_representation ws_b s else s)
      | _ \<Rightarrow> s)"

section \<open>Pulling a column here\<close>

definition workspace_pull_column :: "env \<Rightarrow> id \<Rightarrow> id \<Rightarrow> int \<Rightarrow> sway \<Rightarrow> sway" where
  "workspace_pull_column E w col insert_idx s =
     (let fs = (if c_fullscreen (cons s col) \<noteq> FULLSCREEN_NONE then Some col
                else List.find (\<lambda>c. c_fullscreen (cons s c) \<noteq> FULLSCREEN_NONE) (c_children (cons s col)));
          s = (case fs of None \<Rightarrow> s | Some f \<Rightarrow> container_set_fullscreen E f FULLSCREEN_NONE s);
          s = (case w_fullscreen (wss s w) of None \<Rightarrow> s
               | Some f \<Rightarrow> container_set_fullscreen E f FULLSCREEN_NONE s);
          old_ws = c_workspace (cons s col);
          s = workspace_fit_new_column w col insert_idx s;
          s = arrange_workspace w (snd (workspace_insert_column E w col insert_idx s)) in
      case old_ws of None \<Rightarrow> s
      | Some o' \<Rightarrow>
          if o' = w then s
          else (let s = arrange_workspace o' s in
                if n_destroying (ninfo s (N_WORKSPACE o')) then s else workspace_consider_destroy E o' s))"

section \<open>Tiling and floating\<close>

definition float_borders :: "container \<Rightarrow> container" where
  "float_borders x = (case c_view x of
     Some v \<Rightarrow> if v_using_csd v then x\<lparr>c_saved_border := c_border x, c_border := B_CSD\<rparr> else x | None \<Rightarrow> x)"

definition tile_borders :: "container \<Rightarrow> container" where
  "tile_borders x = (case c_view x of
     Some v \<Rightarrow> if v_using_csd v then x\<lparr>c_border := c_saved_border x\<rparr> else x | None \<Rightarrow> x)"

definition set_floating_on :: "env \<Rightarrow> id \<Rightarrow> id \<Rightarrow> sway \<Rightarrow> sway" where
  "set_floating_on E w c s =
     (let k = input_manager_current_seat E s;
          set_focus = (seat_get_focused_container (seat_at s k) = Some c);
          old_parent = c_parent (cons s c);
          freed_idx = (case old_parent of None \<Rightarrow> -1 | Some p \<Rightarrow> index_of p (w_tiling (wss s w)));
          freed_width = (case old_parent of None \<Rightarrow> 0
            | Some p \<Rightarrow> if freed_idx \<ge> 0 \<and> length (c_children (cons s p)) = 1 then c_width (cons s p) else 0);
          s = workspace_add_floating E w c (container_detach c s);
          s = upd_con c float_borders s;
          s = container_floating_set_default_size (e_layout_box E) c s;
          s = container_floating_resize_and_center (e_layout_box E) (e_output_box E) c s;
          s = (case old_parent of None \<Rightarrow> s
               | Some p \<Rightarrow>
                   container_reap_empty E p
                     (if set_focus then seat_set_raw_focus k (N_CONTAINER c) (seat_set_raw_focus k (N_CONTAINER p) s)
                      else s)) in
      if freed_width > 0 \<and> freed_idx \<ge> 0 then snd (workspace_even_freed w freed_idx freed_width s) else s)"

definition tiling_slot :: "sway \<Rightarrow> id \<Rightarrow> id \<Rightarrow> int" where
  "tiling_slot s w c =
     (let cols = w_tiling (wss s w);
          i = find_index_from 0 (\<lambda>d. c_x (cons s c) - w_x (wss s w) < c_x (cons s d) - w_x (wss s w)) cols in
      if i < 0 then int (length cols) else i)"

definition set_tiling_on :: "env \<Rightarrow> id \<Rightarrow> id \<Rightarrow> sway \<Rightarrow> sway" where
  "set_tiling_on E w c s =
     (let s = (if c_scratchpad (cons s c) then root_scratchpad_remove_container c s else s);
          idx = tiling_slot s w c;
          (col, s) = container_create None (container_detach c s);
          s = upd_con col (\<lambda>x. x\<lparr>c_layout := L_VERT, c_workspace := Some w\<rparr>) s;
          s = container_add_child E col c s;
          s = upd_con col (\<lambda>x. x\<lparr>c_width_fraction := layout_get_default_width s, c_height_fraction := 1,
                c_height := of_int (w_height (wss s w))\<rparr>) s;
          s = (if w_tiling (wss s w) \<noteq> [] then workspace_fit_new_column w col idx s else s);
          s = upd_con c tile_borders s;
          s = upd_list (Tiling_of w) (insert_at (nat idx) col) s;
          s = container_for_each_child col set_workspace s;
          s = container_handle_fullscreen_reparent E col s;
          s = workspace_update_representation w s in
      node_set_dirty (N_CONTAINER col) (node_set_dirty (N_WORKSPACE w) s))"

text \<open>The container is on a workspace; the source dereferences it.\<close>

definition container_set_floating :: "env \<Rightarrow> id \<Rightarrow> bool \<Rightarrow> sway \<Rightarrow> sway" where
  "container_set_floating E c enable s =
     (if container_is_floating s c = enable then s
      else case c_workspace (cons s c) of None \<Rightarrow> s
      | Some w \<Rightarrow>
          emit (Ev_window c ''floating'')
            (if enable then set_floating_on E w c s else set_tiling_on E w c s))"

end
