(* ===== verification/Columns_Laws.thy ===== *)
theory Columns_Laws
  imports Columns
begin

text \<open>
  The column operations keep the invariant of the tree, at any depth of focus moves.
\<close>

lemma even_freed_loop_shape: "same_shape s (snd (even_freed_loop w g cs i r s))"
  by (induction cs arbitrary: i r) (auto intro: same_shape_refl grow_column_shape)

lemma grow_evenly_shape: "same_shape s (snd (viewport_grow_evenly w r s))"
  by (simp add: viewport_grow_evenly_def Let_def same_shape_refl grow_evenly_loop_shape)

lemma even_freed_shape: "same_shape s (snd (workspace_even_freed w idx freed s))"
proof (cases "w_tiling (wss s w) = [] \<or> freed \<le> 0")
  case False
  let ?f = "min (freed + of_int (w_gaps_inner (wss s w))) (of_int (w_width (wss s w)))"
  obtain i t where g: "viewport_grow_evenly w ?f s = (i, t)" by fastforce
  have t: "same_shape s t" using grow_evenly_shape[of s w ?f] by (simp add: g)
  have e: "same_shape t u" if "even_freed_loop w' gp cs j q t = (r, u)" for w' gp cs j q r u
    using even_freed_loop_shape[of t w' gp cs j q] that by simp
  show ?thesis
    using False g t by (auto simp: workspace_even_freed_def Let_def split: prod.split sum.split
        intro!: grow_column_after intro: same_shape_trans[OF t e])
qed (simp add: workspace_even_freed_def Let_def same_shape_refl)

section \<open>A new container\<close>

lemma fresh_id:
  assumes "tree_ok s"
  shows "c_parent (cons s (next_id s)) = None" "c_children (cons s (next_id s)) = []"
    "c_workspace (cons s (next_id s)) = None" "next_id s \<notin> set (roots s w)" "c_parent (cons s d) \<noteq> Some (next_id s)"
proof -
  note st = struct_okD[OF tree_okD(1)[OF assms]]
  show p: "c_parent (cons s (next_id s)) = None"
    using st(3)[of "next_id s"] by (cases "c_parent (cons s (next_id s))") auto
  show q: "c_parent (cons s d) \<noteq> Some (next_id s)" for d using st(3)[of d "next_id s"] by auto
  have "set (c_children (cons s (next_id s))) = {}" by (rule equals0I) (simp add: st(1) q)
  then show "c_children (cons s (next_id s)) = []" by (simp only: set_empty)
  show n: "c_workspace (cons s (next_id s)) = None"
    using tree_okD(7)[OF assms, of "next_id s"] by (cases "c_workspace (cons s (next_id s))") auto
  show "next_id s \<notin> set (roots s w)" using tree_okD(5)[OF assms, of "next_id s" w] n by auto
qed

lemma container_create_fields:
  assumes "container_create v s = (c, t)"
  shows "c = next_id s" "next_id t = Suc (next_id s)" "wss t = wss s"
    "cons t = (cons s)(next_id s := con_zero\<lparr>c_view := v, c_alpha := 1\<rparr>)"
  using assms by (auto simp: container_create_def node_init_def handle_new_node_def Let_def con_zero_def)

lemma new_container_ok:
  assumes ok: "tree_ok s" and new: "container_create v s = (c, t)"
    and f: "\<And>x. c_parent (f x) = c_parent x \<and> c_children (f x) = c_children x \<and> c_view (f x) = c_view x"
  shows "tree_ok (upd_con c f t)" and "stray (upd_con c f t) c"
    and "c_workspace (cons (upd_con c f t) c) = c_workspace (f (con_zero\<lparr>c_view := v, c_alpha := 1\<rparr>))"
    and "next_id (upd_con c f t) = Suc (next_id s)" "c = next_id s"
    and "\<And>d. d \<noteq> c \<Longrightarrow> cons (upd_con c f t) d = cons s d" and "wss (upd_con c f t) = wss s"
    and "c_view (cons (upd_con c f t) c) = v"
proof -
  note cr = container_create_fields[OF new]
  let ?u = "upd_con c f t"
  note st = struct_okD[OF tree_okD(1)[OF ok]] and fr = fresh_id[OF ok]
  show n: "next_id ?u = Suc (next_id s)" "c = next_id s" by (simp_all add: cr)
  show o: "cons ?u d = cons s d" if "d \<noteq> c" for d using that by (simp add: cr)
  show w: "wss ?u = wss s" by (simp add: cr)
  have cc: "c_parent (cons ?u c) = None" "c_children (cons ?u c) = []" using f by (simp_all add: cr con_zero_def)
  show "c_view (cons ?u c) = v" using f by (simp add: cr)
  have pa: "c_parent (cons ?u d) = c_parent (cons s d)" for d using cc(1) o fr(1) n(2) by (cases "d = c") simp_all
  have ch: "c_children (cons ?u d) = c_children (cons s d)" for d using cc(2) o fr(2) n(2) by (cases "d = c") simp_all
  have ro: "roots ?u v = roots s v" for v by (simp add: roots_def cr)
  show ws: "c_workspace (cons ?u c) = c_workspace (f (con_zero\<lparr>c_view := v, c_alpha := 1\<rparr>))" by (simp add: cr)
  show "stray ?u c" unfolding stray_def pa ro using fr(1,4) n(2) by simp
  have rel: "parent_rel ?u = parent_rel s" by (simp only: parent_rel_def pa)
  have "struct_ok ?u"
    unfolding struct_ok_def pa ch rel n(1) using st(1-4) o st(5) fr(2) n(2)
    by (auto simp: less_Suc_eq)
  then show "tree_ok ?u"
  proof (rule tree_okI)
    fix d p assume d: "c_parent (cons ?u d) = Some p"
    then have "c_parent (cons s d) = Some p" by (simp only: pa)
    moreover from this have "d \<noteq> c" "p \<noteq> c" using fr(1,5) n(2) by auto
    ultimately show "c_workspace (cons ?u d) = c_workspace (cons ?u p)" using tree_okD(2)[OF ok] o by simp
  next
    fix v show "distinct (roots ?u v)" unfolding ro by (rule tree_okD(3)[OF ok])
  next
    fix v d assume "d \<in> set (roots ?u v)"
    then have d: "d \<in> set (roots s v)" by (simp only: ro)
    then have "d \<noteq> c" using fr(4) n(2) by blast
    then show "c_parent (cons ?u d) = None" "c_workspace (cons ?u d) = Some v"
      using tree_okD(4,5)[OF ok d] o by simp_all
  next
    fix v g assume "w_fullscreen (wss ?u v) = Some g"
    then have g: "c_workspace (cons s g) = Some v" using tree_okD(6)[OF ok] w by simp
    then have "g \<noteq> c" using fr(3) n(2) by auto
    then show "c_workspace (cons ?u g) = Some v" using g o by simp
  next
    fix d v assume "c_workspace (cons ?u d) = Some v"
    then show "d < next_id ?u" using tree_okD(7)[OF ok, of d v] o n by (cases "d = c") auto
  qed
qed

section \<open>A new column\<close>

context refocusing
begin

text \<open>A new container that takes the view, before and after later steps that move nothing else.\<close>

lemma holder_moves:
  assumes ok: "tree_ok s" and at: "attachable s view" and cr: "container_create None s = (c, t0)"
    and t: "t = upd_con c (\<lambda>x. x\<lparr>c_layout := L_VERT, c_workspace := Some w\<rparr>) t0"
  shows "moves t view (Some c) (container_add_child E c view t)"
proof -
  note n = new_container_ok[OF ok cr, of "\<lambda>x. x\<lparr>c_layout := L_VERT, c_workspace := Some w\<rparr>", folded t]
  have ok_t: "tree_ok t" and id_t: "next_id t = Suc (next_id s)" "c = next_id s" and vw: "c_view (cons t c) = None"
    and old_t: "\<And>d. d \<noteq> c \<Longrightarrow> cons t d = cons s d" and par: "c_parent (cons t c) = None"
    using n by (simp_all add: stray_def)
  have vc: "view \<noteq> c" using at id_t by (simp add: attachable_def)
  have at': "attachable t view" using at old_t[OF vc] id_t by (simp add: attachable_def)
  have hold: "can_hold t c view" unfolding can_hold_def using vc descendants_none[OF par] id_t vw by simp
  show ?thesis by (rule add_child_moves[OF ok_t at' hold])
qed

lemma holder_facts:
  assumes ok: "tree_ok s" and at: "attachable s view" and cr: "container_create None s = (c, t0)"
    and t: "t = upd_con c (\<lambda>x. x\<lparr>c_layout := L_VERT, c_workspace := Some w\<rparr>) t0" and mm: "moves t view (Some c) u"
  shows "c = next_id s" "tree_ok u" "stray u c" "c_workspace (cons u c) = Some w"
    "next_id u = Suc (next_id s)" "c_view (cons u c) = None"
    "c_parent (cons u d) = (if d = view then Some c else c_parent (cons s d))"
    "(c_view (cons u d) = None) = (c_view (cons s d) = None \<or> d = c)"
    "d \<noteq> view \<Longrightarrow> d \<noteq> c \<Longrightarrow> stray s d \<Longrightarrow> stray u d \<and> c_workspace (cons u d) = c_workspace (cons s d)"
    "others {view} (w_tiling (wss u v)) = others {view} (w_tiling (wss s v))"
proof -
  note n = new_container_ok[OF ok cr, of "\<lambda>x. x\<lparr>c_layout := L_VERT, c_workspace := Some w\<rparr>", folded t]
  have st_t: "stray t c" and ws_t: "c_workspace (cons t c) = Some w"
    and id_t: "next_id t = Suc (next_id s)" "c = next_id s" and old_t: "\<And>d. d \<noteq> c \<Longrightarrow> cons t d = cons s d"
    and wss_t: "wss t = wss s" and vw_t: "c_view (cons t c) = None"
    using n by simp_all
  have vc: "view \<noteq> c" using at id_t by (simp add: attachable_def)
  have par: "c_parent (cons t c) = None" using st_t by (simp add: stray_def)
  note r = reparentedD[OF movesD(2)[OF mm]]
  show "c = next_id s" by (rule id_t)
  show "tree_ok u" by (rule movesD(1)[OF mm])
  show "stray u c" "c_workspace (cons u c) = Some w" using moves_stray[OF mm st_t] vc ws_t by auto
  show "next_id u = Suc (next_id s)" using r(1) id_t by simp
  show "c_view (cons u c) = None" using r(3)[of c] vw_t by simp
  show "c_parent (cons u d) = (if d = view then Some c else c_parent (cons s d))"
    using r(2)[of d] vc par fresh_id(1)[OF ok] id_t(2) old_t[of d] by (cases "d = c") simp_all
  show "(c_view (cons u d) = None) = (c_view (cons s d) = None \<or> d = c)"
    using r(3)[of d] vw_t old_t[of d] by (cases "d = c") simp_all
  show "stray u d \<and> c_workspace (cons u d) = c_workspace (cons s d)" if "d \<noteq> view" "d \<noteq> c" "stray s d"
  proof -
    have d: "cons t d = cons s d" using that old_t[of d] by simp
    have "stray t d" using that(3) d wss_t by (simp add: stray_def roots_def)
    then show ?thesis using moves_stray[OF mm, of d] that(1) d by simp
  qed
  show "others {view} (w_tiling (wss u v)) = others {view} (w_tiling (wss s v))"
    using moves_tiling[OF mm, of v] wss_t by simp
qed

lemma new_column:
  assumes ok: "tree_ok s" and at: "attachable s view"
    and new: "workspace_create_new_column E w view a b s = (col, u)"
  shows "col = next_id s" "tree_ok u" "stray u col" "c_workspace (cons u col) = Some w"
    "next_id u = Suc (next_id s)" "c_view (cons u col) = None"
    "c_parent (cons u d) = (if d = view then Some col else c_parent (cons s d))"
    "(c_view (cons u d) = None) = (c_view (cons s d) = None \<or> d = col)"
    "d \<noteq> view \<Longrightarrow> d \<noteq> col \<Longrightarrow> stray s d \<Longrightarrow> stray u d \<and> c_workspace (cons u d) = c_workspace (cons s d)"
    "others {view} (w_tiling (wss u v)) = others {view} (w_tiling (wss s v))"
proof -
  obtain c t0 where cr: "container_create None s = (c, t0)" by fastforce
  define t where "t = upd_con c (\<lambda>x. x\<lparr>c_layout := L_VERT, c_workspace := Some w\<rparr>) t0"
  note eq = new[unfolded workspace_create_new_column_def cr prod.case Let_def, folded t_def]
  have col: "c = col" using eq by (rule Pair_inject)
  have "same_shape (container_add_child E c view t) (snd (col, u))"
    unfolding eq[symmetric] snd_conv
    by (intro same_shape_dirty_after same_shape_if same_shape_upd_con_after column_set_width_px_shape; simp)
  then have rest: "same_shape (container_add_child E c view t) u" by (simp only: snd_conv)
  note mm = moves_keeps[OF holder_moves[OF ok at cr t_def] same_shape_keeps[OF rest]]
  note f = holder_facts[OF ok at cr t_def mm, unfolded col]
  show "col = next_id s" "tree_ok u" "stray u col" "c_workspace (cons u col) = Some w"
    "next_id u = Suc (next_id s)" "c_view (cons u col) = None"
    "c_parent (cons u d) = (if d = view then Some col else c_parent (cons s d))"
    "(c_view (cons u d) = None) = (c_view (cons s d) = None \<or> d = col)"
    "d \<noteq> view \<Longrightarrow> d \<noteq> col \<Longrightarrow> stray s d \<Longrightarrow> stray u d \<and> c_workspace (cons u d) = c_workspace (cons s d)"
    "others {view} (w_tiling (wss u v)) = others {view} (w_tiling (wss s v))"
    by (rule f; assumption)+
qed

lemma place_column_keeps:
  assumes "loose s w col" "col < next_id s"
  shows "keeps_but {col} s (place_column_at E w col idx s)"
proof -
  have par: "c_parent (cons s col) = None" using assms(1) by (simp add: loose_def)
  show ?thesis unfolding place_column_at_def Let_def
    by (simp only: upd_list_simps par)
      (rule keeps_trans[OF link_root_keeps[OF assms disjI1[OF refl] inserts_insert_at[of "nat idx"]]],
       rule keeps_weaken, intro keeps_dirty_after shape_keeps[OF _ update_workspace_representation_shape] reparent_keeps)
qed

end

section \<open>Reaping leaves a detached container alone\<close>

lemma ancestors_mono:
  assumes "parent_rel t \<subseteq> parent_rel s" shows "ancestors t c \<subseteq> ancestors s c"
  unfolding ancestors_def using trancl_mono[OF _ assms] by blast

text \<open>What the steps below keep about a stray container c.\<close>

definition leaves_stray :: "id \<Rightarrow> sway \<Rightarrow> sway \<Rightarrow> bool" where
  "leaves_stray c s t \<longleftrightarrow> tree_ok t \<and> next_id t = next_id s \<and> stray t c
     \<and> c_workspace (cons t c) = c_workspace (cons s c) \<and> (c_view (cons t c) = None) = (c_view (cons s c) = None)"

lemma leaves_stray_refl: "tree_ok s \<Longrightarrow> stray s c \<Longrightarrow> leaves_stray c s s"
  by (simp add: leaves_stray_def)

lemma leaves_stray_trans: "leaves_stray c s t \<Longrightarrow> leaves_stray c t u \<Longrightarrow> leaves_stray c s u"
  by (simp add: leaves_stray_def)

lemma moves_leaves: "moves s d P t \<Longrightarrow> stray s c \<Longrightarrow> c \<noteq> d \<Longrightarrow> leaves_stray c s t"
  using moves_stray[of s d P t c] by (auto simp: leaves_stray_def moves_def reparented_def)

lemma keeps_leaves: "keeps s t \<Longrightarrow> tree_ok s \<Longrightarrow> stray s c \<Longrightarrow> leaves_stray c s t"
  using keeps_stray[of "{}" s t c] by (auto simp: leaves_stray_def keeps_but_def same_forest_def)

context refocusing
begin

lemma reap_loop_leaves:
  "tree_ok s \<Longrightarrow> stray s c \<Longrightarrow> (\<forall>p. q = Some p \<longrightarrow> c \<notin> insert p (ancestors s p)) \<Longrightarrow>
   leaves_stray c s (fst (reap_loop n E q s))"
proof (induction n arbitrary: q s)
  case (Suc n)
  show ?case
  proof (cases q)
    case (Some p)
    let ?t = "container_begin_destroy E p s"
    have cp: "c \<noteq> p" "c \<notin> ancestors s p" using Suc.prems(3) Some by auto
    note m = begin_destroy_moves[OF Suc.prems(1), of p]
    note l = moves_leaves[OF m Suc.prems(2) cp(1)]
    have sub: "parent_rel ?t \<subseteq> parent_rel s"
      using reparentedD(2)[OF movesD(2)[OF m]] by (auto simp: parent_rel_def split: if_splits)
    have "\<forall>r. c_parent (cons s p) = Some r \<longrightarrow> c \<notin> insert r (ancestors ?t r)"
      using cp(2) ancestors_step[of s p] ancestors_mono[OF sub] by blast
    then have "leaves_stray c ?t (fst (reap_loop n E (c_parent (cons s p)) ?t))"
      by (intro Suc.IH) (use l in \<open>auto simp: leaves_stray_def\<close>)
    then show ?thesis
      using Some leaves_stray_trans[OF l] leaves_stray_refl[OF Suc.prems(1,2)] by auto
  qed (use Suc.prems leaves_stray_refl in simp)
qed (simp add: leaves_stray_refl)

lemma reap_empty_leaves:
  assumes "tree_ok s" "stray s c" "c \<notin> insert p (ancestors s p)"
  shows "leaves_stray c s (container_reap_empty E p s)"
proof -
  obtain t b where r: "reap_loop (next_id s + 1) E (Some p) s = (t, b)" by fastforce
  have "leaves_stray c s (fst (reap_loop (next_id s + 1) E (Some p) s))"
    by (rule reap_loop_leaves[OF assms(1,2)]) (use assms(3) in simp)
  then have l: "leaves_stray c s t" by (simp only: r fst_conv)
  then have "leaves_stray c s (workspace_consider_destroy E w t)" for w
    by (intro leaves_stray_trans[OF l keeps_leaves[OF consider_destroy_keeps]]) (simp_all add: leaves_stray_def)
  then show ?thesis
    unfolding container_reap_empty_def Let_def r using l leaves_stray_refl[OF assms(1,2)]
    by (auto split: option.split)
qed

lemma detach_stray: "tree_ok s \<Longrightarrow> stray (container_detach c s) c"
  unfolding stray_def
proof (intro conjI allI)
  assume ok: "tree_ok s"
  have un: "unlinked (container_detach c s) c" by (rule detach_unlinked[OF ok])
  then show "c_parent (cons (container_detach c s) c) = None" by (simp add: unlinked_def)
  show "c \<notin> set (roots (container_detach c s) w)" for w by (rule unlinked_not_root[OF detach_ok[OF ok] un])
qed

text \<open>After detaching a container its old parent and the ancestors of it are still not below it.\<close>

lemma detached_not_above:
  assumes "tree_ok s" "c_parent (cons s c) = Some p"
  shows "c \<notin> insert p (ancestors (container_detach c s) p)"
proof -
  have sub: "parent_rel (container_detach c s) \<subseteq> parent_rel s"
    using reparentedD(2)[OF movesD(2)[OF detach_moves[OF assms(1), of c]]] by (auto simp: parent_rel_def split: if_splits)
  have "c \<notin> ancestors s c" by (rule not_own_ancestor[OF tree_okD(1)[OF assms(1)]])
  then show ?thesis using ancestors_step[OF assms(2)] ancestors_mono[OF sub, of p] by auto
qed

lemma detach_and_reap_spec:
  assumes ok: "tree_ok s" and at: "attachable s c"
  shows "tree_ok (detach_and_reap E c s)" "stray (detach_and_reap E c s) c"
    "c_workspace (cons (detach_and_reap E c s) c) = None" "next_id (detach_and_reap E c s) = next_id s"
    "(c_view (cons (detach_and_reap E c s) c) = None) = (c_view (cons s c) = None)"
proof -
  let ?t = "detach_and_reap E c s"
  have *: "leaves_stray c s ?t \<and> c_workspace (cons ?t c) = None
      \<or> (\<exists>d. moves s c None d \<and> stray d c \<and> c_workspace (cons d c) = None \<and> leaves_stray c d ?t)"
  proof (cases "c_workspace (cons s c) = None")
    case True
    then have "unlinked s c" using at by (simp add: attachable_def unlinked_def)
    then have "stray s c" using unlinked_not_root[OF ok] by (auto simp: stray_def unlinked_def)
    then show ?thesis using True leaves_stray_refl[OF ok] by (simp add: detach_and_reap_def)
  next
    case False
    let ?d = "container_detach c s"
    have d: "moves s c None ?d" "stray ?d c" "c_workspace (cons ?d c) = None"
      using detach_moves[OF ok] detach_stray[OF ok] detach_unlinked[OF ok, of c] by (simp_all add: unlinked_def)
    have "leaves_stray c ?d ?t"
      using False leaves_stray_refl[OF movesD(1)[OF d(1)] d(2)]
        reap_empty_leaves[OF movesD(1)[OF d(1)] d(2) detached_not_above[OF ok]]
      by (auto simp: detach_and_reap_def Let_def split: option.split)
    then show ?thesis using d by blast
  qed
  then show "tree_ok ?t" "stray ?t c" "c_workspace (cons ?t c) = None" "next_id ?t = next_id s"
    by (auto simp: leaves_stray_def moves_def reparented_def)
  show "(c_view (cons ?t c) = None) = (c_view (cons s c) = None)"
    using * by (elim disjE exE conjE) (simp_all add: leaves_stray_def reparentedD(3)[OF movesD(2)])
qed

end

section \<open>Rows of columns\<close>

text \<open>Every column of every workspace is a container without a view.\<close>

definition rows_ok :: "sway \<Rightarrow> bool" where
  "rows_ok s \<longleftrightarrow> (\<forall>w. \<forall>c\<in>set (w_tiling (wss s w)). c_view (cons s c) = None)"

lemma rows_others:
  assumes "rows_ok s" "\<And>w. others {d} (w_tiling (wss t w)) = others {d} (w_tiling (wss s w))"
    and "\<And>c. c \<noteq> d \<Longrightarrow> (c_view (cons t c) = None) = (c_view (cons s c) = None)"
    and "\<And>w. d \<in> set (w_tiling (wss t w)) \<Longrightarrow> c_view (cons t d) = None"
  shows "rows_ok t"
  unfolding rows_ok_def
proof (intro allI ballI)
  fix w c assume c: "c \<in> set (w_tiling (wss t w))"
  show "c_view (cons t c) = None"
  proof (cases "c = d")
    case False
    then have "c \<in> set (others {d} (w_tiling (wss t w)))" using c by (simp add: others_def)
    then have "c \<in> set (w_tiling (wss s w))" unfolding assms(2) by (simp add: others_def)
    then show ?thesis using assms(1) assms(3)[OF False] by (auto simp: rows_ok_def)
  next
    case True
    then show ?thesis using c assms(4)[of w] by simp
  qed
qed

lemma moves_rows:
  assumes "moves s d P t" "rows_ok s" "P \<noteq> None \<or> unlinked t d"
  shows "rows_ok t"
proof (rule rows_others[OF assms(2) moves_tiling[OF assms(1)]])
  show "(c_view (cons t c) = None) = (c_view (cons s c) = None)" for c
    by (rule reparentedD(3)[OF movesD(2)[OF assms(1)]])
  have "d \<notin> set (roots t w)" for w
    using assms(3) unlinked_not_root[OF movesD(1)[OF assms(1)], of d w] tree_okD(4)[OF movesD(1)[OF assms(1)], of d w]
      reparentedD(2)[OF movesD(2)[OF assms(1)], of d] by auto
  then show "c_view (cons t d) = None" if "d \<in> set (w_tiling (wss t w))" for w
    using that by (auto simp: roots_def)
qed

lemma keeps_rows:
  assumes "keeps s t" "tree_ok s" "rows_ok s" shows "rows_ok t"
  using assms unfolding keeps_but_def same_strays_def same_forest_def others_none rows_ok_def by metis

context refocusing
begin

lemma begin_destroy_rows: "tree_ok s \<Longrightarrow> rows_ok s \<Longrightarrow> rows_ok (container_begin_destroy E c s)"
  using moves_rows[OF begin_destroy_moves] begin_destroy_unlinked by blast

lemma reap_loop_rows: "tree_ok s \<Longrightarrow> rows_ok s \<Longrightarrow> rows_ok (fst (reap_loop n E c s))"
proof (induction n arbitrary: c s)
  case (Suc n)
  then show ?case using begin_destroy_ok begin_destroy_rows by (auto split: option.split)
qed simp

lemma reap_empty_rows: "tree_ok s \<Longrightarrow> rows_ok s \<Longrightarrow> rows_ok (container_reap_empty E p s)"
  unfolding container_reap_empty_def Let_def
  using reap_loop_rows[of s "next_id s + 1" "Some p"] reap_loop_ok[of s "next_id s + 1" "Some p"]
    keeps_rows[OF consider_destroy_keeps]
  by (auto split: prod.split option.split)

lemma detach_rows: "tree_ok s \<Longrightarrow> rows_ok s \<Longrightarrow> rows_ok (container_detach c s)"
  using moves_rows[OF detach_moves] detach_unlinked by blast

lemma detach_and_reap_rows: "tree_ok s \<Longrightarrow> rows_ok s \<Longrightarrow> rows_ok (detach_and_reap E c s)"
  using detach_rows[of s c] detach_ok[of s c] reap_empty_rows
  by (auto simp: detach_and_reap_def Let_def split: option.split)

section \<open>Merging columns\<close>

lemma add_children_spec:
  assumes "tree_ok s" "rows_ok s" "dst \<in> set (w_tiling (wss s w))" "src \<in> set (w_tiling (wss s w))" "src \<noteq> dst"
    and "distinct kids" "\<forall>k\<in>set kids. c_parent (cons s k) = Some src"
  shows "tree_ok (fold (container_add_child E dst) kids s) \<and> rows_ok (fold (container_add_child E dst) kids s)
    \<and> src \<in> set (w_tiling (wss (fold (container_add_child E dst) kids s) w))
    \<and> next_id (fold (container_add_child E dst) kids s) = next_id s"
  using assms
proof (induction kids arbitrary: s)
  case (Cons k kids)
  let ?t = "container_add_child E dst k s"
  note ok = Cons.prems(1) and st = struct_okD[OF tree_okD(1)[OF Cons.prems(1)]]
  have root: "c_parent (cons s x) = None \<and> c_workspace (cons s x) = Some w" if "x \<in> set (w_tiling (wss s w))" for x
    using that tree_okD(4,5)[OF ok, of x w] by (simp add: roots_def)
  have k: "c_parent (cons s k) = Some src" using Cons.prems(7) by simp
  have wk: "c_workspace (cons s k) = Some w" using tree_okD(2)[OF ok k] root[OF Cons.prems(4)] by simp
  have at: "attachable s k" using wk st(3)[OF k] by (simp add: attachable_def)
  have kd: "k \<noteq> dst" "k \<noteq> src" using k root[OF Cons.prems(3)] root[OF Cons.prems(4)] by auto
  have hold: "can_hold s dst k"
    unfolding can_hold_def
    using kd(1) descendants_none[of s dst k] root[OF Cons.prems(3)] tree_okD(7)[OF ok, of dst w] Cons.prems(2,3)
    by (auto simp: rows_ok_def)
  note m = add_child_moves[OF ok at hold]
  have keep: "x \<in> set (w_tiling (wss ?t w))" if "x \<in> set (w_tiling (wss s w))" "x \<noteq> k" for x
  proof -
    have "x \<in> set (others {k} (w_tiling (wss s w)))" using that by (simp add: others_def)
    then show ?thesis unfolding moves_tiling[OF m, symmetric] by (simp add: others_def)
  qed
  have rest: "\<forall>j\<in>set kids. c_parent (cons ?t j) = Some src"
    using Cons.prems(6,7) reparentedD(2)[OF movesD(2)[OF m]] by auto
  show ?case
    using Cons.IH[OF movesD(1)[OF m] moves_rows[OF m Cons.prems(2)] keep[OF Cons.prems(3)] keep[OF Cons.prems(4)]
        Cons.prems(5) _ rest] kd Cons.prems(6) reparentedD(1)[OF movesD(2)[OF m]] by auto
qed simp

lemma tab_too_tall_keeps: "keeps s (tab_if_too_tall w dst s)"
  unfolding tab_if_too_tall_def Let_def by (intro keeps_if keeps_refl keeps_upd_con) simp

lemma fix_overflow_loop_ok:
  "tree_ok s \<Longrightarrow> rows_ok s \<Longrightarrow> tree_ok (fix_overflow_loop n E w s) \<and> rows_ok (fix_overflow_loop n E w s)
     \<and> next_id (fix_overflow_loop n E w s) = next_id s"
proof (induction n arbitrary: s)
  case (Suc n)
  let ?cols = "w_tiling (wss s w)" and ?n = "length (w_tiling (wss s w))"
  show ?case
  proof (cases "?n \<le> 1 \<or> columns_min_width s w \<le> of_int (w_width (wss s w)) + 1 / 2")
    case False
    define src where "src = ?cols ! (?n - 1)"
    define dst where "dst = ?cols ! (if ?n \<ge> 3 then ?n - 3 else ?n - 2)"
    let ?t = "fold (container_add_child E dst) (c_children (cons s src)) s"
    have len: "?n \<ge> 2" using False by simp
    have dis: "distinct ?cols" using tree_okD(3)[OF Suc.prems(1), of w] by (simp add: roots_def)
    have mem: "src \<in> set ?cols" "dst \<in> set ?cols" unfolding src_def dst_def using len by (auto intro!: nth_mem)
    define j where "j = (if ?n \<ge> 3 then ?n - 3 else ?n - 2)"
    have j: "j < ?n" "?n - 1 < ?n" "?n - 1 \<noteq> j" using len by (auto simp: j_def)
    have ne: "src \<noteq> dst"
      unfolding src_def dst_def j_def[symmetric] using nth_eq_iff_index_eq[OF dis j(2,1)] j(3) by simp
    note st = struct_okD[OF tree_okD(1)[OF Suc.prems(1)]]
    have nv: "c_view (cons s src) = None" using Suc.prems(2) mem(1) by (auto simp: rows_ok_def)
    have t: "tree_ok ?t \<and> rows_ok ?t \<and> next_id ?t = next_id s"
      using add_children_spec[OF Suc.prems mem(2,1) ne st(2)] st(1) by blast
    have u: "tree_ok (tab_if_too_tall w dst ?t)" "rows_ok (tab_if_too_tall w dst ?t)"
      "next_id (tab_if_too_tall w dst ?t) = next_id s"
      using t keepsD[OF tab_too_tall_keeps] keeps_rows[OF tab_too_tall_keeps]
        same_forestD(1)[OF keeps_forest[OF tab_too_tall_keeps[of ?t w dst]]] by simp_all
    note d = reparentedD(1)[OF movesD(2)[OF begin_destroy_moves[OF u(1), of src]]]
    have "fix_overflow_loop (Suc n) E w s
        = fix_overflow_loop n E w (container_begin_destroy E src (tab_if_too_tall w dst ?t))"
      using False nv by (simp add: Let_def src_def dst_def)
    then show ?thesis using Suc.IH begin_destroy_ok begin_destroy_rows u d by simp
  qed (use Suc.prems in \<open>auto simp: Let_def\<close>)
qed simp

lemma fix_overflow_ok:
  assumes "tree_ok s" "rows_ok s"
  shows "tree_ok (workspace_fix_overflow E w s)" "rows_ok (workspace_fix_overflow E w s)"
    "next_id (workspace_fix_overflow E w s) = next_id s"
proof -
  have k: "keeps t (node_set_dirty (N_WORKSPACE w) (workspace_update_representation w (arrange_workspace w t)))" for t
    by (intro keeps_dirty_after shape_keeps[OF _ update_workspace_representation_shape] same_shape_keeps arrange_workspace_shape)
  note l = fix_overflow_loop_ok[OF assms, of "length (w_tiling (wss s w))" w]
  show "tree_ok (workspace_fix_overflow E w s)" "rows_ok (workspace_fix_overflow E w s)"
    "next_id (workspace_fix_overflow E w s) = next_id s"
    using assms l keepsD[OF k] keeps_rows[OF k] same_forestD(1)[OF keeps_forest[OF k]]
    by (auto simp: workspace_fix_overflow_def Let_def)
qed

section \<open>Opening and inserting\<close>

lemma place_column_rows:
  assumes "tree_ok s" "rows_ok s" "loose s w col" "col < next_id s" "c_view (cons s col) = None"
  shows "tree_ok (place_column_at E w col idx s)" "rows_ok (place_column_at E w col idx s)"
    "next_id (place_column_at E w col idx s) = next_id s"
proof -
  note k = place_column_keeps[OF assms(3,4), of idx]
  have f: "same_forest s (place_column_at E w col idx s)" by (rule keeps_forest[OF k assms(1)])
  show "tree_ok (place_column_at E w col idx s)" by (rule keepsD[OF k assms(1)])
  show "next_id (place_column_at E w col idx s) = next_id s" by (rule same_forestD(1)[OF f])
  show "rows_ok (place_column_at E w col idx s)"
    by (rule rows_others[OF assms(2), of col])
      (use k assms(1,5) same_forestD(4)[OF f] in \<open>simp_all add: keeps_but_def same_strays_def\<close>)
qed

lemma stray_loose: "stray s c \<Longrightarrow> c_workspace (cons s c) = None \<or> c_workspace (cons s c) = Some w \<Longrightarrow> loose s w c"
  by (simp add: stray_def loose_def)

lemma holder_rows:
  assumes "rows_ok s" "tree_ok u" "c_parent (cons u view) \<noteq> None"
    and "\<And>w. others {view} (w_tiling (wss u w)) = others {view} (w_tiling (wss s w))"
    and "\<And>d. c_view (cons s d) = None \<Longrightarrow> c_view (cons u d) = None"
  shows "rows_ok u"
  unfolding rows_ok_def
proof (intro allI ballI)
  fix w c assume c: "c \<in> set (w_tiling (wss u w))"
  then have "c \<noteq> view" using tree_okD(4)[OF assms(2), of view w] assms(3) by (auto simp: roots_def)
  then have "c \<in> set (others {view} (w_tiling (wss u w)))" using c by (simp add: others_def)
  then have "c \<in> set (w_tiling (wss s w))" unfolding assms(4) by (simp add: others_def)
  then show "c_view (cons u c) = None" using assms(1,5) by (auto simp: rows_ok_def)
qed

lemma new_column_rows:
  assumes "tree_ok s" "rows_ok s" "attachable s view" "workspace_create_new_column E w view a b s = (col, u)"
  shows "rows_ok u"
proof -
  note n = new_column[OF assms(1,3,4)]
  show ?thesis by (rule holder_rows[OF assms(2) n(2) _ n(10)]) (simp_all add: n(7,8))
qed

lemma unparked:
  assumes "tree_ok s" "rows_ok s" "attachable s c"
  shows "tree_ok (unpark c s)" "rows_ok (unpark c s)" "attachable (unpark c s) c"
  using assms keepsD[OF unpark_keeps] by (simp_all add: rows_ok_def attachable_def)

text \<open>The container as a column: a view gets a new column, anything else is one already.\<close>

definition as_column :: "id \<Rightarrow> id \<Rightarrow> int \<Rightarrow> sway \<Rightarrow> id \<times> sway" where
  "as_column w c i s =
     (if c_view (cons s c) \<noteq> None then workspace_create_new_column_at E w c i s
      else (c, upd_con c (\<lambda>x. x\<lparr>c_parent := None\<rparr>) s))"

lemma stray_attachable: "stray s c \<Longrightarrow> c < next_id s \<Longrightarrow> attachable s c"
  by (simp add: stray_def attachable_def)

lemma orphan_same_tree: "c_parent (cons s c) = None \<Longrightarrow> same_tree s (upd_con c (\<lambda>x. x\<lparr>c_parent := None\<rparr>) s)"
  by (simp add: same_tree_def)

lemma as_column_ok:
  assumes "tree_ok s" "rows_ok s" "stray s c" "c < next_id s"
    and "c_workspace (cons s c) = None \<or> c_workspace (cons s c) = Some w"
    and "as_column w c i s = (col, u)"
  shows "tree_ok u" "rows_ok u" "loose u w col" "col < next_id u" "c_view (cons u col) = None" "next_id s \<le> next_id u"
proof -
  have "tree_ok u \<and> rows_ok u \<and> loose u w col \<and> col < next_id u \<and> c_view (cons u col) = None \<and> next_id s \<le> next_id u"
  proof (cases "c_view (cons s c) = None")
    case True
    then have u: "col = c" "u = upd_con c (\<lambda>x. x\<lparr>c_parent := None\<rparr>) s" using assms(6) by (auto simp: as_column_def)
    have st: "same_tree s u" unfolding u(2) using assms(3) by (intro orphan_same_tree) (simp add: stray_def)
    have k: "keeps s u" by (rule same_tree_keeps[OF st])
    have v: "c_view (cons u c) = None" using True by (simp add: u(2))
    have n: "next_id u = next_id s" by (simp add: u(2))
    have l: "loose u w c" using keeps_stray[OF k assms(1,3)] assms(5) stray_loose[of u c w] by simp
    show ?thesis unfolding u(1) using v n l assms(4) keepsD[OF k assms(1)] keeps_rows[OF k assms(1,2)] by simp
  next
    case False
    then have new: "workspace_create_new_column E w c
        (workspace_clamp_column_width s (wss s w) (workspace_view_remaining_width s w (i - 1))) (- 1) s = (col, u)"
      using assms(6) by (simp add: as_column_def workspace_create_new_column_at_def)
    note at = stray_attachable[OF assms(3,4)]
    note n = new_column[OF assms(1) at new]
    show ?thesis
      using n(1-6) stray_loose[of u col w] new_column_rows[OF assms(1,2) at new] by simp
  qed
  then show "tree_ok u" "rows_ok u" "loose u w col" "col < next_id u" "c_view (cons u col) = None" "next_id s \<le> next_id u"
    by blast+
qed

lemma add_tiling_ok:
  assumes "tree_ok s" "rows_ok s" "attachable s c" "workspace_add_tiling E w c s = (r, t)"
  shows "tree_ok t" "rows_ok t" "next_id s \<le> next_id t"
proof -
  define s1 where "s1 = detach_and_reap E c (unpark c s)"
  note un = unparked[OF assms(1-3)]
  note d = detach_and_reap_spec[OF un(1,3), folded s1_def]
  have rows1: "rows_ok s1" unfolding s1_def by (rule detach_and_reap_rows[OF un(1,2)])
  have c1: "c < next_id s1" using d(4) assms(3) by (simp add: attachable_def)
  obtain col u where a: "as_column w c (-1) s1 = (col, u)" by fastforce
  note ac = as_column_ok(1-5)[OF d(1) rows1 d(2) c1 disjI1[OF d(3)] a]
    and up = as_column_ok(6)[OF d(1) rows1 d(2) c1 disjI1[OF d(3)] a]
  have step: "tree_ok (workspace_fix_overflow E w v) \<and> rows_ok (workspace_fix_overflow E w v)
      \<and> next_id s \<le> next_id (workspace_fix_overflow E w v)"
    if v: "v = (if b then workspace_fit_new_column w col i (place_column_at E w col i u) else place_column_at E w col i u)"
    for b v i
  proof -
    note p = place_column_rows[OF ac, of i]
    have k: "keeps (place_column_at E w col i u) v"
      unfolding v by (intro keeps_if keeps_refl same_shape_keeps workspace_fit_new_column_shape)
    have "next_id v = next_id u" using p(3) same_forestD(1)[OF keeps_forest[OF k p(1)]] by simp
    then show ?thesis
      using fix_overflow_ok[OF keepsD[OF k p(1)] keeps_rows[OF k p(1,2)]] up d(4) by simp
  qed
  have "\<exists>b i. t = workspace_fix_overflow E w (if b then workspace_fit_new_column w col i
      (place_column_at E w col i u) else place_column_at E w col i u)"
    using assms(4) a unfolding workspace_add_tiling_def s1_def[symmetric] Let_def as_column_def
    by (cases "c_view (cons s1 c) = None") (auto split: if_splits)
  then show "tree_ok t" "rows_ok t" "next_id s \<le> next_id t" using step[OF refl] by (elim exE; simp only:)+
qed

section \<open>Inserting a column\<close>

lemma take_column_ok:
  assumes ok: "tree_ok s" and rows: "rows_ok s" and c: "c \<in> set (w_tiling (wss s w))"
  shows "tree_ok (upd_list (Tiling_of w) (remove_id c) s)" "rows_ok (upd_list (Tiling_of w) (remove_id c) s)"
    "loose (upd_list (Tiling_of w) (remove_id c) s) w c"
proof -
  let ?t = "upd_list (Tiling_of w) (remove_id c) s"
  have dis: "distinct (w_tiling (wss s w))" "set (w_tiling (wss s w)) \<inter> set (w_floating (wss s w)) = {}"
    using tree_okD(3)[OF ok, of w] by (simp_all add: roots_def)
  have sf: "same_forest s ?t" by (simp add: same_forest_def upd_list_def)
  have ro: "set (roots ?t v) = (if v = w then set (roots s v) - {c} else set (roots s v))" for v
    using dis c by (auto simp: roots_def upd_list_def remove_id_remove1)
  have di: "distinct (roots ?t v)" for v
    using tree_okD(3)[OF ok, of v] notin_set_remove1[of _ "w_tiling (wss s w)" c]
    by (auto simp: roots_def upd_list_def remove_id_remove1)
  show "tree_ok ?t"
    by (rule tree_okI[OF same_forest_struct[OF sf tree_okD(1)[OF ok]]])
      (use ro di tree_okD(2-7)[OF ok] in \<open>auto split: if_splits\<close>)
  have cw: "c_parent (cons s c) = None" "c_workspace (cons s c) = Some w"
    using c tree_okD(4,5)[OF ok, of c w] by (auto simp: roots_def)
  show "loose ?t w c" using cw ro[of w] by (simp add: loose_def)
  show "rows_ok ?t"
    using rows subsetD[OF set_remove1_subset[of c "w_tiling (wss s w)"]]
    by (auto simp: rows_ok_def upd_list_def remove_id_remove1)
qed

text \<open>The second half of workspace_insert_column: the column goes to its index.\<close>

definition settle_column :: "id \<Rightarrow> id \<Rightarrow> int \<Rightarrow> sway \<Rightarrow> sway" where
  "settle_column w col i s =
     (let s = (if c_workspace (cons s col) \<noteq> None \<and> c_workspace (cons s col) \<noteq> Some w
               then container_detach col s else s);
          n = int (length (w_tiling (wss s w))); i = min (max i 0) n;
          cur = index_of col (w_tiling (wss s w)) in
      if cur \<ge> 0 \<and> cur = i then s
      else place_column_at E w col (if cur \<ge> 0 \<and> cur < i then i - 1 else i)
             (upd_con col (\<lambda>x. x\<lparr>c_parent := None\<rparr>) (upd_list (Tiling_of w) (remove_id col) s)))"

lemma remove_id_at:
  "(if index_of c (w_tiling (wss s w)) \<ge> 0
    then upd_list (Tiling_of w) (delete_at (nat (index_of c (w_tiling (wss s w))))) s else s)
   = upd_list (Tiling_of w) (remove_id c) s"
proof (cases "c \<in> set (w_tiling (wss s w))")
  case True
  then have "index_of c (w_tiling (wss s w)) \<ge> 0" by (auto elim: index_of_present)
  then show ?thesis by (simp add: upd_list_def upd_ws_def remove_id_def)
next
  case False
  then have "index_of c (w_tiling (wss s w)) = -1" by (simp add: index_of_absent)
  then show ?thesis by (simp add: upd_list_def upd_ws_def remove_id_def)
qed

lemma orphan_ok:
  assumes "tree_ok s" "rows_ok s" "loose s w c"
  shows "tree_ok (upd_con c (\<lambda>x. x\<lparr>c_parent := None\<rparr>) s)" "rows_ok (upd_con c (\<lambda>x. x\<lparr>c_parent := None\<rparr>) s)"
    "loose (upd_con c (\<lambda>x. x\<lparr>c_parent := None\<rparr>) s) w c"
proof -
  have k: "keeps s (upd_con c (\<lambda>x. x\<lparr>c_parent := None\<rparr>) s)"
    by (rule same_tree_keeps[OF orphan_same_tree]) (use assms(3) in \<open>simp add: loose_def\<close>)
  show "tree_ok (upd_con c (\<lambda>x. x\<lparr>c_parent := None\<rparr>) s)" "rows_ok (upd_con c (\<lambda>x. x\<lparr>c_parent := None\<rparr>) s)"
    using keepsD[OF k] keeps_rows[OF k] assms by blast+
  show "loose (upd_con c (\<lambda>x. x\<lparr>c_parent := None\<rparr>) s) w c" using assms(3) by (simp add: loose_def roots_def)
qed

lemma settle_column_ok:
  assumes ok: "tree_ok s" and rows: "rows_ok s" and col: "col < next_id s" "c_view (cons s col) = None"
    "c_parent (cons s col) = None" "col \<notin> set (w_floating (wss s w))"
  shows "tree_ok (settle_column w col i s) \<and> rows_ok (settle_column w col i s) \<and> next_id (settle_column w col i s) = next_id s"
proof -
  let ?away = "c_workspace (cons s col) \<noteq> None \<and> c_workspace (cons s col) \<noteq> Some w"
  define u where "u = (if ?away then container_detach col s else s)"
  have u: "tree_ok u" "rows_ok u" "next_id u = next_id s" "c_view (cons u col) = None"
    using ok rows col(2) detach_ok[OF ok] detach_rows[OF ok rows]
      reparentedD(1,3)[OF movesD(2)[OF detach_moves[OF ok, of col]]] by (simp_all add: u_def)
  have place: "tree_ok (settle_column w col i s) \<and> rows_ok (settle_column w col i s) \<and> next_id (settle_column w col i s) = next_id s"
    if v: "tree_ok v" "rows_ok v" "loose v w col" "next_id v = next_id u" "c_view (cons v col) = None"
      and e: "v = upd_list (Tiling_of w) (remove_id col) u" for v
    unfolding settle_column_def Let_def u_def[symmetric] e[symmetric]
    using place_column_rows[OF orphan_ok[OF v(1-3)]] v(4,5) u col(1) by simp
  show ?thesis
  proof (cases "col \<in> set (w_tiling (wss u w))")
    case True
    show ?thesis by (rule place[OF take_column_ok[OF u(1,2) True] _ _ refl]) (simp_all add: u(4))
  next
    case False
    have "loose u w col"
    proof (cases ?away)
      case True
      then show ?thesis using unlinked_loose[OF u(1)] detach_unlinked[OF ok, of col] by (simp add: u_def)
    next
      case not_away: False
      then have "u = s" unfolding u_def by (rule if_not_P)
      then show ?thesis using False not_away col(3,4) by (auto simp: loose_def roots_def)
    qed
    moreover have "upd_list (Tiling_of w) (remove_id col) u = u"
      using False by (simp add: upd_list_def upd_ws_def remove_id_remove1 remove1_idem)
    ultimately show ?thesis by (intro place[OF u(1,2) _ refl u(4)]) simp_all
  qed
qed

lemma reap_parent: "c_children (cons s p) \<noteq> [] \<Longrightarrow> container_reap_empty E p s = s"
  by (simp add: container_reap_empty_def)

text \<open>The state before the second half: a container with a parent leaves it.\<close>

definition leave_parent :: "id \<Rightarrow> sway \<Rightarrow> sway" where
  "leave_parent c s =
     (case c_parent (cons s c) of None \<Rightarrow> s
      | Some p \<Rightarrow> (let s = container_detach c s in
                   if c_children (cons s p) = [] then container_reap_empty E p s else s))"

lemma leave_parent_ok:
  assumes "tree_ok s" "rows_ok s" "attachable s c"
  shows "tree_ok (leave_parent c s)" "rows_ok (leave_parent c s)" "attachable (leave_parent c s) c"
    "next_id (leave_parent c s) = next_id s" "c_parent (cons (leave_parent c s) c) = None"
    "(c_view (cons (leave_parent c s) c) = None) = (c_view (cons s c) = None)"
    "c \<in> set (w_floating (wss (leave_parent c s) w)) \<Longrightarrow> c \<in> set (w_floating (wss s w))"
proof -
  have e: "leave_parent c s = (if c_parent (cons s c) = None then s else detach_and_reap E c s)"
    using assms(3) reap_parent
    by (auto simp: leave_parent_def detach_and_reap_def attachable_def Let_def split: option.split)
  note d = detach_and_reap_spec[OF assms(1,3)] and r = detach_and_reap_rows[OF assms(1,2), of c]
  have at: "attachable (detach_and_reap E c s) c"
    using d(2,4) assms(3) by (simp add: attachable_def stray_def)
  show "tree_ok (leave_parent c s)" "rows_ok (leave_parent c s)" "attachable (leave_parent c s) c"
    "next_id (leave_parent c s) = next_id s" "c_parent (cons (leave_parent c s) c) = None"
    "(c_view (cons (leave_parent c s) c) = None) = (c_view (cons s c) = None)"
    using assms d r at unfolding e by (simp_all add: stray_def)
  show "c \<in> set (w_floating (wss s w))" if "c \<in> set (w_floating (wss (leave_parent c s) w))"
    using that d(2) unfolding e by (cases "c_parent (cons s c) = None") (simp_all add: stray_def roots_def)
qed

lemma insert_column_split:
  "snd (workspace_insert_column E w c i s)
   = (case (if c_view (cons (leave_parent c (unpark c s)) c) \<noteq> None
            then workspace_create_new_column_at E w c i (leave_parent c (unpark c s))
            else (c, leave_parent c (unpark c s))) of (col, v) \<Rightarrow> settle_column w col i v)"
  unfolding workspace_insert_column_def settle_column_def leave_parent_def Let_def
  by (simp only: if_distrib[of snd] snd_conv prod.case_distrib[of snd] remove_id_at)

lemma insert_column_ok:
  assumes "tree_ok s" "rows_ok s" "attachable s c" "c_view (cons s c) \<noteq> None \<or> c \<notin> set (w_floating (wss s w))"
  shows "tree_ok (snd (workspace_insert_column E w c i s))" "rows_ok (snd (workspace_insert_column E w c i s))"
    "next_id s \<le> next_id (snd (workspace_insert_column E w c i s))"
proof -
  define u where "u = leave_parent c (unpark c s)"
  note un = unparked[OF assms(1-3)]
  note l = leave_parent_ok[OF un, folded u_def]
  obtain col v where col: "(if c_view (cons u c) \<noteq> None then workspace_create_new_column_at E w c i u else (c, u)) = (col, v)"
    by fastforce
  have v: "tree_ok v \<and> rows_ok v \<and> col < next_id v \<and> c_view (cons v col) = None
      \<and> c_parent (cons v col) = None \<and> col \<notin> set (w_floating (wss v w)) \<and> next_id s \<le> next_id v"
  proof (cases "c_view (cons u c) = None")
    case True
    then have e: "col = c" "v = u" using col by auto
    have "c \<notin> set (w_floating (wss s w))" using assms(4) l(6) True by simp
    then have "c \<notin> set (w_floating (wss u w))" using l(7)[of w] by auto
    then show ?thesis using l(1-5) True unfolding e by (simp add: attachable_def)
  next
    case False
    then have new: "workspace_create_new_column E w c
        (workspace_clamp_column_width u (wss u w) (workspace_view_remaining_width u w (i - 1))) (- 1) u = (col, v)"
      using col by (simp add: workspace_create_new_column_at_def)
    note n = new_column[OF l(1,3) new]
    show ?thesis using n(1-6) l(4) new_column_rows[OF l(1-3) new] by (simp add: stray_def roots_def)
  qed
  have "snd (workspace_insert_column E w c i s) = settle_column w col i v"
    unfolding insert_column_split u_def[symmetric] col by (simp only: prod.case)
  then show "tree_ok (snd (workspace_insert_column E w c i s))" "rows_ok (snd (workspace_insert_column E w c i s))"
    "next_id s \<le> next_id (snd (workspace_insert_column E w c i s))"
    using settle_column_ok v by auto
qed

end

end
