(* ===== verification/Tree_Inv.thy ===== *)
theory Tree_Inv
  imports Columns_Laws
begin

text \<open>
  The invariant of the tree and the rows, what the calls that move, insert and destroy containers do
  to the child lists, and the relation advances: a step that keeps the invariant and the ids.
\<close>

section \<open>Child lists\<close>

lemma detach_attached_children:
  assumes "tree_ok s" "attachable s c"
  shows "c_children (cons (detach_attached c s) d) = remove1 c (c_children (cons s d))"
proof (cases "c_workspace (cons s c) = None")
  case True
  then have "c \<notin> set (c_children (cons s d))"
    using assms(2) struct_okD(1)[OF tree_okD(1)[OF assms(1)]] by (simp add: attachable_def)
  then show ?thesis using True by (simp add: detach_attached_def remove1_idem)
next
  case False
  then show ?thesis by (simp add: detach_attached_def detach_fields detach_core_effect[OF assms(1)])
qed

lemma attach_child_children:
  assumes "tree_ok s" "attachable s c" "can_hold s p c" "inserts f c"
    and "keeps (adopt c (Some p) (c_workspace (cons (detach_attached c s) p))
           (upd_list (Children_of p) f (detach_attached c s))) t"
  shows "c_children (cons t d)
    = (if d = p then f (remove1 c (c_children (cons s p))) else remove1 c (c_children (cons s d)))"
proof -
  let ?u = "detach_attached c s"
  let ?a = "adopt c (Some p) (c_workspace (cons ?u p)) (upd_list (Children_of p) f ?u)"
  note d = detach_attached_moves[OF assms(1,2)]
  note ok = movesD(1)[OF d(1)] and n = detach_attached_next[OF assms(1,2)]
  note h = can_hold_moves[OF assms(3) d(1) assms(1)]
  have "?a = put_ws (insert c (descendants ?u c)) (c_workspace (cons ?u p))
      (link_con c (Some p) (c_workspace (cons ?u p)) (upd_list (Children_of p) f ?u))"
    using h d(2) by (intro link_child_put[OF tree_okD(1)[OF ok] _ n _ _ _ assms(4)])
      (auto simp: can_hold_def unlinked_def)
  then have "c_children (cons ?a d) = c_children (cons (upd_list (Children_of p) f ?u) d)" by simp
  moreover have "tree_ok ?a" using movesD(1)[OF attach_child_moves[OF assms(1-4)]] by simp
  ultimately show ?thesis
    using same_forestD(3)[OF keeps_forest[OF assms(5)], of d] detach_attached_children[OF assms(1,2)]
    by (simp add: upd_list_def)
qed

context refocusing
begin

lemma insert_child_children:
  assumes "tree_ok s" "attachable s c" "can_hold s p c"
  shows "c_children (cons (container_insert_child E p c i s) d)
    = (if d = p then insert_at (nat i) c (remove1 c (c_children (cons s p))) else remove1 c (c_children (cons s d)))"
  by (rule attach_child_children[OF assms inserts_insert_at])
    (unfold container_insert_child_def Let_def upd_list_simps,
     intro shape_keeps[OF _ fit_vertical_shape] shape_keeps[OF _ update_representation_shape] reparent_keeps)

lemma add_child_children:
  assumes "tree_ok s" "attachable s c" "can_hold s p c"
  shows "c_children (cons (container_add_child E p c s) d)
    = (if d = p then remove1 c (c_children (cons s p)) @ [c] else remove1 c (c_children (cons s d)))"
  by (rule attach_child_children[OF assms inserts_append])
    (unfold container_add_child_def Let_def upd_list_simps,
     intro shape_keeps[OF _ fit_vertical_shape] keeps_dirty_after shape_keeps[OF _ update_representation_shape] reparent_keeps)

lemma moved_subtree:
  assumes "moves s c (Some p) t" "tree_ok s" "x \<in> insert c (descendants s c)"
  shows "c_workspace (cons t x) = c_workspace (cons t p)"
proof -
  note ok = movesD(1)[OF assms(1)]
  have "descendants t c = descendants s c"
    by (rule reparented_descendants[OF movesD(2)[OF assms(1)] tree_okD(1)[OF assms(2)] tree_okD(1)[OF ok]])
  then have "c_workspace (cons t x) = c_workspace (cons t c)" using assms(3) subtree_workspace[OF ok, of x c] by auto
  also have "\<dots> = c_workspace (cons t p)"
    by (rule tree_okD(2)[OF ok]) (simp add: reparentedD(2)[OF movesD(2)[OF assms(1)]])
  finally show ?thesis .
qed

section \<open>Rows\<close>

lemma moves_rows_column:
  "moves s c P t \<Longrightarrow> rows_ok s \<Longrightarrow> c_view (cons s c) = None \<Longrightarrow> rows_ok t"
  using reparentedD(3)[OF movesD(2)]
  by (intro rows_others[of s c t] moves_tiling) simp_all

lemma add_floating_rows:
  assumes "tree_ok s" "rows_ok s" "attachable s c"
  shows "rows_ok (workspace_add_floating E w c s)"
proof -
  let ?u = "detach_attached c (unpark c s)"
  let ?a = "adopt c None (Some w) (upd_list (Floating_of w) (\<lambda>xs. xs @ [c]) ?u)"
  note p = unparked[OF assms]
  note d = detach_attached_moves[OF p(1,3)]
  note ok = movesD(1)[OF d(1)]
  have par: "c_parent (cons ?u c) = None" using d(2) by (simp add: unlinked_def)
  have m: "moves ?u c None ?a"
    by (rule link_root_moves[OF ok unlinked_loose[OF ok d(2)] detach_attached_next[OF p(1,3)] disjI2[OF refl] inserts_append])
  have ru: "rows_ok ?u" using moves_rows[OF d(1) p(2)] d(2) by blast
  have "w_tiling (wss ?a v) = w_tiling (wss ?u v)" for v
    unfolding link_root_put[OF tree_okD(1)[OF ok] par disjI2[OF refl]] by (simp add: upd_list_def)
  then have ra: "rows_ok ?a"
    using ru reparentedD(3)[OF movesD(2)[OF m]] by (simp add: rows_ok_def)
  have k: "keeps ?a (workspace_add_floating E w c s)"
    unfolding workspace_add_floating_def Let_def upd_list_simps par by (intro keeps_dirty_after reparent_keeps)
  show ?thesis by (rule keeps_rows[OF k movesD(1)[OF m] ra])
qed

end

definition tree_inv :: "sway \<Rightarrow> bool" where
  "tree_inv s \<longleftrightarrow> tree_ok s \<and> rows_ok s"

lemma inv_keeps: "keeps s t \<Longrightarrow> tree_inv s \<Longrightarrow> tree_inv t"
  using keepsD keeps_rows by (auto simp: tree_inv_def)

lemma container_create_inv:
  assumes "tree_inv s" "container_create v s = (c, t)" shows "tree_inv t"
proof -
  have ok: "tree_ok s" and rows: "rows_ok s" using assms(1) by (simp_all add: tree_inv_def)
  note n = new_container_ok[OF ok assms(2), of "\<lambda>x. x"]
  have t: "upd_con c (\<lambda>x. x) t = t" by (simp add: upd_con_def)
  have "rows_ok t"
    unfolding rows_ok_def
  proof (intro allI ballI)
    fix w d assume d: "d \<in> set (w_tiling (wss t w))"
    then have "d \<in> set (roots s w)" using n(7) by (simp add: roots_def t)
    then have "d \<noteq> c" using fresh_id(4)[OF ok] n(5) by blast
    then show "c_view (cons t d) = None"
      using n(6)[of d] n(7) d rows by (simp add: t rows_ok_def)
  qed
  then show ?thesis using n(1) by (simp add: tree_inv_def t)
qed

context refocusing
begin

lemma add_sibling_rows:
  assumes "tree_ok s" "rows_ok s" "attachable s c" "d \<notin> insert c (descendants s c)"
    and "c_parent (cons s d) \<noteq> None \<or> c_workspace (cons s d) \<noteq> None \<and> c_view (cons s c) = None"
  shows "rows_ok (container_add_sibling E d c after s)"
proof -
  have m: "moves s c (c_parent (cons s d)) (container_add_sibling E d c after s)"
    using assms(5) by (intro add_sibling_moves[OF assms(1,3,4)]) blast
  show ?thesis
    using assms(5) moves_rows[OF m assms(2)] moves_rows_column[OF m assms(2)] by blast
qed

end

section \<open>Reaping\<close>

text \<open>A container is gone when nothing is above it, and spent when it is gone or still has children.\<close>

definition spent :: "sway \<Rightarrow> id \<Rightarrow> bool" where
  "spent s c \<longleftrightarrow> unlinked s c \<or> c_children (cons s c) \<noteq> []"

lemma parents_have_children:
  assumes "struct_ok s" "q \<in> ancestors s p" shows "c_children (cons s q) \<noteq> []"
proof -
  obtain x where "(x, q) \<in> parent_rel s" using assms(2) by (auto simp: ancestors_def elim: tranclE)
  then have "x \<in> set (c_children (cons s q))" using struct_okD(1)[OF assms(1)] by (simp add: parent_rel_def)
  then show ?thesis by auto
qed

lemma unlinked_stray: "tree_ok s \<Longrightarrow> unlinked s c \<Longrightarrow> stray s c"
  using unlinked_not_root by (auto simp: stray_def unlinked_def)

lemma leaves_unlinked: "leaves_stray c s t \<Longrightarrow> unlinked s c \<Longrightarrow> unlinked t c"
  by (simp add: leaves_stray_def unlinked_def stray_def)

lemma keeps_spent:
  assumes "keeps s t" "tree_ok s" "spent s c" shows "spent t c"
  using assms(3) unlinked_stray[OF assms(2), of c] keeps_stray[OF assms(1,2), of c]
    same_forestD(3)[OF keeps_forest[OF assms(1,2)], of c]
  by (auto simp: spent_def unlinked_def stray_def)

lemma ancestors_off:
  assumes "reparented s p P t" "struct_ok s" "c_parent (cons s p) = Some r"
  shows "ancestors t r = ancestors s r"
proof -
  have np: "p \<notin> insert r (ancestors s r)"
    using ancestors_step[OF assms(3)] not_own_ancestor[OF assms(2), of p] by auto
  have "(r, a) \<in> (parent_rel s)\<^sup>+ \<longleftrightarrow> (r, a) \<in> (parent_rel t)\<^sup>+" for a
  proof
    assume "(r, a) \<in> (parent_rel s)\<^sup>+"
    then show "(r, a) \<in> (parent_rel t)\<^sup>+"
    proof (induction rule: trancl_induct)
      case (base y)
      then show ?case using np reparentedD(2)[OF assms(1), of r] by (auto simp: parent_rel_def)
    next
      case (step y z)
      then have "y \<noteq> p" using np by (auto simp: ancestors_def)
      then have "(y, z) \<in> parent_rel t" using step(2) reparentedD(2)[OF assms(1), of y] by (simp add: parent_rel_def)
      then show ?case using step.IH by (meson trancl.trancl_into_trancl)
    qed
  next
    assume "(r, a) \<in> (parent_rel t)\<^sup>+"
    then have "(r, a) \<in> (parent_rel s)\<^sup>+ \<and> a \<noteq> p"
    proof (induction rule: trancl_induct)
      case (base y)
      then have "(r, y) \<in> parent_rel s" using np reparentedD(2)[OF assms(1), of r] by (auto simp: parent_rel_def)
      then show ?case using np by (auto simp: ancestors_def)
    next
      case (step y z)
      then have "(y, z) \<in> parent_rel s" using reparentedD(2)[OF assms(1), of y] by (simp add: parent_rel_def)
      then have "(r, z) \<in> (parent_rel s)\<^sup>+" using step.IH by (meson trancl.trancl_into_trancl)
      then show ?case using np by (auto simp: ancestors_def)
    qed
    then show "(r, a) \<in> (parent_rel s)\<^sup>+" by blast
  qed
  then show ?thesis by (simp add: ancestors_def)
qed

context refocusing
begin

lemma reap_loop_spent:
  "tree_ok s \<Longrightarrow> card (ancestors s p) < n \<Longrightarrow> q \<in> insert p (ancestors s p) \<Longrightarrow>
   spent (fst (reap_loop n E (Some p) s)) q"
proof (induction n arbitrary: p s)
  case (Suc n)
  show ?case
  proof (cases "c_children (cons s p) = []")
    case False
    then show ?thesis
      using Suc.prems(3) parents_have_children[OF tree_okD(1)[OF Suc.prems(1)], of q p] by (auto simp: spent_def)
  next
    case empty: True
    let ?t = "container_begin_destroy E p s"
    note m = begin_destroy_moves[OF Suc.prems(1), of p]
    note ok = movesD(1)[OF m] and un = begin_destroy_unlinked[OF Suc.prems(1), of p]
    have p_spent: "unlinked (fst (reap_loop n E (c_parent (cons s p)) ?t)) p"
    proof (rule leaves_unlinked[OF reap_loop_leaves[OF ok unlinked_stray[OF ok un]] un], intro allI impI)
      fix r assume r: "c_parent (cons s p) = Some r"
      have "parent_rel ?t \<subseteq> parent_rel s"
        using reparentedD(2)[OF movesD(2)[OF m]] by (auto simp: parent_rel_def split: if_splits)
      then show "p \<notin> insert r (ancestors ?t r)"
        using ancestors_mono[of ?t s r] ancestors_step[OF r] not_own_ancestor[OF tree_okD(1)[OF Suc.prems(1)], of p] by auto
    qed
    show ?thesis
    proof (cases "c_parent (cons s p)")
      case None
      then show ?thesis using Suc.prems(3) p_spent empty by (simp add: ancestors_none spent_def)
    next
      case (Some r)
      have "ancestors ?t r = ancestors s r"
        by (rule ancestors_off[OF movesD(2)[OF m] tree_okD(1)[OF Suc.prems(1)] Some])
      then have "spent (fst (reap_loop n E (Some r) ?t)) q" if "q \<in> insert r (ancestors s r)"
        using that Suc.prems(2) card_ancestors_less[OF tree_okD(1)[OF Suc.prems(1)] Some] by (intro Suc.IH[OF ok]) auto
      then show ?thesis using Suc.prems(3) ancestors_step[OF Some] p_spent empty Some by (auto simp: spent_def)
    qed
  qed
qed simp

lemma reap_empty_spent:
  assumes ok: "tree_ok s" and nv: "c_view (cons s p) = None" and q: "q \<in> insert p (ancestors s p)"
  shows "spent (container_reap_empty E p s) q"
proof -
  obtain t b where r: "reap_loop (next_id s + 1) E (Some p) s = (t, b)" by fastforce
  have "spent (fst (reap_loop (next_id s + 1) E (Some p) s)) q"
    by (rule reap_loop_spent[OF ok _ q]) (use card_ancestors_bound[OF tree_okD(1)[OF ok], of p] in auto)
  moreover have "tree_ok t" using reap_loop_ok[OF ok, of "next_id s + 1" "Some p"] r by simp
  ultimately show ?thesis
    unfolding container_reap_empty_def Let_def r
    using nv keeps_spent[OF consider_destroy_keeps, of t q] r by (auto split: option.split)
qed

end

section \<open>Steps that keep the invariant\<close>

definition advances :: "sway \<Rightarrow> sway \<Rightarrow> bool" where
  "advances s t \<longleftrightarrow> (tree_inv s \<longrightarrow> tree_inv t \<and> next_id s \<le> next_id t)"

lemma advances_refl: "advances s s"
  by (simp add: advances_def)

lemma advances_trans: "advances s t \<Longrightarrow> advances t u \<Longrightarrow> advances s u"
  by (auto simp: advances_def)

lemma advances_local: "(tree_inv s \<Longrightarrow> advances s t) \<Longrightarrow> advances s t"
  by (simp add: advances_def)

lemma advancesD: "advances s t \<Longrightarrow> tree_inv s \<Longrightarrow> tree_inv t"
  by (simp add: advances_def)

lemma advances_if: "(b \<Longrightarrow> advances s t) \<Longrightarrow> (\<not> b \<Longrightarrow> advances s u) \<Longrightarrow> advances s (if b then t else u)"
  by simp

lemma keeps_advances: "keeps s t \<Longrightarrow> advances s t"
  using inv_keeps[of s t] by (auto simp: advances_def tree_inv_def keeps_but_def same_forest_def)

lemma shape_advances: "same_shape s t \<Longrightarrow> advances s t"
  by (rule keeps_advances[OF same_shape_keeps])

lemma moves_advances: "moves s c P t \<Longrightarrow> rows_ok t \<Longrightarrow> advances s t"
  by (auto simp: advances_def tree_inv_def moves_def reparented_def)

lemma attachable_placed: "tree_inv s \<Longrightarrow> c_workspace (cons s c) = Some w \<Longrightarrow> attachable s c"
  using tree_okD(7)[of s c w] by (simp add: tree_inv_def attachable_def)

lemma attachable_unlinked: "unlinked s c \<Longrightarrow> c < next_id s \<Longrightarrow> attachable s c"
  by (simp add: unlinked_def attachable_def)

lemma attachable_detached:
  assumes "tree_inv s" "c < next_id s" shows "attachable (container_detach c s) c"
  using detach_unlinked[of s c] reparentedD(1)[OF movesD(2)[OF detach_moves[of s c]]] assms
  by (intro attachable_unlinked) (simp_all add: tree_inv_def)

lemma keeps_attachable:
  assumes "keeps s t" "tree_inv s" "unlinked s c" "c < next_id s" shows "unlinked t c" "attachable t c"
proof -
  have ok: "tree_ok s" using assms(2) by (simp add: tree_inv_def)
  show "unlinked t c"
    using keeps_stray[OF assms(1) ok unlinked_stray[OF ok assms(3)]] assms(3) by (simp add: unlinked_def stray_def)
  then show "attachable t c" using same_forestD(1)[OF keeps_forest[OF assms(1) ok]] assms(4) by (simp add: attachable_unlinked)
qed

lemma create_advances: "container_create v s = (c, t) \<Longrightarrow> advances s t"
  using container_create_inv[of s v c t] container_create_fields(2)[of v s c t] by (auto simp: advances_def)

context refocusing
begin

lemma detach_advances: "advances s (container_detach c s)"
  by (rule advances_local) (auto simp: tree_inv_def intro: moves_advances detach_moves detach_rows)

lemma refocus_advances: "advances s (e_refocus E k n s)"
  by (rule keeps_advances[OF refocus_keeps])

lemma begin_destroy_advances: "advances s (container_begin_destroy E c s)"
  by (rule advances_local) (auto simp: tree_inv_def intro: moves_advances begin_destroy_moves begin_destroy_rows)

lemma reap_loop_advances: "advances s (fst (reap_loop n E c s))"
proof (induction n arbitrary: c s)
  case (Suc n)
  then show ?case
    by (auto split: option.split intro: advances_refl advances_trans[OF begin_destroy_advances])
qed (simp add: advances_refl)

lemma reap_advances: "advances s (container_reap_empty E p s)"
proof -
  obtain t b where r: "reap_loop (next_id s + 1) E (Some p) s = (t, b)" by fastforce
  have t: "advances s t" using reap_loop_advances[of s "next_id s + 1" "Some p"] r by simp
  show ?thesis
    unfolding container_reap_empty_def Let_def r using t
    by (auto split: option.split intro: advances_refl advances_trans[OF t keeps_advances[OF consider_destroy_keeps]])
qed

lemma consider_destroy_advances: "advances s (workspace_consider_destroy E w s)"
  by (rule keeps_advances[OF consider_destroy_keeps])

lemma add_floating_advances: "attachable s c \<Longrightarrow> advances s (workspace_add_floating E w c s)"
  by (rule advances_local) (auto simp: tree_inv_def intro: moves_advances add_floating_moves add_floating_rows)

lemma child_moves_advances:
  assumes "tree_inv s \<Longrightarrow> moves s c (Some p) t" shows "advances s t"
proof (rule advances_local)
  assume inv: "tree_inv s"
  note m = assms[OF inv]
  show "advances s t" by (rule moves_advances[OF m moves_rows[OF m]]) (use inv in \<open>simp_all add: tree_inv_def\<close>)
qed

lemma add_child_advances: "attachable s c \<Longrightarrow> can_hold s p c \<Longrightarrow> advances s (container_add_child E p c s)"
  by (rule child_moves_advances[OF add_child_moves]) (simp_all add: tree_inv_def)

lemma insert_child_advances: "attachable s c \<Longrightarrow> can_hold s p c \<Longrightarrow> advances s (container_insert_child E p c i s)"
  by (rule child_moves_advances[OF insert_child_moves]) (simp_all add: tree_inv_def)

end

end
