(* ===== verification/Column_Moves.thy ===== *)
theory Column_Moves
  imports Tree_Inv
begin

text \<open>
  The rest of the column operations keep the invariant: tiling and floating, dropping a window,
  exchanging columns and floating windows, pulling a column.
\<close>

lemmas shape_after = advances_trans[OF _ shape_advances]
  and keeps_after = advances_trans[OF _ keeps_advances]

lemma dirty_after: "advances s t \<Longrightarrow> advances s (node_set_dirty n t)"
  by (rule keeps_after[OF _ keeps_dirty])

lemma emit_after: "advances s t \<Longrightarrow> advances s (emit e t)"
  by (rule keeps_after[OF _ keeps_emit])

lemma borders_keep: "keeps s (upd_con c float_borders s)" "keeps s (upd_con c tile_borders s)"
  by (rule keeps_upd_con, simp add: float_borders_def tile_borders_def split: option.split)+

section \<open>Tiling and floating\<close>

lemma adopt_same:
  assumes "c_parent (cons s c) = None" "c_workspace (cons s c) = Some w"
  shows "container_for_each_child c set_workspace s = adopt c None (Some w) s"
proof -
  have "upd_con c (\<lambda>x. x\<lparr>c_parent := None, c_workspace := Some w\<rparr>) s = s"
  proof -
    have "(cons s c)\<lparr>c_parent := None, c_workspace := Some w\<rparr> = cons s c"
      using assms by (intro container.equality) simp_all
    then show ?thesis by (simp add: upd_con_def fun_upd_idem)
  qed
  then show ?thesis by (simp add: adopt_def)
qed

context refocusing
begin

lemmas reap_after = advances_trans[OF _ reap_advances]
  and detach_after = advances_trans[OF _ detach_advances]
  and refocus_then = advances_trans[OF _ refocus_advances]
  and begin_destroy_after = advances_trans[OF _ begin_destroy_advances]
  and consider_destroy_then = advances_trans[OF _ consider_destroy_advances]

lemma set_floating_on_advances:
  assumes "c < next_id s" shows "advances s (set_floating_on E w c s)"
proof (rule advances_local)
  assume inv: "tree_inv s"
  have a: "advances s (workspace_add_floating E w c (container_detach c s))"
    by (rule advances_trans[OF detach_advances add_floating_advances[OF attachable_detached[OF inv assms]]])
  have fr: "advances t (snd (workspace_even_freed w i f t))" for i f t
    by (rule shape_advances[OF even_freed_shape])
  have ab: "advances s (case q of None \<Rightarrow> t | Some p \<Rightarrow> container_reap_empty E p
      (if b then seat_set_raw_focus k x (seat_set_raw_focus k (y' p) t) else t))"
    if "t = container_floating_resize_and_center l o' c (container_floating_set_default_size l c
              (upd_con c float_borders (workspace_add_floating E w c (container_detach c s))))" for q b k x y' t l o'
    unfolding that
    by (rule advances_trans[OF shape_after[OF shape_after[OF keeps_after[OF a borders_keep(1)] default_size_shape] resize_and_center_shape]])
      (auto split: option.split intro!: advances_refl reap_advances
        reap_after[OF keeps_advances[OF keeps_trans[OF keeps_raw_focus keeps_raw_focus]]])
  show "advances s (set_floating_on E w c s)"
    unfolding set_floating_on_def Let_def
    by (intro advances_if advances_trans[OF ab[OF refl] fr] ab[OF refl])
qed

lemma set_tiling_on_advances:
  assumes at: "c < next_id s" shows "advances s (set_tiling_on E w c s)"
proof (rule advances_local)
  assume inv: "tree_inv s"
  define s1 where "s1 = (if c_scratchpad (cons s c) then root_scratchpad_remove_container c s else s)"
  define idx where "idx = tiling_slot s1 w c"
  have k1: "keeps s s1" unfolding s1_def by (intro keeps_if keeps_refl scratchpad_remove_keeps)
  have inv1: "tree_inv s1" by (rule inv_keeps[OF k1 inv])
  have c1: "c < next_id s1"
    using same_forestD(1)[OF keeps_forest[OF k1]] inv at by (simp add: tree_inv_def)
  note inv2 = advancesD[OF detach_advances inv1, of c] and at2 = attachable_detached[OF inv1 c1]
  have ok2: "tree_ok (container_detach c s1)" and rows2: "rows_ok (container_detach c s1)"
    using inv2 by (simp_all add: tree_inv_def)
  obtain col t0 where cr: "container_create None (container_detach c s1) = (col, t0)" by fastforce
  define t where "t = upd_con col (\<lambda>x. x\<lparr>c_layout := L_VERT, c_workspace := Some w\<rparr>) t0"
  define u where "u = upd_con c tile_borders
    (let s = upd_con col (\<lambda>x. x\<lparr>c_width_fraction := layout_get_default_width (container_add_child E col c t),
           c_height_fraction := 1, c_height := of_int (w_height (wss (container_add_child E col c t) w))\<rparr>)
           (container_add_child E col c t) in
     if w_tiling (wss s w) \<noteq> [] then workspace_fit_new_column w col idx s else s)"
  have "keeps (container_add_child E col c t) u"
    unfolding u_def Let_def
    by (rule keeps_trans[OF _ borders_keep(2)], rule keeps_if)
      (rule keeps_trans[OF keeps_upd_con same_shape_keeps[OF workspace_fit_new_column_shape]], simp, rule keeps_upd_con, simp)
  note mm = moves_keeps[OF holder_moves[OF ok2 at2 cr t_def] this]
  note f = holder_facts[OF ok2 at2 cr t_def mm]
  have rows_u: "rows_ok u" by (rule holder_rows[OF rows2 f(2) _ f(10)]) (simp_all add: f(7,8))
  have lo: "loose u w col" by (rule stray_loose[OF f(3) disjI2[OF f(4)]])
  have par: "c_parent (cons u col) = None" using f(3) by (simp add: stray_def)
  have "set_tiling_on E w c s = place_column_at E w col idx u"
    unfolding set_tiling_on_def s1_def[symmetric] idx_def[symmetric] cr Let_def prod.case t_def[symmetric]
      place_column_at_def
    unfolding u_def[unfolded Let_def, symmetric]
    using par f(4) by (simp add: adopt_same)
  then have e: "set_tiling_on E w c s = place_column_at E w col idx u" .
  have bound: "col < next_id u" using f(1,5) by simp
  note p = place_column_rows[OF f(2) rows_u lo bound f(6), of idx]
  have "next_id s \<le> next_id u"
    using f(5) reparentedD(1)[OF movesD(2)[OF detach_moves[of s1 c]]] inv inv1
      same_forestD(1)[OF keeps_forest[OF k1]] by (simp add: tree_inv_def)
  moreover have "next_id (place_column_at E w col idx u) = next_id u"
    by (rule same_forestD(1)[OF keeps_forest[OF place_column_keeps[OF lo bound] f(2)]])
  ultimately show "advances s (set_tiling_on E w c s)"
    unfolding e using p by (simp add: advances_def tree_inv_def)
qed

lemma set_floating_advances: "advances s (container_set_floating E c enable s)"
proof (rule advances_local)
  assume inv: "tree_inv s"
  have "c < next_id s" if "c_workspace (cons s c) = Some w" for w
    using attachable_placed[OF inv that] by (simp add: attachable_def)
  then show "advances s (container_set_floating E c enable s)"
    unfolding container_set_floating_def
    by (auto split: option.split intro!: advances_refl emit_after set_floating_on_advances set_tiling_on_advances)
qed

end

section \<open>Permuting a list\<close>

lemma permute_inv:
  assumes "tree_inv s" "mset (f (list_of s r)) = mset (list_of s r)" shows "tree_inv (upd_list r f s)"
proof -
  note ok = assms(1)[unfolded tree_inv_def, THEN conjunct1] and rows = assms(1)[unfolded tree_inv_def, THEN conjunct2]
  let ?t = "upd_list r f s"
  note se = mset_eq_setD[OF assms(2)] and di = mset_eq_imp_distinct_iff[OF assms(2)]
  have ch: "set (c_children (cons ?t p)) = set (c_children (cons s p))" for p
    using se by (auto simp: upd_list_def list_of_def split: list_ref.splits)
  have "distinct (c_children (cons ?t p)) = distinct (c_children (cons s p))" for p
    using di by (auto simp: upd_list_def list_of_def split: list_ref.splits)
  then have st: "struct_ok ?t"
    using tree_okD(1)[OF ok] ch by (auto simp: struct_ok_def parent_rel_def simp flip: set_empty)
  have ro: "set (roots ?t w) = set (roots s w)" "distinct (roots ?t w) = distinct (roots s w)" for w
    using se di by (auto simp: upd_list_def list_of_def roots_def split: list_ref.splits)
  have ti: "set (w_tiling (wss ?t w)) = set (w_tiling (wss s w))" for w
    using se by (auto simp: upd_list_def list_of_def split: list_ref.splits)
  have "tree_ok ?t" by (rule tree_okI[OF st]) (use ro tree_okD[OF ok] in auto)
  moreover have "rows_ok ?t" using rows by (auto simp: rows_ok_def ti)
  ultimately show ?thesis by (simp add: tree_inv_def)
qed

lemma permute_advances:
  "mset (f (list_of s r)) = mset (list_of s r) \<Longrightarrow> advances s (upd_list r f s)"
  using permute_inv by (simp add: advances_def)

lemma mset_insert_delete:
  assumes "i < length xs" shows "mset (insert_at k (xs ! i) (delete_at i xs)) = mset xs"
proof -
  have "mset xs = mset (take i xs @ xs ! i # drop (Suc i) xs)" using id_take_nth_drop[OF assms] by simp
  then show ?thesis by (simp add: delete_at_def del: append_take_drop_id)
qed

lemma mset_move:
  "x \<in> set xs \<Longrightarrow> mset (insert_at k x (delete_at (nat (index_of x xs)) xs)) = mset xs"
  by (erule index_of_present) (auto dest: mset_insert_delete[where k=k])

lemma mset_swap_at: "i < length xs \<Longrightarrow> j < length xs \<Longrightarrow> mset (swap_at i j xs) = mset xs"
  by (simp add: swap_at_def mset_swap)

lemma index_of_nonneg: "0 \<le> index_of x xs \<longleftrightarrow> x \<in> set xs"
  using index_of_absent[of x xs] by (cases "x \<in> set xs") (auto elim: index_of_present)

lemma index_of_less: "x \<in> set xs \<Longrightarrow> nat (index_of x xs) < length xs"
  by (auto elim: index_of_present)

lemma set_delete_index: "(x :: id) \<in> set xs \<Longrightarrow> y \<in> set xs \<Longrightarrow> x \<noteq> y \<Longrightarrow> y \<in> set (delete_at (nat (index_of x xs)) xs)"
  using remove_id_remove1[of x xs] index_of_absent[of x xs] by (auto simp: remove_id_def split: if_splits)

lemma mset_reorder:
  assumes "view \<noteq> target" shows "mset (reorder view target edge after xs) = mset xs"
proof -
  have "mset (reorder view target edge after xs) = mset xs" if "view \<in> set xs" "target \<in> set xs"
    using that assms mset_swap_at[OF index_of_less index_of_less, of view xs target] mset_move[of view xs]
      set_delete_index[of view xs target] index_of_nonneg[of target "delete_at (nat (index_of view xs)) xs"]
    by (auto simp: reorder_def Let_def)
  then show ?thesis using index_of_nonneg[of view xs] index_of_nonneg[of target xs]
    by (auto simp: reorder_def Let_def)
qed

lemma mset_swapped:
  assumes "a \<in> set xs" "b \<in> set xs" "a \<noteq> b"
  shows "mset (swapped_in_row a b (index_of a xs) i xs) = mset xs"
proof -
  let ?ys = "insert_at (nat (if i > index_of a xs then i - 1 else i)) a (delete_at (nat (index_of a xs)) xs)"
  have m: "mset ?ys = mset xs" by (rule mset_move[OF assms(1)])
  then have "b \<in> set ?ys" using assms(2) mset_eq_setD by blast
  then have "mset (insert_at k b (delete_at (nat (index_of b ?ys)) ?ys)) = mset ?ys" for k by (rule mset_move)
  then show ?thesis using m by (simp add: swapped_in_row_def Let_def)
qed

section \<open>Exchanging two containers\<close>

text \<open>
  Two containers without parent and workspace go into two lists and their subtrees get the
  workspaces, the state after both lists are written.
\<close>

definition exchanged :: "id \<Rightarrow> id \<Rightarrow> id \<Rightarrow> id \<Rightarrow> sway \<Rightarrow> sway" where
  "exchanged a b wa wb s =
     upd_con b (\<lambda>x. x\<lparr>c_workspace := Some wa\<rparr>) (upd_con a (\<lambda>x. x\<lparr>c_workspace := Some wb\<rparr>) s)"

lemma root_list_fields:
  assumes "r = Tiling_of w \<or> r = Floating_of w"
  shows "c_children (cons (upd_list r f s) d) = c_children (cons s d)"
  using assms by (auto simp: upd_list_def)

lemma roots_insert:
  assumes "r = Tiling_of w \<or> r = Floating_of w" "inserts f a"
  shows "set (roots (upd_list r f s) v) \<subseteq> insert a (set (roots s v))"
  using assms(1) insertsD(1)[OF assms(2)] by (auto simp: roots_def upd_list_def split: if_splits)

lemma exchange_ok:
  assumes ok: "tree_ok s" and un: "unlinked s a" "unlinked s b" and ab: "a \<noteq> b"
    and bd: "a < next_id s" "b < next_id s"
    and r: "r = Tiling_of wb \<or> r = Floating_of wb" "q = Tiling_of wa \<or> q = Floating_of wa"
    and f: "inserts f a" "inserts g b"
    and h: "same_tree (exchanged a b wa wb (upd_list q g (upd_list r f s))) u"
  shows "tree_ok (container_for_each_child b set_workspace (container_for_each_child a set_workspace u))"
proof -
  define A where "A = adopt a None (Some wb) (upd_list r f s)"
  define B where "B = adopt b None (Some wa) (upd_list q g A)"
  let ?v = "container_for_each_child b set_workspace (container_for_each_child a set_workspace u)"
  note st = tree_okD(1)[OF ok]
  have par: "c_parent (cons s a) = None" "c_parent (cons s b) = None" using un by (simp_all add: unlinked_def)
  have nd: "a \<notin> descendants s b" "b \<notin> descendants s a" "a \<notin> descendants s a" "b \<notin> descendants s b"
    using par by (simp_all add: descendants_none)
  have A: "A = put_ws (insert a (descendants s a)) (Some wb) (link_con a None (Some wb) (upd_list r f s))"
    unfolding A_def by (rule link_root_put[OF st par(1) r(1)])
  have okA: "tree_ok A" unfolding A_def by (rule link_root_ok[OF ok unlinked_loose[OF ok un(1)] bd(1) r(1) f(1)])
  have fA: "c_parent (cons A d) = c_parent (cons s d)" "c_children (cons A d) = c_children (cons s d)"
    "(c_view (cons A d) = None) = (c_view (cons s d) = None)" "next_id A = next_id s"
    "c_workspace (cons A d) = (if d \<in> insert a (descendants s a) then Some wb else c_workspace (cons s d))"
    "wss A = wss (upd_list r f s)" "roots A w = roots (upd_list r f s) w" for d w
    unfolding A using par by (simp_all add: root_list_fields[OF r(1)])
  have dA: "descendants A b = descendants s b"
    by (rule same_forest_descendants) (simp add: same_forest_def fA)
  have loA: "loose A wa b"
    using un(2) ab nd(2) roots_insert[OF r(1) f(1), of s wa] unlinked_not_root[OF ok un(2), of wa]
    by (auto simp: unlinked_def loose_def fA)
  have bA: "b < next_id A" using bd(2) by (simp add: fA)
  have B: "B = put_ws (insert b (descendants s b)) (Some wa) (link_con b None (Some wa) (upd_list q g A))"
    unfolding B_def dA[symmetric]
    by (rule link_root_put[OF tree_okD(1)[OF okA] _ r(2)]) (use loA in \<open>simp add: loose_def\<close>)
  have okB: "tree_ok B" unfolding B_def by (rule link_root_ok[OF okA loA bA r(2) f(2)])
  have li: "w_tiling (wss (upd_list q g A) w) = w_tiling (wss (upd_list q g (upd_list r f s)) w)"
    "w_floating (wss (upd_list q g A) w) = w_floating (wss (upd_list q g (upd_list r f s)) w)" for w
    using r(2) fA(6) by (auto simp: upd_list_def[of q])
  have fB: "c_parent (cons B d) = c_parent (cons s d)" "c_children (cons B d) = c_children (cons s d)"
    "(c_view (cons B d) = None) = (c_view (cons s d) = None)" "next_id B = next_id s"
    "c_workspace (cons B d) = (if d \<in> insert b (descendants s b) then Some wa
       else if d \<in> insert a (descendants s a) then Some wb else c_workspace (cons s d))"
    "w_tiling (wss B w) = w_tiling (wss (upd_list q g (upd_list r f s)) w)"
    "w_floating (wss B w) = w_floating (wss (upd_list q g (upd_list r f s)) w)"
    "w_fullscreen (wss B w) = w_fullscreen (wss s w)" for d w
    unfolding B using par by (simp_all add: root_list_fields[OF r(2)] li fA)
  have u: "next_id u = next_id s" "c_parent (cons u d) = c_parent (cons s d)" "c_children (cons u d) = c_children (cons s d)"
    "(c_view (cons u d) = None) = (c_view (cons s d) = None)"
    "c_workspace (cons u d) = (if d = b then Some wa else if d = a then Some wb else c_workspace (cons s d))"
    "w_tiling (wss u w) = w_tiling (wss (upd_list q g (upd_list r f s)) w)"
    "w_floating (wss u w) = w_floating (wss (upd_list q g (upd_list r f s)) w)"
    "w_fullscreen (wss u w) = w_fullscreen (wss s w) \<or> w_fullscreen (wss u w) = None" for d w
    using h by (auto simp: same_tree_def exchanged_def root_list_fields[OF r(1)] root_list_fields[OF r(2)])
  have fu: "same_forest s u" by (simp add: same_forest_def u)
  note su = same_forest_struct[OF fu st]
  have v1: "container_for_each_child a set_workspace u = put_ws (descendants s a) (Some wb) u"
    unfolding for_each_child_set_workspace[OF su] same_forest_descendants[OF fu] using ab by (simp add: u)
  have v: "?v = put_ws (descendants s b) (Some wa) (put_ws (descendants s a) (Some wb) u)"
    unfolding v1
    by (subst for_each_child_set_workspace[OF same_forest_struct[OF put_ws_forest su]])
      (simp add: same_forest_descendants[OF put_ws_forest] same_forest_descendants[OF fu] nd u)
  have "same_tree B ?v"
    unfolding same_tree_def v using nd ab u(8) by (auto simp: u(1-7) fB)
  then show ?thesis by (rule same_tree_ok) (rule okB)
qed

lemma detach_two:
  assumes "tree_ok s" "a \<noteq> b"
  shows "tree_ok (container_detach b (container_detach a s))"
    "unlinked (container_detach b (container_detach a s)) a" "unlinked (container_detach b (container_detach a s)) b"
    "next_id (container_detach b (container_detach a s)) = next_id s"
proof -
  let ?d = "container_detach a s"
  have ok: "tree_ok ?d" by (rule detach_ok[OF assms(1)])
  have un: "unlinked ?d a" by (rule detach_unlinked[OF assms(1)])
  show "tree_ok (container_detach b ?d)" "unlinked (container_detach b ?d) b"
    by (rule detach_ok[OF ok] detach_unlinked[OF ok])+
  show "unlinked (container_detach b ?d) a"
    using un assms(2) by (simp add: unlinked_def detach_fields detach_core_effect[OF ok])
  show "next_id (container_detach b ?d) = next_id s"
    using reparentedD(1)[OF movesD(2)[OF detach_moves[OF ok, of b]]]
      reparentedD(1)[OF movesD(2)[OF detach_moves[OF assms(1), of a]]] by simp
qed

lemma for_each_ws_fields:
  assumes "struct_ok u"
  shows "w_tiling (wss (container_for_each_child b set_workspace (container_for_each_child a set_workspace u)) w) = w_tiling (wss u w)"
    "next_id (container_for_each_child b set_workspace (container_for_each_child a set_workspace u)) = next_id u"
    "c_view (cons (container_for_each_child b set_workspace (container_for_each_child a set_workspace u)) d) = c_view (cons u d)"
proof -
  have v: "container_for_each_child b set_workspace (put_ws D W u)
      = put_ws (descendants (put_ws D W u) b) (c_workspace (cons (put_ws D W u) b)) (put_ws D W u)" for D W
    by (rule for_each_child_set_workspace[OF same_forest_struct[OF put_ws_forest assms]])
  show "w_tiling (wss (container_for_each_child b set_workspace (container_for_each_child a set_workspace u)) w) = w_tiling (wss u w)"
    "next_id (container_for_each_child b set_workspace (container_for_each_child a set_workspace u)) = next_id u"
    "c_view (cons (container_for_each_child b set_workspace (container_for_each_child a set_workspace u)) d) = c_view (cons u d)"
    unfolding for_each_child_set_workspace[OF assms] v by simp_all
qed

text \<open>
  What exchange_columns and exchange_floating share: both containers are detached, put into the lists
  r and q, and the step h between changes geometry only.
\<close>

lemma exchange_inv:
  assumes inv: "tree_inv s" and ab: "a \<noteq> b" and bd: "a < next_id s" "b < next_id s"
    and r: "r = Tiling_of wb \<or> r = Floating_of wb" "q = Tiling_of wa \<or> q = Floating_of wa"
    and f: "inserts f a" "inserts g b"
    and cols: "r = Floating_of wb \<and> q = Floating_of wa \<or> c_view (cons s a) = None \<and> c_view (cons s b) = None"
    and h: "\<And>t. same_tree t (h t)"
  defines "d \<equiv> container_detach b (container_detach a s)"
  shows "advances s (container_for_each_child b set_workspace (container_for_each_child a set_workspace
           (h (exchanged a b wa wb (upd_list q g (upd_list r f d))))))"
proof -
  have ok: "tree_ok s" and rows: "rows_ok s" using inv by (simp_all add: tree_inv_def)
  note two = detach_two[OF ok ab, folded d_def]
  have rd: "rows_ok d" unfolding d_def by (rule live.detach_rows[OF detach_ok[OF ok] live.detach_rows[OF ok rows]])
  let ?u = "h (exchanged a b wa wb (upd_list q g (upd_list r f d)))"
  let ?v = "container_for_each_child b set_workspace (container_for_each_child a set_workspace ?u)"
  have okv: "tree_ok ?v"
    by (rule exchange_ok[OF two(1-3) ab _ _ r f h]) (use bd two(4) in simp_all)
  have u: "c_parent (cons ?u x) = c_parent (cons d x)" "c_children (cons ?u x) = c_children (cons d x)"
    "(c_view (cons ?u x) = None) = (c_view (cons d x) = None)" "next_id ?u = next_id d"
    "w_tiling (wss ?u w) = w_tiling (wss (upd_list q g (upd_list r f d)) w)" for x w
    using h[of "exchanged a b wa wb (upd_list q g (upd_list r f d))"]
    by (auto simp: same_tree_def exchanged_def root_list_fields[OF r(1)] root_list_fields[OF r(2)])
  have su: "struct_ok ?u"
    by (rule same_forest_struct[OF _ tree_okD(1)[OF two(1)]]) (simp add: same_forest_def u)
  note v = for_each_ws_fields[OF su, of b a]
  have views: "(c_view (cons d x) = None) = (c_view (cons s x) = None)" for x
    unfolding d_def reparentedD(3)[OF movesD(2)[OF detach_moves[OF detach_ok[OF ok]]]]
      reparentedD(3)[OF movesD(2)[OF detach_moves[OF ok]]] ..
  have "rows_ok ?v"
    unfolding rows_ok_def v u(5) u(3)
  proof (intro allI ballI)
    fix w c assume c: "c \<in> set (w_tiling (wss (upd_list q g (upd_list r f d)) w))"
    have "c \<in> set (w_tiling (wss d w)) \<or> (c = a \<or> c = b) \<and> \<not> (r = Floating_of wb \<and> q = Floating_of wa)"
      using c r insertsD(1)[OF f(1)] insertsD(1)[OF f(2)] by (auto simp: upd_list_def split: if_splits)
    then show "c_view (cons d c) = None" using rd cols views by (auto simp: rows_ok_def)
  qed
  then show ?thesis using okv v u(4) two(4) by (simp add: advances_def tree_inv_def)
qed

lemma swap_geometry_tree: "same_tree t (swap_widths a b old t)" "same_tree t (swap_positions a b old t)"
  by (simp_all add: same_tree_def swap_widths_def swap_positions_def)

context refocusing
begin

lemma exchange_columns_advances:
  assumes inv: "tree_inv s" and ab: "a \<noteq> b"
    and a: "a \<in> set (w_tiling (wss s ws_a))" and b: "b \<in> set (w_tiling (wss s ws_b))"
  shows "advances s (exchange_columns E a b ws_a ws_b i j s)"
proof -
  have bd: "a < next_id s" "b < next_id s" and nv: "c_view (cons s a) = None" "c_view (cons s b) = None"
    using inv a b tree_okD(5,7)[of s] by (auto simp: tree_inv_def roots_def rows_ok_def)
  show ?thesis
    unfolding exchange_columns_def Let_def
    by (intro dirty_after keeps_after[OF _ reparent_keeps])
      (rule exchange_inv[OF inv ab bd disjI1[OF refl] disjI1[OF refl] inserts_insert_at inserts_insert_at
        disjI2[OF conjI[OF nv]] swap_geometry_tree(1), unfolded exchanged_def])
qed

lemma exchange_floating_advances:
  assumes inv: "tree_inv s" and ab: "a \<noteq> b" and bd: "a < next_id s" "b < next_id s"
  shows "advances s (exchange_floating E a b ws_a ws_b s)"
  unfolding exchange_floating_def Let_def
  by (intro dirty_after keeps_after[OF _ reparent_keeps])
    (rule exchange_inv[OF inv ab bd disjI2[OF refl] disjI2[OF refl] inserts_append inserts_append
      disjI1[OF conjI[OF refl refl]] swap_geometry_tree(2), unfolded exchanged_def])

lemma update_representations_advance:
  "advances s t \<Longrightarrow> advances s (let s = workspace_update_representation wa t in
     if P then workspace_update_representation wb s else s)"
  unfolding Let_def
  by (intro advances_if shape_after[OF _ update_workspace_representation_shape])

lemma swap_columns_advances: "advances s (workspace_swap_columns E a b s)"
proof (rule advances_local)
  assume inv: "tree_inv s"
  have same: "advances s (swap_widths a b s (upd_list (Tiling_of w) (swapped_in_row a b
      (index_of a (w_tiling (wss s w))) i) s))"
    if "a \<in> set (w_tiling (wss s w))" "b \<in> set (w_tiling (wss s w))" "a \<noteq> b" for w i
    using that by (intro keeps_after[OF permute_advances same_tree_keeps[OF swap_geometry_tree(1)]])
      (simp add: list_of_def mset_swapped)
  show "advances s (workspace_swap_columns E a b s)"
    unfolding workspace_swap_columns_def Let_def
    using exchange_columns_advances[OF inv]
    by (auto split: option.split simp: index_of_nonneg[of a] index_of_nonneg[of b] not_less
        intro!: advances_refl dirty_after shape_after[OF _ update_workspace_representation_shape] same)
qed

lemma swap_floating_advances: "advances s (workspace_swap_floating E a b s)"
proof (rule advances_local)
  assume inv: "tree_inv s"
  have bd: "c < next_id s" if "c_workspace (cons s c) = Some w" for c w
    using attachable_placed[OF inv that] by (simp add: attachable_def)
  show "advances s (workspace_swap_floating E a b s)"
    unfolding workspace_swap_floating_def Let_def
    by (auto split: option.split intro!: advances_refl dirty_after exchange_floating_advances[OF inv] bd
        shape_after[OF _ update_workspace_representation_shape] keeps_advances[OF same_tree_keeps[OF swap_geometry_tree(2)]])
qed

section \<open>Dropping a window\<close>

lemma insert_column_advances:
  "attachable s c \<Longrightarrow> c_view (cons s c) \<noteq> None \<or> c \<notin> set (w_floating (wss s w)) \<Longrightarrow>
   advances s (snd (workspace_insert_column E w c i s))"
  using insert_column_ok[of s c w i] by (auto simp: advances_def tree_inv_def)

lemma add_tiling_advances:
  assumes "attachable s c" shows "advances s (snd (workspace_add_tiling E w c s))"
proof -
  obtain r t where e: "workspace_add_tiling E w c s = (r, t)" by fastforce
  show ?thesis unfolding e snd_conv advances_def tree_inv_def using add_tiling_ok[OF _ _ assms e] by simp
qed

lemma fix_overflow_advances: "advances s (workspace_fix_overflow E w s)"
  using fix_overflow_ok[of s w] by (simp add: advances_def tree_inv_def)

lemma reap_if_empty_advances: "advances s (reap_if_empty E p s)"
  unfolding reap_if_empty_def by (auto split: option.split intro!: advances_refl reap_advances)

lemma drop_into_column_advances:
  assumes "unlinked s view" "view < next_id s" "can_hold s col view"
  shows "advances s (drop_into_column E view target col after s)"
proof (rule child_moves_advances)
  assume "tree_inv s"
  then have ok: "tree_ok s" by (simp add: tree_inv_def)
  show "moves s view (Some col) (drop_into_column E view target col after s)"
    unfolding drop_into_column_def Let_def upd_list_simps
    by (rule moves_keeps[OF link_child_moves[OF ok assms inserts_insert_at] same_shape_keeps[OF fit_vertical_shape]])
qed

text \<open>
  The target's column can hold the window when the window goes above or below the target, and the
  column the window is alone in does not float on the workspace.
\<close>

lemma insert_window_advances:
  assumes bound: "view < next_id s"
    and hold: "edge = EDGE_TOP \<or> edge = EDGE_BOTTOM \<or> edge = EDGE_NONE \<Longrightarrow>
      can_hold s (container_toplevel_ancestor s target) view"
    and col: "container_toplevel_ancestor s view \<notin> set (w_floating (wss s w))"
      "attachable s (container_toplevel_ancestor s view)"
  shows "advances s (snd (workspace_insert_window E w view target edge after s))"
proof (rule advances_local)
  assume inv: "tree_inv s"
  let ?d = "container_detach view s" and ?t = "container_toplevel_ancestor s target"
  note ok = inv[unfolded tree_inv_def, THEN conjunct1]
  note m = detach_moves[OF ok, of view] and un = detach_unlinked[OF ok, of view]
  have b: "view < next_id ?d" using bound reparentedD(1)[OF movesD(2)[OF m]] by simp
  have fl: "view \<notin> set (w_floating (wss ?d w))"
    using unlinked_not_root[OF movesD(1)[OF m] un, of w] by (simp add: roots_def)
  have re: "advances s (upd_list (Children_of p) (reorder view target edge after) s)" if "view \<noteq> target" for p
    using that by (intro permute_advances mset_reorder)
  have dr: "advances s (drop_into_column E view target ?t after ?d)"
    if "edge = EDGE_TOP \<or> edge = EDGE_BOTTOM \<or> edge = EDGE_NONE"
    by (rule advances_trans[OF detach_advances drop_into_column_advances[OF un b can_hold_moves[OF hold[OF that] m ok]]])
  have ic: "advances s (snd (workspace_insert_column E w view i ?d))" for i
    by (rule advances_trans[OF detach_advances insert_column_advances[OF attachable_unlinked[OF un b] disjI2[OF fl]]])
  have ri: "advances s (reap_if_empty E p t)" if "advances s t" for p t
    by (rule advances_trans[OF that reap_if_empty_advances])
  show "advances s (snd (workspace_insert_window E w view target edge after s))"
    unfolding workspace_insert_window_def Let_def if_distrib[of snd] snd_conv
    by (intro advances_if advances_refl re ri dr ic insert_column_advances[OF col(2) disjI2[OF col(1)]])
qed

section \<open>Pulling a column\<close>

lemma pull_column_advances:
  assumes "col \<in> set (w_tiling (wss s v))"
  shows "advances s (workspace_pull_column E w col i s)"
proof (rule advances_local)
  assume inv: "tree_inv s"
  have at: "attachable t col \<and> col \<notin> set (w_floating (wss t w))" if k: "keeps s t" for t
  proof -
    have invt: "tree_inv t" by (rule inv_keeps[OF k inv])
    have tl: "w_tiling (wss t v) = w_tiling (wss s v)"
      using k inv by (simp add: keeps_but_def same_strays_def tree_inv_def)
    have r: "col \<in> set (roots t v)" using assms tl by (simp add: roots_def)
    have ws: "c_workspace (cons t col) = Some v" using tree_okD(5)[OF _ r] invt by (simp add: tree_inv_def)
    have "w = v" if "col \<in> set (w_floating (wss t w))"
      using tree_okD(5)[of t col w] that invt ws by (simp add: tree_inv_def roots_def)
    moreover have "col \<notin> set (w_floating (wss t v))"
      using tree_okD(3)[of t v] invt assms tl by (auto simp: tree_inv_def roots_def)
    ultimately show ?thesis using attachable_placed[OF invt ws] by blast
  qed
  have off: "keeps t (case f of None \<Rightarrow> t | Some g \<Rightarrow> container_set_fullscreen E g FULLSCREEN_NONE t)" for f t
    by (auto split: option.split intro: keeps_refl set_fullscreen_keeps)
  have ins: "advances s (arrange_workspace w (snd (workspace_insert_column E w col i (workspace_fit_new_column w col i t))))"
    if "keeps s t" for t
  proof -
    have k: "keeps s (workspace_fit_new_column w col i t)" by (rule shape_keeps[OF that workspace_fit_new_column_shape])
    show ?thesis
      by (rule shape_after[OF advances_trans[OF keeps_advances[OF k] insert_column_advances[OF
          conjunct1[OF at[OF k]] disjI2[OF conjunct2[OF at[OF k]]]]] arrange_workspace_shape])
  qed
  have end': "advances s (case o' of None \<Rightarrow> t | Some o' \<Rightarrow> if o' = w then t else
      if n_destroying (ninfo (arrange_workspace o' t) (N_WORKSPACE o')) then arrange_workspace o' t
      else workspace_consider_destroy E o' (arrange_workspace o' t))" if "advances s t" for o' t
    using that by (auto split: option.split intro!: shape_after[OF that arrange_workspace_shape]
        consider_destroy_then[OF shape_after[OF that arrange_workspace_shape]])
  show "advances s (workspace_pull_column E w col i s)"
    unfolding workspace_pull_column_def Let_def
    by (rule end', rule ins, rule keeps_trans[OF off off])
qed

end

end
