(* ===== verification/Pools.thy ===== *)
theory Pools
  imports Column_Moves
begin

text \<open>
  Windows that leave the tree and come back (sway/tree/root.c): the scratchpad of the root, and the
  minimize pool of each workspace. seat_set_focus is e_refocus of the environment; the foreign
  toplevel handles and the scene graph are wlroots objects.
\<close>

definition set_container_transform :: "id option \<Rightarrow> id \<Rightarrow> sway \<Rightarrow> sway" where
  "set_container_transform w c s =
     (let b = (case w of None \<Rightarrow> box_zero
               | Some w \<Rightarrow> (case w_output (wss s w) of None \<Rightarrow> box_zero | Some p \<Rightarrow> output_get_box s p)) in
      upd_con c (\<lambda>x. x\<lparr>c_transform := b\<rparr>) s)"

section \<open>The scratchpad\<close>

text \<open>
  Where the focus goes after a container has left for the scratchpad: into its old parent, or else
  into its old workspace, which the source dereferences.
\<close>

definition focus_after_stash :: "env \<Rightarrow> id option \<Rightarrow> id option \<Rightarrow> sway \<Rightarrow> sway" where
  "focus_after_stash E parent w s =
     (let k = input_manager_current_seat E s;
          (new_focus, s) = (case parent of None \<Rightarrow> (None, s)
            | Some p \<Rightarrow> (let s = arrange_container p s in
                         (seat_get_focus_inactive s (seat_at s k) (N_CONTAINER p), s)));
          (new_focus, s) = (case new_focus of Some n \<Rightarrow> (Some n, s)
            | None \<Rightarrow> (case w of None \<Rightarrow> (None, s)
                       | Some w \<Rightarrow> (let s = arrange_workspace w s in
                                    (seat_get_focus_inactive s (seat_at s k) (N_WORKSPACE w), s)))) in
      e_refocus E k new_focus s)"

definition root_scratchpad_add_container :: "env \<Rightarrow> id \<Rightarrow> id option \<Rightarrow> sway \<Rightarrow> sway" where
  "root_scratchpad_add_container E c w s =
     (if c_scratchpad (cons s c) then s
      else
        (let parent = c_parent (cons s c); workspace = c_workspace (cons s c);
             s = set_container_transform workspace c s;
             s = (if c_fullscreen (cons s c) \<noteq> FULLSCREEN_NONE then container_fullscreen_disable E c s else s);
             s = (if \<not> container_is_floating s c
                  then container_floating_move_to_center c
                         (container_floating_set_default_size (e_layout_box E) c
                           (container_set_floating E c True s))
                  else s);
             s = upd_con c (\<lambda>x. x\<lparr>c_scratchpad := True\<rparr>) (container_detach c s);
             s = s\<lparr>scratchpad := scratchpad s @ [c]\<rparr>;
             s = (case w of Some w \<Rightarrow> workspace_add_floating E w c s
                  | None \<Rightarrow> focus_after_stash E parent workspace s) in
         emit (Ev_window c ''move'') s))"

text \<open>The container that is shown: the ancestor of a hidden one, detached from its old workspace.\<close>

definition take_from_scratchpad :: "env \<Rightarrow> nat \<Rightarrow> id \<Rightarrow> sway \<Rightarrow> id \<times> sway" where
  "take_from_scratchpad E k c s =
     (case c_workspace (cons s c) of
        Some old \<Rightarrow>
          (let s = container_detach c s in
           (c, case seat_get_focus_inactive s (seat_at s k) (N_WORKSPACE old) of
                 None \<Rightarrow> s | Some n \<Rightarrow> seat_set_raw_focus k n s))
      | None \<Rightarrow> (container_toplevel_ancestor s c, s))"

definition fix_on_output :: "id \<Rightarrow> id \<Rightarrow> sway \<Rightarrow> sway" where
  "fix_on_output w c s =
     (case w_output (wss s w) of None \<Rightarrow> s
      | Some p \<Rightarrow> floating_fix_coordinates c (c_transform (cons s c)) (output_get_box s p) s)"

definition root_scratchpad_show :: "env \<Rightarrow> id \<Rightarrow> sway \<Rightarrow> sway" where
  "root_scratchpad_show E c s =
     (let k = input_manager_current_seat E s in
      case seat_get_focused_workspace s (seat_at s k) of
        None \<Rightarrow> s
      | Some w \<Rightarrow>
          (let old = c_workspace (cons s c);
               s = disable_if E (w_fullscreen (wss s w)) s;
               s = disable_if E (fullscreen_global s) s;
               (c, s) = take_from_scratchpad E k c s;
               s = workspace_add_floating E w c s;
               s = set_container_transform (Some w) c (fix_on_output w c s);
               s = arrange_workspace w s;
               s = e_refocus E k (seat_get_focus_inactive s (seat_at s k) (N_CONTAINER c)) s;
               s = (case old of None \<Rightarrow> s | Some o' \<Rightarrow> workspace_consider_destroy E o' s) in
           container_raise_floating c s))"

definition disable_fullscreen :: "env \<Rightarrow> id \<Rightarrow> sway \<Rightarrow> sway" where
  "disable_fullscreen E c s =
     (if c_fullscreen (cons s c) \<noteq> FULLSCREEN_NONE then container_fullscreen_disable E c s else s)"

definition root_scratchpad_hide :: "env \<Rightarrow> id \<Rightarrow> sway \<Rightarrow> sway" where
  "root_scratchpad_hide E c s =
     (let k = input_manager_current_seat E s; focus = seat_get_focus_inactive s (seat_at s k) N_ROOT in
      case c_workspace (cons s c) of
        None \<Rightarrow> s
      | Some w \<Rightarrow>
          (let restore_focus = (case focus of None \<Rightarrow> True
                 | Some f \<Rightarrow> f = N_CONTAINER c \<or> node_has_ancestor s f (N_CONTAINER c));
               s = set_container_transform (Some w) c s;
               s = container_for_each_child c (disable_fullscreen E) (disable_fullscreen E c s);
               s = arrange_workspace w (container_detach c s);
               s = (if restore_focus
                    then e_refocus E k (seat_get_focus_inactive s (seat_at s k) (N_WORKSPACE w)) s else s);
               s = s\<lparr>scratchpad := move_to_end c (scratchpad s)\<rparr> in
           emit (Ev_window c ''move'') s))"

section \<open>The minimize pools\<close>

text \<open>
  The container leaves the tree, empty parents are reaped, and the pool of its workspace gets it;
  the container needs a workspace to be found again.
\<close>

definition park :: "id option \<Rightarrow> id \<Rightarrow> sway \<Rightarrow> sway" where
  "park w c s =
     (case w of None \<Rightarrow> s
      | Some v \<Rightarrow> set_container_transform w c (upd_ws v (\<lambda>x. x\<lparr>w_minimized := w_minimized x @ [c]\<rparr>) s))"

definition focus_left_workspace :: "env \<Rightarrow> nat \<Rightarrow> id option \<Rightarrow> sway \<Rightarrow> sway" where
  "focus_left_workspace E k w s =
     (case w of None \<Rightarrow> s
      | Some w \<Rightarrow>
          if n_destroying (ninfo s (N_WORKSPACE w)) then s
          else (let s = arrange_workspace w s in
                e_refocus E k (seat_get_focus_inactive s (seat_at s k) (N_WORKSPACE w)) s))"

definition minimized_event :: "id option \<Rightarrow> sway \<Rightarrow> sway" where
  "minimized_event w s =
     (case w of None \<Rightarrow> s
      | Some w \<Rightarrow> if n_destroying (ninfo s (N_WORKSPACE w)) then s
                  else emit (Ev_workspace (Some w) (Some w) ''minimized'') s)"

definition workspace_minimized_hide :: "env \<Rightarrow> id \<Rightarrow> sway \<Rightarrow> sway" where
  "workspace_minimized_hide E c s =
     (if c_minimized (cons s c) then s
      else
        (let s = disable_fullscreen E c s;
             k = input_manager_current_seat E s; w = c_workspace (cons s c); parent = c_parent (cons s c);
             floating = container_is_floating s c;
             s = upd_con c (\<lambda>x. x\<lparr>c_minimized_was_floating := floating, c_minimized := True\<rparr>) s;
             s = container_detach c s;
             s = (case parent of None \<Rightarrow> s | Some p \<Rightarrow> container_reap_empty E p s);
             s = park w c s;
             s = focus_left_workspace E k w s;
             s = emit (Ev_minimize c True) (emit (Ev_window c ''move'') s) in
         minimized_event w s))"

definition restore_mode :: "env \<Rightarrow> id \<Rightarrow> id \<Rightarrow> sway \<Rightarrow> sway" where
  "restore_mode E w c s =
     (if c_minimized_was_floating (cons s c)
      then container_raise_floating c
             (set_container_transform (Some w) c (fix_on_output w c (workspace_add_floating E w c s)))
      else snd (workspace_add_tiling E w c s))"

definition left_pool_event :: "env \<Rightarrow> id option \<Rightarrow> id \<Rightarrow> sway \<Rightarrow> sway" where
  "left_pool_event E old w s =
     (case old of None \<Rightarrow> s
      | Some o' \<Rightarrow>
          if n_destroying (ninfo s (N_WORKSPACE o')) \<or> o' = w then s
          else workspace_consider_destroy E o' (emit (Ev_workspace old old ''minimized'') s))"

definition workspace_minimized_show_on :: "env \<Rightarrow> id \<Rightarrow> id \<Rightarrow> sway \<Rightarrow> sway" where
  "workspace_minimized_show_on E c w s =
     (if \<not> c_minimized (cons s c) then s
      else
        (let k = input_manager_current_seat E s;
             (old, s) = workspace_minimized_remove c s;
             s = upd_con c (\<lambda>x. x\<lparr>c_minimized := False\<rparr>) s;
             s = disable_if E (w_fullscreen (wss s w)) s;
             s = disable_if E (fullscreen_global s) s;
             s = arrange_workspace w (restore_mode E w c s);
             s = e_refocus E k (seat_get_focus_inactive s (seat_at s k) (N_CONTAINER c)) s;
             s = emit (Ev_minimize c False) (emit (Ev_window c ''move'') s) in
         minimized_event (Some w) (left_pool_event E old w s)))"

definition workspace_minimized_show :: "env \<Rightarrow> id \<Rightarrow> sway \<Rightarrow> sway" where
  "workspace_minimized_show E c s =
     (if \<not> c_minimized (cons s c) then s
      else case seat_get_focused_workspace s (seat_at s (input_manager_current_seat E s)) of
        None \<Rightarrow> s
      | Some w \<Rightarrow> workspace_minimized_show_on E c w s)"

section \<open>What they keep\<close>

lemma transform_keeps: "keeps s (set_container_transform w c s)"
  unfolding set_container_transform_def Let_def by (rule keeps_upd_con) simp

lemmas transform_after = keeps_trans[OF _ transform_keeps]

lemma fix_on_output_keeps: "keeps s (fix_on_output w c s)"
  unfolding fix_on_output_def
  by (auto split: option.split intro: keeps_refl same_shape_keeps fix_coordinates_shape)

lemma for_each_in_keeps: "(\<And>c t. keeps t (f c t)) \<Longrightarrow> keeps s (for_each_in n f cs s)"
proof (induction n f cs s rule: for_each_in.induct)
  case (3 n f c cs s)
  have "keeps s (for_each_in n f (c_children (cons (f c s) c)) (f c s))"
    by (rule keeps_trans[OF 3(3) 3(1)[OF refl 3(3)]])
  then show ?case unfolding for_each_in.simps Let_def by (rule keeps_trans[OF _ 3(2)[OF refl refl 3(3)]])
qed (simp_all add: keeps_refl)

lemma for_each_child_keeps: "(\<And>c t. keeps t (f c t)) \<Longrightarrow> keeps s (container_for_each_child c f s)"
  unfolding container_for_each_child_def by (rule for_each_in_keeps)

lemma park_keeps: "keeps s (park w c s)"
  unfolding park_def by (auto split: option.split intro!: keeps_refl transform_after keeps_upd_ws)

lemma minimized_event_keeps: "keeps s (minimized_event w s)"
  unfolding minimized_event_def by (auto split: option.split intro!: keeps_refl keeps_emit)

context refocusing
begin

lemma disable_fullscreen_keeps: "keeps s (disable_fullscreen E c s)"
  unfolding disable_fullscreen_def by (intro keeps_if keeps_refl fullscreen_disable_keeps)

lemma focus_after_stash_keeps: "keeps s (focus_after_stash E p w s)"
  unfolding focus_after_stash_def Let_def
  by (auto split: option.split intro!: refocus_keeps refocus_after[OF same_shape_keeps[OF arrange_container_shape]]
      refocus_after[OF same_shape_keeps[OF arrange_workspace_shape]]
      refocus_after[OF shape_keeps[OF same_shape_keeps[OF arrange_container_shape] arrange_workspace_shape]])

lemma focus_left_keeps: "keeps s (focus_left_workspace E k w s)"
  unfolding focus_left_workspace_def Let_def
  by (auto split: option.split intro!: keeps_refl refocus_after[OF same_shape_keeps[OF arrange_workspace_shape]])

lemma scratchpad_add_advances:
  assumes "c < next_id s" shows "advances s (root_scratchpad_add_container E c w s)"
proof (rule advances_local)
  assume inv: "tree_inv s"
  define t where "t = (let s = set_container_transform (c_workspace (cons s c)) c s;
      s = (if c_fullscreen (cons s c) \<noteq> FULLSCREEN_NONE then container_fullscreen_disable E c s else s) in
    if \<not> container_is_floating s c
    then container_floating_move_to_center c (container_floating_set_default_size (e_layout_box E) c
           (container_set_floating E c True s)) else s)"
  have k: "keeps s (if b then container_fullscreen_disable E c (set_container_transform v c s)
      else set_container_transform v c s)" for b v
    by (intro keeps_if transform_keeps keeps_trans[OF transform_keeps fullscreen_disable_keeps])
  have t: "advances s t"
    unfolding t_def Let_def
    by (rule advances_if[OF shape_after[OF shape_after[OF advances_trans[OF keeps_advances[OF k]
          set_floating_advances] default_size_shape] move_to_center_shape] keeps_advances[OF k]])
  have invt: "tree_inv t" and ct: "c < next_id t" using t inv assms by (auto simp: advances_def)
  let ?d = "container_detach c t"
  let ?u = "(upd_con c (\<lambda>x. x\<lparr>c_scratchpad := True\<rparr>) ?d)\<lparr>scratchpad :=
      scratchpad (upd_con c (\<lambda>x. x\<lparr>c_scratchpad := True\<rparr>) ?d) @ [c]\<rparr>"
  have u: "keeps ?d ?u" by (rule keeps_trans[OF keeps_upd_con keeps_scratchpad]) simp
  have un: "unlinked ?d c" by (rule detach_unlinked) (use invt in \<open>simp add: tree_inv_def\<close>)
  have cd: "c < next_id ?d" using detach_advances[of t c] invt ct by (auto simp: advances_def)
  have invd: "tree_inv ?d" by (rule advancesD[OF detach_advances invt])
  note at = keeps_attachable(2)[OF u invd un cd]
  have base: "advances s ?u" by (rule advances_trans[OF detach_after[OF t] keeps_advances[OF u]])
  have fl: "advances s (workspace_add_floating E v c ?u)" for v
    by (rule advances_trans[OF base add_floating_advances[OF at]])
  have st: "advances s (focus_after_stash E p v ?u)" for p v
    by (rule keeps_after[OF base focus_after_stash_keeps])
  have e: "root_scratchpad_add_container E c w s = (if c_scratchpad (cons s c) then s else
      emit (Ev_window c ''move'') (case w of Some w \<Rightarrow> workspace_add_floating E w c ?u
        | None \<Rightarrow> focus_after_stash E (c_parent (cons s c)) (c_workspace (cons s c)) ?u))"
    unfolding root_scratchpad_add_container_def t_def Let_def ..
  show "advances s (root_scratchpad_add_container E c w s)"
    unfolding e using fl st by (auto split: option.split intro!: advances_if advances_refl emit_after)
qed

lemma take_from_scratchpad_spec:
  assumes inv: "tree_inv s" and at: "c < next_id s" and t: "take_from_scratchpad E k c s = (d, t)"
  shows "advances s t" "attachable t d"
proof -
  have raw: "keeps u (case f of None \<Rightarrow> u | Some n \<Rightarrow> seat_set_raw_focus k n u)" for f u
    by (auto split: option.split intro!: keeps_refl keeps_raw_focus)
  have "advances s t \<and> attachable t d"
  proof (cases "c_workspace (cons s c)")
    case None
    then have e: "d = container_toplevel_ancestor s c" "t = s" using t by (auto simp: take_from_scratchpad_def)
    have st: "struct_ok s" using inv by (simp add: tree_inv_def tree_okD)
    have "c_parent (cons s d) = None" "d < next_id s"
      using toplevel_ancestor_spec[OF st, of c] ancestors_bound[OF st, of c] at unfolding e by auto
    then show ?thesis using e by (simp add: advances_refl attachable_def)
  next
    case (Some old)
    let ?d = "container_detach c s"
    have ok: "tree_ok s" using inv by (simp add: tree_inv_def)
    obtain f where e: "d = c" "t = (case f of None \<Rightarrow> ?d | Some n \<Rightarrow> seat_set_raw_focus k n ?d)"
      using t Some by (auto simp: take_from_scratchpad_def Let_def)
    have invd: "tree_inv ?d" by (rule advancesD[OF detach_advances inv])
    have cd: "c < next_id ?d" using detach_advances[of s c] inv at by (auto simp: advances_def)
    show ?thesis
      using advances_trans[OF detach_advances[of s c] keeps_advances[OF raw[where f=f]]]
        keeps_attachable(2)[OF raw[where f=f] invd detach_unlinked[OF ok] cd] unfolding e by blast
  qed
  then show "advances s t" "attachable t d" by blast+
qed

lemma scratchpad_show_advances:
  assumes "c < next_id s" shows "advances s (root_scratchpad_show E c s)"
proof (rule advances_local)
  assume inv: "tree_inv s"
  let ?k = "input_manager_current_seat E s"
  show "advances s (root_scratchpad_show E c s)"
  proof (cases "seat_get_focused_workspace s (seat_at s ?k)")
    case None
    then show ?thesis by (simp add: root_scratchpad_show_def Let_def advances_refl)
  next
    case (Some w)
    define u where "u = disable_if E (fullscreen_global (disable_if E (w_fullscreen (wss s w)) s))
      (disable_if E (w_fullscreen (wss s w)) s)"
    have ku: "keeps s u" unfolding u_def by (rule disable_if_after[OF disable_if_keeps])
    have invu: "tree_inv u" by (rule inv_keeps[OF ku inv])
    have cu: "c < next_id u" using keeps_advances[OF ku] inv assms by (auto simp: advances_def)
    obtain d t where t: "take_from_scratchpad E ?k c u = (d, t)" by fastforce
    note sp = take_from_scratchpad_spec[OF invu cu t]
    have a: "advances s (workspace_add_floating E w d t)"
      by (rule advances_trans[OF advances_trans[OF keeps_advances[OF ku] sp(1)] add_floating_advances[OF sp(2)]])
    have k: "keeps v (e_refocus E j n (arrange_workspace w (set_container_transform (Some w) d (fix_on_output w d v))))" for v j n
      by (rule refocus_after[OF shape_keeps[OF transform_after[OF fix_on_output_keeps] arrange_workspace_shape]])
    have z: "keeps v (container_raise_floating d (case p of None \<Rightarrow> v | Some q \<Rightarrow> workspace_consider_destroy E q v))" for v p
      by (rule keeps_trans[OF _ raise_floating_keeps])
        (auto split: option.split intro: keeps_refl consider_destroy_keeps)
    show ?thesis
      unfolding root_scratchpad_show_def Let_def
      unfolding Some option.case u_def[symmetric]
      unfolding t prod.case by (rule keeps_after[OF keeps_after[OF a k] z])
  qed
qed

lemma scratchpad_hide_advances: "advances s (root_scratchpad_hide E c s)"
proof -
  have a: "keeps s (container_for_each_child c (disable_fullscreen E)
      (disable_fullscreen E c (set_container_transform w c s)))" for w
    by (rule keeps_trans[OF keeps_trans[OF transform_keeps disable_fullscreen_keeps]
          for_each_child_keeps[OF disable_fullscreen_keeps]])
  have b: "advances s (arrange_workspace v (container_detach c (container_for_each_child c (disable_fullscreen E)
      (disable_fullscreen E c (set_container_transform w c s)))))" for v w
    by (rule shape_after[OF detach_after[OF keeps_advances[OF a]] arrange_workspace_shape])
  have z: "keeps t (emit e ((if b then e_refocus E k n t else t)\<lparr>scratchpad := xs\<rparr>))" for t e b k n xs
    by (intro keeps_emit_after keeps_trans[OF _ keeps_scratchpad] keeps_if keeps_refl refocus_keeps)
  show ?thesis
    unfolding root_scratchpad_hide_def Let_def
    by (cases "c_workspace (cons s c)"; simp only: option.case) (rule advances_refl, rule keeps_after[OF b z])
qed

lemma minimized_hide_advances: "advances s (workspace_minimized_hide E c s)"
proof -
  have a: "keeps s (upd_con c (\<lambda>x. x\<lparr>c_minimized_was_floating := b, c_minimized := True\<rparr>) (disable_fullscreen E c s))" for b
    by (rule keeps_trans[OF disable_fullscreen_keeps keeps_upd_con]) simp
  have b: "advances t (case p of None \<Rightarrow> t | Some q \<Rightarrow> container_reap_empty E q t)" for t p
    by (auto split: option.split intro: advances_refl reap_advances)
  have z: "keeps t (minimized_event w (emit e (emit f (focus_left_workspace E k v (park w c t)))))" for t w v e f k
    by (rule keeps_trans[OF keeps_trans[OF keeps_trans[OF keeps_trans[OF park_keeps focus_left_keeps] keeps_emit]
          keeps_emit] minimized_event_keeps])
  show ?thesis
    unfolding workspace_minimized_hide_def Let_def
    by (rule advances_if, rule advances_refl,
        rule keeps_after[OF advances_trans[OF advances_trans[OF keeps_advances[OF a] detach_advances] b] z])
qed

lemma restore_mode_advances: "attachable s c \<Longrightarrow> advances s (restore_mode E w c s)"
  unfolding restore_mode_def
  by (intro advances_if add_tiling_advances
      keeps_after[OF add_floating_advances keeps_trans[OF transform_after[OF fix_on_output_keeps] raise_floating_keeps]])

lemma minimized_show_on_advances:
  assumes "unlinked s c" "c < next_id s" shows "advances s (workspace_minimized_show_on E c w s)"
proof (rule advances_local)
  assume inv: "tree_inv s"
  obtain old s1 where r: "workspace_minimized_remove c s = (old, s1)" by fastforce
  have k1: "keeps s (upd_con c (\<lambda>x. x\<lparr>c_minimized := False\<rparr>) s1)"
    using keeps_trans[OF minimized_remove_keeps keeps_upd_con, of "\<lambda>x. x\<lparr>c_minimized := False\<rparr>" s c c] by (simp add: r)
  define u where "u = (let s = disable_if E (w_fullscreen (wss (upd_con c (\<lambda>x. x\<lparr>c_minimized := False\<rparr>) s1) w))
      (upd_con c (\<lambda>x. x\<lparr>c_minimized := False\<rparr>) s1) in disable_if E (fullscreen_global s) s)"
  have ku: "keeps s u" unfolding u_def Let_def by (rule disable_if_after[OF disable_if_after[OF k1]])
  have m: "advances s (arrange_workspace w (restore_mode E w c u))"
    by (rule shape_after[OF advances_trans[OF keeps_advances[OF ku]
          restore_mode_advances[OF keeps_attachable(2)[OF ku inv assms]]] arrange_workspace_shape])
  have z: "keeps t (minimized_event v (left_pool_event E o' w (emit e (emit f (e_refocus E k n t)))))" for t v o' e f k n
    unfolding left_pool_event_def
    by (intro keeps_trans[OF _ minimized_event_keeps])
      (auto split: option.split intro!: keeps_emit_after consider_destroy_after refocus_keeps)
  show "advances s (workspace_minimized_show_on E c w s)"
    unfolding workspace_minimized_show_on_def Let_def r prod.case u_def[unfolded Let_def, symmetric]
    by (rule advances_if, rule advances_refl, rule keeps_after[OF m z])
qed

lemma minimized_show_advances: "unlinked s c \<Longrightarrow> c < next_id s \<Longrightarrow> advances s (workspace_minimized_show E c s)"
  unfolding workspace_minimized_show_def Let_def
  by (auto split: option.split intro!: advances_refl minimized_show_on_advances)

end

end
