(* ===== verification/Vars.thy ===== *)
theory Vars
  imports CStr
begin

text \<open>
  Replacing variables in a command (do_var_replacement of sway/config.c). The symbols are the list
  config->symbols, names with their leading dollar sign.
\<close>

text \<open>
  The loop works on the part of the string before the pointer find, here done, and the part from it
  on. A backslash before the dollar sign escapes it, unless another backslash escapes the backslash.
\<close>

definition dollar_escaped :: "string \<Rightarrow> bool" where
  "dollar_escaped done \<longleftrightarrow>
     (done \<noteq> [] \<and> last done = BSL \<and> (length done = 1 \<or> done ! (length done - 2) \<noteq> BSL))"

fun var_loop :: "nat \<Rightarrow> (string \<times> string) list \<Rightarrow> string \<Rightarrow> string \<Rightarrow> string" where
  "var_loop 0 syms done rest = done @ rest"
| "var_loop (Suc n) syms done rest =
     (let plain = takeWhile (\<lambda>c. c \<noteq> CHR ''$'') rest; rest = dropWhile (\<lambda>c. c \<noteq> CHR ''$'') rest;
          done = done @ plain in
      if rest = [] then done
      else if dollar_escaped done then var_loop n syms (done @ [CHR ''$'']) (tl rest)
      else if tl rest \<noteq> [] \<and> hd (tl rest) = CHR ''$'' then var_loop n syms (done @ [CHR ''$'']) (drop 2 rest)
      else case List.find (\<lambda>v. has_prefix rest (fst v)) syms of
             Some v \<Rightarrow> var_loop n syms (done @ snd v) (drop (length (fst v)) rest)
           | None \<Rightarrow> var_loop n syms (done @ [CHR ''$'']) (tl rest))"

definition do_var_replacement :: "(string \<times> string) list \<Rightarrow> string \<Rightarrow> string" where
  "do_var_replacement syms s = var_loop (length s + 1) syms [] s"

section \<open>What replacement does\<close>

text \<open>
  Every round takes a dollar sign from the rest, so that the length of the rest is enough fuel when
  every symbol has a name.
\<close>

lemma var_loop_fuel:
  assumes "\<forall>v\<in>set syms. fst v \<noteq> []" "length rest < n" "length rest < m"
  shows "var_loop n syms done rest = var_loop m syms done rest"
  using assms(2,3)
proof (induction n arbitrary: m "done" rest)
  case (Suc n)
  obtain k where m: "m = Suc k" using Suc.prems(2) by (cases m) auto
  let ?r = "dropWhile (\<lambda>c. c \<noteq> CHR ''$'') rest"
  have le: "length ?r \<le> length rest" by (rule length_dropWhile_le)
  show ?case
  proof (cases "?r = []")
    case True
    then show ?thesis by (simp add: m Let_def)
  next
    case False
    then have pos: "length ?r > 0" by simp
    have IH: "var_loop n syms d r = var_loop k syms d r" if "length r < length ?r" for d r
      using Suc.IH[of r k d] that le Suc.prems m by simp
    have "length (drop (length (fst v)) ?r) < length ?r" if "List.find (\<lambda>v. has_prefix ?r (fst v)) syms = Some v" for v
      using that assms(1) pos by (auto simp: find_Some_iff)
    then show ?thesis using IH pos by (auto simp: m Let_def split: option.split)
  qed
qed simp

definition double_dollars :: "string \<Rightarrow> string" where
  "double_dollars s = concat (map (\<lambda>c. if c = CHR ''$'' then ''$$'' else [c]) s)"

lemma double_dollars_simps [simp]:
  "double_dollars [] = []"
  "double_dollars (c # s) = (if c = CHR ''$'' then CHR ''$'' # CHR ''$'' # double_dollars s else c # double_dollars s)"
  by (simp_all add: double_dollars_def)

lemma double_dollars_split:
  "takeWhile (\<lambda>c. c \<noteq> CHR ''$'') (double_dollars s) = takeWhile (\<lambda>c. c \<noteq> CHR ''$'') s"
  "dropWhile (\<lambda>c. c \<noteq> CHR ''$'') (double_dollars s) = double_dollars (dropWhile (\<lambda>c. c \<noteq> CHR ''$'') s)"
  by (induction s) auto

lemma length_double_dollars: "length s \<le> length (double_dollars s)"
  by (induction s) auto

lemma var_loop_double:
  assumes "length s < n" "BSL \<notin> set s" "BSL \<notin> set done"
  shows "var_loop n syms done (double_dollars s) = done @ s"
  using assms
proof (induction n arbitrary: "done" s)
  case (Suc n)
  let ?p = "takeWhile (\<lambda>c. c \<noteq> CHR ''$'') s" and ?r = "dropWhile (\<lambda>c. c \<noteq> CHR ''$'') s"
  have s: "s = ?p @ ?r" by simp
  have esc: "\<not> dollar_escaped (done @ ?p)"
  proof
    assume e: "dollar_escaped (done @ ?p)"
    then have "last (done @ ?p) \<in> set (done @ ?p)" by (intro last_in_set) (simp add: dollar_escaped_def)
    then show False using e Suc.prems(2,3) by (auto simp: dollar_escaped_def dest: set_takeWhileD)
  qed
  show ?case
  proof (cases ?r)
    case Nil
    then have "takeWhile (\<lambda>c. c \<noteq> CHR ''$'') s = s" using s by simp
    then show ?thesis unfolding var_loop.simps Let_def double_dollars_split Nil by simp
  next
    case (Cons c t)
    have c: "c = CHR ''$''" using hd_dropWhile[of "\<lambda>c. c \<noteq> CHR ''$''" s] Cons by auto
    have t: "set t \<subseteq> set s" "length t < length s"
      using Cons set_dropWhileD[of _ "\<lambda>c. c \<noteq> CHR ''$''" s] length_dropWhile_le[of "\<lambda>c. c \<noteq> CHR ''$''" s] by auto
    have "var_loop (Suc n) syms done (double_dollars s) = var_loop n syms (done @ ?p @ [CHR ''$'']) (double_dollars t)"
      using esc by (simp add: double_dollars_split Cons c Let_def)
    also have "\<dots> = (done @ ?p @ [CHR ''$'']) @ t"
      using Suc.prems t by (intro Suc.IH) (auto simp: BSL_def dest: set_takeWhileD)
    also have "\<dots> = done @ s" using s Cons c by (metis append_Cons append_Nil append_assoc)
    finally show ?thesis .
  qed
qed simp

text \<open>
  C33. A text whose dollar signs are doubled comes out of do_var_replacement as it was, whatever the
  variables are, when it has no backslash.
\<close>
theorem do_var_replacement_double:
  assumes "BSL \<notin> set s" shows "do_var_replacement syms (double_dollars s) = s"
  using var_loop_double[of s "length (double_dollars s) + 1" "[]" syms] length_double_dollars[of s] assms
  by (simp add: do_var_replacement_def)

lemma do_var_replacement_double_witness:
  "do_var_replacement [(''$a'', ''x'')] ''cost: $$a'' = ''cost: $a''"
  using do_var_replacement_double[of "''cost: $a''" "[(''$a'', ''x'')]"] by (simp add: BSL_def)

end
