(* ===== verification/Workspaces.thy ===== *)
theory Workspaces
  imports Pools Vars Util
begin

text \<open>
  Workspaces as a whole (sway/tree/workspace.c and output.c): creating and naming them, finding them
  by name and number, the next and the previous one, their order and their outputs, and what happens
  to them when an output appears or goes away. Allocations of wlroots objects are taken to succeed.
\<close>

section \<open>Outputs by name\<close>

text \<open>The identifier is the text output_get_identifier prints into its buffer of 128 bytes.\<close>

definition output_match_name_or_id :: "sway \<Rightarrow> id \<Rightarrow> string \<Rightarrow> bool" where
  "output_match_name_or_id s p n \<longleftrightarrow>
     n = ''*'' \<or> str_caseeq (o_identifier (outs s p)) n \<or> str_caseeq (o_name (outs s p)) n"

definition output_by_name_or_id :: "sway \<Rightarrow> string \<Rightarrow> id option" where
  "output_by_name_or_id s n = List.find (\<lambda>p. output_match_name_or_id s p n) (outputs s)"

section \<open>The configuration of a workspace\<close>

definition workspace_find_config :: "sway \<Rightarrow> string \<Rightarrow> ws_config option" where
  "workspace_find_config s name = List.find (\<lambda>c. wc_workspace c = name) (cfg_workspace_configs (cfg s))"

text \<open>A focused container has a workspace here; the source dereferences it.\<close>

definition workspace_get_initial_output :: "env \<Rightarrow> sway \<Rightarrow> string \<Rightarrow> id option" where
  "workspace_get_initial_output E s name =
     (case (case workspace_find_config s name of None \<Rightarrow> None
            | Some c \<Rightarrow> find_some (output_by_name_or_id s) (wc_outputs c)) of
        Some p \<Rightarrow> Some p
      | None \<Rightarrow>
          (case seat_get_focus_inactive s (seat_at s (input_manager_current_seat E s)) N_ROOT of
             Some (N_WORKSPACE w) \<Rightarrow> w_output (wss s w)
           | Some (N_CONTAINER c) \<Rightarrow> (case c_workspace (cons s c) of None \<Rightarrow> None | Some w \<Rightarrow> w_output (wss s w))
           | _ \<Rightarrow> (case outputs s of p # _ \<Rightarrow> Some p | [] \<Rightarrow> fallback_output s)))"

definition workspace_valid_on_output :: "sway \<Rightarrow> string \<Rightarrow> string \<Rightarrow> bool" where
  "workspace_valid_on_output s output_name ws_name =
     (case output_by_name_or_id s output_name of None \<Rightarrow> False
      | Some p \<Rightarrow>
          (case workspace_find_config s ws_name of None \<Rightarrow> True
           | Some c \<Rightarrow> find_some (output_by_name_or_id s) (wc_outputs c) = Some p))"

section \<open>Priorities of outputs\<close>

definition workspace_output_get_priority :: "sway \<Rightarrow> id \<Rightarrow> id \<Rightarrow> int" where
  "workspace_output_get_priority s w p =
     (let index_id = index_of (o_identifier (outs s p)) (w_output_priority (wss s w));
          index_name = index_of (o_name (outs s p)) (w_output_priority (wss s w)) in
      if index_name < 0 \<or> index_id < index_name then index_id else index_name)"

definition workspace_output_raise_priority :: "id \<Rightarrow> id \<Rightarrow> id \<Rightarrow> sway \<Rightarrow> sway" where
  "workspace_output_raise_priority w old p s =
     (let old_index = workspace_output_get_priority s w old; new_index = workspace_output_get_priority s w p in
      if old_index < 0 then s
      else if new_index < 0
      then upd_ws w (\<lambda>x. x\<lparr>w_output_priority :=
             insert_at (nat old_index) (o_identifier (outs s p)) (w_output_priority x)\<rparr>) s
      else if new_index > old_index
      then upd_ws w (\<lambda>x. x\<lparr>w_output_priority :=
             insert_at (nat old_index) (w_output_priority x ! nat new_index)
               (delete_at (nat new_index) (w_output_priority x))\<rparr>) s
      else s)"

definition workspace_output_add_priority :: "id \<Rightarrow> id \<Rightarrow> sway \<Rightarrow> sway" where
  "workspace_output_add_priority w p s =
     (if workspace_output_get_priority s w p < 0
      then upd_ws w (\<lambda>x. x\<lparr>w_output_priority := w_output_priority x @ [o_identifier (outs s p)]\<rparr>) s
      else s)"

definition workspace_output_get_highest_available :: "sway \<Rightarrow> id \<Rightarrow> id option" where
  "workspace_output_get_highest_available s w = find_some (output_by_name_or_id s) (w_output_priority (wss s w))"

section \<open>The workspaces of an output\<close>

definition output_add_workspace :: "id \<Rightarrow> id \<Rightarrow> sway \<Rightarrow> sway" where
  "output_add_workspace p w s =
     (let s = (if w_output (wss s w) \<noteq> None then workspace_detach w s else s);
          s = upd_out p (\<lambda>x. x\<lparr>o_workspaces := o_workspaces x @ [w]\<rparr>) s;
          s = upd_ws w (\<lambda>x. x\<lparr>w_output := Some p\<rparr>) s in
      node_set_dirty (N_WORKSPACE w) (node_set_dirty (N_OUTPUT p) s))"

text \<open>
  The comparator of output_sort_workspaces, on names; numbered workspaces come first, in order of
  the number at the start of the name, the others keep their order.
\<close>

definition starts_with_digit :: "string \<Rightarrow> bool" where
  "starts_with_digit n \<longleftrightarrow> n \<noteq> [] \<and> is_digit (hd n)"

definition sort_workspace_cmp_qsort :: "string \<Rightarrow> string \<Rightarrow> int" where
  "sort_workspace_cmp_qsort a b =
     (if starts_with_digit a \<and> starts_with_digit b
      then (let x = to_int32 (fst (c_strtol a)); y = to_int32 (fst (c_strtol b)) in
            if x < y then -1 else if x > y then 1 else 0)
      else if starts_with_digit a then -1 else if starts_with_digit b then 1 else 0)"

text \<open>
  list_stable_sort with this comparator is the stable sort by the key below: every number of 32 bits
  is less than the key of a name without one.
\<close>

definition sort_number :: "string \<Rightarrow> int" where
  "sort_number n = (if starts_with_digit n then to_int32 (fst (c_strtol n)) else 2 ^ 31)"

definition output_sort_workspaces :: "id \<Rightarrow> sway \<Rightarrow> sway" where
  "output_sort_workspaces p s =
     upd_out p (\<lambda>x. x\<lparr>o_workspaces := sort_key (\<lambda>w. sort_number (w_name (wss s w))) (o_workspaces x)\<rparr>) s"

definition output_get_default_layout :: "sway \<Rightarrow> id \<Rightarrow> container_layout" where
  "output_get_default_layout s p =
     (if cfg_default_orientation (cfg s) \<noteq> L_NONE then cfg_default_orientation (cfg s)
      else if o_height (outs s p) > o_width (outs s p) then L_VERT else L_HORIZ)"

section \<open>Creating a workspace\<close>

definition configured_gaps :: "ws_config \<Rightarrow> workspace \<Rightarrow> workspace" where
  "configured_gaps c x =
     (let set = (\<lambda>v old. if v \<noteq> INT_MIN then v else old); g = wc_gaps_outer c; o' = w_gaps_outer x in
      x\<lparr>w_gaps_outer := \<lparr>g_top = set (g_top g) (g_top o'), g_right = set (g_right g) (g_right o'),
          g_bottom = set (g_bottom g) (g_bottom o'), g_left = set (g_left g) (g_left o')\<rparr>,
        w_gaps_inner := set (wc_gaps_inner c) (w_gaps_inner x),
        w_output_priority := w_output_priority x @ filter (\<lambda>n. n \<noteq> ''*'') (wc_outputs c)\<rparr>)"

text \<open>The output is one that exists; the source dereferences it.\<close>

definition workspace_create :: "env \<Rightarrow> id option \<Rightarrow> string \<Rightarrow> sway \<Rightarrow> id \<times> sway" where
  "workspace_create E p name s =
     (let p = (case p of Some p \<Rightarrow> Some p | None \<Rightarrow> workspace_get_initial_output E s name) in
      case node_init N_WORKSPACE s of
        (w, s) \<Rightarrow>
          (let x = ws_zero\<lparr>w_name := name, w_prev_split_layout := L_NONE, w_layout := L_HORIZ,
                 w_focused_column_idx := -1, w_default_float := False,
                 w_gaps_outer := cfg_gaps_outer (cfg s), w_gaps_inner := cfg_gaps_inner (cfg s)\<rparr>;
               x = (case workspace_find_config s name of None \<Rightarrow> x | Some c \<Rightarrow> configured_gaps c x);
               s = upd_ws w (\<lambda>_. x) s;
               s = (case p of None \<Rightarrow> s
                    | Some p \<Rightarrow> output_sort_workspaces p (output_add_workspace p w (workspace_output_add_priority w p s)));
               s = emit (Ev_workspace None (Some w) ''init'') s in
           (w, handle_new_node (N_WORKSPACE w) s)))"

section \<open>Finding a workspace\<close>

fun number_matches :: "string \<Rightarrow> string \<Rightarrow> bool" where
  "number_matches (n # name) ws_name =
     (if is_digit n
      then (case ws_name of [] \<Rightarrow> False | c # cs \<Rightarrow> if n \<noteq> c then False else number_matches name cs)
      else \<not> starts_with_digit ws_name)"
| "number_matches [] ws_name = (\<not> starts_with_digit ws_name)"

definition workspace_by_number :: "sway \<Rightarrow> string \<Rightarrow> id option" where
  "workspace_by_number s name = root_find_workspace s (\<lambda>w. number_matches name (w_name (wss s w)))"

text \<open>The number of a workspace, -1 when its name does not start with one in the range of an int.\<close>

definition workspace_get_number :: "sway \<Rightarrow> id \<Rightarrow> int" where
  "workspace_get_number s w =
     (case c_strtol (w_name (wss s w)) of
        (n, rest) \<Rightarrow> if n > 2 ^ 31 - 1 \<or> n < 0 \<or> rest = w_name (wss s w) then -1 else n)"

text \<open>
  The walk from a workspace without a number: the first such workspace after it, or else a numbered
  one, the best in the order better, or else the first of all.
\<close>

fun named_walk :: "(int \<Rightarrow> int \<Rightarrow> bool) \<Rightarrow> (id \<Rightarrow> int) \<Rightarrow> id \<Rightarrow> id list \<Rightarrow> bool \<Rightarrow> id option \<Rightarrow> id option \<Rightarrow> id option" where
  "named_walk better num w [] found first other = (case other of None \<Rightarrow> first | Some x \<Rightarrow> other)"
| "named_walk better num w (x # xs) found first other =
     (let first = (case first of None \<Rightarrow> Some x | Some f \<Rightarrow> first);
          other = (case other of None \<Rightarrow> Some x
                   | Some o' \<Rightarrow> if num x \<ge> 0 \<and> better (num x) (num o') then Some x else other) in
      if x = w then named_walk better num w xs True first other
      else if num x < 0 \<and> found then Some x
      else named_walk better num w xs found first other)"

text \<open>The walk from the workspace numbered n: the nearest number beyond it in the order better.\<close>

fun numbered_walk :: "(int \<Rightarrow> int \<Rightarrow> bool) \<Rightarrow> (id \<Rightarrow> int) \<Rightarrow> int \<Rightarrow> id list \<Rightarrow> id option \<Rightarrow> id option \<Rightarrow> id option \<Rightarrow> id option" where
  "numbered_walk better num n [] best first other =
     (case best of Some b \<Rightarrow> best | None \<Rightarrow> (case other of None \<Rightarrow> first | Some x \<Rightarrow> other))"
| "numbered_walk better num n (x # xs) best first other =
     (let first = (case first of None \<Rightarrow> Some x
                   | Some f \<Rightarrow> if num x \<ge> 0 \<and> better (num x) (num f) then Some x else first);
          other = (case other of None \<Rightarrow> if num x < 0 then Some x else None | Some o' \<Rightarrow> other);
          best = (if num x \<ge> 0 \<and> better n (num x)
                    \<and> (case best of None \<Rightarrow> True | Some b \<Rightarrow> better (num x) (num b))
                  then Some x else best) in
      numbered_walk better num n xs best first other)"

definition workspace_prev :: "sway \<Rightarrow> id \<Rightarrow> id option" where
  "workspace_prev s w =
     (let num = workspace_get_number s; xs = rev (concat (map (\<lambda>p. o_workspaces (outs s p)) (outputs s))) in
      if num w < 0 then named_walk (>) num w xs False None None
      else numbered_walk (>) num (num w) xs None None None)"

text \<open>In workspace_next the walk leaves an output at its first workspace without a number.\<close>

definition upto_named :: "(id \<Rightarrow> int) \<Rightarrow> id list \<Rightarrow> id list" where
  "upto_named num xs = takeWhile (\<lambda>x. num x \<ge> 0) xs @ take 1 (dropWhile (\<lambda>x. num x \<ge> 0) xs)"

definition workspace_next :: "sway \<Rightarrow> id \<Rightarrow> id option" where
  "workspace_next s w =
     (let num = workspace_get_number s; rows = map (\<lambda>p. o_workspaces (outs s p)) (outputs s) in
      if num w < 0 then named_walk (<) num w (concat rows) False None None
      else numbered_walk (<) num (num w) (concat (map (upto_named num) rows)) None None None)"

definition workspace_output_prev_next_impl :: "env \<Rightarrow> sway \<Rightarrow> id \<Rightarrow> int \<Rightarrow> id option" where
  "workspace_output_prev_next_impl E s p dir =
     (case seat_get_focused_workspace s (seat_at s (input_manager_current_seat E s)) of
        None \<Rightarrow> None
      | Some w \<Rightarrow>
          (let xs = o_workspaces (outs s p) in
           map_option (\<lambda>i. xs ! nat i) (wrap (index_of w xs + dir) (int (length xs)))))"

definition workspace_output_next :: "env \<Rightarrow> sway \<Rightarrow> id \<Rightarrow> id option" where
  "workspace_output_next E s w =
     (case w_output (wss s w) of None \<Rightarrow> None | Some p \<Rightarrow> workspace_output_prev_next_impl E s p 1)"

definition workspace_output_prev :: "env \<Rightarrow> sway \<Rightarrow> id \<Rightarrow> id option" where
  "workspace_output_prev E s w =
     (case w_output (wss s w) of None \<Rightarrow> None | Some p \<Rightarrow> workspace_output_prev_next_impl E s p (-1))"

definition named_workspace :: "sway \<Rightarrow> string \<Rightarrow> id option" where
  "named_workspace s name = root_find_workspace s (\<lambda>w. str_caseeq (w_name (wss s w)) name)"

definition workspace_by_name :: "env \<Rightarrow> sway \<Rightarrow> string \<Rightarrow> id option" where
  "workspace_by_name E s name =
     (let t = seat_at s (input_manager_current_seat E s); current = seat_get_focused_workspace s t in
      case current of
        Some w \<Rightarrow>
          (if name = ''prev'' then workspace_prev s w
           else if name = ''prev_on_output'' then workspace_output_prev E s w
           else if name = ''next'' then workspace_next s w
           else if name = ''next_on_output'' then workspace_output_next E s w
           else if name = ''current'' then current
           else if str_caseeq name ''back_and_forth''
           then Option.bind (s_prev_workspace_name t) (named_workspace s)
           else named_workspace s name)
      | None \<Rightarrow>
          (if name = ''current'' then None
           else if str_caseeq name ''back_and_forth''
           then Option.bind (s_prev_workspace_name t) (named_workspace s)
           else named_workspace s name))"

section \<open>Naming a workspace\<close>

text \<open>
  The name a binding to the command workspace makes available, with the order of the binding; the
  state of the scan is the least order so far and its name.
\<close>

definition workspace_commands :: "string list" where
  "workspace_commands = [''next'', ''prev'', ''next_on_output'', ''prev_on_output'', ''number'',
     ''back_and_forth'', ''current'']"

definition binding_target :: "sway \<Rightarrow> string \<Rightarrow> string option" where
  "binding_target s command =
     (case argsep command '' '' of
        (cmd, rest, _) \<Rightarrow>
          (case rest of None \<Rightarrow> None
           | Some r \<Rightarrow>
               (case argsep r '',;'' of
                  (name, _, _) \<Rightarrow>
                    if cmd = ''workspace'' then Some (strip_quotes (do_var_replacement (cfg_symbols (cfg s)) name))
                    else None)))"

definition workspace_name_from_binding :: "env \<Rightarrow> sway \<Rightarrow> string \<Rightarrow> string \<times> int \<Rightarrow>
    int \<times> string option \<Rightarrow> int \<times> string option" where
  "workspace_name_from_binding E s output_name binding found =
     (case binding_target s (fst binding) of None \<Rightarrow> found
      | Some target \<Rightarrow>
          if target \<in> set workspace_commands then found
          else
            (let numbered = has_prefix target ''number '';
                 target = (if numbered then drop (length ''number '') target else target) in
             if numbered \<and> starts_with_digit target \<and> workspace_by_number s target \<noteq> None then found
             else if workspace_by_name E s target \<noteq> None then found
             else if \<not> workspace_valid_on_output s output_name target then found
             else if snd binding < fst found then (snd binding, Some target)
             else found))"

text \<open>The first configured workspace that is not there yet and whose first existing output is this one.\<close>

definition configured_name :: "env \<Rightarrow> sway \<Rightarrow> id \<Rightarrow> string option" where
  "configured_name E s p =
     map_option wc_workspace
       (List.find (\<lambda>c. workspace_by_name E s (wc_workspace c) = None
                     \<and> find_some (output_by_name_or_id s) (wc_outputs c) = Some p)
          (cfg_workspace_configs (cfg s)))"

text \<open>
  The last resort is the least number no workspace has: it is among the first that are one more than
  the workspaces, so that the search ends (free_number_found).
\<close>

definition all_workspaces :: "sway \<Rightarrow> id list" where
  "all_workspaces s = concat (map (\<lambda>p. o_workspaces (outs s p)) (outputs s))"

definition free_number :: "sway \<Rightarrow> string option" where
  "free_number s =
     map_option show_nat
       (List.find (\<lambda>n. workspace_by_number s (show_nat n) = None) [1..<length (all_workspaces s) + 2])"

definition bound_commands :: "config \<Rightarrow> (string \<times> int) list" where
  "bound_commands k =
     map (\<lambda>b. (case bn_command b of Some command \<Rightarrow> command | None \<Rightarrow> [], bn_order b))
       (md_keysym_bindings (current_mode k) @ md_keycode_bindings (current_mode k))"

definition workspace_next_name :: "env \<Rightarrow> sway \<Rightarrow> string \<Rightarrow> string option" where
  "workspace_next_name E s output_name =
     (case output_by_name_or_id s output_name of None \<Rightarrow> None
      | Some p \<Rightarrow>
          (let target = snd (fold (workspace_name_from_binding E s output_name)
                 (bound_commands (cfg s)) (INT_MAX, None)) in
           case configured_name E s p of
             Some n \<Rightarrow> Some n
           | None \<Rightarrow> (case target of Some t \<Rightarrow> target | None \<Rightarrow> free_number s)))"

definition workspace_auto_back_and_forth :: "env \<Rightarrow> id \<Rightarrow> sway \<Rightarrow> id \<times> sway" where
  "workspace_auto_back_and_forth E w s =
     (let t = seat_at s (input_manager_current_seat E s);
          active = (case seat_get_focus_inactive s t N_ROOT of
                      Some (N_WORKSPACE v) \<Rightarrow> Some v
                    | Some (N_CONTAINER c) \<Rightarrow> c_workspace (cons s c) | _ \<Rightarrow> None) in
      case s_prev_workspace_name t of
        Some prev \<Rightarrow>
          if cfg_auto_back_and_forth (cfg s) \<and> active = Some w
          then (case workspace_by_name E s prev of Some v \<Rightarrow> (v, s) | None \<Rightarrow> workspace_create E None prev s)
          else (w, s)
      | None \<Rightarrow> (w, s))"

definition workspace_switch :: "env \<Rightarrow> id \<Rightarrow> sway \<Rightarrow> sway" where
  "workspace_switch E w s =
     (let k = input_manager_current_seat E s;
          nxt = (case seat_get_focus_inactive s (seat_at s k) (N_WORKSPACE w) of
                   None \<Rightarrow> N_WORKSPACE w | Some n \<Rightarrow> n) in
      arrange_workspace w (e_refocus E k (Some nxt) s))"

section \<open>What is in a workspace\<close>

definition workspace_is_empty :: "sway \<Rightarrow> id \<Rightarrow> bool" where
  "workspace_is_empty s w \<longleftrightarrow>
     w_tiling (wss s w) = [] \<and> list_all (container_is_sticky s) (w_floating (wss s w)) \<and> w_minimized (wss s w) = []"

fun containers_in :: "nat \<Rightarrow> sway \<Rightarrow> id list \<Rightarrow> id list" where
  "containers_in 0 s cs = []"
| "containers_in (Suc n) s cs = concat (map (\<lambda>c. c # containers_in n s (c_children (cons s c))) cs)"

definition workspace_containers :: "sway \<Rightarrow> id \<Rightarrow> id list" where
  "workspace_containers s w = containers_in (next_id s + 1) s (w_tiling (wss s w) @ w_floating (wss s w))"

definition workspace_num_tiling_views :: "sway \<Rightarrow> id \<Rightarrow> nat" where
  "workspace_num_tiling_views s w =
     length (filter (\<lambda>c. c_view (cons s c) \<noteq> None \<and> \<not> container_is_floating_or_child s c) (workspace_containers s w))"

definition workspace_num_sticky_containers :: "sway \<Rightarrow> id \<Rightarrow> nat" where
  "workspace_num_sticky_containers s w = length (filter (container_is_sticky s) (workspace_containers s w))"

section \<open>Moving workspaces between outputs\<close>

text \<open>The workspace is on an output and the name exists; the source dereferences them.\<close>

definition create_next_workspace :: "env \<Rightarrow> id \<Rightarrow> sway \<Rightarrow> id \<times> sway" where
  "create_next_workspace E p s =
     (case workspace_next_name E s (o_name (outs s p)) of
        Some name \<Rightarrow> workspace_create E (Some p) name s
      | None \<Rightarrow> (0, s))"

definition workspace_move_to_output :: "env \<Rightarrow> id \<Rightarrow> id \<Rightarrow> sway \<Rightarrow> sway" where
  "workspace_move_to_output E w p s =
     (if w_output (wss s w) = Some p then s
      else case w_output (wss s w) of None \<Rightarrow> s
      | Some old \<Rightarrow>
          (let s = workspace_detach w s in
           case output_get_active_workspace E s p of None \<Rightarrow> s
           | Some shown \<Rightarrow>
               (let s = output_add_workspace p w s;
                    s = (if o_workspaces (outs s old) = []
                         then (case create_next_workspace E old s of
                                 (v, s) \<Rightarrow> seat_set_raw_focus (input_manager_current_seat E s) (N_WORKSPACE v) s)
                         else s);
                    s = workspace_consider_destroy E shown s;
                    s = output_sort_workspaces p s;
                    s = workspace_output_raise_priority w old p s in
                emit (Ev_workspace None (Some w) ''move'') s)))"

text \<open>
  When an output is enabled, the workspaces that prefer it move to it; an output left without a
  workspace gets a new one, and the workspaces saved on the fallback output come back.
\<close>

definition claim_workspace :: "id \<Rightarrow> id \<Rightarrow> sway \<Rightarrow> sway" where
  "claim_workspace p w s =
     (if workspace_output_get_highest_available s w = Some p
      then emit (Ev_workspace None (Some w) ''move'') (output_add_workspace p w (workspace_detach w s))
      else s)"

definition claim_from :: "env \<Rightarrow> id \<Rightarrow> id \<Rightarrow> sway \<Rightarrow> sway" where
  "claim_from E p q s =
     (if q = p then s
      else
        (let s = fold (claim_workspace p) (o_workspaces (outs s q)) s in
         if o_workspaces (outs s q) = []
         then (case create_next_workspace E q s of (w, s) \<Rightarrow> emit (Ev_workspace None (Some w) ''init'') s)
         else s))"

definition off_output :: "output_t \<Rightarrow> container \<Rightarrow> bool" where
  "off_output o' c \<longleftrightarrow>
     c_width c = 0 \<or> c_height c = 0 \<or> c_width c > of_int (o_width o') \<or> c_height c > of_int (o_height o')
     \<or> c_x c > of_int (o_lx o' + o_width o') \<or> c_y c > of_int (o_ly o' + o_height o')
     \<or> c_x c + c_width c < of_int (o_lx o') \<or> c_y c + c_height c < of_int (o_ly o')"

definition bring_back :: "env \<Rightarrow> id \<Rightarrow> id \<Rightarrow> sway \<Rightarrow> sway" where
  "bring_back E p w s =
     (let s = output_add_workspace p w (workspace_detach w s);
          s = fold (\<lambda>c s. if off_output (outs s p) (cons s c)
                         then container_floating_resize_and_center (e_layout_box E) (e_output_box E) c s else s)
                (w_floating (wss s w)) s in
      emit (Ev_workspace None (Some w) ''move'') s)"

definition restore_workspaces :: "env \<Rightarrow> id \<Rightarrow> sway \<Rightarrow> sway" where
  "restore_workspaces E p s =
     (let s = fold (claim_from E p) (outputs s) s;
          s = (case fallback_output s of None \<Rightarrow> s
               | Some f \<Rightarrow> fold (bring_back E p) (o_workspaces (outs s f)) s) in
      output_sort_workspaces p s)"

definition output_enable :: "env \<Rightarrow> id \<Rightarrow> sway \<Rightarrow> sway" where
  "output_enable E p s =
     (if o_enabled (outs s p) then s
      else
        (let s = upd_out p (\<lambda>x. x\<lparr>o_enabled := True\<rparr>) s;
             s = restore_workspaces E p (s\<lparr>outputs := outputs s @ [p]\<rparr>);
             s = (if o_workspaces (outs s p) \<noteq> [] then s
                  else
                    (case create_next_workspace E p s of
                       (w, s) \<Rightarrow>
                         (let s = each_seat (\<lambda>k s. if s_has_focus (seat_at s k) then s
                                                   else e_refocus E k (Some (N_WORKSPACE w)) s) s;
                              s = emit (Ev_workspace None (Some w) ''init'') s in
                          if cfg_default_orientation (cfg s) = L_NONE
                          then upd_ws w (\<lambda>x. x\<lparr>w_layout := output_get_default_layout s p\<rparr>) s else s))) in
         handle_new_node (N_OUTPUT p) s))"

text \<open>The sticky windows of an empty workspace go to the workspace the other output shows.\<close>

fun evacuate_loop :: "nat \<Rightarrow> env \<Rightarrow> id \<Rightarrow> id \<Rightarrow> sway \<Rightarrow> sway" where
  "evacuate_loop 0 E old new s = s"
| "evacuate_loop (Suc n) E old new s =
     (case w_floating (wss s old) of [] \<Rightarrow> s
      | c # _ \<Rightarrow>
          (let s = workspace_add_floating E new c (container_detach c s);
               s = container_handle_fullscreen_reparent E c s;
               s = container_floating_move_to_center c s in
           evacuate_loop n E old new (emit (Ev_window c ''move'') s)))"

definition evacuate_sticky :: "env \<Rightarrow> id \<Rightarrow> id \<Rightarrow> sway \<Rightarrow> sway" where
  "evacuate_sticky E old p s =
     (case output_get_active_workspace E s p of None \<Rightarrow> s
      | Some new \<Rightarrow> workspace_detect_urgent new (evacuate_loop (length (w_floating (wss s old))) E old new s))"

definition evacuation_target :: "sway \<Rightarrow> id \<Rightarrow> id option" where
  "evacuation_target s w =
     (case workspace_output_get_highest_available s w of Some p \<Rightarrow> Some p
      | None \<Rightarrow> (case outputs s of q # _ \<Rightarrow> Some q | [] \<Rightarrow> fallback_output s))"

definition evacuate_workspace :: "env \<Rightarrow> id \<Rightarrow> id \<Rightarrow> sway \<Rightarrow> sway" where
  "evacuate_workspace E w p s =
     (let shown = output_get_active_workspace E s p; empty = workspace_is_empty s w;
          s = (if empty \<and> shown \<noteq> None \<and> workspace_num_sticky_containers s w > 0
               then evacuate_sticky E w p s else s) in
      if empty \<and> workspace_num_sticky_containers s w = 0 then workspace_begin_destroy E w s
      else
        (let s = workspace_output_add_priority w p s;
             s = output_sort_workspaces p (output_add_workspace p w s);
             s = emit (Ev_workspace None (Some w) ''move'') s in
         case shown of None \<Rightarrow> s | Some v \<Rightarrow> workspace_consider_destroy E v s))"

text \<open>Every round of output_evacuate takes the first workspace off the output.\<close>

fun output_evacuate :: "nat \<Rightarrow> env \<Rightarrow> id \<Rightarrow> sway \<Rightarrow> sway" where
  "output_evacuate 0 E p s = s"
| "output_evacuate (Suc n) E p s =
     (case o_workspaces (outs s p) of [] \<Rightarrow> s
      | w # _ \<Rightarrow>
          (let s = workspace_detach w s in
           output_evacuate n E p
             (case evacuation_target s w of None \<Rightarrow> s | Some q \<Rightarrow> evacuate_workspace E w q s)))"

definition output_disable :: "env \<Rightarrow> id \<Rightarrow> sway \<Rightarrow> sway" where
  "output_disable E p s =
     (if \<not> o_enabled (outs s p) \<or> p \<notin> set (outputs s) then s
      else
        (let s = s\<lparr>outputs := remove_id p (outputs s)\<rparr>;
             s = upd_out p (\<lambda>x. x\<lparr>o_enabled := False\<rparr>) s in
         output_evacuate (length (o_workspaces (outs s p))) E p s))"

definition output_begin_destroy :: "env \<Rightarrow> id \<Rightarrow> sway \<Rightarrow> sway" where
  "output_begin_destroy E p s =
     (if o_enabled (outs s p) then s
      else
        (let s = each_seat (handle_seat_node_destroy E (N_OUTPUT p)) s in
         node_set_destroying (N_OUTPUT p) (node_set_dirty (N_OUTPUT p) s)))"

end
