(* ===== verification/Sample.thy ===== *)
theory Sample
  imports Tree_Inv Arrange_Laws
begin

text \<open>Facts about the small tree of Tree_State that the witnesses use.\<close>

lemma sample_fields:
  "c_parent (cons sample c) = (if c = 3 \<or> c = 4 then Some 1 else if c = 7 then Some 2 else None)"
  "c_children (cons sample c) = (if c = 1 then [3, 4] else if c = 2 then [7] else [])"
  "c_workspace (cons sample c) = (if c \<in> {1, 2, 3, 4, 7} then Some 6 else None)"
  "c_view (cons sample c) = (if c \<in> {3, 4, 7} then Some sample_view else None)"
  "w_tiling (wss sample w) = (if w = 6 then [1, 2] else [])" "w_floating (wss sample w) = []"
  "w_fullscreen (wss sample w) = None" "next_id sample = 8"
  by (simp_all add: sample_defs)

lemma sample_inv: "tree_ok sample" "rows_ok sample"
proof -
  have r: "roots sample w = (if w = 6 then [1, 2] else [])" for w by (simp add: roots_def sample_fields)
  show "tree_ok sample"
    by (rule tree_okI[OF sample_struct]) (auto simp: r sample_fields split: if_splits)
  show "rows_ok sample" by (auto simp: rows_ok_def sample_fields)
qed

text \<open>One output layout of 1000 by 600 pixels, no transient views, points that are their own nearest points.\<close>

definition sample_env :: env where
  "sample_env = \<lparr>e_transient = (\<lambda>_ _. False),
     e_layout_box = \<lparr>b_x = 0, b_y = 0, b_width = 1000, b_height = 600\<rparr>,
     e_output_box = (\<lambda>_. \<lparr>b_x = 0, b_y = 0, b_width = 1000, b_height = 600\<rparr>),
     e_closest = (\<lambda>_ x y. (x, y)), e_seat = None, e_output_at = (\<lambda>_ _. None),
     e_adjacent = (\<lambda>_ _ _ _. None), e_farthest = (\<lambda>_ _ _ _. None), e_thumbnail = (\<lambda>_ _. None), e_in_scene = (\<lambda>_ _. []),
     e_refocus = (\<lambda>_ _ s. s)\<rparr>"

lemma sample_hold: "attachable sample 3" "can_hold sample 2 3" "can_hold sample 1 7" "attachable sample 7"
proof -
  have "c_parent (cons sample 2) = None" "c_parent (cons sample (Suc 0)) = None" by (simp_all add: sample_fields)
  then have "2 \<notin> descendants sample 3" "Suc 0 \<notin> descendants sample 7" by (simp_all add: descendants_none)
  then show "attachable sample 3" "can_hold sample 2 3" "can_hold sample 1 7" "attachable sample 7"
    by (simp_all add: attachable_def can_hold_def sample_fields)
qed

end
