(* ===== verification/Workspaces_Laws.thy ===== *)
theory Workspaces_Laws
  imports Workspaces CList Sample
begin

text \<open>
  The order of workspaces is what list_stable_sort computes, the next numbered workspace is the
  nearest one, a new workspace always finds a name, and the operations on workspaces and outputs keep
  the tree well formed.
\<close>

section \<open>Numbers in names\<close>

lemma number_matches_iff: "number_matches name ws_name \<longleftrightarrow> takeWhile is_digit ws_name = takeWhile is_digit name"
proof (induction name ws_name rule: number_matches.induct)
  case (1 n name ws_name)
  then show ?case
    by (cases ws_name) (auto simp: starts_with_digit_def)
next
  case (2 ws_name)
  then show ?case by (cases ws_name) (auto simp: starts_with_digit_def)
qed

lemma number_matches_show: "number_matches (show_nat n) ws_name \<longleftrightarrow> takeWhile is_digit ws_name = show_nat n"
proof -
  have "takeWhile is_digit (show_nat n) = show_nat n" using show_nat_digits[of n] by (simp add: takeWhile_eq_all_conv)
  then show ?thesis by (simp only: number_matches_iff)
qed

lemma show_nat_inject: "show_nat m = show_nat n \<longleftrightarrow> m = n"
  by (metis digits_val_show of_nat_eq_iff)

section \<open>A free name\<close>

lemma find_some_concat: "find_some (\<lambda>p. List.find P (f p)) xs = List.find P (concat (map f xs))"
proof (induction xs)
  case (Cons x xs)
  have a: "List.find P (as @ bs) = (case List.find P as of None \<Rightarrow> List.find P bs | Some y \<Rightarrow> Some y)" for as bs
    by (induction as) auto
  show ?case
    using Cons by (cases "List.find P (f x)") (auto simp: find_some_def a)
qed (simp add: find_some_def)

lemma root_find_workspace_all: "root_find_workspace s P = List.find P (all_workspaces s)"
  unfolding root_find_workspace_def output_find_workspace_def all_workspaces_def by (rule find_some_concat)

lemma by_number_iff:
  "workspace_by_number s (show_nat n) = None
   \<longleftrightarrow> (\<forall>w\<in>set (all_workspaces s). takeWhile is_digit (w_name (wss s w)) \<noteq> show_nat n)"
  unfolding workspace_by_number_def root_find_workspace_all number_matches_show find_None_iff by auto

lemma find_upt:
  assumes "List.find P [1..<m] = Some n"
  shows "0 < n" "P n" "\<And>k. 0 < k \<Longrightarrow> k < n \<Longrightarrow> \<not> P k"
proof -
  obtain i where i: "i < m - 1" "P ([1..<m] ! i)" "n = [1..<m] ! i" "\<forall>j<i. \<not> P ([1..<m] ! j)"
    using assms by (auto simp: find_Some_iff)
  have nth: "[1..<m] ! j = 1 + j" if "j \<le> i" for j using that i(1) by (intro nth_upt) simp
  show "0 < n" "P n" using i nth[of i] by simp_all
  show "\<not> P k" if "0 < k" "k < n" for k
  proof -
    have "k - 1 < i" "1 + (k - 1) = k" using that i(3) nth[of i] by simp_all
    then show ?thesis using i(4) nth[of "k - 1"] by (metis less_imp_le)
  qed
qed

lemma free_number_found:
  obtains n where "List.find (\<lambda>n. workspace_by_number s (show_nat n) = None)
      [1..<length (all_workspaces s) + 2] = Some n"
proof -
  let ?N = "length (all_workspaces s)" and ?f = "\<lambda>w. takeWhile is_digit (w_name (wss s w))"
  have "\<exists>n\<in>{1..<?N + 2}. workspace_by_number s (show_nat n) = None"
  proof (rule ccontr)
    assume "\<not> ?thesis"
    then have "show_nat ` {1..<?N + 2} \<subseteq> ?f ` set (all_workspaces s)" 
      by (auto simp: by_number_iff image_iff) (metis atLeastLessThan_iff)
    then have "card (show_nat ` {1..<?N + 2}) \<le> card (?f ` set (all_workspaces s))" by (rule card_mono[rotated]) simp
    also have "\<dots> \<le> ?N" using card_image_le[of "set (all_workspaces s)" ?f] card_length[of "all_workspaces s"] by simp
    also have "card (show_nat ` {1..<?N + 2}) = ?N + 1"
      by (subst card_image) (simp_all add: inj_on_def show_nat_inject)
    finally show False by simp
  qed
  then have "List.find (\<lambda>n. workspace_by_number s (show_nat n) = None) [1..<?N + 2] \<noteq> None"
    unfolding find_None_iff set_upt by blast
  then show ?thesis using that by blast
qed

text \<open>
  C22. workspace_next_name finds a name for every output that exists. When neither a binding nor the
  configuration offers one it is a number that no workspace has, while all smaller ones are taken.
\<close>
theorem workspace_next_name_found:
  assumes "output_by_name_or_id s output_name \<noteq> None"
  shows "workspace_next_name E s output_name \<noteq> None
    \<and> (bound_commands (cfg s) = [] \<longrightarrow> cfg_workspace_configs (cfg s) = []
       \<longrightarrow> (\<exists>n. workspace_next_name E s output_name = Some (show_nat n) \<and> 0 < n
            \<and> workspace_by_number s (show_nat n) = None
            \<and> (\<forall>k. 0 < k \<and> k < n \<longrightarrow> workspace_by_number s (show_nat k) \<noteq> None)))"
proof -
  obtain p where p: "output_by_name_or_id s output_name = Some p" using assms by blast
  obtain n where n: "List.find (\<lambda>n. workspace_by_number s (show_nat n) = None)
      [1..<length (all_workspaces s) + 2] = Some n" by (rule free_number_found)
  then have f: "free_number s = Some (show_nat n)" by (simp add: free_number_def)
  have least: "0 < n" "workspace_by_number s (show_nat n) = None"
    "\<forall>k. 0 < k \<and> k < n \<longrightarrow> workspace_by_number s (show_nat k) \<noteq> None"
    using find_upt[OF n] by blast+
  have "workspace_next_name E s output_name \<noteq> None"
    using p f by (auto simp: workspace_next_name_def Let_def split: option.split)
  moreover have "workspace_next_name E s output_name = Some (show_nat n)"
    if "bound_commands (cfg s) = []" "cfg_workspace_configs (cfg s) = []"
    using that p f by (simp add: workspace_next_name_def configured_name_def)
  ultimately show ?thesis using least by blast
qed

lemma workspace_next_name_found_witness:
  "workspace_next_name sample_env sample ''A'' \<noteq> None"
proof -
  have "output_by_name_or_id sample ''A'' = Some 5"
    by (simp add: output_by_name_or_id_def output_match_name_or_id_def sample_defs str_caseeq_def)
  then show ?thesis using workspace_next_name_found[of sample "''A''" sample_env] by simp
qed

section \<open>The order of the workspaces of an output\<close>

lemma to_int32_range: "- (2 ^ 31) \<le> to_int32 x" "to_int32 x < 2 ^ 31"
proof -
  have "0 \<le> (x + 2 ^ 31) mod 2 ^ 32" "(x + 2 ^ 31) mod 2 ^ 32 < 2 ^ 32" by simp_all
  then show "- (2 ^ 31) \<le> to_int32 x" "to_int32 x < 2 ^ 31" unfolding to_int32_def by simp_all
qed

lemma sort_cmp_number: "sort_workspace_cmp_qsort a b \<le> 0 \<longleftrightarrow> sort_number a \<le> sort_number b"
  using to_int32_range(2)[of "fst (c_strtol a)"] to_int32_range(2)[of "fst (c_strtol b)"]
  by (auto simp: sort_workspace_cmp_qsort_def sort_number_def Let_def)

lemma stably_sorted_key:
  assumes "stably_sorted compare xs ys" "\<And>a b. compare a b \<le> 0 \<longleftrightarrow> f a \<le> (f b :: int)"
  shows "ys = sort_key f xs"
proof (rule sym, rule properties_for_sort_key)
  show "mset ys = mset xs" using assms(1) by (simp add: stably_sorted_def)
  have e: "cmp_eqv compare k = (\<lambda>x. f k = f x)" for k by (auto simp: cmp_eqv_def assms(2) fun_eq_iff)
  show "filter (\<lambda>x. f k = f x) ys = filter (\<lambda>x. f k = f x) xs" for k
    using assms(1) e by (auto simp: stably_sorted_def)
  show "sorted (map f ys)"
    using assms(1) by (simp add: stably_sorted_def sorted_map cmp_le_def assms(2) sorted_wrt_iff_nth_less)
qed

text \<open>
  C23. The order output_sort_workspaces gives to the workspaces of an output is the one the merge sort
  of list.c computes with the comparator of output.c: list_stable_sort on the array that holds the
  workspaces ends, stays inside the array and leaves them sorted by number, unnumbered ones last and
  equal ones in their old order.
\<close>
theorem output_sort_is_list_stable_sort:
  assumes "list_ok l" "elems l = o_workspaces (outs s p)"
  shows "\<exists>l'. list_stable_sort l (\<lambda>a b. sort_workspace_cmp_qsort (w_name (wss s a)) (w_name (wss s b))) = Some l'
    \<and> list_ok l' \<and> elems l' = o_workspaces (outs (output_sort_workspaces p s) p)"
proof -
  let ?f = "\<lambda>w. sort_number (w_name (wss s w))"
  have "comparison (\<lambda>a b. sort_workspace_cmp_qsort (w_name (wss s a)) (w_name (wss s b)))"
    by unfold_locales (auto simp: sort_cmp_number)
  then obtain l' where l: "list_stable_sort l (\<lambda>a b. sort_workspace_cmp_qsort (w_name (wss s a)) (w_name (wss s b))) = Some l'"
    "list_ok l'" "stably_sorted (\<lambda>a b. sort_workspace_cmp_qsort (w_name (wss s a)) (w_name (wss s b))) (elems l) (elems l')"
    using comparison.list_stable_sort_spec[OF _ assms(1)] by blast
  have "elems l' = sort_key ?f (elems l)" by (rule stably_sorted_key[OF l(3) sort_cmp_number])
  then show ?thesis using l(1,2) assms(2) by (simp add: output_sort_workspaces_def)
qed

lemma output_sort_is_list_stable_sort_witness:
  "\<exists>l'. list_stable_sort \<lparr>capacity = 2, len = 1, items = [Some 6, None]\<rparr>
      (\<lambda>a b. sort_workspace_cmp_qsort (w_name (wss sample a)) (w_name (wss sample b))) = Some l'
    \<and> list_ok l' \<and> elems l' = o_workspaces (outs (output_sort_workspaces 5 sample) 5)"
  by (rule output_sort_is_list_stable_sort) (simp_all add: list_ok_def elems_def sample_defs)

section \<open>The next workspace\<close>

text \<open>The state of the walk: best is the nearest of those seen, when any of them is beyond n.\<close>

definition nearest :: "(id \<Rightarrow> int) \<Rightarrow> int \<Rightarrow> id set \<Rightarrow> id option \<Rightarrow> bool" where
  "nearest num n X best \<longleftrightarrow>
     (case best of None \<Rightarrow> \<forall>x\<in>X. num x \<le> n
      | Some b \<Rightarrow> b \<in> X \<and> n < num b \<and> (\<forall>x\<in>X. n < num x \<longrightarrow> num b \<le> num x))"

lemma numbered_walk_next:
  assumes "0 \<le> n" "nearest num n X best" "\<exists>x\<in>X \<union> set xs. n < num x"
  shows "\<exists>b. numbered_walk (<) num n xs best first other = Some b
    \<and> nearest num n (X \<union> set xs) (Some b)"
  using assms
proof (induction xs arbitrary: X best first other)
  case Nil
  then show ?case by (cases best) (auto simp: nearest_def)
next
  case (Cons x xs)
  let ?best = "if num x \<ge> 0 \<and> n < num x \<and> (case best of None \<Rightarrow> True | Some b \<Rightarrow> num x < num b) then Some x else best"
  have b: "nearest num n (insert x X) ?best"
    using Cons.prems(1,2) by (cases best) (auto simp: nearest_def)
  have ex: "\<exists>y\<in>insert x X \<union> set xs. n < num y" using Cons.prems(3) by auto
  show ?case
    using Cons.IH[OF Cons.prems(1) b ex] unfolding numbered_walk.simps Let_def by simp
qed

lemma upto_named_numbered:
  assumes "sorted_wrt (\<lambda>x y. num x < 0 \<longrightarrow> num y < 0) xs" "x \<in> set xs" "0 \<le> num x"
  shows "x \<in> set (upto_named num xs)"
  using assms by (induction xs) (auto simp: upto_named_def)

lemma set_upto_named: "set (upto_named num xs) \<subseteq> set xs"
  unfolding upto_named_def by (auto dest: set_takeWhileD in_set_takeD set_dropWhileD)

text \<open>
  C24. From a workspace with a number workspace_next goes to the workspace with the least greater
  number, when there is one and every output lists its numbered workspaces first.
\<close>
theorem workspace_next_nearest:
  assumes "0 \<le> workspace_get_number s w"
    and "\<forall>p\<in>set (outputs s). sorted_wrt (\<lambda>x y. workspace_get_number s x < 0 \<longrightarrow> workspace_get_number s y < 0)
           (o_workspaces (outs s p))"
    and "v \<in> set (all_workspaces s)" "workspace_get_number s w < workspace_get_number s v"
  shows "\<exists>b. workspace_next s w = Some b \<and> b \<in> set (all_workspaces s)
    \<and> workspace_get_number s w < workspace_get_number s b
    \<and> (\<forall>x\<in>set (all_workspaces s). workspace_get_number s w < workspace_get_number s x
         \<longrightarrow> workspace_get_number s b \<le> workspace_get_number s x)"
proof -
  let ?num = "workspace_get_number s"
  let ?xs = "concat (map (upto_named ?num) (map (\<lambda>p. o_workspaces (outs s p)) (outputs s)))"
  have numbered: "x \<in> set ?xs" if "x \<in> set (all_workspaces s)" "?num w < ?num x" for x
    using that assms(1,2) upto_named_numbered[of ?num _ x] by (auto simp: all_workspaces_def)
  have sub: "set ?xs \<subseteq> set (all_workspaces s)" using set_upto_named by (fastforce simp: all_workspaces_def)
  obtain b where b: "numbered_walk (<) ?num (?num w) ?xs None None None = Some b" "nearest ?num (?num w) (set ?xs) (Some b)"
    using numbered_walk_next[OF assms(1), of ?num "{}" None ?xs None None] numbered[OF assms(3,4)] assms(4)
    by (auto simp: nearest_def)
  have "workspace_next s w = Some b" using b(1) assms(1) by (simp add: workspace_next_def Let_def)
  then show ?thesis using b(2) sub numbered by (auto simp: nearest_def)
qed

definition sample_two :: sway where
  "sample_two = upd_out 5 (\<lambda>x. x\<lparr>o_workspaces := [6, 9]\<rparr>) (upd_ws 9 (\<lambda>x. x\<lparr>w_name := ''3''\<rparr>) sample)"

lemma sample_two_numbers:
  "workspace_get_number sample_two 6 = 1" "workspace_get_number sample_two 9 = 3"
  "outputs sample_two = [5]" "o_workspaces (outs sample_two 5) = [6, 9]"
  by (simp_all add: workspace_get_number_def sample_two_def sample_defs c_strtol_def is_digit_def is_ws_def
      digits_val_def digit_val_def whitespace_def Let_def)

lemma workspace_next_nearest_witness: "workspace_next sample_two 6 = Some 9"
proof -
  have all: "all_workspaces sample_two = [6, 9]" by (simp add: all_workspaces_def sample_two_numbers)
  obtain b where "workspace_next sample_two 6 = Some b" "b \<in> set (all_workspaces sample_two)"
    "workspace_get_number sample_two 6 < workspace_get_number sample_two b"
    using workspace_next_nearest[of sample_two 6 9] by (auto simp: all sample_two_numbers)
  then show ?thesis by (auto simp: all sample_two_numbers)
qed

section \<open>What the operations keep\<close>

lemma upd_out_keeps: "keeps s (upd_out p f s)"
  by (rule same_tree_keeps) (simp add: same_tree_def)

lemma upd_out_after: "keeps s t \<Longrightarrow> keeps s (upd_out p f t)"
  by (rule keeps_trans[OF _ upd_out_keeps])

lemma add_workspace_keeps: "keeps s (output_add_workspace p w s)"
  unfolding output_add_workspace_def Let_def
  by (intro keeps_dirty_after keeps_ws_after upd_out_after keeps_if keeps_refl workspace_detach_keeps) simp

lemma sort_workspaces_keeps: "keeps s (output_sort_workspaces p s)"
  unfolding output_sort_workspaces_def by (rule upd_out_keeps)

lemma raise_priority_keeps: "keeps s (workspace_output_raise_priority w p q s)"
  unfolding workspace_output_raise_priority_def Let_def
  by (intro keeps_if keeps_refl keeps_upd_ws) simp_all

lemma add_priority_keeps: "keeps s (workspace_output_add_priority w p s)"
  unfolding workspace_output_add_priority_def by (intro keeps_if keeps_refl keeps_upd_ws) simp

lemma new_node_keeps: "keeps s (handle_new_node n s)"
  unfolding handle_new_node_def by (rule keeps_seats)

text \<open>A new workspace with empty lists: the tree stays well formed.\<close>

lemma fresh_workspace_advances:
  assumes "w_tiling x = []" "w_floating x = []" "w_fullscreen x = None"
  shows "advances s (upd_ws w (\<lambda>_. x) (s\<lparr>next_id := next_id s + 1, ninfo := i\<rparr>))"
proof -
  let ?t = "upd_ws w (\<lambda>_. x) (s\<lparr>next_id := next_id s + 1, ninfo := i\<rparr>)"
  have ro: "roots ?t v = (if v = w then [] else roots s v)" for v using assms by (simp add: roots_def)
  have "tree_inv ?t" if inv: "tree_inv s"
  proof -
    have ok: "tree_ok s" and rows: "rows_ok s" using inv by (simp_all add: tree_inv_def)
    note st = struct_okD[OF tree_okD(1)[OF ok]]
    have "struct_ok ?t"
      unfolding struct_ok_def using st by (auto simp: parent_rel_def less_Suc_eq)
    then have "tree_ok ?t"
      by (rule tree_okI) (use ro assms tree_okD[OF ok] in \<open>auto split: if_splits intro: less_SucI\<close>)
    moreover have "rows_ok ?t" using rows assms by (simp add: rows_ok_def)
    ultimately show ?thesis by (simp add: tree_inv_def)
  qed
  then show ?thesis by (simp add: advances_def)
qed

lemma workspace_create_advances: "advances s (snd (workspace_create E p name s))"
proof -
  have a: "advances s (upd_ws (next_id s) (\<lambda>_. case c of None \<Rightarrow> ws_zero\<lparr>w_name := name, w_prev_split_layout := L_NONE,
        w_layout := L_HORIZ, w_focused_column_idx := -1, w_default_float := False, w_gaps_outer := g, w_gaps_inner := h\<rparr>
      | Some d \<Rightarrow> configured_gaps d (ws_zero\<lparr>w_name := name, w_prev_split_layout := L_NONE,
        w_layout := L_HORIZ, w_focused_column_idx := -1, w_default_float := False, w_gaps_outer := g, w_gaps_inner := h\<rparr>))
      (s\<lparr>next_id := next_id s + 1, ninfo := i\<rparr>))" for c g h i
    by (rule fresh_workspace_advances) (auto simp: ws_zero_def configured_gaps_def Let_def split: option.split)
  have z: "keeps t (handle_new_node n (emit e (case q of None \<Rightarrow> t
      | Some p \<Rightarrow> output_sort_workspaces p (output_add_workspace p w (workspace_output_add_priority w p t)))))" for t q w n e
    by (rule keeps_trans[OF _ new_node_keeps], rule keeps_emit_after)
      (auto split: option.split intro!: keeps_refl keeps_trans[OF keeps_trans[OF add_priority_keeps add_workspace_keeps] sort_workspaces_keeps])
  show ?thesis
    unfolding workspace_create_def node_init_def Let_def prod.case snd_conv by (rule keeps_after[OF a z])
qed

context refocusing
begin

lemma create_next_advances: "advances s (snd (create_next_workspace E p s))"
  unfolding create_next_workspace_def
  by (auto split: option.split intro: workspace_create_advances advances_refl)

lemma workspace_switch_advances: "advances s (workspace_switch E w s)"
  unfolding workspace_switch_def Let_def by (rule shape_after[OF refocus_advances arrange_workspace_shape])

lemma move_to_output_advances: "advances s (workspace_move_to_output E w p s)"
proof -
  have a: "keeps t (output_add_workspace p w (workspace_detach w t))" for t
    by (rule keeps_trans[OF workspace_detach_keeps add_workspace_keeps])
  have b: "advances t (if o_workspaces (outs t old) = [] then
      (case create_next_workspace E old t of (v, u) \<Rightarrow> seat_set_raw_focus (input_manager_current_seat E u) (N_WORKSPACE v) u)
      else t)" for t old
    using create_next_advances[of t old]
    by (auto split: prod.split intro!: advances_refl keeps_after[OF _ keeps_raw_focus])
  have c: "keeps t (emit e (workspace_output_raise_priority w old p (output_sort_workspaces p (workspace_consider_destroy E v t))))" for t e old v
    by (intro keeps_emit_after keeps_trans[OF _ raise_priority_keeps] keeps_trans[OF _ sort_workspaces_keeps] consider_destroy_keeps)
  show ?thesis
    unfolding workspace_move_to_output_def Let_def
    by (rule advances_if, rule advances_refl, (cases "w_output (wss s w)"; simp only: option.case advances_refl),
        (cases "output_get_active_workspace E (workspace_detach w s) p"; simp only: option.case))
      (rule keeps_advances[OF workspace_detach_keeps], rule keeps_after[OF advances_trans[OF keeps_advances[OF a] b] c])
qed

section \<open>Outputs that come and go\<close>

lemma advances_fold: "(\<And>x t. advances t (f x t)) \<Longrightarrow> advances s (fold f xs s)"
  by (induction xs arbitrary: s) (auto intro: advances_refl advances_trans)

lemma claim_workspace_keeps: "keeps s (claim_workspace p w s)"
  unfolding claim_workspace_def
  by (intro keeps_if keeps_refl keeps_emit_after keeps_trans[OF workspace_detach_keeps add_workspace_keeps])

lemma claim_from_advances: "advances s (claim_from E p q s)"
proof -
  have f: "advances s (fold (claim_workspace p) xs s)" for xs
    by (rule advances_fold[OF keeps_advances[OF claim_workspace_keeps]])
  have c: "advances t (case create_next_workspace E q t of (w, u) \<Rightarrow> emit (ev w) u)" for t ev
    using create_next_advances[of t q] by (cases "create_next_workspace E q t") (auto intro: emit_after)
  show ?thesis unfolding claim_from_def Let_def
    by (intro advances_if advances_refl f advances_trans[OF f c])
qed

lemma bring_back_advances: "advances s (bring_back E p w s)"
proof -
  have a: "advances s (output_add_workspace p w (workspace_detach w s))"
    by (rule keeps_advances[OF keeps_trans[OF workspace_detach_keeps add_workspace_keeps]])
  have f: "advances t (fold (\<lambda>c s. if off_output (outs s p) (cons s c)
      then container_floating_resize_and_center (e_layout_box E) (e_output_box E) c s else s) xs t)" for t xs
    by (rule advances_fold) (intro advances_if advances_refl shape_advances resize_and_center_shape)
  show ?thesis unfolding bring_back_def Let_def by (rule emit_after[OF advances_trans[OF a f]])
qed

lemma restore_workspaces_advances: "advances s (restore_workspaces E p s)"
proof -
  have f: "advances s (fold (claim_from E p) xs s)" for xs by (rule advances_fold[OF claim_from_advances])
  have b: "advances t (fold (bring_back E p) xs t)" for t xs by (rule advances_fold[OF bring_back_advances])
  show ?thesis unfolding restore_workspaces_def Let_def
    by (rule keeps_after[OF _ sort_workspaces_keeps]) (auto split: option.split intro: f advances_trans[OF f b])
qed

lemma outputs_keeps: "keeps s (s\<lparr>outputs := xs\<rparr>)"
  by (rule same_tree_keeps) (simp add: same_tree_def)

lemma output_enable_advances: "advances s (output_enable E p s)"
proof -
  have a: "advances s (restore_workspaces E p (u\<lparr>outputs := xs\<rparr>))" if "keeps s u" for u xs
    by (rule advances_trans[OF keeps_advances[OF keeps_trans[OF that outputs_keeps]] restore_workspaces_advances])
  have foc: "keeps t (each_seat (\<lambda>k s. if s_has_focus (seat_at s k) then s else e_refocus E k n s) t)" for t n
    by (rule keeps_each_seat) (intro keeps_if keeps_refl refocus_keeps)
  have lay: "keeps t (upd_ws w (\<lambda>x. x\<lparr>w_layout := l\<rparr>) t)" for t w l by (rule keeps_upd_ws) simp
  have c: "advances t (case create_next_workspace E p t of (w, u) \<Rightarrow>
      (let s = each_seat (\<lambda>k s. if s_has_focus (seat_at s k) then s else e_refocus E k (Some (N_WORKSPACE w)) s) u;
           s = emit (Ev_workspace None (Some w) ''init'') s in
       if cfg_default_orientation (cfg s) = L_NONE
       then upd_ws w (\<lambda>x. x\<lparr>w_layout := output_get_default_layout s p\<rparr>) s else s))" for t
  proof -
    obtain w u where e: "create_next_workspace E p t = (w, u)" by fastforce
    have u: "advances t u" using create_next_advances[of t p] by (simp add: e)
    show ?thesis unfolding e prod.case Let_def
      by (rule keeps_after[OF u], rule keeps_if) (intro keeps_trans[OF _ lay] keeps_emit_after foc)+
  qed
  show ?thesis unfolding output_enable_def Let_def[of "upd_out p (\<lambda>x. x\<lparr>o_enabled := True\<rparr>) s"]
    unfolding Let_def[of "restore_workspaces E p t" for t] Let_def[of "if b then t else u" for b t u]
    by (intro advances_if advances_refl keeps_after[OF _ new_node_keeps] a upd_out_keeps advances_trans[OF a[OF upd_out_keeps] c])
qed

lemma evacuate_loop_advances: "advances s (evacuate_loop n E old new s)"
proof (induction n arbitrary: s)
  case (Suc n)
  show ?case
  proof (cases "w_floating (wss s old)")
    case (Cons c cs)
    have "advances s (workspace_add_floating E new c (container_detach c s))"
    proof (rule advances_local)
      assume inv: "tree_inv s"
      have "c < next_id s"
        using inv tree_okD(5,7)[of s c old] Cons by (simp add: tree_inv_def roots_def)
      then show "advances s (workspace_add_floating E new c (container_detach c s))"
        by (intro advances_trans[OF detach_advances add_floating_advances[OF attachable_detached[OF inv]]])
    qed
    then have "advances s (emit e (container_floating_move_to_center c (container_handle_fullscreen_reparent E c
        (workspace_add_floating E new c (container_detach c s)))))" for e
      by (intro emit_after shape_after[OF _ move_to_center_shape] keeps_after[OF _ reparent_keeps])
    then show ?thesis using Cons Suc.IH by (auto simp: Let_def intro: advances_trans)
  qed (simp add: advances_refl)
qed (simp add: advances_refl)

lemma evacuate_sticky_advances: "advances s (evacuate_sticky E old p s)"
  unfolding evacuate_sticky_def
  by (auto split: option.split intro!: advances_refl keeps_after[OF evacuate_loop_advances detect_urgent_keeps])

lemma evacuate_workspace_advances: "advances s (evacuate_workspace E w p s)"
proof -
  have a: "advances s (if b then evacuate_sticky E w p s else s)" for b
    by (intro advances_if advances_refl evacuate_sticky_advances)
  have z: "keeps t (case v of None \<Rightarrow> emit e (output_sort_workspaces p (output_add_workspace p w (workspace_output_add_priority w p t)))
      | Some x \<Rightarrow> workspace_consider_destroy E x (emit e (output_sort_workspaces p (output_add_workspace p w (workspace_output_add_priority w p t)))))" for t v e
    by (auto split: option.split intro!: consider_destroy_after keeps_emit_after keeps_trans[OF _ sort_workspaces_keeps]
        keeps_trans[OF _ add_workspace_keeps] add_priority_keeps)
  show ?thesis unfolding evacuate_workspace_def Let_def
    by (rule advances_if, rule keeps_after[OF a workspace_begin_destroy_keeps], rule keeps_after[OF a z])
qed

lemma output_evacuate_advances: "advances s (output_evacuate n E p s)"
proof (induction n arbitrary: s)
  case (Suc n)
  have "advances s (case q of None \<Rightarrow> workspace_detach w s | Some r \<Rightarrow> evacuate_workspace E w r (workspace_detach w s))" for q w
    by (auto split: option.split intro: keeps_advances[OF workspace_detach_keeps]
        advances_trans[OF keeps_advances[OF workspace_detach_keeps] evacuate_workspace_advances])
  then show ?case using Suc.IH by (auto simp: Let_def split: list.split intro: advances_refl advances_trans)
qed (simp add: advances_refl)

lemma output_disable_advances: "advances s (output_disable E p s)"
  unfolding output_disable_def Let_def
  by (intro advances_if advances_refl advances_trans[OF keeps_advances[OF upd_out_after[OF outputs_keeps]] output_evacuate_advances])

end

end
