(* ===== verification/Tree_Calls.thy ===== *)
theory Tree_Calls
  imports Workspaces_Laws
begin

text \<open>
  What the calls that move, insert and destroy containers do to the tree: the child lists they leave,
  and that every sequence of them keeps the invariant, at every depth of nested focus moves.
\<close>

section \<open>Every sequence of calls\<close>

text \<open>
  One call of a function that changes the tree, under the conditions its callers meet: what is
  inserted is attached as attachable says, a parent can hold it, and columns are no views.
\<close>

inductive tree_call :: "env \<Rightarrow> sway \<Rightarrow> sway \<Rightarrow> bool" for E where
  create: "container_create v s = (c, t) \<Longrightarrow> tree_call E s t"
| detach: "tree_call E s (container_detach c s)"
| insert_child: "attachable s c \<Longrightarrow> can_hold s p c \<Longrightarrow> tree_call E s (container_insert_child E p c i s)"
| add_child: "attachable s c \<Longrightarrow> can_hold s p c \<Longrightarrow> tree_call E s (container_add_child E p c s)"
| add_sibling: "attachable s c \<Longrightarrow> d \<notin> insert c (descendants s c) \<Longrightarrow>
    c_parent (cons s d) \<noteq> None \<or> c_workspace (cons s d) \<noteq> None \<and> c_view (cons s c) = None \<Longrightarrow>
    tree_call E s (container_add_sibling E d c after s)"
| add_floating: "attachable s c \<Longrightarrow> tree_call E s (workspace_add_floating E w c s)"
| add_tiling: "attachable s c \<Longrightarrow> tree_call E s (snd (workspace_add_tiling E w c s))"
| insert_column: "attachable s c \<Longrightarrow> c_view (cons s c) \<noteq> None \<or> c \<notin> set (w_floating (wss s w)) \<Longrightarrow>
    tree_call E s (snd (workspace_insert_column E w c i s))"
| insert_direct: "loose s w c \<Longrightarrow> c < next_id s \<Longrightarrow> c_view (cons s c) = None \<Longrightarrow>
    tree_call E s (workspace_insert_tiling_direct E w c i s)"
| fix_overflow: "tree_call E s (workspace_fix_overflow E w s)"
| fullscreen: "tree_call E s (container_set_fullscreen E c mode s)"
| focus: "tree_call E s (e_refocus E k n s)"
| raise_floating: "tree_call E s (container_raise_floating c s)"
| begin_destroy: "tree_call E s (container_begin_destroy E c s)"
| reap: "tree_call E s (container_reap_empty E c s)"
| scratchpad_remove: "tree_call E s (root_scratchpad_remove_container c s)"
| consider_destroy: "tree_call E s (workspace_consider_destroy E w s)"
| arrange: "tree_call E s (arrange_workspace w s)"
| set_floating: "tree_call E s (container_set_floating E c enable s)"
| insert_window: "view < next_id s \<Longrightarrow>
    (edge = EDGE_TOP \<or> edge = EDGE_BOTTOM \<or> edge = EDGE_NONE \<Longrightarrow>
      can_hold s (container_toplevel_ancestor s target) view) \<Longrightarrow>
    container_toplevel_ancestor s view \<notin> set (w_floating (wss s w)) \<Longrightarrow>
    attachable s (container_toplevel_ancestor s view) \<Longrightarrow>
    tree_call E s (snd (workspace_insert_window E w view target edge after s))"
| swap_columns: "tree_call E s (workspace_swap_columns E a b s)"
| swap_floating: "tree_call E s (workspace_swap_floating E a b s)"
| pull_column: "col \<in> set (w_tiling (wss s v)) \<Longrightarrow> tree_call E s (workspace_pull_column E w col i s)"
| scratchpad_add: "c < next_id s \<Longrightarrow> tree_call E s (root_scratchpad_add_container E c w' s)"
| scratchpad_show: "c < next_id s \<Longrightarrow> tree_call E s (root_scratchpad_show E c s)"
| scratchpad_hide: "tree_call E s (root_scratchpad_hide E c s)"
| minimized_hide: "tree_call E s (workspace_minimized_hide E c s)"
| workspace_create: "tree_call E s (snd (workspace_create E p name s))"
| workspace_switch: "tree_call E s (workspace_switch E w s)"
| move_to_output: "tree_call E s (workspace_move_to_output E w p s)"
| output_enable: "tree_call E s (output_enable E p s)"
| output_disable: "tree_call E s (output_disable E p s)"
| minimized_show: "unlinked s c \<Longrightarrow> c < next_id s \<Longrightarrow> tree_call E s (workspace_minimized_show_on E c w s)"

inductive tree_calls :: "env \<Rightarrow> sway \<Rightarrow> sway \<Rightarrow> bool" for E where
  none: "tree_calls E s s"
| more: "tree_calls E s t \<Longrightarrow> tree_call E t u \<Longrightarrow> tree_calls E s u"

context refocusing
begin

lemma tree_call_advances: "tree_call E s t \<Longrightarrow> advances s t"
proof (induction rule: tree_call.induct)
  case (add_sibling s c d after)
  show ?case
  proof (rule advances_local)
    assume "tree_inv s"
    then have inv: "tree_ok s" "rows_ok s" by (simp_all add: tree_inv_def)
    have at: "c_parent (cons s d) \<noteq> None \<or> c_workspace (cons s d) \<noteq> None" using add_sibling(3) by blast
    show "advances s (container_add_sibling E d c after s)"
      by (rule moves_advances[OF add_sibling_moves[OF inv(1) add_sibling(1,2) at] add_sibling_rows[OF inv add_sibling]])
  qed
next
  case (insert_direct s w c i)
  show ?case
  proof (rule advances_local)
    assume "tree_inv s"
    then have inv: "tree_ok s" "rows_ok s" by (simp_all add: tree_inv_def)
    note m = insert_direct_moves[OF inv(1) insert_direct(1,2), of i]
    show "advances s (workspace_insert_tiling_direct E w c i s)"
      by (rule moves_advances[OF m moves_rows_column[OF m inv(2) insert_direct(3)]])
  qed
next
  case (insert_window view s edge target w after)
  show ?case by (rule insert_window_advances[OF insert_window])
qed (rule create_advances detach_advances insert_child_advances add_child_advances add_floating_advances
  add_tiling_advances insert_column_advances fix_overflow_advances refocus_advances begin_destroy_advances
  reap_advances consider_destroy_advances set_floating_advances swap_columns_advances swap_floating_advances
  pull_column_advances scratchpad_add_advances scratchpad_show_advances scratchpad_hide_advances
  minimized_hide_advances minimized_show_on_advances workspace_create_advances workspace_switch_advances
  move_to_output_advances output_enable_advances output_disable_advances keeps_advances[OF set_fullscreen_keeps]
  keeps_advances[OF raise_floating_keeps] keeps_advances[OF scratchpad_remove_keeps]
  shape_advances[OF arrange_workspace_shape], assumption?, assumption?)+

lemma tree_call_inv: "tree_call E s t \<Longrightarrow> tree_inv s \<Longrightarrow> tree_inv t"
  by (rule advancesD[OF tree_call_advances])

lemma tree_calls_inv: "tree_calls E s t \<Longrightarrow> tree_inv s \<Longrightarrow> tree_inv t"
  by (induction rule: tree_calls.induct) (auto intro: tree_call_inv)

end

section \<open>The properties\<close>

lemma root_inv: "tree_inv ((root_create k)\<lparr>seats := ts\<rparr>)"
proof -
  have "struct_ok ((root_create k)\<lparr>seats := ts\<rparr>)"
    by (simp add: struct_ok_def parent_rel_def root_create_def con_zero_def acyclic_def)
  then have "tree_ok ((root_create k)\<lparr>seats := ts\<rparr>)"
    by (rule tree_okI) (simp_all add: root_create_def con_zero_def ws_zero_def roots_def)
  then show ?thesis by (simp add: tree_inv_def rows_ok_def root_create_def ws_zero_def)
qed

text \<open>
  C1. From the empty root, whatever its seats, every sequence of the calls that create, detach,
  insert, float, tile, destroy, reap, focus and put containers fullscreen keeps the tree well formed:
  child lists and parents agree, nothing is its own ancestor, a subtree has one workspace, no
  container is twice in a workspace, a fullscreen pointer points into its workspace, and columns are
  no views. The focus moves may nest to any depth d.
\<close>
theorem tree_calls_keep_tree:
  assumes "tree_calls (with_focus d E) ((root_create k)\<lparr>seats := ts\<rparr>) s"
  shows "tree_ok s \<and> rows_ok s"
  using live.tree_calls_inv[OF assms root_inv] by (simp add: tree_inv_def)

definition two_containers :: sway where
  "two_containers = snd (container_create (Some sample_view)
     (snd (container_create None ((root_create sample_cfg)\<lparr>seats := []\<rparr>))))"

lemma two_containers:
  "tree_calls E ((root_create sample_cfg)\<lparr>seats := []\<rparr>) (container_add_child E 1 2 two_containers)"
proof -
  let ?r = "(root_create sample_cfg)\<lparr>seats := []\<rparr>"
  let ?a = "snd (container_create None ?r)"
  have a: "container_create None ?r = (1, ?a)" and b: "container_create (Some sample_view) ?a = (2, two_containers)"
    by (simp_all add: two_containers_def container_create_def node_init_def handle_new_node_def root_create_def)
  have calls: "tree_calls E ?r two_containers"
    by (rule tree_calls.more[OF tree_calls.more[OF tree_calls.none tree_call.create[OF a]] tree_call.create[OF b]])
  have f: "next_id two_containers = 3" "c_parent (cons two_containers c) = None" "c_workspace (cons two_containers c) = None"
    "c_view (cons two_containers (Suc 0)) = None" for c
    by (simp_all add: two_containers_def container_create_def node_init_def handle_new_node_def root_create_def con_zero_def)
  have "attachable two_containers 2" "can_hold two_containers 1 2"
    using descendants_none[OF f(2)] by (simp_all add: attachable_def can_hold_def f)
  then show ?thesis by (rule tree_calls.more[OF calls tree_call.add_child])
qed

lemma tree_calls_keep_tree_witness:
  "tree_ok (container_add_child (with_focus 2 sample_env) 1 2 two_containers)
   \<and> rows_ok (container_add_child (with_focus 2 sample_env) 1 2 two_containers)"
  by (rule tree_calls_keep_tree[OF two_containers])

text \<open>
  C2. container_insert_child takes the child out of the list it was in and puts it at the index into
  the list of its new parent; no other child list or parent changes, the moved subtree has the
  workspace of the new parent, and the tree stays well formed.
\<close>
theorem container_insert_child_correct:
  assumes "tree_ok s" "attachable s c" "can_hold s p c" "t = container_insert_child (with_focus d E) p c i s"
  shows "tree_ok t
    \<and> c_children (cons t q) = (if q = p then insert_at (nat i) c (remove1 c (c_children (cons s p)))
                             else remove1 c (c_children (cons s q)))
    \<and> c_parent (cons t x) = (if x = c then Some p else c_parent (cons s x))
    \<and> (x \<in> insert c (descendants s c) \<longrightarrow> c_workspace (cons t x) = c_workspace (cons t p))"
proof -
  note m = live.insert_child_moves[OF assms(1-3), where d=d and E=E and i=i, folded assms(4)]
  show ?thesis
    using movesD(1)[OF m] live.insert_child_children[OF assms(1-3), of d E i, folded assms(4)]
      reparentedD(2)[OF movesD(2)[OF m]] live.moved_subtree[OF m assms(1)] by blast
qed

lemma container_insert_child_correct_witness:
  "c_children (cons (container_insert_child (with_focus 2 sample_env) 2 3 0 sample) 2) = [3, 7]"
  using container_insert_child_correct[OF sample_inv(1) sample_hold(1,2) refl, of 2 sample_env 0 2]
  by (simp add: sample_fields insert_at_def)



text \<open>
  C4. container_reap_empty leaves no empty container behind: afterwards the container and each of its
  former ancestors has left the tree or has children, and the tree is well formed.
\<close>
theorem container_reap_empty_leaves_none_empty:
  assumes "tree_ok s" "c_view (cons s p) = None" "t = container_reap_empty (with_focus d E) p s"
  shows "tree_ok t
    \<and> (\<forall>q\<in>insert p (ancestors s p). c_parent (cons t q) = None \<and> c_workspace (cons t q) = None
          \<or> c_children (cons t q) \<noteq> [])"
  using live.reap_empty_ok[OF assms(1)] live.reap_empty_spent[OF assms(1,2)] assms(3)
  by (simp add: spent_def unlinked_def)

lemma container_reap_empty_leaves_none_empty_witness:
  "spent (container_reap_empty (with_focus 2 sample_env) 2 (container_detach 7 sample)) 2"
proof -
  have ok: "tree_ok (container_detach 7 sample)" by (rule detach_ok[OF sample_inv(1)])
  have nv: "c_view (cons (container_detach 7 sample) 2) = None"
    by (simp add: detach_fields detach_core_effect[OF sample_inv(1)] sample_fields)
  show ?thesis using container_reap_empty_leaves_none_empty[OF ok nv refl, of 2 sample_env] by (simp add: spent_def unlinked_def)
qed

end
