(* ===== verification/Splits.thy ===== *)
theory Splits
  imports Workspaces_Laws
begin

text \<open>
  Replacing, splitting, flattening, squashing, swapping and maximizing containers
  (sway/tree/container.c) and wrapping, splitting and squashing workspaces (sway/tree/workspace.c).
\<close>

section \<open>Maximizing\<close>

text \<open>A floating container takes the box of its workspace, or its saved box back.\<close>

definition toggle_maximize_floating :: "id \<Rightarrow> sway \<Rightarrow> sway" where
  "toggle_maximize_floating c s =
     (if \<not> c_maximized (cons s c)
      then (let s = upd_con c save_geometry s;
                s = (case c_workspace (cons s c) of None \<Rightarrow> s
                     | Some w \<Rightarrow> upd_con c (\<lambda>x. x\<lparr>c_x := w_x (wss s w), c_y := w_y (wss s w),
                           c_width := of_int (w_width (wss s w)), c_height := of_int (w_height (wss s w))\<rparr>) s) in
            arrange_container c (upd_con c (\<lambda>x. x\<lparr>c_maximized := True\<rparr>) s))
      else arrange_container c (upd_con c (\<lambda>x. (restore_saved x)\<lparr>c_maximized := False\<rparr>) s))"

definition maximize_snapshot :: "sway \<Rightarrow> id list \<Rightarrow> (id \<times> rat \<times> rat \<times> rat) list" where
  "maximize_snapshot s cs =
     map (\<lambda>c. (c, c_width_fraction (cons s c), c_height_fraction (cons s c), c_width (cons s c))) cs"

text \<open>The other columns shrink to their minimum; the result is the width that is left.\<close>

fun pin_columns :: "id \<Rightarrow> id list \<Rightarrow> rat \<Rightarrow> sway \<Rightarrow> rat \<times> sway" where
  "pin_columns col [] width s = (width, s)"
| "pin_columns col (c # cs) width s =
     (if c = col then pin_columns col cs width s
      else (let m = tiled_clamp_width_min s c in pin_columns col cs (width - m) (column_set_width_px c m s)))"

fun pin_windows :: "id \<Rightarrow> rat \<Rightarrow> rat \<Rightarrow> id list \<Rightarrow> rat \<Rightarrow> sway \<Rightarrow> rat \<times> sway" where
  "pin_windows con usable basis [] height s = (height, s)"
| "pin_windows con usable basis (c # cs) height s =
     (if c = con then pin_windows con usable basis cs height s
      else (let low = container_clamp_tiled_height_resize s c 0 usable in
            pin_windows con usable basis cs (height - low)
              (upd_con c (\<lambda>x. x\<lparr>c_height_fraction := low / basis\<rparr>) s)))"

definition maximize_width :: "id \<Rightarrow> id \<Rightarrow> sway \<Rightarrow> sway" where
  "maximize_width w col s =
     (let ws = wss s w in
      if w_width ws - w_gaps_inner ws > 0
      then (case pin_columns col (w_tiling ws)
              (max 0 (of_int (w_width ws - w_gaps_inner ws * (int (length (w_tiling ws)) - 1)))) s of
              (width, s) \<Rightarrow> column_set_width_px col width s)
      else s)"

definition maximize_height :: "id \<Rightarrow> id \<Rightarrow> id \<Rightarrow> sway \<Rightarrow> sway" where
  "maximize_height w col con s =
     (let ws = wss s w; basis = w_height ws - w_gaps_inner ws; cs = c_children (cons s col) in
      if length cs > 1 \<and> basis > 0
      then (let usable = max 0 (c_height (cons s col) - of_int (w_gaps_inner ws) * (of_nat (length cs) - 1)) in
            case pin_windows con usable (of_int basis) cs usable s of
              (height, s) \<Rightarrow> upd_con con (\<lambda>x. x\<lparr>c_height_fraction := height / of_int basis\<rparr>) s)
      else s)"

definition restore_size :: "id \<times> rat \<times> rat \<times> rat \<Rightarrow> sway \<Rightarrow> sway" where
  "restore_size e s =
     (case e of (c, width, height, px) \<Rightarrow>
        (let s = (if c_workspace (cons s c) \<noteq> None then column_set_width_px c px s
                  else upd_con c (\<lambda>x. x\<lparr>c_width_fraction := width\<rparr>) s) in
         upd_con c (\<lambda>x. x\<lparr>c_height_fraction := height\<rparr>) s))"

text \<open>
  A tiled container is maximized by shrinking its column and row; the sizes before are kept in the
  snapshot. The source keeps pointers to the containers, the model their identifiers, so the model
  says what the code does as long as the containers of a snapshot live.
\<close>

definition container_toggle_maximize :: "id \<Rightarrow> sway \<Rightarrow> sway" where
  "container_toggle_maximize c s =
     (if container_is_floating s c then toggle_maximize_floating c s
      else
        (let col = container_toplevel_ancestor s c in
         case c_workspace (cons s col) of None \<Rightarrow> s
         | Some w \<Rightarrow>
             if \<not> c_maximized (cons s c)
             then (let s = upd_con c (\<lambda>x. x\<lparr>c_max_snapshot :=
                         maximize_snapshot s (w_tiling (wss s w) @ c_children (cons s col))\<rparr>) s;
                       s = maximize_height w col c (maximize_width w col s) in
                   arrange_workspace w (upd_con c (\<lambda>x. x\<lparr>c_maximized := True\<rparr>) s))
             else (let s = fold restore_size (c_max_snapshot (cons s c)) s in
                   arrange_workspace w (upd_con c (\<lambda>x. x\<lparr>c_max_snapshot := [], c_maximized := False\<rparr>) s))))"

section \<open>Replacing, splitting and flattening\<close>

definition enter_fullscreen :: "env \<Rightarrow> id \<Rightarrow> fullscreen_mode \<Rightarrow> sway \<Rightarrow> sway" where
  "enter_fullscreen E c mode s =
     (case mode of FULLSCREEN_NONE \<Rightarrow> s
      | FULLSCREEN_WORKSPACE \<Rightarrow> container_fullscreen_workspace E c s
      | FULLSCREEN_GLOBAL \<Rightarrow> container_fullscreen_global E c s)"

text \<open>The replacement takes the place, the fractions and the size of the container.\<close>

definition take_place :: "env \<Rightarrow> id \<Rightarrow> id \<Rightarrow> sway \<Rightarrow> sway" where
  "take_place E c r s =
     (let width = c_width_fraction (cons s c); height = c_height_fraction (cons s c);
          s = container_detach c (container_add_sibling E c r True s) in
      upd_con r (\<lambda>x. x\<lparr>c_width_fraction := width, c_height_fraction := height,
        c_width := c_width (cons s c), c_height := c_height (cons s c)\<rparr>) s)"

definition is_linked :: "sway \<Rightarrow> id \<Rightarrow> bool" where
  "is_linked s c \<longleftrightarrow> c_parent (cons s c) \<noteq> None \<or> c_workspace (cons s c) \<noteq> None"

definition container_replace :: "env \<Rightarrow> id \<Rightarrow> id \<Rightarrow> sway \<Rightarrow> sway" where
  "container_replace E c r s =
     (let fullscreen = c_fullscreen (cons s c); scratch = c_scratchpad (cons s c);
          s = (if fullscreen \<noteq> FULLSCREEN_NONE then container_fullscreen_disable E c s else s);
          w = (if scratch then c_workspace (cons s c) else None);
          s = (if scratch then root_scratchpad_remove_container c (root_scratchpad_show E c s) else s);
          s = (if is_linked s c then take_place E c r s else s);
          s = (if scratch then root_scratchpad_add_container E r w s else s) in
      enter_fullscreen E r fullscreen s)"

text \<open>A singleton of a split layout is not split; its parent takes the layout.\<close>

definition single_split :: "sway \<Rightarrow> id \<Rightarrow> bool" where
  "single_split s c \<longleftrightarrow>
     (case container_get_siblings s c of None \<Rightarrow> False | Some r \<Rightarrow> length (list_of s r) = 1)
     \<and> \<not> container_is_floating s c
     \<and> (container_parent_layout s c = L_HORIZ \<or> container_parent_layout s c = L_VERT)"

definition set_parent_layout :: "id \<Rightarrow> container_layout \<Rightarrow> sway \<Rightarrow> sway" where
  "set_parent_layout c layout s =
     (case c_parent (cons s c) of
        Some p \<Rightarrow> container_update_representation p (upd_con p (\<lambda>x. x\<lparr>c_layout := layout\<rparr>) s)
      | None \<Rightarrow>
          (case c_workspace (cons s c) of None \<Rightarrow> s
           | Some w \<Rightarrow> workspace_update_representation w (upd_ws w (\<lambda>x. x\<lparr>w_layout := layout\<rparr>) s)))"

definition restore_csd_border :: "container \<Rightarrow> container" where
  "restore_csd_border x =
     (case c_view x of None \<Rightarrow> x | Some v \<Rightarrow> if v_using_csd v then x\<lparr>c_border := c_saved_border x\<rparr> else x)"

definition default_seat_index :: "sway \<Rightarrow> nat" where
  "default_seat_index s = nat (find_index_from 0 (\<lambda>t. s_name t = ''seat0'') (seats s))"

definition focus_new_parent :: "env \<Rightarrow> nat \<Rightarrow> id \<Rightarrow> id \<Rightarrow> sway \<Rightarrow> sway" where
  "focus_new_parent E k cont c s =
     (let s = seat_set_raw_focus k (N_CONTAINER cont) s in
      if c_fullscreen (cons s cont) = FULLSCREEN_GLOBAL then e_refocus E k (Some (N_CONTAINER c)) s
      else seat_set_raw_focus k (N_CONTAINER c) s)"

definition container_split :: "env \<Rightarrow> id \<Rightarrow> container_layout \<Rightarrow> sway \<Rightarrow> id \<times> sway" where
  "container_split E c layout s =
     (if is_linked s c \<and> single_split s c then (c, set_parent_layout c layout s)
      else
        (let k = default_seat_index s; set_focus = (seat_get_focus (seat_at s k) = Some (N_CONTAINER c));
             s = (if container_is_floating s c then upd_con c restore_csd_border s else s);
             (cont, s) = container_create None s;
             x = cons s c;
             s = upd_con cont (\<lambda>y. y\<lparr>c_width := c_width x, c_height := c_height x,
                   c_width_fraction := c_width_fraction x, c_height_fraction := c_height_fraction x,
                   c_x := c_x x, c_y := c_y x, c_layout := layout\<rparr>) s;
             s = container_add_child E cont c (container_replace E c cont s) in
         (cont, if set_focus then focus_new_parent E k cont c s else s)))"

text \<open>The loop goes up; the fuel exceeds the number of containers.\<close>

fun flatten_loop :: "nat \<Rightarrow> env \<Rightarrow> id option \<Rightarrow> sway \<Rightarrow> id option \<times> sway" where
  "flatten_loop 0 E c s = (c, s)"
| "flatten_loop (Suc n) E c s =
     (case c of None \<Rightarrow> (None, s)
      | Some x \<Rightarrow>
          (case c_children (cons s x) of
             [child] \<Rightarrow>
               (let parent = c_parent (cons s x) in
                flatten_loop n E parent (container_begin_destroy E x (container_replace E x child s)))
           | _ \<Rightarrow> (Some x, s)))"

definition container_flatten :: "env \<Rightarrow> id \<Rightarrow> sway \<Rightarrow> id option \<times> sway" where
  "container_flatten E c s =
     (if c_view (cons s c) \<noteq> None then (None, s) else flatten_loop (next_id s + 1) E (Some c) s)"

section \<open>Squashing\<close>

fun is_parallel :: "container_layout \<Rightarrow> container_layout \<Rightarrow> bool" where
  "is_parallel L_TABBED second = (second = L_TABBED \<or> second = L_HORIZ)"
| "is_parallel L_HORIZ second = (second = L_TABBED \<or> second = L_HORIZ)"
| "is_parallel L_STACKED second = (second = L_STACKED \<or> second = L_VERT)"
| "is_parallel L_VERT second = (second = L_STACKED \<or> second = L_VERT)"
| "is_parallel L_NONE second = False"

definition container_is_squashable :: "sway \<Rightarrow> id \<Rightarrow> id \<Rightarrow> bool" where
  "container_is_squashable s con child \<longleftrightarrow>
     (let l = c_layout (cons s con); k = c_layout (cons s child) in
      (l = L_HORIZ \<or> l = L_VERT) \<and> (k = L_HORIZ \<or> k = L_VERT)
      \<and> \<not> is_parallel l k \<and> is_parallel (container_parent_layout s con) k)"

text \<open>
  The loop over a list of containers goes on after those that squashing an element put in its place.
  Each round reads one element that was in the list at the start, whose length is the fuel.
\<close>

fun squash_list :: "nat \<Rightarrow> (id \<Rightarrow> sway \<Rightarrow> int \<times> sway) \<Rightarrow> list_ref \<Rightarrow> int \<Rightarrow> sway \<Rightarrow> sway" where
  "squash_list 0 sq r i s = s"
| "squash_list (Suc n) sq r i s =
     (if i < int (length (list_of s r))
      then (case sq (list_of s r ! nat i) s of (change, s) \<Rightarrow> squash_list n sq r (i + change + 1) s)
      else s)"

text \<open>The children of the redundant child go up, from the last to the first, to the same index.\<close>

fun lift_children :: "nat \<Rightarrow> env \<Rightarrow> id \<Rightarrow> id \<Rightarrow> int \<Rightarrow> sway \<Rightarrow> sway" where
  "lift_children 0 E con child idx s = s"
| "lift_children (Suc n) E con child idx s =
     (case c_children (cons s child) of
        [] \<Rightarrow> s
      | current # _ \<Rightarrow>
          (let s = container_detach current s;
               s = (case c_parent (cons s con) of
                      Some p \<Rightarrow> container_insert_child E p current idx s
                    | None \<Rightarrow> (case c_workspace (cons s con) of None \<Rightarrow> s
                                | Some w \<Rightarrow> workspace_insert_tiling_direct E w current idx s)) in
           lift_children n E con child idx s))"

fun container_squash_fuel :: "nat \<Rightarrow> env \<Rightarrow> id \<Rightarrow> sway \<Rightarrow> int \<times> sway" where
  "container_squash_fuel 0 E con s = (0, s)"
| "container_squash_fuel (Suc n) E con s =
     (if c_view (cons s con) \<noteq> None then (0, s)
      else
        (let deeper = (\<lambda>s. squash_list (length (c_children (cons s con))) (container_squash_fuel n E)
                         (Children_of con) 0 s) in
         case c_children (cons s con) of
           [child] \<Rightarrow>
             (if container_is_squashable s con child
              then (let lifted = length (c_children (cons s child));
                        idx = (case container_sibling_index s con of None \<Rightarrow> -1 | Some i \<Rightarrow> i) in
                    (int lifted - 1, container_reap_empty E child (lift_children lifted E con child idx s)))
              else (0, deeper s))
         | _ \<Rightarrow> (0, deeper s)))"

definition container_squash :: "env \<Rightarrow> id \<Rightarrow> sway \<Rightarrow> int \<times> sway" where
  "container_squash E con s = container_squash_fuel (next_id s) E con s"

definition workspace_squash :: "env \<Rightarrow> id \<Rightarrow> sway \<Rightarrow> sway" where
  "workspace_squash E w s =
     squash_list (length (w_tiling (wss s w))) (container_squash E) (Tiling_of w) 0 s"

section \<open>Wrapping a workspace\<close>

fun wrap_loop :: "nat \<Rightarrow> env \<Rightarrow> id \<Rightarrow> id \<Rightarrow> sway \<Rightarrow> sway" where
  "wrap_loop 0 E w middle s = s"
| "wrap_loop (Suc n) E w middle s =
     (case w_tiling (wss s w) of [] \<Rightarrow> s
      | child # _ \<Rightarrow> wrap_loop n E w middle (container_add_child E middle child (container_detach child s)))"

definition workspace_wrap_children :: "env \<Rightarrow> id \<Rightarrow> sway \<Rightarrow> id \<times> sway" where
  "workspace_wrap_children E w s =
     (let fs = w_fullscreen (wss s w);
          (middle, s) = container_create None s;
          s = upd_con middle (\<lambda>x. x\<lparr>c_layout := w_layout (wss s w)\<rparr>) s;
          s = wrap_loop (length (w_tiling (wss s w))) E w middle s;
          s = workspace_attach_tiling E w middle s in
      (middle, upd_ws w (\<lambda>x. x\<lparr>w_fullscreen := fs\<rparr>) s))"

fun unwrap_loop :: "nat \<Rightarrow> env \<Rightarrow> id \<Rightarrow> id \<Rightarrow> sway \<Rightarrow> sway" where
  "unwrap_loop 0 E w holder s = s"
| "unwrap_loop (Suc n) E w holder s =
     (case c_children (cons s holder) of [] \<Rightarrow> s
      | child # _ \<Rightarrow>
          (let s = container_detach child s in
           unwrap_loop n E w holder
             (workspace_insert_tiling_direct E w child (int (length (w_tiling (wss s w)))) s)))"

definition workspace_unwrap_children :: "env \<Rightarrow> id \<Rightarrow> id \<Rightarrow> sway \<Rightarrow> sway" where
  "workspace_unwrap_children E w holder s =
     (if \<not> workspace_is_empty s w then s
      else unwrap_loop (length (c_children (cons s holder))) E w holder
             (upd_ws w (\<lambda>x. x\<lparr>w_layout := c_layout (cons s holder)\<rparr>) s))"

definition workspace_split :: "env \<Rightarrow> id \<Rightarrow> container_layout \<Rightarrow> sway \<Rightarrow> id option \<times> sway" where
  "workspace_split E w layout s =
     (if w_tiling (wss s w) = []
      then (None, upd_ws w (\<lambda>x. x\<lparr>w_prev_split_layout := w_layout x, w_layout := layout\<rparr>) s)
      else
        (let old = w_layout (wss s w);
             (middle, s) = workspace_wrap_children E w s;
             s = upd_ws w (\<lambda>x. x\<lparr>w_layout := layout\<rparr>) s;
             s = upd_con middle (\<lambda>x. x\<lparr>c_layout := old\<rparr>) s;
             s = each_seat (\<lambda>k s. if seat_get_focus (seat_at s k) = Some (N_WORKSPACE w)
                                  then e_refocus E k (Some (N_CONTAINER middle)) s else s) s in
         (Some middle, s)))"

section \<open>Swapping\<close>

definition swap_insert :: "env \<Rightarrow> id \<Rightarrow> id option \<Rightarrow> bool \<Rightarrow> int \<Rightarrow> sway \<Rightarrow> sway" where
  "swap_insert E c parent is_float i s =
     (case parent of
        Some p \<Rightarrow> container_insert_child E p c i s
      | None \<Rightarrow>
          (case c_workspace (cons s c) of None \<Rightarrow> s
           | Some w \<Rightarrow> if is_float then workspace_add_floating E w c s
                       else snd (workspace_insert_tiling E w c i s)))"

definition would_nest_container :: "sway \<Rightarrow> id \<Rightarrow> id option \<Rightarrow> bool" where
  "would_nest_container s c parent \<longleftrightarrow> parent \<noteq> None \<and> c_view (cons s c) = None"

definition take_geometry :: "container \<Rightarrow> container \<Rightarrow> container" where
  "take_geometry y x = x\<lparr>c_x := c_x y, c_y := c_y y, c_width := c_width y, c_height := c_height y,
     c_width_fraction := c_width_fraction y, c_height_fraction := c_height_fraction y\<rparr>"

definition sibling_index :: "sway \<Rightarrow> id \<Rightarrow> int" where
  "sibling_index s c = (case container_sibling_index s c of None \<Rightarrow> -1 | Some i \<Rightarrow> i)"

definition swap_places :: "env \<Rightarrow> id \<Rightarrow> id \<Rightarrow> sway \<Rightarrow> sway" where
  "swap_places E c1 c2 s =
     (let x1 = cons s c1; x2 = cons s c2; floating1 = container_is_floating s c1;
          s = upd_con c2 (take_geometry x1) (upd_con c1 (take_geometry x2) s);
          i1 = sibling_index s c1;
          s = swap_insert E c1 (c_parent x2) (container_is_floating s c2) (sibling_index s c2) s in
      swap_insert E c2 (c_parent x1) floating1 i1 s)"

definition focus_container :: "env \<Rightarrow> nat \<Rightarrow> id option \<Rightarrow> sway \<Rightarrow> sway" where
  "focus_container E k c s = e_refocus E k (map_option N_CONTAINER c) s"

definition shows_one_child :: "container_layout \<Rightarrow> bool" where
  "shows_one_child l \<longleftrightarrow> l = L_TABBED \<or> l = L_STACKED"

definition focus_if_visible :: "env \<Rightarrow> nat \<Rightarrow> id option \<Rightarrow> id \<Rightarrow> sway \<Rightarrow> sway" where
  "focus_if_visible E k w c s =
     (case w of None \<Rightarrow> s
      | Some w \<Rightarrow> if workspace_is_visible E s w then focus_container E k (Some c) s else s)"

definition swap_focus :: "env \<Rightarrow> nat \<Rightarrow> id \<Rightarrow> id \<Rightarrow> id option \<Rightarrow> sway \<Rightarrow> sway" where
  "swap_focus E k c1 c2 focus s =
     (let w1 = c_workspace (cons s c1); w2 = c_workspace (cons s c2);
          s = (if focus = Some c1 \<or> focus = Some c2
               then
                 (if focus = Some c1 \<and> shows_one_child (container_parent_layout s c2)
                  then focus_container E k (Some (if w1 \<noteq> w2 then c2 else c1)) (focus_if_visible E k w2 c2 s)
                  else if focus = Some c2 \<and> shows_one_child (container_parent_layout s c1)
                  then focus_container E k (Some (if w1 \<noteq> w2 then c1 else c2)) (focus_if_visible E k w1 c1 s)
                  else if w1 \<noteq> w2
                  then focus_container E k (Some (if focus = Some c1 then c2 else c1)) s
                  else focus_container E k focus s)
               else focus_container E k focus s) in
      case fullscreen_global s of None \<Rightarrow> s
      | Some f \<Rightarrow> e_refocus E k (seat_get_focus_inactive s (seat_at s k) (N_CONTAINER f)) s)"

definition leave_scratchpad :: "env \<Rightarrow> bool \<Rightarrow> bool \<Rightarrow> id \<Rightarrow> sway \<Rightarrow> sway" where
  "leave_scratchpad E scratch hidden c s =
     (if scratch then root_scratchpad_remove_container c (if hidden then root_scratchpad_show E c s else s)
      else s)"

definition enter_scratchpad :: "env \<Rightarrow> bool \<Rightarrow> bool \<Rightarrow> id \<Rightarrow> sway \<Rightarrow> sway" where
  "enter_scratchpad E scratch hidden c s =
     (if scratch
      then (let s = root_scratchpad_add_container E c None s in
            if hidden then s else root_scratchpad_show E c s)
      else s)"

definition refocus_workspace :: "env \<Rightarrow> nat \<Rightarrow> id \<Rightarrow> sway \<Rightarrow> sway" where
  "refocus_workspace E k w s =
     (if workspace_is_visible E s w then s
      else e_refocus E k (seat_get_focus_inactive s (seat_at s k) (N_WORKSPACE w)) s)"

definition active_beside :: "env \<Rightarrow> sway \<Rightarrow> id \<Rightarrow> id option" where
  "active_beside E s c =
     (case c_workspace (cons s c) of None \<Rightarrow> None
      | Some w \<Rightarrow> (case w_output (wss s w) of None \<Rightarrow> None | Some p \<Rightarrow> output_get_active_workspace E s p))"

definition exchange_containers :: "env \<Rightarrow> nat \<Rightarrow> id \<Rightarrow> id \<Rightarrow> id \<Rightarrow> id \<Rightarrow> sway \<Rightarrow> sway" where
  "exchange_containers E k c1 c2 vis1 vis2 s =
     (let focus = seat_get_focused_container (seat_at s k);
          prev_name = s_prev_workspace_name (seat_at s k);
          s = swap_places E c1 c2 s;
          s = refocus_workspace E k vis2 (refocus_workspace E k vis1 s);
          s = swap_focus E k c1 c2 focus s in
      if prev_name = None then s else upd_seat k (\<lambda>t. t\<lparr>s_prev_workspace_name := prev_name\<rparr>) s)"

text \<open>
  Both containers must be in a workspace on an output that shows one; otherwise the source ends here
  on an assertion or a NULL pointer.
\<close>

definition container_swap :: "env \<Rightarrow> id \<Rightarrow> id \<Rightarrow> sway \<Rightarrow> sway" where
  "container_swap E c1 c2 s =
     (if container_has_ancestor s c1 c2 \<or> container_has_ancestor s c2 c1
       \<or> would_nest_container s c1 (c_parent (cons s c2)) \<or> would_nest_container s c2 (c_parent (cons s c1))
      then s
      else
        (let scratch1 = c_scratchpad (cons s c1); hidden1 = container_is_scratchpad_hidden s c1;
             scratch2 = c_scratchpad (cons s c2); hidden2 = container_is_scratchpad_hidden s c2;
             s = leave_scratchpad E scratch2 hidden2 c2 (leave_scratchpad E scratch1 hidden1 c1 s);
             fs1 = c_fullscreen (cons s c1); s = disable_fullscreen E c1 s;
             fs2 = c_fullscreen (cons s c2); s = disable_fullscreen E c2 s;
             k = input_manager_current_seat E s in
         case (active_beside E s c1, active_beside E s c2) of
           (Some vis1, Some vis2) \<Rightarrow>
             (let s = exchange_containers E k c1 c2 vis1 vis2 s;
                  s = enter_scratchpad E scratch2 hidden2 c1 (enter_scratchpad E scratch1 hidden1 c2 s);
                  s = (if fs1 \<noteq> FULLSCREEN_NONE then container_set_fullscreen E c2 fs1 s else s) in
              if fs2 \<noteq> FULLSCREEN_NONE then container_set_fullscreen E c1 fs2 s else s)
         | _ \<Rightarrow> s))"

end
