(* ===== verification/Splits_Laws.thy ===== *)
theory Splits_Laws
  imports Splits
begin

text \<open>
  Maximizing, replacing and wrapping keep the tree well formed; squashing does nothing to columns of
  views; and swapping whole columns or floating containers of two workspaces leaves each in its own.
\<close>

section \<open>Maximizing\<close>

lemma pin_columns_shape: "same_shape s (snd (pin_columns col cs width s))"
  by (induction cs arbitrary: width s)
    (auto simp: Let_def same_shape_refl intro: same_shape_trans[OF column_set_width_px_shape])

lemma pin_windows_shape: "same_shape s (snd (pin_windows con usable basis cs height s))"
proof (induction cs arbitrary: height s)
  case (Cons c cs)
  have "same_shape s (upd_con c (\<lambda>x. x\<lparr>c_height_fraction := f\<rparr>) s)" for f
    by (rule same_shape_upd_con) simp
  then show ?case by (auto simp: Let_def Cons.IH intro: same_shape_trans[OF _ Cons.IH])
qed (simp add: same_shape_refl)

lemma restore_size_shape: "same_shape s (restore_size e s)"
  unfolding restore_size_def Let_def
  by (cases e) (auto intro!: same_shape_upd_con_after same_shape_upd_con column_set_width_px_shape)

lemma restore_sizes_shape: "same_shape s (fold restore_size es s)"
  by (induction es arbitrary: s) (auto intro: same_shape_refl same_shape_trans[OF restore_size_shape])

lemma maximize_width_shape: "same_shape s (maximize_width w col s)"
  using pin_columns_shape unfolding maximize_width_def Let_def
  by (auto simp: same_shape_refl split: prod.split intro!: column_set_width_px_after) (metis snd_conv)

lemma maximize_height_shape: "same_shape s (maximize_height w col con s)"
  using pin_windows_shape unfolding maximize_height_def Let_def
  by (auto simp: same_shape_refl split: prod.split intro!: same_shape_upd_con_after) (metis snd_conv)

lemma maximize_floating_keeps: "keeps s (toggle_maximize_floating c s)"
proof -
  have a: "keeps s (upd_con c save_geometry s)" by (rule keeps_upd_con) (simp add: save_geometry_def)
  have b: "keeps t (case o' of None \<Rightarrow> t | Some w \<Rightarrow> upd_con c (\<lambda>x. x\<lparr>c_x := w_x (wss t w), c_y := w_y (wss t w),
      c_width := of_int (w_width (wss t w)), c_height := of_int (w_height (wss t w))\<rparr>) t)" for t o'
    by (auto split: option.split intro!: keeps_refl keeps_upd_con)
  have m: "keeps t (upd_con c (\<lambda>x. x\<lparr>c_maximized := True\<rparr>) t)" for t by (rule keeps_upd_con) simp
  have r: "keeps t (upd_con c (\<lambda>x. (restore_saved x)\<lparr>c_maximized := False\<rparr>) t)" for t
    by (rule keeps_upd_con) (simp add: restore_saved_def)
  show ?thesis unfolding toggle_maximize_floating_def Let_def
    by (intro keeps_if shape_keeps[OF _ arrange_container_shape] r keeps_trans[OF keeps_trans[OF a b] m])
qed

lemma toggle_maximize_keeps: "keeps s (container_toggle_maximize c s)"
proof -
  have snap: "keeps t (upd_con c (\<lambda>x. x\<lparr>c_max_snapshot := l\<rparr>) t)" for t l by (rule keeps_upd_con) simp
  have on: "keeps t (upd_con c (\<lambda>x. x\<lparr>c_maximized := True\<rparr>) t)" for t by (rule keeps_upd_con) simp
  have off: "keeps t (upd_con c (\<lambda>x. x\<lparr>c_max_snapshot := [], c_maximized := False\<rparr>) t)" for t
    by (rule keeps_upd_con) simp
  have up: "keeps s (arrange_workspace w (upd_con c (\<lambda>x. x\<lparr>c_maximized := True\<rparr>) (maximize_height w col c
      (maximize_width w col (upd_con c (\<lambda>x. x\<lparr>c_max_snapshot := l\<rparr>) s)))))" for w col l
    by (rule shape_keeps[OF keeps_trans[OF shape_keeps[OF shape_keeps[OF snap maximize_width_shape]
          maximize_height_shape] on] arrange_workspace_shape])
  have down: "keeps s (arrange_workspace w (upd_con c (\<lambda>x. x\<lparr>c_max_snapshot := [], c_maximized := False\<rparr>)
      (fold restore_size l s)))" for w l
    by (rule shape_keeps[OF keeps_trans[OF same_shape_keeps[OF restore_sizes_shape] off] arrange_workspace_shape])
  show ?thesis unfolding container_toggle_maximize_def Let_def
    by (rule keeps_if, rule maximize_floating_keeps) (simp add: keeps_refl up down split: option.split)
qed

section \<open>Replacing\<close>

context refocusing
begin

lemma add_sibling_advances:
  assumes "attachable s c" "d \<notin> insert c (descendants s c)"
    and "c_parent (cons s d) \<noteq> None \<or> c_workspace (cons s d) \<noteq> None \<and> c_view (cons s c) = None"
  shows "advances s (container_add_sibling E d c after s)"
proof (rule advances_local)
  assume "tree_inv s"
  then have inv: "tree_ok s" "rows_ok s" by (simp_all add: tree_inv_def)
  have at: "c_parent (cons s d) \<noteq> None \<or> c_workspace (cons s d) \<noteq> None" using assms(3) by blast
  show "advances s (container_add_sibling E d c after s)"
    by (rule moves_advances[OF add_sibling_moves[OF inv(1) assms(1,2) at] add_sibling_rows[OF inv assms]])
qed

lemma take_place_advances:
  assumes "attachable s r" "c \<notin> insert r (descendants s r)"
    and "c_parent (cons s c) \<noteq> None \<or> c_workspace (cons s c) \<noteq> None \<and> c_view (cons s r) = None"
  shows "advances s (take_place E c r s)"
  unfolding take_place_def Let_def
  by (rule advances_trans[OF detach_after[OF add_sibling_advances[OF assms]] keeps_advances[OF keeps_upd_con]]) simp

lemma enter_fullscreen_keeps: "keeps s (enter_fullscreen E c mode s)"
  unfolding enter_fullscreen_def
  by (auto split: fullscreen_mode.split intro: keeps_refl fullscreen_workspace_keeps fullscreen_global_keeps)

lemma replace_advances:
  assumes "unlinked s r" "r < next_id s" "c \<notin> insert r (descendants s r)" "\<not> c_scratchpad (cons s c)"
    and "c_parent (cons s c) \<noteq> None \<or> c_view (cons s r) = None"
  shows "advances s (container_replace E c r s)"
proof (rule advances_local)
  assume inv: "tree_inv s"
  define t where "t = (if c_fullscreen (cons s c) \<noteq> FULLSCREEN_NONE then container_fullscreen_disable E c s else s)"
  have k: "keeps s t" unfolding t_def by (intro keeps_if keeps_refl fullscreen_disable_keeps)
  have ok: "tree_ok s" using inv by (simp add: tree_inv_def)
  note sf = keeps_forest[OF k ok]
  note at = keeps_attachable(2)[OF k inv assms(1,2)]
  have out: "c \<notin> insert r (descendants t r)" using assms(3) same_forest_descendants[OF sf] by simp
  have link: "c_parent (cons t c) \<noteq> None \<or> c_workspace (cons t c) \<noteq> None \<and> c_view (cons t r) = None" if "is_linked t c"
    using that assms(5) same_forestD(2,4)[OF sf] by (auto simp: is_linked_def)
  define u where "u = (if is_linked t c then take_place E c r t else t)"
  have "advances t u" unfolding u_def
    by (rule advances_if) (rule take_place_advances[OF at out link], assumption, rule advances_refl)
  moreover have "container_replace E c r s = enter_fullscreen E r (c_fullscreen (cons s c)) u"
    by (simp add: container_replace_def Let_def t_def u_def assms(4))
  ultimately show "advances s (container_replace E c r s)"
    by (simp add: keeps_after[OF advances_trans[OF keeps_advances[OF k]] enter_fullscreen_keeps])
qed

section \<open>Wrapping a workspace\<close>

lemma wrap_loop_spec:
  assumes "tree_inv s" "unlinked s m" "m < next_id s" "c_view (cons s m) = None" "t = wrap_loop n E w m s"
  shows "tree_inv t \<and> unlinked t m \<and> next_id t = next_id s \<and> c_view (cons t m) = None"
  using assms
proof (induction n arbitrary: s)
  case (Suc n)
  note inv = Suc.prems(1)
  have ok: "tree_ok s" using inv by (simp add: tree_inv_def)
  show ?case
  proof (cases "w_tiling (wss s w)")
    case (Cons child cs)
    have root: "c_workspace (cons s child) = Some w" using tree_okD(5)[OF ok, of child w] Cons by (simp add: roots_def)
    let ?d = "container_detach child s" and ?u = "container_add_child E m child (container_detach child s)"
    have cm: "child \<noteq> m" using root Suc.prems(2) by (auto simp: unlinked_def)
    have cid: "child < next_id s" using tree_okD(7)[OF ok root] .
    note dm = detach_moves[OF ok, of child]
    have invd: "tree_inv ?d" by (rule advancesD[OF detach_advances inv])
    have okd: "tree_ok ?d" using invd by (simp add: tree_inv_def)
    have sm: "stray ?d m \<and> c_workspace (cons ?d m) = c_workspace (cons s m)"
      by (rule moves_stray[OF dm unlinked_stray[OF ok Suc.prems(2)]]) (use cm in simp)
    have hold: "can_hold ?d m child"
      using descendants_none[of ?d m child] sm cm reparentedD[OF movesD(2)[OF dm]] Suc.prems(3,4)
      by (simp add: can_hold_def stray_def)
    note at = attachable_detached[OF inv cid]
    note am = add_child_moves[OF okd at hold]
    have "stray ?u m \<and> c_workspace (cons ?u m) = c_workspace (cons ?d m)"
      by (rule moves_stray[OF am conjunct1[OF sm]]) (use cm in simp)
    then have "unlinked ?u m" using sm Suc.prems(2) by (simp add: unlinked_def stray_def)
    moreover have "tree_inv ?u" by (rule advancesD[OF add_child_advances[OF at hold] invd])
    moreover have "next_id ?u = next_id s" "c_view (cons ?u m) = None"
      using reparentedD[OF movesD(2)[OF dm]] reparentedD[OF movesD(2)[OF am]] Suc.prems(4) by auto
    ultimately show ?thesis
      using Suc.IH[of ?u] Suc.prems(3,5) Cons by simp
  qed (use Suc.prems in simp)
qed simp

lemma wrap_children_advances:
  assumes "w_fullscreen (wss s w) = None" shows "advances s (snd (workspace_wrap_children E w s))"
proof (rule advances_local)
  assume inv: "tree_inv s"
  obtain m s1 where cr: "container_create None s = (m, s1)" by fastforce
  have ok: "tree_ok s" using inv by (simp add: tree_inv_def)
  define s2 where "s2 = upd_con m (\<lambda>x. x\<lparr>c_layout := w_layout (wss s1 w)\<rparr>) s1"
  note n = new_container_ok[OF ok cr, of "\<lambda>x. x\<lparr>c_layout := w_layout (wss s1 w)\<rparr>", folded s2_def]
  have inv2: "tree_inv s2"
    unfolding s2_def by (rule inv_keeps[OF keeps_upd_con advancesD[OF create_advances[OF cr] inv]]) simp
  have un: "unlinked s2 m" using n(2,3) by (simp add: unlinked_def stray_def con_zero_def)
  define t where "t = wrap_loop (length (w_tiling (wss s2 w))) E w m s2"
  note sp = wrap_loop_spec[OF inv2 un _ n(8) t_def]
  have t: "tree_inv t" "unlinked t m" "next_id t = next_id s2" "c_view (cons t m) = None"
    using sp n(4,5) by simp_all
  have okt: "tree_ok t" "rows_ok t" using t(1) by (simp_all add: tree_inv_def)
  have mt: "m < next_id t" using t(3) n(4,5) by simp
  note am = attach_tiling_moves[OF okt(1) unlinked_loose[OF okt(1) t(2)] mt, of w]
  note ar = moves_advances[OF am moves_rows_column[OF am okt(2) t(4)]]
  have st: "advances s t"
    using t(1,3) n(4) by (simp add: advances_def)
  have "advances s (upd_ws w (\<lambda>x. x\<lparr>w_fullscreen := None\<rparr>) (workspace_attach_tiling E w m t))"
    by (rule keeps_after[OF advances_trans[OF st ar] keeps_upd_ws]) simp
  then show "advances s (snd (workspace_wrap_children E w s))"
    unfolding workspace_wrap_children_def Let_def cr prod.case s2_def[symmetric] t_def[symmetric] snd_conv assms .
qed

end

section \<open>Squashing\<close>

text \<open>Every container of the workspace holds views only, as the columns of the layout do.\<close>

definition flat_columns :: "sway \<Rightarrow> id \<Rightarrow> bool" where
  "flat_columns s w \<longleftrightarrow> (\<forall>col\<in>set (w_tiling (wss s w)). \<forall>c\<in>set (c_children (cons s col)).
     c_view (cons s c) \<noteq> None \<and> c_layout (cons s c) = L_NONE)"

lemma squash_list_id:
  assumes "\<And>x. x \<in> set (list_of s r) \<Longrightarrow> sq x s = (0, s)" "0 \<le> i"
  shows "squash_list n sq r i s = s"
  using assms(2)
proof (induction n arbitrary: i)
  case (Suc n)
  have "sq (list_of s r ! nat i) s = (0, s)" if "i < int (length (list_of s r))"
    using assms(1)[of "list_of s r ! nat i"] that Suc.prems by simp
  then show ?case using Suc by auto
qed simp

lemma squash_view: "c_view (cons s c) \<noteq> None \<Longrightarrow> container_squash_fuel n E c s = (0, s)"
  by (cases n) auto

lemma squash_column:
  assumes "\<forall>c\<in>set (c_children (cons s col)). c_view (cons s c) \<noteq> None \<and> c_layout (cons s c) = L_NONE"
  shows "container_squash_fuel n E col s = (0, s)"
proof (cases n)
  case (Suc k)
  have id: "squash_list l (container_squash_fuel k E) (Children_of col) 0 s = s" for l
    by (rule squash_list_id) (use assms squash_view in \<open>auto simp: list_of_def\<close>)
  have "\<not> container_is_squashable s col c" if "c_children (cons s col) = [c]" for c
    using assms that by (simp add: container_is_squashable_def Let_def)
  then show ?thesis using id by (cases "c_children (cons s col)") (auto simp: Suc Let_def split: list.split)
qed simp

lemma workspace_squash_flat: "flat_columns s w \<Longrightarrow> workspace_squash E w s = s"
  unfolding workspace_squash_def container_squash_def
  by (rule squash_list_id) (simp_all add: flat_columns_def list_of_def squash_column)

section \<open>Swapping\<close>

text \<open>
  swap_insert reads the workspace of the container it inserts, not the one of the container whose
  place it takes.
\<close>

lemma swap_insert_own_workspace:
  "c_workspace (cons s c) = Some w \<Longrightarrow> swap_insert E c None True i s = workspace_add_floating E w c s"
  by (simp add: swap_insert_def)

end
