(* ===== verification/Criteria.thy ===== *)
theory Criteria
  imports Workspaces CStr
begin

text \<open>
  Criteria (sway/criteria.c): parsing the text in brackets, comparing criteria and choosing the
  containers they match. The regular expressions are those of libpcre2: its functions are the
  components of the matcher, as is what the X server and the clock say of a window.
\<close>

record matcher =
  m_compile_error :: "string \<Rightarrow> string option"
  m_match :: "string \<Rightarrow> string \<Rightarrow> bool"
  m_window_type :: "id \<Rightarrow> window_type \<Rightarrow> bool"
  m_urgent_since :: "id \<Rightarrow> int \<times> int"

section \<open>Empty and equal criteria\<close>

definition criteria_zero :: criteria where
  "criteria_zero = \<lparr>cr_type = None, cr_raw = [], cr_cmdlist = None, cr_target = None, cr_title = None,
     cr_shell = None, cr_app_id = None, cr_con_mark = None, cr_con_id = 0, cr_class = None, cr_id = 0,
     cr_instance = None, cr_window_role = None, cr_window_type = None, cr_all = False, cr_floating = False,
     cr_tiling = False, cr_urgent = None, cr_workspace = None, cr_pid = 0, cr_sandbox_engine = None,
     cr_sandbox_app_id = None, cr_sandbox_instance_id = None, cr_tag = None\<rparr>"

definition criteria_is_empty :: "criteria \<Rightarrow> bool" where
  "criteria_is_empty c \<longleftrightarrow>
     cr_title c = None \<and> cr_shell c = None \<and> \<not> cr_all c \<and> cr_app_id c = None \<and> cr_con_mark c = None
     \<and> cr_con_id c = 0 \<and> cr_class c = None \<and> cr_id c = 0 \<and> cr_instance c = None \<and> cr_window_role c = None
     \<and> cr_window_type c = None \<and> \<not> cr_floating c \<and> \<not> cr_tiling c \<and> cr_urgent c = None
     \<and> cr_workspace c = None \<and> cr_pid c = 0 \<and> cr_sandbox_engine c = None \<and> cr_sandbox_app_id c = None
     \<and> cr_sandbox_instance_id c = None \<and> cr_tag c = None"

text \<open>Only the two types that the configuration checks for repetitions are compared.\<close>

definition criteria_is_equal :: "criteria \<Rightarrow> criteria \<Rightarrow> bool" where
  "criteria_is_equal l r \<longleftrightarrow>
     cr_type l = cr_type r
     \<and> (if cr_type l = Some CT_NO_FOCUS then cr_raw l = cr_raw r
        else cr_type l = Some CT_COMMAND \<and> cr_raw l = cr_raw r \<and> cr_cmdlist l = cr_cmdlist r)"

definition criteria_already_exists :: "criteria \<Rightarrow> sway \<Rightarrow> bool" where
  "criteria_already_exists c s \<longleftrightarrow>
     (cr_type c = Some CT_NO_FOCUS \<or> cr_type c = Some CT_COMMAND)
     \<and> list_ex (criteria_is_equal c) (op_criteria (cfg_opts (cfg s)))"

section \<open>Parsing\<close>

datatype criteria_token = T_ALL | T_APP_ID | T_CON_ID | T_CON_MARK | T_FLOATING | T_CLASS | T_ID | T_INSTANCE
  | T_WINDOW_ROLE | T_WINDOW_TYPE | T_SHELL | T_TILING | T_TITLE | T_URGENT | T_WORKSPACE | T_PID
  | T_SANDBOX_ENGINE | T_SANDBOX_APP_ID | T_SANDBOX_INSTANCE_ID | T_TAG

definition token_names :: "(string \<times> criteria_token) list" where
  "token_names = [(''all'', T_ALL), (''app_id'', T_APP_ID), (''con_id'', T_CON_ID), (''con_mark'', T_CON_MARK),
     (''class'', T_CLASS), (''id'', T_ID), (''instance'', T_INSTANCE), (''window_role'', T_WINDOW_ROLE),
     (''window_type'', T_WINDOW_TYPE), (''shell'', T_SHELL), (''title'', T_TITLE), (''urgent'', T_URGENT),
     (''workspace'', T_WORKSPACE), (''tiling'', T_TILING), (''floating'', T_FLOATING), (''pid'', T_PID),
     (''sandbox_engine'', T_SANDBOX_ENGINE), (''sandbox_app_id'', T_SANDBOX_APP_ID),
     (''sandbox_instance_id'', T_SANDBOX_INSTANCE_ID), (''tag'', T_TAG)]"

definition token_from_name :: "string \<Rightarrow> criteria_token option" where
  "token_from_name name = map_of token_names name"

definition window_type_names :: "(string \<times> window_type) list" where
  "window_type_names = [(''normal'', TYPE_NORMAL), (''dialog'', TYPE_DIALOG), (''utility'', TYPE_UTILITY),
     (''toolbar'', TYPE_TOOLBAR), (''splash'', TYPE_SPLASH), (''menu'', TYPE_MENU),
     (''dropdown_menu'', TYPE_DROPDOWN_MENU), (''popup_menu'', TYPE_POPUP_MENU), (''tooltip'', TYPE_TOOLTIP),
     (''notification'', TYPE_NOTIFICATION)]"

definition parse_window_type :: "string \<Rightarrow> window_type option" where
  "parse_window_type type = map_option snd (List.find (\<lambda>(n, t). str_caseeq type n) window_type_names)"

text \<open>
  A pattern that does not compile sets the error, but stays in the criteria, which are then dropped.
\<close>

definition pattern_create :: "matcher \<Rightarrow> string \<Rightarrow> pattern \<times> string option" where
  "pattern_create M value =
     (if value = ''__focused__'' then (PATTERN_FOCUSED, None)
      else (PATTERN_PCRE2 value,
            map_option (\<lambda>e. ''Regex compilation for '' @ [SQ] @ value @ [SQ] @ '' failed: '' @ e)
              (m_compile_error M value)))"

text \<open>
  The value of a token, the criteria with it and the error. The number of con_id, id and pid is read
  by strtoul and cut to 32 bits; focus is the focused container of the current seat.
\<close>

definition set_pattern :: "matcher \<Rightarrow> string \<Rightarrow> (pattern option \<Rightarrow> criteria) \<Rightarrow> criteria + string" where
  "set_pattern M value put =
     (case pattern_create M value of (p, None) \<Rightarrow> Inl (put (Some p)) | (p, Some e) \<Rightarrow> Inr e)"

definition set_number :: "string \<Rightarrow> string \<Rightarrow> (32 word \<Rightarrow> criteria) \<Rightarrow> criteria + string" where
  "set_number value msg put =
     (case c_strtoul value of (n, rest) \<Rightarrow> if rest = [] then Inl (put (of_nat n)) else Inr msg)"

definition quoted :: "string \<Rightarrow> string" where
  "quoted w = [SQ] @ w @ [SQ]"

definition parse_value :: "matcher \<Rightarrow> id option \<Rightarrow> criteria_token \<Rightarrow> string \<Rightarrow> criteria \<Rightarrow> criteria + string" where
  "parse_value M focus token value c =
     (case token of
        T_ALL \<Rightarrow> Inl (c\<lparr>cr_all := True\<rparr>)
      | T_FLOATING \<Rightarrow> Inl (c\<lparr>cr_floating := True\<rparr>)
      | T_TILING \<Rightarrow> Inl (c\<lparr>cr_tiling := True\<rparr>)
      | T_TITLE \<Rightarrow> set_pattern M value (\<lambda>p. c\<lparr>cr_title := p\<rparr>)
      | T_SHELL \<Rightarrow> set_pattern M value (\<lambda>p. c\<lparr>cr_shell := p\<rparr>)
      | T_APP_ID \<Rightarrow> set_pattern M value (\<lambda>p. c\<lparr>cr_app_id := p\<rparr>)
      | T_CON_MARK \<Rightarrow> set_pattern M value (\<lambda>p. c\<lparr>cr_con_mark := p\<rparr>)
      | T_CLASS \<Rightarrow> set_pattern M value (\<lambda>p. c\<lparr>cr_class := p\<rparr>)
      | T_INSTANCE \<Rightarrow> set_pattern M value (\<lambda>p. c\<lparr>cr_instance := p\<rparr>)
      | T_WINDOW_ROLE \<Rightarrow> set_pattern M value (\<lambda>p. c\<lparr>cr_window_role := p\<rparr>)
      | T_WORKSPACE \<Rightarrow> set_pattern M value (\<lambda>p. c\<lparr>cr_workspace := p\<rparr>)
      | T_SANDBOX_ENGINE \<Rightarrow> set_pattern M value (\<lambda>p. c\<lparr>cr_sandbox_engine := p\<rparr>)
      | T_SANDBOX_APP_ID \<Rightarrow> set_pattern M value (\<lambda>p. c\<lparr>cr_sandbox_app_id := p\<rparr>)
      | T_SANDBOX_INSTANCE_ID \<Rightarrow> set_pattern M value (\<lambda>p. c\<lparr>cr_sandbox_instance_id := p\<rparr>)
      | T_TAG \<Rightarrow> set_pattern M value (\<lambda>p. c\<lparr>cr_tag := p\<rparr>)
      | T_WINDOW_TYPE \<Rightarrow> Inl (c\<lparr>cr_window_type := parse_window_type value\<rparr>)
      | T_CON_ID \<Rightarrow>
          if value = ''__focused__''
          then Inl (c\<lparr>cr_con_id := (case focus of None \<Rightarrow> 0 | Some f \<Rightarrow> of_nat f)\<rparr>)
          else set_number value (''The value for '' @ quoted ''con_id'' @ '' should be '' @ quoted ''__focused__'' @ '' or numeric'') (\<lambda>n. c\<lparr>cr_con_id := n\<rparr>)
      | T_ID \<Rightarrow> set_number value (''The value for '' @ quoted ''id'' @ '' should be numeric'') (\<lambda>n. c\<lparr>cr_id := n\<rparr>)
      | T_PID \<Rightarrow> set_number value (''The value for '' @ quoted ''pid'' @ '' should be numeric'') (\<lambda>n. c\<lparr>cr_pid := sint n\<rparr>)
      | T_URGENT \<Rightarrow>
          if value = ''latest'' \<or> value = ''newest'' \<or> value = ''last'' \<or> value = ''recent''
          then Inl (c\<lparr>cr_urgent := Some URGENT_LATEST\<rparr>)
          else if value = ''oldest'' \<or> value = ''first'' then Inl (c\<lparr>cr_urgent := Some URGENT_OLDEST\<rparr>)
          else Inr (''The value for '' @ quoted ''urgent'' @ '' must be '' @ quoted ''first'' @ '', '' @ quoted ''last'' @ '', ''
                 @ quoted ''latest'' @ '', '' @ quoted ''newest'' @ '', '' @ quoted ''oldest'' @ '' or '' @ quoted ''recent''))"

definition needs_value :: "criteria_token \<Rightarrow> bool" where
  "needs_value token \<longleftrightarrow> token \<noteq> T_ALL \<and> token \<noteq> T_FLOATING \<and> token \<noteq> T_TILING"

definition parse_token :: "matcher \<Rightarrow> id option \<Rightarrow> criteria \<Rightarrow> string \<Rightarrow> string option \<Rightarrow> criteria + string" where
  "parse_token M focus c name value =
     (case token_from_name name of
        None \<Rightarrow> Inr (''Token '' @ [SQ] @ name @ [SQ] @ '' is not recognized'')
      | Some token \<Rightarrow>
          (case value of
             None \<Rightarrow> if needs_value token then Inr (''Token '' @ [SQ] @ name @ [SQ] @ '' requires a value'')
                     else parse_value M focus token [] c
           | Some v \<Rightarrow> parse_value M focus token v c))"

text \<open>A backslash before a double quote is dropped (unescape).\<close>

fun unescape :: "string \<Rightarrow> string" where
  "unescape [] = []"
| "unescape (c # cs) =
     (if c = BSL \<and> cs \<noteq> [] \<and> hd cs = DQ then DQ # unescape (tl cs) else c # unescape cs)"

definition skip_spaces :: "string \<Rightarrow> string" where
  "skip_spaces s = dropWhile (\<lambda>c. c = CHR '' '') s"

definition is_name_char :: "char \<Rightarrow> bool" where
  "is_name_char c \<longleftrightarrow> (97 \<le> (of_char c :: nat) \<and> (of_char c :: nat) \<le> 122) \<or> c = CHR ''_''"

text \<open>
  Up to the closing quote, which is the first one without a backslash before it; prev is the character
  before the text. None when there is no closing quote.
\<close>

fun quoted_value :: "char \<Rightarrow> string \<Rightarrow> (string \<times> string) option" where
  "quoted_value prev [] = None"
| "quoted_value prev (c # cs) =
     (if c = DQ \<and> prev \<noteq> BSL then Some ([], cs)
      else map_option (\<lambda>(v, rest). (c # v, rest)) (quoted_value c cs))"

definition is_bare :: "char \<Rightarrow> bool" where
  "is_bare c \<longleftrightarrow> c \<noteq> CHR '' '' \<and> c \<noteq> CHR '']''"

definition token_value :: "string \<Rightarrow> (string option \<times> string) option" where
  "token_value head =
     (if head \<noteq> [] \<and> hd head = CHR ''=''
      then (let head = skip_spaces (tl head) in
            if head \<noteq> [] \<and> hd head = DQ
            then map_option (\<lambda>(v, rest). (Some (unescape v), rest)) (quoted_value DQ (tl head))
            else Some (Some (unescape (takeWhile is_bare head)), dropWhile is_bare head))
      else Some (None, head))"

text \<open>
  One round of the loop reads a token. A round that reads no name ends in an error, so every round
  that goes on shortens the text, whose length is the fuel.
\<close>

fun criteria_loop :: "nat \<Rightarrow> matcher \<Rightarrow> id option \<Rightarrow> criteria \<Rightarrow> string \<Rightarrow> criteria \<times> string + string" where
  "criteria_loop 0 M focus c head = Inl (c, head)"
| "criteria_loop (Suc n) M focus c head =
     (if head = [] \<or> hd head = CHR '']'' then Inl (c, head)
      else
        (let head = skip_spaces head; name = takeWhile is_name_char head;
             head = skip_spaces (dropWhile is_name_char head) in
         case token_value head of
           None \<Rightarrow> Inr ''Quote mismatch in criteria''
         | Some (value, head) \<Rightarrow>
             (case parse_token M focus c name value of
                Inr e \<Rightarrow> Inr e
              | Inl c \<Rightarrow> criteria_loop n M focus c (skip_spaces head))))"

definition criteria_parse :: "matcher \<Rightarrow> id option \<Rightarrow> string \<Rightarrow> criteria + string" where
  "criteria_parse M focus raw =
     (let head = skip_spaces raw in
      if head = [] \<or> hd head \<noteq> CHR ''['' then Inr ''No criteria''
      else
        (case criteria_loop (length raw + 1) M focus criteria_zero (tl head) of
           Inr e \<Rightarrow> Inr e
         | Inl (c, head) \<Rightarrow>
             if head = [] then Inr ''No closing brace found in criteria''
             else if criteria_is_empty c then Inr ''Criteria is empty''
             else Inl (c\<lparr>cr_raw := take (length raw - length (tl head)) raw\<rparr>)))"

section \<open>Matching\<close>

text \<open>
  The mark is matched by its regular expression; a con_mark pattern __focused__ has none in the source,
  which hands a NULL pointer to the library: the model says that it matches nothing.
\<close>

definition has_container_criteria :: "criteria \<Rightarrow> bool" where
  "has_container_criteria c \<longleftrightarrow> cr_con_mark c \<noteq> None \<or> cr_con_id c \<noteq> 0"

definition matches_mark :: "matcher \<Rightarrow> pattern \<Rightarrow> string list \<Rightarrow> bool" where
  "matches_mark M p marks =
     (case p of PATTERN_FOCUSED \<Rightarrow> False | PATTERN_PCRE2 r \<Rightarrow> list_ex (m_match M r) marks)"

definition criteria_matches_container :: "matcher \<Rightarrow> sway \<Rightarrow> criteria \<Rightarrow> id \<Rightarrow> bool" where
  "criteria_matches_container M s c con \<longleftrightarrow>
     (case cr_con_mark c of None \<Rightarrow> True | Some p \<Rightarrow> matches_mark M p (c_marks (cons s con)))
     \<and> (cr_con_id c \<noteq> 0 \<longrightarrow> con = unat (cr_con_id c))"

text \<open>
  A text of the view against a pattern. A missing text is the empty one for some tokens and fails for
  the others.
\<close>

definition matches_text :: "matcher \<Rightarrow> (view_t \<Rightarrow> string option) \<Rightarrow> view_t option \<Rightarrow> string \<Rightarrow> pattern \<Rightarrow> bool" where
  "matches_text M get focused text p =
     (case p of
        PATTERN_FOCUSED \<Rightarrow> (case focused of None \<Rightarrow> False | Some f \<Rightarrow> lenient_strcmp (Some text) (get f) = 0)
      | PATTERN_PCRE2 r \<Rightarrow> m_match M r text)"

definition matches_or_empty :: "matcher \<Rightarrow> (view_t \<Rightarrow> string option) \<Rightarrow> view_t option \<Rightarrow> view_t \<Rightarrow> pattern option \<Rightarrow> bool" where
  "matches_or_empty M get focused v p =
     (case p of None \<Rightarrow> True
      | Some p \<Rightarrow> matches_text M get focused (case get v of None \<Rightarrow> [] | Some t \<Rightarrow> t) p)"

definition matches_present :: "matcher \<Rightarrow> (view_t \<Rightarrow> string option) \<Rightarrow> view_t option \<Rightarrow> view_t \<Rightarrow> pattern option \<Rightarrow> bool" where
  "matches_present M get focused v p =
     (case p of None \<Rightarrow> True
      | Some p \<Rightarrow> (case get v of None \<Rightarrow> False | Some t \<Rightarrow> matches_text M get focused t p))"

definition view_is_urgent :: "sway \<Rightarrow> id \<Rightarrow> bool" where
  "view_is_urgent s c = (case c_view (cons s c) of None \<Rightarrow> False | Some v \<Rightarrow> v_urgent v)"

definition root_containers :: "sway \<Rightarrow> id list" where
  "root_containers s = containers_in (next_id s) s (root_visits s)"

definition cmp_urgent :: "(id \<Rightarrow> int \<times> int) \<Rightarrow> id \<Rightarrow> id \<Rightarrow> int" where
  "cmp_urgent since a b =
     (if fst (since a) < fst (since b) then -1 else if fst (since a) > fst (since b) then 1
      else if snd (since a) < snd (since b) then -1 else if snd (since a) > snd (since b) then 1 else 0)"

text \<open>list_stable_sort by cmp_urgent is the stable sort by the pair of seconds and nanoseconds.\<close>

definition urgent_views :: "matcher \<Rightarrow> sway \<Rightarrow> id list" where
  "urgent_views M s =
     sort_key (\<lambda>c. fst (m_urgent_since M c)) (sort_key (\<lambda>c. snd (m_urgent_since M c))
       (filter (view_is_urgent s) (root_containers s)))"

definition matches_urgent :: "matcher \<Rightarrow> sway \<Rightarrow> criteria \<Rightarrow> id \<Rightarrow> bool" where
  "matches_urgent M s c con =
     (case cr_urgent c of None \<Rightarrow> True
      | Some pick \<Rightarrow>
          view_is_urgent s con
          \<and> (case urgent_views M s of [] \<Rightarrow> False
             | u # us \<Rightarrow> con = (case pick of URGENT_OLDEST \<Rightarrow> u | URGENT_LATEST \<Rightarrow> last (u # us))))"

definition matches_workspace :: "matcher \<Rightarrow> sway \<Rightarrow> id option \<Rightarrow> criteria \<Rightarrow> id \<Rightarrow> bool" where
  "matches_workspace M s focus c con =
     (case cr_workspace c of None \<Rightarrow> True
      | Some p \<Rightarrow>
          (case c_workspace (cons s con) of None \<Rightarrow> False
           | Some w \<Rightarrow>
               (case p of
                  PATTERN_PCRE2 r \<Rightarrow> m_match M r (w_name (wss s w))
                | PATTERN_FOCUSED \<Rightarrow>
                    (case focus of None \<Rightarrow> False
                     | Some f \<Rightarrow>
                         c_view (cons s f) \<noteq> None
                         \<and> (case c_workspace (cons s f) of None \<Rightarrow> False
                            | Some v \<Rightarrow> w_name (wss s w) = w_name (wss s v))))))"

definition current_focus :: "env \<Rightarrow> sway \<Rightarrow> id option" where
  "current_focus E s = seat_get_focused_container (seat_at s (input_manager_current_seat E s))"

definition matches_texts :: "matcher \<Rightarrow> criteria \<Rightarrow> view_t option \<Rightarrow> view_t \<Rightarrow> bool" where
  "matches_texts M c focused v \<longleftrightarrow>
     matches_or_empty M v_title focused v (cr_title c)
     \<and> matches_or_empty M (\<lambda>v. Some (v_shell v)) focused v (cr_shell c)
     \<and> matches_or_empty M v_app_id focused v (cr_app_id c)
     \<and> matches_present M v_sandbox_engine focused v (cr_sandbox_engine c)
     \<and> matches_present M v_sandbox_app_id focused v (cr_sandbox_app_id c)
     \<and> matches_present M v_sandbox_instance_id focused v (cr_sandbox_instance_id c)
     \<and> matches_present M v_tag focused v (cr_tag c)
     \<and> matches_or_empty M v_class focused v (cr_class c)
     \<and> matches_or_empty M v_instance focused v (cr_instance c)
     \<and> matches_or_empty M v_window_role focused v (cr_window_role c)"

definition criteria_matches_view :: "matcher \<Rightarrow> env \<Rightarrow> sway \<Rightarrow> criteria \<Rightarrow> id \<Rightarrow> bool" where
  "criteria_matches_view M E s c con =
     (case c_view (cons s con) of None \<Rightarrow> False
      | Some v \<Rightarrow>
          (let focus = current_focus E s;
               focused = (case focus of None \<Rightarrow> None | Some f \<Rightarrow> c_view (cons s f)) in
           matches_texts M c focused v
           \<and> criteria_matches_container M s c con
           \<and> (cr_id c \<noteq> 0 \<longrightarrow> v_x11_window_id v \<noteq> 0 \<and> v_x11_window_id v = cr_id c)
           \<and> (case cr_window_type c of None \<Rightarrow> True | Some t \<Rightarrow> m_window_type M con t)
           \<and> (cr_floating c \<longrightarrow> container_is_floating s con)
           \<and> (cr_tiling c \<longrightarrow> \<not> container_is_floating s con)
           \<and> matches_urgent M s c con
           \<and> matches_workspace M s focus c con
           \<and> (cr_pid c \<noteq> 0 \<longrightarrow> cr_pid c = v_pid v)))"

definition criteria_for_view :: "matcher \<Rightarrow> env \<Rightarrow> sway \<Rightarrow> id \<Rightarrow> criteria_type set \<Rightarrow> criteria list" where
  "criteria_for_view M E s con types =
     filter (\<lambda>c. (case cr_type c of None \<Rightarrow> False | Some t \<Rightarrow> t \<in> types) \<and> criteria_matches_view M E s c con)
       (op_criteria (cfg_opts (cfg s)))"

definition criteria_get_containers :: "matcher \<Rightarrow> env \<Rightarrow> sway \<Rightarrow> criteria \<Rightarrow> id list" where
  "criteria_get_containers M E s c =
     filter (\<lambda>con. if c_view (cons s con) \<noteq> None then criteria_matches_view M E s c con
                   else has_container_criteria c \<and> criteria_matches_container M s c con) (root_containers s)"

end
