(* ===== verification/Criteria_Laws.thy ===== *)
theory Criteria_Laws
  imports Criteria Sample
begin

text \<open>
  Criteria that are printed with every value in quotes are parsed back, and criteria choose the
  containers that satisfy every one of their tokens.
\<close>

section \<open>Printing\<close>

fun quote :: "string \<Rightarrow> string" where
  "quote [] = []"
| "quote (c # cs) = (if c = DQ then BSL # DQ # quote cs else c # quote cs)"

definition print_token :: "string \<times> string \<Rightarrow> string" where
  "print_token t = fst t @ [CHR ''='', DQ] @ quote (snd t) @ [DQ, CHR '' '']"

definition print_criteria :: "(string \<times> string) list \<Rightarrow> string" where
  "print_criteria ts = CHR ''['' # concat (map print_token ts) @ [CHR '']'']"

text \<open>A name of lower case letters and underscores, and a value that does not end in a backslash.\<close>

definition printable_token :: "string \<times> string \<Rightarrow> bool" where
  "printable_token t \<longleftrightarrow> fst t \<noteq> [] \<and> list_all is_name_char (fst t) \<and> (snd t = [] \<or> last (snd t) \<noteq> BSL)"

fun parse_tokens :: "matcher \<Rightarrow> id option \<Rightarrow> (string \<times> string) list \<Rightarrow> criteria \<Rightarrow> criteria + string" where
  "parse_tokens M focus [] c = Inl c"
| "parse_tokens M focus (t # ts) c =
     (case parse_token M focus c (fst t) (Some (snd t)) of Inr e \<Rightarrow> Inr e | Inl c \<Rightarrow> parse_tokens M focus ts c)"

lemma special_chars [simp]: "BSL \<noteq> DQ" "DQ \<noteq> BSL" "DQ \<noteq> CHR '' ''" "BSL \<noteq> CHR '' ''"
  by (simp_all add: BSL_def DQ_def)

lemma quote_head: "quote cs \<noteq> [] \<Longrightarrow> hd (quote cs) \<noteq> DQ"
  by (cases cs) auto

lemma unescape_quote: "unescape (quote v) = v"
  using quote_head by (induction v) auto

lemma quoted_value_quote:
  "(if v = [] then prev \<noteq> BSL else last v \<noteq> BSL) \<Longrightarrow> quoted_value prev (quote v @ DQ # rest) = Some (quote v, rest)"
proof (induction v arbitrary: prev)
  case (Cons c cs)
  have ih: "quoted_value c (quote cs @ DQ # rest) = Some (quote cs, rest)"
    by (rule Cons.IH) (use Cons.prems in \<open>auto split: if_splits\<close>)
  show ?case using ih by auto
qed simp

lemma name_char_neq: "is_name_char c \<Longrightarrow> c \<noteq> CHR '' '' \<and> c \<noteq> CHR '']'' \<and> c \<noteq> CHR ''=''"
  by (auto simp: is_name_char_def)

lemma skip_name: "n \<noteq> [] \<Longrightarrow> list_all is_name_char n \<Longrightarrow> skip_spaces (n @ r) = n @ r"
  by (cases n) (auto simp: skip_spaces_def dest: name_char_neq)

lemma take_name:
  "list_all is_name_char n \<Longrightarrow> \<not> is_name_char c \<Longrightarrow> takeWhile is_name_char (n @ c # r) = n"
  "list_all is_name_char n \<Longrightarrow> \<not> is_name_char c \<Longrightarrow> dropWhile is_name_char (n @ c # r) = c # r"
  by (induction n) auto

lemma equals_sign: "\<not> is_name_char CHR ''=''"
  by (simp add: is_name_char_def)

lemma read_token:
  assumes "printable_token t"
  shows "criteria_loop (Suc n) M focus c (print_token t @ r)
    = (case parse_token M focus c (fst t) (Some (snd t)) of Inr e \<Rightarrow> Inr e
       | Inl c \<Rightarrow> criteria_loop n M focus c (skip_spaces r))"
proof -
  let ?h = "fst t @ CHR ''='' # DQ # quote (snd t) @ DQ # CHR '' '' # r"
  have t: "fst t \<noteq> []" "list_all is_name_char (fst t)" "if snd t = [] then DQ \<noteq> BSL else last (snd t) \<noteq> BSL"
    using assms by (auto simp: printable_token_def)
  have first: "?h \<noteq> []" "hd ?h \<noteq> CHR '']''" using t(1,2) by (cases "fst t"; auto dest: name_char_neq)+
  have v: "token_value (CHR ''='' # DQ # quote (snd t) @ DQ # CHR '' '' # r) = Some (Some (snd t), CHR '' '' # r)"
    using quoted_value_quote[OF t(3)] by (simp add: token_value_def skip_spaces_def unescape_quote Let_def)
  have e: "print_token t @ r = ?h" by (simp add: print_token_def)
  have s: "skip_spaces (CHR '' '' # r) = skip_spaces r"
    and q: "skip_spaces (CHR ''='' # DQ # quote (snd t) @ DQ # CHR '' '' # r) = CHR ''='' # DQ # quote (snd t) @ DQ # CHR '' '' # r"
    by (simp_all add: skip_spaces_def)
  show ?thesis
    unfolding e using first skip_name[OF t(1,2)] take_name[OF t(2) equals_sign]
    by (simp add: Let_def q v s split: sum.split)
qed

lemma read_tokens:
  assumes "list_all printable_token ts" "length ts < n"
  shows "criteria_loop n M focus c (concat (map print_token ts) @ [CHR '']''])
    = (case parse_tokens M focus ts c of Inr e \<Rightarrow> Inr e | Inl c \<Rightarrow> Inl (c, [CHR '']'']))"
  using assms
proof (induction ts arbitrary: n c)
  case Nil
  then show ?case by (cases n) auto
next
  case (Cons t ts)
  then obtain m where n: "n = Suc m" "length ts < m" by (cases n) auto
  let ?r = "concat (map print_token ts) @ [CHR '']'']"
  have p: "skip_spaces ?r = ?r"
  proof (cases ts)
    case (Cons u us)
    then have "printable_token u" using Cons.prems by simp
    then show ?thesis
      using skip_name[of "fst u"] Cons by (simp add: printable_token_def print_token_def)
  qed (simp add: skip_spaces_def)
  have "criteria_loop n M focus c (concat (map print_token (t # ts)) @ [CHR '']''])
      = (case parse_token M focus c (fst t) (Some (snd t)) of Inr e \<Rightarrow> Inr e
         | Inl c \<Rightarrow> criteria_loop m M focus c ?r)"
    using read_token[of t m M focus c ?r] Cons.prems by (simp only: n p list.map concat.simps append_assoc list.pred_inject)
  then show ?case using Cons.IH[OF _ n(2)] Cons.prems by (simp split: sum.split)
qed

text \<open>
  C27. criteria_parse reads back printed criteria, whatever quotes and backslashes the values have as
  long as none ends in a backslash: it gives what the tokens say one by one, with the printed text as
  raw text, or the first error, or that they are empty.
\<close>
theorem criteria_parse_print:
  assumes "list_all printable_token ts"
  shows "criteria_parse M focus (print_criteria ts)
    = (case parse_tokens M focus ts criteria_zero of
         Inr e \<Rightarrow> Inr e
       | Inl c \<Rightarrow> if criteria_is_empty c then Inr ''Criteria is empty''
                  else Inl (c\<lparr>cr_raw := print_criteria ts\<rparr>))"
proof -
  let ?r = "concat (map print_token ts) @ [CHR '']'']"
  have "length ts \<le> length (concat (map print_token ts))"
    by (induction ts) (auto simp: print_token_def)
  then have "criteria_loop (length (print_criteria ts) + 1) M focus criteria_zero ?r
      = (case parse_tokens M focus ts criteria_zero of Inr e \<Rightarrow> Inr e | Inl c \<Rightarrow> Inl (c, [CHR '']'']))"
    by (intro read_tokens[OF assms]) (simp add: print_criteria_def)
  moreover have "skip_spaces (print_criteria ts) = CHR ''['' # ?r"
    by (simp add: print_criteria_def skip_spaces_def)
  ultimately show ?thesis
    unfolding criteria_parse_def Let_def by (simp add: print_criteria_def split: sum.split)
qed

definition any_matcher :: matcher where
  "any_matcher = \<lparr>m_compile_error = (\<lambda>_. None), m_match = (\<lambda>r t. r = t), m_window_type = (\<lambda>_ _. False),
     m_urgent_since = (\<lambda>_. (0, 0))\<rparr>"

lemma criteria_parse_print_witness:
  "criteria_parse any_matcher None (print_criteria [(''title'', [DQ]), (''floating'', [])])
   = Inl (criteria_zero\<lparr>cr_title := Some (PATTERN_PCRE2 [DQ]), cr_floating := True,
       cr_raw := print_criteria [(''title'', [DQ]), (''floating'', [])]\<rparr>)"
proof -
  have p: "list_all printable_token [(''title'', [DQ]), (''floating'', [])]"
    by (simp add: printable_token_def is_name_char_def)
  have q: "[DQ] \<noteq> ''__focused__''" by simp
  show ?thesis
    unfolding criteria_parse_print[OF p]
    by (simp add: parse_token_def token_from_name_def token_names_def parse_value_def set_pattern_def
        pattern_create_def any_matcher_def q criteria_is_empty_def criteria_zero_def)
qed

end
