(* ===== verification/Resize.thy ===== *)
theory Resize
  imports Splits
begin

unbundle bit_operations_syntax

text \<open>
  Resizing tiled containers (the first half of sway/commands/resize.c; the mouse resizes of the seat
  call it too): widths of columns and heights of windows change, and the other columns or windows
  of the column take up the difference.
\<close>

section \<open>Edges and axes\<close>

type_synonym edges = "32 word"

definition WLR_EDGE_NONE :: edges where "WLR_EDGE_NONE = 0"
definition WLR_EDGE_TOP :: edges where "WLR_EDGE_TOP = 1"
definition WLR_EDGE_BOTTOM :: edges where "WLR_EDGE_BOTTOM = 2"
definition WLR_EDGE_LEFT :: edges where "WLR_EDGE_LEFT = 4"
definition WLR_EDGE_RIGHT :: edges where "WLR_EDGE_RIGHT = 8"

definition AXIS_HORIZONTAL :: edges where "AXIS_HORIZONTAL = WLR_EDGE_LEFT OR WLR_EDGE_RIGHT"
definition AXIS_VERTICAL :: edges where "AXIS_VERTICAL = WLR_EDGE_TOP OR WLR_EDGE_BOTTOM"

lemmas edge_defs = WLR_EDGE_NONE_def WLR_EDGE_TOP_def WLR_EDGE_BOTTOM_def WLR_EDGE_LEFT_def
  WLR_EDGE_RIGHT_def AXIS_HORIZONTAL_def AXIS_VERTICAL_def

definition parse_resize_axis :: "string \<Rightarrow> edges" where
  "parse_resize_axis axis =
     (if str_caseeq axis ''width'' \<or> str_caseeq axis ''horizontal'' then AXIS_HORIZONTAL
      else if str_caseeq axis ''height'' \<or> str_caseeq axis ''vertical'' then AXIS_VERTICAL
      else if str_caseeq axis ''up'' then WLR_EDGE_TOP
      else if str_caseeq axis ''down'' then WLR_EDGE_BOTTOM
      else if str_caseeq axis ''left'' then WLR_EDGE_LEFT
      else if str_caseeq axis ''right'' then WLR_EDGE_RIGHT
      else WLR_EDGE_NONE)"

definition is_horizontal :: "edges \<Rightarrow> bool" where
  "is_horizontal axis \<longleftrightarrow> axis AND (WLR_EDGE_LEFT OR WLR_EDGE_RIGHT) \<noteq> 0"

definition is_vertical :: "edges \<Rightarrow> bool" where
  "is_vertical edge \<longleftrightarrow> edge AND (WLR_EDGE_TOP OR WLR_EDGE_BOTTOM) \<noteq> 0"

section \<open>The container whose border a resize moves\<close>

fun find_resize_parent :: "nat \<Rightarrow> sway \<Rightarrow> id option \<Rightarrow> edges \<Rightarrow> id option" where
  "find_resize_parent 0 s con axis = None"
| "find_resize_parent (Suc n) s con axis =
     (case con of None \<Rightarrow> None
      | Some c \<Rightarrow>
          (let along = (if is_horizontal axis then L_HORIZ else L_VERT);
               allow_first = (axis \<noteq> WLR_EDGE_TOP \<and> axis \<noteq> WLR_EDGE_LEFT);
               allow_last = (axis \<noteq> WLR_EDGE_RIGHT \<and> axis \<noteq> WLR_EDGE_BOTTOM);
               sibs = (case container_get_siblings s c of None \<Rightarrow> [] | Some r \<Rightarrow> list_of s r);
               index = sibling_index s c in
           if container_parent_layout s c = along \<and> length sibs > 1 \<and> (allow_first \<or> index > 0)
             \<and> (allow_last \<or> index < int (length sibs) - 1)
           then Some c
           else find_resize_parent n s (c_parent (cons s c)) axis))"

definition container_find_resize_parent :: "sway \<Rightarrow> id option \<Rightarrow> edges \<Rightarrow> id option" where
  "container_find_resize_parent s con axis = find_resize_parent (next_id s + 1) s con axis"

section \<open>Widths of columns\<close>

text \<open>The column beside the dragged edge takes what it can; -1 is no column.\<close>

definition absorb_at_edge :: "id \<Rightarrow> edges \<Rightarrow> int \<Rightarrow> int list \<Rightarrow> rat \<Rightarrow> sway \<Rightarrow> rat \<times> sway" where
  "absorb_at_edge w edge col_idx candidates remaining s =
     (let edge_sib = (if edge AND WLR_EDGE_LEFT \<noteq> 0 then col_idx - 1 else col_idx + 1) in
      if edge_sib \<in> set candidates
      then (let c = w_tiling (wss s w) ! nat edge_sib; orig = c_width (cons s c);
                new_cw = container_clamp_tiled_width s c (orig - remaining) (of_int (w_width (wss s w))) in
            (remaining - (orig - new_cw), grow_column w c new_cw s))
      else (remaining, s))"

text \<open>
  The other columns give the room a growing column needs or take the room a shrinking one leaves:
  the one at the dragged edge, or those farthest from the focus first. At most 32 are asked.
\<close>

definition absorb_width :: "id \<Rightarrow> edges \<Rightarrow> int \<Rightarrow> int \<Rightarrow> int list \<Rightarrow> rat \<Rightarrow> sway \<Rightarrow> rat \<times> sway" where
  "absorb_width w edge col_idx focus_idx candidates remaining s =
     (if remaining = 0 then (remaining, s)
      else if is_horizontal edge then absorb_at_edge w edge col_idx candidates remaining s
      else if candidates \<noteq> [] then viewport_absorb_farthest w candidates focus_idx remaining s
      else (remaining, s))"

definition resize_column :: "id \<Rightarrow> id \<Rightarrow> edges \<Rightarrow> rat \<Rightarrow> sway \<Rightarrow> sway" where
  "resize_column w col edge new_w s =
     (let ws = wss s w; col_idx = sibling_index s col; real_delta = new_w - c_width (cons s col);
          focus_idx = (if w_focused_column_idx ws \<ge> 0 then w_focused_column_idx ws else col_idx) in
      case viewport_scan_visible s w col_idx False 32 of (candidates, occupied) \<Rightarrow>
        (let s = grow_column w col new_w s;
             remaining = (if real_delta < 0 then real_delta else max 0 (occupied + real_delta - of_int (w_width ws))) in
         case absorb_width w edge col_idx focus_idx candidates remaining s of (remaining, s) \<Rightarrow>
           arrange_workspace w
             (if remaining > 0
              then grow_column w col
                     (container_clamp_tiled_width s col (c_width (cons s col) - remaining) (of_int (w_width ws))) s
              else s)))"

definition tiled_resize_horizontal_px :: "id \<Rightarrow> edges \<Rightarrow> rat \<Rightarrow> sway \<Rightarrow> sway" where
  "tiled_resize_horizontal_px con edge delta_px s =
     (let col = container_toplevel_ancestor s con in
      case c_workspace (cons s col) of None \<Rightarrow> s
      | Some w \<Rightarrow>
          (let new_w = container_clamp_tiled_width s col (c_width (cons s col) + delta_px) (of_int (w_width (wss s w))) in
           if new_w = c_width (cons s col) then s
           else if sibling_index s col < 0 then arrange_workspace w s
           else resize_column w col edge new_w s))"

section \<open>Heights of windows\<close>

fun column_above :: "nat \<Rightarrow> sway \<Rightarrow> container_layout \<Rightarrow> id option \<Rightarrow> id option" where
  "column_above 0 s l col = None"
| "column_above (Suc n) s l col =
     (case col of None \<Rightarrow> None
      | Some p \<Rightarrow> if c_layout (cons s p) = l then Some p else column_above n s l (c_parent (cons s p)))"

definition nearest_with_layout :: "sway \<Rightarrow> container_layout \<Rightarrow> id \<Rightarrow> id option" where
  "nearest_with_layout s l c = column_above (next_id s + 1) s l (c_parent (cons s c))"

definition set_window_height :: "id \<Rightarrow> id \<Rightarrow> rat \<Rightarrow> sway \<Rightarrow> sway" where
  "set_window_height w c h s =
     node_set_dirty (N_CONTAINER c)
       (upd_con c (\<lambda>x. x\<lparr>c_height := h, c_height_fraction := workspace_height_to_fraction (wss s w) h\<rparr>) s)"

text \<open>
  The windows that absorb: the one at the dragged edge, then from the farthest to the nearest. The
  source keeps them in an array of 64 places, so a column has at most 65 windows.
\<close>

definition absorb_order :: "edges \<Rightarrow> int \<Rightarrow> int \<Rightarrow> int list" where
  "absorb_order edge index n =
     (let adj = index + (if edge AND WLR_EDGE_BOTTOM \<noteq> 0 then 1 else -1);
          front = (if is_vertical edge \<and> 0 \<le> adj \<and> adj < n then [adj] else []) in
      front @ filter (\<lambda>k. 0 \<le> k \<and> k < n \<and> k \<notin> set front)
                (concat (map (\<lambda>d. [index - d, index + d]) (rev [1..n - 1]))))"

fun absorb_heights :: "id \<Rightarrow> rat \<Rightarrow> id list \<Rightarrow> rat \<Rightarrow> sway \<Rightarrow> rat \<times> sway" where
  "absorb_heights w usable [] remaining s = (remaining, s)"
| "absorb_heights w usable (c # cs) remaining s =
     (if remaining = 0 then (remaining, s)
      else (let orig = c_height (cons s c);
                new_sh = container_clamp_tiled_height_resize s c (orig - remaining) usable in
            absorb_heights w usable cs (remaining - (orig - new_sh)) (set_window_height w c new_sh s)))"

definition resize_window :: "id \<Rightarrow> id list \<Rightarrow> id \<Rightarrow> edges \<Rightarrow> rat \<Rightarrow> rat \<Rightarrow> sway \<Rightarrow> sway" where
  "resize_window w siblings con edge usable new_h s =
     (let real_delta = new_h - c_height (cons s con);
          occupied = sum_list (map (\<lambda>c. c_height (cons s c)) siblings);
          remaining = (if real_delta < 0 then real_delta else max 0 (occupied + real_delta - usable));
          order = map (\<lambda>k. siblings ! nat k) (absorb_order edge (index_of con siblings) (int (length siblings))) in
      case absorb_heights w usable order remaining (set_window_height w con new_h s) of (remaining, s) \<Rightarrow>
        if remaining > 0
        then set_window_height w con (container_clamp_tiled_height_resize s con (c_height (cons s con) - remaining) usable) s
        else s)"

definition tiled_resize_vertical_px :: "id \<Rightarrow> edges \<Rightarrow> rat \<Rightarrow> sway \<Rightarrow> sway" where
  "tiled_resize_vertical_px con edge delta_px s =
     (case nearest_with_layout s L_VERT con of None \<Rightarrow> s
      | Some col \<Rightarrow>
          (case c_workspace (cons s col) of None \<Rightarrow> s
           | Some w \<Rightarrow>
               (let siblings = c_children (cons s col); n = int (length siblings);
                    usable = c_height (cons s col) - of_int (w_gaps_inner (wss s w)) * of_int (n - 1) in
                if n < 2 \<or> con \<notin> set siblings \<or> usable \<le> 0 then s
                else
                  (let new_h = container_clamp_tiled_height_resize s con (c_height (cons s con) + delta_px) usable in
                   if new_h = c_height (cons s con) then s
                   else arrange_workspace w (resize_window w siblings con edge usable new_h s)))))"

section \<open>Fractions and amounts\<close>

definition tiled_resize_horizontal_frac :: "id \<Rightarrow> rat \<Rightarrow> sway \<Rightarrow> sway" where
  "tiled_resize_horizontal_frac con delta_frac s =
     (let col = container_toplevel_ancestor s con in
      case c_workspace (cons s col) of None \<Rightarrow> s
      | Some w \<Rightarrow>
          tiled_resize_horizontal_px con WLR_EDGE_NONE
            (workspace_width_fraction (wss s w) (max (5 / 100) (c_width_fraction (cons s col) + delta_frac))
              - c_width (cons s col)) s)"

definition tiled_resize_vertical_frac :: "id \<Rightarrow> rat \<Rightarrow> sway \<Rightarrow> sway" where
  "tiled_resize_vertical_frac con delta_frac s =
     (case c_workspace (cons s (container_toplevel_ancestor s con)) of None \<Rightarrow> s
      | Some w \<Rightarrow>
          tiled_resize_vertical_px con WLR_EDGE_NONE
            (workspace_height_fraction (wss s w) (max (1 / 1000) (c_height_fraction (cons s con) + delta_frac))
              - c_height (cons s con)) s)"

definition container_resize_tiled :: "id option \<Rightarrow> edges \<Rightarrow> int \<Rightarrow> sway \<Rightarrow> sway" where
  "container_resize_tiled con axis amt s =
     (case con of None \<Rightarrow> s
      | Some c \<Rightarrow>
          if container_is_scratchpad_hidden_or_child s c then s
          else if is_horizontal axis then tiled_resize_horizontal_px c axis (of_int amt) s
          else tiled_resize_vertical_px c axis (of_int amt) s)"

end
