(* ===== verification/Handlers.thy ===== *)
theory Handlers
  imports Tree_Calls Criteria Splits Vars CStr Cmd
begin

text \<open>
  What the handlers of commands share (include/sway/commands.h, the handler context of
  include/sway/config.h, and the small operations on views, focus and floating containers they call).
  A handler takes its context, its arguments and the state and gives its results and the new state.
  A call of transaction_commit_dirty inside a handler is left out: what it does is in theory
  Transaction, and every caller of a handler ends with one.
\<close>

section \<open>The context of a handler\<close>

text \<open>
  h_run executes a list of commands for the default seat and a container; the rules of the
  configuration need it, and theory Dispatch puts execute_command there. h_font is what pango makes of
  a font (whether it has a family, its size and the height of a line), h_fork whether fork succeeds.
\<close>

record ctx =
  h_env :: env
  h_matcher :: matcher
  h_node :: "node option"
  h_container :: "id option"
  h_workspace :: "id option"
  h_overridden :: bool
  h_run :: "id option \<Rightarrow> string \<Rightarrow> sway \<Rightarrow> sway"
  h_font :: "string \<Rightarrow> bool \<times> int \<times> int"
  h_fork :: bool

type_synonym reply = "cmd_results \<times> sway"
type_synonym handler = "ctx \<Rightarrow> string list \<Rightarrow> sway \<Rightarrow> reply"

text \<open>set_config_node.\<close>

definition set_config_node :: "node option \<Rightarrow> bool \<Rightarrow> sway \<Rightarrow> ctx \<Rightarrow> ctx" where
  "set_config_node n overridden s x =
     x\<lparr>h_node := n, h_overridden := overridden,
       h_container := (case n of Some (N_CONTAINER c) \<Rightarrow> Some c | _ \<Rightarrow> None),
       h_workspace := (case n of Some (N_CONTAINER c) \<Rightarrow> c_workspace (cons s c)
                       | Some (N_WORKSPACE w) \<Rightarrow> Some w | _ \<Rightarrow> None)\<rparr>"

definition ok :: "sway \<Rightarrow> reply" where
  "ok s = (cmd_results_new CMD_SUCCESS None, s)"

definition failure :: "string \<Rightarrow> sway \<Rightarrow> reply" where
  "failure msg s = (cmd_results_new CMD_FAILURE (Some msg), s)"

definition invalid :: "string \<Rightarrow> sway \<Rightarrow> reply" where
  "invalid msg s = (cmd_results_new CMD_INVALID (Some msg), s)"

lemma reply_simps [simp]:
  "snd (ok s) = s" "snd (failure m s) = s" "snd (invalid m s) = s"
  "status (fst (ok s)) = CMD_SUCCESS" "status (fst (failure m s)) = CMD_FAILURE"
  "status (fst (invalid m s)) = CMD_INVALID"
  by (simp_all add: ok_def failure_def invalid_def)

definition needs_args :: "string list \<Rightarrow> string \<Rightarrow> expected_args \<Rightarrow> int \<Rightarrow> sway \<Rightarrow> reply \<Rightarrow> reply" where
  "needs_args argv name type val s r =
     (case checkarg (int (length argv)) name type val of Some e \<Rightarrow> (e, s) | None \<Rightarrow> r)"

lemma needs_args_cases:
  "snd (needs_args argv name type val s r) = s \<or> needs_args argv name type val s r = r"
  by (simp add: needs_args_def split: option.split)

definition no_outputs :: string where
  "no_outputs = ''Can't run this command while there's no outputs connected.''"

definition is_word :: "string \<Rightarrow> string list \<Rightarrow> bool" where
  "is_word a names \<longleftrightarrow> list_ex (str_caseeq a) names"

definition the_seat :: "ctx \<Rightarrow> sway \<Rightarrow> nat" where
  "the_seat x s = input_manager_current_seat (h_env x) s"

definition my_seat :: "ctx \<Rightarrow> sway \<Rightarrow> seat" where
  "my_seat x s = seat_at s (the_seat x s)"

definition seat_set_focus :: "ctx \<Rightarrow> node option \<Rightarrow> sway \<Rightarrow> sway" where
  "seat_set_focus x n s = e_refocus (h_env x) (the_seat x s) n s"

definition seat_set_focus_container :: "ctx \<Rightarrow> id option \<Rightarrow> sway \<Rightarrow> sway" where
  "seat_set_focus_container x c s = seat_set_focus x (map_option N_CONTAINER c) s"

definition arrange_root_of :: "ctx \<Rightarrow> sway \<Rightarrow> sway" where
  "arrange_root_of x s = arrange_root (e_layout_box (h_env x)) s"

definition arrange_ws :: "id option \<Rightarrow> sway \<Rightarrow> sway" where
  "arrange_ws w s = (case w of None \<Rightarrow> s | Some w \<Rightarrow> arrange_workspace w s)"

text \<open>arrange_root when a container is fullscreen on all outputs, else the workspace.\<close>

definition arrange_root_or :: "ctx \<Rightarrow> id option \<Rightarrow> sway \<Rightarrow> sway" where
  "arrange_root_or x w s = (if fullscreen_global s \<noteq> None then arrange_root_of x s else arrange_ws w s)"

section \<open>Views\<close>

text \<open>view_close asks the client to close; the view stays until it does.\<close>

definition view_close :: "id \<Rightarrow> sway \<Rightarrow> sway" where
  "view_close c s = emit (Ev_close c) s"

definition close_container_iterator :: "id \<Rightarrow> sway \<Rightarrow> sway" where
  "close_container_iterator c s = (if c_view (cons s c) \<noteq> None then view_close c s else s)"

text \<open>
  A rule is recorded as executed by its value: two rules of the configuration with the same text and
  the same commands are one (criteria_already_exists).
\<close>

definition run_rule :: "ctx \<Rightarrow> id \<Rightarrow> criteria \<Rightarrow> sway \<Rightarrow> sway" where
  "run_rule x c r s =
     (case c_view (cons s c) of None \<Rightarrow> s
      | Some v \<Rightarrow>
          if r \<in> set (v_executed_criteria v) then s
          else h_run x (Some c) (case cr_cmdlist r of Some cmds \<Rightarrow> cmds | None \<Rightarrow> [])
                 (upd_view c (\<lambda>v. v\<lparr>v_executed_criteria := v_executed_criteria v @ [r]\<rparr>) s))"

definition view_execute_criteria :: "ctx \<Rightarrow> id \<Rightarrow> sway \<Rightarrow> sway" where
  "view_execute_criteria x c s =
     fold (run_rule x c) (criteria_for_view (h_matcher x) (h_env x) s c {CT_COMMAND}) s"

section \<open>Moving a floating container\<close>

definition detect_urgent_at :: "id option \<Rightarrow> sway \<Rightarrow> sway" where
  "detect_urgent_at w s = (case w of None \<Rightarrow> s | Some w \<Rightarrow> workspace_detect_urgent w s)"

definition container_floating_move_to :: "env \<Rightarrow> id \<Rightarrow> rat \<Rightarrow> rat \<Rightarrow> sway \<Rightarrow> sway" where
  "container_floating_move_to E c lx ly s =
     (if \<not> container_is_floating s c then s
      else
        (let s = container_floating_translate c (lx - c_x (cons s c)) (ly - c_y (cons s c)) s in
         if container_is_scratchpad_hidden s c then s
         else case container_floating_find_output (e_closest E) s c of None \<Rightarrow> s
           | Some p \<Rightarrow>
               (let old = c_workspace (cons s c); new = output_get_active_workspace E s p in
                case new of None \<Rightarrow> s
                | Some w \<Rightarrow>
                    if old = new then s
                    else
                      (let s = workspace_add_floating E w c (container_detach c s);
                           s = arrange_workspace w (arrange_ws old s);
                           s = (if c_scratchpad (cons s c)
                                then upd_con c (\<lambda>x. x\<lparr>c_transform := output_get_box s p\<rparr>) s else s) in
                       workspace_detect_urgent w (detect_urgent_at old s)))))"

section \<open>The pointer follows the focus\<close>

text \<open>wlr_cursor_warp does nothing outside the output layout.\<close>

definition box_contains_point :: "box \<Rightarrow> rat \<Rightarrow> rat \<Rightarrow> bool" where
  "box_contains_point b x y \<longleftrightarrow> \<not> box_empty b \<and> of_int (b_x b) \<le> x \<and> x < of_int (b_x b + b_width b)
     \<and> of_int (b_y b) \<le> y \<and> y < of_int (b_y b + b_height b)"

definition cursor_warp :: "env \<Rightarrow> nat \<Rightarrow> rat \<Rightarrow> rat \<Rightarrow> sway \<Rightarrow> sway" where
  "cursor_warp E k x y s =
     (if e_output_at E x y = None then s else upd_seat k (\<lambda>t. t\<lparr>s_cursor_x := x, s_cursor_y := y\<rparr>) s)"

definition cursor_warp_to_container :: "env \<Rightarrow> nat \<Rightarrow> id option \<Rightarrow> bool \<Rightarrow> sway \<Rightarrow> sway" where
  "cursor_warp_to_container E k con force s =
     (case con of None \<Rightarrow> s
      | Some c \<Rightarrow>
          if \<not> force \<and> box_contains_point (container_get_box s c) (s_cursor_x (seat_at s k)) (s_cursor_y (seat_at s k))
          then s
          else cursor_warp E k (c_x (cons s c) + c_width (cons s c) / 2) (c_y (cons s c) + c_height (cons s c) / 2) s)"

definition cursor_warp_to_workspace :: "env \<Rightarrow> nat \<Rightarrow> id option \<Rightarrow> sway \<Rightarrow> sway" where
  "cursor_warp_to_workspace E k ws s =
     (case ws of None \<Rightarrow> s
      | Some w \<Rightarrow> cursor_warp E k (w_x (wss s w) + of_int (w_width (wss s w)) / 2)
                                (w_y (wss s w) + of_int (w_height (wss s w)) / 2) s)"

definition seat_consider_warp_to_focus :: "env \<Rightarrow> nat \<Rightarrow> sway \<Rightarrow> sway" where
  "seat_consider_warp_to_focus E k s =
     (let t = seat_at s k; mode = op_mouse_warping (cfg_opts (cfg s)) in
      case seat_get_focus t of None \<Rightarrow> s
      | Some n \<Rightarrow>
          if mode = WARP_NO then s
          else if mode = WARP_OUTPUT
            \<and> (case node_get_output s n of None \<Rightarrow> False
               | Some p \<Rightarrow> box_contains_point (output_get_box s p) (s_cursor_x t) (s_cursor_y t)) then s
          else (case n of N_CONTAINER c \<Rightarrow> cursor_warp_to_container E k (Some c) False s
                | N_WORKSPACE w \<Rightarrow> cursor_warp_to_workspace E k (Some w) s
                | _ \<Rightarrow> s))"

section \<open>Columns\<close>

text \<open>column_remove: an empty column goes and its neighbours may take its width.\<close>

definition column_remove :: "env \<Rightarrow> id \<Rightarrow> bool \<Rightarrow> sway \<Rightarrow> int \<times> sway" where
  "column_remove E col grow_neighbors s =
     (case c_workspace (cons s col) of
        None \<Rightarrow> (-1, container_reap_empty E col s)
      | Some w \<Rightarrow>
          (let idx = index_of col (w_tiling (wss s w));
               col_w = c_width (cons s col);
               s = container_reap_empty E col s in
           if idx \<ge> 0 \<and> grow_neighbors \<and> w_tiling (wss s w) \<noteq> []
           then viewport_grow_to_fill w idx col_w s else (-1, s)))"

definition window_set_height_px :: "id \<Rightarrow> rat \<Rightarrow> sway \<Rightarrow> sway" where
  "window_set_height_px c h s =
     (let s = upd_con c (\<lambda>x. x\<lparr>c_height := h\<rparr>) s in
      case c_workspace (cons s c) of None \<Rightarrow> s
      | Some w \<Rightarrow> upd_con c (\<lambda>x. x\<lparr>c_height_fraction := workspace_height_to_fraction (wss s w) h\<rparr>) s)"

end
