(* ===== verification/Overview.thy ===== *)
theory Overview
  imports Handlers
begin

text \<open>
  The overview (sway/desktop/overview.c, overview_actions.c and the collecting part of
  overview_thumbnail.c): which containers it shows, where their pictures go, how keys and buttons
  pick one, and what is then done to its container. The picture of a container has the size that the
  environment answers, or none when there is nothing to show yet; the columns and floating containers
  of a workspace come in the order of the scene graph (e_in_scene).
\<close>

unbundle bit_operations_syntax

section \<open>What is shown\<close>

definition OVERVIEW_CONTENT_TILED :: "32 word" where "OVERVIEW_CONTENT_TILED = 1"
definition OVERVIEW_CONTENT_FLOATING :: "32 word" where "OVERVIEW_CONTENT_FLOATING = 2"
definition OVERVIEW_CONTENT_MINIMIZED :: "32 word" where "OVERVIEW_CONTENT_MINIMIZED = 4"

definition has_flag :: "32 word \<Rightarrow> 32 word \<Rightarrow> bool" where
  "has_flag w f \<longleftrightarrow> w AND f \<noteq> 0"

definition upd_overview :: "(overview_state \<Rightarrow> overview_state) \<Rightarrow> sway \<Rightarrow> sway" where
  "upd_overview f s = s\<lparr>overview := f (overview s)\<rparr>"

definition overview_pick_output :: "env \<Rightarrow> nat \<Rightarrow> sway \<Rightarrow> id option" where
  "overview_pick_output E k s =
     (let first = (if outputs s = [] then None else Some (hd (outputs s)));
          focused = (case seat_get_focused_workspace s (seat_at s k) of
                       Some w \<Rightarrow> (case w_output (wss s w) of Some q \<Rightarrow> Some q | None \<Rightarrow> first)
                     | None \<Rightarrow> first) in
      case e_output_at E (s_cursor_x (seat_at s k)) (s_cursor_y (seat_at s k)) of
        Some p \<Rightarrow> if o_enabled (outs s p) then Some p else focused
      | None \<Rightarrow> focused)"

definition overview_action_current_ws :: "env \<Rightarrow> nat \<Rightarrow> sway \<Rightarrow> id option" where
  "overview_action_current_ws E k s =
     (case overview_pick_output E k s of None \<Rightarrow> None | Some p \<Rightarrow> output_get_active_workspace E s p)"

definition overview_resolve_content :: "overview_scope \<Rightarrow> overview_action \<Rightarrow> 32 word \<Rightarrow> nat \<Rightarrow> sway \<Rightarrow> 32 word" where
  "overview_resolve_content scope action flags k s =
     (let flags = (if flags = 0 \<and> scope \<noteq> OVERVIEW_MINIMIZED
                   then OVERVIEW_CONTENT_TILED OR OVERVIEW_CONTENT_FLOATING OR OVERVIEW_CONTENT_MINIMIZED
                   else flags);
          flags = (if scope = OVERVIEW_MINIMIZED then OVERVIEW_CONTENT_MINIMIZED else flags) in
      if action = OVERVIEW_SWAP
      then (case seat_get_focused_container (seat_at s k) of None \<Rightarrow> flags
            | Some c \<Rightarrow> if container_is_floating s (container_toplevel_ancestor s c)
                       then OVERVIEW_CONTENT_FLOATING else OVERVIEW_CONTENT_TILED)
      else flags)"

definition overview_set_params :: "env \<Rightarrow> overview_scope \<Rightarrow> overview_action \<Rightarrow> 32 word \<Rightarrow> sway \<Rightarrow> sway" where
  "overview_set_params E scope action flags s =
     upd_overview (\<lambda>v. v\<lparr>ov_scope := scope, ov_action := action,
       ov_content := overview_resolve_content scope action flags (input_manager_current_seat E s) s\<rparr>) s"

text \<open>The containers offered to clients, each with the kind it was gathered as.\<close>

definition overview_collect_targets_ws :: "32 word \<Rightarrow> workspace \<Rightarrow> (id \<times> 32 word) list" where
  "overview_collect_targets_ws content ws =
     (if has_flag content OVERVIEW_CONTENT_TILED then map (\<lambda>c. (c, OVERVIEW_CONTENT_TILED)) (w_tiling ws) else [])
     @ (if has_flag content OVERVIEW_CONTENT_FLOATING then map (\<lambda>c. (c, OVERVIEW_CONTENT_FLOATING)) (w_floating ws) else [])
     @ (if has_flag content OVERVIEW_CONTENT_MINIMIZED then map (\<lambda>c. (c, OVERVIEW_CONTENT_MINIMIZED)) (w_minimized ws) else [])"

definition overview_collect_targets ::
    "env \<Rightarrow> overview_scope \<Rightarrow> overview_action \<Rightarrow> 32 word \<Rightarrow> nat \<Rightarrow> sway \<Rightarrow> (id \<times> 32 word) list" where
  "overview_collect_targets E scope action flags k s =
     (let content = overview_resolve_content scope action flags k s;
          content = (if action \<noteq> OVERVIEW_RESTORE then content AND NOT OVERVIEW_CONTENT_MINIMIZED else content) in
      if scope = OVERVIEW_CURRENT
      then (case overview_pick_output E k s of None \<Rightarrow> []
            | Some p \<Rightarrow> (case output_get_active_workspace E s p of None \<Rightarrow> []
                        | Some w \<Rightarrow> overview_collect_targets_ws content (wss s w)))
      else concat (map (\<lambda>w. overview_collect_targets_ws content (wss s w)) (all_workspaces s)))"

section \<open>The grid\<close>

text \<open>
  The pictures of one workspace share a horizontal slice of the output, in a grid as square as
  possible. The numbers 0.9f and 0.85f are the floats nearest to 9/10 and 17/20.
\<close>

definition MAX_SEC :: nat where "MAX_SEC = 256"

definition grid_cols :: "nat \<Rightarrow> nat" where
  "grid_cols n = hd (filter (\<lambda>c. n \<le> c * c) [0..<n + 1])"

definition grid_rows :: "nat \<Rightarrow> nat" where
  "grid_rows n = (n + grid_cols n - 1) div grid_cols n"

record slice =
  sl_x :: rat
  sl_y :: rat
  sl_w :: rat
  sl_h :: rat

definition tile_gap :: rat where "tile_gap = 16"
definition sec_gap :: rat where "sec_gap = 24"

text \<open>The slice of section i of n on an output.\<close>

definition section_slice :: "output_t \<Rightarrow> nat \<Rightarrow> nat \<Rightarrow> slice" where
  "section_slice p n i =
     (let ow = of_int (c_trunc (of_int (o_mode_width p) / o_scale p));
          oh = of_int (c_trunc (of_int (o_mode_height p) / o_scale p));
          avail_w = ow * (15099494 / 16777216); avail_h = oh * (14260634 / 16777216);
          base_x = of_int (o_lx p) + (ow - avail_w) / 2; base_y = of_int (o_ly p) + (oh - avail_h) / 2;
          h = (if n > 1 then (avail_h - sec_gap * of_nat (n - 1)) / of_nat n else avail_h);
          h = (if n > 1 \<and> h < 1 then avail_h else h) in
      \<lparr>sl_x = base_x, sl_y = base_y + of_nat i * (h + sec_gap), sl_w = avail_w, sl_h = h\<rparr>)"

definition grid_cell :: "slice \<Rightarrow> nat \<Rightarrow> nat \<Rightarrow> slice" where
  "grid_cell sl sn i =
     (let cell_w = sl_w sl / of_nat (grid_cols sn); cell_h = sl_h sl / of_nat (grid_rows sn) in
      \<lparr>sl_x = sl_x sl + of_nat (i mod grid_cols sn) * cell_w, sl_y = sl_y sl + of_nat (i div grid_cols sn) * cell_h,
       sl_w = cell_w, sl_h = cell_h\<rparr>)"

text \<open>The picture is scaled to fit its cell and centred in it.\<close>

definition picture_in :: "rat \<Rightarrow> slice \<Rightarrow> int \<Rightarrow> int \<Rightarrow> slice" where
  "picture_in scale cell w h =
     (let tw = of_int w / scale; th = of_int h / scale;
          fit = min ((sl_w cell - tile_gap) / tw) ((sl_h cell - tile_gap) / th) in
      \<lparr>sl_x = sl_x cell + (sl_w cell - tw * fit) / 2, sl_y = sl_y cell + (sl_h cell - th * fit) / 2,
       sl_w = tw * fit, sl_h = th * fit\<rparr>)"

definition slice_box :: "slice \<Rightarrow> box" where
  "slice_box sl = \<lparr>b_x = c_trunc (sl_x sl), b_y = c_trunc (sl_y sl), b_width = c_trunc (sl_w sl), b_height = c_trunc (sl_h sl)\<rparr>"

text \<open>The workspaces of the thumbnails in the order they first occur, at most MAX_SEC of them.\<close>

definition sections_of :: "overview_thumbnail list \<Rightarrow> id list" where
  "sections_of ts = take MAX_SEC (rev (remdups (rev (map th_ws ts))))"

definition place_thumbnail :: "output_t \<Rightarrow> overview_thumbnail list \<Rightarrow> nat \<Rightarrow> overview_thumbnail" where
  "place_thumbnail p ts k =
     (let t = ts ! k; secs = sections_of ts in
      if th_ws t \<notin> set secs then t
      else
        (let si = nat (index_of (th_ws t) secs);
             sn = length (filter (\<lambda>u. th_ws u = th_ws t) ts);
             i = length (filter (\<lambda>u. th_ws u = th_ws t) (take k ts)) in
         t\<lparr>th_dst := slice_box (picture_in (o_scale p)
             (grid_cell (section_slice p (length secs) si) sn i) (th_w t) (th_h t))\<rparr>))"

definition overview_layout_grid :: "id \<Rightarrow> sway \<Rightarrow> sway" where
  "overview_layout_grid p s =
     upd_overview (\<lambda>v. v\<lparr>ov_active := True,
       ov_thumbnails := map (place_thumbnail (outs s p) (ov_thumbnails v)) [0..<length (ov_thumbnails v)]\<rparr>) s"

section \<open>Opening and closing\<close>

definition overview_collect :: "env \<Rightarrow> overview_action \<Rightarrow> id \<Rightarrow> id \<Rightarrow> overview_state \<Rightarrow> overview_state" where
  "overview_collect E action w c v =
     (case e_thumbnail E c action of None \<Rightarrow> v
      | Some (width, height) \<Rightarrow>
          v\<lparr>ov_thumbnails := ov_thumbnails v @ [\<lparr>th_con = c, th_ws = w, th_action = action,
              th_w = width, th_h = height, th_dst = box_zero\<rparr>]\<rparr>)"

definition overview_collect_workspace :: "env \<Rightarrow> sway \<Rightarrow> 32 word \<Rightarrow> id \<Rightarrow> overview_state \<Rightarrow> overview_state" where
  "overview_collect_workspace E s content w v =
     (let v = (if has_flag content OVERVIEW_CONTENT_TILED
               then fold (overview_collect E (ov_action v) w) (e_in_scene E w False) v else v);
          v = (if has_flag content OVERVIEW_CONTENT_FLOATING
               then fold (overview_collect E (ov_action v) w) (e_in_scene E w True) v else v) in
      if has_flag content OVERVIEW_CONTENT_MINIMIZED
      then fold (overview_collect E OVERVIEW_RESTORE w) (w_minimized (wss s w)) v else v)"

definition overview_setup :: "env \<Rightarrow> 32 word \<Rightarrow> sway \<Rightarrow> overview_state \<Rightarrow> overview_state" where
  "overview_setup E mods s v =
     (let k = input_manager_current_seat E s in
      v\<lparr>ov_seat := k, ov_focus_con := seat_get_focused_container (seat_at s k), ov_digit_buf := 0,
        ov_digit_count := 0, ov_tab_cycled := False, ov_trigger_mods := mods, ov_hover := None, ov_thumbnails := []\<rparr>)"

definition overview_teardown :: "sway \<Rightarrow> sway" where
  "overview_teardown s = upd_overview (\<lambda>v. v\<lparr>ov_thumbnails := [], ov_hover := None, ov_active := False\<rparr>) s"

text \<open>
  overview_toggle on an output that has rendered; mods are the modifiers held on the keyboard. The
  minimized scope collects the minimize pools of all workspaces (overview_collect_minimized).
\<close>

definition overview_collect_minimized :: "env \<Rightarrow> sway \<Rightarrow> overview_state \<Rightarrow> overview_state" where
  "overview_collect_minimized E s v =
     fold (overview_collect_workspace E s OVERVIEW_CONTENT_MINIMIZED) (all_workspaces s) v"

definition overview_toggle :: "env \<Rightarrow> 32 word \<Rightarrow> sway \<Rightarrow> sway" where
  "overview_toggle E mods s =
     (case overview_pick_output E (input_manager_current_seat E s) s of None \<Rightarrow> s
      | Some p \<Rightarrow>
          if ov_active (overview s) then overview_teardown s
          else case output_get_active_workspace E s p of None \<Rightarrow> s
          | Some w \<Rightarrow>
              (let v = overview_setup E mods s (overview s);
                   v = (case ov_scope v of
                          OVERVIEW_MINIMIZED \<Rightarrow> overview_collect_minimized E s v
                        | OVERVIEW_ALL \<Rightarrow> fold (overview_collect_workspace E s (ov_content v)) (all_workspaces s) v
                        | OVERVIEW_CURRENT \<Rightarrow> overview_collect_workspace E s (ov_content v) w v) in
               overview_layout_grid p (s\<lparr>overview := v\<rparr>)))"

section \<open>Acting on a container\<close>

definition clamped_at :: "env \<Rightarrow> container \<Rightarrow> rat \<Rightarrow> rat \<Rightarrow> rat \<times> rat" where
  "clamped_at E con cx cy =
     (let lx = cx - c_width con / 2; ly = cy - c_height con / 2 in
      case e_output_at E cx cy of None \<Rightarrow> (lx, ly)
      | Some p \<Rightarrow>
          (let b = e_output_box E (Some p);
               lx = max lx (of_int (b_x b)); ly = max ly (of_int (b_y b));
               lx = (if lx + c_width con > of_int (b_x b + b_width b)
                     then of_int (b_x b + b_width b) - c_width con else lx);
               ly = (if ly + c_height con > of_int (b_y b + b_height b)
                     then of_int (b_y b + b_height b) - c_height con else ly) in
           (lx, ly)))"

definition take_floating_along :: "env \<Rightarrow> id \<Rightarrow> id \<Rightarrow> id \<Rightarrow> sway \<Rightarrow> sway" where
  "take_floating_along E target old dest s =
     (let old_output = w_output (wss s old);
          s = workspace_add_floating E dest target (container_detach target s);
          s = (if old_output \<noteq> w_output (wss s dest)
               then floating_fix_coordinates target (workspace_get_box s old) (workspace_get_box s dest) s else s);
          s = arrange_workspace dest (arrange_workspace old s) in
      if n_destroying (ninfo s (N_WORKSPACE old)) then s else workspace_consider_destroy E old s)"

definition pull_floating :: "env \<Rightarrow> nat \<Rightarrow> id \<Rightarrow> id \<Rightarrow> sway \<Rightarrow> sway" where
  "pull_floating E k target dest s =
     (let s = disable_fullscreen E target s;
          s = (case c_workspace (cons s target) of None \<Rightarrow> s
               | Some old \<Rightarrow> if old = dest then s else take_floating_along E target old dest s);
          (lx, ly) = clamped_at E (cons s target) (s_cursor_x (seat_at s k)) (s_cursor_y (seat_at s k));
          s = container_floating_move_to E target lx ly s;
          s = focus_container E k (Some target) s in
      container_raise_floating target s)"

definition pull_index :: "sway \<Rightarrow> nat \<Rightarrow> id \<Rightarrow> id \<Rightarrow> int" where
  "pull_index s k target dest =
     (let cols = w_tiling (wss s dest);
          fi = (case seat_get_focused_container (seat_at s k) of None \<Rightarrow> -1
                | Some f \<Rightarrow> (let col = container_toplevel_ancestor s f in
                    if col = target then -1 else index_of col cols));
          idx = w_focused_column_idx (wss s dest) in
      if fi \<ge> 0 then fi + 1
      else if idx < 0 \<or> idx > int (length cols) then int (length cols) else idx)"

definition overview_pull_container_to :: "env \<Rightarrow> nat \<Rightarrow> id \<Rightarrow> id \<Rightarrow> sway \<Rightarrow> sway" where
  "overview_pull_container_to E k target dest s =
     (let target = container_toplevel_ancestor s target in
      if container_is_floating s target
      then (if container_is_scratchpad_hidden s target then root_scratchpad_show E target s
            else pull_floating E k target dest s)
      else focus_container E k (Some target) (workspace_pull_column E dest target (pull_index s k target dest) s))"

definition overview_pull_container :: "env \<Rightarrow> nat \<Rightarrow> id \<Rightarrow> sway \<Rightarrow> sway" where
  "overview_pull_container E k target s =
     (case overview_action_current_ws E k s of None \<Rightarrow> s
      | Some dest \<Rightarrow> overview_pull_container_to E k target dest s)"

definition overview_swap_container :: "env \<Rightarrow> nat \<Rightarrow> id \<Rightarrow> id \<Rightarrow> sway \<Rightarrow> sway" where
  "overview_swap_container E k focus_top target s =
     (if focus_top = target then s
      else if container_is_floating s focus_top \<noteq> container_is_floating s target then s
      else
        (let s = (if container_is_floating s focus_top
                  then container_raise_floating target (workspace_swap_floating E focus_top target s)
                  else workspace_swap_columns E focus_top target s);
             s = seat_set_focus_raw E k (Some (N_CONTAINER target)) s;
             a = c_workspace (cons s focus_top); b = c_workspace (cons s target);
             s = arrange_ws a s in
         if b \<noteq> a then arrange_ws b s else s))"

definition overview_action_focus :: "env \<Rightarrow> overview_thumbnail \<Rightarrow> sway \<Rightarrow> sway" where
  "overview_action_focus E t s =
     (let k = ov_seat (overview s);
          s = (if Some (th_ws t) \<noteq> seat_get_focused_workspace s (seat_at s k) then workspace_switch E (th_ws t) s else s);
          target = container_toplevel_ancestor s (th_con t);
          s = focus_container E k (Some target) s in
      if container_is_floating s target then container_raise_floating target s else s)"

definition overview_action_swap :: "env \<Rightarrow> overview_thumbnail \<Rightarrow> sway \<Rightarrow> sway" where
  "overview_action_swap E t s =
     (let k = ov_seat (overview s) in
      case ov_focus_con (overview s) of
        None \<Rightarrow> focus_container E k (Some (container_toplevel_ancestor s (th_con t))) s
      | Some f \<Rightarrow> overview_swap_container E k (container_toplevel_ancestor s f)
                   (container_toplevel_ancestor s (th_con t)) s)"

definition overview_action_restore :: "env \<Rightarrow> overview_thumbnail \<Rightarrow> sway \<Rightarrow> sway" where
  "overview_action_restore E t s =
     (case overview_action_current_ws E (ov_seat (overview s)) s of
        Some dest \<Rightarrow> workspace_minimized_show_on E (th_con t) dest s
      | None \<Rightarrow> workspace_minimized_show E (th_con t) s)"

definition overview_dispatch_action :: "env \<Rightarrow> overview_thumbnail \<Rightarrow> sway \<Rightarrow> sway" where
  "overview_dispatch_action E t s =
     (case th_action t of
        OVERVIEW_FOCUS \<Rightarrow> overview_action_focus E t s
      | OVERVIEW_PULL \<Rightarrow> overview_pull_container E (ov_seat (overview s)) (th_con t) s
      | OVERVIEW_SWAP \<Rightarrow> overview_action_swap E t s
      | OVERVIEW_RESTORE \<Rightarrow> overview_action_restore E t s)"

section \<open>Pointer and keys\<close>

definition in_thumbnail :: "rat \<Rightarrow> rat \<Rightarrow> overview_thumbnail \<Rightarrow> bool" where
  "in_thumbnail x y t \<longleftrightarrow>
     (let b = th_dst t in of_int (b_x b) \<le> x \<and> x \<le> of_int (b_x b + b_width b)
        \<and> of_int (b_y b) \<le> y \<and> y \<le> of_int (b_y b + b_height b))"

definition overview_thumbnail_at :: "sway \<Rightarrow> rat \<Rightarrow> rat \<Rightarrow> overview_thumbnail option" where
  "overview_thumbnail_at s x y = List.find (in_thumbnail x y) (ov_thumbnails (overview s))"

definition hover_box :: "overview_thumbnail \<Rightarrow> box" where
  "hover_box t = (let b = th_dst t in
     \<lparr>b_x = b_x b - 4, b_y = b_y b - 4, b_width = b_width b + 8, b_height = b_height b + 8\<rparr>)"

definition overview_close_thumbnail :: "overview_thumbnail \<Rightarrow> id \<Rightarrow> sway \<Rightarrow> sway" where
  "overview_close_thumbnail t p s =
     (let s = container_for_each_child (th_con t) close_container_iterator (close_container_iterator (th_con t) s);
          s = upd_overview (\<lambda>v. v\<lparr>ov_thumbnails := remove1 t (ov_thumbnails v), ov_hover := None\<rparr>) s;
          s = overview_layout_grid p s in
      upd_overview (\<lambda>v. v\<lparr>ov_focus_con := seat_get_focused_container (seat_at s (ov_seat v))\<rparr>) s)"

datatype overview_button = BTN_LEFT | BTN_MIDDLE | BTN_RIGHT | BTN_OTHER

definition overview_handle_button :: "env \<Rightarrow> 32 word \<Rightarrow> nat \<Rightarrow> overview_button \<Rightarrow> bool \<Rightarrow> sway \<Rightarrow> sway" where
  "overview_handle_button E mods k button pressed s =
     (if \<not> pressed then s
      else if button = BTN_RIGHT then overview_toggle E mods s
      else if button \<noteq> BTN_LEFT \<and> button \<noteq> BTN_MIDDLE then s
      else case overview_thumbnail_at s (s_cursor_x (seat_at s k)) (s_cursor_y (seat_at s k)) of None \<Rightarrow> s
      | Some t \<Rightarrow>
          if button = BTN_MIDDLE
          then (case overview_pick_output E k s of None \<Rightarrow> s | Some p \<Rightarrow> overview_close_thumbnail t p s)
          else overview_toggle E mods (overview_dispatch_action E t s))"

definition overview_handle_motion :: "nat \<Rightarrow> sway \<Rightarrow> sway" where
  "overview_handle_motion k s =
     (if \<not> ov_active (overview s) then s
      else upd_overview (\<lambda>v. v\<lparr>ov_hover :=
        map_option hover_box (overview_thumbnail_at s (s_cursor_x (seat_at s k)) (s_cursor_y (seat_at s k)))\<rparr>) s)"

definition overview_find_hovered :: "overview_state \<Rightarrow> overview_thumbnail option" where
  "overview_find_hovered v =
     (case ov_hover v of None \<Rightarrow> None | Some b \<Rightarrow> List.find (\<lambda>t. hover_box t = b) (ov_thumbnails v))"

definition overview_cycle_hover :: "bool \<Rightarrow> sway \<Rightarrow> sway" where
  "overview_cycle_hover reverse s =
     (let ts = ov_thumbnails (overview s); n = length ts in
      if ts = [] then s
      else
        (let next = (case overview_find_hovered (overview s) of
               None \<Rightarrow> if reverse then n - 1 else 0
             | Some t \<Rightarrow> (let i = nat (index_of t ts) in
                 if reverse then (if i = 0 then n - 1 else i - 1) else (if i + 1 = n then 0 else i + 1))) in
         upd_overview (\<lambda>v. v\<lparr>ov_hover := Some (hover_box (ts ! next)), ov_tab_cycled := True\<rparr>) s))"

text \<open>The thumbnail that is highlighted, or else the first, is acted on and the overview closes.\<close>

definition confirm :: "env \<Rightarrow> 32 word \<Rightarrow> sway \<Rightarrow> sway" where
  "confirm E mods s =
     overview_toggle E mods
       (case (case overview_find_hovered (overview s) of Some t \<Rightarrow> Some t
              | None \<Rightarrow> if ov_thumbnails (overview s) = [] then None else Some (hd (ov_thumbnails (overview s)))) of
          Some t \<Rightarrow> overview_dispatch_action E t s
        | None \<Rightarrow> s)"

text \<open>The keys the overview knows; a modifier key carries the bit of its modifier.\<close>

datatype overview_key = K_TAB | K_ISO_LEFT_TAB | K_RETURN | K_KP_ENTER | K_DIGIT nat | K_ESCAPE | K_BACKSPACE
  | K_MODIFIER "32 word" | K_OTHER

definition overview_handle_key_release :: "env \<Rightarrow> 32 word \<Rightarrow> overview_key \<Rightarrow> sway \<Rightarrow> bool \<times> sway" where
  "overview_handle_key_release E mods key s =
     (let v = overview s in
      if \<not> ov_active v \<or> \<not> ov_tab_cycled v then (False, s)
      else case key of
        K_MODIFIER held \<Rightarrow>
          if ov_trigger_mods v \<noteq> 0 \<and> ov_trigger_mods v AND held = 0 then (False, s) else (True, confirm E mods s)
      | _ \<Rightarrow> (False, s))"

definition type_digit :: "env \<Rightarrow> 32 word \<Rightarrow> nat \<Rightarrow> sway \<Rightarrow> sway" where
  "type_digit E mods d s =
     (let idx = ov_digit_buf (overview s) * 10 + int d; count = ov_digit_count (overview s) + 1 in
      if count \<ge> 2
      then
        (let s = upd_overview (\<lambda>v. v\<lparr>ov_digit_buf := 0, ov_digit_count := 0\<rparr>) s; ts = ov_thumbnails (overview s) in
         overview_toggle E mods
           (if 1 \<le> idx \<and> idx \<le> int (length ts) then overview_dispatch_action E (ts ! nat (idx - 1)) s else s))
      else upd_overview (\<lambda>v. v\<lparr>ov_digit_buf := idx, ov_digit_count := count\<rparr>) s)"

definition overview_handle_key :: "env \<Rightarrow> 32 word \<Rightarrow> overview_key \<Rightarrow> sway \<Rightarrow> bool \<times> sway" where
  "overview_handle_key E mods key s =
     (if \<not> ov_active (overview s) then (False, s)
      else case key of
        K_TAB \<Rightarrow> (True, overview_cycle_hover False s)
      | K_ISO_LEFT_TAB \<Rightarrow> (True, overview_cycle_hover True s)
      | K_RETURN \<Rightarrow> (True, confirm E mods s)
      | K_KP_ENTER \<Rightarrow> (True, confirm E mods s)
      | K_DIGIT d \<Rightarrow> (True, type_digit E mods d s)
      | K_ESCAPE \<Rightarrow> (True, overview_toggle E mods s)
      | K_BACKSPACE \<Rightarrow>
          if ov_digit_count (overview s) > 0
          then (True, upd_overview (\<lambda>v. v\<lparr>ov_digit_buf := ov_digit_buf v div 10, ov_digit_count := ov_digit_count v - 1\<rparr>) s)
          else (False, upd_overview (\<lambda>v. v\<lparr>ov_digit_buf := 0, ov_digit_count := 0\<rparr>) s)
      | _ \<Rightarrow> (False, upd_overview (\<lambda>v. v\<lparr>ov_digit_buf := 0, ov_digit_count := 0\<rparr>) s))"

end
