(* ===== verification/Cmd_Window.thy ===== *)
theory Cmd_Window
  imports Handlers Overview
begin

text \<open>
  The commands that act on one window or container: kill, mark, unmark, sticky, floating, fullscreen,
  minimize, maximize and scratchpad (one file each under sway/commands/).
\<close>

section \<open>Closing and marking\<close>

definition cmd_kill :: handler where
  "cmd_kill x argv s =
     (if outputs s = [] then invalid no_outputs s
      else case h_container x of
        Some c \<Rightarrow> ok (container_for_each_child c close_container_iterator (close_container_iterator c s))
      | None \<Rightarrow>
          (case h_workspace x of None \<Rightarrow> ok s
           | Some w \<Rightarrow> ok (workspace_for_each_container w close_container_iterator s)))"

text \<open>The options before the mark: whether to add, whether to toggle, and what is left.\<close>

fun mark_options :: "string list \<Rightarrow> bool \<Rightarrow> bool \<Rightarrow> (bool \<times> bool \<times> string list) + string" where
  "mark_options [] add toggle = Inl (add, toggle, [])"
| "mark_options (a # rest) add toggle =
     (if \<not> has_prefix a ''--'' then Inl (add, toggle, a # rest)
      else if a = ''--add'' then mark_options rest True toggle
      else if a = ''--replace'' then mark_options rest False toggle
      else if a = ''--toggle'' then mark_options rest add True
      else Inr (''Unrecognized argument '' @ a))"

definition joined :: "string list \<Rightarrow> string" where
  "joined argv = (case join_args argv of Some t \<Rightarrow> t | None \<Rightarrow> [])"

definition execute_if_view :: "ctx \<Rightarrow> id \<Rightarrow> sway \<Rightarrow> sway" where
  "execute_if_view x c s = (if c_view (cons s c) \<noteq> None then view_execute_criteria x c s else s)"

definition set_mark :: "id \<Rightarrow> bool \<Rightarrow> bool \<Rightarrow> string \<Rightarrow> sway \<Rightarrow> sway" where
  "set_mark c add toggle mark s =
     (let had_mark = container_has_mark s c mark;
          s = (if add then s else container_clear_marks c s);
          s = snd (container_find_and_unmark mark s) in
      if \<not> toggle \<or> \<not> had_mark then container_add_mark c mark s else s)"

definition cmd_mark :: handler where
  "cmd_mark x argv s =
     needs_args argv ''mark'' EXPECTED_AT_LEAST 1 s
       (case h_container x of None \<Rightarrow> invalid ''Only containers can have marks'' s
        | Some c \<Rightarrow>
            (case mark_options argv False False of
               Inr e \<Rightarrow> invalid e s
             | Inl (add, toggle, rest) \<Rightarrow>
                 if rest = [] then invalid ''Expected [--add|--replace] [--toggle] <identifier>'' s
                 else ok (execute_if_view x c (set_mark c add toggle (joined rest) s))))"

definition cmd_unmark :: handler where
  "cmd_unmark x argv s =
     (let con = (if h_overridden x then h_container x else None) in
      case con of
        Some c \<Rightarrow>
          if argv = [] then ok (container_clear_marks c s)
          else if container_has_mark s c (joined argv) then ok (snd (container_find_and_unmark (joined argv) s))
          else ok s
      | None \<Rightarrow>
          if argv = [] then ok (root_for_each_container container_clear_marks s)
          else ok (snd (container_find_and_unmark (joined argv) s)))"

section \<open>Sticky, floating, fullscreen\<close>

definition move_to_active :: "env \<Rightarrow> id \<Rightarrow> id \<Rightarrow> sway \<Rightarrow> sway" where
  "move_to_active E c active s =
     (let old = c_workspace (cons s c);
          s = workspace_add_floating E active c (container_detach c s);
          s = container_handle_fullscreen_reparent E c s;
          s = arrange_workspace active s in
      case old of None \<Rightarrow> s | Some w \<Rightarrow> workspace_consider_destroy E w s)"

definition cmd_sticky :: handler where
  "cmd_sticky x argv s =
     needs_args argv ''sticky'' EXPECTED_EQUAL_TO 1 s
       (case h_container x of None \<Rightarrow> failure ''No current container'' s
        | Some c \<Rightarrow>
            (let s = upd_con c (\<lambda>y. y\<lparr>c_is_sticky := parse_boolean (argv ! 0) (c_is_sticky y)\<rparr>) s in
             if container_is_sticky_or_child s c \<and> \<not> container_is_scratchpad_hidden s c
             then (case active_beside (h_env x) s c of
                     None \<Rightarrow> failure ''Expected output to have a workspace'' s
                   | Some active \<Rightarrow>
                       if c_workspace (cons s c) \<noteq> Some active then ok (move_to_active (h_env x) c active s) else ok s)
             else ok s))"

text \<open>Without a container the children of the workspace are wrapped in one that can float.\<close>

definition container_to_float :: "ctx \<Rightarrow> sway \<Rightarrow> id option \<times> sway" where
  "container_to_float x s =
     (case h_container x of Some c \<Rightarrow> (Some c, s)
      | None \<Rightarrow>
          (case h_workspace x of None \<Rightarrow> (None, s)
           | Some w \<Rightarrow>
               if w_tiling (wss s w) = [] then (None, s)
               else (let (m, s) = workspace_wrap_children (h_env x) w s;
                         s = upd_ws w (\<lambda>y. y\<lparr>w_layout := L_HORIZ\<rparr>) s in
                     (Some m, seat_set_focus_container x (Some m) s))))"

definition set_floating_to :: "ctx \<Rightarrow> string \<Rightarrow> id \<Rightarrow> sway \<Rightarrow> sway" where
  "set_floating_to x arg c s =
     (let c = (if container_is_floating_or_child s c then container_toplevel_ancestor s c else c);
          wants = parse_boolean arg (container_is_floating s c);
          s = container_set_floating (h_env x) c wants s in
      arrange_ws (c_workspace (cons s c)) s)"

definition cmd_floating :: handler where
  "cmd_floating x argv s =
     needs_args argv ''floating'' EXPECTED_EQUAL_TO 1 s
       (if outputs s = [] then invalid no_outputs s
        else case container_to_float x s of
          (None, s) \<Rightarrow> invalid ''Can't float an empty workspace'' s
        | (Some c, s) \<Rightarrow>
            if container_is_scratchpad_hidden s c
            then invalid ''Can't change floating on hidden scratchpad container'' s
            else ok (set_floating_to x (argv ! 0) c s))"

definition cmd_fullscreen :: handler where
  "cmd_fullscreen x argv s =
     needs_args argv ''fullscreen'' EXPECTED_AT_MOST 2 s
       (if outputs s = [] then failure no_outputs s
        else case h_container x of None \<Rightarrow> ok s
        | Some c \<Rightarrow>
            (let c = (if c_workspace (cons s c) = None then container_toplevel_ancestor s c else c);
                 is_fullscreen = (c_fullscreen (cons s c) \<noteq> FULLSCREEN_NONE);
                 first_global = (argv \<noteq> [] \<and> str_caseeq (argv ! 0) ''global'');
                 enable = (if argv \<noteq> [] \<and> \<not> first_global then parse_boolean (argv ! 0) is_fullscreen
                           else \<not> is_fullscreen);
                 global = (if length argv \<ge> 2 then str_caseeq (argv ! 1) ''global'' else first_global);
                 mode = (if enable then (if global then FULLSCREEN_GLOBAL else FULLSCREEN_WORKSPACE) else FULLSCREEN_NONE) in
             ok (arrange_root_of x (container_set_fullscreen (h_env x) c mode s))))"

section \<open>Minimize, maximize, scratchpad\<close>

definition minimize_hide :: "ctx \<Rightarrow> id option \<Rightarrow> sway \<Rightarrow> reply" where
  "minimize_hide x con s =
     (case con of None \<Rightarrow> invalid ''No container to minimize'' s
      | Some c \<Rightarrow> if c_minimized (cons s c) then invalid ''Container is already minimized'' s
                 else ok (workspace_minimized_hide (h_env x) c s))"

definition minimize_show_n :: "ctx \<Rightarrow> int \<Rightarrow> sway \<Rightarrow> reply" where
  "minimize_show_n x n s =
     (case seat_get_focused_workspace s (my_seat x s) of None \<Rightarrow> invalid ''Minimize pool is empty'' s
      | Some w \<Rightarrow>
          (let pool = w_minimized (wss s w) in
           if pool = [] then invalid ''Minimize pool is empty'' s
           else if n < 1 \<or> n > int (length pool)
           then invalid (''No such minimized window: '' @ show_int n @ '' (pool has '' @ show_nat (length pool) @ '')'') s
           else ok (workspace_minimized_show (h_env x) (pool ! nat (n - 1)) s)))"

definition focused_node_container :: "ctx \<Rightarrow> sway \<Rightarrow> id option" where
  "focused_node_container x s =
     (case seat_get_focus (my_seat x s) of Some (N_CONTAINER c) \<Rightarrow> Some c | _ \<Rightarrow> None)"

definition hide_focused :: "ctx \<Rightarrow> sway \<Rightarrow> reply" where
  "hide_focused x s =
     (case focused_node_container x s of None \<Rightarrow> invalid ''No focusable container'' s
      | Some c \<Rightarrow> minimize_hide x (Some c) s)"

definition minimize_toggle :: "ctx \<Rightarrow> sway \<Rightarrow> reply" where
  "minimize_toggle x s =
     (case (if h_overridden x then h_container x else None) of
        Some c \<Rightarrow> if c_minimized (cons s c) then ok (workspace_minimized_show (h_env x) c s)
                 else minimize_hide x (Some c) s
      | None \<Rightarrow> (case focused_node_container x s of Some c \<Rightarrow> minimize_hide x (Some c) s
                | None \<Rightarrow> minimize_show_n x 1 s))"

text \<open>A number is read as a long and passed on as an int.\<close>

definition cmd_minimize :: handler where
  "cmd_minimize x argv s =
     (case argv of
        [] \<Rightarrow> hide_focused x s
      | a # rest \<Rightarrow>
          if a = ''hide''
          then (if h_overridden x then minimize_hide x (h_container x) s else hide_focused x s)
          else if a = ''show''
          then (case rest of
                  [] \<Rightarrow> minimize_show_n x 1 s
                | n # _ \<Rightarrow> (case c_strtol n of (v, rem) \<Rightarrow>
                    if rem \<noteq> [] \<or> v < 1 then invalid ''Expected minimize show [<n>]'' s
                    else minimize_show_n x (to_int32 v) s))
          else if a = ''toggle'' then minimize_toggle x s
          else if a = ''overview''
          then ok (overview_toggle (h_env x) 0
                 (overview_set_params (h_env x) OVERVIEW_MINIMIZED OVERVIEW_RESTORE OVERVIEW_CONTENT_MINIMIZED s))
          else invalid ''Expected minimize, minimize hide, minimize show [<n>], minimize overview or minimize toggle'' s)"

definition cmd_maximize :: handler where
  "cmd_maximize x argv s =
     (case (case (if h_overridden x then h_container x else None) of Some c \<Rightarrow> Some c
            | None \<Rightarrow> focused_node_container x s) of
        None \<Rightarrow> invalid ''No focusable container'' s
      | Some c \<Rightarrow> ok (container_toggle_maximize c s))"

definition float_root :: "sway \<Rightarrow> id \<Rightarrow> id" where
  "float_root s c = (if container_is_floating_or_child s c then container_toplevel_ancestor s c else c)"

definition scratchpad_toggle_auto :: "ctx \<Rightarrow> sway \<Rightarrow> sway" where
  "scratchpad_toggle_auto x s =
     (case seat_get_focused_workspace s (my_seat x s) of None \<Rightarrow> s
      | Some w \<Rightarrow>
          (let E = h_env x;
               focus = map_option (float_root s) (seat_get_focused_container (my_seat x s)) in
           if (case focus of None \<Rightarrow> False | Some f \<Rightarrow> c_scratchpad (cons s f))
           then root_scratchpad_hide E (the focus) s
           else case List.find (\<lambda>c. c_scratchpad (cons s c) \<and> focus \<noteq> Some c) (w_floating (wss s w)) of
             Some c \<Rightarrow> root_scratchpad_show E c s
           | None \<Rightarrow>
               (case List.find (\<lambda>c. c_parent (cons s c) \<noteq> None) (scratchpad s) of
                  Some c \<Rightarrow> emit (Ev_window c ''move'') (root_scratchpad_show E c s)
                | None \<Rightarrow>
                    (case scratchpad s of [] \<Rightarrow> s
                     | c # _ \<Rightarrow> emit (Ev_window c ''move'') (root_scratchpad_show E c s)))))"

definition scratchpad_toggle_container :: "ctx \<Rightarrow> id \<Rightarrow> sway \<Rightarrow> sway" where
  "scratchpad_toggle_container x c s =
     (if \<not> c_scratchpad (cons s c) then s
      else
        (let w = seat_get_focused_workspace s (my_seat x s) in
         if c_workspace (cons s c) \<noteq> None \<and> w = c_workspace (cons s c) then root_scratchpad_hide (h_env x) c s
         else emit (Ev_window c ''move'') (root_scratchpad_show (h_env x) c s)))"

definition cmd_scratchpad :: handler where
  "cmd_scratchpad x argv s =
     needs_args argv ''scratchpad'' EXPECTED_EQUAL_TO 1 s
       (if argv ! 0 \<noteq> ''show'' then invalid ''Expected scratchpad show'' s
        else if outputs s = [] then invalid no_outputs s
        else if scratchpad s = [] then invalid ''Scratchpad is empty'' s
        else if h_overridden x
        then (case map_option (float_root s) (h_container x) of
                None \<Rightarrow> invalid ''Container is not in scratchpad.'' s
              | Some c \<Rightarrow> if \<not> c_scratchpad (cons s c) then invalid ''Container is not in scratchpad.'' s
                         else ok (scratchpad_toggle_container x c s))
        else ok (scratchpad_toggle_auto x s))"

end
