(* ===== verification/Cmd_Column.thy ===== *)
theory Cmd_Column
  imports Cmd_Window
begin

text \<open>
  The commands on columns and layouts: swap, pull, take, release, evenh, evenv, split and layout (one
  file each under sway/commands/).
\<close>

section \<open>Swap and pull\<close>

definition test_id :: "sway \<Rightarrow> 32 word \<Rightarrow> id \<Rightarrow> bool" where
  "test_id s wid c = (case c_view (cons s c) of None \<Rightarrow> False
     | Some v \<Rightarrow> v_shell v = ''xwayland'' \<and> v_x11_window_id v = wid)"

text \<open>The container a swap is asked with; Inr when the syntax is wrong.\<close>

definition swap_partner :: "string \<Rightarrow> string \<Rightarrow> sway \<Rightarrow> id option + unit" where
  "swap_partner kind value s =
     (if str_caseeq kind ''id'' then Inl (root_find_container s (test_id s (word_of_int (c_strtol0 value))))
      else if str_caseeq kind ''con_id'' then Inl (root_find_container s (\<lambda>c. int c = c_atoi value))
      else if str_caseeq kind ''mark'' then Inl (root_find_container s (\<lambda>c. value \<in> set (c_marks (cons s c))))
      else Inr ())"

definition swap_error :: "sway \<Rightarrow> string \<Rightarrow> string \<Rightarrow> id option \<Rightarrow> id option \<Rightarrow> string option" where
  "swap_error s kind value current other =
     (case other of None \<Rightarrow> Some (''Failed to find '' @ kind @ '' '' @ value)
      | Some d \<Rightarrow>
          (case current of None \<Rightarrow> Some ''Can only swap with containers and views''
           | Some c \<Rightarrow>
               if c = d then Some ''Cannot swap a container with itself''
               else if container_has_ancestor s c d \<or> container_has_ancestor s d c
               then Some ''Cannot swap ancestor and descendant'' else None))"

definition arrange_after_swap :: "ctx \<Rightarrow> id \<Rightarrow> id \<Rightarrow> sway \<Rightarrow> sway" where
  "arrange_after_swap x c d s =
     (if fullscreen_global s \<noteq> None then arrange_root_of x s
      else
        (let lb = e_layout_box (h_env x);
             cp = node_get_parent s (N_CONTAINER c); dp = node_get_parent s (N_CONTAINER d);
             s = (case cp of None \<Rightarrow> s | Some n \<Rightarrow> arrange_node lb n s) in
         case dp of None \<Rightarrow> s | Some n \<Rightarrow> if cp \<noteq> dp then arrange_node lb n s else s))"

definition swap_expected :: string where
  "swap_expected = ''Expected swap container with id|con_id|mark <arg>''"

definition cmd_swap :: handler where
  "cmd_swap x argv s =
     (if argv = []
      then (case (seat_get_focused_container (my_seat x s), h_container x) of
              (Some f, Some t) \<Rightarrow> ok (overview_swap_container (h_env x) (the_seat x s)
                (container_toplevel_ancestor s f) (container_toplevel_ancestor s t) s)
            | _ \<Rightarrow> ok s)
      else needs_args argv ''swap'' EXPECTED_AT_LEAST 4 s
        (if outputs s = [] then invalid no_outputs s
         else if \<not> str_caseeq (argv ! 0) ''container'' \<or> \<not> str_caseeq (argv ! 1) ''with''
         then invalid swap_expected s
         else
           (let value = joined (drop 3 argv) in
            case swap_partner (argv ! 2) value s of
              Inr _ \<Rightarrow> invalid swap_expected s
            | Inl other \<Rightarrow>
                (case swap_error s (argv ! 2) value (h_container x) other of
                   Some e \<Rightarrow> failure e s
                 | None \<Rightarrow>
                     (let c = the (h_container x); d = the other in
                      ok (arrange_after_swap x c d (container_swap (h_env x) c d s)))))))"

definition cmd_pull :: handler where
  "cmd_pull x argv s =
     (if argv \<noteq> [] then invalid ''Usage: pull'' s
      else case h_container x of None \<Rightarrow> ok s
      | Some c \<Rightarrow> ok (overview_pull_container (h_env x) (the_seat x s) c s))"

section \<open>Take and release\<close>

text \<open>The children of the right column go to this one, the first one first.\<close>

fun take_loop :: "nat \<Rightarrow> env \<Rightarrow> id \<Rightarrow> id \<Rightarrow> sway \<Rightarrow> sway" where
  "take_loop 0 E con right s = s"
| "take_loop (Suc n) E con right s =
     (case c_children (cons s right) of [] \<Rightarrow> s
      | child # _ \<Rightarrow> take_loop n E con right (container_add_child E con child (container_detach child s)))"

definition tiled_column :: "ctx \<Rightarrow> sway \<Rightarrow> (id \<times> id) option" where
  "tiled_column x s =
     (case h_container x of None \<Rightarrow> None
      | Some c \<Rightarrow>
          if container_is_floating s c \<or> c_fullscreen (cons s c) \<noteq> FULLSCREEN_NONE then None
          else (let col = container_toplevel_ancestor s c in
                case c_workspace (cons s col) of None \<Rightarrow> None | Some w \<Rightarrow> Some (col, w)))"

definition take_column :: "env \<Rightarrow> id \<Rightarrow> id \<Rightarrow> int \<Rightarrow> id \<Rightarrow> sway \<Rightarrow> sway" where
  "take_column E col w idx right s =
     (let s = (if c_view (cons s right) = None then take_loop (length (c_children (cons s right))) E col right s
               else container_add_child E col right (container_detach right s));
          freed = c_width (cons s right);
          s = snd (column_remove E right False s);
          s = snd (viewport_grow_evenly w freed s);
          s = node_set_dirty (N_CONTAINER col) s in
      arrange_workspace w s)"

definition cmd_take :: handler where
  "cmd_take x argv s =
     (case tiled_column x s of None \<Rightarrow> ok s
      | Some (col, w) \<Rightarrow>
          (let cols = w_tiling (wss s w); idx = index_of col cols in
           if idx < 0 \<or> idx + 1 \<ge> int (length cols) then ok s
           else ok (take_column (h_env x) col w idx (cols ! nat (idx + 1)) s)))"

text \<open>The children from start on move to the new column, the last one first.\<close>

fun release_loop :: "env \<Rightarrow> id \<Rightarrow> id list \<Rightarrow> sway \<Rightarrow> sway" where
  "release_loop E newcol [] s = s"
| "release_loop E newcol (child # rest) s =
     release_loop E newcol rest (container_insert_child E newcol child 0 (container_detach child s))"

definition release_children :: "env \<Rightarrow> id \<Rightarrow> id \<Rightarrow> nat \<Rightarrow> sway \<Rightarrow> sway" where
  "release_children E col w start s =
     (let children = c_children (cons s col);
          cidx = index_of col (w_tiling (wss s w));
          (newcol, s) = container_create None s;
          s = upd_con newcol (\<lambda>y. y\<lparr>c_layout := L_VERT, c_workspace := Some w\<rparr>) s;
          s = workspace_fit_new_column w newcol (cidx + 1) s;
          s = release_loop E newcol (rev (drop start children)) s;
          s = upd_ws w (\<lambda>y. y\<lparr>w_tiling := insert_at (nat (cidx + 1)) newcol (w_tiling y)\<rparr>) s;
          s = upd_con newcol (\<lambda>y. y\<lparr>c_parent := None\<rparr>) s;
          s = (if length (c_children (cons s col)) = 1 then upd_con col (\<lambda>y. y\<lparr>c_layout := L_VERT\<rparr>) s else s);
          s = node_set_dirty (N_CONTAINER newcol) (node_set_dirty (N_CONTAINER col) s) in
      arrange_workspace w s)"

definition cmd_release :: handler where
  "cmd_release x argv s =
     (case tiled_column x s of None \<Rightarrow> ok s
      | Some (col, w) \<Rightarrow>
          (let children = c_children (cons s col);
               split_idx = (case seat_get_focused_container (my_seat x s) of None \<Rightarrow> -1
                            | Some f \<Rightarrow> index_of f children) in
           if length children < 2 then ok s
           else if split_idx \<ge> 0 \<and> split_idx < int (length children) - 1
           then ok (release_children (h_env x) col w (nat (split_idx + 1)) s)
           else ok s))"

section \<open>Even sizes\<close>

fun set_widths :: "id list \<Rightarrow> rat \<Rightarrow> sway \<Rightarrow> sway" where
  "set_widths [] width s = s"
| "set_widths (c # cs) width s = set_widths cs width (node_set_dirty (N_CONTAINER c) (column_set_width_px c width s))"

fun set_heights :: "id list \<Rightarrow> rat \<Rightarrow> sway \<Rightarrow> sway" where
  "set_heights [] height s = s"
| "set_heights (c # cs) height s = set_heights cs height (node_set_dirty (N_CONTAINER c) (window_set_height_px c height s))"

definition cmd_evenh :: handler where
  "cmd_evenh x argv s =
     (case h_container x of None \<Rightarrow> ok s
      | Some c \<Rightarrow>
          (case c_workspace (cons s (container_toplevel_ancestor s c)) of None \<Rightarrow> ok s
           | Some w \<Rightarrow>
               (let ws = wss s w; n = length (w_tiling ws) in
                if n < 2 then ok s
                else ok (arrange_workspace w
                  (set_widths (w_tiling ws) (of_int (w_width ws - (int n - 1) * w_gaps_inner ws) / of_nat n) s)))))"

definition cmd_evenv :: handler where
  "cmd_evenv x argv s =
     (case h_container x of None \<Rightarrow> ok s
      | Some c \<Rightarrow>
          (let col = container_toplevel_ancestor s c; n = length (c_children (cons s col)) in
           if c_layout (cons s col) \<noteq> L_VERT \<or> n < 2 then ok s
           else case c_workspace (cons s col) of None \<Rightarrow> ok s
           | Some w \<Rightarrow> ok (arrange_workspace w
               (set_heights (c_children (cons s col))
                 ((c_height (cons s col) - of_int ((int n - 1) * w_gaps_inner (wss s w))) / of_nat n) s))))"

section \<open>Split\<close>

definition do_unsplit :: "ctx \<Rightarrow> sway \<Rightarrow> reply" where
  "do_unsplit x s =
     (case (case h_container x of None \<Rightarrow> None | Some c \<Rightarrow> c_parent (cons s c)) of
        None \<Rightarrow> failure ''Can only flatten a child container with no siblings'' s
      | Some p \<Rightarrow>
          if length (c_children (cons s p)) = 1
          then ok (arrange_root_or x (h_workspace x) (snd (container_flatten (h_env x) p s)))
          else failure ''Can only flatten a child container with no siblings'' s)"

text \<open>Splitting itself is a no-op since the columns: do_split only reports success.\<close>

definition cmd_split :: handler where
  "cmd_split x argv s =
     needs_args argv ''split'' EXPECTED_EQUAL_TO 1 s
       (if outputs s = [] then invalid no_outputs s
        else if is_word (argv ! 0) [''v'', ''vertical'', ''h'', ''horizontal'', ''t'', ''toggle''] then ok s
        else if is_word (argv ! 0) [''n'', ''none''] then do_unsplit x s
        else failure ''Invalid split command (expected either horizontal or vertical).'' s)"

definition cmd_splitv :: handler where
  "cmd_splitv x argv s = needs_args argv ''splitv'' EXPECTED_EQUAL_TO 0 s (ok s)"

definition cmd_splith :: handler where
  "cmd_splith x argv s = needs_args argv ''splith'' EXPECTED_EQUAL_TO 0 s (ok s)"

definition cmd_splitt :: handler where
  "cmd_splitt x argv s = needs_args argv ''splitt'' EXPECTED_EQUAL_TO 0 s (ok s)"

section \<open>Layout\<close>

definition parse_layout_string :: "string \<Rightarrow> container_layout" where
  "parse_layout_string a =
     (if str_caseeq a ''splith'' then L_HORIZ
      else if str_caseeq a ''splitv'' then L_VERT
      else if str_caseeq a ''tabbed'' then L_TABBED
      else if str_caseeq a ''stacking'' then L_STACKED
      else L_NONE)"

text \<open>
  The output is the one of the workspace; layout.c takes it to exist, and reads its height and width without
  a check where the model answers L_HORIZ.
\<close>

definition toggle_split_layout :: "sway \<Rightarrow> container_layout \<Rightarrow> container_layout \<Rightarrow> id option \<Rightarrow> container_layout" where
  "toggle_split_layout s layout prev output =
     (if layout = L_HORIZ then L_VERT
      else if layout = L_VERT then L_HORIZ
      else if prev \<noteq> L_NONE then prev
      else if cfg_default_orientation (cfg s) \<noteq> L_NONE then cfg_default_orientation (cfg s)
      else case output of None \<Rightarrow> L_HORIZ
      | Some p \<Rightarrow> if o_height (outs s p) > o_width (outs s p) then L_VERT else L_HORIZ)"

text \<open>
  The loop over the layouts named by the arguments: it starts behind the current one, wraps around
  and skips what it does not know. Out of options it would run forever, then its value is None.
\<close>

definition layout_named :: "container_layout \<Rightarrow> string \<Rightarrow> container_layout option" where
  "layout_named split a =
     (if parse_layout_string a \<noteq> L_NONE then Some (parse_layout_string a)
      else if a = ''split'' then Some split else None)"

partial_function (option) layout_cycle ::
    "(string \<Rightarrow> container_layout option) \<Rightarrow> string list \<Rightarrow> nat \<Rightarrow> nat \<Rightarrow> container_layout option" where
  "layout_cycle named argv cur i =
     (if i = cur then Some L_NONE
      else let i = (if i \<ge> length argv then 1 else i) in
        case named (argv ! i) of Some l \<Rightarrow> Some l | None \<Rightarrow> layout_cycle named argv cur (i + 1))"

definition is_current_layout :: "container_layout \<Rightarrow> string \<Rightarrow> bool" where
  "is_current_layout layout a \<longleftrightarrow>
     parse_layout_string a = layout \<or> a = ''split'' \<and> (layout = L_VERT \<or> layout = L_HORIZ)"

definition get_layout_toggle :: "sway \<Rightarrow> string list \<Rightarrow> container_layout \<Rightarrow> container_layout \<Rightarrow> id option
    \<Rightarrow> container_layout option" where
  "get_layout_toggle s argv layout prev output =
     (let split = toggle_split_layout s layout prev output in
      if length argv = 1 then Some split
      else if length argv = 2
      then Some (if str_caseeq (argv ! 1) ''split'' then split
                 else if str_caseeq (argv ! 1) ''all''
                 then (if layout = L_HORIZ then L_VERT else if layout = L_VERT then L_STACKED
                       else if layout = L_STACKED then L_TABBED else L_HORIZ)
                 else L_NONE)
      else
        (let cur = (case List.find (\<lambda>i. is_current_layout layout (argv ! i)) [1..<length argv] of
                       Some i \<Rightarrow> i | None \<Rightarrow> length argv) in
         layout_cycle (layout_named split) argv cur (cur + 1)))"

definition get_layout :: "sway \<Rightarrow> string list \<Rightarrow> container_layout \<Rightarrow> container_layout \<Rightarrow> id option
    \<Rightarrow> container_layout option" where
  "get_layout s argv layout prev output =
     (if parse_layout_string (argv ! 0) \<noteq> L_NONE then Some (parse_layout_string (argv ! 0))
      else if str_caseeq (argv ! 0) ''default'' then Some prev
      else if str_caseeq (argv ! 0) ''toggle'' then get_layout_toggle s argv layout prev output
      else Some L_NONE)"

text \<open>The parent of the container, or its grandparent when both have one child: then the parent goes.\<close>

definition layout_target :: "env \<Rightarrow> id \<Rightarrow> sway \<Rightarrow> id option \<times> sway" where
  "layout_target E c s =
     (case c_parent (cons s c) of None \<Rightarrow> (None, s)
      | Some p \<Rightarrow>
          (case (c_children (cons s p), c_parent (cons s p)) of
             ([child], Some g) \<Rightarrow>
               if length (c_children (cons s g)) = 1
               then (Some g, container_begin_destroy E p (container_replace E p child s))
               else (Some p, s)
           | _ \<Rightarrow> (Some p, s)))"

definition is_split :: "container_layout \<Rightarrow> bool" where
  "is_split l \<longleftrightarrow> l \<noteq> L_TABBED \<and> l \<noteq> L_STACKED"

definition set_container_layout :: "id \<Rightarrow> container_layout \<Rightarrow> sway \<Rightarrow> sway" where
  "set_container_layout c l s =
     (let s = (if is_split (c_layout (cons s c)) then upd_con c (\<lambda>y. y\<lparr>c_prev_split_layout := c_layout y\<rparr>) s else s);
          s = upd_con c (\<lambda>y. y\<lparr>c_layout := l\<rparr>) s in
      container_update_representation c s)"

definition set_workspace_layout :: "id \<Rightarrow> container_layout \<Rightarrow> sway \<Rightarrow> sway" where
  "set_workspace_layout w l s =
     (let s = (if is_split (w_layout (wss s w)) then upd_ws w (\<lambda>y. y\<lparr>w_prev_split_layout := w_layout y\<rparr>) s else s);
          s = upd_ws w (\<lambda>y. y\<lparr>w_layout := l\<rparr>) s in
      workspace_update_representation w s)"

definition wrap_with_layout :: "env \<Rightarrow> id \<Rightarrow> container_layout \<Rightarrow> sway \<Rightarrow> sway" where
  "wrap_with_layout E w l s =
     (let (m, s) = workspace_wrap_children E w s in
      container_update_representation m (upd_con m (\<lambda>y. y\<lparr>c_layout := l\<rparr>) s))"

definition change_layout :: "ctx \<Rightarrow> id option \<Rightarrow> id \<Rightarrow> container_layout \<Rightarrow> sway \<Rightarrow> sway" where
  "change_layout x target w l s =
     (case target of
        Some c \<Rightarrow>
          if l = L_HORIZ \<and> c_parent (cons s c) = None \<and> c_workspace (cons s c) \<noteq> None then s
          else arrange_root_or x (Some w) (set_container_layout c l s)
      | None \<Rightarrow>
          arrange_root_or x (Some w)
            (if h_container x \<noteq> None then wrap_with_layout (h_env x) w l s else set_workspace_layout w l s))"

definition cmd_layout :: "ctx \<Rightarrow> string list \<Rightarrow> sway \<Rightarrow> reply option" where
  "cmd_layout x argv s =
     (case checkarg (int (length argv)) ''layout'' EXPECTED_AT_LEAST 1 of Some e \<Rightarrow> Some (e, s)
      | None \<Rightarrow>
          if outputs s = [] then Some (invalid no_outputs s)
          else if (case h_container x of None \<Rightarrow> False | Some c \<Rightarrow> container_is_floating s c)
          then Some (failure ''Unable to change layout of floating windows'' s)
          else case h_workspace x of None \<Rightarrow> Some (ok s)
          | Some w \<Rightarrow>
              (let (target, s) = (case h_container x of None \<Rightarrow> (None, s) | Some c \<Rightarrow> layout_target (h_env x) c s);
                   (old, prev, v) = (case target of
                      Some c \<Rightarrow> (c_layout (cons s c), c_prev_split_layout (cons s c), c_workspace (cons s c))
                    | None \<Rightarrow> (w_layout (wss s w), w_prev_split_layout (wss s w), Some w)) in
               case get_layout s argv old prev (case v of None \<Rightarrow> None | Some v \<Rightarrow> w_output (wss s v)) of
                 None \<Rightarrow> None
               | Some l \<Rightarrow>
                   if l = L_NONE then Some (invalid ''Expected a layout'' s)
                   else if l = old then Some (ok s)
                   else Some (ok (change_layout x target w l s))))"

end
