(* ===== verification/Cmd_View.thy ===== *)
theory Cmd_View
  imports Cmd_Window
begin

text \<open>
  The commands that change how one view or workspace behaves: border, opacity, urgent, title_format,
  allow_tearing, max_render_time, shortcuts_inhibitor, default_float, nop, exit, exec and exec_always
  (one file each under sway/commands/).
\<close>

section \<open>Borders\<close>

definition view_set_csd_from_server :: "id \<Rightarrow> bool \<Rightarrow> sway \<Rightarrow> sway" where
  "view_set_csd_from_server c enabled s =
     (case c_view (cons s c) of None \<Rightarrow> s
      | Some v \<Rightarrow>
          upd_view c (\<lambda>v. v\<lparr>v_using_csd := enabled\<rparr>) (if v_xdg_decoration v then emit (Ev_csd c enabled) s else s))"

definition csd_for_border :: "id \<Rightarrow> container_border \<Rightarrow> sway \<Rightarrow> sway" where
  "csd_for_border c new_border s =
     (case c_view (cons s c) of None \<Rightarrow> s
      | Some v \<Rightarrow>
          if v_using_csd v \<and> new_border \<noteq> B_CSD then view_set_csd_from_server c False s
          else if \<not> v_using_csd v \<and> new_border = B_CSD
          then upd_con c (\<lambda>y. y\<lparr>c_saved_border := c_border y\<rparr>) (view_set_csd_from_server c True s)
          else s)"

definition set_border :: "id \<Rightarrow> container_border \<Rightarrow> sway \<Rightarrow> sway" where
  "set_border c new_border s =
     (let s = csd_for_border c new_border s;
          s = (if new_border \<noteq> B_CSD \<or> container_is_floating s c
               then upd_con c (\<lambda>y. y\<lparr>c_border := new_border\<rparr>) s else s) in
      upd_view c (\<lambda>v. v\<lparr>v_using_csd := (new_border = B_CSD)\<rparr>) s)"

definition border_toggle :: "id \<Rightarrow> sway \<Rightarrow> sway" where
  "border_toggle c s =
     (if (case c_view (cons s c) of None \<Rightarrow> False | Some v \<Rightarrow> v_using_csd v) then set_border c B_NONE s
      else case c_border (cons s c) of
        B_NONE \<Rightarrow> set_border c B_PIXEL s
      | B_PIXEL \<Rightarrow> set_border c B_NORMAL s
      | B_NORMAL \<Rightarrow> set_border c
          (if (case c_view (cons s c) of None \<Rightarrow> False | Some v \<Rightarrow> v_xdg_decoration v) then B_CSD else B_NONE) s
      | B_CSD \<Rightarrow> s)"

definition border_command :: "id \<Rightarrow> view_t \<Rightarrow> string \<Rightarrow> sway \<Rightarrow> sway + string" where
  "border_command c v a s =
     (if a = ''none'' then Inl (set_border c B_NONE s)
      else if a = ''normal'' then Inl (set_border c B_NORMAL s)
      else if a = ''pixel'' then Inl (set_border c B_PIXEL s)
      else if a = ''csd''
      then (if v_xdg_decoration v then Inl (set_border c B_CSD s)
            else Inr ''This window doesn't support client side decorations'')
      else if a = ''toggle'' then Inl (border_toggle c s)
      else Inr ''Expected border <none|normal|pixel|csd|toggle> or border pixel <px>'')"

definition cmd_border :: handler where
  "cmd_border x argv s =
     needs_args argv ''border'' EXPECTED_AT_LEAST 1 s
       (case h_container x of None \<Rightarrow> invalid ''Only views can have borders'' s
        | Some c \<Rightarrow>
            (case c_view (cons s c) of None \<Rightarrow> invalid ''Only views can have borders'' s
             | Some v \<Rightarrow>
                 (case border_command c v (argv ! 0) s of
                    Inr e \<Rightarrow> invalid e s
                  | Inl s \<Rightarrow>
                      (let s = (if length argv = 2
                                then upd_con c (\<lambda>y. y\<lparr>c_border_thickness := c_atoi (argv ! 1)\<rparr>) s else s);
                           s = (if container_is_floating s c then container_set_geometry_from_content c s else s) in
                       ok (arrange_container c s)))))"

section \<open>Settings of a view\<close>

definition of_view :: "ctx \<Rightarrow> sway \<Rightarrow> string \<Rightarrow> (id \<Rightarrow> view_t \<Rightarrow> reply) \<Rightarrow> reply" where
  "of_view x s msg f =
     (case h_container x of None \<Rightarrow> invalid msg s
      | Some c \<Rightarrow> (case c_view (cons s c) of None \<Rightarrow> invalid msg s | Some v \<Rightarrow> f c v))"

definition cmd_urgent :: handler where
  "cmd_urgent x argv s =
     needs_args argv ''urgent'' EXPECTED_EQUAL_TO 1 s
       (if h_container x = None then failure ''No current container'' s
        else of_view x s ''Only views can be urgent'' (\<lambda>c v.
          if argv ! 0 = ''allow'' then ok (upd_view c (\<lambda>v. v\<lparr>v_allow_request_urgent := True\<rparr>) s)
          else if argv ! 0 = ''deny'' then ok (upd_view c (\<lambda>v. v\<lparr>v_allow_request_urgent := False\<rparr>) s)
          else ok (view_set_urgent (h_env x) c (parse_boolean (argv ! 0) (v_urgent v)) s)))"

definition cmd_title_format :: handler where
  "cmd_title_format x argv s =
     needs_args argv ''title_format'' EXPECTED_AT_LEAST 1 s
       (case h_container x of None \<Rightarrow> invalid ''Only valid containers can have a title_format'' s
        | Some c \<Rightarrow>
            (let s = upd_con c (\<lambda>y. y\<lparr>c_title_format := join_args argv\<rparr>) s in
             ok (if c_view (cons s c) \<noteq> None then view_update_title c True s else container_update_representation c s)))"

definition cmd_allow_tearing :: handler where
  "cmd_allow_tearing x argv s =
     needs_args argv ''allow_tearing'' EXPECTED_AT_LEAST 1 s
       (of_view x s ''Tearing can only be allowed on views'' (\<lambda>c v.
          ok (upd_view c (\<lambda>v. v\<lparr>v_tearing_mode :=
            if parse_boolean (argv ! 0) True then TEARING_OVERRIDE_TRUE else TEARING_OVERRIDE_FALSE\<rparr>) s)))"

text \<open>Off, or a number of milliseconds; the number is cut to an int before it is compared.\<close>

definition render_time :: "string \<Rightarrow> int option" where
  "render_time a =
     (if a = ''off'' then Some 0
      else case c_strtol a of (v, rest) \<Rightarrow> if rest \<noteq> [] \<or> to_int32 v \<le> 0 then None else Some (to_int32 v))"

definition cmd_max_render_time :: handler where
  "cmd_max_render_time x argv s =
     (case argv of [] \<Rightarrow> invalid ''Missing max render time argument.'' s
      | a # _ \<Rightarrow>
          (case render_time a of None \<Rightarrow> invalid ''Invalid max render time.'' s
           | Some t \<Rightarrow> of_view x s ''Only views can have a max_render_time'' (\<lambda>c v.
               ok (upd_view c (\<lambda>v. v\<lparr>v_max_render_time := t\<rparr>) s))))"

definition cmd_shortcuts_inhibitor :: handler where
  "cmd_shortcuts_inhibitor x argv s =
     needs_args argv ''shortcuts_inhibitor'' EXPECTED_EQUAL_TO 1 s
       (of_view x s ''Only views can have shortcuts inhibitors'' (\<lambda>c v.
          if argv ! 0 = ''enable'' then ok (upd_view c (\<lambda>v. v\<lparr>v_shortcuts_inhibit := SHORTCUTS_INHIBIT_ENABLE\<rparr>) s)
          else if argv ! 0 = ''disable'' then ok (upd_view c (\<lambda>v. v\<lparr>v_shortcuts_inhibit := SHORTCUTS_INHIBIT_DISABLE\<rparr>) s)
          else invalid ''Expected shortcuts_inhibitor enable|disable'' s))"

definition set_default_float :: "id \<Rightarrow> (bool \<Rightarrow> bool) \<Rightarrow> sway \<Rightarrow> sway" where
  "set_default_float w f s =
     emit (Ev_workspace (Some w) (Some w) ''float'') (upd_ws w (\<lambda>y. y\<lparr>w_default_float := f (w_default_float y)\<rparr>) s)"

text \<open>With more than one argument the source returns NULL instead of an error, and its caller reads it: None.\<close>

definition cmd_default_float :: "ctx \<Rightarrow> string list \<Rightarrow> sway \<Rightarrow> reply option" where
  "cmd_default_float x argv s =
     (if length argv > 1 then None
      else Some (case h_workspace x of None \<Rightarrow> invalid ''No workspace in context for default_float'' s
        | Some w \<Rightarrow>
            if argv = [] \<or> argv ! 0 = ''toggle'' then ok (set_default_float w Not s)
            else if argv ! 0 = ''on'' then ok (set_default_float w (\<lambda>_. True) s)
            else if argv ! 0 = ''off'' then ok (set_default_float w (\<lambda>_. False) s)
            else invalid ''Expected default_float, default_float on, default_float off or default_float toggle'' s))"

section \<open>Opacity\<close>

definition upd_opts :: "(options \<Rightarrow> options) \<Rightarrow> sway \<Rightarrow> sway" where
  "upd_opts f s = s\<lparr>cfg := (cfg s)\<lparr>cfg_opts := f (cfg_opts (cfg s))\<rparr>\<rparr>"

definition upd_cfg :: "(config \<Rightarrow> config) \<Rightarrow> sway \<Rightarrow> sway" where
  "upd_cfg f s = s\<lparr>cfg := f (cfg s)\<rparr>"

definition opacity_default :: "string list \<Rightarrow> sway \<Rightarrow> reply" where
  "opacity_default argv s =
     (case c_strtof (if length argv = 1 then argv ! 0 else argv ! 1) of (v, rest) \<Rightarrow>
        if rest \<noteq> [] then invalid ''opacity float invalid'' s
        else if v < 0 \<or> v > 1 then failure ''opacity value out of bounds'' s
        else if length argv > 1 \<and> str_caseeq (argv ! 0) ''focused'' then ok (upd_opts (\<lambda>p. p\<lparr>op_opacity_focused := v\<rparr>) s)
        else ok (upd_opts (\<lambda>p. p\<lparr>op_opacity := v\<rparr>) s))"

definition opacity_of :: "string list \<Rightarrow> rat \<Rightarrow> rat \<Rightarrow> rat option" where
  "opacity_of argv alpha v =
     (if str_caseeq (argv ! 0) ''plus'' then Some (alpha + v)
      else if str_caseeq (argv ! 0) ''minus'' then Some (alpha - v)
      else if length argv > 1 \<and> \<not> str_caseeq (argv ! 0) ''set'' then None
      else Some v)"

definition cmd_opacity :: handler where
  "cmd_opacity x argv s =
     needs_args argv ''opacity'' EXPECTED_AT_LEAST 1 s
       (if op_reading (cfg_opts (cfg s)) then opacity_default argv s
        else case h_container x of None \<Rightarrow> failure ''No container to set opacity on'' s
        | Some c \<Rightarrow>
            (case c_strtof (if length argv = 1 then argv ! 0 else argv ! 1) of (v, rest) \<Rightarrow>
               if rest \<noteq> [] then invalid ''opacity float invalid'' s
               else case opacity_of argv (c_alpha (cons s c)) v of
                 None \<Rightarrow> invalid (''Expected: set|plus|minus <0..1>: '' @ argv ! 0) s
               | Some v \<Rightarrow>
                   if v < 0 \<or> v > 1 then failure ''opacity value out of bounds'' s
                   else ok (upd_con c (\<lambda>y. y\<lparr>c_alpha := v\<rparr>) s)))"

section \<open>Running programs\<close>

text \<open>A program is started by fork and sh; the model records the command line.\<close>

definition cmd_exec_validate :: "string \<Rightarrow> string list \<Rightarrow> sway \<Rightarrow> cmd_results option" where
  "cmd_exec_validate name argv s =
     (case checkarg (int (length argv)) name EXPECTED_AT_LEAST 1 of Some e \<Rightarrow> Some e
      | None \<Rightarrow> if \<not> op_active (cfg_opts (cfg s)) \<or> op_validating (cfg_opts (cfg s))
                then Some (cmd_results_new CMD_DEFER None) else None)"

definition exec_line :: "string list \<Rightarrow> string" where
  "exec_line argv =
     (if length argv = 1 \<and> argv ! 0 \<noteq> [] \<and> hd (argv ! 0) \<in> {SQ, DQ} then strip_quotes (argv ! 0) else joined argv)"

definition cmd_exec_process :: handler where
  "cmd_exec_process x argv s =
     (let rest = (if argv \<noteq> [] \<and> argv ! 0 = ''--no-startup-id'' then tl argv else argv) in
      case (if rest = argv then None else checkarg (int (length rest)) (argv ! 0) EXPECTED_AT_LEAST 1) of
        Some e \<Rightarrow> (e, s)
      | None \<Rightarrow> if h_fork x then ok (emit (Ev_exec (exec_line rest)) s) else failure ''fork() failed'' s)"

definition cmd_exec_always :: handler where
  "cmd_exec_always x argv s =
     (case cmd_exec_validate ''exec_always'' argv s of Some e \<Rightarrow> (e, s) | None \<Rightarrow> cmd_exec_process x argv s)"

definition cmd_exec :: handler where
  "cmd_exec x argv s =
     (case cmd_exec_validate ''exec'' argv s of Some e \<Rightarrow> (e, s)
      | None \<Rightarrow> if cfg_reloading (cfg s) then ok s else cmd_exec_process x argv s)"

definition cmd_nop :: handler where
  "cmd_nop x argv s = ok s"

definition cmd_exit :: handler where
  "cmd_exit x argv s = needs_args argv ''exit'' EXPECTED_EQUAL_TO 0 s (ok (emit Ev_terminate s))"

end
