(* ===== verification/Cmd_Config.thy ===== *)
theory Cmd_Config
  imports Cmd_View
begin

text \<open>
  The commands that only change settings: set, the border and colour settings, sizes, gaps, font,
  rules and edge bindings (one file each under sway/commands/). Redrawing the containers after a
  change is rendering and not modelled.
\<close>

unbundle bit_operations_syntax

section \<open>Variables\<close>

text \<open>Names are kept from the longest to the shortest, so that a variable is not taken for a shorter one.\<close>

definition symbol_order :: "string \<times> string \<Rightarrow> int" where
  "symbol_order v = - int (length (fst v))"

definition set_symbol :: "string \<Rightarrow> string \<Rightarrow> (string \<times> string) list \<Rightarrow> (string \<times> string) list" where
  "set_symbol name val vs =
     (if \<exists>v\<in>set vs. fst v = name
      then (let i = nat (find_index_from 0 (\<lambda>v. fst v = name) vs) in vs[i := (name, val)])
      else sort_key symbol_order (vs @ [(name, val)]))"

definition cmd_set :: handler where
  "cmd_set x argv s =
     needs_args argv ''set'' EXPECTED_AT_LEAST 2 s
       (if argv ! 0 = [] \<or> hd (argv ! 0) \<noteq> CHR ''$''
        then invalid (''variable '' @ argv ! 0 @ '' must start with $'') s
        else ok (upd_cfg (\<lambda>k. k\<lparr>cfg_symbols := set_symbol (argv ! 0) (joined (tl argv)) (cfg_symbols k)\<rparr>) s))"

section \<open>Choices\<close>

text \<open>A setting with a fixed set of words, compared with strcmp or strcasecmp.\<close>

definition pick_word :: "(string \<Rightarrow> string \<Rightarrow> bool) \<Rightarrow> (string \<times> 'a) list \<Rightarrow> string \<Rightarrow> 'a option" where
  "pick_word eq table a = map_option snd (List.find (\<lambda>p. eq a (fst p)) table)"

definition setting :: "('a \<Rightarrow> sway \<Rightarrow> reply) \<Rightarrow> reply \<Rightarrow> 'a option \<Rightarrow> sway \<Rightarrow> reply" where
  "setting f err v s = (case v of Some v \<Rightarrow> f v s | None \<Rightarrow> err)"

definition border_names :: "(string \<times> container_border) list" where
  "border_names = [(''none'', B_NONE), (''normal'', B_NORMAL), (''pixel'', B_PIXEL)]"

definition cmd_default_border :: handler where
  "cmd_default_border x argv s =
     needs_args argv ''default_border'' EXPECTED_AT_LEAST 1 s
       (case pick_word (=) border_names (argv ! 0) of None \<Rightarrow> invalid ''Expected default_border <none|normal|pixel>'' s
        | Some b \<Rightarrow>
            (let s = upd_opts (\<lambda>p. p\<lparr>op_border := b\<rparr>) s in
             ok (if length argv = 2 then upd_opts (\<lambda>p. p\<lparr>op_border_thickness := c_atoi (argv ! 1)\<rparr>) s else s)))"

definition cmd_new_window :: handler where
  "cmd_new_window = cmd_default_border"

definition cmd_default_floating_border :: handler where
  "cmd_default_floating_border x argv s =
     needs_args argv ''default_floating_border'' EXPECTED_AT_LEAST 1 s
       (case pick_word (=) border_names (argv ! 0) of
          None \<Rightarrow> invalid ''Expected default_floating_border <none|normal|pixel>'' s
        | Some b \<Rightarrow>
            (let s = upd_opts (\<lambda>p. p\<lparr>op_floating_border := b\<rparr>) s in
             ok (if length argv = 2 then upd_opts (\<lambda>p. p\<lparr>op_floating_border_thickness := c_atoi (argv ! 1)\<rparr>) s else s)))"

definition cmd_new_float :: handler where
  "cmd_new_float = cmd_default_floating_border"

definition cmd_focus_follows_mouse :: handler where
  "cmd_focus_follows_mouse x argv s =
     needs_args argv ''focus_follows_mouse'' EXPECTED_EQUAL_TO 1 s
       (setting (\<lambda>v s. ok (upd_opts (\<lambda>p. p\<lparr>op_focus_follows_mouse := v\<rparr>) s))
         (failure ''Expected focus_follows_mouse no|yes|always'' s)
         (pick_word (=) [(''no'', FOLLOWS_NO), (''yes'', FOLLOWS_YES), (''always'', FOLLOWS_ALWAYS)] (argv ! 0)) s)"

definition cmd_focus_on_window_activation :: handler where
  "cmd_focus_on_window_activation x argv s =
     needs_args argv ''focus_on_window_activation'' EXPECTED_EQUAL_TO 1 s
       (setting (\<lambda>v s. ok (upd_opts (\<lambda>p. p\<lparr>op_focus_on_window_activation := v\<rparr>) s))
         (invalid ''Expected focus_on_window_activation smart|urgent|focus|none'' s)
         (pick_word (=) [(''smart'', FOWA_SMART), (''urgent'', FOWA_URGENT), (''focus'', FOWA_FOCUS), (''none'', FOWA_NONE)]
           (argv ! 0)) s)"

definition cmd_focus_wrapping :: handler where
  "cmd_focus_wrapping x argv s =
     needs_args argv ''focus_wrapping'' EXPECTED_EQUAL_TO 1 s
       (let now = op_focus_wrapping (cfg_opts (cfg s));
            v = (if str_caseeq (argv ! 0) ''force'' then WRAP_FORCE
                 else if str_caseeq (argv ! 0) ''workspace'' then WRAP_WORKSPACE
                 else if parse_boolean (argv ! 0) (now = WRAP_YES) then WRAP_YES else WRAP_NO) in
        ok (upd_opts (\<lambda>p. p\<lparr>op_focus_wrapping := v\<rparr>) s))"

definition cmd_force_focus_wrapping :: handler where
  "cmd_force_focus_wrapping x argv s =
     needs_args argv ''force_focus_wrapping'' EXPECTED_EQUAL_TO 1 s
       (ok (upd_opts (\<lambda>p. p\<lparr>op_focus_wrapping :=
          if parse_boolean (argv ! 0) (op_focus_wrapping p = WRAP_FORCE) then WRAP_FORCE else WRAP_YES\<rparr>) s))"

definition cmd_mouse_warping :: handler where
  "cmd_mouse_warping x argv s =
     needs_args argv ''mouse_warping'' EXPECTED_EQUAL_TO 1 s
       (setting (\<lambda>v s. ok (upd_opts (\<lambda>p. p\<lparr>op_mouse_warping := v\<rparr>) s))
         (failure ''Expected mouse_warping output|container|none'' s)
         (pick_word str_caseeq [(''container'', WARP_CONTAINER), (''output'', WARP_OUTPUT), (''none'', WARP_NO)] (argv ! 0)) s)"

definition cmd_popup_during_fullscreen :: handler where
  "cmd_popup_during_fullscreen x argv s =
     needs_args argv ''popup_during_fullscreen'' EXPECTED_EQUAL_TO 1 s
       (setting (\<lambda>v s. ok (upd_cfg (\<lambda>k. k\<lparr>cfg_popup_smart := (v = POPUP_SMART)\<rparr>)
                             (upd_opts (\<lambda>p. p\<lparr>op_popup_during_fullscreen := v\<rparr>) s)))
         (invalid ''Expected popup_during_fullscreen smart|ignore|leave_fullscreen'' s)
         (pick_word str_caseeq [(''smart'', POPUP_SMART), (''ignore'', POPUP_IGNORE), (''leave_fullscreen'', POPUP_LEAVE)]
           (argv ! 0)) s)"

definition cmd_title_align :: handler where
  "cmd_title_align x argv s =
     needs_args argv ''title_align'' EXPECTED_AT_LEAST 1 s
       (setting (\<lambda>v s. ok (upd_opts (\<lambda>p. p\<lparr>op_title_align := v\<rparr>) s))
         (invalid ''Expected title_align left|center|right'' s)
         (pick_word (=) [(''left'', ALIGN_LEFT), (''center'', ALIGN_CENTER), (''right'', ALIGN_RIGHT)] (argv ! 0)) s)"

definition cmd_default_orientation :: handler where
  "cmd_default_orientation x argv s =
     needs_args argv ''default_orientation'' EXPECTED_EQUAL_TO 1 s
       (setting (\<lambda>v s. ok (upd_cfg (\<lambda>k. k\<lparr>cfg_default_orientation := (case v of Some l \<Rightarrow> l
                                        | None \<Rightarrow> cfg_default_orientation k)\<rparr>) s))
         (invalid ''Expected orientation <horizontal|vertical|auto>'' s)
         (pick_word str_caseeq [(''horizontal'', Some L_HORIZ), (''vertical'', Some L_VERT), (''auto'', None)] (argv ! 0)) s)"

definition cmd_workspace_layout :: handler where
  "cmd_workspace_layout x argv s =
     needs_args argv ''workspace_layout'' EXPECTED_EQUAL_TO 1 s
       (setting (\<lambda>v s. ok (upd_opts (\<lambda>p. p\<lparr>op_default_layout := v\<rparr>) s))
         (invalid ''Expected workspace_layout <default|stacking|tabbed>'' s)
         (pick_word str_caseeq [(''default'', L_NONE), (''stacking'', L_STACKED), (''tabbed'', L_TABBED)] (argv ! 0)) s)"

definition hide_borders :: "string \<Rightarrow> (edge_borders \<times> edge_smart option) option" where
  "hide_borders a =
     pick_word (=) [(''none'', (E_NONE, None)), (''vertical'', (E_VERTICAL, None)), (''horizontal'', (E_HORIZONTAL, None)),
       (''both'', (E_BOTH, None)), (''smart'', (E_NONE, Some ESMART_ON)), (''smart_no_gaps'', (E_NONE, Some ESMART_NO_GAPS))] a"

definition cmd_hide_edge_borders :: handler where
  "cmd_hide_edge_borders x argv s =
     needs_args argv ''hide_edge_borders'' EXPECTED_AT_LEAST 1 s
       (let lone = (argv ! 0 = ''--i3''); rest = (if lone then tl argv else argv) in
        case (if rest = [] then None else hide_borders (rest ! 0)) of
          None \<Rightarrow> invalid ''Expected hide_edge_borders [--i3] none|vertical|horizontal|both|smart|smart_no_gaps'' s
        | Some (edges, smart) \<Rightarrow>
            ok (arrange_root_of x (upd_cfg (\<lambda>k. k\<lparr>cfg_hide_edge_borders := edges, cfg_hide_lone_tab := lone,
              cfg_hide_edge_borders_smart := (case smart of Some m \<Rightarrow> m | None \<Rightarrow> cfg_hide_edge_borders_smart k)\<rparr>) s)))"

definition cmd_smart_borders :: handler where
  "cmd_smart_borders x argv s =
     needs_args argv ''smart_borders'' EXPECTED_EQUAL_TO 1 s
       (let m = (if argv ! 0 = ''no_gaps'' then ESMART_NO_GAPS
                 else if parse_boolean (argv ! 0) True then ESMART_ON else ESMART_OFF) in
        ok (arrange_root_of x (upd_cfg (\<lambda>k. k\<lparr>cfg_hide_edge_borders_smart := m\<rparr>) s)))"

definition cmd_smart_gaps :: handler where
  "cmd_smart_gaps x argv s =
     needs_args argv ''smart_gaps'' EXPECTED_AT_LEAST 1 s
       (let m = (if argv ! 0 = ''inverse_outer'' then SMART_GAPS_INVERSE_OUTER
                 else if parse_boolean (argv ! 0) (cfg_smart_gaps (cfg s) \<noteq> SMART_GAPS_OFF)
                 then SMART_GAPS_ON else SMART_GAPS_OFF) in
        ok (arrange_root_of x (upd_cfg (\<lambda>k. k\<lparr>cfg_smart_gaps := m\<rparr>) s)))"

section \<open>Flags\<close>

definition cmd_tiling_drag :: handler where
  "cmd_tiling_drag x argv s =
     needs_args argv ''tiling_drag'' EXPECTED_EQUAL_TO 1 s
       (ok (upd_opts (\<lambda>p. p\<lparr>op_tiling_drag := parse_boolean (argv ! 0) (op_tiling_drag p)\<rparr>) s))"

definition cmd_show_marks :: handler where
  "cmd_show_marks x argv s =
     needs_args argv ''show_marks'' EXPECTED_AT_LEAST 1 s
       (ok (upd_cfg (\<lambda>k. k\<lparr>cfg_show_marks := parse_boolean (argv ! 0) (cfg_show_marks k)\<rparr>) s))"

definition cmd_ws_auto_back_and_forth :: handler where
  "cmd_ws_auto_back_and_forth x argv s =
     needs_args argv ''workspace_auto_back_and_forth'' EXPECTED_EQUAL_TO 1 s
       (ok (upd_cfg (\<lambda>k. k\<lparr>cfg_auto_back_and_forth := parse_boolean (argv ! 0) (cfg_auto_back_and_forth k)\<rparr>) s))"

definition cmd_primary_selection :: handler where
  "cmd_primary_selection x argv s =
     needs_args argv ''primary_selection'' EXPECTED_EQUAL_TO 1 s
       (let v = parse_boolean (argv ! 0) True in
        if cfg_reloading (cfg s) \<and> op_primary_selection (cfg_opts (cfg s)) \<noteq> v
        then failure ''primary_selection can only be enabled/disabled at launch'' s
        else ok (upd_opts (\<lambda>p. p\<lparr>op_primary_selection := v\<rparr>) s))"

definition cmd_xwayland :: handler where
  "cmd_xwayland x argv s =
     needs_args argv ''xwayland'' EXPECTED_EQUAL_TO 1 s
       (let v = (if argv ! 0 = ''force'' then XWAYLAND_MODE_IMMEDIATE
                 else if parse_boolean (argv ! 0) True then XWAYLAND_MODE_LAZY else XWAYLAND_MODE_DISABLED) in
        if cfg_reloading (cfg s) \<and> op_xwayland (cfg_opts (cfg s)) \<noteq> v
        then failure ''xwayland can only be enabled/disabled at launch'' s
        else ok (upd_opts (\<lambda>p. p\<lparr>op_xwayland := v\<rparr>) s))"

definition command_or_none :: "string list \<Rightarrow> string option" where
  "command_or_none argv = (if joined argv = ''-'' then None else Some (joined argv))"

definition cmd_swaybg_command :: handler where
  "cmd_swaybg_command x argv s =
     needs_args argv ''swaybg_command'' EXPECTED_AT_LEAST 1 s
       (ok (upd_opts (\<lambda>p. p\<lparr>op_swaybg_command := command_or_none argv\<rparr>) s))"

definition cmd_swaynag_command :: handler where
  "cmd_swaynag_command x argv s =
     needs_args argv ''swaynag_command'' EXPECTED_AT_LEAST 1 s
       (ok (upd_opts (\<lambda>p. p\<lparr>op_swaynag_command := command_or_none argv\<rparr>) s))"

section \<open>Numbers\<close>

text \<open>An int read by strtol from the whole argument.\<close>

definition whole_int :: "string \<Rightarrow> int option" where
  "whole_int a = (case c_strtol a of (v, rest) \<Rightarrow> if rest = [] then Some (to_int32 v) else None)"

definition cmd_column_width :: handler where
  "cmd_column_width x argv s =
     needs_args argv ''column_width'' EXPECTED_AT_LEAST 2 s
       (case c_strtof (argv ! 1) of (v, rest) \<Rightarrow>
          if rest \<noteq> [] then invalid ''Expected column_width default|min <fraction>'' s
          else if v \<le> 0 \<or> v > 1 then failure ''column_width fraction must be in the range (0, 1]'' s
          else if argv ! 0 = ''default'' then ok (upd_cfg (\<lambda>k. k\<lparr>cfg_default_column_width_fraction := v\<rparr>) s)
          else if argv ! 0 = ''min'' then ok (upd_cfg (\<lambda>k. k\<lparr>cfg_min_column_width_fraction := v\<rparr>) s)
          else invalid ''Expected column_width default|min <fraction>'' s)"

definition cmd_corner_radius :: handler where
  "cmd_corner_radius x argv s =
     needs_args argv ''corner_radius'' EXPECTED_AT_LEAST 1 s
       (case whole_int (argv ! 0) of None \<Rightarrow> invalid ''corner_radius int invalid'' s
        | Some v \<Rightarrow> if v < 0 \<or> v > 100 then failure ''corner_radius value out of bounds'' s
                   else ok (upd_opts (\<lambda>p. p\<lparr>op_corner_radius := v\<rparr>) s))"

definition cmd_floating_snap :: handler where
  "cmd_floating_snap x argv s =
     needs_args argv ''floating_snap'' EXPECTED_AT_LEAST 1 s
       (case whole_int (argv ! 0) of None \<Rightarrow> invalid ''floating_snap int invalid'' s
        | Some v \<Rightarrow> if v < 0 \<or> v > 200 then failure ''floating_snap value out of bounds'' s
                   else ok (upd_opts (\<lambda>p. p\<lparr>op_floating_snap_threshold := v\<rparr>) s))"

definition cmd_tiling_drag_threshold :: handler where
  "cmd_tiling_drag_threshold x argv s =
     needs_args argv ''tiling_drag_threshold'' EXPECTED_EQUAL_TO 1 s
       (case whole_int (argv ! 0) of None \<Rightarrow> invalid ''Invalid threshold specified'' s
        | Some v \<Rightarrow> if v < 0 then invalid ''Invalid threshold specified'' s
                   else ok (upd_opts (\<lambda>p. p\<lparr>op_tiling_drag_threshold := v\<rparr>) s))"

text \<open>
  The timeout in milliseconds, with ms behind it or as the next argument; a long that does not fit
  sets errno.
\<close>

definition cmd_force_display_urgency_hint :: handler where
  "cmd_force_display_urgency_hint x argv s =
     needs_args argv ''force_display_urgency_hint'' EXPECTED_AT_LEAST 1 s
       (case c_strtol (argv ! 0) of (v, rest) \<Rightarrow>
          if v \<in> {- (2 ^ 63), 2 ^ 63 - 1} \<or> rest = argv ! 0 \<or> rest \<noteq> [] \<and> rest \<noteq> ''ms''
          then invalid ''timeout integer invalid'' s
          else if length argv > 1 \<and> argv ! 1 \<noteq> ''ms''
          then invalid ''Expected force_display_urgency_hint <timeout> [ms]'' s
          else ok (upd_cfg (\<lambda>k. k\<lparr>cfg_urgent_timeout := nat (to_int32 v)\<rparr>) s))"

definition size_arguments :: "string list \<Rightarrow> (int \<times> int) option" where
  "size_arguments argv =
     (case (whole_int (argv ! 0), whole_int (argv ! 2)) of
        (Some w, Some h) \<Rightarrow> if argv ! 1 = ''x'' then Some (w, h) else None
      | _ \<Rightarrow> None)"

definition cmd_floating_minimum_size :: handler where
  "cmd_floating_minimum_size x argv s =
     needs_args argv ''floating_minimum_size'' EXPECTED_EQUAL_TO 3 s
       (case size_arguments argv of None \<Rightarrow> invalid ''Expected floating_minimum_size <width> x <height>'' s
        | Some (w, h) \<Rightarrow> ok (upd_cfg (\<lambda>k. k\<lparr>cfg_floating_minimum_width := w, cfg_floating_minimum_height := h\<rparr>) s))"

definition cmd_floating_maximum_size :: handler where
  "cmd_floating_maximum_size x argv s =
     needs_args argv ''floating_maximum_size'' EXPECTED_EQUAL_TO 3 s
       (case size_arguments argv of None \<Rightarrow> invalid ''Expected floating_maximum_size <width> x <height>'' s
        | Some (w, h) \<Rightarrow> ok (upd_cfg (\<lambda>k. k\<lparr>cfg_floating_maximum_width := w, cfg_floating_maximum_height := h\<rparr>) s))"

section \<open>Title bars and fonts\<close>

text \<open>The height of a title bar is the height of the font and two paddings (container_titlebar_height).\<close>

definition set_titlebar :: "(options \<Rightarrow> options) \<Rightarrow> sway \<Rightarrow> sway" where
  "set_titlebar f s =
     (let p = f (cfg_opts (cfg s)) in
      upd_cfg (\<lambda>k. k\<lparr>cfg_opts := p, cfg_titlebar_height := op_font_height p + 2 * op_titlebar_v_padding p\<rparr>) s)"

fun arrange_active :: "env \<Rightarrow> id list \<Rightarrow> sway \<Rightarrow> bool \<times> sway" where
  "arrange_active E [] s = (True, s)"
| "arrange_active E (p # ps) s =
     (case output_get_active_workspace E s p of None \<Rightarrow> (False, s)
      | Some w \<Rightarrow> arrange_active E ps (arrange_workspace w s))"

definition cmd_titlebar_border_thickness :: handler where
  "cmd_titlebar_border_thickness x argv s =
     needs_args argv ''titlebar_border_thickness'' EXPECTED_EQUAL_TO 1 s
       (case whole_int (argv ! 0) of None \<Rightarrow> failure ''Invalid size specified'' s
        | Some v \<Rightarrow>
            if v < 0 \<or> v > op_titlebar_v_padding (cfg_opts (cfg s)) then failure ''Invalid size specified'' s
            else (case arrange_active (h_env x) (outputs s) (upd_opts (\<lambda>p. p\<lparr>op_titlebar_border_thickness := v\<rparr>) s) of
              (True, s) \<Rightarrow> ok s
            | (False, s) \<Rightarrow> failure ''Expected output to have a workspace'' s))"

definition padding_ok :: "options \<Rightarrow> int \<Rightarrow> bool" where
  "padding_ok p v \<longleftrightarrow> 0 \<le> v \<and> op_titlebar_border_thickness p \<le> v"

definition cmd_titlebar_padding :: handler where
  "cmd_titlebar_padding x argv s =
     needs_args argv ''titlebar_padding'' EXPECTED_AT_LEAST 1 s
       (case (whole_int (argv ! 0), whole_int (if length argv = 1 then argv ! 0 else argv ! 1)) of
          (Some h, Some v) \<Rightarrow>
            if \<not> padding_ok (cfg_opts (cfg s)) h \<or> \<not> padding_ok (cfg_opts (cfg s)) v
            then failure ''Invalid size specified'' s
            else ok (snd (arrange_active (h_env x) (outputs s)
              (set_titlebar (\<lambda>p. p\<lparr>op_titlebar_v_padding := v, op_titlebar_h_padding := h\<rparr>) s)))
        | _ \<Rightarrow> failure ''Invalid size specified'' s)"

definition config_update_font_height :: "ctx \<Rightarrow> int \<Rightarrow> sway \<Rightarrow> sway" where
  "config_update_font_height x height s =
     (let prev = op_font_height (cfg_opts (cfg s));
          s = set_titlebar (\<lambda>p. p\<lparr>op_font_height := height\<rparr>) s in
      if height \<noteq> prev then arrange_root_of x s else s)"

definition cmd_font :: handler where
  "cmd_font x argv s =
     needs_args argv ''font'' EXPECTED_AT_LEAST 1 s
       (let pango = has_prefix (joined argv) ''pango:'';
            font = (if pango then drop 6 (joined argv) else joined argv);
            s = upd_cfg (\<lambda>k. k\<lparr>cfg_pango_markup := pango\<rparr>) (upd_opts (\<lambda>p. p\<lparr>op_font := font\<rparr>) s);
            (family, size, height) = h_font x font in
        if \<not> family then failure ''Invalid font family.'' s
        else if size = 0 then failure ''Invalid font size.'' s
        else ok (config_update_font_height x height s))"

section \<open>Colours and shadows\<close>

definition client_colors :: "string list \<Rightarrow> string \<Rightarrow> border_colors option" where
  "client_colors argv indicator =
     (let ind = (if length argv > 3 then argv ! 3 else indicator);
          child = (if length argv > 4 then argv ! 4 else argv ! 1) in
      case those (map parse_color [argv ! 0, argv ! 1, argv ! 2, ind, child]) of
        Some [b, g, t, i, c] \<Rightarrow> Some (border_colors_of b g t i c)
      | _ \<Rightarrow> None)"

definition set_client_colors :: "string \<Rightarrow> string \<Rightarrow> (border_colors \<Rightarrow> options \<Rightarrow> options) \<Rightarrow> handler" where
  "set_client_colors name indicator f x argv s =
     needs_args argv name EXPECTED_AT_LEAST 3 s
       (needs_args argv name EXPECTED_AT_MOST 5 s
         (case client_colors argv indicator of None \<Rightarrow> invalid ''Invalid color'' s
          | Some c \<Rightarrow> ok (upd_opts (f c) s)))"

definition cmd_client_focused :: handler where
  "cmd_client_focused = set_client_colors ''client.focused'' ''#2e9ef4ff'' (\<lambda>c p. p\<lparr>op_focused := c\<rparr>)"

definition cmd_client_focused_inactive :: handler where
  "cmd_client_focused_inactive =
     set_client_colors ''client.focused_inactive'' ''#484e50ff'' (\<lambda>c p. p\<lparr>op_focused_inactive := c\<rparr>)"

definition cmd_client_unfocused :: handler where
  "cmd_client_unfocused = set_client_colors ''client.unfocused'' ''#292d2eff'' (\<lambda>c p. p\<lparr>op_unfocused := c\<rparr>)"

definition cmd_client_urgent :: handler where
  "cmd_client_urgent = set_client_colors ''client.urgent'' ''#900000ff'' (\<lambda>c p. p\<lparr>op_urgent := c\<rparr>)"

definition cmd_client_noop :: handler where
  "cmd_client_noop x argv s = ok s"

definition cmd_client_focused_tab_title :: handler where
  "cmd_client_focused_tab_title =
     set_client_colors ''client.focused_tab_title'' ''#2e9ef4ff''
       (\<lambda>c p. p\<lparr>op_focused_tab_title := c, op_has_focused_tab_title := True\<rparr>)"

definition cmd_shadow :: handler where
  "cmd_shadow x argv s =
     needs_args argv ''shadow'' EXPECTED_AT_LEAST 2 s
       (let a = argv ! 1 in
        if argv ! 0 = ''enabled'' then ok (upd_opts (\<lambda>p. p\<lparr>op_shadow_enabled := parse_boolean a True\<rparr>) s)
        else if argv ! 0 = ''blur''
        then (case whole_int a of None \<Rightarrow> invalid ''shadow blur int invalid'' s
              | Some v \<Rightarrow> if v < 0 then invalid ''shadow blur int invalid'' s
                         else ok (upd_opts (\<lambda>p. p\<lparr>op_shadow_blur_radius := v\<rparr>) s))
        else if argv ! 0 = ''opacity''
        then (case c_strtof a of (v, rest) \<Rightarrow>
                if rest \<noteq> [] \<or> v < 0 \<or> v > 1 then invalid ''shadow opacity float invalid'' s
                else ok (upd_opts (\<lambda>p. p\<lparr>op_shadow_opacity := v\<rparr>) s))
        else if argv ! 0 = ''color''
        then (case parse_color a of None \<Rightarrow> invalid (''Invalid shadow color '' @ a) s
              | Some c \<Rightarrow> ok (upd_opts (\<lambda>p. p\<lparr>op_shadow_color := color_to_rgba c\<rparr>) s))
        else invalid ''Expected shadow enabled|blur|opacity|color'' s)"

section \<open>Rules\<close>

definition add_rule :: "criteria \<Rightarrow> sway \<Rightarrow> sway" where
  "add_rule r s = upd_opts (\<lambda>p. p\<lparr>op_criteria := op_criteria p @ [r]\<rparr>) s"

definition parse_rule :: "ctx \<Rightarrow> string \<Rightarrow> sway \<Rightarrow> criteria + string" where
  "parse_rule x a s = criteria_parse (h_matcher x) (current_focus (h_env x) s) a"

definition cmd_for_window :: handler where
  "cmd_for_window x argv s =
     needs_args argv ''for_window'' EXPECTED_AT_LEAST 2 s
       (case parse_rule x (argv ! 0) s of Inr e \<Rightarrow> invalid e s
        | Inl r \<Rightarrow>
            (let r = r\<lparr>cr_type := Some CT_COMMAND, cr_cmdlist := join_args (tl argv)\<rparr> in
             if criteria_already_exists r s then ok s else ok (add_rule r s)))"

definition cmd_no_focus :: handler where
  "cmd_no_focus x argv s =
     needs_args argv ''no_focus'' EXPECTED_AT_LEAST 1 s
       (case parse_rule x (argv ! 0) s of Inr e \<Rightarrow> invalid e s
        | Inl r \<Rightarrow>
            (let r = r\<lparr>cr_type := Some CT_NO_FOCUS\<rparr> in
             if criteria_already_exists r s then ok s else ok (add_rule r s)))"

text \<open>
  assign reads argument after argument without asking whether there is one: None where it reads past
  the last argument. The arrow it skips is the three bytes of U+2192.
\<close>

definition ARROW :: string where "ARROW = [CHR 0xE2, CHR 0x86, CHR 0x92]"

definition assign_target :: "string list \<Rightarrow> criteria \<Rightarrow> (criteria + string) option" where
  "assign_target argv r =
     (case argv of [] \<Rightarrow> None
      | a # rest \<Rightarrow>
          if a = ''output''
          then Some (Inl (r\<lparr>cr_type := Some CT_ASSIGN_OUTPUT, cr_target := join_args rest\<rparr>))
          else
            (case (if a = ''workspace'' then rest else argv) of [] \<Rightarrow> None
             | b # us \<Rightarrow>
                 if b = ''number''
                 then (case us of [] \<Rightarrow> None
                       | n # _ \<Rightarrow>
                           if n = [] \<or> \<not> is_digit (hd n) then Some (Inr (''Invalid workspace number '' @ n))
                           else Some (Inl (r\<lparr>cr_type := Some CT_ASSIGN_WORKSPACE_NUMBER, cr_target := join_args us\<rparr>)))
                 else Some (Inl (r\<lparr>cr_type := Some CT_ASSIGN_WORKSPACE, cr_target := join_args (b # us)\<rparr>))))"

definition cmd_assign :: "ctx \<Rightarrow> string list \<Rightarrow> sway \<Rightarrow> reply option" where
  "cmd_assign x argv s =
     (case checkarg (int (length argv)) ''assign'' EXPECTED_AT_LEAST 2 of Some e \<Rightarrow> Some (e, s)
      | None \<Rightarrow>
          (case parse_rule x (argv ! 0) s of Inr e \<Rightarrow> Some (invalid e s)
           | Inl r \<Rightarrow>
               (let rest = tl argv in
                if has_prefix (rest ! 0) ARROW \<and> length rest < 2 then Some (invalid ''Missing workspace'' s)
                else case assign_target (if has_prefix (rest ! 0) ARROW then tl rest else rest) r of
                  None \<Rightarrow> None
                | Some (Inr e) \<Rightarrow> Some (invalid e s)
                | Some (Inl r) \<Rightarrow> Some (ok (add_rule r s)))))"

section \<open>Edge bindings\<close>

definition edge_mask :: "string \<Rightarrow> 32 word" where
  "edge_mask a =
     (if str_caseeq a ''left'' then 4 else if str_caseeq a ''top'' then 1
      else if str_caseeq a ''right'' then 8 else if str_caseeq a ''bottom'' then 2 else 0)"

definition motion_gate :: "string list \<Rightarrow> int \<times> string list" where
  "motion_gate argv =
     (if argv ! 0 = ''motion'' then (1, tl argv)
      else if argv ! 0 = ''no-motion'' then (-1, tl argv) else (0, argv))"

definition parse_edge_binding :: "string list \<Rightarrow> bool \<Rightarrow> edge_binding + string" where
  "parse_edge_binding argv fire_on_exit =
     (if length argv < 4 then Inr ''Expected: exec-range[-exit] [motion|no-motion] <scope> <edge> <range> <cmd...>''
      else
        (let (gate, rest) = motion_gate argv;
             edges = fold (\<lambda>t m. m OR edge_mask t) (split_string (rest ! 1) ''+'') 0;
             range = c_atoi (rest ! 2) in
         if length rest < 3 then Inr ''Missing scope/edge/range/cmd''
         else if edges = 0 then Inr ''No valid edge specified''
         else if range < 1 then Inr ''Range must be >= 1''
         else if joined (drop 3 rest) = [] then Inr ''Missing command''
         else Inl \<lparr>eb_edges = edges, eb_range = range, eb_command = joined (drop 3 rest), eb_fire_on_exit = fire_on_exit,
           eb_workspace_name = (if rest ! 0 = ''global'' then None else Some (rest ! 0)), eb_motion_gate = gate,
           eb_was_inside = False\<rparr>))"

definition add_edge_binding :: "bool \<Rightarrow> handler" where
  "add_edge_binding fire_on_exit x argv s =
     (case parse_edge_binding argv fire_on_exit of Inr e \<Rightarrow> invalid e s
      | Inl b \<Rightarrow> ok (upd_opts (\<lambda>p. p\<lparr>op_edge_bindings := op_edge_bindings p @ [b]\<rparr>) s))"

definition cmd_exec_range :: handler where
  "cmd_exec_range = add_edge_binding False"

definition cmd_exec_range_exit :: handler where
  "cmd_exec_range_exit = add_edge_binding True"

end
