(* ===== verification/Cmd_Workspace.thy ===== *)
theory Cmd_Workspace
  imports Cmd_Config
begin

text \<open>
  The commands gaps, workspace and rename (sway/commands/gaps.c, workspace.c, rename.c). Sums of gaps
  are ints of 32 bits that wrap around.
\<close>

section \<open>Gaps\<close>

datatype gaps_op = GAPS_OP_SET | GAPS_OP_ADD | GAPS_OP_SUBTRACT | GAPS_OP_TOGGLE

record gaps_data =
  gd_inner :: bool
  gd_top :: bool
  gd_right :: bool
  gd_bottom :: bool
  gd_left :: bool
  gd_operation :: gaps_op
  gd_amount :: int

definition clamp_outer :: "int \<Rightarrow> side_gaps \<Rightarrow> side_gaps" where
  "clamp_outer inner g =
     \<lparr>g_top = max (g_top g) (to_int32 (- inner)), g_right = max (g_right g) (to_int32 (- inner)),
      g_bottom = max (g_bottom g) (to_int32 (- inner)), g_left = max (g_left g) (to_int32 (- inner))\<rparr>"

text \<open>prevent_invalid_outer_gaps of gaps.c always looks at the defaults of the configuration.\<close>

definition prevent_invalid_outer_gaps :: "sway \<Rightarrow> sway" where
  "prevent_invalid_outer_gaps s = upd_cfg (\<lambda>k. k\<lparr>cfg_gaps_outer := clamp_outer (cfg_gaps_inner k) (cfg_gaps_outer k)\<rparr>) s"

text \<open>Which sides a word names: top, right, bottom, left.\<close>

definition names_top :: "string \<Rightarrow> bool" where "names_top a = is_word a [''outer'', ''vertical'', ''top'']"
definition names_right :: "string \<Rightarrow> bool" where "names_right a = is_word a [''outer'', ''horizontal'', ''right'']"
definition names_bottom :: "string \<Rightarrow> bool" where "names_bottom a = is_word a [''outer'', ''vertical'', ''bottom'']"
definition names_left :: "string \<Rightarrow> bool" where "names_left a = is_word a [''outer'', ''horizontal'', ''left'']"

definition names_side :: "string \<Rightarrow> bool" where
  "names_side a \<longleftrightarrow> names_top a \<or> names_right a \<or> names_bottom a \<or> names_left a"

definition set_sides :: "string \<Rightarrow> int \<Rightarrow> side_gaps \<Rightarrow> side_gaps" where
  "set_sides a px g =
     \<lparr>g_top = (if names_top a then px else g_top g), g_right = (if names_right a then px else g_right g),
      g_bottom = (if names_bottom a then px else g_bottom g), g_left = (if names_left a then px else g_left g)\<rparr>"

definition gaps_amount :: "string \<Rightarrow> int option" where
  "gaps_amount a = (case c_strtol a of (v, rest) \<Rightarrow>
     if rest \<noteq> [] \<and> \<not> str_caseeq rest ''px'' then None else Some (to_int32 v))"

definition expected_defaults :: string where
  "expected_defaults = ''Expected gaps inner|outer|horizontal|vertical|top|right|bottom|left <px>''"

definition gaps_set_defaults :: handler where
  "gaps_set_defaults x argv s =
     needs_args argv ''gaps'' EXPECTED_EQUAL_TO 2 s
       (case gaps_amount (argv ! 1) of None \<Rightarrow> invalid expected_defaults s
        | Some px \<Rightarrow>
            if str_caseeq (argv ! 0) ''inner''
            then ok (prevent_invalid_outer_gaps (upd_cfg (\<lambda>k. k\<lparr>cfg_gaps_inner := max px 0\<rparr>) s))
            else if names_side (argv ! 0)
            then ok (prevent_invalid_outer_gaps
              (upd_cfg (\<lambda>k. k\<lparr>cfg_gaps_outer := set_sides (argv ! 0) px (cfg_gaps_outer k)\<rparr>) s))
            else invalid expected_defaults s)"

fun apply_gaps_op :: "gaps_op \<Rightarrow> int \<Rightarrow> int \<Rightarrow> int" where
  "apply_gaps_op GAPS_OP_SET px v = px"
| "apply_gaps_op GAPS_OP_ADD px v = to_int32 (v + px)"
| "apply_gaps_op GAPS_OP_SUBTRACT px v = to_int32 (v - px)"
| "apply_gaps_op GAPS_OP_TOGGLE px v = (if v \<noteq> 0 then 0 else px)"

definition gaps_applied :: "gaps_data \<Rightarrow> workspace \<Rightarrow> workspace" where
  "gaps_applied d ws =
     (let f = apply_gaps_op (gd_operation d) (gd_amount d); g = w_gaps_outer ws in
      ws\<lparr>w_gaps_inner := max 0 (if gd_inner d then f (w_gaps_inner ws) else w_gaps_inner ws),
         w_gaps_outer :=
           \<lparr>g_top = (if gd_top d then f (g_top g) else g_top g),
            g_right = (if gd_right d then f (g_right g) else g_right g),
            g_bottom = (if gd_bottom d then f (g_bottom g) else g_bottom g),
            g_left = (if gd_left d then f (g_left g) else g_left g)\<rparr>\<rparr>)"

definition configure_gaps :: "gaps_data \<Rightarrow> id \<Rightarrow> sway \<Rightarrow> sway" where
  "configure_gaps d w s = arrange_workspace w (prevent_invalid_outer_gaps (upd_ws w (gaps_applied d) s))"

definition gaps_operation :: "string \<Rightarrow> gaps_op option" where
  "gaps_operation a = pick_word str_caseeq
     [(''set'', GAPS_OP_SET), (''plus'', GAPS_OP_ADD), (''minus'', GAPS_OP_SUBTRACT), (''toggle'', GAPS_OP_TOGGLE)] a"

definition expected_runtime :: string where
  "expected_runtime = ''Expected gaps inner|outer|horizontal|vertical|top|right|bottom|left current|all set|plus|minus|toggle <px>''"

definition gaps_request :: "string list \<Rightarrow> (bool \<times> gaps_data) option" where
  "gaps_request argv =
     (let a = argv ! 0; inner = str_caseeq a ''inner'' in
      if \<not> inner \<and> \<not> names_side a then None
      else case (pick_word str_caseeq [(''current'', False), (''all'', True)] (argv ! 1),
                 gaps_operation (argv ! 2), gaps_amount (argv ! 3)) of
        (Some all, Some operation, Some px) \<Rightarrow>
          Some (all, \<lparr>gd_inner = inner, gd_top = \<not> inner \<and> names_top a, gd_right = \<not> inner \<and> names_right a,
            gd_bottom = \<not> inner \<and> names_bottom a, gd_left = \<not> inner \<and> names_left a,
            gd_operation = operation, gd_amount = px\<rparr>)
      | _ \<Rightarrow> None)"

definition gaps_set_runtime :: handler where
  "gaps_set_runtime x argv s =
     needs_args argv ''gaps'' EXPECTED_EQUAL_TO 4 s
       (if outputs s = [] then invalid no_outputs s
        else case gaps_request argv of None \<Rightarrow> invalid expected_runtime s
        | Some (True, d) \<Rightarrow> ok (fold (configure_gaps d) (all_workspaces s) s)
        | Some (False, d) \<Rightarrow> ok (case h_workspace x of None \<Rightarrow> s | Some w \<Rightarrow> configure_gaps d w s))"

definition cmd_gaps :: handler where
  "cmd_gaps x argv s =
     needs_args argv ''gaps'' EXPECTED_AT_LEAST 2 s
       (let reading = op_reading (cfg_opts (cfg s)) in
        if length argv = 2 then gaps_set_defaults x argv s
        else if length argv = 4 \<and> \<not> reading then gaps_set_runtime x argv s
        else if reading then invalid expected_defaults s
        else invalid (expected_runtime @ '' or '' @ expected_defaults) s)"

section \<open>The configuration of a workspace\<close>

definition new_ws_config :: "string \<Rightarrow> ws_config" where
  "new_ws_config name = \<lparr>wc_workspace = name, wc_outputs = [],
     wc_gaps_outer = \<lparr>g_top = INT_MIN, g_right = INT_MIN, g_bottom = INT_MIN, g_left = INT_MIN\<rparr>, wc_gaps_inner = INT_MIN\<rparr>"

text \<open>workspace_config_find_or_create and a change of what it returned.\<close>

definition upd_ws_config :: "string \<Rightarrow> (ws_config \<Rightarrow> ws_config) \<Rightarrow> sway \<Rightarrow> sway" where
  "upd_ws_config name f s =
     upd_cfg (\<lambda>k.
       (let cs = cfg_workspace_configs k; i = nat (find_index_from 0 (\<lambda>c. wc_workspace c = name) cs) in
        if workspace_find_config s name \<noteq> None then k\<lparr>cfg_workspace_configs := cs[i := f (cs ! i)]\<rparr>
        else k\<lparr>cfg_workspace_configs := cs @ [f (new_ws_config name)]\<rparr>)) s"

definition clamp_set_gap :: "int \<Rightarrow> int \<Rightarrow> int" where
  "clamp_set_gap inner g = (if g \<noteq> INT_MIN \<and> g < to_int32 (- inner) then to_int32 (- inner) else g)"

definition clamp_config_gaps :: "ws_config \<Rightarrow> ws_config" where
  "clamp_config_gaps c =
     (let inner = (if wc_gaps_inner c \<noteq> INT_MIN \<and> wc_gaps_inner c < 0 then 0 else wc_gaps_inner c);
          g = wc_gaps_outer c; f = clamp_set_gap inner in
      c\<lparr>wc_gaps_inner := inner,
        wc_gaps_outer := \<lparr>g_top = f (g_top g), g_right = f (g_right g), g_bottom = f (g_bottom g), g_left = f (g_left g)\<rparr>\<rparr>)"

definition set_config_gaps :: "string \<Rightarrow> int \<Rightarrow> ws_config \<Rightarrow> ws_config" where
  "set_config_gaps kind px c =
     clamp_config_gaps
       (if str_caseeq kind ''inner'' then c\<lparr>wc_gaps_inner := max px 0\<rparr>
        else c\<lparr>wc_gaps_outer := set_sides kind px (wc_gaps_outer c)\<rparr>)"

definition expected_ws_gaps :: string where
  "expected_ws_gaps = ''Expected workspace <name> gaps inner|outer|horizontal|vertical|top|right|bottom|left <px>''"

definition cmd_workspace_gaps :: "string list \<Rightarrow> nat \<Rightarrow> sway \<Rightarrow> reply" where
  "cmd_workspace_gaps argv loc s =
     (if loc = 0 then invalid expected_ws_gaps s
      else needs_args argv ''workspace'' EXPECTED_EQUAL_TO (int loc + 3) s
        (let name = joined (take loc argv); kind = argv ! (loc + 1);
             s = upd_ws_config name (\<lambda>c. c) s in
         case whole_int (argv ! (loc + 2)) of None \<Rightarrow> failure expected_ws_gaps s
         | Some px \<Rightarrow>
             if str_caseeq kind ''inner'' \<or> names_side kind
             then ok (upd_ws_config name (set_config_gaps kind px) s)
             else invalid expected_ws_gaps s))"

definition cmd_workspace_output :: "string list \<Rightarrow> nat \<Rightarrow> sway \<Rightarrow> reply" where
  "cmd_workspace_output argv loc s =
     (if loc = 0 then invalid ''Expected workspace <name> output <output>'' s
      else needs_args argv ''workspace'' EXPECTED_AT_LEAST (int loc + 2) s
        (ok (upd_ws_config (joined (take loc argv)) (\<lambda>c. c\<lparr>wc_outputs := wc_outputs c @ drop (loc + 1) argv\<rparr>) s)))"

section \<open>Switching\<close>

definition by_name_or_create :: "env \<Rightarrow> string \<Rightarrow> string \<Rightarrow> sway \<Rightarrow> id \<times> sway" where
  "by_name_or_create E name new_name s =
     (case workspace_by_name E s name of Some w \<Rightarrow> (w, s) | None \<Rightarrow> workspace_create E None new_name s)"

definition back_and_forth :: "env \<Rightarrow> bool \<Rightarrow> id \<times> sway \<Rightarrow> id \<times> sway" where
  "back_and_forth E auto r = (case r of (w, s) \<Rightarrow> if auto then workspace_auto_back_and_forth E w s else (w, s))"

definition relative_names :: "string list" where
  "relative_names = [''next'', ''prev'', ''next_on_output'', ''prev_on_output'', ''current'']"

text \<open>The workspace the arguments name; it may have to be created.\<close>

definition workspace_asked :: "ctx \<Rightarrow> bool \<Rightarrow> string list \<Rightarrow> sway \<Rightarrow> (id option \<times> sway) + string" where
  "workspace_asked x auto argv s =
     (let E = h_env x; a = argv ! 0 in
      if str_caseeq a ''number''
      then
        (if length argv < 2 then Inr ''Expected workspace number''
         else if argv ! 1 = [] \<or> \<not> is_digit (hd (argv ! 1)) then Inr (''Invalid workspace number '' @ argv ! 1)
         else
           (let (w, s) = back_and_forth E auto
              (case workspace_by_number s (argv ! 1) of Some w \<Rightarrow> (w, s)
               | None \<Rightarrow> workspace_create E None (joined (tl argv)) s) in Inl (Some w, s)))
      else if is_word a relative_names then Inl (workspace_by_name E s a, s)
      else if str_caseeq a ''back_and_forth''
      then (case s_prev_workspace_name (my_seat x s) of None \<Rightarrow> Inr ''There is no previous workspace''
            | Some prev \<Rightarrow> (let (w, s) = by_name_or_create E a prev s in Inl (Some w, s)))
      else (let (w, s) = back_and_forth E auto (by_name_or_create E (joined argv) (joined argv) s) in Inl (Some w, s)))"

fun skip_no_auto :: "string list \<Rightarrow> bool \<Rightarrow> bool \<times> string list" where
  "skip_no_auto [] auto = (auto, [])"
| "skip_no_auto (a # rest) auto =
     (if str_caseeq a ''--no-auto-back-and-forth'' then skip_no_auto rest False else (auto, a # rest))"

definition switch_to_asked :: "ctx \<Rightarrow> string list \<Rightarrow> sway \<Rightarrow> reply" where
  "switch_to_asked x argv s =
     (let (auto, rest) = skip_no_auto argv True in
      needs_args rest ''workspace'' EXPECTED_AT_LEAST 1 s
        (case workspace_asked x auto rest s of
           Inr e \<Rightarrow> invalid e s
         | Inl (None, s) \<Rightarrow> failure ''No workspace to switch to'' s
         | Inl (Some w, s) \<Rightarrow>
             ok (seat_consider_warp_to_focus (h_env x) (the_seat x s) (workspace_switch (h_env x) w s))))"

definition word_index :: "string \<Rightarrow> string list \<Rightarrow> int" where
  "word_index name argv = find_index_from 0 (\<lambda>a. str_caseeq a name) argv"

definition cmd_workspace :: handler where
  "cmd_workspace x argv s =
     needs_args argv ''workspace'' EXPECTED_AT_LEAST 1 s
       (let out = word_index ''output'' argv; gaps = word_index ''gaps'' argv; p = cfg_opts (cfg s) in
        if out \<ge> 0 then cmd_workspace_output argv (nat out) s
        else if gaps \<ge> 0 then cmd_workspace_gaps argv (nat gaps) s
        else if op_reading p \<or> \<not> op_active p then (cmd_results_new CMD_DEFER None, s)
        else if outputs s = [] then invalid no_outputs s
        else if fullscreen_global s \<noteq> None then failure ''Can't switch workspaces while fullscreen global'' s
        else switch_to_asked x argv s)"

section \<open>Renaming\<close>

definition special_names :: "string list" where
  "special_names = relative_names @ [''back_and_forth'', ''number'']"

text \<open>The workspace to rename and the arguments from the word to on; nothing behind it when it is missing.\<close>

definition rename_target :: "ctx \<Rightarrow> string list \<Rightarrow> sway \<Rightarrow> (id option \<times> string list) + string" where
  "rename_target x argv s =
     (let until_to = dropWhile (\<lambda>a. \<not> str_caseeq a ''to'') in
      if str_caseeq (argv ! 1) ''to'' then Inl (h_workspace x, drop 1 argv)
      else if str_caseeq (argv ! 1) ''number''
      then (if argv ! 2 = [] \<or> \<not> is_digit (hd (argv ! 2)) then Inr (''Invalid workspace number '' @ argv ! 2)
            else Inl (workspace_by_number s (argv ! 2), until_to (drop 1 argv)))
      else Inl (workspace_by_name (h_env x) s (joined (takeWhile (\<lambda>a. \<not> str_caseeq a ''to'') (drop 1 argv))),
                until_to (drop 1 argv)))"

definition rename_to :: "id \<Rightarrow> string \<Rightarrow> sway \<Rightarrow> sway" where
  "rename_to w name s =
     (let s = upd_ws w (\<lambda>y. y\<lparr>w_name := name\<rparr>) s;
          s = (case w_output (wss s w) of None \<Rightarrow> s | Some p \<Rightarrow> output_sort_workspaces p s) in
      emit (Ev_workspace None (Some w) ''rename'') s)"

definition cmd_rename :: handler where
  "cmd_rename x argv s =
     needs_args argv ''rename'' EXPECTED_AT_LEAST 3 s
       (if outputs s = [] then invalid no_outputs s
        else if \<not> str_caseeq (argv ! 0) ''workspace''
        then invalid ''Expected rename workspace <old_name> to <new_name> or rename workspace to <new_name>'' s
        else case rename_target x argv s of
          Inr e \<Rightarrow> invalid e s
        | Inl (None, rest) \<Rightarrow> invalid ''There is no workspace with that name'' s
        | Inl (Some w, rest) \<Rightarrow>
            (let name = joined (tl rest) in
             if tl rest = []
             then invalid ''Expected rename workspace <old_name> to <new_name> or rename workspace to <new_name>'' s
             else if is_word name special_names
             then invalid (''Cannot use special workspace name '' @ hd (tl rest)) s
             else case workspace_by_name (h_env x) s name of
               Some v \<Rightarrow> if v = w then ok s else invalid ''Workspace already exists'' s
             | None \<Rightarrow> ok (rename_to w name s)))"

end
