(* ===== verification/Cmd_Focus.thy ===== *)
theory Cmd_Focus
  imports Cmd_Workspace
begin

text \<open>
  The command focus (sway/commands/focus.c): by direction, through outputs, to the parent or a child,
  to the floating or the tiled windows.
\<close>

section \<open>Directions\<close>

definition opposite_direction :: "direction \<Rightarrow> direction" where
  "opposite_direction d =
     (case d of DIR_UP \<Rightarrow> DIR_DOWN | DIR_DOWN \<Rightarrow> DIR_UP | DIR_RIGHT \<Rightarrow> DIR_LEFT | DIR_LEFT \<Rightarrow> DIR_RIGHT)"

definition box_center :: "box \<Rightarrow> rat \<times> rat" where
  "box_center b = (of_int (b_x b + b_width b div 2), of_int (b_y b + b_height b div 2))"

definition output_get_in_direction :: "env \<Rightarrow> id option \<Rightarrow> direction \<Rightarrow> id option" where
  "output_get_in_direction E reference d =
     (case reference of None \<Rightarrow> None
      | Some p \<Rightarrow> (case box_center (e_output_box E (Some p)) of (lx, ly) \<Rightarrow> e_adjacent E d p lx ly))"

definition parse_direction :: "string \<Rightarrow> direction option" where
  "parse_direction name =
     pick_word str_caseeq [(''left'', DIR_LEFT), (''right'', DIR_RIGHT), (''up'', DIR_UP), (''down'', DIR_DOWN)] name"

text \<open>
  next and prev follow the layout of the parent; without one there is no direction. Inr when the word
  is neither.
\<close>

definition get_direction_from_next_prev :: "sway \<Rightarrow> id option \<Rightarrow> string \<Rightarrow> direction option + unit" where
  "get_direction_from_next_prev s container name =
     (let l = (case container of None \<Rightarrow> L_NONE | Some c \<Rightarrow> container_parent_layout s c) in
      if str_caseeq name ''prev''
      then Inl (if l = L_HORIZ then Some DIR_LEFT else if l = L_NONE then None else Some DIR_UP)
      else if str_caseeq name ''next''
      then Inl (if l = L_HORIZ then Some DIR_RIGHT else if l = L_NONE then None else Some DIR_DOWN)
      else Inr ())"

definition is_across :: "direction \<Rightarrow> bool" where
  "is_across d \<longleftrightarrow> d = DIR_LEFT \<or> d = DIR_RIGHT"

definition is_backward :: "direction \<Rightarrow> bool" where
  "is_backward d \<longleftrightarrow> d = DIR_LEFT \<or> d = DIR_UP"

section \<open>The node in a direction\<close>

definition focus_view :: "sway \<Rightarrow> seat \<Rightarrow> id \<Rightarrow> node option" where
  "focus_view s t c = map_option N_CONTAINER (seat_get_focus_inactive_view s t (N_CONTAINER c))"

text \<open>Entering an output from the opposite side when the layout of its workspace runs that way.\<close>

definition entry_container :: "sway \<Rightarrow> seat \<Rightarrow> id \<Rightarrow> direction \<Rightarrow> id option" where
  "entry_container s t w d =
     (let ws = wss s w; cols = w_tiling ws;
          along = (if is_across d then w_layout ws = L_HORIZ \<or> w_layout ws = L_TABBED
                   else w_layout ws = L_VERT \<or> w_layout ws = L_STACKED) in
      if cols = [] then None
      else if along then Some (if is_backward d then last cols else hd cols)
      else seat_get_focus_inactive_tiling s t w)"

definition get_node_in_output_direction :: "env \<Rightarrow> sway \<Rightarrow> seat \<Rightarrow> id \<Rightarrow> direction \<Rightarrow> node option" where
  "get_node_in_output_direction E s t p d =
     (case output_get_active_workspace E s p of None \<Rightarrow> None
      | Some w \<Rightarrow>
          (case w_fullscreen (wss s w) of Some f \<Rightarrow> seat_get_focus_inactive s t (N_CONTAINER f)
           | None \<Rightarrow>
               (case entry_container s t w d of Some c \<Rightarrow> focus_view s t c
                | None \<Rightarrow> seat_get_focus_inactive s t (N_WORKSPACE w))))"

definition container_output :: "sway \<Rightarrow> id \<Rightarrow> id option" where
  "container_output s c = (case c_workspace (cons s c) of None \<Rightarrow> None | Some w \<Rightarrow> w_output (wss s w))"

text \<open>
  The list a container moves in and the index it goes to, when the direction fits the layout of its
  parent or it is a column.
\<close>

definition step_in_siblings :: "sway \<Rightarrow> id \<Rightarrow> direction \<Rightarrow> (id list \<times> int) option" where
  "step_in_siblings s c d =
     (let l = container_parent_layout s c;
          sibs = (case container_get_siblings s c of None \<Rightarrow> [] | Some r \<Rightarrow> list_of s r);
          step = (if is_backward d then -1 else 1);
          fits = (if is_across d then l = L_HORIZ else l = L_VERT \<or> l = L_STACKED \<or> l = L_TABBED) in
      if fits then Some (sibs, index_of c sibs + step)
      else case (c_parent (cons s c), c_workspace (cons s c)) of
        (None, Some w) \<Rightarrow> (let cols = w_tiling (wss s w) in
          if index_of c cols \<ge> 0 then Some (cols, index_of c cols + step) else None)
      | _ \<Rightarrow> None)"

text \<open>
  The loop of node_get_in_direction_tiling goes from the container to its parents and remembers
  where it could wrap; the fuel is the longest chain of parents. Inl is an answer, Inr the candidate.
\<close>

fun tiling_loop :: "nat \<Rightarrow> env \<Rightarrow> sway \<Rightarrow> seat \<Rightarrow> direction \<Rightarrow> bool \<Rightarrow> id option \<Rightarrow> id option
    \<Rightarrow> node option + id option" where
  "tiling_loop 0 E s t d descend current wrap_candidate = Inr wrap_candidate"
| "tiling_loop (Suc n) E s t d descend current wrap_candidate =
     (case current of None \<Rightarrow> Inr wrap_candidate
      | Some c \<Rightarrow>
          if c_fullscreen (cons s c) = FULLSCREEN_WORKSPACE
          then Inl (case output_get_in_direction E (container_output s c) d of None \<Rightarrow> None
                    | Some p \<Rightarrow> get_node_in_output_direction E s t p d)
          else if c_fullscreen (cons s c) = FULLSCREEN_GLOBAL then Inl None
          else
            (let mode = op_focus_wrapping (cfg_opts (cfg s)); l = container_parent_layout s c;
                 up = c_parent (cons s c) in
             case step_in_siblings s c d of
               None \<Rightarrow> tiling_loop n E s t d descend up wrap_candidate
             | Some (sibs, desired) \<Rightarrow>
                 if 0 \<le> desired \<and> desired < int (length sibs)
                 then (let c = sibs ! nat desired in Inl (if descend then focus_view s t c else Some (N_CONTAINER c)))
                 else
                   (let edge = (if desired < 0 then last sibs else hd sibs) in
                    if l = L_VERT \<or> l = L_TABBED \<or> l = L_STACKED
                    then Inl (if mode \<noteq> WRAP_NO \<and> length sibs > 1 then focus_view s t edge else None)
                    else if mode \<noteq> WRAP_NO \<and> wrap_candidate = None \<and> length sibs > 1
                    then (if mode = WRAP_FORCE then Inl (focus_view s t edge)
                          else tiling_loop n E s t d descend up (Some edge))
                    else tiling_loop n E s t d descend up wrap_candidate)))"

definition node_get_in_direction_tiling :: "env \<Rightarrow> sway \<Rightarrow> seat \<Rightarrow> id \<Rightarrow> direction \<Rightarrow> bool \<Rightarrow> node option" where
  "node_get_in_direction_tiling E s t c d descend =
     (case tiling_loop (next_id s + 1) E s t d descend (Some c) None of
        Inl n \<Rightarrow> n
      | Inr wrap_candidate \<Rightarrow>
          (case output_get_in_direction E (container_output s c) d of
             Some p \<Rightarrow>
               if op_focus_wrapping (cfg_opts (cfg s)) \<noteq> WRAP_WORKSPACE then get_node_in_output_direction E s t p d
               else (case wrap_candidate of None \<Rightarrow> None | Some c \<Rightarrow> focus_view s t c)
           | None \<Rightarrow> (case wrap_candidate of None \<Rightarrow> None | Some c \<Rightarrow> focus_view s t c)))"

text \<open>How far the centre of a floating container is in a direction.\<close>

definition center_distance :: "direction \<Rightarrow> container \<Rightarrow> container \<Rightarrow> rat" where
  "center_distance d con floater =
     (let dist = (if is_across d then (c_x floater + c_width floater / 2) - (c_x con + c_width con / 2)
                  else (c_y floater + c_height floater / 2) - (c_y con + c_height con / 2)) in
      if is_backward d then - dist else dist)"

text \<open>The loop over the floating containers keeps the closest one ahead and the furthest one behind.\<close>

fun floating_loop :: "(id \<Rightarrow> rat) \<Rightarrow> id list \<Rightarrow> rat \<Rightarrow> id option \<Rightarrow> rat \<Rightarrow> id option \<Rightarrow> id option \<times> id option" where
  "floating_loop dist_of [] closest_d closest furthest_d furthest = (closest, furthest)"
| "floating_loop dist_of (f # fs) closest_d closest furthest_d furthest =
     (let dist = dist_of f in
      if dist \<le> 0
      then (if dist < furthest_d then floating_loop dist_of fs closest_d closest dist (Some f)
            else floating_loop dist_of fs closest_d closest furthest_d furthest)
      else if dist < closest_d then floating_loop dist_of fs dist (Some f) furthest_d furthest
      else floating_loop dist_of fs closest_d closest furthest_d furthest)"

definition node_get_in_direction_floating :: "sway \<Rightarrow> id \<Rightarrow> direction \<Rightarrow> node option" where
  "node_get_in_direction_floating s c d =
     (case c_workspace (cons s c) of None \<Rightarrow> None
      | Some w \<Rightarrow>
          (case floating_loop (\<lambda>f. center_distance d (cons s c) (cons s f))
                  (filter (\<lambda>f. f \<noteq> c) (w_floating (wss s w))) DBL_MAX None 1 None of
             (closest, furthest) \<Rightarrow>
               map_option N_CONTAINER
                 (if closest = None \<and> op_focus_wrapping (cfg_opts (cfg s)) \<noteq> WRAP_NO then furthest else closest)))"

section \<open>The command\<close>

definition focus_and_warp :: "ctx \<Rightarrow> node option \<Rightarrow> sway \<Rightarrow> sway" where
  "focus_and_warp x n s = seat_consider_warp_to_focus (h_env x) (the_seat x s) (seat_set_focus x n s)"

definition focus_mode :: "ctx \<Rightarrow> bool \<Rightarrow> sway \<Rightarrow> reply" where
  "focus_mode x floating s =
     (case h_workspace x of None \<Rightarrow> failure ''Target container is not in a workspace'' s
      | Some w \<Rightarrow>
          (let t = my_seat x s in
           case (if floating then seat_get_focus_inactive_floating s t w else seat_get_focus_inactive_tiling s t w) of
             None \<Rightarrow> failure ''Failed to find a container in workspace.'' s
           | Some c \<Rightarrow>
               (let c = (case seat_get_focus_inactive_view s t (N_CONTAINER c) of Some v \<Rightarrow> v | None \<Rightarrow> c);
                    s = seat_set_focus_container x (Some c) s in
                ok (if op_mouse_warping (cfg_opts (cfg s)) = WARP_CONTAINER
                    then cursor_warp_to_container (h_env x) (the_seat x s) (Some c) True s
                    else seat_consider_warp_to_focus (h_env x) (the_seat x s) s))))"

text \<open>The output in a direction, or else the farthest one on the other side.\<close>

definition output_around :: "ctx \<Rightarrow> sway \<Rightarrow> id \<Rightarrow> direction \<Rightarrow> id option" where
  "output_around x s p d =
     (case output_get_in_direction (h_env x) (Some p) d of Some q \<Rightarrow> Some q
      | None \<Rightarrow> (case box_center \<lparr>b_x = o_lx (outs s p), b_y = o_ly (outs s p),
                     b_width = o_width (outs s p), b_height = o_height (outs s p)\<rparr> of
                  (lx, ly) \<Rightarrow> e_farthest (h_env x) (opposite_direction d) p lx ly))"

definition focus_output :: "ctx \<Rightarrow> string list \<Rightarrow> sway \<Rightarrow> reply" where
  "focus_output x argv s =
     (let go = (\<lambda>p. ok (case p of None \<Rightarrow> s
            | Some p \<Rightarrow> focus_and_warp x (seat_get_focus_inactive s (my_seat x s) (N_OUTPUT p)) s)) in
      if argv = [] then invalid ''Expected focus output <direction|name>.'' s
      else case output_by_name_or_id s (joined argv) of Some p \<Rightarrow> go (Some p)
      | None \<Rightarrow>
          (case parse_direction (joined argv) of None \<Rightarrow> invalid ''There is no output with that name.'' s
           | Some d \<Rightarrow>
               (case seat_get_focused_workspace s (my_seat x s) of
                  None \<Rightarrow> failure ''No focused workspace to base directions off of.'' s
                | Some w \<Rightarrow> go (case w_output (wss s w) of None \<Rightarrow> None | Some p \<Rightarrow> output_around x s p d))))"

definition focus_parent :: "ctx \<Rightarrow> sway \<Rightarrow> reply" where
  "focus_parent x s =
     (case h_container x of None \<Rightarrow> ok s
      | Some c \<Rightarrow>
          if c_fullscreen (cons s c) \<noteq> FULLSCREEN_NONE then ok s
          else (case node_get_parent s (N_CONTAINER c) of None \<Rightarrow> ok s
                | Some p \<Rightarrow> ok (focus_and_warp x (Some p) s)))"

definition focus_child :: "ctx \<Rightarrow> node \<Rightarrow> sway \<Rightarrow> reply" where
  "focus_child x n s =
     (case seat_get_active_tiling_child s (my_seat x s) n of None \<Rightarrow> ok s
      | Some f \<Rightarrow> ok (focus_and_warp x (Some f) s))"

text \<open>focus without arguments: the container of the criteria.\<close>

definition focus_container_of :: "ctx \<Rightarrow> id \<Rightarrow> sway \<Rightarrow> sway" where
  "focus_container_of x c s =
     (let E = h_env x;
          s = (if container_is_scratchpad_hidden_or_child s c then root_scratchpad_show E c s else s);
          s = (case container_obstructing_fullscreen_container (e_transient E) s c of None \<Rightarrow> s
               | Some f \<Rightarrow> arrange_root_of x (container_fullscreen_disable E f s));
          s = focus_and_warp x (Some (N_CONTAINER c)) s in
      container_raise_floating c s)"

definition focus_in_direction :: "ctx \<Rightarrow> node \<Rightarrow> direction \<Rightarrow> bool \<Rightarrow> sway \<Rightarrow> reply" where
  "focus_in_direction x n d descend s =
     (let E = h_env x; t = my_seat x s in
      case n of
        N_WORKSPACE w \<Rightarrow>
          (case output_get_in_direction E (w_output (wss s w)) d of None \<Rightarrow> ok s
           | Some p \<Rightarrow> ok (focus_and_warp x (get_node_in_output_direction E s t p d) s))
      | N_CONTAINER c \<Rightarrow>
          (case (if container_is_floating s c \<and> c_fullscreen (cons s c) = FULLSCREEN_NONE
                 then node_get_in_direction_floating s c d
                 else node_get_in_direction_tiling E s t c d descend) of
             None \<Rightarrow> ok s
           | Some f \<Rightarrow>
               (let s = focus_and_warp x (Some f) s in
                ok (case f of N_CONTAINER c \<Rightarrow> container_raise_floating c s | _ \<Rightarrow> s)))
      | _ \<Rightarrow> failure [] s)"

definition focus_expected :: string where
  "focus_expected = ''Expected focus <direction|next|prev|parent|child|mode_toggle|floating|tiling> or focus output <direction|name>''"

definition focus_argument :: "ctx \<Rightarrow> node \<Rightarrow> string list \<Rightarrow> sway \<Rightarrow> reply" where
  "focus_argument x n argv s =
     (let a = argv ! 0 in
      if a = ''floating'' then focus_mode x True s
      else if a = ''tiling'' then focus_mode x False s
      else if a = ''mode_toggle''
      then focus_mode x (\<not> (case h_container x of None \<Rightarrow> False | Some c \<Rightarrow> container_is_floating_or_child s c)) s
      else if a = ''output'' then focus_output x (tl argv) s
      else if str_caseeq a ''parent'' then focus_parent x s
      else if str_caseeq a ''child'' then focus_child x n s
      else case parse_direction a of Some d \<Rightarrow> focus_in_direction x n d True s
      | None \<Rightarrow>
          (case get_direction_from_next_prev s (h_container x) a of
             Inr _ \<Rightarrow> invalid focus_expected s
           | Inl None \<Rightarrow> ok s
           | Inl (Some d) \<Rightarrow> focus_in_direction x n d (\<not> (length argv = 2 \<and> str_caseeq (argv ! 1) ''sibling'')) s))"

text \<open>Before the first output there is no node to focus; the source would read through NULL.\<close>

definition cmd_focus :: handler where
  "cmd_focus x argv s =
     (let p = cfg_opts (cfg s) in
      if op_reading p \<or> \<not> op_active p then (cmd_results_new CMD_DEFER None, s)
      else if outputs s = [] then invalid no_outputs s
      else case h_node x of
        Some (N_WORKSPACE w) \<Rightarrow>
          if argv = [] then failure ''No container to focus was specified.'' s
          else focus_argument x (N_WORKSPACE w) argv s
      | Some (N_CONTAINER c) \<Rightarrow>
          if argv = [] then ok (focus_container_of x c s) else focus_argument x (N_CONTAINER c) argv s
      | _ \<Rightarrow> failure ''Command focus cannot be used above the workspace level.'' s)"

end
