(* ===== verification/Cmd_Move.thy ===== *)
theory Cmd_Move
  imports Cmd_Focus Cmd_Column
begin

text \<open>
  The command move (sway/commands/move.c): columns and windows in a direction, containers to
  workspaces, outputs, marks and the scratchpad, workspaces to outputs, floating containers to
  positions.
\<close>

section \<open>Outputs by name or direction\<close>

definition output_in_direction :: "ctx \<Rightarrow> sway \<Rightarrow> string \<Rightarrow> id option \<Rightarrow> int \<Rightarrow> int \<Rightarrow> id option" where
  "output_in_direction x s name reference ref_lx ref_ly =
     (if str_caseeq name ''current''
      then (case seat_get_focused_workspace s (my_seat x s) of None \<Rightarrow> None | Some w \<Rightarrow> w_output (wss s w))
      else
        (let E = h_env x;
             target = (case (reference, parse_direction name) of
                (Some p, Some d) \<Rightarrow>
                  (case e_adjacent E d p (of_int ref_lx) (of_int ref_ly) of Some q \<Rightarrow> Some q
                   | None \<Rightarrow> e_farthest E (opposite_direction d) p (of_int ref_lx) (of_int ref_ly))
              | _ \<Rightarrow> None) in
         case target of Some q \<Rightarrow> Some q | None \<Rightarrow> output_by_name_or_id s name))"

definition runs_along :: "container_layout \<Rightarrow> direction \<Rightarrow> bool" where
  "runs_along l d =
     (case l of
        L_TABBED \<Rightarrow> is_across d | L_HORIZ \<Rightarrow> is_across d
      | L_STACKED \<Rightarrow> \<not> is_across d | L_VERT \<Rightarrow> \<not> is_across d | L_NONE \<Rightarrow> False)"

definition focus_fullscreen_of :: "id \<Rightarrow> id \<Rightarrow> nat \<Rightarrow> sway \<Rightarrow> sway" where
  "focus_fullscreen_of w f k s =
     (if seat_get_focused_workspace s (seat_at s k) = Some w
      then (case seat_get_focus_inactive s (seat_at s k) (N_CONTAINER f) of None \<Rightarrow> s | Some n \<Rightarrow> seat_set_raw_focus k n s)
      else s)"

definition workspace_focus_fullscreen :: "id \<Rightarrow> sway \<Rightarrow> sway" where
  "workspace_focus_fullscreen w s =
     (case w_fullscreen (wss s w) of None \<Rightarrow> s | Some f \<Rightarrow> each_seat (focus_fullscreen_of w f) s)"

section \<open>Moving a container\<close>

definition zero_size :: "id \<Rightarrow> sway \<Rightarrow> sway" where
  "zero_size c s = upd_con c (\<lambda>y. y\<lparr>c_width := 0, c_height := 0, c_width_fraction := 0, c_height_fraction := 0\<rparr>) s"

definition squash_at :: "env \<Rightarrow> id option \<Rightarrow> sway \<Rightarrow> sway" where
  "squash_at E w s = (case w of None \<Rightarrow> s | Some w \<Rightarrow> workspace_squash E w s)"

definition swap_siblings :: "id \<Rightarrow> id \<Rightarrow> sway \<Rightarrow> sway" where
  "swap_siblings c d s =
     (case container_get_siblings s c of None \<Rightarrow> s
      | Some r \<Rightarrow>
          (let sibs = list_of s r in
           container_update_representation c
             (upd_list r (swap_at (nat (index_of c sibs)) (nat (index_of d sibs))) s)))"

definition promote_beside :: "env \<Rightarrow> id \<Rightarrow> id \<Rightarrow> direction \<Rightarrow> sway \<Rightarrow> sway" where
  "promote_beside E c d dir s =
     (let index = sibling_index s d + (if is_backward dir then 1 else 0);
          s = (case c_parent (cons s d) of
                 Some p \<Rightarrow> zero_size c (container_insert_child E p c index s)
               | None \<Rightarrow> (case c_workspace (cons s d) of None \<Rightarrow> s
                         | Some w \<Rightarrow> snd (workspace_insert_tiling E w c index s))) in
      squash_at E (c_workspace (cons s d)) s)"

text \<open>The destination goes down to the active child; the fuel is the longest chain of containers.\<close>

fun move_to_container_from :: "nat \<Rightarrow> ctx \<Rightarrow> id \<Rightarrow> id \<Rightarrow> direction \<Rightarrow> sway \<Rightarrow> sway" where
  "move_to_container_from 0 x c d dir s = s"
| "move_to_container_from (Suc n) x c d dir s =
     (let E = h_env x in
      if c_view (cons s d) \<noteq> None
      then (if c_parent (cons s d) = c_parent (cons s c) \<and> c_workspace (cons s d) = c_workspace (cons s c)
            then swap_siblings c d s else promote_beside E c d dir s)
      else if runs_along (c_layout (cons s d)) dir
      then (let index = (if is_backward dir then int (length (c_children (cons s d))) else 0);
                s = zero_size c (container_insert_child E d c index s) in
            squash_at E (c_workspace (cons s d)) s)
      else case seat_get_active_tiling_child s (my_seat x s) (N_CONTAINER d) of
        Some (N_CONTAINER e) \<Rightarrow> if e = d then container_add_child E d c s else move_to_container_from n x c e dir s
      | _ \<Rightarrow> container_add_child E d c s)"

definition container_move_to_container_from_direction :: "ctx \<Rightarrow> id \<Rightarrow> id \<Rightarrow> direction \<Rightarrow> sway \<Rightarrow> sway" where
  "container_move_to_container_from_direction x c d dir s = move_to_container_from (next_id s + 1) x c d dir s"

definition container_move_to_workspace_from_direction :: "ctx \<Rightarrow> id \<Rightarrow> id \<Rightarrow> direction \<Rightarrow> sway \<Rightarrow> sway" where
  "container_move_to_workspace_from_direction x c w dir s =
     (let E = h_env x; s = zero_size c s in
      if runs_along (w_layout (wss s w)) dir
      then snd (workspace_insert_tiling E w c (if is_backward dir then int (length (w_tiling (wss s w))) else 0) s)
      else case seat_get_focus_inactive_tiling s (my_seat x s) w of
        None \<Rightarrow> snd (workspace_add_tiling E w c s)
      | Some f \<Rightarrow> container_move_to_container_from_direction x c (container_toplevel_ancestor s f) dir s)"

text \<open>A visible scratchpad container gets the box of the workspace as its transform.\<close>

definition move_floating_to_workspace :: "env \<Rightarrow> id \<Rightarrow> id \<Rightarrow> id \<Rightarrow> sway \<Rightarrow> sway" where
  "move_floating_to_workspace E c old w s =
     (let old_output = w_output (wss s old);
          s = workspace_add_floating E w c (container_detach c s);
          s = container_handle_fullscreen_reparent E c s in
      if old_output \<noteq> w_output (wss s w) \<and> c_fullscreen (cons s c) = FULLSCREEN_NONE
      then
        (let box = workspace_get_box s w;
             s = floating_fix_coordinates c (workspace_get_box s old) box s in
         if c_scratchpad (cons s c) \<and> w_output (wss s w) \<noteq> None then upd_con c (\<lambda>y. y\<lparr>c_transform := box\<rparr>) s else s)
      else s)"

definition size_for_workspace :: "id \<Rightarrow> id \<Rightarrow> sway \<Rightarrow> sway" where
  "size_for_workspace c w s =
     (if c_view (cons s c) \<noteq> None then zero_size c s
      else
        (let ws = wss s w;
             f = (if c_width_fraction (cons s c) \<le> 0 then layout_get_default_width s else c_width_fraction (cons s c)) in
         upd_con c (\<lambda>y. y\<lparr>c_width_fraction := f, c_width := workspace_width_fraction ws f,
           c_height := workspace_height_fraction ws 1\<rparr>) s))"

definition move_tiled_to_workspace :: "env \<Rightarrow> id \<Rightarrow> id \<Rightarrow> sway \<Rightarrow> sway" where
  "move_tiled_to_workspace E c w s =
     container_update_representation c
       (snd (workspace_add_tiling E w c (size_for_workspace c w (container_detach c s))))"

definition moved_event :: "id \<Rightarrow> sway \<Rightarrow> sway" where
  "moved_event c s = (if c_view (cons s c) \<noteq> None then emit (Ev_window c ''move'') s else s)"

definition container_move_to_workspace :: "env \<Rightarrow> id \<Rightarrow> id \<Rightarrow> sway \<Rightarrow> sway" where
  "container_move_to_workspace E c w s =
     (let old = c_workspace (cons s c) in
      if old = Some w then s
      else
        (let s = (case (container_is_floating s c, old) of
                    (True, Some v) \<Rightarrow> move_floating_to_workspace E c v w s
                  | _ \<Rightarrow> move_tiled_to_workspace E c w s);
             s = moved_event c s;
             s = workspace_detect_urgent w (detect_urgent_at old s) in
         workspace_focus_fullscreen w s))"

definition container_move_to_container :: "env \<Rightarrow> id \<Rightarrow> id \<Rightarrow> sway \<Rightarrow> sway" where
  "container_move_to_container E c d s =
     (if c = d \<or> container_has_ancestor s d c then s
      else if container_is_floating s c
      then (case c_workspace (cons s d) of None \<Rightarrow> s | Some w \<Rightarrow> container_move_to_workspace E c w s)
      else
        (let old = c_workspace (cons s c);
             s = zero_size c (container_detach c s);
             s = (if c_view (cons s d) \<noteq> None then container_add_sibling E d c True s else container_add_child E d c s);
             s = moved_event c s;
             new = c_workspace (cons s d);
             s = (case new of None \<Rightarrow> s | Some w \<Rightarrow> workspace_detect_urgent w (workspace_focus_fullscreen w s)) in
         if old \<noteq> None \<and> old \<noteq> new then detect_urgent_at old s else s))"

text \<open>Whether the container moved, and the state.\<close>

definition container_move_to_next_output :: "ctx \<Rightarrow> id \<Rightarrow> direction \<Rightarrow> sway \<Rightarrow> bool \<times> sway" where
  "container_move_to_next_output x c dir s =
     (case output_get_in_direction (h_env x) (container_output s c) dir of None \<Rightarrow> (False, s)
      | Some p \<Rightarrow>
          (case output_get_active_workspace (h_env x) s p of None \<Rightarrow> (False, s)
           | Some w \<Rightarrow>
               (case c_fullscreen (cons s c) of
                  FULLSCREEN_NONE \<Rightarrow> (True, container_move_to_workspace_from_direction x c w dir s)
                | FULLSCREEN_WORKSPACE \<Rightarrow> (True, container_move_to_workspace (h_env x) c w s)
                | FULLSCREEN_GLOBAL \<Rightarrow> (False, s))))"

text \<open>Up and down move a window within its column, left and right the column in its row.\<close>

definition swap_step :: "id \<Rightarrow> direction \<Rightarrow> id list \<Rightarrow> id list option" where
  "swap_step c dir xs =
     (let i = index_of c xs; j = i + (if is_backward dir then -1 else 1) in
      if 0 \<le> i \<and> 0 \<le> j \<and> j < int (length xs) then Some (swap_at (nat i) (nat j) xs) else None)"

definition container_move_in_direction :: "ctx \<Rightarrow> id \<Rightarrow> direction \<Rightarrow> sway \<Rightarrow> bool \<times> sway" where
  "container_move_in_direction x c dir s =
     (case c_fullscreen (cons s c) of
        FULLSCREEN_WORKSPACE \<Rightarrow> container_move_to_next_output x c dir s
      | FULLSCREEN_GLOBAL \<Rightarrow> (False, s)
      | FULLSCREEN_NONE \<Rightarrow>
          if container_is_floating s c then (False, s)
          else if \<not> is_across dir
          then (case c_parent (cons s c) of None \<Rightarrow> (False, s)
                | Some p \<Rightarrow>
                    (case swap_step c dir (c_children (cons s p)) of None \<Rightarrow> (False, s)
                     | Some cs \<Rightarrow> (True, upd_con p (\<lambda>y. y\<lparr>c_children := cs\<rparr>) s)))
          else
            (let col = container_toplevel_ancestor s c in
             case c_workspace (cons s col) of None \<Rightarrow> (False, s)
             | Some w \<Rightarrow>
                 (case swap_step col dir (w_tiling (wss s w)) of None \<Rightarrow> (False, s)
                  | Some cs \<Rightarrow> (True, upd_ws w (\<lambda>y. y\<lparr>w_tiling := cs\<rparr>) s))))"

section \<open>move left, right, up, down\<close>

definition reap_or_consider :: "env \<Rightarrow> id option \<Rightarrow> id option \<Rightarrow> sway \<Rightarrow> sway" where
  "reap_or_consider E old_parent old_ws s =
     (case old_parent of Some p \<Rightarrow> container_reap_empty E p s
      | None \<Rightarrow> (case old_ws of None \<Rightarrow> s | Some w \<Rightarrow> workspace_consider_destroy E w s))"

definition move_tiled_in_direction :: "ctx \<Rightarrow> id \<Rightarrow> direction \<Rightarrow> sway \<Rightarrow> sway" where
  "move_tiled_in_direction x c dir s =
     (let old_ws = c_workspace (cons s c); old_parent = c_parent (cons s c) in
      case container_move_in_direction x c dir s of
        (False, s) \<Rightarrow> s
      | (True, s) \<Rightarrow>
          (let s = reap_or_consider (h_env x) old_parent old_ws s;
               new_ws = c_workspace (cons s c);
               s = (if fullscreen_global s \<noteq> None then arrange_root_of x s
                    else (let s = arrange_ws old_ws s in if new_ws \<noteq> old_ws then arrange_ws new_ws s else s)) in
           moved_event c s))"

definition moved_by :: "direction \<Rightarrow> int \<Rightarrow> container \<Rightarrow> rat \<times> rat" where
  "moved_by dir px con =
     (c_x con + (if dir = DIR_LEFT then - of_int px else if dir = DIR_RIGHT then of_int px else 0),
      c_y con + (if dir = DIR_UP then - of_int px else if dir = DIR_DOWN then of_int px else 0))"

definition cmd_move_in_direction :: "direction \<Rightarrow> handler" where
  "cmd_move_in_direction dir x argv s =
     (case (if argv = [] then Some 10 else gaps_amount (argv ! 0)) of
        None \<Rightarrow> failure ''Invalid distance specified'' s
      | Some px \<Rightarrow>
          (case h_container x of None \<Rightarrow> failure ''Cannot move workspaces in a direction'' s
           | Some c \<Rightarrow>
               if container_is_floating s c
               then (if c_fullscreen (cons s c) \<noteq> FULLSCREEN_NONE
                     then failure ''Cannot move fullscreen floating container'' s
                     else case moved_by dir px (cons s c) of
                       (lx, ly) \<Rightarrow> ok (container_floating_move_to (h_env x) c lx ly s))
               else ok (move_tiled_in_direction x c dir s)))"

section \<open>move to workspace, output, mark\<close>

definition move_expected :: string where
  "move_expected = ''Expected move left|right|up|down, workspace, output, mark, scratchpad or position''"

text \<open>The workspace asked for and the name to create it with when there is none.\<close>

definition workspace_by_argument :: "ctx \<Rightarrow> string list \<Rightarrow> sway \<Rightarrow> (id option \<times> string) + reply" where
  "workspace_by_argument x argv s =
     (let E = h_env x in
      if str_caseeq (argv ! 1) ''number''
      then (if length argv < 3 then Inr (invalid move_expected s)
            else if argv ! 2 = [] \<or> \<not> is_digit (hd (argv ! 2)) then Inr (invalid (''Invalid workspace number '' @ argv ! 2) s)
            else (let name = joined (drop 2 argv) in Inl (workspace_by_number s name, name)))
      else (let name = joined (drop 1 argv) in Inl (workspace_by_name E s name, name)))"

definition back_when_current :: "ctx \<Rightarrow> bool \<Rightarrow> id option \<Rightarrow> sway \<Rightarrow> id option \<times> string \<Rightarrow> id option \<times> string" where
  "back_when_current x no_auto old_ws s r =
     (case (old_ws, s_prev_workspace_name (my_seat x s)) of
        (Some w, Some prev) \<Rightarrow>
          if \<not> no_auto \<and> cfg_auto_back_and_forth (cfg s) \<and> w_name (wss s w) = snd r
          then (workspace_by_name (h_env x) s prev, prev) else r
      | _ \<Rightarrow> r)"

definition workspace_for_move :: "ctx \<Rightarrow> bool \<Rightarrow> id option \<Rightarrow> string list \<Rightarrow> sway \<Rightarrow> (id option \<times> string) + reply" where
  "workspace_for_move x no_auto old_ws argv s =
     (let E = h_env x; a = argv ! 1 in
      if is_word a relative_names then Inl (workspace_by_name E s a, [])
      else if str_caseeq a ''back_and_forth''
      then (case workspace_by_name E s a of Some w \<Rightarrow> Inl (Some w, [])
            | None \<Rightarrow> (case s_prev_workspace_name (my_seat x s) of Some prev \<Rightarrow> Inl (None, prev)
                      | None \<Rightarrow> Inr (failure ''No workspace was previously active.'' s)))
      else case workspace_by_argument x argv s of Inr r \<Rightarrow> Inr r
      | Inl r \<Rightarrow> Inl (back_when_current x no_auto old_ws s r))"

definition sticky_message :: string where
  "sticky_message = ''Can't move sticky container to another workspace on the same output''"

definition workspace_destination :: "ctx \<Rightarrow> bool \<Rightarrow> id \<Rightarrow> string list \<Rightarrow> sway \<Rightarrow> (node \<times> sway) + reply" where
  "workspace_destination x no_auto c argv s =
     (let E = h_env x; old_ws = c_workspace (cons s c);
          dest = (\<lambda>w s. (case seat_get_focus_inactive_tiling s (my_seat x s) w of
                           Some d \<Rightarrow> N_CONTAINER d | None \<Rightarrow> N_WORKSPACE w, s)) in
      case workspace_for_move x no_auto old_ws argv s of Inr r \<Rightarrow> Inr r
      | Inl (Some w, _) \<Rightarrow> Inl (dest w s)
      | Inl (None, name) \<Rightarrow>
          if container_is_sticky_or_child s c \<and> container_output s c = workspace_get_initial_output E s name
          then Inr (failure sticky_message s)
          else (case workspace_create E None name s of (w, s) \<Rightarrow> Inl (dest w (arrange_workspace w s))))"

definition move_destination :: "ctx \<Rightarrow> bool \<Rightarrow> id \<Rightarrow> string list \<Rightarrow> sway \<Rightarrow> (node \<times> sway) + reply" where
  "move_destination x no_auto c argv s =
     (let a = argv ! 0 in
      if str_caseeq a ''workspace'' then workspace_destination x no_auto c argv s
      else if str_caseeq a ''output''
      then (case output_in_direction x s (argv ! 1) (container_output s c) (c_trunc (c_x (cons s c))) (c_trunc (c_y (cons s c))) of
              None \<Rightarrow> Inr (failure (''Can't find output with name/direction '' @ argv ! 1) s)
            | Some p \<Rightarrow> (case seat_get_focus_inactive s (my_seat x s) (N_OUTPUT p) of
                None \<Rightarrow> Inr (failure [] s) | Some n \<Rightarrow> Inl (n, s)))
      else if str_caseeq a ''mark''
      then (case container_find_mark s (argv ! 1) of None \<Rightarrow> Inr (failure (''Mark '' @ argv ! 1 @ '' not found'') s)
            | Some d \<Rightarrow> Inl (N_CONTAINER d, s))
      else Inr (invalid move_expected s))"

definition cmd_move_to_scratchpad :: "ctx \<Rightarrow> sway \<Rightarrow> reply" where
  "cmd_move_to_scratchpad x s =
     (let E = h_env x;
          go = (\<lambda>c s. (let c = float_root s c in
             ok (if \<not> c_scratchpad (cons s c) then root_scratchpad_add_container E c None s
                 else if c_workspace (cons s c) \<noteq> None then root_scratchpad_hide E c s else s))) in
      case h_node x of
        Some (N_WORKSPACE w) \<Rightarrow>
          if w_tiling (wss s w) = [] then invalid ''Can't move an empty workspace to the scratchpad'' s
          else (case workspace_wrap_children E w s of (m, s) \<Rightarrow> go m (upd_ws w (\<lambda>y. y\<lparr>w_layout := L_HORIZ\<rparr>) s))
      | _ \<Rightarrow> (case h_container x of None \<Rightarrow> ok s | Some c \<Rightarrow> go c s))"

definition move_to_node :: "ctx \<Rightarrow> id \<Rightarrow> node \<Rightarrow> sway \<Rightarrow> sway option" where
  "move_to_node x c n s =
     (let E = h_env x in
      case n of
        N_WORKSPACE w \<Rightarrow> Some (container_move_to_workspace E c w s)
      | N_OUTPUT p \<Rightarrow> map_option (\<lambda>w. container_move_to_workspace E c w s) (output_get_active_workspace E s p)
      | N_CONTAINER d \<Rightarrow> Some (container_move_to_container E c d s)
      | N_ROOT \<Rightarrow> Some s)"

text \<open>The focus after the move: where it was, or near where the moved container was.\<close>

definition focus_after_move :: "ctx \<Rightarrow> id \<Rightarrow> id option \<Rightarrow> id option \<Rightarrow> node option \<Rightarrow> sway \<Rightarrow> node option" where
  "focus_after_move x c old_parent old_ws focus s =
     (if focus = Some (N_CONTAINER c)
      then (case (case old_parent of None \<Rightarrow> None | Some p \<Rightarrow> seat_get_focus_inactive s (my_seat x s) (N_CONTAINER p)) of
              Some n \<Rightarrow> Some n
            | None \<Rightarrow> (case old_ws of None \<Rightarrow> None | Some w \<Rightarrow> seat_get_focus_inactive s (my_seat x s) (N_WORKSPACE w)))
      else focus)"

definition arrange_after_move :: "ctx \<Rightarrow> id option \<Rightarrow> node \<Rightarrow> sway \<Rightarrow> sway" where
  "arrange_after_move x old_ws n s =
     (if fullscreen_global s \<noteq> None then arrange_root_of x s
      else
        (let s = (case old_ws of None \<Rightarrow> s
                  | Some w \<Rightarrow> if n_destroying (ninfo s (N_WORKSPACE w)) then s else arrange_workspace w s) in
         case node_get_parent s n of None \<Rightarrow> s | Some m \<Rightarrow> arrange_node (e_layout_box (h_env x)) m s))"

text \<open>The output that receives the container keeps showing the workspace it showed.\<close>

definition restore_shown :: "ctx \<Rightarrow> id option \<Rightarrow> id option \<Rightarrow> sway \<Rightarrow> sway" where
  "restore_shown x last_ws new_ws s =
     (case last_ws of None \<Rightarrow> s
      | Some w \<Rightarrow>
          if last_ws = new_ws then s
          else (case seat_get_focus_inactive s (my_seat x s) (N_WORKSPACE w) of None \<Rightarrow> s
                | Some n \<Rightarrow> seat_set_raw_focus (the_seat x s) n s))"

definition active_on :: "ctx \<Rightarrow> sway \<Rightarrow> id option \<Rightarrow> id option" where
  "active_on x s p = (case p of None \<Rightarrow> None | Some p \<Rightarrow> output_get_active_workspace (h_env x) s p)"

definition move_container_to :: "ctx \<Rightarrow> id \<Rightarrow> node \<Rightarrow> sway \<Rightarrow> reply" where
  "move_container_to x c n s =
     (let E = h_env x; old_parent = c_parent (cons s c); old_ws = c_workspace (cons s c);
          old_output = container_output s c; new_output = node_get_output s n;
          last_ws = (if new_output \<noteq> None \<and> old_output \<noteq> new_output then active_on x s new_output else None);
          focus = seat_get_focus (my_seat x s);
          s = (if container_is_scratchpad_hidden_or_child s c then root_scratchpad_show E c (container_detach c s) else s) in
      case move_to_node x c n s of None \<Rightarrow> failure ''Expected output to have a workspace'' s
      | Some s \<Rightarrow>
          if new_output \<noteq> None \<and> active_on x s new_output = None
          then failure ''Expected output to have a workspace'' s
          else
            (let s = restore_shown x last_ws (active_on x s new_output) s;
                 s = seat_set_focus x (focus_after_move x c old_parent old_ws focus s) s;
                 s = reap_or_consider E old_parent old_ws s in
             ok (arrange_after_move x old_ws n s)))"

definition move_when_found :: "ctx \<Rightarrow> id \<Rightarrow> node \<Rightarrow> sway \<Rightarrow> reply" where
  "move_when_found x c n s =
     (if (case n of N_CONTAINER d \<Rightarrow> container_is_scratchpad_hidden s d | _ \<Rightarrow> False) then cmd_move_to_scratchpad x s
      else if container_is_sticky_or_child s c
        \<and> (case container_output s c of None \<Rightarrow> False | Some p \<Rightarrow> node_has_ancestor s n (N_OUTPUT p))
      then failure sticky_message s
      else move_container_to x c n s)"

definition cmd_move_container :: "bool \<Rightarrow> handler" where
  "cmd_move_container no_auto x argv s =
     needs_args argv ''move container/window'' EXPECTED_AT_LEAST 2 s
       (let go = (\<lambda>c s.
          if c_fullscreen (cons s c) = FULLSCREEN_GLOBAL then failure ''Can't move fullscreen global container'' s
          else case move_destination x no_auto c argv s of Inr r \<Rightarrow> r | Inl (n, s) \<Rightarrow> move_when_found x c n s) in
        case h_node x of
          Some (N_WORKSPACE w) \<Rightarrow>
            if w_tiling (wss s w) = [] then failure ''Can't move an empty workspace'' s
            else (case workspace_wrap_children (h_env x) w s of (m, s) \<Rightarrow> go m s)
        | _ \<Rightarrow> (case h_container x of None \<Rightarrow> ok s | Some c \<Rightarrow> go c s))"

section \<open>move workspace to output\<close>

definition arrange_output_at :: "id option \<Rightarrow> sway \<Rightarrow> sway" where
  "arrange_output_at p s = (case p of None \<Rightarrow> s | Some p \<Rightarrow> arrange_output p s)"

definition cmd_move_workspace :: handler where
  "cmd_move_workspace x argv s =
     needs_args argv ''move workspace'' EXPECTED_AT_LEAST 1 s
       (let rest = (if str_caseeq (argv ! 0) ''output'' then tl argv else argv) in
        if rest = [] then invalid ''Expected move workspace to [output] <output>'' s
        else case h_workspace x of None \<Rightarrow> failure ''No workspace to move'' s
        | Some w \<Rightarrow>
            (let ws = wss s w; old = w_output ws in
             case output_in_direction x s (rest ! 0) old (c_trunc (of_int (w_width ws div 2) + w_x ws))
                    (c_trunc (of_int (w_height ws div 2) + w_y ws)) of
               None \<Rightarrow> failure (''Can't find output with name/direction '' @ rest ! 0) s
             | Some p \<Rightarrow>
                 (let s = workspace_move_to_output (h_env x) w p s;
                      s = arrange_output p (arrange_output_at old s) in
                  ok (focus_and_warp x (seat_get_focus_inactive s (my_seat x s) (N_WORKSPACE w)) s))))"

section \<open>move position\<close>

definition position_expected :: string where
  "position_expected = ''Expected move [absolute] position <x> [px] <y> [px] or center or cursor|mouse|pointer''"

definition workspace_of_or_focused :: "ctx \<Rightarrow> sway \<Rightarrow> id \<Rightarrow> id option" where
  "workspace_of_or_focused x s c =
     (case c_workspace (cons s c) of Some w \<Rightarrow> Some w | None \<Rightarrow> seat_get_focused_workspace s (my_seat x s))"

definition move_to_pointer :: "ctx \<Rightarrow> id \<Rightarrow> sway \<Rightarrow> reply" where
  "move_to_pointer x c s =
     (case clamped_at (h_env x) (cons s c) (s_cursor_x (my_seat x s)) (s_cursor_y (my_seat x s)) of
        (lx, ly) \<Rightarrow> ok (container_floating_move_to (h_env x) c lx ly s))"

definition move_to_center :: "ctx \<Rightarrow> bool \<Rightarrow> id \<Rightarrow> sway \<Rightarrow> reply" where
  "move_to_center x absolute c s =
     (let con = cons s c; b = root_box s in
      if absolute
      then ok (container_floating_move_to (h_env x) c (of_int (b_x b) + (of_int (b_width b) - c_width con) / 2)
             (of_int (b_y b) + (of_int (b_height b) - c_height con) / 2) s)
      else case workspace_of_or_focused x s c of None \<Rightarrow> ok s
      | Some w \<Rightarrow> ok (container_floating_move_to (h_env x) c (w_x (wss s w) + (of_int (w_width (wss s w)) - c_width con) / 2)
             (w_y (wss s w) + (of_int (w_height (wss s w)) - c_height con) / 2) s))"

text \<open>An amount in percent is converted with ints; the result is cut to an int again.\<close>

definition position_px :: "sway \<Rightarrow> bool \<Rightarrow> id \<Rightarrow> movement_amount \<Rightarrow> int \<Rightarrow> rat \<Rightarrow> int + string" where
  "position_px s absolute c m room origin =
     (let shift = (\<lambda>v. if absolute then v else to_int32 (c_trunc (of_int v + origin))) in
      if unit m = MOVEMENT_UNIT_PPT
      then (if container_is_scratchpad_hidden s c then Inr ''Cannot move a hidden scratchpad container by ppt''
            else if absolute then Inr ''Cannot move to absolute positions by ppt''
            else Inl (shift (c_trunc (of_int (to_int32 (room * amount m)) / 100))))
      else Inl (shift (amount m)))"

definition move_to_point :: "ctx \<Rightarrow> bool \<Rightarrow> id \<Rightarrow> movement_amount \<Rightarrow> movement_amount \<Rightarrow> sway \<Rightarrow> reply" where
  "move_to_point x absolute c mx my s =
     (let ws = (case workspace_of_or_focused x s c of Some w \<Rightarrow> wss s w | None \<Rightarrow> ws_zero) in
      case position_px s absolute c mx (w_width ws) (w_x ws) of Inr e \<Rightarrow> failure e s
      | Inl lx \<Rightarrow>
          (case position_px s absolute c my (w_height ws) (w_y ws) of Inr e \<Rightarrow> failure e s
           | Inl ly \<Rightarrow> ok (container_floating_move_to (h_env x) c (of_int lx) (of_int ly) s)))"

text \<open>The x amount and then the y amount, each one or two words.\<close>

definition position_amounts :: "string list \<Rightarrow> sway \<Rightarrow> (movement_amount \<times> movement_amount) + reply" where
  "position_amounts argv s =
     (case parse_movement_amount argv of (mx, n) \<Rightarrow>
        if unit mx = MOVEMENT_UNIT_INVALID then Inr (invalid ''Invalid x position specified'' s)
        else if drop n argv = [] then Inr (failure position_expected s)
        else (case parse_movement_amount (drop n argv) of (my, m) \<Rightarrow>
           if drop m (drop n argv) \<noteq> [] then Inr (invalid position_expected s)
           else if unit my = MOVEMENT_UNIT_INVALID then Inr (invalid ''Invalid y position specified'' s)
           else Inl (mx, my)))"

definition move_to_position :: "ctx \<Rightarrow> bool \<Rightarrow> id \<Rightarrow> string list \<Rightarrow> sway \<Rightarrow> reply" where
  "move_to_position x absolute c argv s =
     (if argv ! 0 \<in> {''cursor'', ''mouse'', ''pointer''}
      then (if absolute then invalid position_expected s else move_to_pointer x c s)
      else if argv ! 0 = ''center'' then move_to_center x absolute c s
      else if length argv < 2 then failure position_expected s
      else case position_amounts argv s of Inr r \<Rightarrow> r
      | Inl (mx, my) \<Rightarrow> move_to_point x absolute c mx my s)"

definition cmd_move_to_position :: handler where
  "cmd_move_to_position x argv s =
     (case h_container x of None \<Rightarrow> failure ''Only floating containers can be moved to an absolute position'' s
      | Some c \<Rightarrow>
          if \<not> container_is_floating s c
          then failure ''Only floating containers can be moved to an absolute position'' s
          else if argv = [] then invalid position_expected s
          else
            (let absolute = (argv ! 0 = ''absolute''); argv = (if absolute then tl argv else argv) in
             if argv = [] then invalid position_expected s
             else (let argv = (if argv ! 0 = ''position'' then tl argv else argv) in
               if argv = [] then invalid position_expected s else move_to_position x absolute c argv s)))"

section \<open>move\<close>

definition word_direction :: "string \<Rightarrow> direction option" where
  "word_direction a =
     (if str_caseeq a ''left'' then Some DIR_LEFT else if str_caseeq a ''right'' then Some DIR_RIGHT
      else if str_caseeq a ''up'' then Some DIR_UP else if str_caseeq a ''down'' then Some DIR_DOWN else None)"

definition skip_word :: "string list \<Rightarrow> string list \<Rightarrow> string list" where
  "skip_word names argv = (if argv \<noteq> [] \<and> is_word (hd argv) names then tl argv else argv)"

definition move_rest :: "bool \<Rightarrow> handler" where
  "move_rest no_auto x argv s =
     (if argv = [] \<or> (no_auto \<and> \<not> str_caseeq (argv ! 0) ''workspace'') then invalid move_expected s
      else if is_word (argv ! 0) [''workspace'', ''output'', ''mark''] then cmd_move_container no_auto x argv s
      else if str_caseeq (argv ! 0) ''scratchpad'' then cmd_move_to_scratchpad x s
      else if str_caseeq (argv ! 0) ''position''
        \<or> (length argv > 1 \<and> str_caseeq (argv ! 0) ''absolute'' \<and> str_caseeq (argv ! 1) ''position'')
      then cmd_move_to_position x argv s
      else invalid move_expected s)"

definition cmd_move :: handler where
  "cmd_move x argv s =
     needs_args argv ''move'' EXPECTED_AT_LEAST 1 s
       (if outputs s = [] then invalid no_outputs s
        else case word_direction (argv ! 0) of Some d \<Rightarrow> cmd_move_in_direction d x (tl argv) s
        | None \<Rightarrow>
            if str_caseeq (argv ! 0) ''workspace'' \<and> length argv \<ge> 2 \<and> is_word (argv ! 1) [''to'', ''output'']
            then cmd_move_workspace x (drop 2 argv) s
            else
              (let no_auto = str_caseeq (argv ! 0) ''--no-auto-back-and-forth'';
                   argv = (if no_auto then tl argv else argv) in
               move_rest no_auto x (skip_word [''to''] (skip_word [''window'', ''container''] argv)) s))"

end
