(* ===== verification/Cmd_Resize.thy ===== *)
theory Cmd_Resize
  imports Handlers Resize
begin

text \<open>
  The command resize (sway/commands/resize.c). None stands for a run that reads the workspace of a
  container that has none, which only a minimized container reaches.
\<close>

section \<open>grow and shrink\<close>

definition grow_within :: "rat \<Rightarrow> int \<Rightarrow> int \<Rightarrow> int \<Rightarrow> int" where
  "grow_within sz grow lo hi =
     (if sz + of_int grow < of_int lo then c_trunc (of_int lo - sz)
      else if sz + of_int grow > of_int hi then c_trunc (of_int hi - sz)
      else grow)"

definition half :: "int \<Rightarrow> int" where
  "half n = c_trunc (of_int n / 2)"

definition grow_box :: "int \<Rightarrow> int \<Rightarrow> int \<Rightarrow> int \<Rightarrow> container \<Rightarrow> container" where
  "grow_box dx dy dw dh con =
     con\<lparr>c_x := c_x con + of_int dx, c_y := c_y con + of_int dy,
         c_width := c_width con + of_int dw, c_height := c_height con + of_int dh,
         c_content_x := c_content_x con + of_int dx, c_content_y := c_content_y con + of_int dy,
         c_content_width := c_content_width con + of_int dw, c_content_height := c_content_height con + of_int dh\<rparr>"

definition resize_adjust_floating :: "ctx \<Rightarrow> id \<Rightarrow> edges \<Rightarrow> int \<Rightarrow> sway \<Rightarrow> reply" where
  "resize_adjust_floating x c axis amt s =
     (let con = cons s c in
      case floating_calculate_constraints (cfg s) (e_layout_box (h_env x)) of (min_w, max_w, min_h, max_h) \<Rightarrow>
        (let gw = grow_within (c_width con) (if is_horizontal axis then amt else 0) min_w max_w;
             gh = grow_within (c_height con) (if is_horizontal axis then 0 else amt) min_h max_h;
             gx = (if axis = AXIS_HORIZONTAL then half (- gw) else if axis = WLR_EDGE_LEFT then - gw else 0);
             gy = (if axis = AXIS_VERTICAL then half (- gh) else if axis = WLR_EDGE_TOP then - gh else 0) in
         if gw = 0 \<and> gh = 0 then invalid ''Cannot resize any further'' s
         else ok (arrange_container c (upd_con c (grow_box gx gy gw gh) s))))"

definition adjust_fraction :: "sway \<Rightarrow> id \<Rightarrow> edges \<Rightarrow> movement_amount \<Rightarrow> rat" where
  "adjust_fraction s c axis m =
     (if unit m = MOVEMENT_UNIT_PX
      then (case c_workspace (cons s (container_toplevel_ancestor s c)) of
              Some w \<Rightarrow> (if is_horizontal axis then workspace_width_to_fraction (wss s w) (of_int (amount m))
                         else workspace_height_to_fraction (wss s w) (of_int (amount m)))
            | None \<Rightarrow>
                (let basis = (if is_horizontal axis then c_width (cons s c) else c_height (cons s c)) in
                 if basis > 0 then of_int (amount m) / basis else 0))
      else of_int (amount m) / 100)"

definition resize_adjust_tiled :: "id \<Rightarrow> edges \<Rightarrow> movement_amount \<Rightarrow> sway \<Rightarrow> reply" where
  "resize_adjust_tiled c axis m s =
     (if container_is_scratchpad_hidden_or_child s c
      then failure ''Cannot resize a hidden scratchpad container'' s
      else if is_horizontal axis then ok (tiled_resize_horizontal_frac c (adjust_fraction s c axis m) s)
      else ok (tiled_resize_vertical_frac c (adjust_fraction s c axis m) s))"

definition adjust_usage :: string where
  "adjust_usage = ''Expected resize grow|shrink <direction> [<amount> px|ppt [or <amount> px|ppt]]''"

text \<open>The amounts: the first, 10 by default, and after a word or the second.\<close>

definition second_amount :: "string list \<Rightarrow> movement_amount option" where
  "second_amount argv =
     (case argv of [] \<Rightarrow> Some \<lparr>amount = 0, unit = MOVEMENT_UNIT_INVALID\<rparr>
      | a # rest \<Rightarrow>
          if a \<noteq> ''or'' then None
          else if rest = [] then Some \<lparr>amount = 0, unit = MOVEMENT_UNIT_INVALID\<rparr>
          else (case parse_movement_amount rest of (m, n) \<Rightarrow>
             if length rest > n \<or> unit m = MOVEMENT_UNIT_INVALID then None else Some m))"

definition adjust_amounts :: "string list \<Rightarrow> (movement_amount \<times> movement_amount) option" where
  "adjust_amounts argv =
     (if argv = [] then Some (\<lparr>amount = 10, unit = MOVEMENT_UNIT_DEFAULT\<rparr>, \<lparr>amount = 0, unit = MOVEMENT_UNIT_INVALID\<rparr>)
      else case parse_movement_amount argv of (m1, n) \<Rightarrow>
        if unit m1 = MOVEMENT_UNIT_INVALID then None
        else map_option (Pair m1) (second_amount (drop n argv)))"

definition scaled :: "int \<Rightarrow> movement_amount \<Rightarrow> movement_amount" where
  "scaled k m = m\<lparr>amount := to_int32 (amount m * k)\<rparr>"

text \<open>A floating container takes px or an amount without a unit, a tiled one prefers ppt.\<close>

definition first_with :: "movement_unit list \<Rightarrow> movement_amount \<Rightarrow> movement_amount \<Rightarrow> movement_amount option" where
  "first_with units m1 m2 = find_some (\<lambda>u. if unit m1 = u then Some m1 else if unit m2 = u then Some m2 else None) units"

definition cmd_resize_adjust :: "ctx \<Rightarrow> id \<Rightarrow> string list \<Rightarrow> int \<Rightarrow> sway \<Rightarrow> reply" where
  "cmd_resize_adjust x c argv multiplier s =
     (let axis = parse_resize_axis (hd argv) in
      if axis = WLR_EDGE_NONE then invalid adjust_usage s
      else case adjust_amounts (tl argv) of None \<Rightarrow> invalid adjust_usage s
      | Some (m1, m2) \<Rightarrow>
          (let m1 = scaled multiplier m1; m2 = scaled multiplier m2 in
           if container_is_floating s c
           then (case first_with [MOVEMENT_UNIT_PX, MOVEMENT_UNIT_DEFAULT] m1 m2 of
                   Some m \<Rightarrow> resize_adjust_floating x c axis (amount m) s
                 | None \<Rightarrow> invalid ''Floating containers cannot use ppt measurements'' s)
           else resize_adjust_tiled c axis
                  (case first_with [MOVEMENT_UNIT_PPT, MOVEMENT_UNIT_DEFAULT] m1 m2 of Some m \<Rightarrow> m | None \<Rightarrow> m1) s))"

section \<open>set\<close>

text \<open>Percentages refer to the parent along the axis, or to the workspace; ints are multiplied as ints.\<close>

definition set_tiled_px :: "sway \<Rightarrow> id \<Rightarrow> container_layout \<Rightarrow> (container \<Rightarrow> rat) \<Rightarrow> (workspace \<Rightarrow> int) \<Rightarrow> movement_amount \<Rightarrow> int option" where
  "set_tiled_px s c l parent_size workspace_size m =
     (if unit m = MOVEMENT_UNIT_PPT \<or> unit m = MOVEMENT_UNIT_DEFAULT
      then (case nearest_with_layout s l c of
              Some p \<Rightarrow> Some (c_trunc (parent_size (cons s p) * of_int (amount m) / 100))
            | None \<Rightarrow> map_option (\<lambda>w. c_trunc (of_int (to_int32 (workspace_size (wss s w) * amount m)) / 100))
                        (c_workspace (cons s c)))
      else Some (amount m))"

definition resize_set_tiled :: "id \<Rightarrow> movement_amount \<Rightarrow> movement_amount \<Rightarrow> sway \<Rightarrow> reply option" where
  "resize_set_tiled c width height s =
     (if container_is_scratchpad_hidden_or_child s c
      then Some (failure ''Cannot resize a hidden scratchpad container'' s)
      else
        (case (if amount width = 0 then Some s
               else map_option (\<lambda>px. container_resize_tiled (Some c) AXIS_HORIZONTAL (c_trunc (of_int px - c_width (cons s c))) s)
                      (set_tiled_px s c L_HORIZ c_width w_width width)) of
           None \<Rightarrow> None
         | Some s \<Rightarrow>
             if amount height = 0 then Some (ok s)
             else map_option (\<lambda>px. ok (container_resize_tiled (Some c) AXIS_VERTICAL (c_trunc (of_int px - c_height (cons s c))) s))
                    (set_tiled_px s c L_VERT c_height w_height height)))"

datatype floating_px = Hidden_ppt | No_workspace | Pixels int

definition set_floating_px :: "sway \<Rightarrow> id \<Rightarrow> (workspace \<Rightarrow> int) \<Rightarrow> int \<Rightarrow> int \<Rightarrow> movement_amount \<Rightarrow> floating_px" where
  "set_floating_px s c workspace_size lo hi m =
     (if unit m = MOVEMENT_UNIT_PPT
      then (if container_is_scratchpad_hidden s c then Hidden_ppt
            else case c_workspace (cons s c) of None \<Rightarrow> No_workspace
            | Some w \<Rightarrow> Pixels (max lo (min (c_trunc (of_int (to_int32 (workspace_size (wss s w) * amount m)) / 100)) hi)))
      else Pixels (max lo (min (amount m) hi)))"

text \<open>A width that is set stays set when the height is refused.\<close>

definition set_floating_width :: "id \<Rightarrow> int \<Rightarrow> sway \<Rightarrow> int \<times> sway" where
  "set_floating_width c px s =
     (let grow = c_trunc (of_int px - c_width (cons s c)) in
      (grow, upd_con c (\<lambda>x. x\<lparr>c_x := c_x x - of_int (half grow), c_width := of_int px\<rparr>) s))"

definition set_floating_height :: "id \<Rightarrow> int \<Rightarrow> sway \<Rightarrow> int \<times> sway" where
  "set_floating_height c px s =
     (let grow = c_trunc (of_int px - c_height (cons s c)) in
      (grow, upd_con c (\<lambda>x. x\<lparr>c_y := c_y x - of_int (half grow), c_height := of_int px\<rparr>) s))"

definition hidden_ppt_message :: string where
  "hidden_ppt_message = ''Cannot resize a hidden scratchpad container by ppt''"

definition move_content :: "id \<Rightarrow> int \<Rightarrow> int \<Rightarrow> sway \<Rightarrow> sway" where
  "move_content c gw gh s =
     upd_con c (\<lambda>x. x\<lparr>c_content_x := c_content_x x - of_int (half gw), c_content_y := c_content_y x - of_int (half gh),
       c_content_width := c_content_width x + of_int gw, c_content_height := c_content_height x + of_int gh\<rparr>) s"

definition resize_set_floating :: "ctx \<Rightarrow> id \<Rightarrow> movement_amount \<Rightarrow> movement_amount \<Rightarrow> sway \<Rightarrow> reply option" where
  "resize_set_floating x c width height s =
     (case floating_calculate_constraints (cfg s) (e_layout_box (h_env x)) of (min_w, max_w, min_h, max_h) \<Rightarrow>
        (let finish = (\<lambda>gw gh s. Some (ok (arrange_container c (move_content c gw gh s))));
             heighten = (\<lambda>gw s.
               if amount height = 0 then finish gw 0 s
               else case set_floating_px s c w_height min_h max_h height of
                 Hidden_ppt \<Rightarrow> Some (failure hidden_ppt_message s) | No_workspace \<Rightarrow> None
               | Pixels px \<Rightarrow> (case set_floating_height c px s of (gh, s) \<Rightarrow> finish gw gh s)) in
         if amount width = 0 then heighten 0 s
         else case set_floating_px s c w_width min_w max_w width of
           Hidden_ppt \<Rightarrow> Some (failure hidden_ppt_message s) | No_workspace \<Rightarrow> None
         | Pixels px \<Rightarrow> (case set_floating_width c px s of (gw, s) \<Rightarrow> heighten gw s)))"

definition set_usage :: string where
  "set_usage = ''Expected resize set [width] <width> [px|ppt] [height] <height> [px|ppt]''"

text \<open>The width and the height asked for, 0 px when a dimension is not given.\<close>

definition set_width_argument :: "string list \<Rightarrow> (movement_amount \<times> string list) option" where
  "set_width_argument argv =
     (let argv = (if length argv \<ge> 2 \<and> argv ! 0 = ''width'' \<and> argv ! 1 \<noteq> ''height'' then tl argv else argv) in
      if argv ! 0 = ''height'' then Some (\<lparr>amount = 0, unit = MOVEMENT_UNIT_PX\<rparr>, argv)
      else case parse_movement_amount argv of (m, n) \<Rightarrow>
        if unit m = MOVEMENT_UNIT_INVALID then None else Some (m, drop n argv))"

definition set_height_argument :: "string list \<Rightarrow> movement_amount option" where
  "set_height_argument argv =
     (if argv = [] then Some \<lparr>amount = 0, unit = MOVEMENT_UNIT_PX\<rparr>
      else
        (let argv = (if length argv \<ge> 2 \<and> argv ! 0 = ''height'' then tl argv else argv) in
         case parse_movement_amount argv of (m, n) \<Rightarrow>
           if length argv > n \<or> unit m = MOVEMENT_UNIT_INVALID then None else Some m))"

definition or_current :: "rat \<Rightarrow> movement_amount \<Rightarrow> movement_amount" where
  "or_current sz m = (if amount m \<le> 0 then m\<lparr>amount := c_trunc sz\<rparr> else m)"

definition cmd_resize_set :: "ctx \<Rightarrow> id \<Rightarrow> string list \<Rightarrow> sway \<Rightarrow> reply option" where
  "cmd_resize_set x c argv s =
     (case set_width_argument argv of None \<Rightarrow> Some (invalid set_usage s)
      | Some (width, rest) \<Rightarrow>
          (case set_height_argument rest of None \<Rightarrow> Some (invalid set_usage s)
           | Some height \<Rightarrow>
               (let width = or_current (c_width (cons s c)) width; height = or_current (c_height (cons s c)) height in
                if container_is_floating s c then resize_set_floating x c width height s
                else resize_set_tiled c width height s)))"

section \<open>resize\<close>

definition cmd_resize :: "ctx \<Rightarrow> string list \<Rightarrow> sway \<Rightarrow> reply option" where
  "cmd_resize x argv s =
     (if outputs s = [] then Some (invalid no_outputs s)
      else case h_container x of None \<Rightarrow> Some (invalid ''Cannot resize nothing'' s)
      | Some c \<Rightarrow>
          (case checkarg (int (length argv)) ''resize'' EXPECTED_AT_LEAST 2 of Some e \<Rightarrow> Some (e, s)
           | None \<Rightarrow>
               if str_caseeq (argv ! 0) ''set'' then cmd_resize_set x c (tl argv) s
               else if str_caseeq (argv ! 0) ''grow'' then Some (cmd_resize_adjust x c (tl argv) 1 s)
               else if str_caseeq (argv ! 0) ''shrink'' then Some (cmd_resize_adjust x c (tl argv) (-1) s)
               else Some (invalid ''Expected resize <shrink|grow> <width|height|up|down|left|right> [<amount>] [px|ppt]'' s)))"

end
