(* ===== verification/Bsearch.thy ===== *)
theory Bsearch
  imports Prelude
begin

text \<open>
  bsearch and strcasecmp of the C library, and find_handler of sway/commands.c on top of them. A
  table that is strictly sorted by strcasecmp is searched as if from its start.
\<close>

function bsearch :: "('a \<Rightarrow> int) \<Rightarrow> 'a list \<Rightarrow> nat \<Rightarrow> nat \<Rightarrow> 'a option" where
  "bsearch f xs l u =
     (if l < u
      then (let idx = (l + u) div 2; c = f (xs ! idx) in
            if c < 0 then bsearch f xs l idx
            else if c > 0 then bsearch f xs (idx + 1) u
            else Some (xs ! idx))
      else None)"
  by pat_completeness auto
termination by (relation "measure (\<lambda>(f, xs, l, u). u - l)") auto

declare bsearch.simps [simp del]

definition c_strcasecmp :: "string \<Rightarrow> string \<Rightarrow> int" where
  "c_strcasecmp a b = c_strcmp (map c_tolower a) (map c_tolower b)"

lemma c_strcasecmp_eq0: "c_strcasecmp a b = 0 \<longleftrightarrow> str_caseeq a b"
  by (simp add: c_strcasecmp_def c_strcmp_eq0 str_caseeq_def)

lemma c_strcmp_less_trans: "c_strcmp a b \<le> 0 \<Longrightarrow> c_strcmp b c < 0 \<Longrightarrow> c_strcmp a c < 0"
proof (rule ccontr)
  assume ab: "c_strcmp a b \<le> 0" and bc: "c_strcmp b c < 0" and "\<not> c_strcmp a c < 0"
  then have "c_strcmp c a \<le> 0" using c_strcmp_antisym[of a c] by simp
  from c_strcmp_trans[OF this ab] show False using bc c_strcmp_antisym[of b c] by simp
qed

text \<open>The sign of f falls along the list: what bsearch needs of a sorted table.\<close>

definition falling :: "('a \<Rightarrow> int) \<Rightarrow> 'a list \<Rightarrow> bool" where
  "falling f xs \<longleftrightarrow> sorted_wrt (\<lambda>x y. f x \<le> 0 \<longrightarrow> f y < 0) xs"

lemma falling_nth: "falling f xs \<Longrightarrow> i < j \<Longrightarrow> j < length xs \<Longrightarrow> f (xs ! i) \<le> 0 \<Longrightarrow> f (xs ! j) < 0"
  by (simp add: falling_def sorted_wrt_iff_nth_less)

lemma bsearch_Some: "bsearch f xs l u = Some x \<Longrightarrow> u \<le> length xs \<Longrightarrow> x \<in> set xs \<and> f x = 0"
proof (induction f xs l u rule: bsearch.induct)
  case (1 f xs l u)
  show ?case
  proof (cases "l < u")
    case True
    define k where "k = (l + u) div 2"
    have k: "k < length xs" using True 1(4) unfolding k_def by linarith
    have k': "l \<le> k" "k < u" using True unfolding k_def by linarith+
    show ?thesis using 1 True k k' unfolding bsearch.simps[of f xs l u] k_def[symmetric] Let_def
      by (auto split: if_splits)
  next
    case False
    then show ?thesis using 1(3) by (simp add: bsearch.simps[of f xs l u])
  qed
qed

lemma bsearch_None:
  "bsearch f xs l u = None \<Longrightarrow> falling f xs \<Longrightarrow> u \<le> length xs \<Longrightarrow> l \<le> i \<Longrightarrow> i < u \<Longrightarrow> f (xs ! i) \<noteq> 0"
proof (induction f xs l u rule: bsearch.induct)
  case (1 f xs l u)
  define k where "k = (l + u) div 2"
  have lu: "l < u" using 1 by simp
  have k: "l \<le> k" "k < u" "k < length xs" using lu 1(5) unfolding k_def by linarith+
  have res: "(if f (xs ! k) < 0 then bsearch f xs l k
      else if f (xs ! k) > 0 then bsearch f xs (k + 1) u else Some (xs ! k)) = None"
    using 1(3) lu unfolding bsearch.simps[of f xs l u] k_def[symmetric] by (simp add: Let_def)
  note IH = 1(1)[OF lu k_def refl] 1(2)[OF lu k_def refl]
  consider "f (xs ! k) < 0" | "f (xs ! k) > 0" using res by (auto split: if_splits)
  then show ?case
  proof cases
    case 1
    show ?thesis
    proof (cases "i < k")
      case True
      then show ?thesis using IH(1) 1 res k \<open>falling f xs\<close> \<open>l \<le> i\<close> by simp
    next
      case False
      then show ?thesis
        using 1 falling_nth[OF \<open>falling f xs\<close>, of k i] \<open>i < u\<close> \<open>u \<le> length xs\<close> by (cases "i = k") auto
    qed
  next
    case 2
    show ?thesis
    proof (cases "k < i")
      case True
      then show ?thesis using IH(2) 2 res k \<open>falling f xs\<close> \<open>i < u\<close> \<open>u \<le> length xs\<close> by simp
    next
      case False
      show ?thesis
      proof (cases "i = k")
        case True
        then show ?thesis using 2 by simp
      next
        case neq: False
        show ?thesis
        proof
          assume "f (xs ! i) = 0"
          then have "f (xs ! k) < 0" using falling_nth[OF \<open>falling f xs\<close>, of i k] False neq k by simp
          then show False using 2 by simp
        qed
      qed
    qed
  qed
qed

lemma falling_unique: "falling f xs \<Longrightarrow> x \<in> set xs \<Longrightarrow> f x = 0 \<Longrightarrow> List.find (\<lambda>x. f x = 0) xs = Some x"
  by (induction xs) (auto simp: falling_def)

theorem bsearch_find: "falling f xs \<Longrightarrow> bsearch f xs 0 (length xs) = List.find (\<lambda>x. f x = 0) xs"
proof (cases "bsearch f xs 0 (length xs)")
  case None
  assume "falling f xs"
  then have "\<forall>x\<in>set xs. f x \<noteq> 0" using bsearch_None[OF None] by (auto simp: in_set_conv_nth)
  then have "List.find (\<lambda>x. f x = 0) xs = None" by (simp add: find_None_iff)
  then show ?thesis using None by simp
next
  case (Some x)
  assume "falling f xs"
  then show ?thesis using bsearch_Some[OF Some] falling_unique[of f xs x] Some by simp
qed

section \<open>Tables of commands\<close>

definition find_handler :: "string \<Rightarrow> (string \<times> 'a) list \<Rightarrow> (string \<times> 'a) option" where
  "find_handler line tbl = (if tbl = [] then None
     else bsearch (\<lambda>h. c_strcasecmp line (fst h)) tbl 0 (length tbl))"

definition alphabetized :: "(string \<times> 'a) list \<Rightarrow> bool" where
  "alphabetized tbl \<longleftrightarrow> sorted_wrt (\<lambda>a b. c_strcasecmp (fst a) (fst b) < 0) tbl"

fun alphabetized_names :: "string list \<Rightarrow> bool" where
  "alphabetized_names (a # b # ns) \<longleftrightarrow> c_strcasecmp a b < 0 \<and> alphabetized_names (b # ns)"
| "alphabetized_names _ \<longleftrightarrow> True"

lemma c_strcasecmp_less_trans: "c_strcasecmp a b < 0 \<Longrightarrow> c_strcasecmp b c < 0 \<Longrightarrow> c_strcasecmp a c < 0"
  unfolding c_strcasecmp_def by (rule c_strcmp_less_trans) auto

lemma alphabetized_by_names: "alphabetized_names (map fst tbl) \<Longrightarrow> alphabetized tbl"
proof -
  have "sorted_wrt (\<lambda>a b. c_strcasecmp a b < 0) ns" if "alphabetized_names ns" for ns
    using that
    by (induction ns rule: alphabetized_names.induct) (auto intro: c_strcasecmp_less_trans)
  from this[of "map fst tbl"] show "alphabetized_names (map fst tbl) \<Longrightarrow> alphabetized tbl"
    by (simp add: alphabetized_def sorted_wrt_map)
qed

theorem find_handler_find:
  "alphabetized tbl \<Longrightarrow> find_handler line tbl = List.find (\<lambda>h. str_caseeq line (fst h)) tbl"
proof -
  assume "alphabetized tbl"
  then have "falling (\<lambda>h. c_strcasecmp line (fst h)) tbl"
    unfolding alphabetized_def falling_def c_strcasecmp_def
    by (rule sorted_wrt_mono_rel[rotated]) (use c_strcmp_less_trans in auto)
  from bsearch_find[OF this] show ?thesis by (simp add: find_handler_def c_strcasecmp_eq0)
qed

lemma find_handler_member:
  assumes "alphabetized tbl" "(n, h) \<in> set tbl" "str_caseeq line n"
  shows "find_handler line tbl = Some (n, h)"
proof -
  have "falling (\<lambda>h. c_strcasecmp line (fst h)) tbl"
    using assms(1) unfolding alphabetized_def falling_def c_strcasecmp_def
    by (rule sorted_wrt_mono_rel[rotated]) (use c_strcmp_less_trans in auto)
  from falling_unique[OF this, of "(n, h)"] assms show ?thesis
    by (simp add: find_handler_find c_strcasecmp_eq0)
qed

end
