(* ===== verification/Bindings.thy ===== *)
theory Bindings
  imports Cmd_Config Keyed
begin

unbundle bit_operations_syntax

text \<open>
  Key, button and switch bindings (sway/commands/bind.c, the button names of sway/input/cursor.c,
  the modifier names of sway/input/keyboard.c, floating_modifier.c). Messages to the log and to
  swaynag are left out. record symbols holds what xkbcommon and libevdev say of names and codes.
\<close>

section \<open>Names of modifiers, keys and buttons\<close>

record symbols =
  x_keysym_from_name :: "string \<Rightarrow> 32 word"
  x_keysym_of :: "32 word \<Rightarrow> 32 word"
  x_keycodes :: "32 word list"
  x_button_code :: "string \<Rightarrow> int option"
  x_button_name :: "int \<Rightarrow> string option"

definition modifier_table :: "(string \<times> 32 word) list" where
  "modifier_table = [(''Shift'', 1), (''Lock'', 2), (''Control'', 4), (''Ctrl'', 4), (''Mod1'', 8),
     (''Alt'', 8), (''Mod2'', 16), (''Mod3'', 32), (''Mod4'', 64), (''Super'', 64), (''Mod5'', 128)]"

definition get_modifier_mask_by_name :: "string \<Rightarrow> 32 word" where
  "get_modifier_mask_by_name name =
     (case List.find (\<lambda>m. str_caseeq (fst m) name) modifier_table of None \<Rightarrow> 0 | Some m \<Rightarrow> snd m)"

definition get_modifier_name_by_mask :: "32 word \<Rightarrow> string option" where
  "get_modifier_name_by_mask mods = map_option fst (List.find (\<lambda>m. snd m = mods) modifier_table)"

fun modifier_names_from :: "(string \<times> 32 word) list \<Rightarrow> 32 word \<Rightarrow> string list" where
  "modifier_names_from [] masks = []"
| "modifier_names_from (m # ms) masks =
     (if masks AND snd m \<noteq> 0 then fst m # modifier_names_from ms (masks XOR snd m)
      else modifier_names_from ms masks)"

definition get_modifier_names :: "32 word \<Rightarrow> string list" where
  "get_modifier_names masks = modifier_names_from modifier_table masks"

text \<open>BTN_LEFT, BTN_MIDDLE, BTN_RIGHT, the four scroll directions, BTN_SIDE, BTN_EXTRA.\<close>

definition x11_buttons :: "32 word list" where
  "x11_buttons = [0x110, 0x112, 0x111, 0x300, 0x301, 0x302, 0x303, 0x113, 0x114]"

text \<open>The button, 0 for none, and a message when the name is wrong rather than not a button.\<close>

definition get_mouse_bindsym :: "symbols \<Rightarrow> string \<Rightarrow> 32 word \<times> string option" where
  "get_mouse_bindsym X name =
     (if str_caseeq (take 6 name) ''button''
      then
        (let rest = drop 6 name in
         if rest \<noteq> [] \<and> hd rest \<in> set ''123456789'' \<and> length name \<le> 7
         then (x11_buttons ! (of_char (hd rest) - 49), None)
         else (0, Some ''Only buttons 1-9 are supported. For other mouse buttons, use the name of the event code.''))
      else if has_prefix name ''BTN_''
      then (case x_button_code X name of Some code \<Rightarrow> (word_of_int code, None)
            | None \<Rightarrow> (0, Some (''Unknown event '' @ name)))
      else (0, None))"

text \<open>Whether strtol sets errno to ERANGE: the number does not fit a long.\<close>

definition strtol_erange :: "string \<Rightarrow> bool" where
  "strtol_erange s =
     (let t = dropWhile is_ws s;
          neg = (t \<noteq> [] \<and> hd t = CHR ''-'');
          u = (if t \<noteq> [] \<and> hd t \<in> {CHR ''-'', CHR ''+''} then tl t else t);
          v = digits_val (takeWhile is_digit u) in
      if neg then v > 2 ^ 63 else v \<ge> 2 ^ 63)"

definition get_mouse_bindcode :: "symbols \<Rightarrow> string \<Rightarrow> 32 word \<times> string option" where
  "get_mouse_bindcode X name =
     (case c_strtol name of (v, endptr) \<Rightarrow>
        let code = to_int32 v in
        if endptr = name \<and> code \<le> 0 then (0, Some ''Button event code must be a positive integer.'')
        else if strtol_erange name then (0, Some ''Button event code out of range.'')
        else case x_button_name X code of
          Some ev \<Rightarrow> if has_prefix ev ''BTN_'' then (word_of_int code, None)
                    else (0, Some (''Event code '' @ show_int code @ '' ('' @ ev @ '') is not a button''))
        | None \<Rightarrow> (0, Some (''Event code '' @ show_int code @ '' ((null)) is not a button'')))"

definition get_mouse_button :: "symbols \<Rightarrow> string \<Rightarrow> 32 word \<times> string option" where
  "get_mouse_button X name =
     (case get_mouse_bindsym X name of (button, err) \<Rightarrow>
        if button = 0 \<and> err = None then get_mouse_bindcode X name else (button, err))"

definition get_mouse_button_name :: "symbols \<Rightarrow> 32 word \<Rightarrow> string option" where
  "get_mouse_button_name X button =
     (case x_button_name X (sint button) of Some name \<Rightarrow> Some name
      | None \<Rightarrow>
          if button = 0x300 then Some ''SWAY_SCROLL_UP'' else if button = 0x301 then Some ''SWAY_SCROLL_DOWN''
          else if button = 0x302 then Some ''SWAY_SCROLL_LEFT'' else if button = 0x303 then Some ''SWAY_SCROLL_RIGHT''
          else None)"

text \<open>
  identify_key: the value of a key and the type of the binding, which the first key can change.
  A keycode is legal up to XKB_KEYCODE_MAX; keysym 0 is XKB_KEY_NoSymbol.
\<close>

definition identify_key ::
    "symbols \<Rightarrow> string \<Rightarrow> bool \<Rightarrow> binding_input_type \<Rightarrow> (32 word \<times> binding_input_type) + string" where
  "identify_key X name first_key type =
     (let button_or = (\<lambda>r unknown. case r of (button, err) \<Rightarrow>
            if button \<noteq> 0 then Inl (button, type)
            else Inr (case err of Some m \<Rightarrow> m | None \<Rightarrow> unknown)) in
      case type of
        BINDING_MOUSECODE \<Rightarrow> button_or (get_mouse_bindcode X name) (''Unknown button code '' @ name)
      | BINDING_MOUSESYM \<Rightarrow> button_or (get_mouse_bindsym X name) (''Unknown button '' @ name)
      | BINDING_KEYCODE \<Rightarrow>
          (let button = (if first_key then fst (get_mouse_bindcode X name) else 0);
               keycode = word_of_int (fst (c_strtol name)) in
           if button \<noteq> 0 then Inl (button, BINDING_MOUSECODE)
           else if keycode \<le> (0xfffffffe :: 32 word) then Inl (keycode, type)
           else Inr (if first_key then ''Invalid keycode or button code '' @ name else ''Invalid keycode '' @ name))
      | _ \<Rightarrow>
          (let (button, err) = (if first_key then get_mouse_bindsym X name else (0, None));
               keysym = x_keysym_from_name X name in
           case err of Some m \<Rightarrow> Inr m
           | None \<Rightarrow>
               if button \<noteq> 0 then Inl (button, BINDING_MOUSESYM)
               else if keysym \<noteq> 0 then Inl (keysym, type)
               else Inr (if first_key then ''Unknown key or button '' @ name else ''Unknown key '' @ name)))"

section \<open>Comparing bindings\<close>

definition binding_switch_compare :: "sway_switch_binding \<Rightarrow> sway_switch_binding \<Rightarrow> bool" where
  "binding_switch_compare a b \<longleftrightarrow> sw_type a = sw_type b \<and> sw_trigger a = sw_trigger b
     \<and> sw_flags a AND BINDING_LOCKED = sw_flags b AND BINDING_LOCKED"

definition conflict_generating_flags :: "32 word" where
  "conflict_generating_flags = BINDING_RELEASE OR BINDING_BORDER OR BINDING_CONTENTS OR BINDING_TITLEBAR
     OR BINDING_LOCKED OR BINDING_INHIBITED"

definition binding_key_compare :: "sway_binding \<Rightarrow> sway_binding \<Rightarrow> bool" where
  "binding_key_compare a b \<longleftrightarrow> bn_input a = bn_input b \<and> bn_type a = bn_type b
     \<and> bn_flags a AND conflict_generating_flags = bn_flags b AND conflict_generating_flags
     \<and> bn_group a = bn_group b \<and> bn_modifiers a = bn_modifiers b \<and> bn_keys a = bn_keys b"

interpretation key_bindings: binding_table binding_key_compare
  by unfold_locales (simp_all add: binding_key_compare_def)

interpretation switch_bindings: binding_table binding_switch_compare
  by unfold_locales (simp_all add: binding_switch_compare_def)

section \<open>Key symbols to key codes\<close>

text \<open>The last key code with the symbol, and how many there are.\<close>

definition get_keycode_for_keysym :: "symbols \<Rightarrow> 32 word \<Rightarrow> 32 word \<times> nat" where
  "get_keycode_for_keysym X keysym =
     foldl (\<lambda>(code, n) k. if x_keysym_of X k \<noteq> 0 \<and> x_keysym_of X k = keysym then (k, n + 1) else (code, n))
       (0xffffffff, 0) (x_keycodes X)"

fun keycodes_for :: "symbols \<Rightarrow> 32 word list \<Rightarrow> 32 word list option" where
  "keycodes_for X [] = Some []"
| "keycodes_for X (k # ks) =
     (case get_keycode_for_keysym X k of (code, n) \<Rightarrow>
        if n \<noteq> 1 then None else map_option (Cons code) (keycodes_for X ks))"

text \<open>
  translate_binding: a binding with the flag CODE keeps its symbols in syms and gets their codes as
  keys, or goes back to symbols when one has no unique code. Only a translated binding has the
  type KEYCODE and the flag, so syms is there.
\<close>

definition translate_binding :: "symbols \<Rightarrow> sway_binding \<Rightarrow> bool \<times> sway_binding" where
  "translate_binding X b =
     (if bn_flags b AND BINDING_CODE = 0 \<or> (bn_type b \<noteq> BINDING_KEYSYM \<and> bn_type b \<noteq> BINDING_KEYCODE)
      then (True, b)
      else
        (let syms = (if bn_type b = BINDING_KEYSYM then bn_keys b
                     else case bn_syms b of Some ks \<Rightarrow> ks | None \<Rightarrow> []) in
         case keycodes_for X syms of
           Some codes \<Rightarrow> (True, b\<lparr>bn_type := BINDING_KEYCODE, bn_keys := sort codes, bn_syms := Some syms\<rparr>)
         | None \<Rightarrow> (False, b\<lparr>bn_type := BINDING_KEYSYM, bn_keys := syms, bn_syms := None\<rparr>)))"

definition binding_upsert :: "sway_binding \<Rightarrow> sway_binding list \<Rightarrow> sway_binding list \<times> sway_binding option" where
  "binding_upsert b mode_bindings = table_upsert binding_key_compare b mode_bindings"

definition binding_add_translated :: "sway_binding \<Rightarrow> sway_binding list \<Rightarrow> sway_binding list" where
  "binding_add_translated b mode_bindings = fst (binding_upsert b mode_bindings)"

definition binding_add :: "sway_binding \<Rightarrow> sway_binding list \<Rightarrow> cmd_results \<times> sway_binding list" where
  "binding_add b mode_bindings = (cmd_results_new CMD_SUCCESS None, fst (binding_upsert b mode_bindings))"

definition binding_remove :: "sway_binding \<Rightarrow> sway_binding list \<Rightarrow> string \<Rightarrow> cmd_results \<times> sway_binding list" where
  "binding_remove b mode_bindings keycombo =
     (case table_remove binding_key_compare b mode_bindings of
        Some bs \<Rightarrow> (cmd_results_new CMD_SUCCESS None, bs)
      | None \<Rightarrow> (cmd_results_new CMD_FAILURE
          (Some (''Could not find binding `'' @ keycombo @ ''` for the given flags'')), mode_bindings))"

definition switch_binding_add ::
    "sway_switch_binding \<Rightarrow> sway_switch_binding list \<Rightarrow> cmd_results \<times> sway_switch_binding list" where
  "switch_binding_add b mode_bindings =
     (cmd_results_new CMD_SUCCESS None, table_add binding_switch_compare b mode_bindings)"

definition switch_binding_remove ::
    "sway_switch_binding \<Rightarrow> sway_switch_binding list \<Rightarrow> string \<Rightarrow> cmd_results \<times> sway_switch_binding list" where
  "switch_binding_remove b mode_bindings switchcombo =
     (case table_remove binding_switch_compare b mode_bindings of
        Some bs \<Rightarrow> (cmd_results_new CMD_SUCCESS None, bs)
      | None \<Rightarrow> (cmd_results_new CMD_FAILURE (Some (''Could not find switch binding `'' @ switchcombo @ ''`'')),
          mode_bindings))"

section \<open>bindsym and bindcode\<close>

text \<open>The options before the keys: the binding, whether the title bar is excluded, what is left.\<close>

fun bind_options :: "bool \<Rightarrow> sway_binding \<Rightarrow> bool \<Rightarrow> string list \<Rightarrow> sway_binding \<times> bool \<times> string list" where
  "bind_options bindcode b excl [] = (b, excl, [])"
| "bind_options bindcode b excl (a # as) =
     (let flag = (\<lambda>f. bind_options bindcode (b\<lparr>bn_flags := bn_flags b OR f\<rparr>) excl as) in
      if a = ''--release'' then flag BINDING_RELEASE
      else if a = ''--locked'' then flag BINDING_LOCKED
      else if a = ''--inhibited'' then flag BINDING_INHIBITED
      else if a = ''--whole-window'' then flag (BINDING_BORDER OR BINDING_CONTENTS OR BINDING_TITLEBAR)
      else if a = ''--border'' then flag BINDING_BORDER
      else if a = ''--to-code'' then flag (if bindcode then 0 else BINDING_CODE)
      else if a = ''--exclude-titlebar'' then bind_options bindcode b True as
      else if has_prefix a ''--input-device=''
      then bind_options bindcode (b\<lparr>bn_input := strip_quotes (drop (length ''--input-device='') a)\<rparr>) excl as
      else if a = ''--no-warn'' then bind_options bindcode b excl as
      else if a = ''--no-repeat'' then flag BINDING_NOREPEAT
      else (b, excl, a # as))"

definition group_number :: "string \<Rightarrow> 32 word option" where
  "group_number a =
     (case c_strtol (drop (length ''Group'') a) of (v, endptr) \<Rightarrow>
        let g = to_int32 v in
        if g < 1 \<or> g > 4 \<or> endptr \<noteq> [] then None else Some (word_of_int (g - 1)))"

definition add_key :: "symbols \<Rightarrow> string \<Rightarrow> sway_binding \<Rightarrow> sway_binding + cmd_results" where
  "add_key X a b =
     (let mods = get_modifier_mask_by_name a in
      if mods \<noteq> 0 then Inl (b\<lparr>bn_modifiers := bn_modifiers b OR mods\<rparr>)
      else case identify_key X a (bn_keys b = []) (bn_type b) of
        Inl (k, type) \<Rightarrow> Inl (b\<lparr>bn_type := type, bn_keys := bn_keys b @ [k]\<rparr>)
      | Inr m \<Rightarrow> Inr (cmd_results_new CMD_INVALID (Some m)))"

text \<open>Mode_switch sets the second group and is then looked up as a key as well.\<close>

definition combo_part :: "symbols \<Rightarrow> string \<Rightarrow> sway_binding \<Rightarrow> sway_binding + cmd_results" where
  "combo_part X a b =
     (let twice = Inr (cmd_results_new CMD_FAILURE (Some ''Only one group can be specified'')) in
      if has_prefix a ''Group''
      then (if bn_group b \<noteq> XKB_LAYOUT_INVALID then twice
            else case group_number a of None \<Rightarrow> Inr (cmd_results_new CMD_FAILURE (Some ''Invalid group''))
            | Some g \<Rightarrow> Inl (b\<lparr>bn_group := g\<rparr>))
      else if a = ''Mode_switch''
      then (if bn_group b \<noteq> XKB_LAYOUT_INVALID then twice else add_key X a (b\<lparr>bn_group := 1\<rparr>))
      else add_key X a b)"

fun combo_loop :: "symbols \<Rightarrow> string list \<Rightarrow> sway_binding \<Rightarrow> sway_binding + cmd_results" where
  "combo_loop X [] b = Inl b"
| "combo_loop X (a # as) b = (case combo_part X a b of Inl b \<Rightarrow> combo_loop X as b | Inr e \<Rightarrow> Inr e)"

definition is_mouse :: "binding_input_type \<Rightarrow> bool" where
  "is_mouse type \<longleftrightarrow> type = BINDING_MOUSECODE \<or> type = BINDING_MOUSESYM"

definition refine_region :: "bool \<Rightarrow> sway_binding \<Rightarrow> sway_binding" where
  "refine_region excl b =
     (if excl then b\<lparr>bn_flags := bn_flags b AND NOT BINDING_TITLEBAR\<rparr>
      else if is_mouse (bn_type b) then b\<lparr>bn_flags := bn_flags b OR BINDING_TITLEBAR\<rparr>
      else b)"

text \<open>The binding the arguments describe and the arguments from the keys on.\<close>

definition binding_zero :: "bool \<Rightarrow> sway_binding" where
  "binding_zero bindcode = \<lparr>bn_type = (if bindcode then BINDING_KEYCODE else BINDING_KEYSYM), bn_order = 0,
     bn_input = ''*'', bn_flags = 0, bn_keys = [], bn_syms = None, bn_modifiers = 0,
     bn_group = XKB_LAYOUT_INVALID, bn_command = None\<rparr>"

definition parse_binding ::
    "symbols \<Rightarrow> bool \<Rightarrow> nat \<Rightarrow> string \<Rightarrow> string list \<Rightarrow> (sway_binding \<times> string list) + cmd_results" where
  "parse_binding X bindcode minargs bindtype argv =
     (case bind_options bindcode (binding_zero bindcode) False argv of (b, excl, argv) \<Rightarrow>
        let b = (if bn_flags b AND (BINDING_BORDER OR BINDING_CONTENTS OR BINDING_TITLEBAR) \<noteq> 0 \<or> excl
                 then b\<lparr>bn_type := if bn_type b = BINDING_KEYCODE then BINDING_MOUSECODE else BINDING_MOUSESYM\<rparr>
                 else b) in
        if length argv < minargs
        then Inr (cmd_results_new CMD_FAILURE
               (Some (''Invalid '' @ bindtype @ '' command (not enough non-option arguments)'')))
        else case combo_loop X (split_string (hd argv) ''+'') b of Inr e \<Rightarrow> Inr e
        | Inl b \<Rightarrow>
            (let b = refine_region excl b in
             Inl (snd (translate_binding X (b\<lparr>bn_keys := sort (bn_keys b)\<rparr>)), argv)))"

section \<open>The bindings of the current mode\<close>

definition upd_mode :: "nat \<Rightarrow> (sway_mode \<Rightarrow> sway_mode) \<Rightarrow> sway \<Rightarrow> sway" where
  "upd_mode k f s = upd_opts (\<lambda>p. p\<lparr>op_modes := (op_modes p)[k := f (op_modes p ! k)]\<rparr>) s"

definition upd_current_mode :: "(sway_mode \<Rightarrow> sway_mode) \<Rightarrow> sway \<Rightarrow> sway" where
  "upd_current_mode f s = upd_mode (op_current_mode (cfg_opts (cfg s))) f s"

definition mode_bindings :: "binding_input_type \<Rightarrow> sway_mode \<Rightarrow> sway_binding list" where
  "mode_bindings type m =
     (if type = BINDING_KEYCODE then md_keycode_bindings m
      else if type = BINDING_KEYSYM then md_keysym_bindings m else md_mouse_bindings m)"

definition set_mode_bindings :: "binding_input_type \<Rightarrow> sway_binding list \<Rightarrow> sway_mode \<Rightarrow> sway_mode" where
  "set_mode_bindings type bs m =
     (if type = BINDING_KEYCODE then m\<lparr>md_keycode_bindings := bs\<rparr>
      else if type = BINDING_KEYSYM then m\<lparr>md_keysym_bindings := bs\<rparr> else m\<lparr>md_mouse_bindings := bs\<rparr>)"

definition cmd_bindsym_or_bindcode :: "symbols \<Rightarrow> bool \<Rightarrow> bool \<Rightarrow> handler" where
  "cmd_bindsym_or_bindcode X bindcode unbind x argv s =
     (let minargs = (if unbind then 1 else 2);
          bindtype = (if unbind then ''un'' else []) @ (if bindcode then ''bindcode'' else ''bindsym'') in
      needs_args argv bindtype EXPECTED_AT_LEAST (int minargs) s
        (case parse_binding X bindcode minargs bindtype argv of Inr e \<Rightarrow> (e, s)
         | Inl (b, argv) \<Rightarrow>
             (let type = bn_type b; old = mode_bindings type (current_mode (cfg s)) in
              if unbind
              then (case binding_remove b old (hd argv) of (r, bs) \<Rightarrow> (r, upd_current_mode (set_mode_bindings type bs) s))
              else
                (let n = op_binding_order (cfg_opts (cfg s));
                     b = b\<lparr>bn_command := join_args (tl argv), bn_order := n\<rparr> in
                 case binding_add b old of (r, bs) \<Rightarrow>
                   (r, upd_opts (\<lambda>p. p\<lparr>op_binding_order := n + 1\<rparr>) (upd_current_mode (set_mode_bindings type bs) s))))))"

definition cmd_bindsym :: "symbols \<Rightarrow> handler" where "cmd_bindsym X = cmd_bindsym_or_bindcode X False False"
definition cmd_bindcode :: "symbols \<Rightarrow> handler" where "cmd_bindcode X = cmd_bindsym_or_bindcode X True False"
definition cmd_unbindsym :: "symbols \<Rightarrow> handler" where "cmd_unbindsym X = cmd_bindsym_or_bindcode X False True"
definition cmd_unbindcode :: "symbols \<Rightarrow> handler" where "cmd_unbindcode X = cmd_bindsym_or_bindcode X True True"

section \<open>bindswitch\<close>

fun switch_options :: "32 word \<Rightarrow> string list \<Rightarrow> 32 word \<times> string list" where
  "switch_options flags [] = (flags, [])"
| "switch_options flags (a # as) =
     (if a = ''--locked'' then switch_options (flags OR BINDING_LOCKED) as
      else if a = ''--no-warn'' then switch_options flags as
      else if a = ''--reload'' then switch_options (flags OR BINDING_RELOAD) as
      else (flags, a # as))"

definition switch_named :: "string \<Rightarrow> switch_type option" where
  "switch_named a =
     (if a = ''tablet'' then Some SWITCH_TYPE_TABLET_MODE else if a = ''lid'' then Some SWITCH_TYPE_LID
      else if a = ''keypad_slide'' then Some SWITCH_TYPE_KEYPAD_SLIDE else None)"

definition trigger_named :: "string \<Rightarrow> sway_switch_trigger option" where
  "trigger_named a =
     (if a = ''on'' then Some SWITCH_TRIGGER_ON else if a = ''off'' then Some SWITCH_TRIGGER_OFF
      else if a = ''toggle'' then Some SWITCH_TRIGGER_TOGGLE else None)"

text \<open>The switch and its state, for a build with HAVE_LIBINPUT_SWITCH_KEYPAD_SLIDE.\<close>

definition switch_combo :: "string \<Rightarrow> (switch_type \<times> sway_switch_trigger) + string" where
  "switch_combo a =
     (let parts = split_string a '':'' in
      if length parts \<noteq> 2 then Inr ''Invalid command (expected binding with the form <switch>:<state>)''
      else case switch_named (parts ! 0) of
        None \<Rightarrow> Inr (''Invalid command (expected switch binding: unknown switch '' @ parts ! 0)
      | Some type \<Rightarrow> (case trigger_named (parts ! 1) of
          None \<Rightarrow> Inr (''Invalid command (expected switch state: unknown state '' @ parts ! 1)
        | Some t \<Rightarrow> Inl (type, t)))"

definition cmd_bind_or_unbind_switch :: "bool \<Rightarrow> handler" where
  "cmd_bind_or_unbind_switch unbind x argv s =
     (let minargs = (if unbind then 1 else 2 :: nat); bindtype = (if unbind then ''unbindswitch'' else ''bindswitch'') in
      needs_args argv bindtype EXPECTED_AT_LEAST (int minargs) s
        (case switch_options 0 argv of (flags, argv) \<Rightarrow>
           if length argv < minargs
           then failure (''Invalid '' @ bindtype @ '' command (not enough non-option arguments)'') s
           else case switch_combo (hd argv) of Inr m \<Rightarrow> failure m s
           | Inl (type, trigger) \<Rightarrow>
               (let old = md_switch_bindings (current_mode (cfg s));
                    b = \<lparr>sw_type = type, sw_trigger = trigger, sw_flags = flags,
                         sw_command = (if unbind then None else join_args (tl argv))\<rparr>;
                    (r, bs) = (if unbind then switch_binding_remove b old (hd argv) else switch_binding_add b old) in
                (r, upd_current_mode (\<lambda>m. m\<lparr>md_switch_bindings := bs\<rparr>) s))))"

definition cmd_bindswitch :: handler where "cmd_bindswitch = cmd_bind_or_unbind_switch False"
definition cmd_unbindswitch :: handler where "cmd_unbindswitch = cmd_bind_or_unbind_switch True"

section \<open>Gestures of the current mode, the floating modifier\<close>

definition bind_gesture_in_mode :: "bool \<Rightarrow> handler" where
  "bind_gesture_in_mode unbind x argv s =
     (case cmd_bind_or_unbind_gesture argv unbind (md_gesture_bindings (current_mode (cfg s))) of
        (r, bs) \<Rightarrow> (r, upd_current_mode (\<lambda>m. m\<lparr>md_gesture_bindings := bs\<rparr>) s))"

definition cmd_floating_modifier :: handler where
  "cmd_floating_modifier x argv s =
     needs_args argv ''floating_modifier'' EXPECTED_AT_LEAST 1 s
       (let mods = get_modifier_mask_by_name (argv ! 0);
            set_mod = (\<lambda>inverse. ok (upd_opts (\<lambda>p. p\<lparr>op_floating_mod := mods, op_floating_mod_inverse := inverse\<rparr>) s)) in
        if str_caseeq (argv ! 0) ''none'' then ok (upd_opts (\<lambda>p. p\<lparr>op_floating_mod := 0\<rparr>) s)
        else if mods = 0 then invalid ''Invalid modifier'' s
        else if length argv = 1 \<or> str_caseeq (argv ! 1) ''normal'' then set_mod False
        else if str_caseeq (argv ! 1) ''inverse'' then set_mod True
        else invalid ''Usage: floating_modifier <mod> [inverse|normal]'' s)"

end
