(* ===== verification/Dispatch.thy ===== *)
theory Dispatch
  imports Bsearch Bindings Overview Cmd_Window Cmd_Column Cmd_View Cmd_Workspace Cmd_Focus Cmd_Move Cmd_Resize
begin

text \<open>
  The dispatch of commands (sway/commands.c, commands/mode.c, commands/overview.c): the tables of
  handlers, execute_command and config_command. A handler gives None where the program dereferences
  a null pointer. Commands that are not modelled come from a parameter, d_other; d_under is the container
  under the pointer of a seat, d_mods the modifiers that are down.
\<close>

type_synonym ohandler = "ctx \<Rightarrow> string list \<Rightarrow> sway \<Rightarrow> reply option"

definition total_handler :: "handler \<Rightarrow> ohandler" where
  "total_handler h x argv s = Some (h x argv s)"

record dispatch =
  d_ctx :: ctx
  d_symbols :: symbols
  d_mods :: "32 word"
  d_refocus :: nat
  d_other :: "string \<Rightarrow> ohandler"
  d_under :: "sway \<Rightarrow> nat \<Rightarrow> id option"

section \<open>overview and mode\<close>

definition content_flag :: "string \<Rightarrow> 32 word option" where
  "content_flag a =
     (if str_caseeq a ''tiled'' then Some OVERVIEW_CONTENT_TILED
      else if str_caseeq a ''floating'' then Some OVERVIEW_CONTENT_FLOATING
      else if str_caseeq a ''minimized'' then Some OVERVIEW_CONTENT_MINIMIZED else None)"

fun content_flags :: "string list \<Rightarrow> 32 word \<Rightarrow> 32 word + string" where
  "content_flags [] flags = Inl flags"
| "content_flags (a # as) flags =
     (case content_flag a of None \<Rightarrow> Inr (''Invalid content filter: '' @ a)
      | Some f \<Rightarrow> content_flags as (or flags f))"

definition overview_words :: "string \<Rightarrow> string \<Rightarrow> (overview_scope \<times> overview_action) + string" where
  "overview_words a b =
     (case (if str_caseeq a ''current'' then Some OVERVIEW_CURRENT
            else if str_caseeq a ''all'' then Some OVERVIEW_ALL else None) of
        None \<Rightarrow> Inr (''Invalid scope: '' @ a)
      | Some scope \<Rightarrow>
          (case (if str_caseeq b ''focus'' then Some OVERVIEW_FOCUS else if str_caseeq b ''pull'' then Some OVERVIEW_PULL
                 else if str_caseeq b ''swap'' then Some OVERVIEW_SWAP else None) of
             None \<Rightarrow> Inr (''Invalid action: '' @ b)
           | Some action \<Rightarrow> Inl (scope, action)))"

definition cmd_overview :: "32 word \<Rightarrow> handler" where
  "cmd_overview mods x argv s =
     needs_args argv ''overview'' EXPECTED_AT_LEAST 2 s
       (case overview_words (argv ! 0) (argv ! 1) of Inr m \<Rightarrow> invalid m s
        | Inl (scope, action) \<Rightarrow>
            (case content_flags (drop 2 argv) 0 of Inr m \<Rightarrow> invalid m s
             | Inl flags \<Rightarrow> ok (overview_toggle (h_env x) mods (overview_set_params (h_env x) scope action flags s))))"

text \<open>config_subcommand: the handler of the first word runs on the others.\<close>

definition config_subcommand :: "(string \<times> ohandler) list \<Rightarrow> ohandler" where
  "config_subcommand tbl x argv s =
     (case find_handler (hd argv) tbl of
        None \<Rightarrow> Some (invalid (''Unknown/invalid command '' @ hd argv) s)
      | Some (name, h) \<Rightarrow> h x (tl argv) s)"

definition mode_handlers :: "symbols \<Rightarrow> (string \<times> ohandler) list" where
  "mode_handlers X = map (\<lambda>(n, h). (n, total_handler h))
     [(''bindcode'', cmd_bindcode X), (''bindgesture'', bind_gesture_in_mode False), (''bindswitch'', cmd_bindswitch),
      (''bindsym'', cmd_bindsym X), (''set'', cmd_set), (''unbindcode'', cmd_unbindcode X),
      (''unbindgesture'', bind_gesture_in_mode True), (''unbindswitch'', cmd_unbindswitch), (''unbindsym'', cmd_unbindsym X)]"

definition set_current_mode :: "nat \<Rightarrow> sway \<Rightarrow> sway" where
  "set_current_mode k s = upd_opts (\<lambda>p. p\<lparr>op_current_mode := k\<rparr>) s"

definition add_mode :: "string \<Rightarrow> bool \<Rightarrow> sway \<Rightarrow> sway" where
  "add_mode name pango s = upd_opts (\<lambda>p. p\<lparr>op_modes := op_modes p @ [mode_named name pango]\<rparr>) s"

definition enter_mode :: "nat \<Rightarrow> sway \<Rightarrow> reply" where
  "enter_mode k s =
     (let s = set_current_mode k s; m = current_mode (cfg s) in ok (emit (Ev_mode (md_name m) (md_pango m)) s))"

definition bind_in_mode :: "symbols \<Rightarrow> nat \<Rightarrow> ohandler" where
  "bind_in_mode X k x argv s =
     map_option (\<lambda>(r, t). (r, set_current_mode (op_current_mode (cfg_opts (cfg s))) t))
       (config_subcommand (mode_handlers X) x argv (set_current_mode k s))"

definition cmd_mode :: "symbols \<Rightarrow> ohandler" where
  "cmd_mode X x argv s =
     (case checkarg (int (length argv)) ''mode'' EXPECTED_AT_LEAST 1 of Some e \<Rightarrow> Some (e, s)
      | None \<Rightarrow>
          (let pango = (hd argv = ''--pango_markup''); args = (if pango then tl argv else argv) in
           if args = [] then Some (failure ''Mode name is missing'' s)
           else if op_reading (cfg_opts (cfg s)) \<and> length args = 1 then Some (cmd_results_new CMD_DEFER None, s)
           else
             (let name = strip_quotes (hd args); modes = op_modes (cfg_opts (cfg s));
                  k = nat (find_index_from 0 (\<lambda>m. md_name m = name) modes) in
              if list_ex (\<lambda>m. md_name m = name) modes
              then (if length args = 1 then Some (enter_mode k s) else bind_in_mode X k x (tl args) s)
              else if length args = 1 then Some (invalid (''Unknown mode '' @ name) s)
              else bind_in_mode X (length modes) x (tl args) (add_mode name pango s))))"

section \<open>The tables\<close>

definition handlers :: "dispatch \<Rightarrow> (string \<times> ohandler) list" where
  "handlers D =
     (let X = d_symbols D; t = total_handler; other = (\<lambda>n. (n, d_other D n)) in
      [(''assign'', cmd_assign), other ''bar'', (''bindcode'', t (cmd_bindcode X)),
       (''bindgesture'', t (bind_gesture_in_mode False)), (''bindswitch'', t cmd_bindswitch), (''bindsym'', t (cmd_bindsym X)),
       (''client.background'', t cmd_client_noop), (''client.focused'', t cmd_client_focused),
       (''client.focused_inactive'', t cmd_client_focused_inactive),
       (''client.focused_tab_title'', t cmd_client_focused_tab_title), (''client.placeholder'', t cmd_client_noop),
       (''client.unfocused'', t cmd_client_unfocused), (''client.urgent'', t cmd_client_urgent),
       (''column_width'', t cmd_column_width), (''corner_radius'', t cmd_corner_radius),
       (''default_border'', t cmd_default_border), (''default_floating_border'', t cmd_default_floating_border),
       (''exec'', t cmd_exec), (''exec-range'', t cmd_exec_range), (''exec-range-exit'', t cmd_exec_range_exit),
       (''exec_always'', t cmd_exec_always), (''floating_maximum_size'', t cmd_floating_maximum_size),
       (''floating_minimum_size'', t cmd_floating_minimum_size), (''floating_modifier'', t cmd_floating_modifier),
       (''floating_snap'', t cmd_floating_snap), (''focus'', t cmd_focus), (''focus_follows_mouse'', t cmd_focus_follows_mouse),
       (''focus_on_window_activation'', t cmd_focus_on_window_activation), (''focus_wrapping'', t cmd_focus_wrapping),
       (''font'', t cmd_font), (''for_window'', t cmd_for_window),
       (''force_display_urgency_hint'', t cmd_force_display_urgency_hint),
       (''force_focus_wrapping'', t cmd_force_focus_wrapping), (''fullscreen'', t cmd_fullscreen), (''gaps'', t cmd_gaps),
       (''hide_edge_borders'', t cmd_hide_edge_borders), other ''input'', (''mode'', cmd_mode X),
       (''mouse_warping'', t cmd_mouse_warping), (''new_float'', t cmd_new_float), (''new_window'', t cmd_new_window),
       (''no_focus'', t cmd_no_focus), (''opacity'', t cmd_opacity), other ''output'',
       (''popup_during_fullscreen'', t cmd_popup_during_fullscreen), other ''seat'', (''set'', t cmd_set),
       (''shadow'', t cmd_shadow), (''show_marks'', t cmd_show_marks), (''smart_borders'', t cmd_smart_borders),
       (''smart_gaps'', t cmd_smart_gaps), (''tiling_drag'', t cmd_tiling_drag),
       (''tiling_drag_threshold'', t cmd_tiling_drag_threshold), (''title_align'', t cmd_title_align),
       (''titlebar_border_thickness'', t cmd_titlebar_border_thickness), (''titlebar_padding'', t cmd_titlebar_padding),
       (''unbindcode'', t (cmd_unbindcode X)), (''unbindgesture'', t (bind_gesture_in_mode True)),
       (''unbindswitch'', t cmd_unbindswitch), (''unbindsym'', t (cmd_unbindsym X)), (''workspace'', t cmd_workspace),
       (''workspace_auto_back_and_forth'', t cmd_ws_auto_back_and_forth)])"

definition config_handlers :: "dispatch \<Rightarrow> (string \<times> ohandler) list" where
  "config_handlers D =
     (let t = total_handler; other = (\<lambda>n. (n, d_other D n)) in
      [(''default_orientation'', t cmd_default_orientation), other ''env'', other ''include'',
       (''primary_selection'', t cmd_primary_selection), (''swaybg_command'', t cmd_swaybg_command),
       (''swaynag_command'', t cmd_swaynag_command), (''workspace_layout'', t cmd_workspace_layout), (''xwayland'', t cmd_xwayland)])"

definition command_handlers :: "dispatch \<Rightarrow> (string \<times> ohandler) list" where
  "command_handlers D =
     (let t = total_handler; other = (\<lambda>n. (n, d_other D n)) in
      [(''allow_tearing'', t cmd_allow_tearing), (''border'', t cmd_border), other ''create_output'',
       (''default_float'', cmd_default_float), (''evenh'', t cmd_evenh), (''evenv'', t cmd_evenv), (''exit'', t cmd_exit),
       (''floating'', t cmd_floating), (''fullscreen'', t cmd_fullscreen), other ''inhibit_idle'', (''kill'', t cmd_kill),
       (''layout'', cmd_layout), (''mark'', t cmd_mark), (''max_render_time'', t cmd_max_render_time),
       (''maximize'', t cmd_maximize), (''minimize'', t cmd_minimize), (''move'', t cmd_move), (''nop'', t cmd_nop),
       (''overview'', t (cmd_overview (d_mods D))), (''pull'', t cmd_pull), (''release'', t cmd_release), other ''reload'',
       (''rename'', t cmd_rename), (''resize'', cmd_resize), (''scratchpad'', t cmd_scratchpad),
       (''shortcuts_inhibitor'', t cmd_shortcuts_inhibitor), (''split'', t cmd_split), (''splith'', t cmd_splith),
       (''splitt'', t cmd_splitt), (''splitv'', t cmd_splitv), (''sticky'', t cmd_sticky), (''swap'', t cmd_swap),
       (''take'', t cmd_take), (''title_format'', t cmd_title_format), (''unmark'', t cmd_unmark), (''urgent'', t cmd_urgent)])"

definition find_handler_ex :: "string \<Rightarrow> sway \<Rightarrow> (string \<times> ohandler) list \<Rightarrow> (string \<times> ohandler) list
    \<Rightarrow> (string \<times> ohandler) list \<Rightarrow> (string \<times> ohandler) option" where
  "find_handler_ex line s config_hs command_hs hs =
     (case (if op_reading (cfg_opts (cfg s)) then find_handler line config_hs
            else if op_active (cfg_opts (cfg s)) then find_handler line command_hs else None) of
        Some h \<Rightarrow> Some h | None \<Rightarrow> find_handler line hs)"

definition find_core_handler :: "dispatch \<Rightarrow> string \<Rightarrow> sway \<Rightarrow> (string \<times> ohandler) option" where
  "find_core_handler D line s = find_handler_ex line s (config_handlers D) (command_handlers D) (handlers D)"

section \<open>execute_command\<close>

definition is_quoted :: "string \<Rightarrow> bool" where
  "is_quoted a \<longleftrightarrow> a \<noteq> [] \<and> hd a \<in> {DQ, SQ}"

text \<open>The words of a command; quotes go except behind exec, exec_always and mode.\<close>

definition command_words :: "string \<Rightarrow> string list" where
  "command_words cmd =
     (case split_args (Some cmd) of [] \<Rightarrow> []
      | name # args \<Rightarrow>
          name # (if name \<in> {''exec'', ''exec_always'', ''mode''} then args
                  else map (\<lambda>a. if is_quoted a then strip_quotes a else a) args))"

text \<open>The first word and, for set, the variable it names are not replaced.\<close>

definition replace_vars :: "string \<Rightarrow> sway \<Rightarrow> string list \<Rightarrow> string list" where
  "replace_vars handler_name s argv =
     (let k = (if handler_name = ''set'' then 2 else 1) in
      take k argv @ map (do_var_replacement (cfg_symbols (cfg s))) (drop k argv))"

text \<open>The command on every container: the last failure is the result, an invalid command stops.\<close>

fun run_on_containers :: "ohandler \<Rightarrow> ctx \<Rightarrow> string list \<Rightarrow> id list \<Rightarrow> cmd_results option \<Rightarrow> sway \<Rightarrow> reply option" where
  "run_on_containers h x argv [] fail_res s =
     Some (case fail_res of Some r \<Rightarrow> r | None \<Rightarrow> cmd_results_new CMD_SUCCESS None, s)"
| "run_on_containers h x argv (c # cs) fail_res s =
     (case h (set_config_node (Some (N_CONTAINER c)) True s x) argv s of
        None \<Rightarrow> None
      | Some (r, s) \<Rightarrow>
          if status r = CMD_INVALID then Some (r, s)
          else run_on_containers h x argv cs (if status r = CMD_SUCCESS then fail_res else Some r) s)"

definition run_command :: "ohandler \<Rightarrow> ctx \<Rightarrow> nat \<Rightarrow> string list \<Rightarrow> id option \<Rightarrow> id list option \<Rightarrow> sway \<Rightarrow> reply option" where
  "run_command h x k argv con containers s =
     (case containers of
        None \<Rightarrow>
          h (case con of Some c \<Rightarrow> set_config_node (Some (N_CONTAINER c)) True s x
             | None \<Rightarrow> set_config_node (seat_get_focus_inactive s (seat_at s k) N_ROOT) False s x) argv s
      | Some [] \<Rightarrow> Some (failure ''No matching node.'' s)
      | Some cs \<Rightarrow> run_on_containers h x argv cs None s)"

text \<open>
  One round of the loop behind the criteria: the results so far, the state, and what is left of the
  text, None when the loop ends.
\<close>

definition one_command :: "dispatch \<Rightarrow> ctx \<Rightarrow> nat \<Rightarrow> id option \<Rightarrow> id list option \<Rightarrow> string \<Rightarrow> string option
    \<Rightarrow> cmd_results list \<Rightarrow> sway \<Rightarrow> (cmd_results list \<times> sway \<times> string option) option" where
  "one_command D x k con containers cmd rest res s =
     (if cmd = [] then Some (res, s, rest)
      else
        (let argv = command_words cmd in
         case find_core_handler D (hd argv) s of
           None \<Rightarrow> Some (res @ [fst (invalid (''Unknown/invalid command '' @ hd argv) s)], s, None)
         | Some (name, h) \<Rightarrow>
             map_option (\<lambda>(r, t). (res @ [r], t, if status r = CMD_INVALID then None else rest))
               (run_command h x k (tl (replace_vars name s argv)) con containers s)))"

text \<open>Criteria in front of a list of commands select containers for the list.\<close>

definition take_criteria :: "ctx \<Rightarrow> string \<Rightarrow> sway \<Rightarrow> (id list option \<times> string) + string" where
  "take_criteria x head s =
     (if head = [] \<or> hd head \<noteq> CHR ''['' then Inl (None, head)
      else case criteria_parse (h_matcher x) (current_focus (h_env x) s) head of
        Inr err \<Rightarrow> Inr err
      | Inl c \<Rightarrow> Inl (Some (criteria_get_containers (h_matcher x) (h_env x) s c),
                    dropWhile is_ws (drop (length (cr_raw c)) head)))"

text \<open>The loop; every round takes at least one character, so the length of the text is enough fuel.\<close>

fun command_loop :: "nat \<Rightarrow> dispatch \<Rightarrow> ctx \<Rightarrow> nat \<Rightarrow> id option \<Rightarrow> string \<Rightarrow> char \<Rightarrow> id list option
    \<Rightarrow> cmd_results list \<Rightarrow> sway \<Rightarrow> (cmd_results list \<times> sway) option" where
  "command_loop 0 D x k con head delim containers res s = Some (res, s)"
| "command_loop (Suc n) D x k con head delim containers res s =
     (let head = dropWhile is_ws head in
      case (if delim = CHR '';'' then take_criteria x head s else Inl (containers, head)) of
        Inr err \<Rightarrow> Some (res @ [fst (invalid err s)], s)
      | Inl (containers, head) \<Rightarrow>
          (case argsep head '';,'' of (cmd, rest, matched) \<Rightarrow>
             (case one_command D x k con containers (dropWhile is_ws cmd) rest res s of
                None \<Rightarrow> None
              | Some (res, s, None) \<Rightarrow> Some (res, s)
              | Some (res, s, Some rest) \<Rightarrow> command_loop n D x k con rest matched containers res s)))"

definition execute_with :: "(id option \<Rightarrow> string \<Rightarrow> sway \<Rightarrow> sway) \<Rightarrow> dispatch \<Rightarrow> string \<Rightarrow> nat option \<Rightarrow> id option
    \<Rightarrow> sway \<Rightarrow> (cmd_results list \<times> sway) option" where
  "execute_with run D exec seat con s =
     (let k = (case seat of Some k \<Rightarrow> k | None \<Rightarrow> default_seat_index s);
          x = (d_ctx D)\<lparr>h_env := with_focus (d_refocus D) ((h_env (d_ctx D))\<lparr>e_seat := Some k\<rparr>), h_run := run\<rparr> in
      command_loop (length exec + 1) D x k con exec (CHR '';'') None [] s)"

text \<open>
  Rules of the configuration run commands in turn, to a number of levels. A rule that ends in a null
  pointer is cut off where the program would end.
\<close>

fun run_rules :: "nat \<Rightarrow> dispatch \<Rightarrow> id option \<Rightarrow> string \<Rightarrow> sway \<Rightarrow> sway" where
  "run_rules 0 D con cmds s = s"
| "run_rules (Suc d) D con cmds s =
     (case execute_with (run_rules d D) D cmds None con s of None \<Rightarrow> s | Some (_, s) \<Rightarrow> s)"

definition execute_command :: "nat \<Rightarrow> dispatch \<Rightarrow> string \<Rightarrow> nat option \<Rightarrow> id option \<Rightarrow> sway
    \<Rightarrow> (cmd_results list \<times> sway) option" where
  "execute_command d D exec seat con s = execute_with (run_rules d D) D exec seat con s"

end
