(* ===== verification/Dispatch_Laws.thy ===== *)
theory Dispatch_Laws
  imports Dispatch Sample Criteria_Laws
begin

text \<open>
  What the dispatch promises: the tables are searched as if from their start, a wrong number of
  arguments is refused without a change, every list of commands is read to its end, and layout toggle
  finds its next layout.
\<close>

section \<open>The tables are sorted\<close>

lemma handlers_alphabetized: "alphabetized (handlers D)"
  by (rule alphabetized_by_names) (simp add: handlers_def Let_def, code_simp)

lemma config_handlers_alphabetized: "alphabetized (config_handlers D)"
  by (rule alphabetized_by_names) (simp add: config_handlers_def Let_def, code_simp)

lemma command_handlers_alphabetized: "alphabetized (command_handlers D)"
  by (rule alphabetized_by_names) (simp add: command_handlers_def Let_def, code_simp)

lemma mode_handlers_alphabetized: "alphabetized (mode_handlers X)"
  by (rule alphabetized_by_names) (simp add: mode_handlers_def, code_simp)

lemmas find_in_tables = find_handler_find[OF handlers_alphabetized] find_handler_find[OF config_handlers_alphabetized]
  find_handler_find[OF command_handlers_alphabetized] find_handler_find[OF mode_handlers_alphabetized]

lemma find_append: "List.find P (xs @ ys) = (case List.find P xs of Some x \<Rightarrow> Some x | None \<Rightarrow> List.find P ys)"
  by (induction xs) auto

lemma find_in_set: "List.find P xs = Some x \<Longrightarrow> x \<in> set xs \<and> P x"
  by (induction xs) (auto split: if_splits)

definition tables :: "dispatch \<Rightarrow> sway \<Rightarrow> (string \<times> ohandler) list" where
  "tables D s =
     (if op_reading (cfg_opts (cfg s)) then config_handlers D
      else if op_active (cfg_opts (cfg s)) then command_handlers D else []) @ handlers D"

text \<open>
  C36. find_core_handler finds with bsearch what a search from the start finds, in any case of the
  letters: the commands for configurations before the common ones while the configuration is read, and
  those for the running program before them once it is active.
\<close>

theorem find_core_handler_search:
  "find_core_handler D line s = List.find (\<lambda>h. str_caseeq line (fst h)) (tables D s)"
  by (simp add: find_core_handler_def find_handler_ex_def tables_def find_append find_in_tables split: option.split)

section \<open>Wrong numbers of arguments\<close>

definition refuses :: "expected_args \<Rightarrow> int \<Rightarrow> ohandler \<Rightarrow> bool" where
  "refuses type val h \<longleftrightarrow> (\<forall>x argv s. checkarg (int (length argv)) [] type val \<noteq> None
     \<longrightarrow> (\<exists>e. h x argv s = Some (e, s) \<and> status e = CMD_INVALID))"

lemma checkarg_invalid: "checkarg n name type val = Some e \<Longrightarrow> status e = CMD_INVALID"
  by (auto simp: checkarg_def cmd_results_new_def Let_def split: expected_args.splits if_splits)

lemma checkarg_name: "checkarg n name type val = None \<longleftrightarrow> checkarg n name' type val = None"
  by (auto simp: checkarg_def Let_def split: expected_args.splits)

lemma refuses_total:
  assumes "\<And>x argv s. h x argv s = needs_args argv name type val s (g x argv s)"
  shows "refuses type val (total_handler h)"
  unfolding refuses_def
proof (intro allI impI)
  fix x :: ctx and argv :: "string list" and s :: sway
  assume "checkarg (int (length argv)) [] type val \<noteq> None"
  then obtain e where "checkarg (int (length argv)) name type val = Some e"
    using checkarg_name[of _ "[]" type val name] by auto
  then show "\<exists>e. total_handler h x argv s = Some (e, s) \<and> status e = CMD_INVALID"
    using checkarg_invalid by (auto simp: total_handler_def assms needs_args_def)
qed

lemma refuses_option:
  assumes "\<And>x argv s. h x argv s = (case checkarg (int (length argv)) name type val of
    Some e \<Rightarrow> Some (e, s) | None \<Rightarrow> g x argv s)"
  shows "refuses type val h"
  unfolding refuses_def
proof (intro allI impI)
  fix x :: ctx and argv :: "string list" and s :: sway
  assume "checkarg (int (length argv)) [] type val \<noteq> None"
  then obtain e where "checkarg (int (length argv)) name type val = Some e"
    using checkarg_name[of _ "[]" type val name] by auto
  then show "\<exists>e. h x argv s = Some (e, s) \<and> status e = CMD_INVALID"
    using checkarg_invalid by (auto simp: assms)
qed

lemmas refuses_settings =
  refuses_total[OF cmd_set_def] refuses_total[OF cmd_default_border_def] refuses_total[OF cmd_default_floating_border_def]
  refuses_total[OF cmd_focus_follows_mouse_def] refuses_total[OF cmd_focus_on_window_activation_def]
  refuses_total[OF cmd_focus_wrapping_def] refuses_total[OF cmd_force_focus_wrapping_def]
  refuses_total[OF cmd_mouse_warping_def] refuses_total[OF cmd_popup_during_fullscreen_def]
  refuses_total[OF cmd_title_align_def] refuses_total[OF cmd_default_orientation_def]
  refuses_total[OF cmd_workspace_layout_def] refuses_total[OF cmd_hide_edge_borders_def]
  refuses_total[OF cmd_smart_borders_def] refuses_total[OF cmd_smart_gaps_def] refuses_total[OF cmd_tiling_drag_def]
  refuses_total[OF cmd_show_marks_def] refuses_total[OF cmd_ws_auto_back_and_forth_def]
  refuses_total[OF cmd_primary_selection_def] refuses_total[OF cmd_xwayland_def] refuses_total[OF cmd_swaybg_command_def]
  refuses_total[OF cmd_swaynag_command_def] refuses_total[OF cmd_column_width_def] refuses_total[OF cmd_corner_radius_def]
  refuses_total[OF cmd_floating_snap_def] refuses_total[OF cmd_tiling_drag_threshold_def]
  refuses_total[OF cmd_force_display_urgency_hint_def] refuses_total[OF cmd_floating_minimum_size_def]
  refuses_total[OF cmd_floating_maximum_size_def] refuses_total[OF cmd_titlebar_border_thickness_def]
  refuses_total[OF cmd_titlebar_padding_def] refuses_total[OF cmd_font_def] refuses_total[OF cmd_shadow_def]
  refuses_total[OF cmd_for_window_def] refuses_total[OF cmd_no_focus_def] refuses_option[OF cmd_assign_def]
  refuses_total[OF cmd_opacity_def] refuses_total[OF cmd_floating_modifier_def]
  refuses_total[OF cmd_new_window_def[THEN fun_cong, THEN fun_cong, THEN fun_cong, unfolded cmd_default_border_def]]
  refuses_total[OF cmd_new_float_def[THEN fun_cong, THEN fun_cong, THEN fun_cong, unfolded cmd_default_floating_border_def]]

lemmas refuses_commands =
  refuses_total[OF cmd_split_def] refuses_total[OF cmd_splitv_def] refuses_total[OF cmd_splith_def]
  refuses_total[OF cmd_splitt_def] refuses_option[OF cmd_layout_def] refuses_total[OF cmd_move_def]
  refuses_total[OF cmd_border_def] refuses_total[OF cmd_urgent_def] refuses_total[OF cmd_title_format_def]
  refuses_total[OF cmd_allow_tearing_def] refuses_total[OF cmd_shortcuts_inhibitor_def] refuses_total[OF cmd_exit_def]
  refuses_total[OF cmd_mark_def] refuses_total[OF cmd_sticky_def] refuses_total[OF cmd_floating_def]
  refuses_total[OF cmd_fullscreen_def] refuses_total[OF cmd_scratchpad_def] refuses_total[OF cmd_gaps_def]
  refuses_total[OF cmd_workspace_def] refuses_total[OF cmd_rename_def] refuses_total[OF cmd_overview_def]
  refuses_option[OF cmd_mode_def]

lemma refuses_bindgesture: "refuses EXPECTED_AT_LEAST (if unbind then 1 else 2) (total_handler (bind_gesture_in_mode unbind))"
  unfolding refuses_def
proof (intro allI impI)
  fix x :: ctx and argv :: "string list" and s :: sway
  let ?bs = "md_gesture_bindings (current_mode (cfg s))"
  have same: "upd_current_mode (\<lambda>m. m\<lparr>md_gesture_bindings := ?bs\<rparr>) s = s"
    by (simp add: upd_current_mode_def upd_mode_def upd_opts_def current_mode_def)
  assume "checkarg (int (length argv)) [] EXPECTED_AT_LEAST (if unbind then 1 else 2) \<noteq> None"
  then obtain e where "checkarg (int (length argv)) (if unbind then ''unbindgesture'' else ''bindgesture'') EXPECTED_AT_LEAST
      (if unbind then 1 else 2) = Some e" by (cases unbind) (auto simp: checkarg_def)
  then show "\<exists>e. total_handler (bind_gesture_in_mode unbind) x argv s = Some (e, s) \<and> status e = CMD_INVALID"
    using checkarg_invalid same
    by (auto simp: total_handler_def bind_gesture_in_mode_def cmd_bind_or_unbind_gesture_def)
qed

lemma refuses_most:
  assumes "\<And>x argv s. h x argv s = needs_args argv name EXPECTED_AT_LEAST lo s (needs_args argv name EXPECTED_AT_MOST hi s (g x argv s))"
  shows "refuses EXPECTED_AT_MOST hi (total_handler h)"
  unfolding refuses_def total_handler_def assms needs_args_def
  by (auto simp: checkarg_def cmd_results_new_def)

lemma refuses_resize: "refuses EXPECTED_AT_LEAST 2 cmd_resize"
  unfolding refuses_def cmd_resize_def
  by (auto simp: invalid_def cmd_results_new_def checkarg_def split: option.split)

lemma refuses_bind: "refuses EXPECTED_AT_LEAST (if unbind then 1 else 2) (total_handler (cmd_bindsym_or_bindcode X bindcode unbind))"
  using refuses_total[OF cmd_bindsym_or_bindcode_def[unfolded Let_def, of X bindcode unbind]] by (cases unbind) simp_all

lemma refuses_bindswitch: "refuses EXPECTED_AT_LEAST (if unbind then 1 else 2) (total_handler (cmd_bind_or_unbind_switch unbind))"
  using refuses_total[OF cmd_bind_or_unbind_switch_def[unfolded Let_def, of unbind]] by (cases unbind) simp_all

lemma refuses_exec: "refuses EXPECTED_AT_LEAST 1 (total_handler cmd_exec)" "refuses EXPECTED_AT_LEAST 1 (total_handler cmd_exec_always)"
  unfolding refuses_def total_handler_def cmd_exec_def cmd_exec_always_def cmd_exec_validate_def
  by (auto simp: checkarg_def cmd_results_new_def)

lemma refuses_exec_range: "refuses EXPECTED_AT_LEAST 4 (total_handler (add_edge_binding b))"
  unfolding refuses_def total_handler_def add_edge_binding_def parse_edge_binding_def
  by (auto simp: checkarg_def invalid_def cmd_results_new_def)

lemma refuses_words: "refuses EXPECTED_AT_LEAST 1 (total_handler cmd_max_render_time)" "refuses EXPECTED_EQUAL_TO 0 (total_handler cmd_pull)"
  unfolding refuses_def total_handler_def cmd_max_render_time_def cmd_pull_def
  by (auto simp: checkarg_def invalid_def cmd_results_new_def)

lemma refuses_colors: "refuses EXPECTED_AT_LEAST 3 (total_handler (set_client_colors name indicator f))"
    "refuses EXPECTED_AT_MOST 5 (total_handler (set_client_colors name indicator f))"
  by (rule refuses_total[OF set_client_colors_def] refuses_most[OF set_client_colors_def])+

lemmas refuses_others = refuses_bind[of False, simplified] refuses_bind[of True, simplified] refuses_bindswitch[of False, simplified]
  refuses_bindswitch[of True, simplified] refuses_bindgesture[of False, simplified] refuses_bindgesture[of True, simplified]
  refuses_exec refuses_exec_range refuses_words refuses_colors refuses_resize
  cmd_bindsym_def cmd_bindcode_def cmd_unbindsym_def cmd_unbindcode_def cmd_bindswitch_def cmd_unbindswitch_def
  cmd_exec_range_def cmd_exec_range_exit_def cmd_client_focused_def cmd_client_focused_inactive_def
  cmd_client_focused_tab_title_def cmd_client_unfocused_def cmd_client_urgent_def

text \<open>
  The numbers of arguments the commands check before anything else: here every command of the three
  tables is either listed with its checks, or takes any number of arguments (or, like focus, swap,
  minimize and default_float, looks at the number in its own way), or is a parameter of the model.
\<close>

abbreviation at_least :: "int \<Rightarrow> (expected_args \<times> int) list" where "at_least n \<equiv> [(EXPECTED_AT_LEAST, n)]"
abbreviation at_most :: "int \<Rightarrow> (expected_args \<times> int) list" where "at_most n \<equiv> [(EXPECTED_AT_MOST, n)]"
abbreviation exactly :: "int \<Rightarrow> (expected_args \<times> int) list" where "exactly n \<equiv> [(EXPECTED_EQUAL_TO, n)]"

definition arities :: "(string \<times> (expected_args \<times> int) list) list" where
  "arities =
     [(''allow_tearing'', at_least 1), (''border'', at_least 1), (''corner_radius'', at_least 1),
      (''default_border'', at_least 1), (''default_floating_border'', at_least 1), (''exec'', at_least 1),
      (''exec_always'', at_least 1), (''floating_modifier'', at_least 1), (''floating_snap'', at_least 1),
      (''font'', at_least 1), (''force_display_urgency_hint'', at_least 1),
      (''hide_edge_borders'', at_least 1), (''layout'', at_least 1), (''mark'', at_least 1),
      (''max_render_time'', at_least 1), (''mode'', at_least 1), (''move'', at_least 1),
      (''new_float'', at_least 1), (''new_window'', at_least 1), (''no_focus'', at_least 1),
      (''opacity'', at_least 1), (''show_marks'', at_least 1), (''smart_gaps'', at_least 1),
      (''swaybg_command'', at_least 1), (''swaynag_command'', at_least 1), (''title_align'', at_least 1),
      (''title_format'', at_least 1), (''titlebar_padding'', at_least 1), (''unbindcode'', at_least 1),
      (''unbindgesture'', at_least 1), (''unbindswitch'', at_least 1), (''unbindsym'', at_least 1),
      (''workspace'', at_least 1), (''assign'', at_least 2), (''bindcode'', at_least 2),
      (''bindgesture'', at_least 2), (''bindswitch'', at_least 2), (''bindsym'', at_least 2),
      (''column_width'', at_least 2), (''for_window'', at_least 2), (''gaps'', at_least 2),
      (''overview'', at_least 2), (''resize'', at_least 2), (''set'', at_least 2), (''shadow'', at_least 2),
      (''rename'', at_least 3), (''exec-range'', at_least 4), (''exec-range-exit'', at_least 4),
      (''client.focused'', at_least 3 @ at_most 5), (''client.focused_inactive'', at_least 3 @ at_most 5),
      (''client.focused_tab_title'', at_least 3 @ at_most 5), (''client.unfocused'', at_least 3 @ at_most 5),
      (''client.urgent'', at_least 3 @ at_most 5), (''fullscreen'', at_most 2), (''exit'', exactly 0),
      (''pull'', exactly 0), (''splith'', exactly 0), (''splitt'', exactly 0), (''splitv'', exactly 0),
      (''default_orientation'', exactly 1), (''floating'', exactly 1), (''focus_follows_mouse'', exactly 1),
      (''focus_on_window_activation'', exactly 1), (''focus_wrapping'', exactly 1),
      (''force_focus_wrapping'', exactly 1), (''mouse_warping'', exactly 1),
      (''popup_during_fullscreen'', exactly 1), (''primary_selection'', exactly 1),
      (''scratchpad'', exactly 1), (''shortcuts_inhibitor'', exactly 1), (''smart_borders'', exactly 1),
      (''split'', exactly 1), (''sticky'', exactly 1), (''tiling_drag'', exactly 1),
      (''tiling_drag_threshold'', exactly 1), (''titlebar_border_thickness'', exactly 1),
      (''urgent'', exactly 1), (''workspace_auto_back_and_forth'', exactly 1),
      (''workspace_layout'', exactly 1), (''xwayland'', exactly 1), (''floating_maximum_size'', exactly 3),
      (''floating_minimum_size'', exactly 3)]"

definition any_arguments :: "string list" where
  "any_arguments =
     [''client.background'', ''client.placeholder'', ''default_float'', ''evenh'', ''evenv'', ''focus'',
      ''kill'', ''maximize'', ''minimize'', ''nop'', ''release'', ''swap'', ''take'', ''unmark'']"

definition outside :: "string list" where
  "outside =
     [''bar'', ''create_output'', ''env'', ''include'', ''inhibit_idle'', ''input'', ''output'', ''reload'',
      ''seat'']"

definition arity :: "string \<Rightarrow> (expected_args \<times> int) list option" where
  "arity = map_of arities"

definition all_refuse :: "(string \<times> ohandler) list \<Rightarrow> bool" where
  "all_refuse tbl \<longleftrightarrow> list_all (\<lambda>(n, h). case arity n of None \<Rightarrow> n \<in> set (any_arguments @ outside)
     | Some checks \<Rightarrow> list_all (\<lambda>(type, val). refuses type val h) checks) tbl"

lemma all_refuse_by:
  "map (\<lambda>n. (arity n, n \<in> set (any_arguments @ outside))) (map fst tbl) = as \<Longrightarrow>
   list_all2 (\<lambda>(a, free) h. case a of None \<Rightarrow> free | Some checks \<Rightarrow> list_all (\<lambda>(type, val). refuses type val h) checks)
     as (map snd tbl) \<Longrightarrow> all_refuse tbl"
  by (fastforce simp: all_refuse_def list_all2_map1 list_all2_map2 list_all2_same list_all_iff comp_def split_beta split: option.splits)

lemma handlers_arities: "map (\<lambda>n. (arity n, n \<in> set (any_arguments @ outside))) (map fst (handlers D)) =
    [(Some (at_least 2), False), (None, True), (Some (at_least 2), False), (Some (at_least 2), False),
     (Some (at_least 2), False), (Some (at_least 2), False), (None, True),
     (Some (at_least 3 @ at_most 5), False), (Some (at_least 3 @ at_most 5), False),
     (Some (at_least 3 @ at_most 5), False), (None, True), (Some (at_least 3 @ at_most 5), False),
     (Some (at_least 3 @ at_most 5), False), (Some (at_least 2), False), (Some (at_least 1), False),
     (Some (at_least 1), False), (Some (at_least 1), False), (Some (at_least 1), False),
     (Some (at_least 4), False), (Some (at_least 4), False), (Some (at_least 1), False),
     (Some (exactly 3), False), (Some (exactly 3), False), (Some (at_least 1), False),
     (Some (at_least 1), False), (None, True), (Some (exactly 1), False), (Some (exactly 1), False),
     (Some (exactly 1), False), (Some (at_least 1), False), (Some (at_least 2), False),
     (Some (at_least 1), False), (Some (exactly 1), False), (Some (at_most 2), False),
     (Some (at_least 2), False), (Some (at_least 1), False), (None, True), (Some (at_least 1), False),
     (Some (exactly 1), False), (Some (at_least 1), False), (Some (at_least 1), False),
     (Some (at_least 1), False), (Some (at_least 1), False), (None, True), (Some (exactly 1), False),
     (None, True), (Some (at_least 2), False), (Some (at_least 2), False), (Some (at_least 1), False),
     (Some (exactly 1), False), (Some (at_least 1), False), (Some (exactly 1), False),
     (Some (exactly 1), False), (Some (at_least 1), False), (Some (exactly 1), False),
     (Some (at_least 1), False), (Some (at_least 1), False), (Some (at_least 1), False),
     (Some (at_least 1), False), (Some (at_least 1), False), (Some (at_least 1), False),
     (Some (exactly 1), False)]"
  by (simp only: handlers_def Let_def list.map fst_conv) code_simp

lemma handlers_refuse: "all_refuse (handlers D)"
  by (rule all_refuse_by[OF handlers_arities])
    (simp add: handlers_def Let_def refuses_settings refuses_commands refuses_others)

lemma config_handlers_arities: "map (\<lambda>n. (arity n, n \<in> set (any_arguments @ outside))) (map fst (config_handlers D)) =
    [(Some (exactly 1), False), (None, True), (None, True), (Some (exactly 1), False),
     (Some (at_least 1), False), (Some (at_least 1), False), (Some (exactly 1), False),
     (Some (exactly 1), False)]"
  by (simp only: config_handlers_def Let_def list.map fst_conv) code_simp

lemma config_handlers_refuse: "all_refuse (config_handlers D)"
  by (rule all_refuse_by[OF config_handlers_arities])
    (simp add: config_handlers_def Let_def refuses_settings refuses_commands refuses_others)

lemma command_handlers_arities: "map (\<lambda>n. (arity n, n \<in> set (any_arguments @ outside))) (map fst (command_handlers D)) =
    [(Some (at_least 1), False), (Some (at_least 1), False), (None, True), (None, True), (None, True),
     (None, True), (Some (exactly 0), False), (Some (exactly 1), False), (Some (at_most 2), False),
     (None, True), (None, True), (Some (at_least 1), False), (Some (at_least 1), False),
     (Some (at_least 1), False), (None, True), (None, True), (Some (at_least 1), False), (None, True),
     (Some (at_least 2), False), (Some (exactly 0), False), (None, True), (None, True),
     (Some (at_least 3), False), (Some (at_least 2), False), (Some (exactly 1), False),
     (Some (exactly 1), False), (Some (exactly 1), False), (Some (exactly 0), False),
     (Some (exactly 0), False), (Some (exactly 0), False), (Some (exactly 1), False), (None, True),
     (None, True), (Some (at_least 1), False), (None, True), (Some (exactly 1), False)]"
  by (simp only: command_handlers_def Let_def list.map fst_conv) code_simp

lemma command_handlers_refuse: "all_refuse (command_handlers D)"
  by (rule all_refuse_by[OF command_handlers_arities])
    (simp add: command_handlers_def Let_def refuses_settings refuses_commands refuses_others)

text \<open>
  C37. A command with the wrong number of arguments is refused. Whatever command the dispatch finds, when
  it is one of the 82 of the table arities and its number of arguments fails one of the checks listed
  there, its handler gives CMD_INVALID and leaves the state as it was; every other command is one of
  the 14 of any_arguments, which do not check the number first, or of the 9 of outside, which are parameters.
\<close>

theorem wrong_argument_count:
  assumes found: "find_core_handler D line s = Some (name, h)"
  shows "case arity name of
      None \<Rightarrow> name \<in> set any_arguments \<or> name \<in> set outside
    | Some checks \<Rightarrow>
        list_ex (\<lambda>(type, val). checkarg (int (length argv)) name type val \<noteq> None) checks
          \<longrightarrow> (\<exists>e. h x argv t = Some (e, t) \<and> status e = CMD_INVALID)"
proof -
  have "(name, h) \<in> set (handlers D @ config_handlers D @ command_handlers D)"
    using find_in_set[OF found[unfolded find_core_handler_search]] by (auto simp: tables_def split: if_splits)
  then have r: "case arity name of None \<Rightarrow> name \<in> set (any_arguments @ outside)
      | Some checks \<Rightarrow> list_all (\<lambda>(type, val). refuses type val h) checks"
    using handlers_refuse[of D] config_handlers_refuse[of D] command_handlers_refuse[of D]
    unfolding all_refuse_def list_all_iff by fastforce
  show ?thesis
  proof (cases "arity name")
    case (Some checks)
    have "\<exists>e. h x argv t = Some (e, t) \<and> status e = CMD_INVALID"
      if wrong: "(type, val) \<in> set checks" "checkarg (int (length argv)) name type val \<noteq> None" for type val
      using r wrong checkarg_name[of _ name type val "[]"] by (auto simp: Some list_all_iff refuses_def)
    then show ?thesis by (auto simp: Some list_ex_iff)
  qed (use r in simp)
qed

text \<open>A dispatch over the environment of Sample, without symbols or other commands.\<close>

definition sample_dispatch :: dispatch where
  "sample_dispatch = \<lparr>d_ctx = \<lparr>h_env = sample_env, h_matcher = any_matcher, h_node = None, h_container = None,
       h_workspace = None, h_overridden = False, h_run = (\<lambda>_ _ s. s), h_font = (\<lambda>_. (True, 10, 12)), h_fork = True\<rparr>,
     d_symbols = \<lparr>x_keysym_from_name = (\<lambda>_. 0), x_keysym_of = (\<lambda>_. 0), x_keycodes = [],
       x_button_code = (\<lambda>_. None), x_button_name = (\<lambda>_. None)\<rparr>,
     d_mods = 0, d_refocus = 2, d_other = (\<lambda>_ _ _ s. Some (ok s)), d_under = (\<lambda>_ _. None)\<rparr>"

lemma sample_phase: "op_reading (cfg_opts (cfg sample)) = False" "op_active (cfg_opts (cfg sample)) = False"
  by (simp_all add: sample_defs default_options_def)

lemma sample_finds:
  "(name, h) \<in> set (handlers sample_dispatch) \<Longrightarrow> str_caseeq line name
     \<Longrightarrow> find_core_handler sample_dispatch line sample = Some (name, h)"
  using find_handler_member[OF handlers_alphabetized]
  by (simp add: find_core_handler_def find_handler_ex_def sample_phase)

lemma wrong_argument_count_witness:
  "\<exists>e. total_handler cmd_set (d_ctx sample_dispatch) [''$a''] sample = Some (e, sample) \<and> status e = CMD_INVALID"
proof -
  have "find_core_handler sample_dispatch ''SET'' sample = Some (''set'', total_handler cmd_set)"
    by (rule sample_finds, simp add: handlers_def Let_def, code_simp)
  note w = wrong_argument_count[OF this, of "[''$a'']" "d_ctx sample_dispatch" sample]
  have "arity ''set'' = Some (at_least 2)" "checkarg 1 ''set'' EXPECTED_AT_LEAST 2 \<noteq> None" by code_simp+
  then show ?thesis using w by simp
qed

section \<open>Every list of commands is read to its end\<close>

lemma argsep_rest: "argsep s delim = (tok, Some rest, c) \<Longrightarrow> length rest < length s"
  using argsep_loop_spec[of s delim 0 0 False False False]
  by (auto simp: argsep_def split: prod.splits option.splits)

lemma take_criteria_rest: "take_criteria x head s = Inl (cs, rest) \<Longrightarrow> length rest \<le> length head"
  by (auto simp: take_criteria_def intro!: order_trans[OF length_dropWhile_le] split: sum.splits if_splits)

lemma one_command_rest:
  "one_command D x k con cs cmd rest res s = Some (res', s', Some rest') \<Longrightarrow> rest = Some rest'"
  by (auto simp: one_command_def Let_def split: if_splits option.splits prod.splits)

definition stopped :: "cmd_results list \<Rightarrow> bool" where
  "stopped res \<longleftrightarrow> res \<noteq> [] \<and> status (last res) = CMD_INVALID"

lemma one_command_refused:
  "one_command D x k con cs cmd (Some rest) res s = Some (res', t, None) \<Longrightarrow> stopped res'"
  by (auto simp: one_command_def Let_def stopped_def invalid_def cmd_results_new_def split: if_splits option.splits)

text \<open>
  The loop of execute_command as steps, without a bound on their number. Its state is the text left, the
  separator before it, the containers the criteria chose, the results and the state of the program. A
  round that is not the last takes a command and the separator behind it off the text.
\<close>

type_synonym loop_state = "string \<times> char \<times> id list option \<times> cmd_results list \<times> sway"

definition read_criteria :: "ctx \<Rightarrow> loop_state \<Rightarrow> (id list option \<times> string) + string" where
  "read_criteria x st =
     (case st of (head, delim, cs, res, s) \<Rightarrow>
        if delim = CHR '';'' then take_criteria x (dropWhile is_ws head) s else Inl (cs, dropWhile is_ws head))"

inductive next_round :: "dispatch \<Rightarrow> ctx \<Rightarrow> nat \<Rightarrow> id option \<Rightarrow> loop_state \<Rightarrow> loop_state \<Rightarrow> bool"
  for D :: dispatch and x :: ctx and k :: nat and con :: "id option" where
  goes_on: "read_criteria x (head, delim, cs, res, s) = Inl (cs', h) \<Longrightarrow> argsep h '';,'' = (cmd, Some rest, matched)
    \<Longrightarrow> one_command D x k con cs' (dropWhile is_ws cmd) (Some rest) res s = Some (res', t, Some rest)
    \<Longrightarrow> next_round D x k con (head, delim, cs, res, s) (rest, matched, cs', res', t)"

text \<open>The last round: there are four ways out.\<close>

inductive last_round :: "dispatch \<Rightarrow> ctx \<Rightarrow> nat \<Rightarrow> id option \<Rightarrow> loop_state \<Rightarrow> (cmd_results list \<times> sway) option \<Rightarrow> bool"
  for D :: dispatch and x :: ctx and k :: nat and con :: "id option" where
  text_used_up: "read_criteria x (head, delim, cs, res, s) = Inl (cs', h) \<Longrightarrow> argsep h '';,'' = (cmd, None, matched)
    \<Longrightarrow> one_command D x k con cs' (dropWhile is_ws cmd) None res s = Some (res', t, None)
    \<Longrightarrow> last_round D x k con (head, delim, cs, res, s) (Some (res', t))"
| command_refused: "read_criteria x (head, delim, cs, res, s) = Inl (cs', h) \<Longrightarrow> argsep h '';,'' = (cmd, Some rest, matched)
    \<Longrightarrow> one_command D x k con cs' (dropWhile is_ws cmd) (Some rest) res s = Some (res', t, None) \<Longrightarrow> stopped res'
    \<Longrightarrow> last_round D x k con (head, delim, cs, res, s) (Some (res', t))"
| criteria_refused: "read_criteria x (head, delim, cs, res, s) = Inr err
    \<Longrightarrow> last_round D x k con (head, delim, cs, res, s) (Some (res @ [fst (invalid err s)], s))"
| null_pointer: "read_criteria x (head, delim, cs, res, s) = Inl (cs', h) \<Longrightarrow> argsep h '';,'' = (cmd, rest, matched)
    \<Longrightarrow> one_command D x k con cs' (dropWhile is_ws cmd) rest res s = None
    \<Longrightarrow> last_round D x k con (head, delim, cs, res, s) None"

text \<open>One unfolding of the loop is one round.\<close>

lemma command_loop_unfold:
  "command_loop (Suc n) D x k con head delim cs res s =
     (case read_criteria x (head, delim, cs, res, s) of
        Inr err \<Rightarrow> Some (res @ [fst (invalid err s)], s)
      | Inl (cs', h) \<Rightarrow>
          (case argsep h '';,'' of (cmd, rest, matched) \<Rightarrow>
             (case one_command D x k con cs' (dropWhile is_ws cmd) rest res s of
                None \<Rightarrow> None | Some (res', t, None) \<Rightarrow> Some (res', t)
              | Some (res', t, Some rest') \<Rightarrow> command_loop n D x k con rest' matched cs' res' t)))"
  by (simp add: read_criteria_def Let_def)

declare command_loop.simps(2) [simp del]

lemma round_shorter:
  assumes "read_criteria x (head, delim, cs, res, s) = Inl (cs', h)" "argsep h '';,'' = (cmd, Some rest, matched)"
  shows "length rest < length head"
proof -
  have "length h \<le> length head"
    using assms(1) take_criteria_rest[of x "dropWhile is_ws head" s cs' h] length_dropWhile_le[of is_ws head]
    by (auto simp: read_criteria_def split: if_splits)
  then show ?thesis using argsep_rest[OF assms(2)] by simp
qed

lemma loop_reads:
  "length head < n \<Longrightarrow> command_loop n D x k con head delim cs res s = out \<Longrightarrow>
   \<exists>st. (next_round D x k con)\<^sup>*\<^sup>* (head, delim, cs, res, s) st \<and> last_round D x k con st out"
proof (induction n arbitrary: head delim cs res s)
  case (Suc n)
  let ?st = "(head, delim, cs, res, s)"
  show ?case
  proof (cases "read_criteria x ?st")
    case (Inr err)
    then have "last_round D x k con ?st out" using Suc.prems(2) criteria_refused by (auto simp: command_loop_unfold)
    then show ?thesis by blast
  next
    case (Inl p)
    obtain cs' h where c: "read_criteria x ?st = Inl (cs', h)" using Inl by (cases p) auto
    obtain cmd rest matched where a: "argsep h '';,'' = (cmd, rest, matched)" by (cases "argsep h '';,''") auto
    let ?one = "one_command D x k con cs' (dropWhile is_ws cmd) rest res s"
    consider "?one = None" | res' t where "?one = Some (res', t, None)" | res' t rest' where "?one = Some (res', t, Some rest')"
      by (cases ?one) (auto, metis option.exhaust)
    then show ?thesis
    proof cases
      case 1
      then have "last_round D x k con ?st out" using Suc.prems(2) null_pointer[OF c a] by (simp add: command_loop_unfold c a)
      then show ?thesis by blast
    next
      case 2
      then have "last_round D x k con ?st out" using Suc.prems(2) a text_used_up[OF c] command_refused[OF c] one_command_refused
        by (cases rest) (auto simp: command_loop_unfold c)
      then show ?thesis by blast
    next
      case 3
      have r: "rest = Some rest'" using one_command_rest[OF 3] .
      have loop: "command_loop n D x k con rest' matched cs' res' t = out"
        using Suc.prems(2) by (simp add: command_loop_unfold c a 3)
      have "length rest' < n" using round_shorter[OF c a[unfolded r]] Suc.prems(1) by simp
      then obtain st where st: "(next_round D x k con)\<^sup>*\<^sup>* (rest', matched, cs', res', t) st" "last_round D x k con st out"
        using Suc.IH[OF _ loop] by blast
      have "next_round D x k con ?st (rest', matched, cs', res', t)" using goes_on[OF c a[unfolded r]] 3 r by simp
      then show ?thesis using converse_rtranclp_into_rtranclp[of "next_round D x k con"] st by blast
    qed
  qed
qed simp

lemma last_round_loop:
  "last_round D x k con (head, delim, cs, res, s) out \<Longrightarrow> command_loop (Suc n) D x k con head delim cs res s = out"
  by (cases rule: last_round.cases, assumption) (simp_all add: command_loop_unfold)

lemma next_round_loop:
  "next_round D x k con (head, delim, cs, res, s) (rest, matched, cs', res', t) \<Longrightarrow>
   command_loop (Suc n) D x k con head delim cs res s = command_loop n D x k con rest matched cs' res' t
   \<and> length rest < length head"
  by (cases rule: next_round.cases, assumption) (auto simp: command_loop_unfold round_shorter)

lemma rounds_loop:
  "(next_round D x k con)\<^sup>*\<^sup>* st st' \<Longrightarrow> last_round D x k con st' out \<Longrightarrow> st = (head, delim, cs, res, s) \<Longrightarrow>
   length head < n \<Longrightarrow> command_loop n D x k con head delim cs res s = out"
proof (induction arbitrary: head delim cs res s n rule: converse_rtranclp_induct)
  case base
  then show ?case using last_round_loop by (cases n) auto
next
  case (step st st1)
  obtain rest matched cs' res' t where st1: "st1 = (rest, matched, cs', res', t)" by (cases st1)
  obtain m where n: "n = Suc m" using step.prems(3) by (cases n) auto
  note l = next_round_loop[OF step.hyps(1)[unfolded step.prems(2) st1], of m]
  then have "length rest < m" using step.prems(3) n by simp
  then show ?case using step.IH[OF step.prems(1) st1] l n by simp
qed

declare command_loop.simps(2) [simp]

lemma command_loop_rounds:
  "length head < n \<Longrightarrow> command_loop n D x k con head delim cs res s = out \<longleftrightarrow>
     (\<exists>st. (next_round D x k con)\<^sup>*\<^sup>* (head, delim, cs, res, s) st \<and> last_round D x k con st out)"
proof (intro iffI)
  assume "length head < n" "command_loop n D x k con head delim cs res s = out"
  then show "\<exists>st. (next_round D x k con)\<^sup>*\<^sup>* (head, delim, cs, res, s) st \<and> last_round D x k con st out"
    by (rule loop_reads)
next
  assume "length head < n" "\<exists>st. (next_round D x k con)\<^sup>*\<^sup>* (head, delim, cs, res, s) st \<and> last_round D x k con st out"
  then show "command_loop n D x k con head delim cs res s = out" by (elim exE conjE) (rule rounds_loop[OF _ _ refl])
qed

lemma command_loop_fuel:
  "length head < n \<Longrightarrow> length head < m \<Longrightarrow>
   command_loop n D x k con head delim cs res s = command_loop m D x k con head delim cs res s"
proof -
  assume "length head < n" "length head < m"
  note r = command_loop_rounds[OF this(1)] command_loop_rounds[OF this(2)]
  show ?thesis using r(1)[THEN iffD2, OF r(2)[THEN iffD1, OF refl]] .
qed

text \<open>
  C39. execute_command reads every text to its end: it comes to a result, and the result is that of
  rounds run one after the other, without a bound on their number, from the whole text to a last
  round. A last round is one where the text is used up, one with a command or criteria that are
  refused (CMD_INVALID), or one with a null pointer; each other round takes a command off the text.
\<close>

theorem execute_command_reads_to_the_end:
  "execute_with run D exec seat con s = out \<longleftrightarrow>
     (let k = (case seat of Some k \<Rightarrow> k | None \<Rightarrow> default_seat_index s);
          x = (d_ctx D)\<lparr>h_env := with_focus (d_refocus D) ((h_env (d_ctx D))\<lparr>e_seat := Some k\<rparr>), h_run := run\<rparr> in
      \<exists>st. (next_round D x k con)\<^sup>*\<^sup>* (exec, CHR '';'', None, [], s) st \<and> last_round D x k con st out)"
  unfolding execute_with_def Let_def by (rule command_loop_rounds) simp

section \<open>Commands one after the other\<close>

lemma one_command_results:
  "one_command D x k con cs cmd rest (res @ res') s =
     map_option (\<lambda>(r, t, rest). (res @ r, t, rest)) (one_command D x k con cs cmd rest res' s)"
  by (auto simp: one_command_def Let_def option.map_comp comp_def split_def split: option.split)

lemma command_loop_results:
  "command_loop n D x k con head delim cs (res @ res') s =
     map_option (\<lambda>(r, t). (res @ r, t)) (command_loop n D x k con head delim cs res' s)"
proof (induction n arbitrary: head delim cs res' s)
  case (Suc n)
  show ?case
    by (simp add: Let_def one_command_results Suc split_def option.map_comp comp_def split: sum.split option.split)
qed simp

text \<open>A command without separators, quotes and backslashes is what argsep takes first.\<close>

definition plain_command :: "string \<Rightarrow> bool" where
  "plain_command c \<longleftrightarrow> set c \<inter> {CHR '';'', CHR '','', DQ, SQ, BSL} = {} \<and> dropWhile is_ws c \<noteq> []
     \<and> hd (dropWhile is_ws c) \<noteq> CHR ''[''"

lemma next_interesting_plain:
  assumes "set c \<inter> {CHR '';'', CHR '','', DQ, SQ, BSL} = {}"
  shows "argsep_next_interesting (c @ CHR '';'' # d) 0 '';,'' = Some (length c)" "argsep_next_interesting c 0 '';,'' = None"
proof -
  have none: "str_pbrk c acc i = None" if "set c \<inter> set acc = {}" for acc i
    using that by (induction c arbitrary: i) auto
  have step: "str_pbrk (c @ e) acc i = str_pbrk e acc (i + length c)" if "set c \<inter> set acc = {}" for acc i e
    using that by (induction c arbitrary: i) auto
  have dq: "set c \<inter> set [DQ, SQ, BSL] = {}" and sep: "set c \<inter> set '';,'' = {}" using assms by auto
  have later: "length c < q" if "str_pbrk (CHR '';'' # d) [DQ, SQ, BSL] (length c) = Some q" for q
    using that by (auto simp: chr_defs dest!: str_pbrk_Some split: if_splits)
  show "argsep_next_interesting (c @ CHR '';'' # d) 0 '';,'' = Some (length c)"
    using later unfolding argsep_next_interesting_def strpbrk_def drop_0 step[OF dq] step[OF sep]
    by (auto simp: chr_defs Let_def split: option.split)
  show "argsep_next_interesting c 0 '';,'' = None"
    by (simp add: argsep_next_interesting_def strpbrk_def none[OF dq] none[OF sep])
qed

lemma argsep_plain:
  assumes "set c \<inter> {CHR '';'', CHR '','', DQ, SQ, BSL} = {}" "c \<noteq> []"
  shows "argsep (c @ CHR '';'' # d) '';,'' = (c, Some d, CHR '';'')" "argsep c '';,'' = (c, None, NUL)"
  using assms(2) next_interesting_plain[OF assms(1)]
  by (simp_all add: argsep_def argsep_loop.simps[of _ _ 0 0] chr_defs nth_append)

lemma one_command_stop:
  "one_command D x k con cs cmd (Some d) [] s =
     map_option (\<lambda>(r, t, _). (r, t, if stopped r then None else Some d)) (one_command D x k con cs cmd None [] s)"
  by (auto simp: one_command_def Let_def option.map_comp comp_def split_def stopped_def invalid_def cmd_results_new_def
    split: option.split)



section \<open>layout toggle\<close>

lemma cycle_to:
  "i \<le> cur \<Longrightarrow> cur \<le> length argv \<Longrightarrow> \<exists>l. layout_cycle named argv cur i = Some l"
proof (induction "cur - i" arbitrary: i)
  case 0
  then show ?case by (subst layout_cycle.simps) auto
next
  case (Suc n)
  then have "\<exists>l. layout_cycle named argv cur (i + 1) = Some l" by (intro Suc(1)) auto
  moreover have "i < length argv" using Suc by simp
  ultimately show ?case by (subst layout_cycle.simps) (auto simp: Let_def split: option.split)
qed

text \<open>From behind the current word the search goes round, to the current word itself at the latest.\<close>

lemma cycle_round:
  assumes cur: "0 < cur" "cur \<le> length argv" "cur = 1 \<longrightarrow> named (argv ! 1) \<noteq> None"
  shows "cur < i \<Longrightarrow> \<exists>l. layout_cycle named argv cur i = Some l"
proof (induction "length argv - i" arbitrary: i)
  case 0
  have "cur \<noteq> 1 \<Longrightarrow> \<exists>l. layout_cycle named argv cur 2 = Some l" using cur by (intro cycle_to) auto
  then show ?case using 0 cur
    by (subst layout_cycle.simps) (cases "cur = 1"; auto simp: Let_def numeral_2_eq_2 split: option.split)
next
  case (Suc n)
  then have "\<exists>l. layout_cycle named argv cur (i + 1) = Some l" by (intro Suc(1)) auto
  then show ?case using Suc by (subst layout_cycle.simps) (auto simp: Let_def split: option.split)
qed

text \<open>
  C40. layout toggle comes to a layout: for a list of words of any length and content, the search for the
  next layout ends when the current layout is one that layout can set.
\<close>

theorem layout_toggle_ends:
  assumes layout: "layout \<noteq> L_NONE" and argv: "argv \<noteq> []"
  shows "\<exists>l. get_layout_toggle s argv layout prev output = Some l"
proof -
  let ?named = "layout_named (toggle_split_layout s layout prev output)"
  let ?found = "List.find (\<lambda>i. is_current_layout layout (argv ! i)) [1..<length argv]"
  define cur where "cur = (case ?found of Some i \<Rightarrow> i | None \<Rightarrow> length argv)"
  have "\<exists>l. layout_cycle ?named argv cur (cur + 1) = Some l" if "length argv \<noteq> 1"
  proof (rule cycle_round)
    have "cur = length argv \<or> cur \<in> set [1..<length argv] \<and> is_current_layout layout (argv ! cur)"
      using find_in_set[of _ "[1..<length argv]"] by (auto simp: cur_def split: option.split)
    moreover have "1 < length argv" using that argv by (cases argv) auto
    ultimately show "0 < cur" "cur \<le> length argv" "cur = 1 \<longrightarrow> ?named (argv ! 1) \<noteq> None"
      using layout by (auto simp: is_current_layout_def layout_named_def)
  qed simp
  then show ?thesis by (auto simp: get_layout_toggle_def Let_def cur_def)
qed

lemma layout_toggle_ends_witness:
  "\<exists>l. get_layout_toggle sample [''toggle'', ''tabbed'', ''splith'', ''other''] L_TABBED L_HORIZ None = Some l"
  by (rule layout_toggle_ends) simp_all

end
