(* ===== verification/Config_Read.thy ===== *)
theory Config_Read
  imports Dispatch
begin

text \<open>
  Reading a configuration (sway/config.c read_config, sway/commands.c config_command), deferred
  commands, and commands run for a binding (sway/commands/bind.c seat_execute_command). A file is
  the list of its lines, each with its line feed but perhaps the last.
\<close>

section \<open>One line of a configuration\<close>

definition starts_with_dollar :: "string \<Rightarrow> bool" where
  "starts_with_dollar a \<longleftrightarrow> a \<noteq> [] \<and> hd a = CHR ''$''"

definition keeps_quotes :: "string list" where
  "keeps_quotes = [''exec'', ''exec_always'', ''mode'', ''bindsym'', ''bindcode'', ''bindswitch'', ''bindgesture'',
     ''set'', ''for_window'']"

text \<open>Quotes go and escapes are read from the first argument on, for set from the second; None is a
  read past the end of an argument.\<close>

fun unescape_args :: "bool \<Rightarrow> string list \<Rightarrow> string list option" where
  "unescape_args strip [] = Some []"
| "unescape_args strip (a # as) =
     (case unescape_string (if strip \<and> is_quoted a then strip_quotes a else a) of None \<Rightarrow> None
      | Some (b, _) \<Rightarrow> map_option (Cons b) (unescape_args strip as))"

definition config_words :: "string \<Rightarrow> string list \<Rightarrow> string list option" where
  "config_words handler_name argv =
     (let k = (if handler_name = ''set'' then 2 else 1) in
      map_option (\<lambda>as. take k argv @ as) (unescape_args (handler_name \<notin> set keeps_quotes) (drop k argv)))"

text \<open>The variables of the whole line are replaced, but not the one that set names.\<close>

definition config_replaced :: "string \<Rightarrow> sway \<Rightarrow> string list \<Rightarrow> string list" where
  "config_replaced handler_name s argv =
     (let argv = (if handler_name = ''set'' \<and> length argv > 1 \<and> starts_with_dollar (argv ! 1)
                  then argv[1 := CHR ''$'' # argv ! 1] else argv) in
      split_args (Some (do_var_replacement (cfg_symbols (cfg s)) (joined argv))))"

definition run_config_words :: "dispatch \<Rightarrow> ctx \<Rightarrow> string list \<Rightarrow> sway \<Rightarrow> (cmd_results \<times> string option \<times> sway) option" where
  "run_config_words D x argv s =
     (case find_core_handler D (hd argv) s of
        None \<Rightarrow> Some (fst (invalid (''Unknown/invalid command '' @ hd argv) s), None, s)
      | Some (name, h) \<Rightarrow>
          (case config_words name (config_replaced name s argv) of None \<Rightarrow> None
           | Some argv \<Rightarrow> map_option (\<lambda>(r, s). (r, None, s)) (h x (tl argv) s)))"

definition config_command :: "dispatch \<Rightarrow> ctx \<Rightarrow> string \<Rightarrow> sway \<Rightarrow> (cmd_results \<times> string option \<times> sway) option" where
  "config_command D x exec s =
     (let argv = split_args (Some exec); result = (\<lambda>st. Some (cmd_results_new st None, None, s)) in
      if argv = [] then result CMD_SUCCESS
      else if length argv > 1 \<and> last argv = ''{''
      then Some (cmd_results_new CMD_BLOCK None, join_args (butlast argv), s)
      else if last argv = ''}'' then result CMD_BLOCK_END
      else if starts_with_dollar (hd argv)
      then (let argv = split_args (join_args (do_var_replacement (cfg_symbols (cfg s)) (hd argv) # tl argv)) in
            if argv = [] then result CMD_SUCCESS else run_config_words D x argv s)
      else run_config_words D x argv s)"

text \<open>find_handler with no table finds nothing, so every command but * is refused.\<close>

definition config_commands_command :: "string \<Rightarrow> cmd_results" where
  "config_commands_command exec =
     (case split_args (Some exec) of
        [] \<Rightarrow> cmd_results_new CMD_SUCCESS None
      | cmd # _ \<Rightarrow>
          if cmd = ''}'' then cmd_results_new CMD_BLOCK_END None
          else if find_handler cmd ([] :: (string \<times> ohandler) list) = None \<and> cmd \<noteq> ''*''
          then cmd_results_new CMD_INVALID (Some (''Unknown/invalid command '' @ cmd))
          else cmd_results_new CMD_SUCCESS None)"

section \<open>Lines\<close>

definition NL :: char where "NL = CHR 0x0A"

definition ends_with_backslash :: "string \<Rightarrow> bool" where
  "ends_with_backslash l \<longleftrightarrow> length l \<ge> 2 \<and> drop (length l - 2) l = [BSL, NL]"

text \<open>getline_with_cont: a line that ends in a backslash goes on in the next, unless it is a comment.\<close>

fun join_lines :: "string \<Rightarrow> string list \<Rightarrow> nat \<Rightarrow> string \<times> nat \<times> string list" where
  "join_lines l [] n = (l, n, [])"
| "join_lines l (m # ms) n =
     (if ends_with_backslash l \<and> hd l \<noteq> CHR ''#''
      then join_lines (take (length l - 2) l @ m) ms (n + 1)
      else (l, n, m # ms))"

definition getline_with_cont :: "string list \<Rightarrow> (string \<times> nat \<times> string list) option" where
  "getline_with_cont file = (case file of [] \<Rightarrow> None | l # ls \<Rightarrow> Some (join_lines l ls 1))"

definition stripped :: "string \<Rightarrow> string" where
  "stripped l = (case strip_whitespace l of Some t \<Rightarrow> t | None \<Rightarrow> [])"

text \<open>detect_brace: the lines up to a line that is only an opening brace, when that is the next
  line with text; 0 when it is not, and then nothing is read.\<close>

fun detect_brace_from :: "string list \<Rightarrow> nat \<Rightarrow> nat" where
  "detect_brace_from [] n = 0"
| "detect_brace_from (l # ls) n =
     (if stripped l = [] then detect_brace_from ls (n + 1)
      else if stripped l = ''{'' then n + 1 else 0)"

definition detect_brace :: "string list \<Rightarrow> nat \<times> string list" where
  "detect_brace file = (let n = detect_brace_from file 0 in (n, drop n file))"

definition expand_line :: "string option \<Rightarrow> string \<Rightarrow> bool \<Rightarrow> string" where
  "expand_line block line add_brace =
     (case block of None \<Rightarrow> [] | Some b \<Rightarrow> b @ '' '') @ line @ (if add_brace then '' {'' else [])"

section \<open>read_config\<close>

text \<open>
  What the reader keeps between lines: whether all went well, the open blocks, the deferred commands
  and the handler context, which the end of a block clears. The bar that a block configures and the
  text kept for IPC are not modelled.
\<close>

record reader =
  rd_success :: bool
  rd_stack :: "string list"
  rd_queue :: "string list"

definition reader_zero :: reader where
  "reader_zero = \<lparr>rd_success = True, rd_stack = [], rd_queue = []\<rparr>"

definition read_result :: "cmd_status \<Rightarrow> string option \<Rightarrow> string \<Rightarrow> reader \<Rightarrow> reader" where
  "read_result st new_block expanded r =
     (case st of
        CMD_FAILURE \<Rightarrow> r\<lparr>rd_success := False\<rparr>
      | CMD_INVALID \<Rightarrow> r\<lparr>rd_success := False\<rparr>
      | CMD_DEFER \<Rightarrow> r\<lparr>rd_queue := rd_queue r @ [expanded]\<rparr>
      | CMD_BLOCK_COMMANDS \<Rightarrow> r\<lparr>rd_stack := ''<commands>'' # rd_stack r\<rparr>
      | CMD_BLOCK \<Rightarrow> r\<lparr>rd_stack := (case new_block of Some b \<Rightarrow> b | None \<Rightarrow> []) # rd_stack r\<rparr>
      | CMD_BLOCK_END \<Rightarrow>
          (case rd_stack r of [] \<Rightarrow> r\<lparr>rd_success := False\<rparr> | _ # st \<Rightarrow> r\<lparr>rd_stack := st\<rparr>)
      | CMD_SUCCESS \<Rightarrow> r)"

definition block_of :: "reader \<Rightarrow> string option" where
  "block_of r = (case rd_stack r of [] \<Rightarrow> None | b # _ \<Rightarrow> Some b)"

definition read_line :: "dispatch \<Rightarrow> ctx \<Rightarrow> string \<Rightarrow> reader \<Rightarrow> sway \<Rightarrow> (reader \<times> sway) option" where
  "read_line D x expanded r s =
     (if block_of r = Some ''<commands>''
      then Some (read_result (status (config_commands_command expanded)) None expanded r, s)
      else map_option (\<lambda>(res, new_block, s). (read_result (status res) new_block expanded r, s))
             (config_command D x expanded s))"

definition without_newline :: "string \<Rightarrow> string" where
  "without_newline l = (if l \<noteq> [] \<and> last l = NL then butlast l else l)"

text \<open>One line that is not empty and not a comment; the brace of a block may be on a later line.\<close>

definition expanded_line :: "string \<Rightarrow> reader \<Rightarrow> string list \<Rightarrow> string \<times> string list" where
  "expanded_line line r file =
     (if last line \<noteq> CHR ''{'' \<and> last line \<noteq> CHR ''}''
      then (case detect_brace file of (n, file) \<Rightarrow> (expand_line (block_of r) line (n > 0), file))
      else (expand_line (block_of r) line False, file))"

fun read_loop :: "nat \<Rightarrow> dispatch \<Rightarrow> ctx \<Rightarrow> string list \<Rightarrow> reader \<Rightarrow> sway \<Rightarrow> (reader \<times> sway) option" where
  "read_loop 0 D x file r s = Some (r, s)"
| "read_loop (Suc n) D x file r s =
     (case getline_with_cont file of None \<Rightarrow> Some (r, s)
      | Some (l, _, file) \<Rightarrow>
          (let line = stripped (without_newline l) in
           if line = [] \<or> hd line = CHR ''#'' then read_loop n D x file r s
           else case expanded_line line r file of (expanded, file) \<Rightarrow>
             (case read_line D x expanded r s of None \<Rightarrow> None
              | Some (r, s) \<Rightarrow> read_loop n D x file r s)))"

definition read_config :: "dispatch \<Rightarrow> ctx \<Rightarrow> string list \<Rightarrow> sway \<Rightarrow> (reader \<times> sway) option" where
  "read_config D x file s = read_loop (length file + 1) D x file reader_zero s"

section \<open>Commands of bindings and deferred commands\<close>

definition seat_execute_command :: "nat \<Rightarrow> dispatch \<Rightarrow> nat \<Rightarrow> sway_binding \<Rightarrow> sway \<Rightarrow> sway option" where
  "seat_execute_command d D k b s =
     (if \<not> op_active (cfg_opts (cfg s))
      then Some (upd_seat k (\<lambda>t. t\<lparr>s_deferred_bindings := s_deferred_bindings t @ [b]\<rparr>) s)
      else case bn_command b of None \<Rightarrow> None
      | Some cmd \<Rightarrow>
          map_option (\<lambda>(res, s). if list_all (\<lambda>r. status r = CMD_SUCCESS) res then emit (Ev_binding b) s else s)
            (execute_command d D cmd (Some k) (if is_mouse (bn_type b) then d_under D s k else None) s))"

fun run_deferred_commands :: "nat \<Rightarrow> dispatch \<Rightarrow> string list \<Rightarrow> sway \<Rightarrow> sway option" where
  "run_deferred_commands d D [] s = Some s"
| "run_deferred_commands d D (line # queue) s =
     (case execute_command d D line None None s of None \<Rightarrow> None
      | Some (_, s) \<Rightarrow> run_deferred_commands d D queue s)"

text \<open>
  The deferred bindings of one seat: each stays in the list while its command runs. A binding that is
  deferred again would never leave the loop, so the configuration is active when this is called.
\<close>

fun run_deferred_of :: "nat \<Rightarrow> nat \<Rightarrow> dispatch \<Rightarrow> nat \<Rightarrow> sway \<Rightarrow> sway option" where
  "run_deferred_of 0 d D k s = Some s"
| "run_deferred_of (Suc n) d D k s =
     (case s_deferred_bindings (seat_at s k) of [] \<Rightarrow> Some s
      | b # _ \<Rightarrow>
          (case seat_execute_command d D k b s of None \<Rightarrow> None
           | Some s \<Rightarrow> run_deferred_of n d D k (upd_seat k (\<lambda>t. t\<lparr>s_deferred_bindings := tl (s_deferred_bindings t)\<rparr>) s)))"

fun run_deferred_seats :: "nat \<Rightarrow> dispatch \<Rightarrow> nat list \<Rightarrow> sway \<Rightarrow> sway option" where
  "run_deferred_seats d D [] s = Some s"
| "run_deferred_seats d D (k # ks) s =
     (case run_deferred_of (length (s_deferred_bindings (seat_at s k))) d D k s of None \<Rightarrow> None
      | Some s \<Rightarrow> run_deferred_seats d D ks s)"

definition run_deferred_bindings :: "nat \<Rightarrow> dispatch \<Rightarrow> sway \<Rightarrow> sway option" where
  "run_deferred_bindings d D s = run_deferred_seats d D [0..<length (seats s)] s"

section \<open>Translating bindings to key codes\<close>

text \<open>translate_binding_list: the translated bindings of both lists sorted out again by type.\<close>

definition file_translated :: "symbols \<Rightarrow> sway_binding \<Rightarrow> sway_binding list \<times> sway_binding list \<Rightarrow> sway_binding list \<times> sway_binding list" where
  "file_translated X b = (\<lambda>(bindsyms, bindcodes).
     (case translate_binding X b of (_, b) \<Rightarrow>
        if bn_type b = BINDING_KEYSYM then (binding_add_translated b bindsyms, bindcodes)
        else if bn_type b = BINDING_KEYCODE then (bindsyms, binding_add_translated b bindcodes)
        else (bindsyms, bindcodes)))"

definition translate_mode :: "symbols \<Rightarrow> sway_mode \<Rightarrow> sway_mode" where
  "translate_mode X m =
     (case fold (file_translated X) (md_keycode_bindings m)
             (fold (file_translated X) (md_keysym_bindings m) ([], [])) of
        (bindsyms, bindcodes) \<Rightarrow> m\<lparr>md_keysym_bindings := bindsyms, md_keycode_bindings := bindcodes\<rparr>)"

text \<open>The keymap for the translation is taken to compile; translate_keysyms changes nothing when it does not.\<close>

definition translate_keysyms :: "symbols \<Rightarrow> sway \<Rightarrow> sway" where
  "translate_keysyms X s = upd_opts (\<lambda>p. p\<lparr>op_modes := map (translate_mode X) (op_modes p)\<rparr>) s"

end
