(* ===== verification/Keyboard.thy ===== *)
theory Keyboard
  imports Config_Read
begin

unbundle bit_operations_syntax

text \<open>
  Key events (sway/input/keyboard.c): the keys that are down, the binding they select, and what
  becomes of an event. What xkbcommon and the seat of wlroots say at the time of the event is in
  record key_event.
\<close>

section \<open>The keys that are down\<close>

text \<open>
  The two parallel arrays of key ids and key codes up to npressed, a list of pairs. No key is 0.
\<close>

record shortcut_state =
  pressed :: "(32 word \<times> 32 word) list"
  last_keycode :: "32 word"
  last_raw_modifiers :: "32 word"
  current_key :: "32 word"

definition shortcut_zero :: shortcut_state where
  "shortcut_zero = \<lparr>pressed = [], last_keycode = 0, last_raw_modifiers = 0, current_key = 0\<rparr>"

definition PRESSED_KEYS_CAP :: nat where "PRESSED_KEYS_CAP = 32"

definition state_erase_key :: "32 word \<Rightarrow> shortcut_state \<Rightarrow> bool \<times> shortcut_state" where
  "state_erase_key keycode st =
     (keycode \<in> snd ` set (pressed st),
      st\<lparr>pressed := filter (\<lambda>p. snd p \<noteq> keycode) (pressed st), current_key := 0\<rparr>)"

definition state_add_key :: "32 word \<Rightarrow> 32 word \<Rightarrow> shortcut_state \<Rightarrow> shortcut_state" where
  "state_add_key keycode key_id st =
     (if length (pressed st) \<ge> PRESSED_KEYS_CAP then st
      else st\<lparr>pressed := takeWhile (\<lambda>p. fst p < key_id) (pressed st) @ (key_id, keycode)
                # dropWhile (\<lambda>p. fst p < key_id) (pressed st),
              current_key := key_id\<rparr>)"

definition update_shortcut_state ::
    "32 word \<Rightarrow> bool \<Rightarrow> 32 word \<Rightarrow> 32 word \<Rightarrow> shortcut_state \<Rightarrow> bool \<times> shortcut_state" where
  "update_shortcut_state keycode is_press new_key raw_modifiers st =
     (let was_modifier = (raw_modifiers \<noteq> last_raw_modifiers st);
          st = st\<lparr>last_raw_modifiers := raw_modifiers\<rparr>;
          st = (if was_modifier \<and> last_keycode st \<noteq> 0 then snd (state_erase_key (last_keycode st) st) else st) in
      if is_press then (False, (state_add_key keycode new_key st)\<lparr>last_keycode := keycode\<rparr>)
      else state_erase_key keycode st)"

section \<open>The active binding\<close>

text \<open>The situation a binding has to fit: modifiers, release, lock, inhibitor, device, group.\<close>

record situation =
  si_modifiers :: "32 word"
  si_release :: bool
  si_locked :: bool
  si_inhibited :: bool
  si_input :: string
  si_exact_input :: bool
  si_group :: "32 word"

definition has_flag_set :: "32 word \<Rightarrow> sway_binding \<Rightarrow> bool" where
  "has_flag_set f b \<longleftrightarrow> bn_flags b AND f \<noteq> 0"

definition binding_fits :: "situation \<Rightarrow> sway_binding \<Rightarrow> bool" where
  "binding_fits q b \<longleftrightarrow> si_modifiers q = bn_modifiers b \<and> si_release q = has_flag_set BINDING_RELEASE b
     \<and> (si_locked q \<longrightarrow> has_flag_set BINDING_LOCKED b) \<and> (si_inhibited q \<longrightarrow> has_flag_set BINDING_INHIBITED b)
     \<and> (bn_group b = XKB_LAYOUT_INVALID \<or> bn_group b = si_group q)
     \<and> (bn_input b = si_input q \<or> (bn_input b = ''*'' \<and> \<not> si_exact_input q))"

definition keys_match :: "shortcut_state \<Rightarrow> sway_binding \<Rightarrow> bool" where
  "keys_match st b \<longleftrightarrow>
     (if length (pressed st) = length (bn_keys b) then map fst (pressed st) = bn_keys b
      else length (bn_keys b) = 1 \<and> current_key st = hd (bn_keys b))"

text \<open>
  Whether a binding found before is kept. Two bindings of a table differ in bn_order, so equality
  of the records is equality of the pointers.
\<close>

definition keeps_current :: "situation \<Rightarrow> sway_binding \<Rightarrow> sway_binding \<Rightarrow> bool" where
  "keeps_current q cur b \<longleftrightarrow>
     (let cl = has_flag_set BINDING_LOCKED cur; ci = has_flag_set BINDING_INHIBITED cur;
          c_in = (bn_input cur = si_input q); cg = (bn_group cur \<noteq> XKB_LAYOUT_INVALID);
          b_in = (bn_input b = si_input q); bg = (bn_group b \<noteq> XKB_LAYOUT_INVALID);
          bl = has_flag_set BINDING_LOCKED b; bi = has_flag_set BINDING_INHIBITED b in
      cur = b
      \<or> (c_in = b_in \<and> cl = bl \<and> ci = bi \<and> cg = bg)
      \<or> (c_in \<and> \<not> b_in)
      \<or> (c_in = b_in \<and> bn_group cur = si_group q)
      \<or> (c_in = b_in \<and> cg = bg \<and> cl = si_locked q)
      \<or> (c_in = b_in \<and> cg = bg \<and> cl = bl \<and> ci = si_inhibited q))"

text \<open>
  A perfect match ends the search. The source compares the masked flag itself with the bool, so this
  happens only for a binding without the flags when nothing is locked or inhibited.
\<close>

definition perfect_match :: "situation \<Rightarrow> sway_binding \<Rightarrow> bool" where
  "perfect_match q b \<longleftrightarrow> bn_input b = si_input q
     \<and> bn_flags b AND BINDING_LOCKED = of_bool (si_locked q)
     \<and> bn_flags b AND BINDING_INHIBITED = of_bool (si_inhibited q) \<and> bn_group b = si_group q"

fun get_active_binding ::
    "shortcut_state \<Rightarrow> situation \<Rightarrow> sway_binding list \<Rightarrow> sway_binding option \<Rightarrow> sway_binding option" where
  "get_active_binding st q [] cur = cur"
| "get_active_binding st q (b # bs) cur =
     (if \<not> binding_fits q b \<or> \<not> keys_match st b
         \<or> (case cur of Some c \<Rightarrow> keeps_current q c b | None \<Rightarrow> False)
      then get_active_binding st q bs cur
      else if perfect_match q b then Some b
      else get_active_binding st q bs (Some b))"

section \<open>A keyboard\<close>

record keyboard =
  k_translated :: shortcut_state
  k_raw :: shortcut_state
  k_codes :: shortcut_state
  k_sent :: shortcut_state
  k_held :: "sway_binding option"
  k_repeat :: "sway_binding option"

definition keyboard_zero :: keyboard where
  "keyboard_zero = \<lparr>k_translated = shortcut_zero, k_raw = shortcut_zero, k_codes = shortcut_zero,
     k_sent = shortcut_zero, k_held = None, k_repeat = None\<rparr>"

text \<open>
  One key event and its surroundings: the key, the symbols and modifiers xkbcommon gives, whether the
  session is locked and shortcuts are inhibited, the device, whether it is in a group, its layout,
  whether keys repeat, whether the symbols move the pointer, whether a client has the keyboard, and
  whether an input method has grabbed it.
\<close>

record key_event =
  kv_keycode :: "32 word"
  kv_pressed :: bool
  kv_raw_keysyms :: "32 word list"
  kv_raw_modifiers :: "32 word"
  kv_translated_keysyms :: "32 word list"
  kv_translated_modifiers :: "32 word"
  kv_code_modifiers :: "32 word"
  kv_locked :: bool
  kv_inhibited :: bool
  kv_device :: string
  kv_grouped :: bool
  kv_layout :: "32 word"
  kv_repeats :: bool
  kv_moves_pointer :: bool
  kv_focused :: bool
  kv_grab :: bool

definition update_for_keys :: "key_event \<Rightarrow> 32 word list \<Rightarrow> shortcut_state \<Rightarrow> shortcut_state" where
  "update_for_keys v ks st =
     fold (\<lambda>k st. snd (update_shortcut_state (kv_keycode v) (kv_pressed v) k (kv_code_modifiers v) st)) ks st"

definition update_keyboard_state :: "key_event \<Rightarrow> keyboard \<Rightarrow> keyboard" where
  "update_keyboard_state v kb =
     kb\<lparr>k_codes := update_for_keys v [kv_keycode v + 8] (k_codes kb),
        k_raw := update_for_keys v (kv_raw_keysyms v) (k_raw kb),
        k_translated := update_for_keys v (kv_translated_keysyms v) (k_translated kb)\<rparr>"

definition situation_of :: "key_event \<Rightarrow> bool \<Rightarrow> 32 word \<Rightarrow> situation" where
  "situation_of v release mods = \<lparr>si_modifiers = mods, si_release = release, si_locked = kv_locked v,
     si_inhibited = kv_inhibited v, si_input = kv_device v, si_exact_input = kv_grouped v, si_group = kv_layout v\<rparr>"

definition find_binding :: "key_event \<Rightarrow> bool \<Rightarrow> keyboard \<Rightarrow> sway_mode \<Rightarrow> sway_binding option" where
  "find_binding v release kb m =
     get_active_binding (k_translated kb) (situation_of v release (kv_translated_modifiers v)) (md_keysym_bindings m)
       (get_active_binding (k_raw kb) (situation_of v release (kv_raw_modifiers v)) (md_keysym_bindings m)
         (get_active_binding (k_codes kb) (situation_of v release (kv_code_modifiers v)) (md_keycode_bindings m) None))"

text \<open>
  What becomes of the event: the keys of the overview and of bindings go nowhere else; the pair says
  whether a client and whether an input method was told.
\<close>

record key_result =
  kr_keyboard :: keyboard
  kr_handled :: bool
  kr_client :: bool
  kr_grab :: bool

text \<open>The keysyms of xkbcommon the overview looks for, and the bits of modifier keys.\<close>

definition overview_key_of :: "32 word \<Rightarrow> overview_key" where
  "overview_key_of ks =
     (if ks = 0xff09 then K_TAB else if ks = 0xfe20 then K_ISO_LEFT_TAB
      else if ks = 0xff0d then K_RETURN else if ks = 0xff8d then K_KP_ENTER
      else if 0x30 \<le> ks \<and> ks \<le> 0x39 then K_DIGIT (unat (ks - 0x30))
      else if 0xffb0 \<le> ks \<and> ks \<le> 0xffb9 then K_DIGIT (unat (ks - 0xffb0))
      else if ks = 0xff1b then K_ESCAPE else if ks = 0xff08 then K_BACKSPACE
      else if ks \<in> {0xffeb, 0xffec, 0xffe7, 0xffe8} then K_MODIFIER 64
      else if ks \<in> {0xffe9, 0xffea} then K_MODIFIER 8
      else if ks \<in> {0xffe3, 0xffe4} then K_MODIFIER 4
      else if ks \<in> {0xffe1, 0xffe2} then K_MODIFIER 1
      else if ks \<in> {0xffed, 0xffee} then K_MODIFIER 32
      else K_OTHER)"

definition overview_takes :: "env \<Rightarrow> key_event \<Rightarrow> sway \<Rightarrow> bool \<times> sway" where
  "overview_takes E v s =
     (if ov_active (overview s) \<and> kv_translated_keysyms v \<noteq> [] \<and> \<not> kv_grouped v
      then (let key = overview_key_of (hd (kv_translated_keysyms v)) in
            if kv_pressed v then overview_handle_key E (kv_code_modifiers v) key s
            else overview_handle_key_release E (kv_code_modifiers v) key s)
      else (False, s))"

text \<open>A held release binding runs when it is no longer the one the keys select.\<close>

definition run_released :: "nat \<Rightarrow> dispatch \<Rightarrow> nat \<Rightarrow> key_event \<Rightarrow> keyboard \<Rightarrow> sway \<Rightarrow> (bool \<times> keyboard \<times> sway) option" where
  "run_released d D k v kb s =
     (let found = find_binding v True kb (current_mode (cfg s));
          held = (if found \<noteq> k_held kb then None else k_held kb);
          held = (if found \<noteq> None \<and> kv_pressed v then found else held);
          kb' = kb\<lparr>k_held := held\<rparr> in
      case k_held kb of
        Some b \<Rightarrow>
          if found \<noteq> Some b \<and> \<not> kv_pressed v
          then map_option (\<lambda>s. (True, kb', s)) (seat_execute_command d D k b s)
          else Some (False, kb', s)
      | None \<Rightarrow> Some (False, kb', s))"

definition run_pressed :: "nat \<Rightarrow> dispatch \<Rightarrow> nat \<Rightarrow> key_event \<Rightarrow> keyboard \<Rightarrow> sway \<Rightarrow> (bool \<times> keyboard \<times> sway) option" where
  "run_pressed d D k v kb s =
     (let found = (if kv_pressed v then find_binding v False kb (current_mode (cfg s)) else None) in
      case found of
        Some b \<Rightarrow>
          map_option (\<lambda>s. (True, kb\<lparr>k_repeat := if \<not> has_flag_set BINDING_NOREPEAT b \<and> kv_repeats v then Some b else None\<rparr>, s))
            (seat_execute_command d D k b s)
      | None \<Rightarrow> Some (False, kb\<lparr>k_repeat := None\<rparr>, s))"

text \<open>The keys that switch to another virtual terminal, XF86Switch_VT_1 to 12.\<close>

definition keyboard_execute_compositor_binding :: "32 word list \<Rightarrow> bool" where
  "keyboard_execute_compositor_binding keysyms \<longleftrightarrow> list_ex (\<lambda>k. 0x1008fe01 \<le> k \<and> k \<le> 0x1008fe0c) keysyms"

definition built_in :: "key_event \<Rightarrow> bool" where
  "built_in v \<longleftrightarrow> (kv_pressed v \<and> (keyboard_execute_compositor_binding (kv_translated_keysyms v)
       \<or> keyboard_execute_compositor_binding (kv_raw_keysyms v))) \<or> kv_moves_pointer v"

text \<open>A release goes to the client that was sent the press.\<close>

definition deliver :: "key_event \<Rightarrow> bool \<Rightarrow> keyboard \<Rightarrow> key_result" where
  "deliver v handled kb =
     (let handled = (handled \<or> built_in v);
          (sent, st) = (if kv_pressed v then (False, k_sent kb)
                        else update_shortcut_state (kv_keycode v) False (kv_keycode v + 8) 0 (k_sent kb));
          released = (sent \<and> kv_focused v); handled = (handled \<or> released);
          grab = (\<not> handled \<and> kv_grab v); handled = (handled \<or> grab);
          to_client = (\<not> handled \<and> kv_pressed v);
          st = (if to_client then snd (update_shortcut_state (kv_keycode v) True (kv_keycode v + 8) 0 st) else st) in
      \<lparr>kr_keyboard = kb\<lparr>k_sent := st\<rparr>, kr_handled = handled, kr_client = released \<or> to_client, kr_grab = grab\<rparr>)"

definition handle_key_event :: "nat \<Rightarrow> dispatch \<Rightarrow> nat \<Rightarrow> key_event \<Rightarrow> keyboard \<Rightarrow> sway \<Rightarrow> (key_result \<times> sway) option" where
  "handle_key_event d D k v kb s =
     (let kb = update_keyboard_state v kb;
          stop = (\<lambda>kb h s. Some (\<lparr>kr_keyboard = kb, kr_handled = h, kr_client = False, kr_grab = False\<rparr>, s)) in
      case overview_takes (h_env (d_ctx D)) v s of (taken, s) \<Rightarrow>
        if taken then stop kb True s
        else case run_released d D k v kb s of None \<Rightarrow> None
        | Some (h1, kb, s) \<Rightarrow>
            (case run_pressed d D k v kb s of None \<Rightarrow> None
             | Some (h2, kb, s) \<Rightarrow>
                 if \<not> (h1 \<or> h2) \<and> kv_grouped v then stop kb False s
                 else Some (deliver v (h1 \<or> h2) kb, s)))"

section \<open>Groups of keyboards\<close>

definition group_event :: "key_event \<Rightarrow> bool \<Rightarrow> key_event" where
  "group_event v is_press = v\<lparr>kv_pressed := is_press\<rparr>"

definition handle_keyboard_group_enter :: "key_event list \<Rightarrow> keyboard \<Rightarrow> keyboard" where
  "handle_keyboard_group_enter vs kb = fold (\<lambda>v. update_keyboard_state (group_event v True)) vs kb"

text \<open>Whether the focus has to be set anew because a client was sent one of the keys.\<close>

fun handle_keyboard_group_leave :: "key_event list \<Rightarrow> keyboard \<Rightarrow> bool \<times> keyboard" where
  "handle_keyboard_group_leave [] kb = (False, kb)"
| "handle_keyboard_group_leave (v # vs) kb =
     (let kb = update_keyboard_state (group_event v False) kb;
          (sent, st) = update_shortcut_state (kv_keycode v) False (kv_keycode v + 8) 0 (k_sent kb);
          (later, kb) = handle_keyboard_group_leave vs (kb\<lparr>k_sent := st\<rparr>) in
      (sent \<or> later, kb))"

definition handle_keyboard_repeat :: "nat \<Rightarrow> dispatch \<Rightarrow> nat \<Rightarrow> keyboard \<Rightarrow> sway \<Rightarrow> sway option" where
  "handle_keyboard_repeat d D k kb s =
     (case k_repeat kb of None \<Rightarrow> Some s | Some b \<Rightarrow> seat_execute_command d D k b s)"

end
