(* ===== verification/Bindings_Laws.thy ===== *)
theory Bindings_Laws
  imports Dispatch_Laws Config_Read
begin

text \<open>
  The binding tables of the modes keep their types: every binding is in the list of its type, its keys
  are sorted, and no two bindings of a list have the same key.
\<close>

section \<open>The invariant\<close>

definition keys_sorted :: "sway_binding \<Rightarrow> bool" where
  "keys_sorted b \<longleftrightarrow> sorted (bn_keys b) \<and> (case bn_syms b of Some ks \<Rightarrow> sorted ks | None \<Rightarrow> True)"

definition list_typed :: "binding_input_type set \<Rightarrow> sway_binding list \<Rightarrow> bool" where
  "list_typed types bs \<longleftrightarrow> (\<forall>b\<in>set bs. bn_type b \<in> types \<and> keys_sorted b) \<and> keys_unique binding_key_compare bs"

definition mode_ok :: "sway_mode \<Rightarrow> bool" where
  "mode_ok m \<longleftrightarrow> list_typed {BINDING_KEYSYM} (md_keysym_bindings m) \<and> list_typed {BINDING_KEYCODE} (md_keycode_bindings m)
     \<and> list_typed {BINDING_MOUSECODE, BINDING_MOUSESYM} (md_mouse_bindings m)
     \<and> keys_unique binding_switch_compare (md_switch_bindings m) \<and> keys_unique binding_gesture_equal (md_gesture_bindings m)"

text \<open>There are k modes, one of them the current one.\<close>

definition modes_in :: "nat \<Rightarrow> sway \<Rightarrow> bool" where
  "modes_in k s \<longleftrightarrow> list_all mode_ok (op_modes (cfg_opts (cfg s))) \<and> length (op_modes (cfg_opts (cfg s))) = k
     \<and> op_current_mode (cfg_opts (cfg s)) < k"

definition modes_ok :: "sway \<Rightarrow> bool" where
  "modes_ok s \<longleftrightarrow> modes_in (length (op_modes (cfg_opts (cfg s)))) s"

section \<open>What is parsed is well typed\<close>

definition key_types :: "binding_input_type set" where
  "key_types = {BINDING_KEYSYM, BINDING_KEYCODE, BINDING_MOUSECODE, BINDING_MOUSESYM}"

lemma identify_key_type:
  assumes "identify_key X a f type = Inl (k, t)" "type \<in> key_types"
  shows "t \<in> key_types"
proof (cases type)
  case BINDING_KEYCODE
  then show ?thesis using assms by (auto simp: identify_key_def key_types_def Let_def split: if_splits)
next
  case BINDING_KEYSYM
  then show ?thesis using assms by (auto simp: identify_key_def key_types_def Let_def split: option.splits prod.splits if_splits)
qed (use assms in \<open>auto simp: identify_key_def key_types_def Let_def split: prod.splits if_splits\<close>)

lemma combo_part_type:
  "combo_part X a b = Inl b' \<Longrightarrow> bn_type b \<in> key_types \<Longrightarrow> bn_type b' \<in> key_types \<and> bn_syms b' = bn_syms b"
  by (auto simp: combo_part_def add_key_def Let_def dest: identify_key_type split: sum.splits option.splits prod.splits if_splits)

lemma combo_loop_type:
  "combo_loop X as b = Inl b' \<Longrightarrow> bn_type b \<in> key_types \<Longrightarrow> bn_type b' \<in> key_types \<and> bn_syms b' = bn_syms b"
  by (induction as arbitrary: b) (auto dest: combo_part_type split: sum.splits)

lemma bind_options_keeps:
  "bn_type (fst (bind_options bindcode b excl argv)) = bn_type b
     \<and> bn_syms (fst (bind_options bindcode b excl argv)) = bn_syms b"
  by (induction argv arbitrary: b excl) (simp_all add: Let_def)

lemma bind_options_type: "bind_options bindcode b excl argv = (b', r) \<Longrightarrow> bn_type b' = bn_type b \<and> bn_syms b' = bn_syms b"
  using bind_options_keeps[of bindcode b excl argv] by simp

lemma translate_typed:
  assumes "bn_type b \<in> key_types" "keys_sorted b"
  shows "bn_type (snd (translate_binding X b)) \<in> key_types" "keys_sorted (snd (translate_binding X b))"
  using assms by (auto simp: translate_binding_def key_types_def keys_sorted_def Let_def split: option.splits)

lemma parse_binding_typed:
  assumes "parse_binding X bindcode n name argv = Inl (b, as)"
  shows "bn_type b \<in> key_types \<and> keys_sorted b"
proof -
  obtain b0 excl rest where o: "bind_options bindcode (binding_zero bindcode) False argv = (b0, excl, rest)"
    by (cases "bind_options bindcode (binding_zero bindcode) False argv") auto
  have b0: "bn_type b0 \<in> {BINDING_KEYCODE, BINDING_KEYSYM}"
    using bind_options_type[OF o] by (simp add: binding_zero_def)
  define b1 where "b1 = (if bn_flags b0 AND (BINDING_BORDER OR BINDING_CONTENTS OR BINDING_TITLEBAR) \<noteq> 0 \<or> excl
    then b0\<lparr>bn_type := if bn_type b0 = BINDING_KEYCODE then BINDING_MOUSECODE else BINDING_MOUSESYM\<rparr> else b0)"
  have b1: "bn_type b1 \<in> key_types" "bn_syms b1 = None"
    using b0 bind_options_type[OF o] by (auto simp: b1_def key_types_def binding_zero_def)
  obtain b2 where b2: "combo_loop X (split_string (hd rest) ''+'') b1 = Inl b2"
    and b: "b = snd (translate_binding X ((refine_region excl b2)\<lparr>bn_keys := sort (bn_keys (refine_region excl b2))\<rparr>))"
    using assms unfolding parse_binding_def o prod.case Let_def b1_def[symmetric] by (auto split: if_splits sum.splits)
  have "bn_type b2 \<in> key_types \<and> bn_syms b2 = None" using combo_loop_type[OF b2 b1(1)] b1(2) by simp
  then have "bn_type (refine_region excl b2) \<in> key_types" "bn_syms (refine_region excl b2) = None"
    by (simp_all add: refine_region_def)
  then show ?thesis unfolding b by (intro conjI translate_typed) (simp_all add: keys_sorted_def)
qed

section \<open>Tables\<close>

lemma list_typed_upsert:
  assumes "list_typed types bs" "bn_type b \<in> types" "keys_sorted b"
  shows "list_typed types (fst (binding_upsert b bs))"
proof -
  have "fst (binding_upsert b bs) = table_add binding_key_compare b bs"
    using assms(1) key_bindings.table_upsert_add by (simp add: list_typed_def binding_upsert_def)
  moreover have "set (table_add binding_key_compare b bs) \<subseteq> insert b (set bs)" by (auto simp: table_add_eq)
  ultimately show ?thesis using assms key_bindings.table_add_unique[of bs b] by (auto simp: list_typed_def)
qed

lemma list_typed_remove:
  assumes "list_typed types bs"
  shows "list_typed types (snd (binding_remove b bs combo))"
  using assms key_bindings.table_remove_unique key_bindings.table_remove_set
  by (fastforce simp: list_typed_def binding_remove_def split: option.split)

lemma upd_mode_ok:
  assumes "modes_in k s" "mode_ok (f (current_mode (cfg s)))"
  shows "modes_in k (upd_current_mode f s)"
  using assms set_update_subset_insert[of "op_modes (cfg_opts (cfg s))"]
  by (fastforce simp: modes_in_def upd_current_mode_def upd_mode_def upd_opts_def current_mode_def list_all_iff)

lemma current_mode_ok: "modes_in k s \<Longrightarrow> mode_ok (current_mode (cfg s))"
  by (simp add: modes_in_def current_mode_def list_all_length)

section \<open>Every command keeps the invariant\<close>

abbreviation types_in_list :: "binding_input_type \<Rightarrow> binding_input_type set" where
  "types_in_list type \<equiv> (case type of BINDING_KEYCODE \<Rightarrow> {BINDING_KEYCODE} | BINDING_KEYSYM \<Rightarrow> {BINDING_KEYSYM}
    | _ \<Rightarrow> {BINDING_MOUSECODE, BINDING_MOUSESYM})"

lemma set_mode_bindings_ok:
  assumes "mode_ok m" "list_typed (types_in_list type) bs"
  shows "mode_ok (set_mode_bindings type bs m)"
  using assms by (cases type) (simp_all add: mode_ok_def set_mode_bindings_def)

lemma mode_bindings_typed:
  assumes "mode_ok m"
  shows "list_typed (types_in_list type) (mode_bindings type m)"
  using assms by (cases type) (simp_all add: mode_ok_def mode_bindings_def)

lemma upd_opts_modes_ok:
  assumes "modes_in k s" "\<And>p. op_modes (f p) = op_modes p" "\<And>p. op_current_mode (f p) = op_current_mode p"
  shows "modes_in k (upd_opts f s)"
  using assms by (simp add: modes_in_def upd_opts_def)

lemma put_bindings_ok:
  assumes "modes_in k s" "list_typed (types_in_list type) bs"
  shows "modes_in k (upd_current_mode (set_mode_bindings type bs) s)"
  using assms by (intro upd_mode_ok set_mode_bindings_ok current_mode_ok)

lemma unbound_ok:
  assumes "modes_in k s"
  shows "modes_in k (upd_current_mode (set_mode_bindings type
           (snd (binding_remove b (mode_bindings type (current_mode (cfg s))) combo))) s)"
  using assms by (intro put_bindings_ok list_typed_remove mode_bindings_typed current_mode_ok)

lemma bound_ok:
  assumes "modes_in k s" "bn_type b \<in> key_types" "keys_sorted b" "bn_type b = type"
  shows "modes_in k (upd_current_mode (set_mode_bindings type
           (snd (binding_add b (mode_bindings type (current_mode (cfg s)))))) s)"
  using assms unfolding binding_add_def snd_conv
  by (intro put_bindings_ok list_typed_upsert mode_bindings_typed current_mode_ok) (auto simp: key_types_def)

lemma needs_args_keep: "P s \<Longrightarrow> P (snd r) \<Longrightarrow> P (snd (needs_args argv name type val s r))"
  by (simp add: needs_args_def split: option.split)

lemma bind_key_ok:
  assumes s: "modes_in k s"
  shows "modes_in k (snd (cmd_bindsym_or_bindcode X bindcode unbind x argv s))"
  unfolding cmd_bindsym_or_bindcode_def Let_def
proof (rule needs_args_keep[where P = "modes_in k", OF s], goal_cases)
  case 1
  show ?case
  proof (cases "parse_binding X bindcode (if unbind then 1 else 2)
      ((if unbind then ''un'' else []) @ (if bindcode then ''bindcode'' else ''bindsym'')) argv")
    case (Inr e)
    then show ?thesis using s by (simp only: sum.case snd_conv)
  next
    case (Inl p)
    obtain b rest where p: "p = (b, rest)" by (cases p)
    have b: "bn_type b \<in> key_types" "keys_sorted b" using parse_binding_typed[OF Inl[unfolded p]] by blast+
    have add: "modes_in k (upd_current_mode (set_mode_bindings (bn_type b)
        (snd (binding_add (b\<lparr>bn_command := c, bn_order := j\<rparr>) (mode_bindings (bn_type b) (current_mode (cfg s)))))) s)"
      for c j by (rule bound_ok[OF s]) (use b in \<open>simp_all add: keys_sorted_def\<close>)
    show ?thesis
      unfolding Inl p sum.case prod.case split_beta
      using unbound_ok[OF s, of "bn_type b" b "hd rest"] add by (cases unbind) (simp_all add: upd_opts_modes_ok)
  qed
qed

lemma bind_switch_ok: "modes_in k s \<Longrightarrow> modes_in k (snd (cmd_bind_or_unbind_switch unbind x argv s))"
proof -
  assume s: "modes_in k s"
  then have u: "keys_unique binding_switch_compare (md_switch_bindings (current_mode (cfg s)))"
    using current_mode_ok by (simp add: mode_ok_def)
  have set: "modes_in k (upd_current_mode (\<lambda>m. m\<lparr>md_switch_bindings := bs\<rparr>) s)"
    if "keys_unique binding_switch_compare bs" for bs
    using upd_mode_ok[OF s, of "\<lambda>m. m\<lparr>md_switch_bindings := bs\<rparr>"] current_mode_ok[OF s] that by (simp add: mode_ok_def)
  show ?thesis
    using s u switch_bindings.table_add_unique switch_bindings.table_remove_unique
    by (auto simp: cmd_bind_or_unbind_switch_def needs_args_def Let_def switch_binding_add_def switch_binding_remove_def
        intro!: set split: option.split prod.split sum.split)
qed

lemma bind_gesture_ok: "modes_in k s \<Longrightarrow> modes_in k (snd (bind_gesture_in_mode unbind x argv s))"
proof -
  assume s: "modes_in k s"
  let ?bs = "snd (cmd_bind_or_unbind_gesture argv unbind (md_gesture_bindings (current_mode (cfg s))))"
  have "keys_unique binding_gesture_equal ?bs"
    using current_mode_ok[OF s] by (intro gesture_commands_unique) (simp add: mode_ok_def)
  then show ?thesis
    using upd_mode_ok[OF s, of "\<lambda>m. m\<lparr>md_gesture_bindings := ?bs\<rparr>"] current_mode_ok[OF s]
    by (simp add: bind_gesture_in_mode_def mode_ok_def split_beta)
qed

lemma set_ok: "modes_in k s \<Longrightarrow> modes_in k (snd (cmd_set x argv s))"
  by (auto simp: cmd_set_def needs_args_def modes_in_def upd_cfg_def split: option.split)

lemmas bind_handlers_ok = bind_key_ok bind_switch_ok bind_gesture_ok set_ok

lemmas bind_handler_defs = cmd_bindsym_def cmd_bindcode_def cmd_unbindsym_def cmd_unbindcode_def cmd_bindswitch_def
  cmd_unbindswitch_def

lemma mode_handlers_ok:
  assumes "(n, h) \<in> set (mode_handlers X)" "h x argv s = Some (r, s')" "modes_in k s"
  shows "modes_in k s'"
proof -
  have "\<exists>g. h = total_handler g \<and> modes_in k (snd (g x argv s))"
    using assms(1) bind_handlers_ok[OF assms(3)] by (auto simp: mode_handlers_def bind_handler_defs)
  then show ?thesis using assms(2) by (auto simp: total_handler_def)
qed

section \<open>Modes\<close>

lemma set_current_mode_ok: "modes_in k s \<Longrightarrow> i < k \<Longrightarrow> modes_in k (set_current_mode i s)"
  by (simp add: modes_in_def set_current_mode_def upd_opts_def)

lemma add_mode_ok: "modes_in k s \<Longrightarrow> modes_in (Suc k) (add_mode name pango s)"
  by (simp add: modes_in_def add_mode_def upd_opts_def mode_ok_def mode_named_def list_typed_def keys_unique_def)

lemma bind_in_mode_ok:
  assumes "modes_in k s" "i < k" "bind_in_mode X i x argv s = Some (r, s')"
  shows "modes_in k s'"
proof -
  let ?s = "set_current_mode i s"
  have s: "modes_in k ?s" by (rule set_current_mode_ok[OF assms(1,2)])
  obtain t where t: "config_subcommand (mode_handlers X) x argv ?s = Some (r, t)"
    and s': "s' = set_current_mode (op_current_mode (cfg_opts (cfg s))) t"
    using assms(3) by (auto simp: bind_in_mode_def)
  have "modes_in k t"
  proof (cases "find_handler (hd argv) (mode_handlers X)")
    case None
    then show ?thesis using t s by (auto simp: config_subcommand_def invalid_def)
  next
    case (Some h)
    then have "h \<in> set (mode_handlers X)" using find_in_set by (fastforce simp: find_in_tables)
    then show ?thesis using t Some s mode_handlers_ok[of "fst h" "snd h"] by (auto simp: config_subcommand_def split: prod.splits)
  qed
  then show ?thesis unfolding s' by (rule set_current_mode_ok) (use assms(1) in \<open>simp add: modes_in_def\<close>)
qed

lemma found_mode_index: "list_ex P xs \<Longrightarrow> nat (find_index_from 0 P xs) < length xs"
  using find_index_from_none[of 0 P xs] find_index_from_bounds[of 0 P xs] by (auto simp: list_ex_iff)

lemma modes_in_ok: "modes_in k s \<Longrightarrow> modes_ok s"
  by (simp add: modes_ok_def modes_in_def)

lemma cmd_mode_ok:
  assumes s: "modes_ok s" and run: "cmd_mode X x argv s = Some (r, s')"
  shows "modes_ok s'"
proof -
  let ?k = "length (op_modes (cfg_opts (cfg s)))"
  have k: "modes_in ?k s" using s by (simp add: modes_ok_def)
  have enter: "modes_ok t" if "enter_mode i s = (q, t)" "i < ?k" for i q t
    using set_current_mode_ok[OF k that(2)] that(1) by (auto simp: enter_mode_def Let_def ok_def modes_in_def modes_ok_def)
  have there: "modes_ok t" if "bind_in_mode X i x as s = Some (q, t)" "i < ?k" for i as q t
    using modes_in_ok[OF bind_in_mode_ok[OF k that(2,1)]] .
  have new: "modes_ok t" if "bind_in_mode X ?k x as (add_mode name pango s) = Some (q, t)" for as name pango q t
    using modes_in_ok[OF bind_in_mode_ok[OF add_mode_ok[OF k] _ that]] by simp
  show ?thesis
    using run s unfolding cmd_mode_def Let_def
    by (auto simp: failure_def invalid_def dest!: there new enter found_mode_index split: option.splits if_splits)
qed

section \<open>Translation to key codes\<close>

lemma file_translated_typed:
  assumes "list_typed {BINDING_KEYSYM} as" "list_typed {BINDING_KEYCODE} cs" "bn_type b \<in> key_types" "keys_sorted b"
    "file_translated X b (as, cs) = (as', cs')"
  shows "list_typed {BINDING_KEYSYM} as'" "list_typed {BINDING_KEYCODE} cs'"
proof -
  obtain ok b' where b': "translate_binding X b = (ok, b')" by (cases "translate_binding X b")
  have "keys_sorted b'" using translate_typed(2)[OF assms(3,4), of X] by (simp add: b')
  then show "list_typed {BINDING_KEYSYM} as'" "list_typed {BINDING_KEYCODE} cs'"
    using assms(1,2,5) by (auto simp: file_translated_def b' binding_add_translated_def intro: list_typed_upsert split: if_splits)
qed

lemma fold_translated_typed:
  assumes "list_typed {BINDING_KEYSYM} as" "list_typed {BINDING_KEYCODE} cs"
    "\<forall>b\<in>set bs. bn_type b \<in> key_types \<and> keys_sorted b"
  shows "\<exists>as' cs'. fold (file_translated X) bs (as, cs) = (as', cs')
    \<and> list_typed {BINDING_KEYSYM} as' \<and> list_typed {BINDING_KEYCODE} cs'"
  using assms
proof (induction bs arbitrary: as cs)
  case (Cons b bs)
  obtain as1 cs1 where step: "file_translated X b (as, cs) = (as1, cs1)" by (cases "file_translated X b (as, cs)")
  then show ?case using Cons.IH[of as1 cs1] file_translated_typed[OF Cons.prems(1,2) _ _ step] Cons.prems(3) by simp
qed simp

lemma translate_mode_ok:
  assumes "mode_ok m"
  shows "mode_ok (translate_mode X m)"
proof -
  have typed: "\<forall>b\<in>set (md_keysym_bindings m). bn_type b \<in> key_types \<and> keys_sorted b"
    "\<forall>b\<in>set (md_keycode_bindings m). bn_type b \<in> key_types \<and> keys_sorted b"
    using assms by (auto simp: mode_ok_def list_typed_def key_types_def)
  have "list_typed types []" for types by (simp add: list_typed_def keys_unique_def)
  then obtain as cs where "fold (file_translated X) (md_keysym_bindings m) ([], []) = (as, cs)"
      "list_typed {BINDING_KEYSYM} as" "list_typed {BINDING_KEYCODE} cs"
    using fold_translated_typed[OF _ _ typed(1)] by blast
  then show ?thesis
    using fold_translated_typed[OF _ _ typed(2), of as cs X] assms by (auto simp: translate_mode_def mode_ok_def)
qed

lemma translate_keysyms_ok: "modes_ok s \<Longrightarrow> modes_ok (translate_keysyms X s)"
  using translate_mode_ok by (auto simp: modes_ok_def modes_in_def translate_keysyms_def upd_opts_def list_all_iff)

section \<open>Runs of binding commands\<close>

text \<open>The binding commands, in the mode of the moment or in a named one, and the change of the key map.\<close>

inductive binding_step :: "symbols \<Rightarrow> sway \<Rightarrow> sway \<Rightarrow> bool" for X where
  command: "(n, h) \<in> set (mode_handlers X) \<Longrightarrow> h x argv s = Some (r, s') \<Longrightarrow> binding_step X s s'"
| in_mode: "cmd_mode X x argv s = Some (r, s') \<Longrightarrow> binding_step X s s'"
| key_map: "binding_step X s (translate_keysyms X' s)"

inductive binding_run :: "symbols \<Rightarrow> sway \<Rightarrow> sway \<Rightarrow> bool" for X where
  start: "binding_run X s s"
| step: "binding_run X s t \<Longrightarrow> binding_step X t u \<Longrightarrow> binding_run X s u"

lemma binding_step_ok: "binding_step X s s' \<Longrightarrow> modes_ok s \<Longrightarrow> modes_ok s'"
proof (induction rule: binding_step.induct)
  case (command n h x argv s r s')
  then show ?case using mode_handlers_ok[OF command(1,2)] by (simp add: modes_ok_def) (metis modes_in_ok modes_ok_def)
next
  case (in_mode x argv s r s')
  then show ?case by (blast intro: cmd_mode_ok)
next
  case (key_map s X')
  then show ?case by (rule translate_keysyms_ok)
qed

text \<open>
  C35. Whatever sequence of binding commands runs, each in the current mode or in a mode it names, and
  however often the key map changes in between, every binding stays in the list of its type: key
  symbols, key codes and mouse buttons apart, the keys of each binding in order, no two bindings of a
  list for the same input, and the current mode one of the modes. Keyboard events rely on it: they
  look a key symbol up among the key symbols only and compare the keys in order.
\<close>

theorem binding_commands_keep_types:
  assumes "binding_run X s s'" "modes_ok s"
  shows "modes_ok s'"
  using assms by induction (blast intro: binding_step_ok)+

lemma binding_commands_keep_types_witness:
  "\<exists>s. binding_run (d_symbols sample_dispatch) sample s \<and> modes_ok s
     \<and> length (op_modes (cfg_opts (cfg s))) = 2 \<and> length (md_keycode_bindings (op_modes (cfg_opts (cfg s)) ! 1)) = 1"
proof -
  have "case cmd_mode (d_symbols sample_dispatch) (d_ctx sample_dispatch) [''m'', ''bindcode'', ''30'', ''nop''] sample of
      None \<Rightarrow> False
    | Some (r, s) \<Rightarrow> length (op_modes (cfg_opts (cfg s))) = 2
        \<and> length (md_keycode_bindings (op_modes (cfg_opts (cfg s)) ! 1)) = 1" by code_simp
  then obtain r s where s: "cmd_mode (d_symbols sample_dispatch) (d_ctx sample_dispatch)
        [''m'', ''bindcode'', ''30'', ''nop''] sample = Some (r, s)"
      "length (op_modes (cfg_opts (cfg s))) = 2" "length (md_keycode_bindings (op_modes (cfg_opts (cfg s)) ! 1)) = 1"
    by (auto split: option.splits prod.splits)
  have run: "binding_run (d_symbols sample_dispatch) sample s"
    by (intro binding_run.step[OF binding_run.start] binding_step.in_mode[OF s(1)])
  have "modes_ok sample"
    by (simp add: modes_ok_def modes_in_def sample_defs default_options_def mode_ok_def list_typed_def keys_unique_def mode_named_def)
  then have "modes_ok s" by (rule binding_commands_keep_types[OF run])
  then show ?thesis using run s(2,3) by blast
qed

end
