(* ===== verification/Steady.thy ===== *)
theory Steady
  imports Destroy
begin

text \<open>
  What changes of the tree leave to the transactions: the reference counts of the nodes, the list of dirty
  nodes that has exactly the dirty ones, nodes that stay dirty or destroyed, and views that stay views.
  Arranging, moving the focus and destroying containers are such changes.
\<close>

named_theorems steady \<open>functions that leave the marks of the nodes to the transactions\<close>

definition steady :: "sway \<Rightarrow> sway \<Rightarrow> bool" where
  "steady s s' \<longleftrightarrow>
     (\<forall>n. n_ntxnrefs (ninfo s' n) = n_ntxnrefs (ninfo s n))
     \<and> (dirty_ok s \<longrightarrow> dirty_ok s')
     \<and> (\<forall>n. n_dirty (ninfo s n) \<longrightarrow> n_dirty (ninfo s' n))
     \<and> (\<forall>n. n_destroying (ninfo s n) \<longrightarrow> n_destroying (ninfo s' n))
     \<and> (\<forall>n. n_destroying (ninfo s n) \<and> \<not> n_dirty (ninfo s n) \<longrightarrow> \<not> n_dirty (ninfo s' n))
     \<and> (\<forall>c. c_view (cons s c) \<noteq> None \<longrightarrow> c_view (cons s' c) \<noteq> None)"

lemma steady_refl [steady]: "steady s s"
  by (simp add: steady_def)

lemma steady_trans: "steady s t \<Longrightarrow> steady t u \<Longrightarrow> steady s u"
  unfolding steady_def by metis

section \<open>Steps\<close>

lemma steady_upd_con [steady]:
  "steady s t \<Longrightarrow> (\<And>x. c_view x \<noteq> None \<Longrightarrow> c_view (f x) \<noteq> None) \<Longrightarrow> steady s (upd_con c f t)"
  by (erule steady_trans) (simp add: steady_def dirty_ok_def)

lemma steady_upd_ws [steady]: "steady s t \<Longrightarrow> steady s (upd_ws w f t)"
  by (erule steady_trans) (simp add: steady_def dirty_ok_def)

lemma steady_upd_out [steady]: "steady s t \<Longrightarrow> steady s (upd_out p f t)"
  by (erule steady_trans) (simp add: steady_def dirty_ok_def)

lemma steady_upd_seat [steady]: "steady s t \<Longrightarrow> steady s (upd_seat k f t)"
  by (erule steady_trans) (simp add: steady_def dirty_ok_def)

lemma steady_emit [steady]: "steady s t \<Longrightarrow> steady s (emit e t)"
  by (erule steady_trans) (simp add: steady_def dirty_ok_def emit_def)

lemma steady_dirty [steady]: "steady s t \<Longrightarrow> steady s (node_set_dirty n t)"
  by (erule steady_trans) (auto simp: steady_def dirty_ok_def node_set_dirty_def)

lemma steady_destroying [steady]: "steady s t \<Longrightarrow> steady s (node_set_destroying n t)"
  by (erule steady_trans) (auto simp: steady_def dirty_ok_def node_set_destroying_def)

lemma steady_records [steady]:
  "steady s t \<Longrightarrow> steady s (t\<lparr>fullscreen_global := g\<rparr>)" "steady s t \<Longrightarrow> steady s (t\<lparr>scratchpad := xs\<rparr>)"
  "steady s t \<Longrightarrow> steady s (t\<lparr>root_box := b\<rparr>)"
  by (erule steady_trans, simp add: steady_def dirty_ok_def)+

lemma steady_if [steady]: "(b \<Longrightarrow> steady s t) \<Longrightarrow> (\<not> b \<Longrightarrow> steady s u) \<Longrightarrow> steady s (if b then t else u)"
  by simp

lemma steady_option [steady]:
  "(x = None \<Longrightarrow> steady s t) \<Longrightarrow> (\<And>y. x = Some y \<Longrightarrow> steady s (u y)) \<Longrightarrow>
     steady s (case x of None \<Rightarrow> t | Some y \<Rightarrow> u y)"
  by (cases x) simp_all

lemma steady_node [steady]:
  "steady s a \<Longrightarrow> (\<And>p. steady s (b p)) \<Longrightarrow> (\<And>w. steady s (c w)) \<Longrightarrow> (\<And>d. steady s (e d)) \<Longrightarrow>
     steady s (case n of N_ROOT \<Rightarrow> a | N_OUTPUT p \<Rightarrow> b p | N_WORKSPACE w \<Rightarrow> c w | N_CONTAINER d \<Rightarrow> e d)"
  by (cases n) simp_all

lemma steady_prod [steady]: "(\<And>x y. p = (x, y) \<Longrightarrow> steady s (f x y)) \<Longrightarrow> steady s (case p of (x, y) \<Rightarrow> f x y)"
  by (cases p) simp

lemma steady_Let [steady]: "steady s (f v) \<Longrightarrow> steady s (Let v f)"
  by (simp add: Let_def)

lemma steady_fold: "(\<And>x t. steady t (f x t)) \<Longrightarrow> steady s t \<Longrightarrow> steady s (fold f xs t)"
proof (induction xs arbitrary: t)
  case (Cons x xs)
  show ?case using Cons.IH[OF Cons.prems(1) steady_trans[OF Cons.prems(2) Cons.prems(1)]] by simp
qed simp

lemma steady_fold_step [steady]: "(\<And>x t u. steady t u \<Longrightarrow> steady t (f x u)) \<Longrightarrow> steady s t \<Longrightarrow> steady s (fold f xs t)"
  by (rule steady_fold) (auto intro: steady_refl)

lemma steady_each_seat [steady]:
  "(\<And>k t u. steady t u \<Longrightarrow> steady t (f k u)) \<Longrightarrow> steady s t \<Longrightarrow> steady s (each_seat f t)"
  unfolding each_seat_def by (rule steady_fold_step)

lemma view_stays [steady]:
  "c_view x \<noteq> None \<Longrightarrow> c_view (x\<lparr>c_minimized := b\<rparr>) \<noteq> None"
  "c_view x \<noteq> None \<Longrightarrow> c_view (x\<lparr>c_scratchpad := b\<rparr>) \<noteq> None"
  "c_view x \<noteq> None \<Longrightarrow> c_view (x\<lparr>c_fullscreen := m\<rparr>) \<noteq> None"
  by simp_all

section \<open>Sizes and titles\<close>

text \<open>A function that only changes sizes keeps the views; what is left is the list of dirty nodes.\<close>

lemma steady_shape: "same_shape t u \<Longrightarrow> steady s t \<Longrightarrow> ninfo u = ninfo t \<Longrightarrow> dirty_nodes u = dirty_nodes t \<Longrightarrow> steady s u"
  by (erule steady_trans) (simp add: steady_def dirty_ok_def same_shape_con)

lemma autoconfigure_steady [steady]: "steady s t \<Longrightarrow> steady s (view_autoconfigure c t)"
  by (rule steady_shape[OF view_autoconfigure_shape]) (simp_all add: view_autoconfigure_def)

lemma height_fractions_steady [steady]: "steady s t \<Longrightarrow> steady s (set_height_fractions cs t)"
  by (induction cs t rule: set_height_fractions.induct) (simp_all add: steady)

lemma width_fractions_steady [steady]: "steady s t \<Longrightarrow> steady s (set_width_fractions cs t)"
  by (induction cs t rule: set_width_fractions.induct) (simp_all add: steady)

lemma fit_vertical_steady [steady]: "steady s t \<Longrightarrow> steady s (container_fit_vertical_children col new t)"
  unfolding container_fit_vertical_children_def by (intro steady)

lemma place_windows_steady [steady]: "steady s t \<Longrightarrow> steady s (place_windows col gap y rows t)"
  by (induction col gap y rows t rule: place_windows.induct) (simp_all add: steady Let_def)

lemma arrange_windows_steady [steady]: "steady s t \<Longrightarrow> steady s (viewport_arrange_windows col t)"
  unfolding viewport_arrange_windows_def by (intro steady)

lemma collapse_view [simp]: "c_view (collapse_box x) = c_view x"
  by (simp add: collapse_box_def)

lemma horiz_loop_steady [steady]: "steady s t \<Longrightarrow> steady s (horiz_loop p room gap x cs t)"
  by (induction p room gap x cs t rule: horiz_loop.induct) (simp_all add: steady Let_def)

lemma vert_loop_steady [steady]: "steady s t \<Longrightarrow> steady s (vert_loop p room gap x cs t)"
  by (induction p room gap x cs t rule: vert_loop.induct) (simp_all add: steady Let_def)

lemma apply_layout_steady [steady]: "steady s t \<Longrightarrow> steady s (apply_layout l cs p t)"
  unfolding apply_layout_def apply_horiz_layout_def apply_vert_layout_def apply_tabbed_layout_def apply_stacked_layout_def
  by (cases l) (auto intro!: steady simp: tab_child_def Let_def split: prod.split)

lemma arrange_fuel_steady [steady]: "steady s t \<Longrightarrow> steady s (arrange_container_fuel n c t)"
proof (induction n arbitrary: c s t)
  case (Suc n)
  show ?case unfolding arrange_container_fuel.simps by (intro steady Suc)
qed simp

lemma arrange_container_steady [steady]: "steady s t \<Longrightarrow> steady s (arrange_container c t)"
  unfolding arrange_container_def by (rule arrange_fuel_steady)

lemma place_columns_steady [steady]: "steady s t \<Longrightarrow> steady s (place_columns w g ox oy h pos prev cols t)"
  by (induction w g ox oy h pos prev cols t rule: place_columns.induct)
    (simp_all add: steady Let_def place_column_def arrange_column_def)

lemma arrange_columns_steady [steady]: "steady s t \<Longrightarrow> steady s (workspace_arrange_columns w p t)"
  unfolding workspace_arrange_columns_def by (intro steady)

lemma add_gaps_steady [steady]: "steady s t \<Longrightarrow> steady s (workspace_add_gaps w t)"
  unfolding workspace_add_gaps_def by (intro steady)

lemma translate_fuel_steady [steady]: "steady s t \<Longrightarrow> steady s (translate_fuel n dx dy c t)"
proof (induction n arbitrary: c s t)
  case (Suc n)
  show ?case unfolding translate_fuel.simps by (intro steady Suc) simp_all
qed simp

lemma translate_steady [steady]: "steady s t \<Longrightarrow> steady s (container_floating_translate c dx dy t)"
  unfolding container_floating_translate_def by (intro steady)

lemma set_geometry_steady [steady]: "steady s t \<Longrightarrow> steady s (container_set_geometry_from_content c t)"
  unfolding container_set_geometry_from_content_def
  by (intro steady) (simp_all add: geometry_from_content_def Let_def)

lemma natural_resize_steady [steady]: "steady s t \<Longrightarrow> steady s (floating_natural_resize b c t)"
  unfolding floating_natural_resize_def by (intro steady) (auto simp: Let_def)

lemma resize_and_center_steady [steady]: "steady s t \<Longrightarrow> steady s (container_floating_resize_and_center b ob c t)"
  unfolding container_floating_resize_and_center_def by (intro steady) (auto simp: center_box_def center_content_def)

lemma move_to_center_steady [steady]: "steady s t \<Longrightarrow> steady s (container_floating_move_to_center c t)"
  unfolding container_floating_move_to_center_def by (intro steady)

lemma fix_coordinates_steady [steady]: "steady s t \<Longrightarrow> steady s (floating_fix_coordinates c old new t)"
  unfolding floating_fix_coordinates_def by (intro steady) (auto simp: relocated_def)

lemma arrange_workspace_steady [steady]: "steady s t \<Longrightarrow> steady s (arrange_workspace w t)"
  unfolding arrange_workspace_def move_floaters_def by (intro steady) (auto simp: set_box_def)

lemma arrange_root_steady [steady]: "steady s t \<Longrightarrow> steady s (arrange_root b t)"
  unfolding arrange_root_def arrange_output_def by (intro steady) (auto simp: set_box_def)

lemma workspace_representation_steady [steady]: "steady s t \<Longrightarrow> steady s (workspace_update_representation w t)"
  unfolding workspace_update_representation_def by (intro steady)

lemma container_representation_steady [steady]: "steady s t \<Longrightarrow> steady s (container_update_representation c t)"
proof -
  have "steady s (update_representation_loop n c t)" if "steady s t" for n c t
    using that
  proof (induction n arbitrary: c t)
    case (Suc n)
    show ?case unfolding update_representation_loop.simps retitle_def by (intro steady Suc) simp_all
  qed simp
  then show "steady s t \<Longrightarrow> ?thesis" unfolding container_update_representation_def by blast
qed

section \<open>Moving containers\<close>

lemma upd_list_steady [steady]: "steady s t \<Longrightarrow> steady s (upd_list r f t)"
  by (cases r) (simp_all add: upd_list_def steady)

lemma adopt_steady [steady]: "steady s t \<Longrightarrow> steady s (adopt c p w t)"
proof -
  have "steady s (for_each_in n set_workspace cs t)" if "steady s t" for n cs t
    using that
  proof (induction n "set_workspace" cs t rule: for_each_in.induct)
    case (3 n c cs t)
    have "steady s (set_workspace c t)" unfolding set_workspace_def by (intro steady 3) simp
    then show ?case using 3 by (simp add: Let_def)
  qed simp_all
  then show "steady s t \<Longrightarrow> ?thesis"
    unfolding adopt_def container_for_each_child_def by (simp add: steady)
qed

lemma detach_steady [steady]: "steady s t \<Longrightarrow> steady s (container_detach c t)"
  unfolding container_detach_def drop_fullscreen_pointers_def by (intro steady)

lemma unpark_steady [steady]: "steady s t \<Longrightarrow> steady s (unpark c t)"
  unfolding unpark_def by (intro steady) (auto simp: workspace_minimized_remove_def intro!: steady split: option.splits)

lemma raw_focus_steady [steady]: "steady s t \<Longrightarrow> steady s (seat_set_raw_focus k n t)"
  unfolding seat_set_raw_focus_def by (intro steady)

lemma raise_below_steady [steady]: "steady s t \<Longrightarrow> steady s (raise_below_focus k n t)"
  unfolding raise_below_focus_def by (intro steady)

lemma focused_idx_steady [steady]: "steady s t \<Longrightarrow> steady s (workspace_update_focused_column_idx E w t)"
  unfolding workspace_update_focused_column_idx_def by (intro steady)

lemma detach_attached_steady [steady]: "steady s t \<Longrightarrow> steady s (detach_attached c t)"
  unfolding detach_attached_def by (intro steady)

lemma set_urgent_steady [steady]: "steady s t \<Longrightarrow> steady s (view_set_urgent E c b t)"
  unfolding view_set_urgent_def workspace_detect_urgent_def upd_view_def by (intro steady) auto

lemma ends_urgency_steady [steady]: "steady s t \<Longrightarrow> steady s (focus_ends_urgency E c a b t)"
  unfolding focus_ends_urgency_def upd_view_def by (intro steady) auto

lemma seat_workspace_steady [steady]: "steady s t \<Longrightarrow> steady s (seat_set_workspace k w t)"
  unfolding seat_set_workspace_def by (intro steady)

lemma mark_unfocused_steady [steady]: "steady s t \<Longrightarrow> steady s (mark_unfocused n t)"
  unfolding mark_unfocused_def by (intro steady)

lemma raise_ancestors_steady [steady]: "steady s t \<Longrightarrow> steady s (raise_ancestors n k c t)"
proof (induction n arbitrary: c t)
  case (Suc n)
  show ?case unfolding raise_ancestors.simps by (intro steady Suc)
qed simp

lemma raise_focus_steady [steady]: "steady s t \<Longrightarrow> steady s (raise_focus k c w t)"
  unfolding raise_focus_def by (intro steady)

lemma workspace_detach_steady [steady]: "steady s t \<Longrightarrow> steady s (workspace_detach w t)"
  unfolding workspace_detach_def by (intro steady)

lemma scratchpad_remove_steady [steady]: "steady s t \<Longrightarrow> steady s (root_scratchpad_remove_container c t)"
  unfolding root_scratchpad_remove_container_def by (intro steady)

lemma minimized_remove_steady [steady]: "steady s t \<Longrightarrow> steady s (snd (workspace_minimized_remove c t))"
  unfolding workspace_minimized_remove_def by (auto intro!: steady split: option.split)

section \<open>Moving the focus\<close>

text \<open>What moves the focus inside the other functions leaves the marks alone.\<close>

locale steady_focus =
  fixes E :: env
  assumes refocus_steady: "steady s (e_refocus E k n s)"
begin

lemma refocus_after [steady]: "steady s t \<Longrightarrow> steady s (e_refocus E k n t)"
  by (rule steady_trans[OF _ refocus_steady])

lemma fullscreen_disable_steady [steady]: "steady s t \<Longrightarrow> steady s (container_fullscreen_disable E c t)"
  unfolding container_fullscreen_disable_def clear_fullscreen_pointer_def leave_scratchpad_focus_def restore_saved_def
  by (intro steady) simp_all

lemma reparent_steady [steady]: "steady s t \<Longrightarrow> steady s (container_handle_fullscreen_reparent E c t)"
  unfolding container_handle_fullscreen_reparent_def take_workspace_fullscreen_def disable_if_def by (intro steady)

lemma add_floating_steady [steady]: "steady s t \<Longrightarrow> steady s (workspace_add_floating E w c t)"
  unfolding workspace_add_floating_def by (intro steady)

lemma focus_raw_steady [steady]: "steady s t \<Longrightarrow> steady s (seat_set_focus_raw E k n t)"
  unfolding seat_set_focus_raw_def by (intro steady)

lemma node_destroy_steady [steady]: "steady s t \<Longrightarrow> steady s (handle_seat_node_destroy E n k t)"
  unfolding handle_seat_node_destroy_def workspace_node_destroyed_def container_node_destroyed_def refocus_after_loss_def
  by (intro steady)

lemma consider_destroy_steady [steady]: "steady s t \<Longrightarrow> steady s (workspace_consider_destroy E w t)"
  unfolding workspace_consider_destroy_def workspace_begin_destroy_def by (intro steady)

lemma sticky_loop_steady [steady]: "steady s t \<Longrightarrow> steady s (sticky_loop n E old new i t)"
proof (induction n arbitrary: i t)
  case (Suc n)
  show ?case unfolding sticky_loop.simps by (intro steady Suc)
qed simp

lemma workspace_focus_steady: "steady s (seat_set_workspace_focus E k n s)"
  unfolding seat_set_workspace_focus_def set_focus_to_def focus_leaves_def focus_arrives_def by (intro steady)

lemma begin_destroy_steady [steady]: "steady s t \<Longrightarrow> steady s (container_begin_destroy E c t)"
  unfolding container_begin_destroy_def by (intro steady)

end

lemma refocus_depth_steady: "steady s (refocus_depth d E k n s)"
proof (induction d arbitrary: k n s)
  case (Suc d)
  have "steady_focus (E\<lparr>e_refocus := refocus_depth d E\<rparr>)" by unfold_locales (simp add: Suc)
  then show ?case by (simp add: steady_focus.workspace_focus_steady)
qed (simp add: steady_refl)

interpretation focus_steady: steady_focus "with_focus d E"
  by unfold_locales (simp add: with_focus_def refocus_depth_steady)

end
