(* ===== verification/Transaction.thy ===== *)
theory Transaction
  imports Workspaces
begin

text \<open>
  Transactions (sway/desktop/transaction.c): the state of the dirty nodes is copied into instructions,
  the clients are told their new sizes, and when all have answered or the time is up the copies become
  the current state of the nodes at once. At most one transaction is on its way (queued) and one
  collects what changes meanwhile (pending). What is then drawn of the current state, the arrange_ functions
  of the file, is the scene graph of wlroots and left out, as are the timings in the log.
\<close>

section \<open>Which views can be seen\<close>

text \<open>
  No container above the view is a tab or a stacked window that is not the active one. A
  workspace there is: a container without parent has the layout of its workspace.
\<close>

fun active_tabs :: "nat \<Rightarrow> sway \<Rightarrow> seat \<Rightarrow> id \<Rightarrow> bool" where
  "active_tabs 0 s t c = True"
| "active_tabs (Suc n) s t c =
     (let layout = container_parent_layout s c in
      if (layout = L_TABBED \<or> layout = L_STACKED) \<and> \<not> container_is_floating s c
        \<and> (case node_get_parent s (N_CONTAINER c) of None \<Rightarrow> False
            | Some p \<Rightarrow> seat_get_active_tiling_child s t p \<noteq> Some (N_CONTAINER c))
      then False
      else case c_parent (cons s c) of None \<Rightarrow> True | Some p \<Rightarrow> active_tabs n s t p)"

fun under_global :: "nat \<Rightarrow> sway \<Rightarrow> id \<Rightarrow> bool" where
  "under_global 0 s c = False"
| "under_global (Suc n) s c =
     (case c_parent (cons s c) of None \<Rightarrow> False
      | Some p \<Rightarrow> c_fullscreen (cons s p) = FULLSCREEN_GLOBAL \<or> under_global n s p)"

definition view_is_visible :: "env \<Rightarrow> sway \<Rightarrow> id \<Rightarrow> bool" where
  "view_is_visible E s c =
     (let w = c_workspace (cons s c) in
      if n_destroying (ninfo s (N_CONTAINER c)) then False
      else if w = None \<and> c_fullscreen (cons s c) \<noteq> FULLSCREEN_GLOBAL \<and> \<not> under_global (next_id s) s c then False
      else if \<not> container_is_sticky_or_child s c
        \<and> (case w of None \<Rightarrow> False | Some w \<Rightarrow> \<not> workspace_is_visible E s w) then False
      else if \<not> active_tabs (next_id s + 1) s (seat_at s (input_manager_current_seat E s)) c then False
      else
        (case (case fullscreen_global s of Some f \<Rightarrow> Some f
               | None \<Rightarrow> (case w of None \<Rightarrow> None | Some w \<Rightarrow> w_fullscreen (wss s w))) of
           None \<Rightarrow> True
         | Some f \<Rightarrow> container_is_fullscreen_or_child s c \<or> container_is_transient_for (e_transient E) s c f))"

section \<open>The copied state\<close>

record output_state =
  os_workspaces :: "id list"
  os_active_workspace :: "id option"

record workspace_state =
  ws_fullscreen :: "id option"
  ws_x :: rat
  ws_y :: rat
  ws_width :: int
  ws_height :: int
  ws_layout :: container_layout
  ws_output :: "id option"
  ws_floating :: "id list"
  ws_tiling :: "id list"
  ws_focused_inactive_child :: "id option"
  ws_focused :: bool

record container_state =
  cs_layout :: container_layout
  cs_x :: rat
  cs_y :: rat
  cs_width :: rat
  cs_height :: rat
  cs_fullscreen_mode :: fullscreen_mode
  cs_workspace :: "id option"
  cs_parent :: "id option"
  cs_children :: "id list"
  cs_focused_inactive_child :: "id option"
  cs_focused :: bool
  cs_border :: container_border
  cs_border_thickness :: int
  cs_border_top :: bool
  cs_border_bottom :: bool
  cs_border_left :: bool
  cs_border_right :: bool
  cs_content_x :: rat
  cs_content_y :: rat
  cs_content_width :: rat
  cs_content_height :: rat

text \<open>The union of the three; the root has no state.\<close>

datatype node_state = Root_State | Output_State output_state | Workspace_State workspace_state
  | Container_State container_state

definition the_seat_of :: "env \<Rightarrow> sway \<Rightarrow> seat" where
  "the_seat_of E s = seat_at s (input_manager_current_seat E s)"

definition copy_output_state :: "env \<Rightarrow> sway \<Rightarrow> id \<Rightarrow> output_state" where
  "copy_output_state E s p =
     \<lparr>os_workspaces = o_workspaces (outs s p), os_active_workspace = output_get_active_workspace E s p\<rparr>"

definition copy_workspace_state :: "env \<Rightarrow> sway \<Rightarrow> id \<Rightarrow> workspace_state" where
  "copy_workspace_state E s w =
     (let x = wss s w; t = the_seat_of E s in
      \<lparr>ws_fullscreen = w_fullscreen x, ws_x = w_x x, ws_y = w_y x, ws_width = w_width x, ws_height = w_height x,
       ws_layout = w_layout x, ws_output = w_output x, ws_floating = w_floating x, ws_tiling = w_tiling x,
       ws_focused_inactive_child = map_option (container_toplevel_ancestor s) (seat_get_focus_inactive_tiling s t w),
       ws_focused = (seat_get_focus t = Some (N_WORKSPACE w))\<rparr>)"

text \<open>The pending state of a container has no focused_inactive_child of its own, so a view copies NULL.\<close>

definition copy_container_state :: "env \<Rightarrow> sway \<Rightarrow> id \<Rightarrow> container_state" where
  "copy_container_state E s c =
     (let x = cons s c; t = the_seat_of E s in
      \<lparr>cs_layout = c_layout x, cs_x = c_x x, cs_y = c_y x, cs_width = c_width x, cs_height = c_height x,
       cs_fullscreen_mode = c_fullscreen x, cs_workspace = c_workspace x, cs_parent = c_parent x,
       cs_children = (if c_view x = None then c_children x else []),
       cs_focused_inactive_child =
         (if c_view x = None
          then (case seat_get_active_tiling_child s t (N_CONTAINER c) of Some (N_CONTAINER d) \<Rightarrow> Some d | _ \<Rightarrow> None)
          else None),
       cs_focused = (seat_get_focus t = Some (N_CONTAINER c)),
       cs_border = c_border x, cs_border_thickness = c_border_thickness x, cs_border_top = c_border_top x,
       cs_border_bottom = c_border_bottom x, cs_border_left = c_border_left x, cs_border_right = c_border_right x,
       cs_content_x = c_content_x x, cs_content_y = c_content_y x, cs_content_width = c_content_width x,
       cs_content_height = c_content_height x\<rparr>)"

definition copy_state :: "env \<Rightarrow> sway \<Rightarrow> node \<Rightarrow> node_state" where
  "copy_state E s n =
     (case n of N_ROOT \<Rightarrow> Root_State
      | N_OUTPUT p \<Rightarrow> Output_State (copy_output_state E s p)
      | N_WORKSPACE w \<Rightarrow> Workspace_State (copy_workspace_state E s w)
      | N_CONTAINER c \<Rightarrow> Container_State (copy_container_state E s c))"

section \<open>Transactions\<close>

text \<open>
  i_id is the address of the instruction. A pointer from a node to its instruction is such an
  address (sv_instruction); sv_current is the current state of the nodes, sv_saved says of which views the
  last picture is kept on the screen (saved_surface_tree), sv_configured what the clients were told,
  newest last, and sv_destroyed the nodes whose memory was freed.
\<close>

record instruction =
  i_id :: nat
  i_node :: node
  i_state :: node_state
  i_serial :: "32 word"
  i_server_request :: bool
  i_waiting :: bool

record transaction =
  t_instructions :: "instruction list"
  t_num_waiting :: nat
  t_num_configures :: nat
  t_timer :: bool

type_synonym configure = "id \<times> rat \<times> rat \<times> rat \<times> rat"

record server =
  sv_sway :: sway
  sv_current :: "node \<Rightarrow> node_state"
  sv_instruction :: "node \<Rightarrow> nat option"
  sv_queued :: "transaction option"
  sv_pending :: "transaction option"
  sv_next :: nat
  sv_saved :: "id \<Rightarrow> bool"
  sv_configured :: "configure list"
  sv_destroyed :: "node list"

text \<open>
  What wlroots and the start of the program decide: the serial of a configure event, which views are
  those of Xwayland, whether the event loop has a timer to give, and the flags noatomic and txn-wait.
\<close>

record txn_env =
  x_env :: env
  x_serial :: "configure list \<Rightarrow> 32 word"
  x_xwayland :: "id \<Rightarrow> bool"
  x_timer :: "configure list \<Rightarrow> bool"
  x_noatomic :: bool
  x_txn_wait :: bool

definition transaction_create :: transaction where
  "transaction_create = \<lparr>t_instructions = [], t_num_waiting = 0, t_num_configures = 0, t_timer = False\<rparr>"

definition set_refs :: "node \<Rightarrow> (nat \<Rightarrow> nat) \<Rightarrow> sway \<Rightarrow> sway" where
  "set_refs n f s = s\<lparr>ninfo := (ninfo s)(n := (ninfo s n)\<lparr>n_ntxnrefs := f (n_ntxnrefs (ninfo s n))\<rparr>)\<rparr>"

section \<open>Collecting the dirty nodes\<close>

text \<open>A node that has an instruction in the transaction gets its new state there.\<close>

definition renew :: "node_state \<Rightarrow> bool \<Rightarrow> instruction \<Rightarrow> instruction" where
  "renew st request i = i\<lparr>i_state := st, i_server_request := i_server_request i \<or> request\<rparr>"

fun renew_first :: "node \<Rightarrow> node_state \<Rightarrow> bool \<Rightarrow> instruction list \<Rightarrow> instruction list option" where
  "renew_first n st request [] = None"
| "renew_first n st request (i # is) =
     (if i_node i = n then Some (renew st request i # is)
      else map_option (Cons i) (renew_first n st request is))"

definition transaction_add_node :: "env \<Rightarrow> bool \<Rightarrow> node \<Rightarrow> transaction \<Rightarrow> server \<Rightarrow> transaction \<times> server" where
  "transaction_add_node E request n t sv =
     (let s = sv_sway sv; st = copy_state E s n;
          found = (if n_ntxnrefs (ninfo s n) > 0 then renew_first n st request (t_instructions t) else None) in
      case found of
        Some is \<Rightarrow> (t\<lparr>t_instructions := is\<rparr>, sv)
      | None \<Rightarrow>
          (t\<lparr>t_instructions := t_instructions t @
               [\<lparr>i_id = sv_next sv, i_node = n, i_state = st, i_serial = 0, i_server_request = request,
                 i_waiting = False\<rparr>]\<rparr>,
           sv\<lparr>sv_next := sv_next sv + 1, sv_sway := set_refs n Suc s\<rparr>))"

definition clean :: "node \<Rightarrow> sway \<Rightarrow> sway" where
  "clean n s = s\<lparr>ninfo := (ninfo s)(n := (ninfo s n)\<lparr>n_dirty := False\<rparr>)\<rparr>"

fun add_nodes :: "env \<Rightarrow> bool \<Rightarrow> node list \<Rightarrow> transaction \<Rightarrow> server \<Rightarrow> transaction \<times> server" where
  "add_nodes E request [] t sv = (t, sv)"
| "add_nodes E request (n # ns) t sv =
     (case transaction_add_node E request n t sv of
        (t, sv) \<Rightarrow> add_nodes E request ns t (sv\<lparr>sv_sway := clean n (sv_sway sv)\<rparr>))"

section \<open>Committing\<close>

definition container_state_zero :: container_state where
  "container_state_zero = \<lparr>cs_layout = L_NONE, cs_x = 0, cs_y = 0, cs_width = 0, cs_height = 0,
     cs_fullscreen_mode = FULLSCREEN_NONE, cs_workspace = None, cs_parent = None, cs_children = [],
     cs_focused_inactive_child = None, cs_focused = False, cs_border = B_NONE, cs_border_thickness = 0,
     cs_border_top = False, cs_border_bottom = False, cs_border_left = False, cs_border_right = False,
     cs_content_x = 0, cs_content_y = 0, cs_content_width = 0, cs_content_height = 0\<rparr>"

definition container_state_of :: "node_state \<Rightarrow> container_state" where
  "container_state_of st = (case st of Container_State x \<Rightarrow> x | _ \<Rightarrow> container_state_zero)"

definition should_configure :: "txn_env \<Rightarrow> server \<Rightarrow> instruction \<Rightarrow> bool" where
  "should_configure X sv i =
     (let s = sv_sway sv; n = i_node i; cur = container_state_of (sv_current sv n); new = container_state_of (i_state i) in
      case n of
        N_CONTAINER c \<Rightarrow>
          if c_view (cons s c) = None then False
          else if n_destroying (ninfo s n) then False
          else if \<not> i_server_request i then False
          else if x_xwayland X c \<and> (c_trunc (cs_content_x cur) \<noteq> c_trunc (cs_content_x new)
                 \<or> c_trunc (cs_content_y cur) \<noteq> c_trunc (cs_content_y new)) then True
          else \<not> (cs_content_width cur = cs_content_width new \<and> cs_content_height cur = cs_content_height new)
      | _ \<Rightarrow> False)"

definition view_configure :: "txn_env \<Rightarrow> id \<Rightarrow> container_state \<Rightarrow> server \<Rightarrow> 32 word \<times> server" where
  "view_configure X c st sv =
     (let k = sv_configured sv @ [(c, cs_content_x st, cs_content_y st, cs_content_width st, cs_content_height st)] in
      (x_serial X k, sv\<lparr>sv_configured := k\<rparr>))"

definition hidden :: "env \<Rightarrow> sway \<Rightarrow> node \<Rightarrow> bool" where
  "hidden E s n \<longleftrightarrow> node_is_view s n \<and> \<not> n_destroying (ninfo s n)
     \<and> (case n of N_CONTAINER c \<Rightarrow> \<not> view_is_visible E s c | _ \<Rightarrow> False)"

definition view_save_buffer :: "node \<Rightarrow> server \<Rightarrow> server" where
  "view_save_buffer n sv = (case n of N_CONTAINER c \<Rightarrow> sv\<lparr>sv_saved := (sv_saved sv)(c := True)\<rparr> | _ \<Rightarrow> sv)"

text \<open>One round of the loop: the instruction as it is afterwards, and the state.\<close>

definition commit_instruction :: "txn_env \<Rightarrow> instruction \<Rightarrow> server \<Rightarrow> instruction \<times> server" where
  "commit_instruction X i sv =
     (let n = i_node i; s = sv_sway sv; hid = hidden (x_env X) s n;
          (i, sv) = (if should_configure X sv i
            then (case n of
                N_CONTAINER c \<Rightarrow>
                  (case view_configure X c (container_state_of (i_state i)) sv of
                     (serial, sv) \<Rightarrow> (i\<lparr>i_serial := serial, i_waiting := i_waiting i \<or> \<not> hid\<rparr>, sv))
              | _ \<Rightarrow> (i, sv))
            else (i, sv));
          sv = (if \<not> hid \<and> node_is_view s n then view_save_buffer n sv else sv) in
      (i, sv\<lparr>sv_instruction := (sv_instruction sv)(n := Some (i_id i))\<rparr>))"

fun commit_instructions :: "txn_env \<Rightarrow> instruction list \<Rightarrow> server \<Rightarrow> instruction list \<times> server" where
  "commit_instructions X [] sv = ([], sv)"
| "commit_instructions X (i # is) sv =
     (case commit_instruction X i sv of (i, sv) \<Rightarrow>
        case commit_instructions X is sv of (is, sv) \<Rightarrow> (i # is, sv))"

text \<open>
  An instruction is committed once, so the instructions that wait afterwards are those counted in the
  loop. The transaction committed is the queued one.
\<close>

definition num_waiting :: "instruction list \<Rightarrow> nat" where
  "num_waiting is = length (filter i_waiting is)"

definition transaction_commit :: "txn_env \<Rightarrow> transaction \<Rightarrow> server \<Rightarrow> server" where
  "transaction_commit X t sv =
     (case commit_instructions X (t_instructions t) sv of
        (is, sv) \<Rightarrow>
          (let k = num_waiting is;
               wait = (if x_noatomic X then 0 else if x_txn_wait X then k + 1000000 else k);
               timer = (wait \<noteq> 0 \<and> x_timer X (sv_configured sv)) in
           sv\<lparr>sv_queued := Some \<lparr>t_instructions = is, t_num_waiting = (if timer then wait else 0), t_num_configures = k,
                t_timer = timer\<rparr>\<rparr>))"

section \<open>Applying\<close>

text \<open>The picture of a view is let go unless a later transaction still needs it for a view that is gone.\<close>

definition apply_container_state :: "id \<Rightarrow> node_state \<Rightarrow> server \<Rightarrow> server" where
  "apply_container_state c st sv =
     (let s = sv_sway sv; k = ninfo s (N_CONTAINER c);
          sv = sv\<lparr>sv_current := (sv_current sv)(N_CONTAINER c := st)\<rparr> in
      if c_view (cons s c) \<noteq> None \<and> sv_saved sv c \<and> (\<not> n_destroying k \<or> n_ntxnrefs k = 1)
      then sv\<lparr>sv_saved := (sv_saved sv)(c := False)\<rparr> else sv)"

definition apply_instruction :: "instruction \<Rightarrow> server \<Rightarrow> server" where
  "apply_instruction i sv =
     (let sv = (case i_node i of N_ROOT \<Rightarrow> sv
            | N_CONTAINER c \<Rightarrow> apply_container_state c (i_state i) sv
            | n \<Rightarrow> sv\<lparr>sv_current := (sv_current sv)(n := i_state i)\<rparr>) in
      sv\<lparr>sv_instruction := (sv_instruction sv)(i_node i := None)\<rparr>)"

definition transaction_apply :: "transaction \<Rightarrow> server \<Rightarrow> server" where
  "transaction_apply t sv = fold apply_instruction (t_instructions t) sv"

text \<open>Freeing a workspace first closes the windows still in its minimize pool.\<close>

definition node_destroy :: "txn_env \<Rightarrow> node \<Rightarrow> server \<Rightarrow> server" where
  "node_destroy X n sv =
     (let free = (\<lambda>sv. sv\<lparr>sv_destroyed := sv_destroyed sv @ [n]\<rparr>) in
      case n of
        N_ROOT \<Rightarrow> sv
      | N_WORKSPACE w \<Rightarrow>
          free (sv\<lparr>sv_sway := fold (container_begin_destroy (x_env X)) (w_minimized (wss (sv_sway sv) w)) (sv_sway sv)\<rparr>)
      | _ \<Rightarrow> free sv)"

definition release_instruction :: "txn_env \<Rightarrow> instruction \<Rightarrow> server \<Rightarrow> server" where
  "release_instruction X i sv =
     (let n = i_node i;
          sv = sv\<lparr>sv_sway := set_refs n (\<lambda>k. k - 1) (sv_sway sv)\<rparr>;
          sv = (if sv_instruction sv n = Some (i_id i)
                then sv\<lparr>sv_instruction := (sv_instruction sv)(n := None)\<rparr> else sv);
          k = ninfo (sv_sway sv) n in
      if n_destroying k \<and> n_ntxnrefs k = 0 \<and> \<not> n_dirty k then node_destroy X n sv else sv)"

definition transaction_destroy :: "txn_env \<Rightarrow> transaction \<Rightarrow> server \<Rightarrow> server" where
  "transaction_destroy X t sv = fold (release_instruction X) (t_instructions t) sv"

section \<open>Progress\<close>

text \<open>
  transaction_progress and transaction_commit_pending call each other: once for the queued transaction
  and once for the pending one.
\<close>

definition queue_pending :: "txn_env \<Rightarrow> server \<Rightarrow> server" where
  "queue_pending X sv =
     (case sv_pending sv of None \<Rightarrow> sv
      | Some t \<Rightarrow> transaction_commit X t (sv\<lparr>sv_pending := None\<rparr>))"

definition transaction_finish :: "txn_env \<Rightarrow> transaction \<Rightarrow> server \<Rightarrow> server" where
  "transaction_finish X t sv = (transaction_destroy X t (transaction_apply t sv))\<lparr>sv_queued := None\<rparr>"

lemma fold_same: "(\<And>x sv. g (f x sv) = g sv) \<Longrightarrow> g (fold f xs sv) = g sv"
  by (induction xs arbitrary: sv) auto

lemma apply_instruction_same [simp]:
  "sv_pending (apply_instruction i sv) = sv_pending sv" "sv_queued (apply_instruction i sv) = sv_queued sv"
  "sv_sway (apply_instruction i sv) = sv_sway sv" "sv_next (apply_instruction i sv) = sv_next sv"
  "sv_destroyed (apply_instruction i sv) = sv_destroyed sv" "sv_configured (apply_instruction i sv) = sv_configured sv"
  by (simp_all add: apply_instruction_def apply_container_state_def Let_def split: node.split)

lemma transaction_apply_same [simp]:
  "sv_pending (transaction_apply t sv) = sv_pending sv" "sv_queued (transaction_apply t sv) = sv_queued sv"
  "sv_sway (transaction_apply t sv) = sv_sway sv" "sv_next (transaction_apply t sv) = sv_next sv"
  "sv_destroyed (transaction_apply t sv) = sv_destroyed sv" "sv_configured (transaction_apply t sv) = sv_configured sv"
  by (simp_all add: transaction_apply_def fold_same)

lemma release_instruction_same [simp]:
  "sv_pending (release_instruction X i sv) = sv_pending sv" "sv_queued (release_instruction X i sv) = sv_queued sv"
  "sv_current (release_instruction X i sv) = sv_current sv" "sv_next (release_instruction X i sv) = sv_next sv"
  "sv_saved (release_instruction X i sv) = sv_saved sv" "sv_configured (release_instruction X i sv) = sv_configured sv"
  by (simp_all add: release_instruction_def node_destroy_def Let_def split: node.split)

lemma transaction_destroy_same [simp]:
  "sv_pending (transaction_destroy X t sv) = sv_pending sv" "sv_queued (transaction_destroy X t sv) = sv_queued sv"
  "sv_current (transaction_destroy X t sv) = sv_current sv" "sv_next (transaction_destroy X t sv) = sv_next sv"
  "sv_saved (transaction_destroy X t sv) = sv_saved sv" "sv_configured (transaction_destroy X t sv) = sv_configured sv"
  by (simp_all add: transaction_destroy_def fold_same)

lemma commit_instruction_same [simp]:
  "sv_pending (snd (commit_instruction X i sv)) = sv_pending sv" "sv_queued (snd (commit_instruction X i sv)) = sv_queued sv"
  "sv_current (snd (commit_instruction X i sv)) = sv_current sv" "sv_next (snd (commit_instruction X i sv)) = sv_next sv"
  "sv_sway (snd (commit_instruction X i sv)) = sv_sway sv" "sv_destroyed (snd (commit_instruction X i sv)) = sv_destroyed sv"
  "i_id (fst (commit_instruction X i sv)) = i_id i" "i_node (fst (commit_instruction X i sv)) = i_node i"
  "i_state (fst (commit_instruction X i sv)) = i_state i"
  by (simp_all add: commit_instruction_def view_configure_def view_save_buffer_def Let_def split: node.split)

lemma commit_instructions_Cons:
  "commit_instructions X (i # is) sv =
     (fst (commit_instruction X i sv) # fst (commit_instructions X is (snd (commit_instruction X i sv))),
      snd (commit_instructions X is (snd (commit_instruction X i sv))))"
  by (simp add: split_beta)

lemma commit_instructions_same [simp]:
  "sv_pending (snd (commit_instructions X is sv)) = sv_pending sv" "sv_queued (snd (commit_instructions X is sv)) = sv_queued sv"
  "sv_current (snd (commit_instructions X is sv)) = sv_current sv" "sv_next (snd (commit_instructions X is sv)) = sv_next sv"
  "sv_sway (snd (commit_instructions X is sv)) = sv_sway sv" "sv_destroyed (snd (commit_instructions X is sv)) = sv_destroyed sv"
  "map i_id (fst (commit_instructions X is sv)) = map i_id is" "map i_node (fst (commit_instructions X is sv)) = map i_node is"
  "map i_state (fst (commit_instructions X is sv)) = map i_state is"
  by (induction "is" arbitrary: sv) (simp_all add: commit_instructions_Cons del: commit_instructions.simps(2))

lemma transaction_commit_same [simp]:
  "sv_pending (transaction_commit X t sv) = sv_pending sv" "sv_current (transaction_commit X t sv) = sv_current sv"
  "sv_next (transaction_commit X t sv) = sv_next sv" "sv_sway (transaction_commit X t sv) = sv_sway sv"
  "sv_destroyed (transaction_commit X t sv) = sv_destroyed sv" "sv_queued (transaction_commit X t sv) \<noteq> None"
  by (simp_all add: transaction_commit_def split_beta Let_def)

function transaction_progress :: "txn_env \<Rightarrow> server \<Rightarrow> server" where
  "transaction_progress X sv =
     (case sv_queued sv of None \<Rightarrow> sv
      | Some t \<Rightarrow>
          if t_num_waiting t > 0 then sv
          else (let sv = transaction_finish X t sv in
                if sv_pending sv = None then sv else transaction_progress X (queue_pending X sv)))"
  by pat_completeness auto
termination
  by (relation "measure (\<lambda>(X, sv). if sv_pending sv = None then 0 else 1)")
    (auto simp: queue_pending_def transaction_finish_def)

declare transaction_progress.simps [simp del]

definition transaction_commit_pending :: "txn_env \<Rightarrow> server \<Rightarrow> server" where
  "transaction_commit_pending X sv =
     (if sv_queued sv \<noteq> None then sv else transaction_progress X (queue_pending X sv))"

section \<open>Events\<close>

text \<open>transaction_commit_dirty (request True) and transaction_commit_dirty_client (request False).\<close>

definition commit_dirty :: "txn_env \<Rightarrow> bool \<Rightarrow> server \<Rightarrow> server" where
  "commit_dirty X request sv =
     (if dirty_nodes (sv_sway sv) = [] then sv
      else
        (let t = (case sv_pending sv of Some t \<Rightarrow> t | None \<Rightarrow> transaction_create) in
         case add_nodes (x_env X) request (dirty_nodes (sv_sway sv)) t sv of
           (t, sv) \<Rightarrow> transaction_commit_pending X
             (sv\<lparr>sv_pending := Some t, sv_sway := (sv_sway sv)\<lparr>dirty_nodes := []\<rparr>\<rparr>)))"

definition transaction_commit_dirty :: "txn_env \<Rightarrow> server \<Rightarrow> server" where
  "transaction_commit_dirty X = commit_dirty X True"

definition transaction_commit_dirty_client :: "txn_env \<Rightarrow> server \<Rightarrow> server" where
  "transaction_commit_dirty_client X = commit_dirty X False"

text \<open>The timer of the queued transaction.\<close>

definition handle_timeout :: "txn_env \<Rightarrow> server \<Rightarrow> server" where
  "handle_timeout X sv =
     (case sv_queued sv of None \<Rightarrow> sv
      | Some t \<Rightarrow> transaction_progress X (sv\<lparr>sv_queued := Some (t\<lparr>t_num_waiting := 0\<rparr>)\<rparr>))"

text \<open>
  The instruction a pointer leads to: it belongs to the queued transaction, as no_dangling of theory
  Transaction_Laws says.
\<close>

definition instruction_at :: "server \<Rightarrow> nat \<Rightarrow> instruction option" where
  "instruction_at sv a = (case sv_queued sv of None \<Rightarrow> None
     | Some t \<Rightarrow> List.find (\<lambda>i. i_id i = a) (t_instructions t))"

definition set_instruction_ready :: "txn_env \<Rightarrow> instruction \<Rightarrow> server \<Rightarrow> server" where
  "set_instruction_ready X i sv =
     (let sv = sv\<lparr>sv_queued := map_option (\<lambda>t. if i_waiting i \<and> t_num_waiting t > 0
                  then t\<lparr>t_num_waiting := t_num_waiting t - 1\<rparr> else t) (sv_queued sv),
                sv_instruction := (sv_instruction sv)(i_node i := None)\<rparr> in
      transaction_progress X sv)"

definition notified :: "server \<Rightarrow> id \<Rightarrow> instruction option" where
  "notified sv c = (case sv_instruction sv (N_CONTAINER c) of None \<Rightarrow> None | Some a \<Rightarrow> instruction_at sv a)"

definition transaction_notify_view_ready_by_serial :: "txn_env \<Rightarrow> id \<Rightarrow> 32 word \<Rightarrow> server \<Rightarrow> bool \<times> server" where
  "transaction_notify_view_ready_by_serial X c serial sv =
     (case notified sv c of None \<Rightarrow> (False, sv)
      | Some i \<Rightarrow> if i_serial i = serial then (True, set_instruction_ready X i sv) else (False, sv))"

definition transaction_notify_view_ready_by_geometry ::
    "txn_env \<Rightarrow> id \<Rightarrow> rat \<Rightarrow> rat \<Rightarrow> int \<Rightarrow> int \<Rightarrow> server \<Rightarrow> bool \<times> server" where
  "transaction_notify_view_ready_by_geometry X c x y width height sv =
     (case notified sv c of None \<Rightarrow> (False, sv)
      | Some i \<Rightarrow>
          (let st = container_state_of (i_state i) in
           if c_trunc (cs_content_x st) = c_trunc x \<and> c_trunc (cs_content_y st) = c_trunc y
             \<and> cs_content_width st = of_int width \<and> cs_content_height st = of_int height
           then (True, set_instruction_ready X i sv) else (False, sv)))"

end
