(* ===== verification/Transaction_Laws.thy ===== *)
theory Transaction_Laws
  imports Transaction Steady Sample
begin

text \<open>
  What the transactions keep, whatever happens in between: no node points to an instruction that is gone,
  every node counts its instructions, a node is freed only when nothing refers to it, a transaction on its
  way waits for exactly the views that have not answered, and what is committed last is what becomes
  current.
\<close>

section \<open>The invariant\<close>

definition instrs :: "transaction option \<Rightarrow> instruction list" where
  "instrs t = (case t of None \<Rightarrow> [] | Some t \<Rightarrow> t_instructions t)"

lemma instrs_simps [simp]: "instrs None = []" "instrs (Some t) = t_instructions t"
  by (simp_all add: instrs_def)

abbreviation nodes :: "instruction list \<Rightarrow> node list" where
  "nodes is \<equiv> map i_node is"

definition refs_of :: "sway \<Rightarrow> node \<Rightarrow> nat" where
  "refs_of s n = n_ntxnrefs (ninfo s n)"

text \<open>The counts, the pointers, the freed nodes and the kept pictures, given the two lists of instructions.\<close>

definition lists_ok :: "instruction list \<Rightarrow> instruction list \<Rightarrow> server \<Rightarrow> bool" where
  "lists_ok qs ps sv \<longleftrightarrow>
     (\<forall>n. refs_of (sv_sway sv) n = count_list (nodes (qs @ ps)) n)
     \<and> distinct (nodes qs) \<and> distinct (nodes ps)
     \<and> distinct (map i_id (qs @ ps)) \<and> (\<forall>i\<in>set (qs @ ps). i_id i < sv_next sv)
     \<and> (\<forall>n a. sv_instruction sv n = Some a \<longrightarrow> (\<exists>i\<in>set qs. i_id i = a \<and> i_node i = n))"

definition freed_ok :: "server \<Rightarrow> bool" where
  "freed_ok sv \<longleftrightarrow> (\<forall>n\<in>set (sv_destroyed sv).
     n_destroying (ninfo (sv_sway sv) n) \<and> \<not> n_dirty (ninfo (sv_sway sv) n) \<and> refs_of (sv_sway sv) n = 0)"

definition saved_ok :: "node list \<Rightarrow> server \<Rightarrow> bool" where
  "saved_ok ns sv \<longleftrightarrow> (\<forall>c. sv_saved sv c \<longrightarrow> N_CONTAINER c \<in> set ns \<and> c_view (cons (sv_sway sv) c) \<noteq> None)"

definition base_ok :: "server \<Rightarrow> bool" where
  "base_ok sv \<longleftrightarrow> dirty_ok (sv_sway sv) \<and> lists_ok (instrs (sv_queued sv)) (instrs (sv_pending sv)) sv \<and> freed_ok sv
     \<and> saved_ok (nodes (instrs (sv_queued sv) @ instrs (sv_pending sv))) sv"

definition unanswered :: "server \<Rightarrow> instruction \<Rightarrow> bool" where
  "unanswered sv i \<longleftrightarrow> i_waiting i \<and> sv_instruction sv (i_node i) = Some (i_id i)"

definition counted :: "txn_env \<Rightarrow> server \<Rightarrow> bool" where
  "counted X sv \<longleftrightarrow> (\<forall>t. sv_queued sv = Some t \<and> t_num_waiting t > 0 \<longrightarrow>
     t_timer t \<and> \<not> x_noatomic X
     \<and> t_num_waiting t = length (filter (unanswered sv) (t_instructions t)) + (if x_txn_wait X then 1000000 else 0))"

definition settled :: "server \<Rightarrow> bool" where
  "settled sv \<longleftrightarrow> (case sv_queued sv of None \<Rightarrow> sv_pending sv = None | Some t \<Rightarrow> t_num_waiting t > 0)"

definition sv_ok :: "txn_env \<Rightarrow> server \<Rightarrow> bool" where
  "sv_ok X sv \<longleftrightarrow> base_ok sv \<and> counted X sv \<and> settled sv"

lemma count_list_0: "count_list xs x = 0 \<longleftrightarrow> x \<notin> set xs"
  by (induction xs) auto

lemma count_list_distinct: "distinct xs \<Longrightarrow> count_list xs x = (if x \<in> set xs then 1 else 0)"
  by (induction xs) (auto simp: count_list_0)

lemma lists_ok_pointer: "lists_ok qs ps sv \<Longrightarrow> n \<notin> set (nodes qs) \<Longrightarrow> sv_instruction sv n = None"
  unfolding lists_ok_def by (cases "sv_instruction sv n") force+

lemma lists_ok_points: "lists_ok qs ps sv \<Longrightarrow> sv_instruction sv n = Some a \<Longrightarrow> \<exists>i\<in>set qs. i_id i = a \<and> i_node i = n"
  unfolding lists_ok_def by blast

lemma lists_ok_same:
  assumes "lists_ok qs ps sv" "i \<in> set qs" "j \<in> set qs"
  shows "i_id i = i_id j \<Longrightarrow> i = j" "i_node i = i_node j \<Longrightarrow> i = j"
  using assms by (auto simp: lists_ok_def distinct_map dest: inj_onD)

lemma slots_ok [simp]:
  "freed_ok (sv\<lparr>sv_queued := q\<rparr>) = freed_ok sv" "freed_ok (sv\<lparr>sv_pending := p\<rparr>) = freed_ok sv"
  "saved_ok ns (sv\<lparr>sv_queued := q\<rparr>) = saved_ok ns sv" "saved_ok ns (sv\<lparr>sv_pending := p\<rparr>) = saved_ok ns sv"
  "lists_ok qs ps (sv\<lparr>sv_queued := q\<rparr>) = lists_ok qs ps sv" "lists_ok qs ps (sv\<lparr>sv_pending := p\<rparr>) = lists_ok qs ps sv"
  by (simp_all add: freed_ok_def saved_ok_def lists_ok_def)

section \<open>Changes of the tree\<close>

lemma steady_refs: "steady s s' \<Longrightarrow> refs_of s' n = refs_of s n"
  by (simp add: steady_def refs_of_def)

lemma lists_ok_sway: "lists_ok qs ps sv \<Longrightarrow> (\<And>n. refs_of s n = refs_of (sv_sway sv) n) \<Longrightarrow> lists_ok qs ps (sv\<lparr>sv_sway := s\<rparr>)"
  by (simp add: lists_ok_def)

lemma freed_ok_steady: "freed_ok sv \<Longrightarrow> steady (sv_sway sv) s \<Longrightarrow> freed_ok (sv\<lparr>sv_sway := s\<rparr>)"
  by (auto simp: freed_ok_def steady_refs) (auto simp: steady_def)

lemma saved_ok_steady: "saved_ok ns sv \<Longrightarrow> steady (sv_sway sv) s \<Longrightarrow> saved_ok ns (sv\<lparr>sv_sway := s\<rparr>)"
  by (simp add: saved_ok_def steady_def)

lemma base_ok_steady: "base_ok sv \<Longrightarrow> steady (sv_sway sv) s \<Longrightarrow> base_ok (sv\<lparr>sv_sway := s\<rparr>)"
  unfolding base_ok_def using freed_ok_steady[of sv s] saved_ok_steady[of _ sv s] lists_ok_sway[of _ _ sv s] steady_refs[of "sv_sway sv" s]
  by (simp add: steady_def)

lemma unanswered_sway [simp]: "unanswered (sv\<lparr>sv_sway := s\<rparr>) = unanswered sv"
  by (simp add: unanswered_def fun_eq_iff)

lemma sv_ok_steady: "sv_ok X sv \<Longrightarrow> steady (sv_sway sv) s \<Longrightarrow> sv_ok X (sv\<lparr>sv_sway := s\<rparr>)"
  unfolding sv_ok_def using base_ok_steady[of sv s] by (auto simp: counted_def settled_def split: option.splits)

section \<open>Applying\<close>

lemma apply_sway [simp]: "sv_sway (fold apply_instruction is sv) = sv_sway sv"
  by (simp add: fold_same)

lemma apply_instruction_pointer: "sv_instruction (apply_instruction i sv) n = (if n = i_node i then None else sv_instruction sv n)"
  by (simp add: apply_instruction_def apply_container_state_def Let_def split: node.split)

lemma apply_pointer: "sv_instruction (fold apply_instruction is sv) n = (if n \<in> set (nodes is) then None else sv_instruction sv n)"
  by (induction "is" arbitrary: sv) (auto simp: apply_instruction_pointer)

lemma apply_instruction_current:
  "sv_current (apply_instruction i sv) n = (if n = i_node i \<and> n \<noteq> N_ROOT then i_state i else sv_current sv n)"
  by (auto simp: apply_instruction_def apply_container_state_def Let_def split: node.split)

lemma apply_current:
  "distinct (nodes is) \<Longrightarrow> sv_current (fold apply_instruction is sv) n =
     (case List.find (\<lambda>i. i_node i = n) is of Some i \<Rightarrow> if n = N_ROOT then sv_current sv n else i_state i | None \<Rightarrow> sv_current sv n)"
proof (induction "is" arbitrary: sv)
  case (Cons i "is")
  have "List.find (\<lambda>j. i_node j = i_node i) is = None" using Cons.prems by (simp add: find_None_iff) (metis image_eqI)
  then show ?case using Cons by (auto simp: apply_instruction_current split: option.split)
qed simp

definition keeps_picture :: "server \<Rightarrow> id \<Rightarrow> bool" where
  "keeps_picture sv c \<longleftrightarrow> c_view (cons (sv_sway sv) c) = None
     \<or> (n_destroying (ninfo (sv_sway sv) (N_CONTAINER c)) \<and> refs_of (sv_sway sv) (N_CONTAINER c) \<noteq> 1)"

lemma apply_instruction_saved:
  "sv_saved (apply_instruction i sv) c \<longleftrightarrow> sv_saved sv c \<and> (i_node i = N_CONTAINER c \<longrightarrow> keeps_picture sv c)"
  by (auto simp: apply_instruction_def apply_container_state_def keeps_picture_def refs_of_def Let_def split: node.split)

lemma apply_saved:
  "sv_saved (fold apply_instruction is sv) c \<longleftrightarrow> sv_saved sv c \<and> (N_CONTAINER c \<in> set (nodes is) \<longrightarrow> keeps_picture sv c)"
  by (induction "is" arbitrary: sv) (auto simp: apply_instruction_saved keeps_picture_def)

section \<open>Destroying a transaction\<close>

locale txn =
  fixes X :: txn_env
  assumes focus: "steady_focus (x_env X)"
begin

lemma close_steady: "steady s (fold (container_begin_destroy (x_env X)) cs s)"
  by (rule steady_fold_step[OF steady_focus.begin_destroy_steady[OF focus] steady_refl])

text \<open>The state while the instructions of the list are still to be released.\<close>

definition releasing :: "instruction list \<Rightarrow> instruction list \<Rightarrow> server \<Rightarrow> bool" where
  "releasing is ps sv \<longleftrightarrow> dirty_ok (sv_sway sv) \<and> freed_ok sv \<and> saved_ok (nodes ps) sv
     \<and> (\<forall>n. refs_of (sv_sway sv) n = count_list (nodes (is @ ps)) n) \<and> (\<forall>n. sv_instruction sv n = None)"

lemma releasing_steady: "releasing is ps sv \<Longrightarrow> steady (sv_sway sv) s \<Longrightarrow> releasing is ps (sv\<lparr>sv_sway := s\<rparr>)"
  using freed_ok_steady[of sv s] saved_ok_steady[of _ sv s] steady_refs[of "sv_sway sv" s]
  by (simp add: releasing_def) (simp add: steady_def)

lemma releasing_append:
  assumes "releasing is ps sv" "n_destroying (ninfo (sv_sway sv) n)" "refs_of (sv_sway sv) n = 0" "\<not> n_dirty (ninfo (sv_sway sv) n)"
  shows "releasing is ps (sv\<lparr>sv_destroyed := sv_destroyed sv @ [n]\<rparr>)"
proof -
  have freed: "freed_ok sv" using assms(1) by (simp add: releasing_def)
  have "freed_ok (sv\<lparr>sv_destroyed := sv_destroyed sv @ [n]\<rparr>)"
    using assms(2-4) freed by (simp add: freed_ok_def)
  then show ?thesis using assms(1) by (simp add: releasing_def saved_ok_def)
qed

lemma releasing_free:
  assumes "releasing is ps sv" "n_destroying (ninfo (sv_sway sv) n)" "refs_of (sv_sway sv) n = 0" "\<not> n_dirty (ninfo (sv_sway sv) n)"
  shows "releasing is ps (node_destroy X n sv)"
proof (cases n)
  case (N_WORKSPACE w)
  let ?s = "fold (container_begin_destroy (x_env X)) (w_minimized (wss (sv_sway sv) w)) (sv_sway sv)"
  have st: "steady (sv_sway sv) ?s" by (rule close_steady)
  have "releasing is ps (sv\<lparr>sv_sway := ?s\<rparr>)" by (rule releasing_steady[OF assms(1) st])
  moreover have "n_destroying (ninfo ?s n)" "refs_of ?s n = 0" "\<not> n_dirty (ninfo ?s n)"
    using st assms(2-4) by (simp_all add: steady_def refs_of_def)
  ultimately show ?thesis using releasing_append[of "is" ps "sv\<lparr>sv_sway := ?s\<rparr>" n] by (simp add: node_destroy_def N_WORKSPACE)
qed (use assms releasing_append[OF assms] in \<open>simp_all add: node_destroy_def\<close>)

lemma release_one:
  assumes "releasing (i # is) ps sv"
  shows "releasing is ps (release_instruction X i sv)"
proof -
  let ?n = "i_node i"
  let ?sv = "sv\<lparr>sv_sway := set_refs ?n (\<lambda>k. k - 1) (sv_sway sv)\<rparr>"
  have refs: "refs_of (sv_sway ?sv) m = (if m = ?n then refs_of (sv_sway sv) m - 1 else refs_of (sv_sway sv) m)" for m
    by (simp add: refs_of_def set_refs_def)
  have pos: "refs_of (sv_sway sv) ?n > 0" using assms by (simp add: releasing_def)
  have "releasing is ps ?sv"
    using assms pos by (auto simp: releasing_def refs freed_ok_def saved_ok_def dirty_ok_def set_refs_def refs_of_def)
  moreover have "sv_instruction ?sv ?n = None" using assms by (simp add: releasing_def)
  ultimately show ?thesis
    using releasing_free[of "is" ps ?sv ?n] by (simp add: release_instruction_def Let_def refs_of_def)
qed

lemma release_all: "releasing is ps sv \<Longrightarrow> releasing [] ps (fold (release_instruction X) is sv)"
  by (induction "is" arbitrary: sv) (simp_all add: release_one)

lemma apply_releasing:
  assumes ok: "base_ok sv" and q: "sv_queued sv = Some t"
  shows "releasing (t_instructions t) (instrs (sv_pending sv)) (transaction_apply t sv)"
proof -
  let ?qs = "t_instructions t" and ?ps = "instrs (sv_pending sv)"
  have lists: "lists_ok ?qs ?ps sv" and saved: "saved_ok (nodes (?qs @ ?ps)) sv"
    using ok q by (simp_all add: base_ok_def)
  have "N_CONTAINER c \<in> set (nodes ?ps) \<and> c_view (cons (sv_sway sv) c) \<noteq> None"
    if "sv_saved sv c" "N_CONTAINER c \<in> set (nodes ?qs) \<longrightarrow> keeps_picture sv c" for c
  proof (cases "N_CONTAINER c \<in> set (nodes ?qs)")
    case True
    have view: "c_view (cons (sv_sway sv) c) \<noteq> None" using saved that(1) by (simp add: saved_ok_def)
    have "count_list (nodes ?qs) (N_CONTAINER c) = 1" using lists True by (simp add: lists_ok_def count_list_distinct)
    moreover have "refs_of (sv_sway sv) (N_CONTAINER c) \<noteq> 1" using that(2) True view by (simp add: keeps_picture_def)
    ultimately have "count_list (nodes ?ps) (N_CONTAINER c) \<noteq> 0" using lists by (simp add: lists_ok_def)
    then show ?thesis using view by (simp add: count_list_0)
  qed (use saved that(1) in \<open>auto simp: saved_ok_def\<close>)
  moreover have "sv_instruction (transaction_apply t sv) n = None" for n
  proof (cases "n \<in> set (nodes ?qs)")
    case False
    then show ?thesis using lists_ok_pointer[OF lists] by (simp add: transaction_apply_def apply_pointer)
  qed (simp add: transaction_apply_def apply_pointer)
  moreover have "freed_ok (transaction_apply t sv)" using ok by (simp add: base_ok_def freed_ok_def)
  ultimately show ?thesis
    using ok lists by (simp add: releasing_def base_ok_def lists_ok_def saved_ok_def) (simp add: transaction_apply_def apply_saved)
qed

lemma finish_ok:
  assumes ok: "base_ok sv" and q: "sv_queued sv = Some t"
  shows "base_ok (transaction_finish X t sv)"
proof -
  have "releasing [] (instrs (sv_pending sv)) (transaction_destroy X t (transaction_apply t sv))"
    unfolding transaction_destroy_def by (rule release_all[OF apply_releasing[OF assms]])
  moreover have "lists_ok (t_instructions t) (instrs (sv_pending sv)) sv" using assms by (simp add: base_ok_def)
  ultimately have "lists_ok [] (instrs (sv_pending sv)) (transaction_destroy X t (transaction_apply t sv))"
    by (simp add: lists_ok_def releasing_def)
  then show ?thesis using \<open>releasing [] _ _\<close> by (simp add: base_ok_def transaction_finish_def releasing_def)
qed

section \<open>Committing a transaction\<close>

lemma commit_saved:
  "sv_saved (snd (commit_instruction X i sv)) c \<Longrightarrow>
     sv_saved sv c \<or> (i_node i = N_CONTAINER c \<and> c_view (cons (sv_sway sv) c) \<noteq> None)"
  by (auto simp: commit_instruction_def view_configure_def view_save_buffer_def node_is_view_def Let_def split: node.splits if_splits)

lemma commit_all_saved:
  "sv_saved (snd (commit_instructions X is sv)) c \<Longrightarrow>
     sv_saved sv c \<or> (N_CONTAINER c \<in> set (nodes is) \<and> c_view (cons (sv_sway sv) c) \<noteq> None)"
proof (induction "is" arbitrary: sv)
  case (Cons i "is")
  show ?case using Cons.IH[OF Cons.prems[unfolded commit_instructions_Cons snd_conv]] commit_saved[of i sv c] by auto
qed simp

lemma commit_pointer:
  "sv_instruction (snd (commit_instruction X i sv)) n = (if n = i_node i then Some (i_id i) else sv_instruction sv n)"
  by (simp add: commit_instruction_def view_configure_def view_save_buffer_def Let_def split: node.split)

lemma commit_all_other:
  "n \<notin> set (nodes is) \<Longrightarrow> sv_instruction (snd (commit_instructions X is sv)) n = sv_instruction sv n"
  by (induction "is" arbitrary: sv) (simp_all add: commit_instructions_Cons commit_pointer del: commit_instructions.simps(2))

lemma commit_all_points:
  "distinct (nodes is) \<Longrightarrow> i \<in> set (fst (commit_instructions X is sv)) \<Longrightarrow>
     sv_instruction (snd (commit_instructions X is sv)) (i_node i) = Some (i_id i)"
proof (induction "is" arbitrary: sv)
  case (Cons j "is")
  show ?case
  proof (cases "i \<in> set (fst (commit_instructions X is (snd (commit_instruction X j sv))))")
    case True
    then show ?thesis using Cons by (simp add: commit_instructions_Cons del: commit_instructions.simps(2))
  next
    case False
    then have "i = fst (commit_instruction X j sv)"
      using Cons.prems(2) by (simp add: commit_instructions_Cons del: commit_instructions.simps(2))
    then show ?thesis
      using Cons.prems(1) by (simp add: commit_instructions_Cons commit_all_other commit_pointer del: commit_instructions.simps(2))
  qed
qed simp

lemma commit_lists:
  assumes "lists_ok [] is sv"
  shows "lists_ok (fst (commit_instructions X is sv)) [] (snd (commit_instructions X is sv))"
proof -
  let ?is = "fst (commit_instructions X is sv)" and ?sv = "snd (commit_instructions X is sv)"
  note same = commit_instructions_same[of X "is" sv]
  have ids: "(\<forall>i\<in>set ?is. i_id i < k) \<longleftrightarrow> (\<forall>i\<in>set is. i_id i < k)" for k
    using same(7) by (metis (no_types, lifting) image_iff list.set_map)
  have "\<exists>i\<in>set ?is. i_id i = a \<and> i_node i = n" if a: "sv_instruction ?sv n = Some a" for n a
  proof (cases "n \<in> set (nodes ?is)")
    case True
    then obtain i where i: "i \<in> set ?is" "n = i_node i" unfolding set_map by (rule imageE) blast
    then have "sv_instruction ?sv n = Some (i_id i)" using commit_all_points[of "is" i sv] assms by (simp add: lists_ok_def)
    then show ?thesis using i a by auto
  next
    case False
    then have "sv_instruction sv n = Some a" using a commit_all_other[of n "is" sv] same(8) by simp
    then show ?thesis using assms by (simp add: lists_ok_def)
  qed
  then show ?thesis using assms same ids by (simp add: lists_ok_def)
qed

lemma queue_pending_ok:
  assumes ok: "base_ok sv" and q: "sv_queued sv = None" and p: "sv_pending sv = Some t"
  shows "base_ok (queue_pending X sv)" "counted X (queue_pending X sv)" "sv_pending (queue_pending X sv) = None"
proof -
  let ?from = "sv\<lparr>sv_pending := None\<rparr>"
  let ?is = "fst (commit_instructions X (t_instructions t) ?from)" and ?sv = "snd (commit_instructions X (t_instructions t) ?from)"
  have lists0: "lists_ok [] (t_instructions t) ?from" and d: "dirty_ok (sv_sway sv)" "freed_ok sv"
    "saved_ok (nodes (t_instructions t)) sv" using ok q p by (simp_all add: base_ok_def)
  have lists: "lists_ok ?is [] ?sv" by (rule commit_lists[OF lists0])
  have "saved_ok (nodes ?is) ?sv"
    using d(3) commit_all_saved[of "t_instructions t" ?from] by (fastforce simp: saved_ok_def)
  moreover have "freed_ok ?sv" using d(2) by (simp add: freed_ok_def)
  ultimately show "base_ok (queue_pending X sv)"
    using d(1) lists by (simp add: base_ok_def queue_pending_def p transaction_commit_def split_beta Let_def)
  have "filter (unanswered ?sv) ?is = filter i_waiting ?is"
    using commit_all_points[of "t_instructions t" _ ?from] lists0
    by (intro filter_cong) (simp_all add: unanswered_def lists_ok_def)
  then show "counted X (queue_pending X sv)"
    by (auto simp: counted_def queue_pending_def p transaction_commit_def split_beta Let_def num_waiting_def unanswered_def
        cong: filter_cong split: if_splits)
  show "sv_pending (queue_pending X sv) = None" by (simp add: queue_pending_def p)
qed

section \<open>Progress\<close>

lemma progress_stays:
  assumes "base_ok sv" "counted X sv" "case sv_queued sv of None \<Rightarrow> sv_pending sv = None | Some t \<Rightarrow> t_num_waiting t > 0"
  shows "transaction_progress X sv = sv" "sv_ok X sv"
  using assms by (auto simp: transaction_progress.simps sv_ok_def settled_def split: option.splits)

lemma finish_slots [simp]:
  "sv_queued (transaction_finish X t sv) = None" "sv_pending (transaction_finish X t sv) = sv_pending sv"
  by (simp_all add: transaction_finish_def)

lemma progress_last:
  assumes "base_ok sv" "counted X sv" "sv_pending sv = None"
  shows "sv_ok X (transaction_progress X sv)"
proof (cases "case sv_queued sv of None \<Rightarrow> True | Some t \<Rightarrow> t_num_waiting t > 0")
  case True
  then show ?thesis using progress_stays[of sv] assms by (auto split: option.splits)
next
  case False
  then obtain t where t: "sv_queued sv = Some t" "t_num_waiting t = 0" by (auto split: option.splits)
  then have "transaction_progress X sv = transaction_finish X t sv"
    using assms(3) by (simp add: transaction_progress.simps Let_def)
  then show ?thesis using finish_ok[OF assms(1) t(1)] assms(3) by (simp add: sv_ok_def counted_def settled_def)
qed

lemma progress_ok:
  assumes "base_ok sv" "counted X sv" "sv_queued sv = None \<Longrightarrow> sv_pending sv = None"
  shows "sv_ok X (transaction_progress X sv)"
proof (cases "sv_pending sv = None \<or> (case sv_queued sv of None \<Rightarrow> True | Some t \<Rightarrow> t_num_waiting t > 0)")
  case True
  then show ?thesis using progress_last progress_stays[of sv] assms by (auto split: option.splits)
next
  case False
  then obtain t p where t: "sv_queued sv = Some t" "t_num_waiting t = 0" and p: "sv_pending sv = Some p"
    by (auto split: option.splits)
  let ?sv = "transaction_finish X t sv"
  have "transaction_progress X sv = transaction_progress X (queue_pending X ?sv)"
    using t p by (subst transaction_progress.simps) (simp add: Let_def)
  then show ?thesis
    using queue_pending_ok[OF finish_ok[OF assms(1) t(1)]] p by (simp add: progress_last)
qed

lemma commit_pending_ok:
  assumes "base_ok sv" "counted X sv" "sv_queued sv = None \<Longrightarrow> sv_pending sv \<noteq> None"
    "\<And>t. sv_queued sv = Some t \<Longrightarrow> t_num_waiting t > 0"
  shows "sv_ok X (transaction_commit_pending X sv)"
proof (cases "sv_queued sv")
  case None
  then obtain p where "sv_pending sv = Some p" using assms(3) by auto
  then show ?thesis
    using queue_pending_ok[OF assms(1) None] None by (simp add: transaction_commit_pending_def progress_last)
qed (use assms in \<open>simp add: transaction_commit_pending_def sv_ok_def settled_def\<close>)

end

section \<open>Collecting the dirty nodes\<close>

lemma renew_first_nodes:
  "renew_first n st r is = Some is' \<Longrightarrow> nodes is' = nodes is \<and> map i_id is' = map i_id is \<and> n \<in> set (nodes is)"
  by (induction "is" arbitrary: is') (auto simp: renew_def split: if_splits)

lemma renew_first_none: "renew_first n st r is = None \<longleftrightarrow> n \<notin> set (nodes is)"
  by (induction "is") auto

text \<open>The transaction t collects while the nodes ns are still to come.\<close>

definition collecting :: "node list \<Rightarrow> transaction \<Rightarrow> server \<Rightarrow> bool" where
  "collecting ns t sv \<longleftrightarrow> lists_ok (instrs (sv_queued sv)) (t_instructions t) sv \<and> freed_ok sv
     \<and> saved_ok (nodes (instrs (sv_queued sv) @ t_instructions t)) sv
     \<and> distinct ns \<and> (\<forall>n. n_dirty (ninfo (sv_sway sv) n) \<longleftrightarrow> n \<in> set ns)"

lemma collecting_renewed:
  assumes "collecting ns t sv" "nodes is = nodes (t_instructions t)" "map i_id is = map i_id (t_instructions t)"
  shows "collecting ns (t\<lparr>t_instructions := is\<rparr>) sv"
proof -
  have "(\<forall>i\<in>set is. i_id i < k) \<longleftrightarrow> (\<forall>i\<in>set (t_instructions t). i_id i < k)" for k
    using assms(3) by (metis (no_types, lifting) image_iff list.set_map)
  moreover have "i_id ` set is = i_id ` set (t_instructions t)" "i_node ` set is = i_node ` set (t_instructions t)"
    using assms(2,3) by (metis list.set_map)+
  ultimately show ?thesis using assms by (simp add: collecting_def lists_ok_def saved_ok_def ball_Un)
qed

lemma collecting_new:
  assumes ok: "collecting ns t sv" and n: "n \<in> set ns" "n \<notin> set (nodes (t_instructions t))"
  shows "collecting ns
    (t\<lparr>t_instructions := t_instructions t @ [\<lparr>i_id = sv_next sv, i_node = n, i_state = st, i_serial = 0,
       i_server_request = r, i_waiting = False\<rparr>]\<rparr>)
    (sv\<lparr>sv_next := sv_next sv + 1, sv_sway := set_refs n Suc (sv_sway sv)\<rparr>)"
    (is "collecting ns ?t ?sv")
proof -
  let ?s = "set_refs n Suc (sv_sway sv)"
  have refs: "refs_of ?s m = (if m = n then Suc (refs_of (sv_sway sv) m) else refs_of (sv_sway sv) m)"
    and marks: "n_dirty (ninfo ?s m) = n_dirty (ninfo (sv_sway sv) m)"
      "n_destroying (ninfo ?s m) = n_destroying (ninfo (sv_sway sv) m)" for m
    by (simp_all add: refs_of_def set_refs_def)
  have "n \<notin> set (sv_destroyed sv)" using ok n(1) by (auto simp: collecting_def freed_ok_def)
  then have freed: "freed_ok ?sv" using ok by (auto simp: collecting_def freed_ok_def refs marks)
  have lists: "lists_ok (instrs (sv_queued sv)) (t_instructions ?t) ?sv"
    using ok n(2) by (auto simp: collecting_def lists_ok_def refs less_SucI)
  show ?thesis using ok freed lists by (simp add: collecting_def saved_ok_def marks set_refs_def)
qed

lemma add_node_collecting:
  assumes ok: "collecting ns t sv" and n: "n \<in> set ns" and add: "transaction_add_node E r n t sv = (t', sv')"
  shows "collecting ns t' sv'" "sv_queued sv' = sv_queued sv" "sv_pending sv' = sv_pending sv"
proof -
  show "sv_queued sv' = sv_queued sv" "sv_pending sv' = sv_pending sv"
    using add by (auto simp: transaction_add_node_def Let_def split: option.splits)
  let ?st = "copy_state E (sv_sway sv) n"
  let ?found = "if n_ntxnrefs (ninfo (sv_sway sv) n) > 0 then renew_first n ?st r (t_instructions t) else None"
  show "collecting ns t' sv'"
  proof (cases ?found)
    case None
    then have "n \<notin> set (nodes (t_instructions t))"
      using ok by (auto simp: collecting_def lists_ok_def refs_of_def renew_first_none count_list_0 split: if_splits)
    from collecting_new[OF ok n this] show ?thesis
      using add None by (auto simp: transaction_add_node_def Let_def)
  next
    case (Some is')
    then have "renew_first n ?st r (t_instructions t) = Some is'" by (simp split: if_splits)
    then show ?thesis using collecting_renewed[OF ok, of is'] renew_first_nodes add Some
      by (fastforce simp: transaction_add_node_def Let_def)
  qed
qed

lemma collecting_clean:
  "collecting (n # ns) t sv \<Longrightarrow> collecting ns t (sv\<lparr>sv_sway := clean n (sv_sway sv)\<rparr>)"
  by (auto simp: collecting_def lists_ok_def freed_ok_def saved_ok_def clean_def refs_of_def)

lemma add_nodes_collecting:
  "collecting ns t sv \<Longrightarrow> add_nodes E r ns t sv = (t', sv') \<Longrightarrow>
     collecting [] t' sv' \<and> sv_queued sv' = sv_queued sv \<and> sv_pending sv' = sv_pending sv"
proof (induction ns arbitrary: t sv)
  case (Cons n ns)
  obtain t1 sv1 where add: "transaction_add_node E r n t sv = (t1, sv1)" by fastforce
  note step = add_node_collecting[OF Cons.prems(1) _ add]
  have "collecting ns t1 (sv1\<lparr>sv_sway := clean n (sv_sway sv1)\<rparr>)" by (rule collecting_clean[OF step(1)]) simp
  from Cons.IH[OF this] show ?case using Cons.prems(2) step(2,3) by (simp add: add)
qed simp

lemma collecting_start:
  assumes "base_ok sv"
  shows "collecting (dirty_nodes (sv_sway sv)) (case sv_pending sv of Some t \<Rightarrow> t | None \<Rightarrow> transaction_create) sv"
  using assms by (cases "sv_pending sv") (auto simp: collecting_def base_ok_def dirty_ok_def transaction_create_def)

lemma collecting_done:
  "collecting [] t sv \<Longrightarrow> base_ok (sv\<lparr>sv_pending := Some t, sv_sway := (sv_sway sv)\<lparr>dirty_nodes := []\<rparr>\<rparr>)"
proof -
  let ?sv = "sv\<lparr>sv_pending := Some t, sv_sway := (sv_sway sv)\<lparr>dirty_nodes := []\<rparr>\<rparr>"
  have "freed_ok ?sv = freed_ok sv" "saved_ok ns ?sv = saved_ok ns sv" "lists_ok qs ps ?sv = lists_ok qs ps sv" for ns qs ps
    by (simp_all add: freed_ok_def saved_ok_def lists_ok_def refs_of_def)
  then show "collecting [] t sv \<Longrightarrow> ?thesis" by (simp add: collecting_def base_ok_def dirty_ok_def)
qed

lemma add_node_pointers:
  "transaction_add_node E r n t sv = (t', sv') \<Longrightarrow> sv_instruction sv' = sv_instruction sv \<and> sv_current sv' = sv_current sv"
  by (auto simp: transaction_add_node_def Let_def split: option.splits)

lemma add_nodes_pointers:
  "add_nodes E r ns t sv = (t', sv') \<Longrightarrow> sv_instruction sv' = sv_instruction sv \<and> sv_current sv' = sv_current sv"
  by (induction ns arbitrary: t sv) (auto dest: add_node_pointers split: prod.splits)

lemma counted_same:
  "counted X sv \<Longrightarrow> sv_queued sv' = sv_queued sv \<Longrightarrow> sv_instruction sv' = sv_instruction sv \<Longrightarrow> counted X sv'"
proof -
  assume "counted X sv" and same: "sv_queued sv' = sv_queued sv" "sv_instruction sv' = sv_instruction sv"
  have "unanswered sv' = unanswered sv" by (simp add: unanswered_def same fun_eq_iff)
  then show "counted X sv'" using \<open>counted X sv\<close> same by (simp only: counted_def)
qed

section \<open>Answers\<close>

definition answered :: "instruction \<Rightarrow> server \<Rightarrow> server" where
  "answered i sv = sv\<lparr>sv_queued := map_option (\<lambda>t. if i_waiting i \<and> t_num_waiting t > 0
     then t\<lparr>t_num_waiting := t_num_waiting t - 1\<rparr> else t) (sv_queued sv),
     sv_instruction := (sv_instruction sv)(i_node i := None)\<rparr>"

lemma answered_fields [simp]:
  "sv_pending (answered i sv) = sv_pending sv" "sv_sway (answered i sv) = sv_sway sv"
  "sv_destroyed (answered i sv) = sv_destroyed sv" "sv_saved (answered i sv) = sv_saved sv"
  "sv_next (answered i sv) = sv_next sv" "sv_current (answered i sv) = sv_current sv"
  "sv_instruction (answered i sv) = (sv_instruction sv)(i_node i := None)"
  "instrs (sv_queued (answered i sv)) = instrs (sv_queued sv)"
  by (cases "sv_queued sv", simp_all add: answered_def)+

lemma set_ready_answered: "set_instruction_ready X i sv = transaction_progress X (answered i sv)"
  by (simp add: set_instruction_ready_def answered_def)

lemma length_filter_remove:
  assumes "distinct xs" "x \<in> set xs"
  shows "length (filter (\<lambda>y. P y \<and> y \<noteq> x) xs) = length (filter P xs) - (if P x then 1 else 0)"
proof -
  have "filter (\<lambda>y. P y \<and> y \<noteq> x) xs = remove1 x (filter P xs)"
    using assms(1) by (simp add: distinct_remove1_removeAll removeAll_filter_not_eq conj_commute) (metis (mono_tags, lifting))
  then show ?thesis using assms by (simp add: length_remove1)
qed

lemma notified_queued:
  assumes ok: "base_ok sv" and n: "notified sv c = Some i"
  obtains t where "sv_queued sv = Some t" "i \<in> set (t_instructions t)" "i_node i = N_CONTAINER c"
    "sv_instruction sv (N_CONTAINER c) = Some (i_id i)"
proof -
  obtain a t where a: "sv_instruction sv (N_CONTAINER c) = Some a" and t: "sv_queued sv = Some t"
    and f: "List.find (\<lambda>i. i_id i = a) (t_instructions t) = Some i"
    using n by (auto simp: notified_def instruction_at_def split: option.splits)
  have i: "i \<in> set (t_instructions t)" "i_id i = a" using f by (auto simp: find_Some_iff)
  have l: "lists_ok (t_instructions t) (instrs (sv_pending sv)) sv" using ok t by (simp add: base_ok_def)
  then obtain j where j: "j \<in> set (t_instructions t)" "i_id j = a" "i_node j = N_CONTAINER c"
    using lists_ok_points[OF l a] by blast
  have "j = i" using lists_ok_same(1)[OF l j(1) i(1)] i(2) j(2) by simp
  then show thesis using that t i j a by blast
qed

context txn
begin

lemma commit_dirty_ok:
  assumes ok: "sv_ok X sv"
  shows "sv_ok X (commit_dirty X r sv)"
proof (cases "dirty_nodes (sv_sway sv) = []")
  case False
  let ?t = "case sv_pending sv of Some t \<Rightarrow> t | None \<Rightarrow> transaction_create"
  obtain t' sv' where add: "add_nodes (x_env X) r (dirty_nodes (sv_sway sv)) ?t sv = (t', sv')" by fastforce
  let ?sv = "sv'\<lparr>sv_pending := Some t', sv_sway := (sv_sway sv')\<lparr>dirty_nodes := []\<rparr>\<rparr>"
  have base: "base_ok sv" and count: "counted X sv" and set: "settled sv" using ok by (simp_all add: sv_ok_def)
  note col = add_nodes_collecting[OF collecting_start[OF base] add]
  have "base_ok ?sv" using col by (intro collecting_done) simp
  moreover have "counted X ?sv" using count col add_nodes_pointers[OF add] by (intro counted_same[OF count]) simp_all
  moreover have "t_num_waiting t > 0" if "sv_queued ?sv = Some t" for t using that set col by (simp add: settled_def)
  ultimately have "sv_ok X (transaction_commit_pending X ?sv)" by (intro commit_pending_ok) simp_all
  then show ?thesis using False by (simp add: commit_dirty_def add)
qed (use ok in \<open>simp add: commit_dirty_def\<close>)

lemma timeout_ok:
  assumes ok: "sv_ok X sv"
  shows "sv_ok X (handle_timeout X sv)"
proof (cases "sv_queued sv")
  case (Some t)
  let ?sv = "sv\<lparr>sv_queued := Some (t\<lparr>t_num_waiting := 0\<rparr>)\<rparr>"
  have "base_ok ?sv" using ok Some by (simp add: sv_ok_def base_ok_def)
  then have "sv_ok X (transaction_progress X ?sv)" by (intro progress_ok) (simp_all add: counted_def)
  then show ?thesis by (simp add: handle_timeout_def Some)
qed (use ok in \<open>simp add: handle_timeout_def\<close>)

lemma answered_ok:
  assumes ok: "sv_ok X sv" and n: "notified sv c = Some i"
  shows "base_ok (answered i sv)" "counted X (answered i sv)" "sv_queued (answered i sv) \<noteq> None"
proof -
  have base: "base_ok sv" using ok by (simp add: sv_ok_def)
  obtain t where t: "sv_queued sv = Some t" and i: "i \<in> set (t_instructions t)" "i_node i = N_CONTAINER c"
    and p: "sv_instruction sv (N_CONTAINER c) = Some (i_id i)" by (rule notified_queued[OF base n])
  let ?t = "if i_waiting i \<and> t_num_waiting t > 0 then t\<lparr>t_num_waiting := t_num_waiting t - 1\<rparr> else t"
  have sv: "answered i sv = sv\<lparr>sv_queued := Some ?t, sv_instruction := (sv_instruction sv)(i_node i := None)\<rparr>"
    by (simp add: answered_def t)
  show "sv_queued (answered i sv) \<noteq> None" by (simp add: sv)
  have l: "lists_ok (t_instructions t) (instrs (sv_pending sv)) sv" using base t by (simp add: base_ok_def)
  then have "lists_ok (t_instructions t) (instrs (sv_pending sv)) (answered i sv)" by (simp add: lists_ok_def)
  then show "base_ok (answered i sv)" using base t by (simp add: base_ok_def freed_ok_def saved_ok_def)
  have un: "unanswered (answered i sv) j \<longleftrightarrow> unanswered sv j \<and> j \<noteq> i" if "j \<in> set (t_instructions t)" for j
    using lists_ok_same(2)[OF l that i(1)] i(2) by (auto simp: unanswered_def sv)
  have "distinct (t_instructions t)" using l by (simp add: lists_ok_def distinct_map)
  then have "length (filter (unanswered (answered i sv)) (t_instructions t))
      = length (filter (unanswered sv) (t_instructions t)) - (if i_waiting i then 1 else 0)"
    using length_filter_remove[of "t_instructions t" i "unanswered sv"] i p un
    by (simp add: unanswered_def[of sv i] cong: filter_cong)
  moreover have "i_waiting i \<Longrightarrow> length (filter (unanswered sv) (t_instructions t)) > 0"
    using i p by (auto simp: unanswered_def length_greater_0_conv filter_empty_conv)
  moreover have "sv_queued (answered i sv) = Some ?t" by (simp add: sv)
  ultimately show "counted X (answered i sv)" using ok t by (auto simp: sv_ok_def counted_def)
qed

lemma ready_ok: "sv_ok X sv \<Longrightarrow> notified sv c = Some i \<Longrightarrow> sv_ok X (set_instruction_ready X i sv)"
  unfolding set_ready_answered by (rule progress_ok) (simp_all add: answered_ok)

end

section \<open>The state committed last\<close>

definition state_in :: "instruction list \<Rightarrow> node \<Rightarrow> node_state option" where
  "state_in is = map_of (zip (nodes is) (map i_state is))"

text \<open>What will be current once everything collected so far is applied.\<close>

definition latest :: "server \<Rightarrow> node \<Rightarrow> node_state" where
  "latest sv n = (case state_in (instrs (sv_pending sv)) n of Some st \<Rightarrow> st
     | None \<Rightarrow> (case state_in (instrs (sv_queued sv)) n of Some st \<Rightarrow> st | None \<Rightarrow> sv_current sv n))"

lemma state_in_simps [simp]:
  "state_in [] n = None" "state_in (i # is) n = (if n = i_node i then Some (i_state i) else state_in is n)"
  by (auto simp: state_in_def)

lemma state_in_snoc: "i_node i \<notin> set (nodes is) \<Longrightarrow> state_in (is @ [i]) n = (if n = i_node i then Some (i_state i) else state_in is n)"
  by (induction "is") auto

lemma state_in_none: "state_in is n = None \<longleftrightarrow> n \<notin> set (nodes is)"
  by (induction "is") auto

lemma state_in_renew:
  "renew_first m st r is = Some is' \<Longrightarrow> state_in is' n = (if n = m then Some st else state_in is n)"
  by (induction "is" arbitrary: is') (auto simp: renew_def split: if_splits)

lemma apply_states:
  "distinct (nodes is) \<Longrightarrow> n \<noteq> N_ROOT \<Longrightarrow> sv_current (fold apply_instruction is sv) n =
     (case state_in is n of Some st \<Rightarrow> st | None \<Rightarrow> sv_current sv n)"
proof (induction "is" arbitrary: sv)
  case (Cons i "is")
  then have "state_in is (i_node i) = None" by (simp add: state_in_none)
  then show ?case using Cons by (auto simp: apply_instruction_current split: option.split)
qed simp

lemma commit_states: "state_in (fst (commit_instructions X is sv)) = state_in is"
  by (simp add: state_in_def)

lemma latest_sway [simp]: "latest (sv\<lparr>sv_sway := s\<rparr>) = latest sv"
  by (auto simp: latest_def fun_eq_iff split: option.split)

lemma latest_pointer [simp]: "latest (sv\<lparr>sv_instruction := p\<rparr>) = latest sv"
  by (auto simp: latest_def fun_eq_iff split: option.split)

lemma latest_waiting:
  "sv_queued sv = Some t \<Longrightarrow> t_instructions t' = t_instructions t \<Longrightarrow> latest (sv\<lparr>sv_queued := Some t'\<rparr>) = latest sv"
  by (auto simp: latest_def fun_eq_iff split: option.split)

lemma latest_finish:
  assumes "base_ok sv" "sv_queued sv = Some t" "n \<noteq> N_ROOT"
  shows "latest (transaction_finish X t sv) n = latest sv n"
proof -
  have "distinct (nodes (t_instructions t))" using assms(1,2) by (simp add: base_ok_def lists_ok_def)
  then have "sv_current (transaction_apply t sv) n = (case state_in (t_instructions t) n of Some st \<Rightarrow> st | None \<Rightarrow> sv_current sv n)"
    using assms(3) by (simp add: transaction_apply_def apply_states)
  then show ?thesis using assms(2) by (auto simp: latest_def transaction_finish_def split: option.split)
qed

lemma latest_queue_pending:
  assumes "sv_queued sv = None"
  shows "latest (queue_pending X sv) = latest sv"
  using assms by (auto simp: latest_def queue_pending_def transaction_commit_def commit_states split_beta Let_def fun_eq_iff
      split: option.split)

context txn
begin

lemma latest_progress:
  assumes ok: "base_ok sv" and n: "n \<noteq> N_ROOT"
  shows "latest (transaction_progress X sv) n = latest sv n"
proof -
  have last: "latest (transaction_progress X sv) n = latest sv n" if "base_ok sv" "sv_pending sv = None" for sv
    using that latest_finish[OF that(1) _ n]
    by (simp add: transaction_progress.simps[of X sv] Let_def split: option.split)
  show ?thesis
  proof (cases "sv_pending sv = None \<or> (case sv_queued sv of None \<Rightarrow> True | Some t \<Rightarrow> t_num_waiting t > 0)")
    case True
    then show ?thesis using last[OF ok] by (auto simp: transaction_progress.simps[of X sv] split: option.splits)
  next
    case False
    then obtain t p where t: "sv_queued sv = Some t" "t_num_waiting t = 0" and p: "sv_pending sv = Some p"
      by (auto split: option.splits)
    let ?sv = "transaction_finish X t sv"
    have "transaction_progress X sv = transaction_progress X (queue_pending X ?sv)"
      using t p by (subst transaction_progress.simps) (simp add: Let_def)
    then show ?thesis
      using queue_pending_ok[OF finish_ok[OF ok t(1)]] last[of "queue_pending X ?sv"] p latest_finish[OF ok t(1) n]
        latest_queue_pending[of ?sv X] by simp
  qed
qed

lemma latest_timeout: "sv_ok X sv \<Longrightarrow> n \<noteq> N_ROOT \<Longrightarrow> latest (handle_timeout X sv) n = latest sv n"
proof (cases "sv_queued sv")
  case (Some t)
  assume ok: "sv_ok X sv" and n: "n \<noteq> N_ROOT"
  let ?sv = "sv\<lparr>sv_queued := Some (t\<lparr>t_num_waiting := 0\<rparr>)\<rparr>"
  have "base_ok ?sv" using ok Some by (simp add: sv_ok_def base_ok_def)
  then show ?thesis using latest_progress[of ?sv n] latest_waiting[OF Some, of "t\<lparr>t_num_waiting := 0\<rparr>"] n
    by (simp add: handle_timeout_def Some)
qed (simp add: handle_timeout_def)

end

section \<open>What is copied does not depend on the marks\<close>

lemma toplevel_ninfo [simp]: "toplevel_loop k (s\<lparr>ninfo := x\<rparr>) c = toplevel_loop k s c"
  by (induction k arbitrary: c) (simp_all split: option.split)

lemma seat_queries_ninfo [simp]:
  "container_toplevel_ancestor (s\<lparr>ninfo := x\<rparr>) c = container_toplevel_ancestor s c"
  "container_is_floating (s\<lparr>ninfo := x\<rparr>) c = container_is_floating s c"
  "node_get_parent (s\<lparr>ninfo := x\<rparr>) n = node_get_parent s n"
  "node_is_view (s\<lparr>ninfo := x\<rparr>) n = node_is_view s n"
  "seat_at (s\<lparr>ninfo := x\<rparr>) k = seat_at s k"
  "input_manager_current_seat E (s\<lparr>ninfo := x\<rparr>) = input_manager_current_seat E s"
  by (simp_all add: container_toplevel_ancestor_def container_is_floating_def node_get_parent_def node_is_view_def
      seat_at_def input_manager_current_seat_def split: option.split node.split)

lemma node_on_ninfo [simp]: "container_node_on (s\<lparr>ninfo := x\<rparr>) w b = container_node_on s w b"
  by (auto simp: fun_eq_iff container_node_on_def container_is_floating_or_child_def split: node.split)

lemma active_child_ninfo [simp]: "seat_get_active_tiling_child (s\<lparr>ninfo := x\<rparr>) t p = seat_get_active_tiling_child s t p"
proof -
  have "(case p of N_WORKSPACE w \<Rightarrow> (case n of N_CONTAINER c \<Rightarrow> index_of c (w_tiling (wss (s\<lparr>ninfo := x\<rparr>) w)) \<noteq> -1 | _ \<Rightarrow> False) | _ \<Rightarrow> True)
    = (case p of N_WORKSPACE w \<Rightarrow> (case n of N_CONTAINER c \<Rightarrow> index_of c (w_tiling (wss s w)) \<noteq> -1 | _ \<Rightarrow> False) | _ \<Rightarrow> True)" for n
    by (auto split: node.split)
  then show ?thesis by (simp only: seat_get_active_tiling_child_def seat_queries_ninfo)
qed

lemma focus_tiling_ninfo [simp]: "seat_get_focus_inactive_tiling (s\<lparr>ninfo := x\<rparr>) t w = seat_get_focus_inactive_tiling s t w"
  by (simp add: seat_get_focus_inactive_tiling_def)

lemma active_workspace_ninfo [simp]: "output_get_active_workspace E (s\<lparr>ninfo := x\<rparr>) p = output_get_active_workspace E s p"
  by (simp add: output_get_active_workspace_def split: option.split)

lemma copy_state_ninfo [simp]: "copy_state E (s\<lparr>ninfo := x\<rparr>) n = copy_state E s n"
proof -
  have "container_toplevel_ancestor (s\<lparr>ninfo := x\<rparr>) = container_toplevel_ancestor s" by (simp add: fun_eq_iff)
  then show ?thesis
    by (cases n) (simp_all add: copy_state_def copy_output_state_def copy_workspace_state_def copy_container_state_def
        the_seat_of_def Let_def split: option.split)
qed

definition only_marks :: "sway \<Rightarrow> sway \<Rightarrow> bool" where
  "only_marks s s' \<longleftrightarrow> (\<exists>x. s' = s\<lparr>ninfo := x\<rparr>)"

lemma only_marks_trans: "only_marks s t \<Longrightarrow> only_marks t u \<Longrightarrow> only_marks s u"
  by (auto simp: only_marks_def)

lemma only_marks_copy: "only_marks s s' \<Longrightarrow> copy_state E s' n = copy_state E s n"
  by (auto simp: only_marks_def)

lemma add_node_state:
  assumes ok: "collecting ns t sv" and n: "n \<in> set ns" and add: "transaction_add_node E r n t sv = (t', sv')"
  shows "state_in (t_instructions t') m = (if m = n then Some (copy_state E (sv_sway sv) n) else state_in (t_instructions t) m)"
    "only_marks (sv_sway sv) (sv_sway sv')"
proof -
  have "only_marks s s" "only_marks s (set_refs n f s)" for s f
    by (auto simp: only_marks_def set_refs_def intro: exI[of _ "ninfo s"])
  then show "only_marks (sv_sway sv) (sv_sway sv')"
    using add by (auto simp: transaction_add_node_def Let_def split: option.splits)
  let ?st = "copy_state E (sv_sway sv) n"
  let ?found = "if n_ntxnrefs (ninfo (sv_sway sv) n) > 0 then renew_first n ?st r (t_instructions t) else None"
  show "state_in (t_instructions t') m = (if m = n then Some ?st else state_in (t_instructions t) m)"
  proof (cases ?found)
    case None
    then have "n \<notin> set (nodes (t_instructions t))"
      using ok by (auto simp: collecting_def lists_ok_def refs_of_def renew_first_none count_list_0 split: if_splits)
    then show ?thesis using add None by (auto simp: transaction_add_node_def Let_def state_in_snoc)
  next
    case (Some is')
    then have "renew_first n ?st r (t_instructions t) = Some is'" by (simp split: if_splits)
    then show ?thesis using state_in_renew[of n ?st r _ is' m] add Some by (auto simp: transaction_add_node_def Let_def)
  qed
qed

lemma add_nodes_state:
  "collecting ns t sv \<Longrightarrow> add_nodes E r ns t sv = (t', sv') \<Longrightarrow>
     state_in (t_instructions t') m = (if m \<in> set ns then Some (copy_state E (sv_sway sv) m) else state_in (t_instructions t) m)"
proof (induction ns arbitrary: t sv)
  case (Cons n ns)
  obtain t1 sv1 where add: "transaction_add_node E r n t sv = (t1, sv1)" by fastforce
  let ?sv1 = "sv1\<lparr>sv_sway := clean n (sv_sway sv1)\<rparr>"
  have col: "collecting ns t1 ?sv1"
    by (rule collecting_clean[OF add_node_collecting(1)[OF Cons.prems(1) _ add]]) simp
  have "only_marks (sv_sway sv1) (clean n (sv_sway sv1))" by (auto simp: only_marks_def clean_def)
  then have "only_marks (sv_sway sv) (sv_sway ?sv1)"
    using add_node_state(2)[OF Cons.prems(1) _ add] only_marks_trans by simp
  then have "copy_state E (sv_sway ?sv1) k = copy_state E (sv_sway sv) k" for k by (rule only_marks_copy)
  then show ?case
    using Cons.IH[OF col] Cons.prems(2) add_node_state(1)[OF Cons.prems(1) _ add, of m] by (auto simp: add)
qed simp

context txn
begin

lemma latest_commit:
  assumes ok: "sv_ok X sv" and n: "n \<noteq> N_ROOT"
  shows "latest (commit_dirty X r sv) n =
    (if n \<in> set (dirty_nodes (sv_sway sv)) then copy_state (x_env X) (sv_sway sv) n else latest sv n)"
proof (cases "dirty_nodes (sv_sway sv) = []")
  case False
  let ?t = "case sv_pending sv of Some t \<Rightarrow> t | None \<Rightarrow> transaction_create"
  let ?ns = "dirty_nodes (sv_sway sv)"
  obtain t' sv' where add: "add_nodes (x_env X) r ?ns ?t sv = (t', sv')" by fastforce
  let ?sv = "sv'\<lparr>sv_pending := Some t', sv_sway := (sv_sway sv')\<lparr>dirty_nodes := []\<rparr>\<rparr>"
  have base: "base_ok sv" using ok by (simp add: sv_ok_def)
  note col = add_nodes_collecting[OF collecting_start[OF base] add]
  have base': "base_ok ?sv" using col by (intro collecting_done) simp
  have "t_instructions ?t = instrs (sv_pending sv)" by (simp add: transaction_create_def split: option.split)
  then have "latest ?sv n = (if n \<in> set ?ns then copy_state (x_env X) (sv_sway sv) n else latest sv n)"
    using add_nodes_state[OF collecting_start[OF base] add, of n] col add_nodes_pointers[OF add]
    by (auto simp: latest_def split: option.split)
  moreover have "latest (transaction_commit_pending X ?sv) n = latest ?sv n"
  proof (cases "sv_queued ?sv")
    case None
    then have "base_ok (queue_pending X ?sv)" using queue_pending_ok(1)[OF base' None] by simp
    then show ?thesis
      using None latest_progress[OF _ n] latest_queue_pending[OF None, of X] by (simp add: transaction_commit_pending_def)
  qed (simp add: transaction_commit_pending_def)
  ultimately show ?thesis using False by (simp add: commit_dirty_def add)
qed (simp add: commit_dirty_def)

lemma latest_ready:
  assumes ok: "sv_ok X sv" and n: "notified sv c = Some i" and m: "m \<noteq> N_ROOT"
  shows "latest (set_instruction_ready X i sv) m = latest sv m"
proof -
  have "latest (answered i sv) m = latest sv m"
    by (cases "sv_queued sv") (auto simp: latest_def answered_def split: option.split)
  then show ?thesis using latest_progress[OF answered_ok(1)[OF ok n] m] by (simp add: set_ready_answered)
qed

end

section \<open>Runs\<close>

text \<open>
  An empty server, and what can happen: a change of the tree that leaves the marks to the transactions,
  a commit for the server or for a client, an answer of a view, and the timeout.
\<close>

definition sv_start :: "server \<Rightarrow> bool" where
  "sv_start sv \<longleftrightarrow> sv_queued sv = None \<and> sv_pending sv = None \<and> sv_destroyed sv = [] \<and> (\<forall>n. sv_instruction sv n = None)
     \<and> (\<forall>c. \<not> sv_saved sv c) \<and> (\<forall>n. refs_of (sv_sway sv) n = 0) \<and> dirty_ok (sv_sway sv)"

inductive txn_run :: "txn_env \<Rightarrow> server \<Rightarrow> bool" for X where
  start: "sv_start sv \<Longrightarrow> txn_run X sv"
| tree: "txn_run X sv \<Longrightarrow> steady (sv_sway sv) s \<Longrightarrow> txn_run X (sv\<lparr>sv_sway := s\<rparr>)"
| commit: "txn_run X sv \<Longrightarrow> txn_run X (transaction_commit_dirty X sv)"
| commit_client: "txn_run X sv \<Longrightarrow> txn_run X (transaction_commit_dirty_client X sv)"
| serial: "txn_run X sv \<Longrightarrow> txn_run X (snd (transaction_notify_view_ready_by_serial X c serial sv))"
| geometry: "txn_run X sv \<Longrightarrow> txn_run X (snd (transaction_notify_view_ready_by_geometry X c x y w h sv))"
| timeout: "txn_run X sv \<Longrightarrow> txn_run X (handle_timeout X sv)"

lemma start_ok: "sv_start sv \<Longrightarrow> sv_ok X sv"
  by (simp add: sv_start_def sv_ok_def base_ok_def lists_ok_def freed_ok_def saved_ok_def counted_def settled_def)

context txn
begin

lemma run_ok: "txn_run X sv \<Longrightarrow> sv_ok X sv"
proof (induction rule: txn_run.induct)
  case (start sv)
  then show ?case by (rule start_ok)
next
  case (tree sv s)
  then show ?case by (blast intro: sv_ok_steady)
next
  case (serial sv c serial)
  then show ?case by (auto simp: transaction_notify_view_ready_by_serial_def intro: ready_ok split: option.split)
next
  case (geometry sv c x y w h)
  then show ?case by (auto simp: transaction_notify_view_ready_by_geometry_def Let_def intro: ready_ok split: option.split)
qed (simp_all add: transaction_commit_dirty_def transaction_commit_dirty_client_def commit_dirty_ok timeout_ok)

end

interpretation txns: txn "X\<lparr>x_env := with_focus d E\<rparr>"
  by unfold_locales (simp add: focus_steady.refocus_steady)

section \<open>Properties\<close>

context txn
begin

lemma timeout_empties:
  assumes ok: "sv_ok X sv"
  shows "sv_pending (handle_timeout X sv) = None"
    "sv_pending sv = None \<Longrightarrow> sv_queued (handle_timeout X sv) = None"
proof -
  have none: "sv_queued sv = None \<Longrightarrow> sv_pending sv = None" using ok by (simp add: sv_ok_def settled_def)
  have last: "sv_pending (transaction_progress X s) = None" if "sv_pending s = None" for s
    using that by (simp add: transaction_progress.simps[of X s] Let_def split: option.split)
  show "sv_pending (handle_timeout X sv) = None"
    using none last by (simp add: handle_timeout_def transaction_progress.simps[of X "_\<lparr>sv_queued := _\<rparr>"] Let_def
      queue_pending_def split: option.split)
  show "sv_pending sv = None \<Longrightarrow> sv_queued (handle_timeout X sv) = None"
    by (simp add: handle_timeout_def transaction_progress.simps[of X "_\<lparr>sv_queued := _\<rparr>"] Let_def split: option.split)
qed

lemma idle_latest: "sv_ok X sv \<Longrightarrow> sv_queued sv = None \<Longrightarrow> latest sv n = sv_current sv n \<and> \<not> sv_saved sv c"
  by (auto simp: sv_ok_def settled_def latest_def base_ok_def saved_ok_def)

lemma notify_latest:
  assumes "sv_ok X sv" "n \<noteq> N_ROOT"
  shows "latest (snd (transaction_notify_view_ready_by_serial X c serial sv)) n = latest sv n"
    "latest (snd (transaction_notify_view_ready_by_geometry X c x y w h sv)) n = latest sv n"
  using latest_ready[OF assms(1) _ assms(2)]
  by (auto simp: transaction_notify_view_ready_by_serial_def transaction_notify_view_ready_by_geometry_def Let_def
      split: option.split)

end

text \<open>
  C5. Whatever the tree, the commits, the clients and the timer do, the transactions stay sound: every
  node counts exactly the instructions that refer to it, each transaction has one instruction per
  node, the dirty list holds exactly the dirty nodes, a queued transaction has its timer and waits for
  exactly the views that were configured and have not answered (with txn-wait, for the timeout), and
  there is a pending transaction only behind a queued one.
\<close>

theorem transactions_sound:
  assumes "txn_run (X\<lparr>x_env := with_focus d E\<rparr>) sv"
  shows "sv_ok (X\<lparr>x_env := with_focus d E\<rparr>) sv"
  using assms by (rule txns.run_ok)

text \<open>
  C7. A pointer from a node always leads to an instruction of the queued transaction, the one for that
  node; a node whose memory was freed is in no transaction and not dirty, so nothing will follow a
  pointer to it; and when nothing is on its way no view shows an old picture.
\<close>

theorem transactions_never_dangle:
  assumes "txn_run (X\<lparr>x_env := with_focus d E\<rparr>) sv"
  shows "(\<forall>n a. sv_instruction sv n = Some a \<longrightarrow> (\<exists>i. instruction_at sv a = Some i \<and> i_id i = a \<and> i_node i = n))
    \<and> (\<forall>n\<in>set (sv_destroyed sv). n \<notin> set (dirty_nodes (sv_sway sv))
        \<and> n \<notin> set (nodes (instrs (sv_queued sv) @ instrs (sv_pending sv))))
    \<and> (sv_queued sv = None \<longrightarrow> (\<forall>c. \<not> sv_saved sv c))"
proof -
  let ?qs = "instrs (sv_queued sv)" and ?ps = "instrs (sv_pending sv)"
  have ok: "sv_ok (X\<lparr>x_env := with_focus d E\<rparr>) sv" using assms by (rule txns.run_ok)
  then have l: "lists_ok ?qs ?ps sv" and freed: "freed_ok sv" and dirty: "dirty_ok (sv_sway sv)"
    by (simp_all add: sv_ok_def base_ok_def)
  have "\<exists>i. instruction_at sv a = Some i \<and> i_id i = a \<and> i_node i = n" if a: "sv_instruction sv n = Some a" for n a
  proof -
    obtain i where i: "i \<in> set ?qs" "i_id i = a" "i_node i = n" using lists_ok_points[OF l a] by blast
    then obtain j where j: "List.find (\<lambda>i. i_id i = a) ?qs = Some j" by (metis (mono_tags) find_None_iff not_None_eq)
    then have "j \<in> set ?qs" "i_id j = a" by (auto simp: find_Some_iff)
    then have "j = i" using lists_ok_same(1)[OF l _ i(1)] i(2) by simp
    then show ?thesis using i j by (cases "sv_queued sv") (auto simp: instruction_at_def)
  qed
  moreover have "n \<notin> set (dirty_nodes (sv_sway sv)) \<and> n \<notin> set (nodes (?qs @ ?ps))" if "n \<in> set (sv_destroyed sv)" for n
  proof -
    have "refs_of (sv_sway sv) n = 0" "\<not> n_dirty (ninfo (sv_sway sv) n)" using freed that by (simp_all add: freed_ok_def)
    moreover have "refs_of (sv_sway sv) n = count_list (nodes (?qs @ ?ps)) n" using l by (simp only: lists_ok_def)
    ultimately show ?thesis using dirty count_list_0[of "nodes (?qs @ ?ps)" n] by (simp add: dirty_ok_def)
  qed
  moreover have "sv_queued sv = None \<Longrightarrow> \<not> sv_saved sv c" for c using txns.idle_latest[OF ok] by blast
  ultimately show ?thesis by blast
qed

text \<open>
  C6. Transactions implement an atomic, double-buffered tree: latest, what will be current in the end,
  changes only when the dirty nodes are committed, and then to their state at that moment; timeouts
  and answers never lose or reorder a committed state; and when no transaction is on its way the
  current state of every node is the one committed last.
\<close>

theorem committed_state_is_latest:
  assumes "txn_run (X\<lparr>x_env := with_focus d E\<rparr>) sv" "n \<noteq> N_ROOT"
  shows "latest (transaction_commit_dirty (X\<lparr>x_env := with_focus d E\<rparr>) sv) n =
      (if n \<in> set (dirty_nodes (sv_sway sv)) then copy_state (with_focus d E) (sv_sway sv) n else latest sv n)
    \<and> latest (transaction_commit_dirty_client (X\<lparr>x_env := with_focus d E\<rparr>) sv) n =
      (if n \<in> set (dirty_nodes (sv_sway sv)) then copy_state (with_focus d E) (sv_sway sv) n else latest sv n)
    \<and> latest (handle_timeout (X\<lparr>x_env := with_focus d E\<rparr>) sv) n = latest sv n
    \<and> latest (snd (transaction_notify_view_ready_by_serial (X\<lparr>x_env := with_focus d E\<rparr>) c serial sv)) n = latest sv n
    \<and> latest (snd (transaction_notify_view_ready_by_geometry (X\<lparr>x_env := with_focus d E\<rparr>) c x y w h sv)) n = latest sv n
    \<and> (sv_queued sv = None \<longrightarrow> sv_current sv n = latest sv n)"
proof -
  have ok: "sv_ok (X\<lparr>x_env := with_focus d E\<rparr>) sv" using assms(1) by (rule txns.run_ok)
  note laws = txns.latest_commit[OF ok assms(2)] txns.latest_timeout[OF ok assms(2)] txns.notify_latest[OF ok assms(2)]
    txns.idle_latest[OF ok]
  show ?thesis by (simp add: laws transaction_commit_dirty_def transaction_commit_dirty_client_def)
qed

text \<open>
  C8. No client can hold the layout up: after at most two timeouts nothing is queued or pending any
  more, every node has the state committed last, and no view shows an old picture.
\<close>

theorem timeouts_settle:
  assumes "txn_run (X\<lparr>x_env := with_focus d E\<rparr>) sv" "n \<noteq> N_ROOT"
  shows "let sv' = handle_timeout (X\<lparr>x_env := with_focus d E\<rparr>) (handle_timeout (X\<lparr>x_env := with_focus d E\<rparr>) sv) in
    sv_queued sv' = None \<and> sv_pending sv' = None \<and> sv_current sv' n = latest sv n \<and> \<not> sv_saved sv' c"
proof -
  let ?X = "X\<lparr>x_env := with_focus d E\<rparr>"
  have ok: "sv_ok ?X sv" using assms(1) by (rule txns.run_ok)
  note ok1 = txns.timeout_ok[OF ok] and ok2 = txns.timeout_ok[OF txns.timeout_ok[OF ok]]
  have queued: "sv_queued (handle_timeout ?X (handle_timeout ?X sv)) = None"
    by (rule txns.timeout_empties(2)[OF ok1 txns.timeout_empties(1)[OF ok]])
  show ?thesis
    using queued txns.timeout_empties(1)[OF ok1] txns.idle_latest[OF ok2 queued, of n c]
      txns.latest_timeout[OF ok1 assms(2)] txns.latest_timeout[OF ok assms(2)] by (simp add: Let_def)
qed

text \<open>
  C9. The last answer ends the wait exactly as the timeout does: when the instruction of a view is the
  only one unanswered, its answer applies the transaction and queues the next one just like
  handle_timeout, which is then no longer needed.
\<close>

theorem last_answer_is_timeout:
  assumes "txn_run (X\<lparr>x_env := with_focus d E\<rparr>) sv" "\<not> x_txn_wait X" "sv_queued sv = Some t"
    "notified sv c = Some i" "filter (unanswered sv) (t_instructions t) = [i]"
  shows "set_instruction_ready (X\<lparr>x_env := with_focus d E\<rparr>) i sv =
    handle_timeout (X\<lparr>x_env := with_focus d E\<rparr>) (sv\<lparr>sv_instruction := (sv_instruction sv)(N_CONTAINER c := None)\<rparr>)"
proof -
  have ok: "sv_ok (X\<lparr>x_env := with_focus d E\<rparr>) sv" using assms(1) by (rule txns.run_ok)
  have base: "base_ok sv" using ok by (simp add: sv_ok_def)
  have node: "i_node i = N_CONTAINER c" using notified_queued[OF base assms(4)] assms(3) by metis
  have "t_num_waiting t = 1" using ok assms(2,3,5) by (auto simp: sv_ok_def counted_def settled_def)
  moreover have "i_waiting i" using assms(5) by (auto simp: unanswered_def filter_eq_Cons_iff)
  ultimately have "answered i sv = sv\<lparr>sv_instruction := (sv_instruction sv)(N_CONTAINER c := None),
      sv_queued := Some (t\<lparr>t_num_waiting := 0\<rparr>)\<rparr>" using assms(3) node by (simp add: answered_def)
  then show ?thesis by (simp add: set_ready_answered handle_timeout_def assms(3))
qed

section \<open>Witnesses\<close>

text \<open>The view 3 of the sample tree gets a new width; its client has not answered yet.\<close>

definition sample_txn :: txn_env where
  "sample_txn = \<lparr>x_env = with_focus 0 sample_env, x_serial = (\<lambda>_. 9), x_xwayland = (\<lambda>_. False), x_timer = (\<lambda>_. True),
     x_noatomic = False, x_txn_wait = False\<rparr>"

definition sample_server :: server where
  "sample_server = \<lparr>sv_sway = node_set_dirty (N_CONTAINER 3) (upd_con 3 (\<lambda>x. x\<lparr>c_content_width := 300\<rparr>) sample),
     sv_current = (\<lambda>_. Root_State), sv_instruction = (\<lambda>_. None), sv_queued = None, sv_pending = None, sv_next = 0,
     sv_saved = (\<lambda>_. False), sv_configured = [], sv_destroyed = []\<rparr>"

definition sample_waiting :: server where
  "sample_waiting = transaction_commit_dirty sample_txn sample_server"

lemma sample_txn_env: "sample_txn\<lparr>x_env := with_focus 0 sample_env\<rparr> = sample_txn"
  by (simp add: sample_txn_def)

lemma sample_runs: "txn_run sample_txn sample_server" "txn_run sample_txn sample_waiting"
proof -
  show "txn_run sample_txn sample_server"
    by (rule txn_run.start) (simp add: sv_start_def sample_server_def node_set_dirty_def refs_of_def dirty_ok_def sample_defs)
  then show "txn_run sample_txn sample_waiting" unfolding sample_waiting_def by (rule txn_run.commit)
qed

definition sample_change :: "(node \<Rightarrow> node_info) \<Rightarrow> node list \<Rightarrow> sway" where
  "sample_change f ns = (upd_con 3 (\<lambda>x. x\<lparr>c_content_width := 300\<rparr>) sample)\<lparr>ninfo := f, dirty_nodes := ns\<rparr>"

lemma sample_change_simps [simp]:
  "ninfo (sample_change f ns) = f" "dirty_nodes (sample_change f ns) = ns"
  "(sample_change f ns)\<lparr>ninfo := g\<rparr> = sample_change g ns" "(sample_change f ns)\<lparr>dirty_nodes := ms\<rparr> = sample_change f ms"
  "c_view (cons (sample_change f ns) 3) = Some sample_view" "c_content_width (cons (sample_change f ns) 3) = 300"
  "n_ntxnrefs (ninfo sample n) = 0" "n_destroying (ninfo sample n) = False"
  by (simp_all add: sample_change_def sample_defs)

lemma sample_visible:
  assumes "\<not> n_destroying (f (N_WORKSPACE 6))" "\<not> n_destroying (f (N_CONTAINER 3))"
  shows "view_is_visible (with_focus 0 sample_env) (sample_change f ns) 3"
  using assms
  by (simp add: view_is_visible_def sample_change_def sample_defs with_focus_def sample_env_def workspace_is_visible_def
      output_get_active_workspace_def container_is_sticky_or_child_def container_is_sticky_def container_is_floating_def
      container_toplevel_ancestor_def eval_nat_numeral container_parent_layout_def seat_get_active_tiling_child_def
      input_manager_current_seat_def seat_at_def index_of_def node_is_view_def seat_zero_def)

lemma sample_server_sway:
  "sv_sway sample_server =
     sample_change ((ninfo sample)(N_CONTAINER 3 := (ninfo sample (N_CONTAINER 3))\<lparr>n_dirty := True\<rparr>)) [N_CONTAINER 3]"
  by (simp add: sample_change_def sample_server_def node_set_dirty_def sample_defs)

lemma sample_waits:
  obtains t i where "sv_queued sample_waiting = Some t" "t_instructions t = [i]" "i_node i = N_CONTAINER 3" "i_waiting i"
    "i_id i = 0" "sv_instruction sample_waiting (N_CONTAINER 3) = Some 0"
proof -
  have "case sv_queued sample_waiting of None \<Rightarrow> False
     | Some t \<Rightarrow> map i_node (t_instructions t) = [N_CONTAINER 3] \<and> map i_waiting (t_instructions t) = [True]
         \<and> map i_id (t_instructions t) = [0] \<and> sv_instruction sample_waiting (N_CONTAINER 3) = Some 0"
    unfolding sample_waiting_def
    by (simp add: transaction_commit_dirty_def commit_dirty_def sample_server_sway transaction_add_node_def set_refs_def
        clean_def transaction_commit_pending_def queue_pending_def sample_server_def transaction_create_def
        transaction_commit_def commit_instruction_def should_configure_def hidden_def sample_visible Let_def
        view_configure_def node_is_view_def view_save_buffer_def num_waiting_def sample_txn_def container_state_of_def
        container_state_zero_def copy_state_def copy_container_state_def transaction_progress.simps
        sample_server_sway[unfolded sample_server_def, simplified])
  then show thesis using that by (auto split: option.splits simp: map_eq_Cons_conv)
qed

lemma transactions_sound_witness: "\<exists>t. sv_queued sample_waiting = Some t \<and> sv_ok sample_txn sample_waiting"
  using transactions_sound[where X = sample_txn and d = 0 and E = sample_env and sv = sample_waiting] sample_runs(2)
  by (rule_tac sample_waits) (simp add: sample_txn_env)

lemma transactions_never_dangle_witness:
  "\<exists>i. instruction_at sample_waiting 0 = Some i \<and> i_node i = N_CONTAINER 3"
proof -
  obtain t i where "sv_instruction sample_waiting (N_CONTAINER 3) = Some 0" by (rule sample_waits)
  then show ?thesis
    using transactions_never_dangle[where X = sample_txn and d = 0 and E = sample_env and sv = sample_waiting, unfolded sample_txn_env,
        OF sample_runs(2)] by blast
qed

lemma committed_state_is_latest_witness:
  "latest sample_waiting (N_CONTAINER 3) = copy_state (with_focus 0 sample_env) (sv_sway sample_server) (N_CONTAINER 3)"
  using committed_state_is_latest[where X = sample_txn and d = 0 and E = sample_env and sv = sample_server and n = "N_CONTAINER 3"] sample_runs(1)
  by (simp add: sample_txn_env sample_waiting_def[symmetric] sample_server_sway)

lemma timeouts_settle_witness:
  "let sv = handle_timeout sample_txn (handle_timeout sample_txn sample_waiting) in
     sv_queued sv = None \<and> sv_current sv (N_CONTAINER 3) = latest sample_waiting (N_CONTAINER 3)"
  using timeouts_settle[where X = sample_txn and d = 0 and E = sample_env and sv = sample_waiting and n = "N_CONTAINER 3"] sample_runs(2)
  by (simp add: sample_txn_env Let_def)

lemma last_answer_is_timeout_witness:
  "\<exists>i. notified sample_waiting 3 = Some i \<and> set_instruction_ready sample_txn i sample_waiting =
     handle_timeout sample_txn (sample_waiting\<lparr>sv_instruction := (sv_instruction sample_waiting)(N_CONTAINER 3 := None)\<rparr>)"
proof -
  obtain t i where t: "sv_queued sample_waiting = Some t" "t_instructions t = [i]" and i: "i_node i = N_CONTAINER 3" "i_waiting i"
      "i_id i = 0" and p: "sv_instruction sample_waiting (N_CONTAINER 3) = Some 0" by (rule sample_waits)
  have "notified sample_waiting 3 = Some i" using t i p by (simp add: notified_def instruction_at_def)
  moreover have "filter (unanswered sample_waiting) (t_instructions t) = [i]" using t i p by (simp add: unanswered_def)
  moreover have "\<not> x_txn_wait sample_txn" by (simp add: sample_txn_def)
  ultimately show ?thesis
    using last_answer_is_timeout[where X = sample_txn and d = 0 and E = sample_env and sv = sample_waiting and t = t and c = 3 and i = i] sample_runs(2) t(1)
    by (simp add: sample_txn_env)
qed

end
