(* ===== verification/Output_Config.thy ===== *)
theory Output_Config
  imports Workspaces Util
begin

text \<open>
  The settings of outputs (sway/config/output.c, struct output_config of include/sway/config.h): an
  empty configuration, merging one on top of another, superseding one by another, storing what a
  command sets, and what the stored configurations mean for an output. A field that is not set has
  the value the source gives it for that purpose. Scales and refresh rates are rationals, where the
  source has floats; a colour transform is an object of wlroots, here a number.
\<close>

section \<open>Outputs as wlroots shows them\<close>

type_synonym color_transform = nat

datatype scale_filter_mode = SCALE_FILTER_DEFAULT | SCALE_FILTER_LINEAR | SCALE_FILTER_NEAREST | SCALE_FILTER_SMART

datatype render_bit_depth = RENDER_BIT_DEPTH_DEFAULT | RENDER_BIT_DEPTH_6 | RENDER_BIT_DEPTH_8 | RENDER_BIT_DEPTH_10

datatype color_profile = COLOR_PROFILE_DEFAULT | COLOR_PROFILE_TRANSFORM | COLOR_PROFILE_TRANSFORM_WITH_DEVICE_PRIMARIES

datatype drm_format = DRM_FORMAT_XRGB2101010 | DRM_FORMAT_XBGR2101010 | DRM_FORMAT_XRGB8888 | DRM_FORMAT_ARGB8888
  | DRM_FORMAT_XBGR8888 | DRM_FORMAT_RGB565 | DRM_FORMAT_OTHER

record drm_mode =
  dm_type :: "32 word"
  dm_clock :: "32 word"
  dm_timings :: "16 word list"
  dm_vrefresh :: "32 word"
  dm_flags :: "32 word"
  dm_name :: string

record wlr_mode =
  wm_id :: nat
  wm_width :: int
  wm_height :: int
  wm_refresh :: int

text \<open>
  What the source reads of a wlr_output. wo_preferred is wlr_output_preferred_mode, wo_panel the
  orientation of a DRM panel (None for an output that is no DRM output), wo_formats the formats of its
  primary plane (None when all are supported), wo_primaries its colour primaries.
\<close>

record wlr_output =
  wo_name :: string
  wo_make :: "string option"
  wo_model :: "string option"
  wo_serial :: "string option"
  wo_enabled :: bool
  wo_modes :: "wlr_mode list"
  wo_preferred :: "wlr_mode option"
  wo_width :: int
  wo_height :: int
  wo_phys_width :: int
  wo_phys_height :: int
  wo_transform :: int
  wo_panel :: "int option"
  wo_scale :: rat
  wo_adaptive_sync_supported :: bool
  wo_adaptive_sync_enabled :: bool
  wo_render_format :: drm_format
  wo_formats :: "drm_format list option"
  wo_supports_bt2020 :: bool
  wo_supports_pq :: bool
  wo_supports_any :: bool
  wo_primaries :: "nat option"
  wo_unpluggable :: bool

record sway_output =
  so_id :: id
  so_wlr :: wlr_output
  so_detected_subpixel :: wl_output_subpixel
  so_scale_filter :: scale_filter_mode
  so_color_transform :: "color_transform option"
  so_max_render_time :: int
  so_allow_tearing :: bool
  so_hdr :: bool

definition known_or :: "string option \<Rightarrow> string" where
  "known_or s = (case s of None \<Rightarrow> ''Unknown'' | Some t \<Rightarrow> t)"

text \<open>snprintf into a buffer of the given size leaves room for the terminating NUL.\<close>

definition output_get_identifier :: "nat \<Rightarrow> wlr_output \<Rightarrow> string" where
  "output_get_identifier buf w =
     take (buf - 1) (known_or (wo_make w) @ '' '' @ known_or (wo_model w) @ '' '' @ known_or (wo_serial w))"

definition output_name :: "sway_output \<Rightarrow> string" where
  "output_name p = wo_name (so_wlr p)"

definition output_id :: "sway_output \<Rightarrow> string" where
  "output_id p = output_get_identifier 128 (so_wlr p)"

definition all_output_by_name_or_id :: "sway_output list \<Rightarrow> string \<Rightarrow> sway_output option" where
  "all_output_by_name_or_id ps n =
     List.find (\<lambda>p. n = ''*'' \<or> str_caseeq (output_id p) n \<or> str_caseeq (output_name p) n) ps"

definition sway_output_scale_filter_to_string :: "scale_filter_mode \<Rightarrow> string" where
  "sway_output_scale_filter_to_string f =
     (case f of SCALE_FILTER_DEFAULT \<Rightarrow> ''smart'' | SCALE_FILTER_LINEAR \<Rightarrow> ''linear''
      | SCALE_FILTER_NEAREST \<Rightarrow> ''nearest'' | SCALE_FILTER_SMART \<Rightarrow> ''smart'')"

section \<open>Configurations\<close>

record output_config =
  oc_name :: string
  oc_enabled :: int
  oc_power :: int
  oc_width :: int
  oc_height :: int
  oc_refresh_rate :: rat
  oc_custom_mode :: int
  oc_drm_mode :: drm_mode
  oc_x :: int
  oc_y :: int
  oc_scale :: rat
  oc_scale_filter :: scale_filter_mode
  oc_transform :: int
  oc_subpixel :: wl_output_subpixel
  oc_max_render_time :: int
  oc_adaptive_sync :: int
  oc_render_bit_depth :: render_bit_depth
  oc_color_profile :: color_profile
  oc_color_transform :: "color_transform option"
  oc_allow_tearing :: int
  oc_hdr :: int
  oc_background :: "string option"
  oc_background_option :: "string option"
  oc_background_fallback :: "string option"

definition zero_drm_mode :: drm_mode where
  "zero_drm_mode = \<lparr>dm_type = 0, dm_clock = 0, dm_timings = replicate 8 0, dm_vrefresh = 0, dm_flags = 0, dm_name = []\<rparr>"

definition new_output_config :: "string \<Rightarrow> output_config" where
  "new_output_config name =
     \<lparr>oc_name = name, oc_enabled = -1, oc_power = -1, oc_width = -1, oc_height = -1, oc_refresh_rate = -1,
      oc_custom_mode = -1, oc_drm_mode = zero_drm_mode\<lparr>dm_type := -1\<rparr>, oc_x = INT_MAX, oc_y = INT_MAX, oc_scale = -1,
      oc_scale_filter = SCALE_FILTER_DEFAULT, oc_transform = -1, oc_subpixel = SUBPIXEL_UNKNOWN,
      oc_max_render_time = -1, oc_adaptive_sync = -1, oc_render_bit_depth = RENDER_BIT_DEPTH_DEFAULT,
      oc_color_profile = COLOR_PROFILE_DEFAULT, oc_color_transform = None, oc_allow_tearing = -1, oc_hdr = -1,
      oc_background = None, oc_background_option = None, oc_background_fallback = None\<rparr>"

text \<open>
  unless_set u d v keeps d unless v is set, which is any value but u: it is v for merging and u for
  superseding.
\<close>

definition merged :: "'a \<Rightarrow> 'a \<Rightarrow> 'a \<Rightarrow> 'a" where
  "merged unset d v = (if v = unset then d else v)"

definition cleared :: "'a \<Rightarrow> 'a \<Rightarrow> 'a \<Rightarrow> 'a" where
  "cleared unset d v = (if v = unset then d else unset)"

text \<open>A modeline is set unless its type is all ones; superseding only marks it.\<close>

definition merged_drm :: "drm_mode \<Rightarrow> drm_mode \<Rightarrow> drm_mode" where
  "merged_drm d v = (if dm_type v = -1 then d else v)"

definition cleared_drm :: "drm_mode \<Rightarrow> drm_mode \<Rightarrow> drm_mode" where
  "cleared_drm d v = (if dm_type v = -1 then d else d\<lparr>dm_type := -1\<rparr>)"

definition supersede_output_config :: "output_config \<Rightarrow> output_config \<Rightarrow> output_config" where
  "supersede_output_config d v =
     d\<lparr>oc_enabled := cleared (-1) (oc_enabled d) (oc_enabled v),
       oc_width := cleared (-1) (oc_width d) (oc_width v),
       oc_height := cleared (-1) (oc_height d) (oc_height v),
       oc_x := cleared INT_MAX (oc_x d) (oc_x v),
       oc_y := cleared INT_MAX (oc_y d) (oc_y v),
       oc_scale := cleared (-1) (oc_scale d) (oc_scale v),
       oc_scale_filter := cleared SCALE_FILTER_DEFAULT (oc_scale_filter d) (oc_scale_filter v),
       oc_subpixel := cleared SUBPIXEL_UNKNOWN (oc_subpixel d) (oc_subpixel v),
       oc_refresh_rate := cleared (-1) (oc_refresh_rate d) (oc_refresh_rate v),
       oc_custom_mode := cleared (-1) (oc_custom_mode d) (oc_custom_mode v),
       oc_drm_mode := cleared_drm (oc_drm_mode d) (oc_drm_mode v),
       oc_transform := cleared (-1) (oc_transform d) (oc_transform v),
       oc_max_render_time := cleared (-1) (oc_max_render_time d) (oc_max_render_time v),
       oc_adaptive_sync := cleared (-1) (oc_adaptive_sync d) (oc_adaptive_sync v),
       oc_render_bit_depth := cleared RENDER_BIT_DEPTH_DEFAULT (oc_render_bit_depth d) (oc_render_bit_depth v),
       oc_color_transform := (if oc_color_profile v = COLOR_PROFILE_DEFAULT then oc_color_transform d else None),
       oc_color_profile := cleared COLOR_PROFILE_DEFAULT (oc_color_profile d) (oc_color_profile v),
       oc_background := cleared None (oc_background d) (oc_background v),
       oc_background_option := cleared None (oc_background_option d) (oc_background_option v),
       oc_background_fallback := cleared None (oc_background_fallback d) (oc_background_fallback v),
       oc_power := cleared (-1) (oc_power d) (oc_power v),
       oc_allow_tearing := cleared (-1) (oc_allow_tearing d) (oc_allow_tearing v),
       oc_hdr := cleared (-1) (oc_hdr d) (oc_hdr v)\<rparr>"

definition merge_output_config :: "output_config \<Rightarrow> output_config \<Rightarrow> output_config" where
  "merge_output_config d v =
     d\<lparr>oc_enabled := merged (-1) (oc_enabled d) (oc_enabled v),
       oc_width := merged (-1) (oc_width d) (oc_width v),
       oc_height := merged (-1) (oc_height d) (oc_height v),
       oc_x := merged INT_MAX (oc_x d) (oc_x v),
       oc_y := merged INT_MAX (oc_y d) (oc_y v),
       oc_scale := merged (-1) (oc_scale d) (oc_scale v),
       oc_scale_filter := merged SCALE_FILTER_DEFAULT (oc_scale_filter d) (oc_scale_filter v),
       oc_subpixel := merged SUBPIXEL_UNKNOWN (oc_subpixel d) (oc_subpixel v),
       oc_refresh_rate := merged (-1) (oc_refresh_rate d) (oc_refresh_rate v),
       oc_custom_mode := merged (-1) (oc_custom_mode d) (oc_custom_mode v),
       oc_drm_mode := merged_drm (oc_drm_mode d) (oc_drm_mode v),
       oc_transform := merged (-1) (oc_transform d) (oc_transform v),
       oc_max_render_time := merged (-1) (oc_max_render_time d) (oc_max_render_time v),
       oc_adaptive_sync := merged (-1) (oc_adaptive_sync d) (oc_adaptive_sync v),
       oc_render_bit_depth := merged RENDER_BIT_DEPTH_DEFAULT (oc_render_bit_depth d) (oc_render_bit_depth v),
       oc_color_transform := (if oc_color_profile v = COLOR_PROFILE_DEFAULT then oc_color_transform d else oc_color_transform v),
       oc_color_profile := merged COLOR_PROFILE_DEFAULT (oc_color_profile d) (oc_color_profile v),
       oc_background := merged None (oc_background d) (oc_background v),
       oc_background_option := merged None (oc_background_option d) (oc_background_option v),
       oc_background_fallback := merged None (oc_background_fallback d) (oc_background_fallback v),
       oc_power := merged (-1) (oc_power d) (oc_power v),
       oc_allow_tearing := merged (-1) (oc_allow_tearing d) (oc_allow_tearing v),
       oc_hdr := merged (-1) (oc_hdr d) (oc_hdr v)\<rparr>"

section \<open>Storing and finding\<close>

text \<open>What becomes of one stored configuration when another is stored.\<close>

definition update_stored :: "sway_output option \<Rightarrow> output_config \<Rightarrow> output_config \<Rightarrow> output_config" where
  "update_stored output oc old =
     (if oc_name old = oc_name oc then merge_output_config old oc
      else if oc_name oc = ''*'' then supersede_output_config old oc
      else
        (case output of None \<Rightarrow> old
         | Some p \<Rightarrow>
             if oc_name old = output_id p \<and> oc_name oc = output_name p
             then supersede_output_config old oc else old))"

definition store_output_config :: "sway_output list \<Rightarrow> output_config \<Rightarrow> output_config list \<Rightarrow> output_config list" where
  "store_output_config ps oc cs =
     (let output = (if oc_name oc = ''*'' then None else all_output_by_name_or_id ps (oc_name oc));
          ds = map (update_stored output oc) cs in
      if oc_name oc \<in> oc_name ` set cs then ds else ds @ [oc])"

definition merge_named :: "string \<Rightarrow> output_config list \<Rightarrow> output_config \<Rightarrow> output_config" where
  "merge_named n cs r = foldl merge_output_config r (filter (\<lambda>oc. oc_name oc = n) cs)"

definition find_output_config_from_list :: "output_config list \<Rightarrow> sway_output \<Rightarrow> output_config" where
  "find_output_config_from_list cs p =
     merge_named (output_id p) cs (merge_named (output_name p) cs (merge_named ''*'' cs (new_output_config (output_name p))))"

definition config_has_manual_mode :: "output_config \<Rightarrow> bool" where
  "config_has_manual_mode oc \<longleftrightarrow>
     (dm_type (oc_drm_mode oc) \<noteq> 0 \<and> dm_type (oc_drm_mode oc) \<noteq> -1) \<or> (oc_width oc > 0 \<and> oc_height oc > 0)"

definition output_config_is_disabling :: "output_config \<Rightarrow> bool" where
  "output_config_is_disabling oc \<longleftrightarrow> oc_enabled oc = 0 \<or> oc_power oc = 0"

section \<open>Wallpapers\<close>

text \<open>
  The command line of swaybg, None where the program compares a null string. Its length is the length
  spawn_swaybg allocates, less one for the terminating null pointer.
\<close>

definition swaybg_arguments :: "output_config \<Rightarrow> string list option" where
  "swaybg_arguments oc =
     (case oc_background oc of None \<Rightarrow> Some []
      | Some bg \<Rightarrow>
          (case oc_background_option oc of None \<Rightarrow> None
           | Some opt \<Rightarrow>
               Some (if opt = ''solid_color'' then [''-o'', oc_name oc, ''-c'', bg]
                     else [''-o'', oc_name oc, ''-i'', bg, ''-m'', opt]
                       @ (case oc_background_fallback oc of None \<Rightarrow> [] | Some f \<Rightarrow> [''-c'', f]))))"

fun swaybg_lines :: "output_config list \<Rightarrow> string list option" where
  "swaybg_lines [] = Some []"
| "swaybg_lines (oc # cs) =
     (case swaybg_arguments oc of None \<Rightarrow> None
      | Some as \<Rightarrow> map_option (\<lambda>bs. as @ bs) (swaybg_lines cs))"

definition swaybg_length :: "output_config list \<Rightarrow> nat" where
  "swaybg_length cs =
     2 + sum_list (map (\<lambda>oc.
       if oc_background oc = None then 0
       else if oc_background_option oc = Some ''solid_color'' then 4
       else if oc_background_fallback oc \<noteq> None then 8 else 6) cs)"

text \<open>No command, nothing to start; else spawning tells whether it worked.\<close>

definition spawn_swaybg :: "(string list \<Rightarrow> bool) \<Rightarrow> string option \<Rightarrow> output_config list \<Rightarrow> bool option" where
  "spawn_swaybg spawn command cs =
     (case command of None \<Rightarrow> Some True | Some c \<Rightarrow> map_option (\<lambda>as. spawn (c # as)) (swaybg_lines cs))"

end
