(* ===== verification/Output_Config_Laws.thy ===== *)
theory Output_Config_Laws
  imports Output_Config
begin

text \<open>
  What storing configurations of outputs amounts to: the configuration that is found for an output is
  the merge of all that were stored for it, in the order of the commands, whether a command named the
  output, its identifier or all outputs.
\<close>

section \<open>The algebra of merging and superseding\<close>

lemma merged_laws:
  "merged u r (merged u w v) = merged u (merged u r w) v"
  "merged u (merged u r v) (merged u w v) = merged u (merged u r w) v"
  "merged u (merged u r v) (cleared u w v) = merged u (merged u r w) v"
  "merged u a b = u \<longleftrightarrow> a = u \<and> b = u" "cleared u a b = u \<longleftrightarrow> a = u \<or> b \<noteq> u"
  by (auto simp: merged_def cleared_def)

lemma merged_drm_laws:
  "merged_drm r (merged_drm w v) = merged_drm (merged_drm r w) v"
  "merged_drm (merged_drm r v) (merged_drm w v) = merged_drm (merged_drm r w) v"
  "merged_drm (merged_drm r v) (cleared_drm w v) = merged_drm (merged_drm r w) v"
  by (auto simp: merged_drm_def cleared_drm_def)

lemma merge_assoc:
  "merge_output_config r (merge_output_config w v) = merge_output_config (merge_output_config r w) v"
  by (simp add: merge_output_config_def merged_laws(1,4) merged_drm_laws(1))

lemma merge_again:
  "merge_output_config (merge_output_config r v) (merge_output_config w v)
     = merge_output_config (merge_output_config r w) v"
  by (simp add: merge_output_config_def merged_laws(2,4) merged_drm_laws(2))

lemma merge_superseded:
  "merge_output_config (merge_output_config r v) (supersede_output_config w v)
     = merge_output_config (merge_output_config r w) v"
  by (simp add: merge_output_config_def supersede_output_config_def merged_laws(3-5) merged_drm_laws(3))

lemma merged_names [simp]:
  "oc_name (merge_output_config d v) = oc_name d" "oc_name (supersede_output_config d v) = oc_name d"
  by (simp_all add: merge_output_config_def supersede_output_config_def)

lemma update_stored_name [simp]: "oc_name (update_stored q v w) = oc_name w"
  by (simp add: update_stored_def split: option.split)

text \<open>Behind a merge of v, lists that are merged with v or superseded by it mean the same as v at the end.\<close>

lemma fold_merge_behind:
  "\<forall>w\<in>set ws. f w = merge_output_config w v \<or> f w = supersede_output_config w v \<Longrightarrow>
     foldl merge_output_config (merge_output_config r v) (map f ws)
       = merge_output_config (foldl merge_output_config r ws) v"
  by (induction ws arbitrary: r) (auto simp: merge_again merge_superseded)

lemma fold_merge_all:
  "ws \<noteq> [] \<Longrightarrow> \<forall>w\<in>set ws. f w = merge_output_config w v \<Longrightarrow>
     foldl merge_output_config r (map f ws) = merge_output_config (foldl merge_output_config r ws) v"
  using fold_merge_behind[of "tl ws" f v] by (cases ws) (auto simp: merge_assoc)

section \<open>One class of names\<close>

lemma filter_updated: "filter (\<lambda>w. oc_name w = n) (map (update_stored q v) cs)
    = map (update_stored q v) (filter (\<lambda>w. oc_name w = n) cs)"
  by (simp add: filter_map comp_def)

lemma filter_stored:
  "filter (\<lambda>w. oc_name w = n) (store_output_config ps v cs)
     = (let q = (if oc_name v = ''*'' then None else all_output_by_name_or_id ps (oc_name v)) in
        map (update_stored q v) (filter (\<lambda>w. oc_name w = n) cs)
          @ (if oc_name v = n \<and> n \<notin> oc_name ` set cs then [v] else []))"
  by (auto simp: store_output_config_def Let_def filter_updated)

text \<open>The class the new configuration belongs to takes it in.\<close>

lemma class_takes:
  "merge_named (oc_name v) (store_output_config ps v cs) r = merge_output_config (merge_named (oc_name v) cs r) v"
proof (cases "oc_name v \<in> oc_name ` set cs")
  case True
  then have "filter (\<lambda>w. oc_name w = oc_name v) cs \<noteq> []" by (auto simp: filter_empty_conv)
  then show ?thesis using True
    by (simp add: merge_named_def filter_stored Let_def fold_merge_all update_stored_def)
next
  case False
  then have "filter (\<lambda>w. oc_name w = oc_name v) cs = []" by (auto simp: filter_empty_conv image_iff)
  then show ?thesis using False by (simp add: merge_named_def filter_stored Let_def)
qed

definition found_for :: "sway_output list \<Rightarrow> output_config \<Rightarrow> sway_output option" where
  "found_for ps v = (if oc_name v = ''*'' then None else all_output_by_name_or_id ps (oc_name v))"

text \<open>A class that is superseded only keeps what the new configuration does not set.\<close>

lemma class_gives_way:
  assumes "oc_name v \<noteq> n"
    and "\<And>w. oc_name w = n \<Longrightarrow> update_stored (found_for ps v) v w = supersede_output_config w v"
  shows "merge_named n (store_output_config ps v cs) (merge_output_config r v)
     = merge_output_config (merge_named n cs r) v"
proof -
  have "filter (\<lambda>w. oc_name w = n) (store_output_config ps v cs)
      = map (update_stored (found_for ps v) v) (filter (\<lambda>w. oc_name w = n) cs)"
    using assms(1) by (simp add: filter_stored found_for_def Let_def)
  then show ?thesis
    unfolding merge_named_def using assms(2) by (simp add: fold_merge_behind)
qed

lemma class_stays:
  assumes "oc_name v \<noteq> n"
    and "\<And>w. oc_name w = n \<Longrightarrow> update_stored (found_for ps v) v w = w"
  shows "merge_named n (store_output_config ps v cs) r = merge_named n cs r"
proof -
  have "filter (\<lambda>w. oc_name w = n) (store_output_config ps v cs) = filter (\<lambda>w. oc_name w = n) cs"
    using assms(1) map_idI[of "filter (\<lambda>w. oc_name w = n) cs" "update_stored (found_for ps v) v"] assms(2)
    by (simp add: filter_stored found_for_def Let_def)
  then show ?thesis by (simp add: merge_named_def)
qed

section \<open>Outputs that can be told apart\<close>

text \<open>
  No two outputs share a name or an identifier, no name is an identifier, and none is the wildcard;
  names are compared without regard to case.
\<close>

definition told_apart :: "sway_output list \<Rightarrow> bool" where
  "told_apart ps \<longleftrightarrow>
     (\<forall>p\<in>set ps. \<forall>q\<in>set ps.
        (str_caseeq (output_name p) (output_name q) \<longrightarrow> p = q)
        \<and> (str_caseeq (output_id p) (output_id q) \<longrightarrow> p = q)
        \<and> \<not> str_caseeq (output_name p) (output_id q) \<and> \<not> str_caseeq (output_id p) (output_name q))
     \<and> (\<forall>p\<in>set ps. output_name p \<noteq> ''*'' \<and> output_id p \<noteq> ''*'')"

lemma str_caseeq_refl [simp]: "str_caseeq a a"
  by (simp add: str_caseeq_def)

lemma told_apartD:
  assumes "told_apart ps" "p \<in> set ps" "q \<in> set ps"
  shows "str_caseeq (output_name p) (output_name q) \<Longrightarrow> p = q"
    "str_caseeq (output_id p) (output_id q) \<Longrightarrow> p = q"
    "output_name p \<noteq> output_id q" "output_id q \<noteq> output_name p"
    "output_name p \<noteq> ''*''" "output_id p \<noteq> ''*''"
  using assms unfolding told_apart_def by (blast, blast, metis str_caseeq_refl, metis str_caseeq_refl, blast, blast)

lemma found_by_name:
  assumes "told_apart ps" "p \<in> set ps"
  shows "all_output_by_name_or_id ps (output_name p) = Some p"
proof -
  have "\<exists>q. all_output_by_name_or_id ps (output_name p) = Some q"
    using assms(2) unfolding all_output_by_name_or_id_def not_None_eq[symmetric] find_None_iff by auto
  then obtain q where q: "all_output_by_name_or_id ps (output_name p) = Some q" by blast
  then have "q \<in> set ps" "str_caseeq (output_id q) (output_name p) \<or> str_caseeq (output_name q) (output_name p)"
    using told_apartD(5)[OF assms assms(2)] by (auto simp: all_output_by_name_or_id_def find_Some_iff)
  then have "q = p" using assms unfolding told_apart_def by blast
  then show ?thesis using q by simp
qed

lemma found_member: "found_for ps v = Some q \<Longrightarrow> q \<in> set ps"
  by (auto simp: found_for_def all_output_by_name_or_id_def find_Some_iff split: if_splits)

definition matches_output :: "sway_output \<Rightarrow> output_config \<Rightarrow> bool" where
  "matches_output p v \<longleftrightarrow> oc_name v = ''*'' \<or> oc_name v = output_name p \<or> oc_name v = output_id p"

lemma update_stored_cases:
  "oc_name w \<noteq> oc_name v \<Longrightarrow> update_stored q v w =
     (if oc_name v = ''*'' \<or> (\<exists>p. q = Some p \<and> oc_name w = output_id p \<and> oc_name v = output_name p)
      then supersede_output_config w v else w)"
  by (auto simp: update_stored_def split: option.splits)

section \<open>What is found after storing\<close>

lemma store_wildcard:
  assumes "told_apart ps" "p \<in> set ps" "oc_name v = ''*''"
  shows "find_output_config_from_list (store_output_config ps v cs) p
     = merge_output_config (find_output_config_from_list cs p) v"
proof -
  have ne: "oc_name v \<noteq> output_name p" "oc_name v \<noteq> output_id p"
    using told_apartD(5,6)[OF assms(1,2,2)] assms(3) by auto
  have way: "merge_named n (store_output_config ps v cs) (merge_output_config r v) = merge_output_config (merge_named n cs r) v"
    if "oc_name v \<noteq> n" for n r
    using that assms(3) by (intro class_gives_way) (auto simp: update_stored_cases)
  show ?thesis
    using class_takes[of v ps cs] assms(3) ne by (simp add: find_output_config_from_list_def way)
qed

lemma store_named:
  assumes "told_apart ps" "p \<in> set ps" "oc_name v = output_name p"
  shows "find_output_config_from_list (store_output_config ps v cs) p
     = merge_output_config (find_output_config_from_list cs p) v"
proof -
  note t = told_apartD[OF assms(1,2,2)]
  have found: "found_for ps v = Some p" using found_by_name[OF assms(1,2)] t(5) assms(3) by (simp add: found_for_def)
  have "merge_named ''*'' (store_output_config ps v cs) r = merge_named ''*'' cs r" for r
    using t(5,6) assms(3) found by (intro class_stays) (auto simp: update_stored_cases)
  moreover have "merge_named (output_id p) (store_output_config ps v cs) (merge_output_config r v)
      = merge_output_config (merge_named (output_id p) cs r) v" for r
    using t(3,5) assms(3) found by (intro class_gives_way) (auto simp: update_stored_cases)
  ultimately show ?thesis
    using class_takes[of v ps cs] assms(3) by (simp add: find_output_config_from_list_def)
qed

lemma store_identified:
  assumes "told_apart ps" "p \<in> set ps" "oc_name v = output_id p"
  shows "find_output_config_from_list (store_output_config ps v cs) p
     = merge_output_config (find_output_config_from_list cs p) v"
proof -
  note t = told_apartD[OF assms(1,2,2)]
  have none: "\<not> (found_for ps v = Some q \<and> oc_name v = output_name q)" for q
    using told_apartD(4)[OF assms(1) found_member assms(2)] assms(3) by auto
  have "merge_named n (store_output_config ps v cs) r = merge_named n cs r" if "oc_name v \<noteq> n" for n r
    using that t(6) assms(3) none by (intro class_stays) (auto simp: update_stored_cases)
  then show ?thesis
    using class_takes[of v ps cs] t(3,6) assms(3) by (simp add: find_output_config_from_list_def)
qed

lemma store_other:
  assumes "told_apart ps" "p \<in> set ps" "\<not> matches_output p v"
  shows "find_output_config_from_list (store_output_config ps v cs) p = find_output_config_from_list cs p"
proof -
  have ne: "oc_name v \<noteq> ''*''" "oc_name v \<noteq> output_name p" "oc_name v \<noteq> output_id p"
    using assms(3) by (auto simp: matches_output_def)
  have none: "\<not> (found_for ps v = Some q \<and> n = output_id q \<and> oc_name v = output_name q)"
    if "n \<in> {''*'', output_name p, output_id p}" for n q
  proof
    assume q: "found_for ps v = Some q \<and> n = output_id q \<and> oc_name v = output_name q"
    then have "q \<in> set ps" using found_member by blast
    note t = told_apartD[OF assms(1,2) this]
    have "output_id q \<noteq> ''*''" using told_apartD(6)[OF assms(1) \<open>q \<in> set ps\<close> \<open>q \<in> set ps\<close>] .
    then have "n = output_id p" using that q t(3) by auto
    then have "p = q" using q t(2) by (metis str_caseeq_refl)
    then show False using q ne(2) by simp
  qed
  have "merge_named n (store_output_config ps v cs) r = merge_named n cs r"
    if "n \<in> {''*'', output_name p, output_id p}" for n r
  proof (rule class_stays)
    show "oc_name v \<noteq> n" using that ne by auto
    then show "update_stored (found_for ps v) v w = w" if "oc_name w = n" for w
      using none[OF \<open>n \<in> _\<close>] that ne(1) by (auto simp: update_stored_cases)
  qed
  then show ?thesis by (simp add: find_output_config_from_list_def)
qed

definition store_all :: "sway_output list \<Rightarrow> output_config list \<Rightarrow> output_config list \<Rightarrow> output_config list" where
  "store_all ps vs cs = foldl (\<lambda>cs v. store_output_config ps v cs) cs vs"

text \<open>
  C10. The stored configurations implement one configuration per output, for an output that is connected
  while they are stored and when the connected outputs can be told apart by their names and identifiers:
  whatever is stored, by name, by identifier or for all outputs, the configuration found for the output
  afterwards is the one found before with everything stored for it merged on top, in the order of
  the commands; what is stored for other outputs changes nothing. For an output that is connected later, as
  all are while the configuration is read at the start, it does not hold (stored_before_connected).
\<close>
theorem stored_outputs_last_wins:
  assumes "told_apart ps" "p \<in> set ps"
  shows "find_output_config_from_list (store_all ps vs cs) p
     = foldl merge_output_config (find_output_config_from_list cs p) (filter (matches_output p) vs)"
proof (induction vs arbitrary: cs)
  case (Cons v vs)
  have "find_output_config_from_list (store_output_config ps v cs) p
      = (if matches_output p v then merge_output_config (find_output_config_from_list cs p) v
         else find_output_config_from_list cs p)"
    using store_wildcard[OF assms] store_named[OF assms] store_identified[OF assms] store_other[OF assms]
    by (auto simp: matches_output_def)
  then show ?case using Cons.IH[of "store_output_config ps v cs"] by (simp add: store_all_def)
qed (simp add: store_all_def)

section \<open>Examples\<close>

definition sample_wlr_output :: "string \<Rightarrow> string \<Rightarrow> wlr_output" where
  "sample_wlr_output name serial =
     \<lparr>wo_name = name, wo_make = Some ''Acme'', wo_model = Some ''One'', wo_serial = Some serial, wo_enabled = True,
      wo_modes = [\<lparr>wm_id = 0, wm_width = 1920, wm_height = 1080, wm_refresh = 60000\<rparr>],
      wo_preferred = Some \<lparr>wm_id = 0, wm_width = 1920, wm_height = 1080, wm_refresh = 60000\<rparr>,
      wo_width = 1920, wo_height = 1080, wo_phys_width = 500, wo_phys_height = 300,
      wo_transform = 0, wo_panel = None, wo_scale = 1, wo_adaptive_sync_supported = False,
      wo_adaptive_sync_enabled = False, wo_render_format = DRM_FORMAT_XRGB8888, wo_formats = None,
      wo_supports_bt2020 = False, wo_supports_pq = False, wo_supports_any = False, wo_primaries = None,
      wo_unpluggable = False\<rparr>"

definition sample_output :: "id \<Rightarrow> string \<Rightarrow> string \<Rightarrow> sway_output" where
  "sample_output p name serial =
     \<lparr>so_id = p, so_wlr = sample_wlr_output name serial, so_detected_subpixel = SUBPIXEL_UNKNOWN,
      so_scale_filter = SCALE_FILTER_DEFAULT, so_color_transform = None, so_max_render_time = 0,
      so_allow_tearing = False, so_hdr = False\<rparr>"

definition left_output :: sway_output where "left_output = sample_output 0 ''DP-1'' ''A''"
definition right_output :: sway_output where "right_output = sample_output 1 ''DP-2'' ''B''"

lemma samples_told_apart: "told_apart [left_output, right_output]"
  unfolding told_apart_def by code_simp

lemma left_names: "output_name left_output = ''DP-1''" "output_id left_output = ''Acme One A''"
  by code_simp+

definition scaled :: "string \<Rightarrow> rat \<Rightarrow> output_config" where
  "scaled n f = (new_output_config n)\<lparr>oc_scale := f\<rparr>"

definition turned :: "string \<Rightarrow> int \<Rightarrow> output_config" where
  "turned n t = (new_output_config n)\<lparr>oc_transform := t\<rparr>"

lemma stored_outputs_last_wins_witness:
  "oc_scale (find_output_config_from_list
     (store_all [left_output, right_output]
       [scaled ''DP-1'' 3, scaled ''Acme One A'' 2, turned ''*'' 1, scaled ''DP-1'' 1, scaled ''DP-2'' 4] []) left_output) = 1"
  by (subst stored_outputs_last_wins[OF samples_told_apart])
    (simp_all add: matches_output_def left_names scaled_def turned_def new_output_config_def merge_output_config_def
       merged_def merged_drm_def find_output_config_from_list_def merge_named_def zero_drm_mode_def)

text \<open>
  When no output is connected yet, as while the configuration is read at the start, the command that
  names the output does not supersede an earlier one that names its identifier; read again with the
  output connected, it does.
\<close>

lemma stored_before_connected:
  "oc_scale (find_output_config_from_list (store_all [] [scaled ''Acme One A'' 2, scaled ''DP-1'' 1] []) left_output) = 2
   \<and> oc_scale (find_output_config_from_list
        (store_all [left_output, right_output] [scaled ''Acme One A'' 2, scaled ''DP-1'' 1] []) left_output) = 1"
  by code_simp

section \<open>The command line of swaybg\<close>

text \<open>A wallpaper comes with a mode in every configuration a command stores.\<close>

definition background_ok :: "output_config \<Rightarrow> bool" where
  "background_ok oc \<longleftrightarrow> (oc_background oc = None \<longleftrightarrow> oc_background_option oc = None)"

lemma background_merge: "background_ok d \<Longrightarrow> background_ok v \<Longrightarrow> background_ok (merge_output_config d v)"
  by (auto simp: background_ok_def merge_output_config_def merged_laws)

lemma background_supersede: "background_ok d \<Longrightarrow> background_ok v \<Longrightarrow> background_ok (supersede_output_config d v)"
  by (auto simp: background_ok_def supersede_output_config_def merged_laws)

lemma background_stored:
  "background_ok v \<Longrightarrow> \<forall>oc\<in>set cs. background_ok oc \<Longrightarrow> \<forall>oc\<in>set (store_output_config ps v cs). background_ok oc"
  by (auto simp: store_output_config_def Let_def update_stored_def background_merge background_supersede
      split: option.splits)

lemma swaybg_lines_length:
  "\<forall>oc\<in>set cs. background_ok oc \<Longrightarrow> \<exists>as. swaybg_lines cs = Some as \<and> length as + 2 = swaybg_length cs"
proof (induction cs)
  case (Cons oc cs)
  then obtain as where as: "swaybg_lines cs = Some as" "length as + 2 = swaybg_length cs" by auto
  have "\<exists>bs. swaybg_arguments oc = Some bs
      \<and> length bs = (if oc_background oc = None then 0
           else if oc_background_option oc = Some ''solid_color'' then 4
           else if oc_background_fallback oc \<noteq> None then 8 else 6)"
    using Cons.prems by (auto simp: swaybg_arguments_def background_ok_def split: option.splits)
  then show ?case using as by (auto simp: swaybg_length_def)
qed (simp add: swaybg_length_def)

end
