(* ===== verification/Output_Apply.thy ===== *)
theory Output_Apply
  imports Output_Config
begin

text \<open>
  Applying the configurations of outputs (sway/config/output.c, the output manager of
  sway/desktop/output.c): the state that is asked of the backend for a configuration, the depth-first
  search for a state the backend accepts, the commit, and what the compositor does with the outputs
  afterwards. The backend is a parameter.
\<close>

section \<open>States of outputs\<close>

datatype mode_choice = MODE_FIXED wlr_mode | MODE_CUSTOM int int int

text \<open>
  A wlr_output_state: a component is None when it is not committed. st_hdr is the image description,
  Some False for no description.
\<close>

record output_state =
  st_enabled :: "bool option"
  st_mode :: "mode_choice option"
  st_scale :: "rat option"
  st_transform :: "int option"
  st_subpixel :: "wl_output_subpixel option"
  st_adaptive_sync :: "bool option"
  st_format :: "drm_format option"
  st_hdr :: "bool option"

definition empty_state :: output_state where
  "empty_state = \<lparr>st_enabled = None, st_mode = None, st_scale = None, st_transform = None, st_subpixel = None,
     st_adaptive_sync = None, st_format = None, st_hdr = None\<rparr>"

definition off_state :: output_state where
  "off_state = empty_state\<lparr>st_enabled := Some False\<rparr>"

type_synonym layout = "(id \<times> (int \<times> int) option) list"
type_synonym matched_output_config = "sway_output \<times> output_config"

text \<open>
  The backend: be_modeline is wlr_drm_connector_add_mode for the output of a name, be_prepare the test
  of the swapchain manager, be_build wlr_scene_output_build_state, be_commit wlr_backend_commit,
  be_color_output whether the renderer transforms colours. be_env is the environment of the tree for
  what was put into the output layout, None for an automatic place, and be_usable what the layer
  surfaces leave of an output. The comparator the source passes to qsort is not an order, so that qsort
  is a parameter too. be_srgb, be_gamma22, be_matrix and be_pipeline make colour transforms.
\<close>

record backend =
  be_modeline :: "string \<Rightarrow> drm_mode \<Rightarrow> wlr_mode option"
  be_prepare :: "(id \<times> output_state) list \<Rightarrow> bool"
  be_build :: "id \<Rightarrow> output_state \<Rightarrow> bool"
  be_commit :: "(id \<times> output_state) list \<Rightarrow> bool"
  be_color_output :: bool
  be_env :: "layout \<Rightarrow> env"
  be_usable :: "layout \<Rightarrow> id \<Rightarrow> box"
  be_qsort :: "(matched_output_config \<Rightarrow> matched_output_config \<Rightarrow> int) \<Rightarrow> matched_output_config list \<Rightarrow> matched_output_config list"
  be_srgb :: nat
  be_gamma22 :: "color_transform option"
  be_matrix :: "nat \<Rightarrow> color_transform option"
  be_pipeline :: "color_transform \<Rightarrow> color_transform \<Rightarrow> color_transform option"

section \<open>The state a configuration asks for\<close>

text \<open>The first of the modes of the size whose rate is closest; a difference must be below INT_MAX.\<close>

fun best_mode :: "int \<Rightarrow> int \<Rightarrow> int \<Rightarrow> wlr_mode list \<Rightarrow> int \<Rightarrow> wlr_mode option \<Rightarrow> wlr_mode option" where
  "best_mode width height mhz [] best_diff best = best"
| "best_mode width height mhz (m # ms) best_diff best =
     (if wm_width m = width \<and> wm_height m = height \<and> \<bar>wm_refresh m - mhz\<bar> < best_diff
      then (if wm_refresh m = mhz then Some m else best_mode width height mhz ms \<bar>wm_refresh m - mhz\<bar> (Some m))
      else best_mode width height mhz ms best_diff best)"

text \<open>
  An output with modes has a preferred one, which replaces a mode it does not have. Output.c reads through
  the pointer to it without a check; the model of an output without one sets no mode there.
\<close>

definition set_mode :: "wlr_output \<Rightarrow> int \<Rightarrow> int \<Rightarrow> rat \<Rightarrow> bool \<Rightarrow> output_state \<Rightarrow> output_state" where
  "set_mode w width height refresh_rate custom st =
     (let mhz = c_round (refresh_rate * 1000); mhz = (if mhz \<le> 0 then INT_MAX else mhz) in
      if wo_modes w = [] \<or> custom
      then st\<lparr>st_mode := Some (MODE_CUSTOM width height (if refresh_rate > 0 then mhz else 0))\<rparr>
      else
        (case best_mode width height mhz (wo_modes w) INT_MAX None of
           Some m \<Rightarrow> st\<lparr>st_mode := Some (MODE_FIXED m)\<rparr>
         | None \<Rightarrow> st\<lparr>st_mode := map_option MODE_FIXED (wo_preferred w)\<rparr>))"

definition set_modeline :: "backend \<Rightarrow> wlr_output \<Rightarrow> drm_mode \<Rightarrow> output_state \<Rightarrow> output_state" where
  "set_modeline B w drm st =
     (if wo_panel w = None then st
      else case be_modeline B (wo_name w) drm of None \<Rightarrow> st | Some m \<Rightarrow> st\<lparr>st_mode := Some (MODE_FIXED m)\<rparr>)"

definition output_supports_hdr :: "backend \<Rightarrow> wlr_output \<Rightarrow> bool" where
  "output_supports_hdr B w \<longleftrightarrow> wo_supports_bt2020 w \<and> wo_supports_pq w \<and> be_color_output B"

definition set_hdr :: "backend \<Rightarrow> wlr_output \<Rightarrow> bool \<Rightarrow> output_state \<Rightarrow> output_state" where
  "set_hdr B w enabled st =
     (if enabled \<and> output_supports_hdr B w then st\<lparr>st_hdr := Some True\<rparr>
      else if wo_supports_any w then st\<lparr>st_hdr := Some False\<rparr> else st)"

definition phys_size_is_aspect_ratio :: "wlr_output \<Rightarrow> bool" where
  "phys_size_is_aspect_ratio w \<longleftrightarrow>
     (wo_phys_width w, wo_phys_height w) \<in> {(1600, 900), (1600, 1000), (160, 90), (160, 100), (16, 9), (16, 10)}"

definition HIDPI_DPI_LIMIT :: rat where "HIDPI_DPI_LIMIT = 2 * 96"
definition HIDPI_MIN_HEIGHT :: int where "HIDPI_MIN_HEIGHT = 1200"
definition MM_PER_INCH :: rat where "MM_PER_INCH = 254 / 10"

text \<open>The size the output gets; wlr_box_transform exchanges the sides for the odd transforms, the quarter turns.\<close>

definition pending_size :: "wlr_output \<Rightarrow> output_state \<Rightarrow> int \<times> int" where
  "pending_size w st =
     (let (width, height) =
            (case st_mode st of None \<Rightarrow> (wo_width w, wo_height w)
             | Some (MODE_FIXED m) \<Rightarrow> (wm_width m, wm_height m) | Some (MODE_CUSTOM a b r) \<Rightarrow> (a, b));
          transform = (case st_transform st of None \<Rightarrow> wo_transform w | Some t \<Rightarrow> t) in
      if odd transform then (height, width) else (width, height))"

definition compute_default_scale :: "wlr_output \<Rightarrow> output_state \<Rightarrow> rat" where
  "compute_default_scale w st =
     (let (width, height) = pending_size w st in
      if height < HIDPI_MIN_HEIGHT \<or> wo_phys_width w = 0 \<or> wo_phys_height w = 0 \<or> phys_size_is_aspect_ratio w then 1
      else if of_int width / (of_int (wo_phys_width w) / MM_PER_INCH) \<le> HIDPI_DPI_LIMIT
        \<or> of_int height / (of_int (wo_phys_height w) / MM_PER_INCH) \<le> HIDPI_DPI_LIMIT then 1
      else 2)"

definition bit_depth_from_format :: "drm_format \<Rightarrow> render_bit_depth" where
  "bit_depth_from_format f =
     (if f \<in> {DRM_FORMAT_XRGB2101010, DRM_FORMAT_XBGR2101010} then RENDER_BIT_DEPTH_10
      else if f \<in> {DRM_FORMAT_XRGB8888, DRM_FORMAT_ARGB8888} then RENDER_BIT_DEPTH_8
      else if f = DRM_FORMAT_RGB565 then RENDER_BIT_DEPTH_6 else RENDER_BIT_DEPTH_DEFAULT)"

definition depth_rank :: "render_bit_depth \<Rightarrow> nat" where
  "depth_rank d = (case d of RENDER_BIT_DEPTH_DEFAULT \<Rightarrow> 0 | RENDER_BIT_DEPTH_6 \<Rightarrow> 1 | RENDER_BIT_DEPTH_8 \<Rightarrow> 2
     | RENDER_BIT_DEPTH_10 \<Rightarrow> 3)"

definition get_config_render_bit_depth :: "output_config \<Rightarrow> render_bit_depth" where
  "get_config_render_bit_depth oc =
     (if oc_render_bit_depth oc \<noteq> RENDER_BIT_DEPTH_DEFAULT then oc_render_bit_depth oc
      else if oc_hdr oc = 1 then RENDER_BIT_DEPTH_10 else RENDER_BIT_DEPTH_8)"

definition render_format_is_bgr :: "drm_format \<Rightarrow> bool" where
  "render_format_is_bgr f \<longleftrightarrow> f = DRM_FORMAT_XBGR2101010 \<or> f = DRM_FORMAT_XBGR8888"

definition queued_mode :: "backend \<Rightarrow> output_config \<Rightarrow> wlr_output \<Rightarrow> output_state \<Rightarrow> output_state" where
  "queued_mode B oc w st =
     (if dm_type (oc_drm_mode oc) \<noteq> 0 \<and> dm_type (oc_drm_mode oc) \<noteq> -1 then set_modeline B w (oc_drm_mode oc) st
      else if oc_width oc > 0 \<and> oc_height oc > 0
      then set_mode w (oc_width oc) (oc_height oc) (oc_refresh_rate oc) (oc_custom_mode oc = 1) st
      else if wo_modes w \<noteq> [] then st\<lparr>st_mode := map_option MODE_FIXED (wo_preferred w)\<rparr> else st)"

definition queued_format :: "output_config \<Rightarrow> wlr_output \<Rightarrow> drm_format" where
  "queued_format oc w =
     (let depth = get_config_render_bit_depth oc in
      if depth = RENDER_BIT_DEPTH_10 \<and> bit_depth_from_format (wo_render_format w) = depth then wo_render_format w
      else if depth = RENDER_BIT_DEPTH_10 then DRM_FORMAT_XRGB2101010
      else if depth = RENDER_BIT_DEPTH_6 then DRM_FORMAT_RGB565 else DRM_FORMAT_XRGB8888)"

text \<open>Scales are multiples of 1/120.\<close>

definition queued_scale :: "output_config \<Rightarrow> wlr_output \<Rightarrow> output_state \<Rightarrow> rat" where
  "queued_scale oc w st =
     (if oc_scale oc > 0 then of_int (c_round (oc_scale oc * 120)) / 120 else compute_default_scale w st)"

definition queue_output_config :: "backend \<Rightarrow> output_config \<Rightarrow> sway_output \<Rightarrow> output_state \<Rightarrow> output_state" where
  "queue_output_config B oc p st =
     (let w = so_wlr p in
      if output_config_is_disabling oc then st\<lparr>st_enabled := Some False\<rparr>
      else
        (let st = queued_mode B oc w (st\<lparr>st_enabled := Some True\<rparr>);
             st = st\<lparr>st_subpixel := Some (if oc_subpixel oc \<noteq> SUBPIXEL_UNKNOWN then oc_subpixel oc else so_detected_subpixel p),
                     st_transform := Some (if oc_transform oc \<ge> 0 then oc_transform oc
                                           else case wo_panel w of Some t \<Rightarrow> t | None \<Rightarrow> 0)\<rparr>;
             st = st\<lparr>st_scale := Some (queued_scale oc w st)\<rparr>;
             st = (if wo_adaptive_sync_supported w then st\<lparr>st_adaptive_sync := Some (oc_adaptive_sync oc = 1)\<rparr> else st);
             st = st\<lparr>st_format := Some (queued_format oc w)\<rparr>;
             profile = (oc_color_transform oc \<noteq> None
               \<or> oc_color_profile oc = COLOR_PROFILE_TRANSFORM_WITH_DEVICE_PRIMARIES) in
         set_hdr B w (oc_hdr oc = 1 \<and> \<not> profile) st))"

section \<open>The search\<close>

text \<open>
  An attempt changes the states and tells whether the backend accepts them. The states of a failed
  attempt stay as they are for the next one, as in the source.
\<close>

type_synonym attempt = "output_state list \<Rightarrow> bool \<times> output_state list"

definition or_else :: "attempt \<Rightarrow> attempt \<Rightarrow> attempt" where
  "or_else f g sts = (case f sts of (True, t) \<Rightarrow> (True, t) | (False, t) \<Rightarrow> g t)"

fun first_of :: "('a \<Rightarrow> attempt) \<Rightarrow> 'a list \<Rightarrow> attempt" where
  "first_of f [] sts = (False, sts)"
| "first_of f (x # xs) sts = or_else (f x) (first_of f xs) sts"

definition upd_state :: "nat \<Rightarrow> (output_state \<Rightarrow> output_state) \<Rightarrow> output_state list \<Rightarrow> output_state list" where
  "upd_state k f sts = sts[k := f (sts ! k)]"

definition prepared :: "backend \<Rightarrow> matched_output_config list \<Rightarrow> output_state list \<Rightarrow> bool" where
  "prepared B cfgs sts = be_prepare B (zip (map (\<lambda>c. so_id (fst c)) cfgs) sts)"

definition clear_later_output_states :: "nat \<Rightarrow> output_state list \<Rightarrow> output_state list" where
  "clear_later_output_states k sts = take (Suc k) sts @ replicate (length sts - Suc k) off_state"

definition search_finish :: "backend \<Rightarrow> matched_output_config list \<Rightarrow> attempt \<Rightarrow> nat \<Rightarrow> attempt" where
  "search_finish B cfgs next k sts =
     (let sts = clear_later_output_states k sts in
      if prepared B cfgs sts then next sts else (False, sts))"

definition search_adaptive_sync :: "backend \<Rightarrow> matched_output_config list \<Rightarrow> attempt \<Rightarrow> nat \<Rightarrow> attempt" where
  "search_adaptive_sync B cfgs next k sts =
     (let finish = search_finish B cfgs next k;
          sync = (\<lambda>b sts. finish (upd_state k (\<lambda>st. st\<lparr>st_adaptive_sync := Some b\<rparr>) sts)) in
      if \<not> wo_adaptive_sync_supported (so_wlr (fst (cfgs ! k))) then finish sts
      else if oc_adaptive_sync (snd (cfgs ! k)) = 1 then or_else (sync True) (sync False) sts
      else sync False sts)"

definition search_mode :: "backend \<Rightarrow> matched_output_config list \<Rightarrow> attempt \<Rightarrow> nat \<Rightarrow> attempt" where
  "search_mode B cfgs next k sts =
     (let w = so_wlr (fst (cfgs ! k)); sync = search_adaptive_sync B cfgs next k;
          fixed = (\<lambda>m sts. sync (upd_state k (\<lambda>st. st\<lparr>st_mode := Some (MODE_FIXED m)\<rparr>) sts)) in
      if config_has_manual_mode (snd (cfgs ! k)) then sync sts
      else or_else (\<lambda>sts. case wo_preferred w of None \<Rightarrow> (False, sts) | Some m \<Rightarrow> fixed m sts)
        (\<lambda>sts. if wo_modes w = [] then sync (upd_state k (\<lambda>st. st\<lparr>st_mode := None\<rparr>) sts)
               else first_of fixed (filter (\<lambda>m. Some m \<noteq> wo_preferred w) (wo_modes w)) sts) sts)"

definition search_formats :: "wlr_output \<Rightarrow> output_config \<Rightarrow> drm_format list" where
  "search_formats w oc =
     filter (\<lambda>f. depth_rank (bit_depth_from_format f) \<le> depth_rank (get_config_render_bit_depth oc)
                 \<and> (case wo_formats w of None \<Rightarrow> True | Some fs \<Rightarrow> f \<in> set fs))
       ((if render_format_is_bgr (wo_render_format w) then [DRM_FORMAT_XBGR2101010, DRM_FORMAT_XRGB2101010]
         else [DRM_FORMAT_XRGB2101010, DRM_FORMAT_XBGR2101010])
        @ [DRM_FORMAT_XRGB8888, DRM_FORMAT_ARGB8888, DRM_FORMAT_RGB565])"

definition search_render_format :: "backend \<Rightarrow> matched_output_config list \<Rightarrow> attempt \<Rightarrow> nat \<Rightarrow> attempt" where
  "search_render_format B cfgs next k sts =
     first_of (\<lambda>f sts. search_mode B cfgs next k (upd_state k (\<lambda>st. st\<lparr>st_format := Some f\<rparr>) sts))
       (search_formats (so_wlr (fst (cfgs ! k))) (snd (cfgs ! k))) sts"

text \<open>The first argument is the number of outputs from the k-th on.\<close>

fun search_valid_config :: "nat \<Rightarrow> backend \<Rightarrow> matched_output_config list \<Rightarrow> bool \<Rightarrow> nat \<Rightarrow> attempt" where
  "search_valid_config 0 B cfgs degrade_to_off k sts = (True, sts)"
| "search_valid_config (Suc n) B cfgs degrade_to_off k sts =
     (let next = search_valid_config n B cfgs degrade_to_off (Suc k);
          off = (\<lambda>sts. search_finish B cfgs next k (upd_state k (\<lambda>st. st\<lparr>st_enabled := Some False\<rparr>) sts)) in
      case cfgs ! k of (p, oc) \<Rightarrow>
        if output_config_is_disabling oc then off sts
        else
          (case search_render_format B cfgs next k (upd_state k (queue_output_config B oc p) sts) of
             (True, t) \<Rightarrow> (True, t)
           | (False, t) \<Rightarrow> if \<not> degrade_to_off then (False, t) else off (upd_state k (\<lambda>_. empty_state) t)))"

section \<open>Order of the outputs\<close>

definition compare_matched_output_config_priority ::
  "(id \<Rightarrow> bool) \<Rightarrow> matched_output_config \<Rightarrow> matched_output_config \<Rightarrow> int" where
  "compare_matched_output_config_priority enabled a b =
     (let a_disabling = output_config_is_disabling (snd a); b_disabling = output_config_is_disabling (snd b) in
      if enabled (so_id (fst a)) \<and> \<not> a_disabling then -1
      else if enabled (so_id (fst b)) \<and> \<not> b_disabling then 1
      else if b_disabling \<and> \<not> a_disabling then -1
      else if a_disabling \<and> \<not> b_disabling then 1 else 0)"

section \<open>Colour profiles\<close>

definition color_profile_from_device :: "backend \<Rightarrow> wlr_output \<Rightarrow> color_transform option \<Rightarrow> color_transform option" where
  "color_profile_from_device B w transfer_function =
     (case wo_primaries w of None \<Rightarrow> transfer_function
      | Some primaries \<Rightarrow>
          if primaries = be_srgb B then transfer_function
          else
            (case be_matrix B primaries of None \<Rightarrow> None
             | Some matrix \<Rightarrow>
                 (case (case transfer_function of Some f \<Rightarrow> Some f | None \<Rightarrow> be_gamma22 B) of
                    None \<Rightarrow> None | Some f \<Rightarrow> be_pipeline B matrix f)))"

definition get_color_profile :: "backend \<Rightarrow> wlr_output \<Rightarrow> output_config \<Rightarrow> color_transform option" where
  "get_color_profile B w oc =
     (case oc_color_profile oc of
        COLOR_PROFILE_TRANSFORM \<Rightarrow> oc_color_transform oc
      | COLOR_PROFILE_TRANSFORM_WITH_DEVICE_PRIMARIES \<Rightarrow> color_profile_from_device B w (oc_color_transform oc)
      | COLOR_PROFILE_DEFAULT \<Rightarrow> None)"

section \<open>The outputs of the compositor\<close>

text \<open>
  The tree, the outputs without the fallback output (which no configuration reaches), the stored
  configurations, what is in the output layout, and whether a modeset is pending.
\<close>

record output_server =
  os_tree :: sway
  os_outputs :: "sway_output list"
  os_configs :: "output_config list"
  os_layout :: layout
  os_modeset :: bool

definition output_on :: "output_server \<Rightarrow> id \<Rightarrow> bool" where
  "output_on S p = o_enabled (outs (os_tree S) p)"

definition upd_output :: "id \<Rightarrow> (sway_output \<Rightarrow> sway_output) \<Rightarrow> output_server \<Rightarrow> output_server" where
  "upd_output p f S = S\<lparr>os_outputs := map (\<lambda>q. if so_id q = p then f q else q) (os_outputs S)\<rparr>"

definition layout_remove :: "id \<Rightarrow> layout \<Rightarrow> layout" where
  "layout_remove p l = filter (\<lambda>e. fst e \<noteq> p) l"

text \<open>wlr_output_layout_add and its automatic variant move an output that is in the layout already.\<close>

definition layout_add :: "id \<Rightarrow> (int \<times> int) option \<Rightarrow> layout \<Rightarrow> layout" where
  "layout_add p place l =
     (if p \<in> fst ` set l then map (\<lambda>e. if fst e = p then (p, place) else e) l else l @ [(p, place)])"

text \<open>What a successful commit leaves in the wlr_output.\<close>

definition committed_output :: "output_state \<Rightarrow> wlr_output \<Rightarrow> wlr_output" where
  "committed_output st w =
     (let w = (case st_mode st of None \<Rightarrow> w
               | Some (MODE_FIXED m) \<Rightarrow> w\<lparr>wo_width := wm_width m, wo_height := wm_height m\<rparr>
               | Some (MODE_CUSTOM a b r) \<Rightarrow> w\<lparr>wo_width := a, wo_height := b\<rparr>) in
      w\<lparr>wo_enabled := (case st_enabled st of None \<Rightarrow> wo_enabled w | Some e \<Rightarrow> e),
        wo_scale := (case st_scale st of None \<Rightarrow> wo_scale w | Some f \<Rightarrow> f),
        wo_transform := (case st_transform st of None \<Rightarrow> wo_transform w | Some t \<Rightarrow> t),
        wo_adaptive_sync_enabled := (case st_adaptive_sync st of None \<Rightarrow> wo_adaptive_sync_enabled w | Some a \<Rightarrow> a),
        wo_render_format := (case st_format st of None \<Rightarrow> wo_render_format w | Some f \<Rightarrow> f)\<rparr>)"

definition final_scale_filter :: "scale_filter_mode \<Rightarrow> rat \<Rightarrow> scale_filter_mode" where
  "final_scale_filter f scale =
     (if f \<in> {SCALE_FILTER_LINEAR, SCALE_FILTER_NEAREST} then f
      else if of_int \<lceil>scale\<rceil> = scale then SCALE_FILTER_NEAREST else SCALE_FILTER_LINEAR)"

definition finalize_output_config :: "backend \<Rightarrow> output_config \<Rightarrow> sway_output \<Rightarrow> output_state
    \<Rightarrow> color_transform option \<Rightarrow> output_server \<Rightarrow> output_server" where
  "finalize_output_config B oc p applied color S =
     (let i = so_id p in
      if oc_enabled oc = 0
      then (if output_on S i
            then S\<lparr>os_tree := output_disable (be_env B (os_layout S)) i (os_tree S),
                   os_layout := layout_remove i (os_layout S)\<rparr>
            else S)
      else
        (let place = (if oc_x oc \<noteq> INT_MAX \<and> oc_y oc \<noteq> INT_MAX then Some (oc_x oc, oc_y oc) else None);
             S = S\<lparr>os_layout := layout_add i place (os_layout S)\<rparr>;
             S = (if output_on S i then S
                  else S\<lparr>os_tree := output_enable (be_env B (os_layout S)) i (os_tree S)\<rparr>) in
         upd_output i (\<lambda>q. q\<lparr>
           so_scale_filter := final_scale_filter (oc_scale_filter oc) (wo_scale (so_wlr q)),
           so_color_transform := color,
           so_max_render_time := (if oc_max_render_time oc > 0 then oc_max_render_time oc else 0),
           so_allow_tearing := (oc_allow_tearing oc > 0),
           so_hdr := (st_hdr applied = Some True)\<rparr>) S))"

definition output_update_position :: "backend \<Rightarrow> id \<Rightarrow> output_server \<Rightarrow> output_server" where
  "output_update_position B p S =
     (let b = e_output_box (be_env B (os_layout S)) (Some p) in
      S\<lparr>os_tree := upd_out p (\<lambda>x. x\<lparr>o_lx := b_x b, o_ly := b_y b, o_width := b_width b, o_height := b_height b\<rparr>) (os_tree S)\<rparr>)"

text \<open>The layer surfaces leave a box; when it is a new one, the output is arranged (arrange_layers).\<close>

definition arrange_layers :: "backend \<Rightarrow> id \<Rightarrow> output_server \<Rightarrow> output_server" where
  "arrange_layers B p S =
     (let s = os_tree S; b = be_usable B (os_layout S) p in
      if b = o_usable_area (outs s p) then S
      else S\<lparr>os_tree := arrange_output p (upd_out p (\<lambda>x. x\<lparr>o_usable_area := b\<rparr>) s)\<rparr>)"

text \<open>
  What follows a commit: every configuration is finalized, then positions are updated and everything
  is arranged.
\<close>

definition finalize_all :: "backend \<Rightarrow> matched_output_config list \<Rightarrow> output_state list \<Rightarrow> output_server \<Rightarrow> output_server" where
  "finalize_all B cfgs sts S =
     (let S = fold (\<lambda>((p, oc), st) S. upd_output (so_id p) (\<lambda>q. q\<lparr>so_wlr := committed_output st (so_wlr q)\<rparr>) S)
                (zip cfgs sts) S;
          S = fold (\<lambda>((p, oc), st) S. finalize_output_config B oc p st (get_color_profile B (so_wlr p) oc) S) (zip cfgs sts) S;
          S = fold (\<lambda>(p, oc) S. arrange_layers B (so_id p) (output_update_position B (so_id p) S)) cfgs S in
      S\<lparr>os_tree := arrange_root (e_layout_box (be_env B (os_layout S))) (os_tree S)\<rparr>)"

definition queued_states :: "backend \<Rightarrow> matched_output_config list \<Rightarrow> output_state list" where
  "queued_states B cfgs = map (\<lambda>(p, oc). queue_output_config B oc p empty_state) cfgs"

text \<open>The states of the configurations when the backend accepts them, else those the search finds.\<close>

definition choose_states :: "backend \<Rightarrow> matched_output_config list \<Rightarrow> bool \<Rightarrow> bool \<times> output_state list" where
  "choose_states B cfgs degrade_to_off =
     (let sts = queued_states B cfgs in
      if prepared B cfgs sts then (True, sts) else search_valid_config (length cfgs) B cfgs degrade_to_off 0 sts)"

text \<open>
  The result and the outputs. The flag that is returned is the one of the first test until the commit:
  a search that succeeds does not set it, and a state that cannot be built does not clear it.
\<close>

definition apply_resolved_output_configs :: "backend \<Rightarrow> matched_output_config list \<Rightarrow> bool \<Rightarrow> bool \<Rightarrow> output_server
    \<Rightarrow> bool \<times> output_server" where
  "apply_resolved_output_configs B cfgs test_only degrade_to_off S =
     (let ok = prepared B cfgs (queued_states B cfgs); (found, sts) = choose_states B cfgs degrade_to_off in
      if \<not> found \<or> test_only then (ok, S)
      else if \<not> list_all (\<lambda>(c, st). be_build B (so_id (fst c)) st) (zip cfgs sts) then (ok, S)
      else if \<not> be_commit B (zip (map (\<lambda>c. so_id (fst c)) cfgs) sts) then (False, S)
      else (True, finalize_all B cfgs sts S))"

definition match_output_configs :: "backend \<Rightarrow> output_config list \<Rightarrow> output_server \<Rightarrow> matched_output_config list" where
  "match_output_configs B cs S =
     be_qsort B (compare_matched_output_config_priority (output_on S))
       (map (\<lambda>p. (p, find_output_config_from_list cs p)) (os_outputs S))"

definition apply_output_configs :: "backend \<Rightarrow> output_config list \<Rightarrow> bool \<Rightarrow> bool \<Rightarrow> output_server \<Rightarrow> bool \<times> output_server" where
  "apply_output_configs B cs test_only degrade_to_off S =
     apply_resolved_output_configs B (match_output_configs B cs S) test_only degrade_to_off S"

definition apply_stored_output_configs :: "backend \<Rightarrow> output_server \<Rightarrow> output_server" where
  "apply_stored_output_configs B S = snd (apply_output_configs B (os_configs S) False True S)"

definition store_config :: "output_config \<Rightarrow> output_server \<Rightarrow> output_server" where
  "store_config oc S = S\<lparr>os_configs := store_output_config (os_outputs S) oc (os_configs S)\<rparr>"

section \<open>Modesets on request\<close>

definition request_modeset :: "output_server \<Rightarrow> output_server" where
  "request_modeset S = S\<lparr>os_modeset := True\<rparr>"

text \<open>The timer runs out; force_modeset does not wait for it.\<close>

definition timer_modeset_handle :: "backend \<Rightarrow> output_server \<Rightarrow> output_server" where
  "timer_modeset_handle B S = apply_stored_output_configs B (S\<lparr>os_modeset := False\<rparr>)"

definition force_modeset :: "backend \<Rightarrow> output_server \<Rightarrow> output_server" where
  "force_modeset B S = apply_stored_output_configs B (if os_modeset S then S\<lparr>os_modeset := False\<rparr> else S)"

text \<open>
  The output manager protocol: a head with the output it is for, whether it is enabled, its mode and
  rate in mHz, its place, transform, scale and adaptive sync.
\<close>

record config_head =
  ch_output :: string
  ch_enabled :: bool
  ch_mode :: mode_choice
  ch_x :: int
  ch_y :: int
  ch_transform :: int
  ch_scale :: rat
  ch_adaptive_sync :: bool

definition output_config_for_config_head :: "config_head \<Rightarrow> output_config" where
  "output_config_for_config_head h =
     (let oc = (new_output_config (ch_output h))\<lparr>oc_enabled := of_bool (ch_enabled h)\<rparr> in
      if \<not> ch_enabled h then oc
      else
        (let (width, height, refresh) =
               (case ch_mode h of MODE_FIXED m \<Rightarrow> (wm_width m, wm_height m, wm_refresh m) | MODE_CUSTOM a b r \<Rightarrow> (a, b, r)) in
         oc\<lparr>oc_width := width, oc_height := height, oc_refresh_rate := of_int refresh / 1000, oc_x := ch_x h, oc_y := ch_y h,
            oc_transform := ch_transform h, oc_scale := ch_scale h, oc_adaptive_sync := of_bool (ch_adaptive_sync h)\<rparr>))"

definition output_manager_apply :: "backend \<Rightarrow> config_head list \<Rightarrow> bool \<Rightarrow> output_server \<Rightarrow> bool \<times> output_server" where
  "output_manager_apply B heads test_only S =
     (let new = map output_config_for_config_head heads;
          (ok, S) = apply_output_configs B (os_configs S @ new) test_only False S;
          S = (if \<not> test_only \<and> ok then fold store_config new S else S) in
      (ok, if ok then S\<lparr>os_modeset := False\<rparr> else S))"

definition handle_output_power_manager_set_mode :: "string \<Rightarrow> bool \<Rightarrow> output_server \<Rightarrow> output_server" where
  "handle_output_power_manager_set_mode name on S =
     request_modeset (store_config ((new_output_config name)\<lparr>oc_power := of_bool on\<rparr>) S)"

text \<open>An output goes away (begin_destroy of sway/desktop/output.c).\<close>

definition begin_destroy :: "backend \<Rightarrow> id \<Rightarrow> output_server \<Rightarrow> output_server" where
  "begin_destroy B p S =
     (let E = be_env B (os_layout S);
          s = (if output_on S p then output_disable E p (os_tree S) else os_tree S) in
      request_modeset (S\<lparr>os_tree := output_begin_destroy E p s,
        os_outputs := filter (\<lambda>q. so_id q \<noteq> p) (os_outputs S), os_layout := layout_remove p (os_layout S)\<rparr>))"

end
