(* ===== verification/Output_Apply_Laws.thy ===== *)
theory Output_Apply_Laws
  imports Output_Apply Output_Config_Laws Sample
begin

text \<open>
  The search for states of the outputs: what it finds was accepted by the backend and is what the
  configurations offer, and with degrading to off it finds something whenever the backend can turn all
  outputs off. The attempts of the search are reasoned about with triples: what holds before, after
  success, and after failure.
\<close>

section \<open>Triples for attempts\<close>

definition attempted :: "(output_state list \<Rightarrow> bool) \<Rightarrow> attempt \<Rightarrow> (output_state list \<Rightarrow> bool)
    \<Rightarrow> (output_state list \<Rightarrow> bool) \<Rightarrow> bool" where
  "attempted P f Q R \<longleftrightarrow> (\<forall>sts. P sts \<longrightarrow> (if fst (f sts) then Q (snd (f sts)) else R (snd (f sts))))"

lemma attemptedI: "(\<And>sts. P sts \<Longrightarrow> if fst (f sts) then Q (snd (f sts)) else R (snd (f sts))) \<Longrightarrow> attempted P f Q R"
  by (simp add: attempted_def)

lemma attemptedD: "attempted P f Q R \<Longrightarrow> P sts \<Longrightarrow> if fst (f sts) then Q (snd (f sts)) else R (snd (f sts))"
  by (simp add: attempted_def)

lemma attempted_mono:
  "attempted P f Q R \<Longrightarrow> (\<And>s. P' s \<Longrightarrow> P s) \<Longrightarrow> (\<And>s. Q s \<Longrightarrow> Q' s) \<Longrightarrow> (\<And>s. R s \<Longrightarrow> R' s) \<Longrightarrow> attempted P' f Q' R'"
  by (auto simp: attempted_def split: if_splits)

lemma attempted_or_else: "attempted P f Q R \<Longrightarrow> attempted R g Q S \<Longrightarrow> attempted P (or_else f g) Q S"
  by (fastforce simp: attempted_def or_else_def split: prod.splits bool.splits)

lemma attempted_first_of: "\<forall>x\<in>set xs. attempted P (f x) Q P \<Longrightarrow> attempted P (first_of f xs) Q P"
proof (induction xs)
  case (Cons x xs)
  have "first_of f (x # xs) = or_else (f x) (first_of f xs)" by (rule ext) simp
  then show ?case using Cons attempted_or_else[of P "f x" Q P "first_of f xs" P] by simp
qed (simp add: attempted_def)

lemma attempted_before: "attempted P f Q R \<Longrightarrow> (\<And>s. P' s \<Longrightarrow> P (g s)) \<Longrightarrow> attempted P' (\<lambda>s. f (g s)) Q R"
  by (simp add: attempted_def)

section \<open>What a configuration offers\<close>

definition mode_options :: "backend \<Rightarrow> sway_output \<Rightarrow> output_config \<Rightarrow> mode_choice option list" where
  "mode_options B p oc =
     (let w = so_wlr p in
      st_mode (queue_output_config B oc p empty_state)
      # (if config_has_manual_mode oc then []
         else (case wo_preferred w of None \<Rightarrow> [] | Some m \<Rightarrow> [Some (MODE_FIXED m)])
           @ (if wo_modes w = [] then [None] else map (\<lambda>m. Some (MODE_FIXED m)) (wo_modes w))))"

definition sync_options :: "sway_output \<Rightarrow> output_config \<Rightarrow> bool option list" where
  "sync_options p oc =
     (if \<not> wo_adaptive_sync_supported (so_wlr p) then [None]
      else if oc_adaptive_sync oc = 1 then [Some True, Some False] else [Some False])"

definition running_state :: "backend \<Rightarrow> sway_output \<Rightarrow> output_config \<Rightarrow> output_state \<Rightarrow> bool" where
  "running_state B p oc st \<longleftrightarrow>
     (let q = queue_output_config B oc p empty_state in
      st\<lparr>st_mode := st_mode q, st_adaptive_sync := st_adaptive_sync q, st_format := st_format q\<rparr> = q
      \<and> st_mode st \<in> set (mode_options B p oc) \<and> st_adaptive_sync st \<in> set (sync_options p oc)
      \<and> st_format st \<in> Some ` set (queued_format oc (so_wlr p) # search_formats (so_wlr p) oc))"

text \<open>
  The output is off because the configuration says so or by degrading, or it runs with the settings of
  the configuration, one of the modes, formats and kinds of sync that the configuration leaves open.
\<close>

definition offered :: "backend \<Rightarrow> bool \<Rightarrow> matched_output_config \<Rightarrow> output_state \<Rightarrow> bool" where
  "offered B degrade c st \<longleftrightarrow>
     (if st = off_state then degrade \<or> output_config_is_disabling (snd c)
      else \<not> output_config_is_disabling (snd c) \<and> running_state B (fst c) (snd c) st)"

lemma set_mode_form: "\<exists>m. \<forall>st. set_mode w width height r custom st = st\<lparr>st_mode := m\<rparr>"
  by (rule exI[of _ "st_mode (set_mode w width height r custom empty_state)"])
    (simp add: set_mode_def Let_def split: option.split)

lemma set_modeline_form:
  "(\<forall>st. set_modeline B w drm st = st) \<or> (\<exists>m. \<forall>st. set_modeline B w drm st = st\<lparr>st_mode := m\<rparr>)"
  by (auto simp: set_modeline_def split: option.split)

lemma queued_mode_form:
  "(\<forall>st. queued_mode B oc w st = st) \<or> (\<exists>m. \<forall>st. queued_mode B oc w st = st\<lparr>st_mode := m\<rparr>)"
proof -
  have eq: "(\<forall>st. queued_mode B oc w st = (if a then set_modeline B w (oc_drm_mode oc) st
       else if b then set_mode w (oc_width oc) (oc_height oc) (oc_refresh_rate oc) (oc_custom_mode oc = 1) st
       else if d then st\<lparr>st_mode := map_option MODE_FIXED (wo_preferred w)\<rparr> else st))"
    if "a = (dm_type (oc_drm_mode oc) \<noteq> 0 \<and> dm_type (oc_drm_mode oc) \<noteq> -1)" "b = (oc_width oc > 0 \<and> oc_height oc > 0)"
      "d = (wo_modes w \<noteq> [])" for a b d
    using that by (simp add: queued_mode_def)
  show ?thesis
    using set_modeline_form[of B w "oc_drm_mode oc"]
      set_mode_form[of w "oc_width oc" "oc_height oc" "oc_refresh_rate oc" "oc_custom_mode oc = 1"]
    unfolding eq[OF refl refl refl, rule_format] by (simp split: if_split) blast
qed

lemma set_hdr_form: "(\<forall>st. set_hdr B w h st = st) \<or> (\<exists>d. \<forall>st. set_hdr B w h st = st\<lparr>st_hdr := d\<rparr>)"
  by (auto simp: set_hdr_def)

lemma queued_scale_form: "\<exists>f. \<forall>st. queued_scale oc w st = f (st_mode st) (st_transform st)"
  by (rule exI[of _ "\<lambda>m t. queued_scale oc w (empty_state\<lparr>st_mode := m, st_transform := t\<rparr>)"])
    (simp add: queued_scale_def compute_default_scale_def pending_size_def)

text \<open>Queueing a configuration twice, or on a state that is off, changes nothing.\<close>

lemma queue_again:
  "queue_output_config B oc p (queue_output_config B oc p empty_state) = queue_output_config B oc p empty_state"
  "queue_output_config B oc p off_state = queue_output_config B oc p empty_state"
proof -
  let ?w = "so_wlr p" and ?h = "oc_hdr oc = 1 \<and> \<not> (oc_color_transform oc \<noteq> None
               \<or> oc_color_profile oc = COLOR_PROFILE_TRANSFORM_WITH_DEVICE_PRIMARIES)"
  obtain f where f: "queued_scale oc ?w st = f (st_mode st) (st_transform st)" for st
    using queued_scale_form[of oc ?w] by blast
  show "queue_output_config B oc p (queue_output_config B oc p empty_state) = queue_output_config B oc p empty_state"
    using queued_mode_form[of B oc ?w] set_hdr_form[of B ?w ?h]
    by (elim disjE exE) (simp_all add: queue_output_config_def Let_def empty_state_def f)
  have "off_state\<lparr>st_enabled := b\<rparr> = empty_state\<lparr>st_enabled := b\<rparr>" for b by (simp add: off_state_def)
  then show "queue_output_config B oc p off_state = queue_output_config B oc p empty_state"
    unfolding queue_output_config_def Let_def by simp
qed

text \<open>The parts of a queued state.\<close>

lemma queued_form:
  "\<not> output_config_is_disabling oc \<Longrightarrow> \<exists>m f t h. queue_output_config B oc p empty_state =
     \<lparr>st_enabled = Some True, st_mode = m, st_scale = Some f, st_transform = Some t,
      st_subpixel = Some (if oc_subpixel oc \<noteq> SUBPIXEL_UNKNOWN then oc_subpixel oc else so_detected_subpixel p),
      st_adaptive_sync = (if wo_adaptive_sync_supported (so_wlr p) then Some (oc_adaptive_sync oc = 1) else None),
      st_format = Some (queued_format oc (so_wlr p)), st_hdr = h\<rparr>"
  using queued_mode_form[of B oc "so_wlr p"]
    set_hdr_form[of B "so_wlr p" "oc_hdr oc = 1 \<and> \<not> (oc_color_transform oc \<noteq> None
               \<or> oc_color_profile oc = COLOR_PROFILE_TRANSFORM_WITH_DEVICE_PRIMARIES)"]
  by (elim disjE exE) (simp_all add: queue_output_config_def Let_def empty_state_def)

lemma queued_parts:
  assumes "\<not> output_config_is_disabling oc"
  shows "st_enabled (queue_output_config B oc p empty_state) = Some True"
    "st_format (queue_output_config B oc p empty_state) = Some (queued_format oc (so_wlr p))"
    "st_adaptive_sync (queue_output_config B oc p empty_state)
       = (if wo_adaptive_sync_supported (so_wlr p) then Some (oc_adaptive_sync oc = 1) else None)"
  using queued_form[OF assms, of B p] by (auto simp del: not_None_eq)

lemma queued_runs:
  "\<not> output_config_is_disabling oc \<Longrightarrow> running_state B p oc (queue_output_config B oc p empty_state)"
  by (simp add: running_state_def Let_def queued_parts mode_options_def sync_options_def)

lemma queued_off: "output_config_is_disabling oc \<Longrightarrow> queue_output_config B oc p empty_state = off_state"
  by (simp add: queue_output_config_def off_state_def Let_def)

lemma running_on: "\<not> output_config_is_disabling oc \<Longrightarrow> running_state B p oc st \<Longrightarrow> st_enabled st = Some True"
proof -
  assume d: "\<not> output_config_is_disabling oc" and r: "running_state B p oc st"
  let ?q = "queue_output_config B oc p empty_state"
  have "st_enabled (st\<lparr>st_mode := st_mode ?q, st_adaptive_sync := st_adaptive_sync ?q, st_format := st_format ?q\<rparr>) = st_enabled ?q"
    using r unfolding running_state_def Let_def by (auto dest: arg_cong[of _ _ st_enabled])
  then show ?thesis using queued_parts(1)[OF d, of B p] by simp
qed

lemma running_offered:
  "\<not> output_config_is_disabling oc \<Longrightarrow> running_state B p oc st \<Longrightarrow> offered B d (p, oc) st"
  using running_on[of oc B p st] by (auto simp: offered_def off_state_def)

lemma running_closed:
  assumes "running_state B p oc st"
  shows "m \<in> set (mode_options B p oc) \<Longrightarrow> running_state B p oc (st\<lparr>st_mode := m\<rparr>)"
    "a \<in> set (sync_options p oc) \<Longrightarrow> running_state B p oc (st\<lparr>st_adaptive_sync := a\<rparr>)"
    "f \<in> set (search_formats (so_wlr p) oc) \<Longrightarrow> running_state B p oc (st\<lparr>st_format := Some f\<rparr>)"
  using assms by (simp_all add: running_state_def Let_def)

section \<open>The levels of the search\<close>

text \<open>Before the k-th output the states are chosen; the k-th satisfies A.\<close>

definition at_level :: "nat \<Rightarrow> nat \<Rightarrow> output_state list \<Rightarrow> (output_state \<Rightarrow> bool) \<Rightarrow> output_state list \<Rightarrow> bool" where
  "at_level n k pre A sts \<longleftrightarrow> length sts = n \<and> k < n \<and> take k sts = pre \<and> A (sts ! k)"

definition starts :: "backend \<Rightarrow> matched_output_config list \<Rightarrow> nat \<Rightarrow> output_state list \<Rightarrow> output_state list \<Rightarrow> bool" where
  "starts B cfgs k pre sts \<longleftrightarrow>
     length sts = length cfgs \<and> take k sts = pre
     \<and> (if k < length cfgs
        then sts ! k \<in> {off_state, queue_output_config B (snd (cfgs ! k)) (fst (cfgs ! k)) empty_state}
        else prepared B cfgs sts)"

lemma at_level_upd: "(\<And>st. A st \<Longrightarrow> A' (f st)) \<Longrightarrow> at_level n k pre A sts \<Longrightarrow> at_level n k pre A' (upd_state k f sts)"
  by (simp add: at_level_def upd_state_def)

lemma cleared_starts:
  assumes "at_level (length cfgs) k pre A sts" "prepared B cfgs (clear_later_output_states k sts)"
  shows "starts B cfgs (Suc k) (pre @ [sts ! k]) (clear_later_output_states k sts)"
proof -
  have h: "length sts = length cfgs" "k < length cfgs" "take k sts = pre" using assms(1) by (auto simp: at_level_def)
  then have "take (Suc k) sts = pre @ [sts ! k]" by (simp add: take_Suc_conv_app_nth)
  then show ?thesis using h assms(2)
    by (auto simp: starts_def clear_later_output_states_def nth_append)
qed

lemma finish_rule:
  assumes "length pre = k"
    and behind: "\<And>x. A x \<Longrightarrow> attempted (starts B cfgs (Suc k) (pre @ [x])) next Q
      (\<lambda>t. length t = length cfgs \<and> take (Suc k) t = pre @ [x])"
  shows "attempted (at_level (length cfgs) k pre A) (search_finish B cfgs next k) Q (at_level (length cfgs) k pre A)"
proof (rule attemptedI)
  fix sts assume level: "at_level (length cfgs) k pre A sts"
  let ?t = "clear_later_output_states k sts"
  have h: "length sts = length cfgs" "k < length cfgs" "take k sts = pre" "A (sts ! k)"
    using level by (auto simp: at_level_def)
  show "if fst (search_finish B cfgs next k sts) then Q (snd (search_finish B cfgs next k sts))
      else at_level (length cfgs) k pre A (snd (search_finish B cfgs next k sts))"
  proof (cases "prepared B cfgs ?t")
    case True
    have kept: "at_level (length cfgs) k pre A t" if "length t = length cfgs" "take (Suc k) t = pre @ [sts ! k]" for t
      using that h(2,4) assms(1) by (auto simp: at_level_def take_Suc_conv_app_nth)
    show ?thesis
      using attemptedD[OF behind[OF h(4)] cleared_starts[OF level True]] True kept
      by (auto simp: search_finish_def Let_def)
  next
    case False
    have "at_level (length cfgs) k pre A ?t"
      using h by (auto simp: at_level_def clear_later_output_states_def nth_append min_def)
    then show ?thesis using False by (simp add: search_finish_def Let_def)
  qed
qed

section \<open>The steps of one output\<close>

text \<open>
  A level as the steps use it: its output is not turned off, the k-th state runs, and the search behind
  it keeps what was chosen.
\<close>

lemma sync_rule:
  assumes "cfgs ! k = (p, oc)"
    and finish: "\<And>A. (\<And>x. A x \<Longrightarrow> running_state B p oc x) \<Longrightarrow>
      attempted (at_level (length cfgs) k pre A) (search_finish B cfgs next k) Q (at_level (length cfgs) k pre A)"
  shows "attempted (at_level (length cfgs) k pre (running_state B p oc)) (search_adaptive_sync B cfgs next k) Q
    (at_level (length cfgs) k pre (running_state B p oc))"
proof -
  let ?P = "at_level (length cfgs) k pre (running_state B p oc)"
  let ?s = "\<lambda>b sts. search_finish B cfgs next k (upd_state k (\<lambda>st. st\<lparr>st_adaptive_sync := Some b\<rparr>) sts)"
  have sync: "attempted ?P (?s b) Q ?P" if "Some b \<in> set (sync_options p oc)" for b
    using that by (intro attempted_before[OF finish at_level_upd]) (auto intro: running_closed)
  show ?thesis
  proof (cases "wo_adaptive_sync_supported (so_wlr p)")
    case False
    then have "search_adaptive_sync B cfgs next k = search_finish B cfgs next k"
      using assms(1) by (intro ext) (simp add: search_adaptive_sync_def)
    then show ?thesis using finish by simp
  next
    case True
    then have "search_adaptive_sync B cfgs next k
        = (if oc_adaptive_sync oc = 1 then or_else (?s True) (?s False) else ?s False)"
      using assms(1) by (intro ext) (simp add: search_adaptive_sync_def Let_def)
    then show ?thesis
      using True sync[of True] sync[of False] attempted_or_else[of ?P "?s True" Q ?P "?s False" ?P]
      by (simp add: sync_options_def)
  qed
qed

lemma mode_rule:
  assumes "cfgs ! k = (p, oc)"
    and sync: "attempted (at_level (length cfgs) k pre (running_state B p oc)) (search_adaptive_sync B cfgs next k) Q
      (at_level (length cfgs) k pre (running_state B p oc))"
  shows "attempted (at_level (length cfgs) k pre (running_state B p oc)) (search_mode B cfgs next k) Q
    (at_level (length cfgs) k pre (running_state B p oc))"
proof -
  let ?P = "at_level (length cfgs) k pre (running_state B p oc)" and ?w = "so_wlr p"
  let ?m = "\<lambda>m sts. search_adaptive_sync B cfgs next k (upd_state k (\<lambda>st. st\<lparr>st_mode := m\<rparr>) sts)"
  let ?first = "\<lambda>sts. case wo_preferred ?w of None \<Rightarrow> (False, sts) | Some m \<Rightarrow> ?m (Some (MODE_FIXED m)) sts"
  let ?rest = "\<lambda>sts. if wo_modes ?w = [] then ?m None sts
     else first_of (\<lambda>m. ?m (Some (MODE_FIXED m))) (filter (\<lambda>m. Some m \<noteq> wo_preferred ?w) (wo_modes ?w)) sts"
  have mode: "attempted ?P (?m m) Q ?P" if "m \<in> set (mode_options B p oc)" for m
    using that by (intro attempted_before[OF sync at_level_upd]) (auto intro: running_closed)
  show ?thesis
  proof (cases "config_has_manual_mode oc")
    case True
    then have "search_mode B cfgs next k = search_adaptive_sync B cfgs next k"
      using assms(1) by (intro ext) (simp add: search_mode_def)
    then show ?thesis using sync by simp
  next
    case False
    then have eq: "search_mode B cfgs next k = or_else ?first ?rest"
      using assms(1) by (intro ext) (simp add: search_mode_def Let_def)
    have "attempted ?P ?first Q ?P"
      using False mode by (auto simp: mode_options_def Let_def attempted_def split: option.split)
    moreover have "attempted ?P ?rest Q ?P"
    proof (cases "wo_modes ?w = []")
      case True
      then show ?thesis using False mode[of None] by (simp add: mode_options_def Let_def)
    next
      case some: False
      then show ?thesis
        using False attempted_first_of[of "filter (\<lambda>m. Some m \<noteq> wo_preferred ?w) (wo_modes ?w)" ?P
            "\<lambda>m. ?m (Some (MODE_FIXED m))" Q] mode
        by (simp add: mode_options_def Let_def)
    qed
    ultimately show ?thesis unfolding eq by (rule attempted_or_else)
  qed
qed

lemma format_rule:
  assumes "cfgs ! k = (p, oc)"
    and mode: "attempted (at_level (length cfgs) k pre (running_state B p oc)) (search_mode B cfgs next k) Q
      (at_level (length cfgs) k pre (running_state B p oc))"
  shows "attempted (at_level (length cfgs) k pre (running_state B p oc)) (search_render_format B cfgs next k) Q
    (at_level (length cfgs) k pre (running_state B p oc))"
proof -
  let ?P = "at_level (length cfgs) k pre (running_state B p oc)"
  have "search_render_format B cfgs next k = first_of
      (\<lambda>f sts. search_mode B cfgs next k (upd_state k (\<lambda>st. st\<lparr>st_format := Some f\<rparr>) sts)) (search_formats (so_wlr p) oc)"
    using assms(1) by (intro ext) (simp add: search_render_format_def)
  moreover have "attempted ?P (\<lambda>sts. search_mode B cfgs next k (upd_state k (\<lambda>st. st\<lparr>st_format := Some f\<rparr>) sts)) Q ?P"
    if "f \<in> set (search_formats (so_wlr p) oc)" for f
    using that by (intro attempted_before[OF mode at_level_upd]) (auto intro: running_closed)
  ultimately show ?thesis by (simp add: attempted_first_of)
qed

lemma running_rule:
  assumes "cfgs ! k = (p, oc)"
    and "\<And>A. (\<And>x. A x \<Longrightarrow> running_state B p oc x) \<Longrightarrow>
      attempted (at_level (length cfgs) k pre A) (search_finish B cfgs next k) Q (at_level (length cfgs) k pre A)"
  shows "attempted (at_level (length cfgs) k pre (running_state B p oc)) (search_render_format B cfgs next k) Q
    (at_level (length cfgs) k pre (running_state B p oc))"
  by (rule format_rule[OF assms(1) mode_rule[OF assms(1) sync_rule[OF assms]]])

section \<open>The whole search\<close>

text \<open>
  The search from the k-th output on: Q holds when it succeeds, F when it fails. The rule needs Q for
  no output left, and to pass Q back over an output that runs or is off.
\<close>

lemma search_step:
  assumes "k < length cfgs" "length pre = k"
    and behind: "\<And>x. offered B d (cfgs ! k) x \<Longrightarrow> attempted (starts B cfgs (Suc k) (pre @ [x]))
      (search_valid_config n B cfgs d (Suc k)) Q (\<lambda>t. length t = length cfgs \<and> take (Suc k) t = pre @ [x])"
  shows "attempted (starts B cfgs k pre) (search_valid_config (Suc n) B cfgs d k) Q
    (\<lambda>t. length t = length cfgs \<and> take k t = pre)"
proof (rule attemptedI)
  fix sts assume st: "starts B cfgs k pre sts"
  obtain p oc where c: "cfgs ! k = (p, oc)" by fastforce
  let ?next = "search_valid_config n B cfgs d (Suc k)" and ?R = "\<lambda>t. length t = length cfgs \<and> take k t = pre"
  let ?off = "\<lambda>sts. search_finish B cfgs ?next k (upd_state k (\<lambda>st. st\<lparr>st_enabled := Some False\<rparr>) sts)"
  have h: "length sts = length cfgs" "take k sts = pre" "sts ! k \<in> {off_state, queue_output_config B oc p empty_state}"
    using st assms(1) c by (auto simp: starts_def)
  have finish: "attempted (at_level (length cfgs) k pre A) (search_finish B cfgs ?next k) Q (at_level (length cfgs) k pre A)"
    if "\<And>x. A x \<Longrightarrow> offered B d (cfgs ! k) x" for A
    using that by (intro finish_rule[OF assms(2)] behind)
  have off: "if fst (?off t) then Q (snd (?off t)) else ?R (snd (?off t))"
    if "length t = length cfgs" "take k t = pre" "t ! k \<in> {off_state, empty_state}" "output_config_is_disabling oc \<or> d" for t
  proof -
    have "at_level (length cfgs) k pre (\<lambda>x. x = off_state) (upd_state k (\<lambda>st. st\<lparr>st_enabled := Some False\<rparr>) t)"
      using that assms(1) by (auto simp: at_level_def upd_state_def off_state_def)
    moreover have "x = off_state \<Longrightarrow> offered B d (cfgs ! k) x" for x using that(4) c by (auto simp: offered_def)
    ultimately show ?thesis
      using attemptedD[OF finish[of "\<lambda>x. x = off_state"]] by (fastforce simp: at_level_def split: if_splits)
  qed
  show "if fst (search_valid_config (Suc n) B cfgs d k sts) then Q (snd (search_valid_config (Suc n) B cfgs d k sts))
      else ?R (snd (search_valid_config (Suc n) B cfgs d k sts))"
  proof (cases "output_config_is_disabling oc")
    case True
    then show ?thesis using off[of sts] h c by (simp add: Let_def queued_off)
  next
    case False
    let ?run = "search_render_format B cfgs ?next k (upd_state k (queue_output_config B oc p) sts)"
    have "at_level (length cfgs) k pre (running_state B p oc) (upd_state k (queue_output_config B oc p) sts)"
      using h assms(1) queued_runs[OF False, of B p] by (auto simp: at_level_def upd_state_def queue_again)
    moreover have "attempted (at_level (length cfgs) k pre (running_state B p oc)) (search_render_format B cfgs ?next k) Q
        (at_level (length cfgs) k pre (running_state B p oc))"
      using c running_offered[OF False] by (intro running_rule finish) auto
    ultimately have run: "if fst ?run then Q (snd ?run) else at_level (length cfgs) k pre (running_state B p oc) (snd ?run)"
      by (rule attemptedD[rotated])
    have "at_level (length cfgs) k pre (running_state B p oc) (snd ?run) \<Longrightarrow> d
      \<Longrightarrow> if fst (?off (upd_state k (\<lambda>_. empty_state) (snd ?run))) then Q (snd (?off (upd_state k (\<lambda>_. empty_state) (snd ?run))))
          else ?R (snd (?off (upd_state k (\<lambda>_. empty_state) (snd ?run))))"
      by (rule off) (auto simp: at_level_def upd_state_def)
    then show ?thesis using run False c
      by (auto simp: Let_def at_level_def split: prod.splits bool.splits if_splits)
  qed
qed

lemma search_keeps:
  "k + n = length cfgs \<Longrightarrow> length pre = k \<Longrightarrow>
     attempted (starts B cfgs k pre) (search_valid_config n B cfgs d k) (\<lambda>_. True) (\<lambda>t. length t = length cfgs \<and> take k t = pre)"
proof (induction n arbitrary: k pre)
  case (Suc n)
  then show ?case by (intro search_step) auto
qed (simp add: attempted_def)

text \<open>Every state of a search that succeeds is offered, and the backend accepted them together.\<close>

lemma search_offers:
  "k + n = length cfgs \<Longrightarrow> length pre = k \<Longrightarrow> \<forall>i<k. offered B d (cfgs ! i) (pre ! i) \<Longrightarrow>
     attempted (starts B cfgs k pre) (search_valid_config n B cfgs d k)
       (\<lambda>t. prepared B cfgs t \<and> list_all2 (offered B d) cfgs t)
       (\<lambda>t. length t = length cfgs \<and> take k t = pre)"
proof (induction n arbitrary: k pre)
  case 0
  then show ?case by (auto simp: attempted_def starts_def list_all2_conv_all_nth)
next
  case (Suc n)
  show ?case
  proof (rule search_step)
    fix x assume "offered B d (cfgs ! k) x"
    then have "\<forall>i<Suc k. offered B d (cfgs ! i) ((pre @ [x]) ! i)"
      using Suc.prems(2,3) by (auto simp: nth_append less_Suc_eq)
    then show "attempted (starts B cfgs (Suc k) (pre @ [x])) (search_valid_config n B cfgs d (Suc k))
        (\<lambda>t. prepared B cfgs t \<and> list_all2 (offered B d) cfgs t)
        (\<lambda>t. length t = length cfgs \<and> take (Suc k) t = pre @ [x])"
      using Suc.prems by (intro Suc.IH) auto
  qed (use Suc.prems in auto)
qed

text \<open>Turning the k-th output off leads to the next one when the backend accepts everything behind it off.\<close>

lemma off_continues:
  assumes "k < length cfgs" "length pre = k" "length t = length cfgs" "take k t = pre" "t ! k \<in> {off_state, empty_state}"
    and "prepared B cfgs (pre @ replicate (length cfgs - k) off_state)"
  shows "\<exists>t'. search_finish B cfgs next k (upd_state k (\<lambda>st. st\<lparr>st_enabled := Some False\<rparr>) t) = next t'
    \<and> starts B cfgs (Suc k) (pre @ [off_state]) t'"
proof -
  let ?u = "upd_state k (\<lambda>st. st\<lparr>st_enabled := Some False\<rparr>) t"
  have level: "at_level (length cfgs) k pre (\<lambda>x. x = off_state) ?u"
    using assms(1-5) by (auto simp: at_level_def upd_state_def off_state_def)
  then have "take (Suc k) ?u = pre @ [off_state]" by (auto simp: at_level_def take_Suc_conv_app_nth)
  then have "clear_later_output_states k ?u = pre @ replicate (length cfgs - k) off_state"
    using assms(1-3) by (simp add: clear_later_output_states_def upd_state_def Suc_diff_Suc flip: replicate_Suc)
  then show ?thesis
    using cleared_starts[OF level] assms(6) level by (auto simp: search_finish_def Let_def at_level_def)
qed

lemma degraded_search:
  "k + n = length cfgs \<Longrightarrow> length pre = k \<Longrightarrow> prepared B cfgs (pre @ replicate n off_state) \<Longrightarrow> starts B cfgs k pre sts
     \<Longrightarrow> fst (search_valid_config n B cfgs True k sts)"
proof (induction n arbitrary: k pre sts)
  case (Suc n)
  obtain p oc where c: "cfgs ! k = (p, oc)" by fastforce
  let ?next = "search_valid_config n B cfgs True (Suc k)"
  have h: "k < length cfgs" "length cfgs - k = Suc n" "length sts = length cfgs" "take k sts = pre"
    "sts ! k \<in> {off_state, queue_output_config B oc p empty_state}"
    using Suc.prems c by (auto simp: starts_def)
  have off: "fst (search_finish B cfgs ?next k (upd_state k (\<lambda>st. st\<lparr>st_enabled := Some False\<rparr>) t))"
    if "length t = length cfgs" "take k t = pre" "t ! k \<in> {off_state, empty_state}" for t
  proof -
    note t = that
    obtain t' where "search_finish B cfgs ?next k (upd_state k (\<lambda>st. st\<lparr>st_enabled := Some False\<rparr>) t) = ?next t'"
      "starts B cfgs (Suc k) (pre @ [off_state]) t'"
      using off_continues[OF h(1) Suc.prems(2) t, of B ?next] Suc.prems(3) h(2) by auto
    then show ?thesis using Suc.IH[of "Suc k" "pre @ [off_state]" t'] Suc.prems by auto
  qed
  show ?case
  proof (cases "output_config_is_disabling oc")
    case True
    then show ?thesis using off[of sts] h c by (auto simp: Let_def queued_off)
  next
    case False
    let ?run = "search_render_format B cfgs ?next k (upd_state k (queue_output_config B oc p) sts)"
    have "at_level (length cfgs) k pre (running_state B p oc) (upd_state k (queue_output_config B oc p) sts)"
      using h queued_runs[OF False, of B p] by (auto simp: at_level_def upd_state_def queue_again)
    moreover have "attempted (at_level (length cfgs) k pre (running_state B p oc)) (search_render_format B cfgs ?next k)
        (\<lambda>_. True) (at_level (length cfgs) k pre (running_state B p oc))"
      using c Suc.prems(1,2) by (intro running_rule finish_rule search_keeps) auto
    ultimately have run: "if fst ?run then True else at_level (length cfgs) k pre (running_state B p oc) (snd ?run)"
      by (rule attemptedD[rotated])
    have "at_level (length cfgs) k pre (running_state B p oc) (snd ?run)
      \<Longrightarrow> fst (search_finish B cfgs ?next k (upd_state k (\<lambda>st. st\<lparr>st_enabled := Some False\<rparr>) (upd_state k (\<lambda>_. empty_state) (snd ?run))))"
      by (rule off) (auto simp: at_level_def upd_state_def)
    then show ?thesis using run False c by (auto simp: Let_def split: prod.splits bool.splits if_splits)
  qed
qed simp

section \<open>The properties\<close>

lemma queued_start: "cfgs \<noteq> [] \<Longrightarrow> starts B cfgs 0 [] (queued_states B cfgs)"
  by (auto simp: starts_def queued_states_def split_beta)

lemma queued_offered: "list_all2 (offered B d) cfgs (queued_states B cfgs)"
proof -
  have "offered B d c (queue_output_config B (snd c) (fst c) empty_state)" for c
    using queued_off[of "snd c" B "fst c"] running_offered[OF _ queued_runs, of "snd c" B d "fst c"]
    by (cases "output_config_is_disabling (snd c)") (auto simp: offered_def)
  then show ?thesis by (auto simp: queued_states_def list_all2_conv_all_nth split_beta)
qed

text \<open>
  C11. The states that are committed for the outputs were accepted by the backend, all of them together,
  and each is one that the configuration of its output offers: an output that is to be off is off, and
  an output that runs has the scale, transform, subpixels and HDR of its configuration, its mode when the
  configuration has one, else one of the modes of the output, a format of at most the depth asked for
  that the output has, and adaptive sync only if it was asked for. Without degrading no output is turned
  off that the configuration does not turn off.
\<close>
theorem chosen_states_sound:
  assumes "choose_states B cfgs degrade = (True, sts)" "cfgs \<noteq> []"
  shows "prepared B cfgs sts \<and> list_all2 (offered B degrade) cfgs sts"
proof (cases "prepared B cfgs (queued_states B cfgs)")
  case True
  then show ?thesis using assms queued_offered[of B degrade cfgs] by (auto simp: choose_states_def Let_def)
next
  case False
  then have "search_valid_config (length cfgs) B cfgs degrade 0 (queued_states B cfgs) = (True, sts)"
    using assms(1) by (simp add: choose_states_def Let_def)
  then show ?thesis
    using attemptedD[OF search_offers[of 0 "length cfgs" cfgs "[]" B degrade] queued_start[OF assms(2)]] by simp
qed

text \<open>
  C12. When outputs may be turned off and the backend accepts all of them off, the search finds states,
  whatever else the backend refuses.
\<close>
theorem degrading_finds_states:
  assumes "prepared B cfgs (replicate (length cfgs) off_state)"
  shows "fst (choose_states B cfgs True)"
proof (cases "cfgs = []")
  case True
  then show ?thesis using assms by (simp add: choose_states_def queued_states_def)
next
  case False
  then show ?thesis
    using degraded_search[of 0 "length cfgs" cfgs "[]" B] queued_start[OF False] assms
    by (auto simp: choose_states_def Let_def)
qed

section \<open>Modes\<close>

text \<open>The mode that is chosen has the size and no mode of the size is closer to the rate; an earlier one wins.\<close>

lemma best_mode_close:
  "best_mode width height mhz ms diff best = Some m \<Longrightarrow>
     (best = Some m \<and> (\<forall>n\<in>set ms. wm_width n = width \<and> wm_height n = height \<longrightarrow> diff \<le> \<bar>wm_refresh n - mhz\<bar>))
     \<or> (m \<in> set ms \<and> wm_width m = width \<and> wm_height m = height \<and> \<bar>wm_refresh m - mhz\<bar> < diff
        \<and> (\<forall>n\<in>set ms. wm_width n = width \<and> wm_height n = height \<longrightarrow> \<bar>wm_refresh m - mhz\<bar> \<le> \<bar>wm_refresh n - mhz\<bar>))"
proof (induction ms arbitrary: diff best)
  case (Cons n ms)
  show ?case
  proof (cases "wm_width n = width \<and> wm_height n = height \<and> \<bar>wm_refresh n - mhz\<bar> < diff")
    case close: True
    show ?thesis
    proof (cases "wm_refresh n = mhz")
      case True
      then show ?thesis using Cons.prems close by auto
    next
      case False
      then show ?thesis using Cons.IH[of "\<bar>wm_refresh n - mhz\<bar>" "Some n"] Cons.prems close by fastforce
    qed
  next
    case False
    then have "best_mode width height mhz ms diff best = Some m" using Cons.prems by (simp only: best_mode.simps if_False)
    from Cons.IH[OF this] show ?thesis using False by fastforce
  qed
qed simp

text \<open>
  Without a rate the target is INT_MAX, and a mode whose rate is not known (0) is as far from it as can
  be: such a mode is not found, and the preferred one replaces it.
\<close>

lemma unknown_rate_not_found:
  "best_mode 800 600 INT_MAX [\<lparr>wm_id = 0, wm_width = 800, wm_height = 600, wm_refresh = 0\<rparr>] INT_MAX None = None"
  by (simp add: INT_MAX_def)

section \<open>Examples\<close>

text \<open>A backend that can drive one output at a time, and one that builds no state.\<close>

definition sample_backend :: "bool \<Rightarrow> backend" where
  "sample_backend builds =
     \<lparr>be_modeline = (\<lambda>_ _. None),
      be_prepare = (\<lambda>sts. length (filter (\<lambda>x. st_enabled (snd x) = Some True) sts) \<le> 1),
      be_build = (\<lambda>_ _. builds), be_commit = (\<lambda>_. True), be_color_output = False, be_env = (\<lambda>_. sample_env),
      be_usable = (\<lambda>_ _. \<lparr>b_x = 0, b_y = 0, b_width = 1920, b_height = 1080\<rparr>), be_qsort = (\<lambda>_ xs. xs),
      be_srgb = 0, be_gamma22 = None, be_matrix = (\<lambda>_. None), be_pipeline = (\<lambda>_ _. None)\<rparr>"

definition plain :: "sway_output \<Rightarrow> matched_output_config" where
  "plain p = (p, new_output_config (output_name p))"

lemma one_output_found:
  "choose_states (sample_backend True) [plain left_output, plain right_output] True
     = (True, [queue_output_config (sample_backend True) (snd (plain left_output)) left_output empty_state, off_state])"
  by code_simp

lemma chosen_states_sound_witness:
  "list_all2 (offered (sample_backend True) True) [plain left_output, plain right_output]
     [queue_output_config (sample_backend True) (snd (plain left_output)) left_output empty_state, off_state]"
  using chosen_states_sound[OF one_output_found] by simp

lemma degrading_finds_states_witness:
  "fst (choose_states (sample_backend True) [plain left_output, plain right_output] True)"
  by (rule degrading_finds_states) (simp add: prepared_def sample_backend_def off_state_def empty_state_def numeral_2_eq_2)

text \<open>
  Of two outputs that are on and stay on, each is to come before the other: the comparator is no order.
\<close>

lemma priority_not_antisymmetric:
  "let c = compare_matched_output_config_priority (\<lambda>_. True); a = plain left_output; b = plain right_output in
   c a b = -1 \<and> c b a = -1"
  by code_simp

text \<open>
  A test reports failure when the search finds states, which applying would commit; and when the states
  that were accepted at once cannot be built, success is reported and nothing is committed.
\<close>

lemma test_fails_where_apply_succeeds:
  assumes "\<not> prepared B cfgs (queued_states B cfgs)" "choose_states B cfgs d = (True, sts)"
    and "list_all (\<lambda>(c, st). be_build B (so_id (fst c)) st) (zip cfgs sts)"
    and "be_commit B (zip (map (\<lambda>c. so_id (fst c)) cfgs) sts)"
  shows "fst (apply_resolved_output_configs B cfgs True d S) = False
    \<and> fst (apply_resolved_output_configs B cfgs False d S) = True"
  using assms by (simp add: apply_resolved_output_configs_def)

lemma unbuilt_states_reported_applied:
  "apply_resolved_output_configs (sample_backend False) [plain left_output] False True S = (True, S)"
proof -
  have "prepared (sample_backend False) [plain left_output] (queued_states (sample_backend False) [plain left_output])"
    by code_simp
  then show ?thesis
    by (simp add: apply_resolved_output_configs_def choose_states_def Let_def queued_states_def plain_def sample_backend_def)
qed

end
