(* ===== verification/Cmd_Output.thy ===== *)
theory Cmd_Output
  imports Output_Apply Bsearch Cmd
begin

text \<open>
  The output command (sway/commands/output.c and the files of sway/commands/output/): a configuration is
  filled by subcommands, each of which takes its words and leaves the rest, then stored and applied.
\<close>

text \<open>
  What the command depends on: whether the configuration is being read or reloaded, the output of the
  node the command is for, the name of the fallback output, and the C library, the file system and
  wlroots. oe_icc is None for a file that cannot be read, Some None for one that holds no profile.
\<close>

record output_env =
  oe_reading :: bool
  oe_reloading :: bool
  oe_output :: "id option"
  oe_fallback :: "id \<times> string"
  oe_wordexp :: "string \<Rightarrow> string list option"
  oe_config_dir :: string
  oe_exists :: "string \<Rightarrow> bool"
  oe_srgb :: "color_transform option"
  oe_icc :: "string \<Rightarrow> color_transform option option"
  oe_compose :: "int \<Rightarrow> int \<Rightarrow> int"
  oe_swaybg :: "string option"
  oe_spawn :: "string list \<Rightarrow> bool"

text \<open>
  A subcommand ends the command with a result, or goes on with a configuration and the words that are
  left. None is a null pointer that is dereferenced.
\<close>

datatype step = Done cmd_results output_server | More output_config "string list"

type_synonym output_handler = "output_env \<Rightarrow> backend \<Rightarrow> output_server \<Rightarrow> output_config \<Rightarrow> string list \<Rightarrow> step option"

definition fails :: "cmd_status \<Rightarrow> string \<Rightarrow> output_server \<Rightarrow> step option" where
  "fails st msg S = Some (Done (cmd_results_new st (Some msg)) S)"

abbreviation goes_on :: "output_config \<Rightarrow> string list \<Rightarrow> step option" where
  "goes_on oc rest \<equiv> Some (More oc rest)"

text \<open>toggle needs an output that is there and not the wildcard.\<close>

definition toggled_output :: "output_server \<Rightarrow> output_config \<Rightarrow> (sway_output \<Rightarrow> step option) \<Rightarrow> step option" where
  "toggled_output S oc k =
     (if oc_name oc = ''*'' then fails CMD_INVALID ''Cannot apply toggle to all outputs'' S
      else case all_output_by_name_or_id (os_outputs S) (oc_name oc) of
        None \<Rightarrow> fails CMD_FAILURE (''Cannot apply toggle to unknown output '' @ oc_name oc) S
      | Some p \<Rightarrow> k p)"

section \<open>Switches\<close>

definition output_cmd_adaptive_sync :: output_handler where
  "output_cmd_adaptive_sync X B S oc argv =
     (if argv = [] then fails CMD_INVALID ''Missing adaptive_sync argument'' S
      else
        (let set_to = (\<lambda>now. goes_on (oc\<lparr>oc_adaptive_sync := of_bool (parse_boolean (hd argv) now)\<rparr>) (tl argv)) in
         if str_caseeq (hd argv) ''toggle''
         then toggled_output S oc (\<lambda>p. set_to (wo_adaptive_sync_enabled (so_wlr p)))
         else set_to True))"

definition output_cmd_allow_tearing :: output_handler where
  "output_cmd_allow_tearing X B S oc argv =
     (if argv = [] then fails CMD_INVALID ''Missing allow_tearing argument'' S
      else goes_on (oc\<lparr>oc_allow_tearing := of_bool (parse_boolean (hd argv) (oc_allow_tearing oc = 1))\<rparr>) (tl argv))"

definition output_cmd_disable :: output_handler where
  "output_cmd_disable X B S oc argv = goes_on (oc\<lparr>oc_enabled := 0\<rparr>) argv"

definition output_cmd_enable :: output_handler where
  "output_cmd_enable X B S oc argv = goes_on (oc\<lparr>oc_enabled := 1\<rparr>) argv"

definition output_cmd_hdr :: output_handler where
  "output_cmd_hdr X B S oc argv =
     (if argv = [] then fails CMD_INVALID ''Missing hdr argument'' S
      else
        (let set_to = (\<lambda>now. goes_on (oc\<lparr>oc_hdr := of_bool (parse_boolean (hd argv) now)\<rparr>) (tl argv)) in
         if str_caseeq (hd argv) ''toggle'' then toggled_output S oc (\<lambda>p. set_to (so_hdr p)) else set_to False))"

text \<open>An output that is enabled but has been switched off is off.\<close>

definition output_cmd_power :: output_handler where
  "output_cmd_power X B S oc argv =
     (if argv = [] then fails CMD_INVALID ''Missing power argument'' S
      else
        (let set_to = (\<lambda>now. goes_on (oc\<lparr>oc_power := of_bool (parse_boolean (hd argv) now)\<rparr>) (tl argv)) in
         if str_caseeq (hd argv) ''toggle''
         then toggled_output S oc (\<lambda>p. set_to (\<not> (output_on S (so_id p) \<and> \<not> wo_enabled (so_wlr p))))
         else set_to True))"

definition output_cmd_dpms :: output_handler where
  "output_cmd_dpms = output_cmd_power"

definition output_cmd_toggle :: output_handler where
  "output_cmd_toggle X B S oc argv =
     toggled_output S oc (\<lambda>p.
       goes_on (oc\<lparr>oc_enabled := (if oc_enabled (find_output_config_from_list (os_configs S) p) \<noteq> 0 then 0 else 1)\<rparr>) argv)"

section \<open>Words and numbers\<close>

definition output_cmd_max_render_time :: output_handler where
  "output_cmd_max_render_time X B S oc argv =
     (if argv = [] then fails CMD_INVALID ''Missing max render time argument.'' S
      else if hd argv = ''off'' then goes_on (oc\<lparr>oc_max_render_time := 0\<rparr>) (tl argv)
      else
        (case c_strtol (hd argv) of (v, rest) \<Rightarrow>
           if rest \<noteq> [] \<or> to_int32 v \<le> 0 then fails CMD_INVALID ''Invalid max render time.'' S
           else goes_on (oc\<lparr>oc_max_render_time := to_int32 v\<rparr>) (tl argv)))"

definition output_cmd_render_bit_depth :: output_handler where
  "output_cmd_render_bit_depth X B S oc argv =
     (if argv = [] then fails CMD_INVALID ''Missing bit depth argument.'' S
      else
        (case map_of [(''6'', RENDER_BIT_DEPTH_6), (''8'', RENDER_BIT_DEPTH_8), (''10'', RENDER_BIT_DEPTH_10)] (hd argv) of
           None \<Rightarrow> fails CMD_INVALID ''Invalid bit depth. Must be a value in (6|8|10).'' S
         | Some d \<Rightarrow> goes_on (oc\<lparr>oc_render_bit_depth := d\<rparr>) (tl argv)))"

definition output_cmd_scale :: output_handler where
  "output_cmd_scale X B S oc argv =
     (if argv = [] then fails CMD_INVALID ''Missing scale argument.'' S
      else
        (case c_strtof (hd argv) of (v, rest) \<Rightarrow>
           if rest \<noteq> [] then fails CMD_INVALID ''Invalid scale.'' S else goes_on (oc\<lparr>oc_scale := v\<rparr>) (tl argv)))"

definition output_cmd_scale_filter :: output_handler where
  "output_cmd_scale_filter X B S oc argv =
     (if argv = [] then fails CMD_INVALID ''Missing scale_filter argument.'' S
      else
        (case map_of [(''linear'', SCALE_FILTER_LINEAR), (''nearest'', SCALE_FILTER_NEAREST), (''smart'', SCALE_FILTER_SMART)]
                (hd argv) of
           None \<Rightarrow> fails CMD_INVALID ''Invalid output scale_filter.'' S
         | Some f \<Rightarrow> goes_on (oc\<lparr>oc_scale_filter := f\<rparr>) (tl argv)))"

definition output_cmd_subpixel :: output_handler where
  "output_cmd_subpixel X B S oc argv =
     (if argv = [] then fails CMD_INVALID ''Missing subpixel argument.'' S
      else
        (case map_of [(''rgb'', SUBPIXEL_HORIZONTAL_RGB), (''bgr'', SUBPIXEL_HORIZONTAL_BGR),
                      (''vrgb'', SUBPIXEL_VERTICAL_RGB), (''vbgr'', SUBPIXEL_VERTICAL_BGR), (''none'', SUBPIXEL_NONE)] (hd argv) of
           None \<Rightarrow> fails CMD_INVALID ''Invalid output subpixel.'' S
         | Some p \<Rightarrow> goes_on (oc\<lparr>oc_subpixel := p\<rparr>) (tl argv)))"

text \<open>Two numbers in one word with a separator, or in two words.\<close>

definition output_cmd_position :: output_handler where
  "output_cmd_position X B S oc argv =
     (if argv = [] then fails CMD_INVALID ''Missing position argument.'' S
      else
        (case c_strtol (hd argv) of (x, rest) \<Rightarrow>
           if rest \<noteq> []
           then
             (if hd rest \<noteq> CHR '','' then fails CMD_INVALID ''Invalid position x.'' S
              else
                (case c_strtol (tl rest) of (y, rest) \<Rightarrow>
                   if rest \<noteq> [] then fails CMD_INVALID ''Invalid position y.'' S
                   else goes_on (oc\<lparr>oc_x := to_int32 x, oc_y := to_int32 y\<rparr>) (tl argv)))
           else
             (case tl argv of [] \<Rightarrow> fails CMD_INVALID ''Missing position argument (y).'' S
              | a # as \<Rightarrow>
                  (case c_strtol a of (y, rest) \<Rightarrow>
                     if rest \<noteq> [] then fails CMD_INVALID ''Invalid position y.'' S
                     else goes_on (oc\<lparr>oc_x := to_int32 x, oc_y := to_int32 y\<rparr>) as))))"

text \<open>1920x1080@60Hz, 1920x1080 or two words; the rate stays unset without @.\<close>

definition mode_in_word :: "string \<Rightarrow> output_config \<Rightarrow> output_config + string" where
  "mode_in_word rest oc =
     (if hd rest \<noteq> CHR ''x'' then Inr ''Invalid mode width.''
      else
        (case c_strtol (tl rest) of (h, rest) \<Rightarrow>
           (let oc = oc\<lparr>oc_height := to_int32 h\<rparr> in
            if rest = [] then Inl oc
            else if hd rest \<noteq> CHR ''@'' then Inr ''Invalid mode height.''
            else
              (case c_strtof (tl rest) of (r, rest) \<Rightarrow>
                 if str_caseeq ''Hz'' rest then Inl (oc\<lparr>oc_refresh_rate := r\<rparr>) else Inr ''Invalid mode refresh rate.''))))"

text \<open>With --custom alone the program reads the null pointer behind the last word.\<close>

definition output_cmd_mode :: output_handler where
  "output_cmd_mode X B S oc argv =
     (if argv = [] then fails CMD_INVALID ''Missing mode argument.'' S
      else
        (let custom = (hd argv = ''--custom''); argv = (if custom then tl argv else argv);
             oc = oc\<lparr>oc_custom_mode := of_bool custom, oc_drm_mode := (oc_drm_mode oc)\<lparr>dm_type := 0\<rparr>\<rparr> in
         if argv = [] then None
         else
           (case c_strtol (hd argv) of (w, rest) \<Rightarrow>
              (let oc = oc\<lparr>oc_width := to_int32 w\<rparr> in
               if rest \<noteq> []
               then (case mode_in_word rest oc of Inr m \<Rightarrow> fails CMD_INVALID m S | Inl oc \<Rightarrow> goes_on oc (tl argv))
               else
                 (case tl argv of [] \<Rightarrow> fails CMD_INVALID ''Missing mode argument (height).'' S
                  | a # as \<Rightarrow>
                      (case c_strtol a of (h, rest) \<Rightarrow>
                         if rest \<noteq> [] then fails CMD_INVALID ''Invalid mode height.'' S
                         else goes_on (oc\<lparr>oc_height := to_int32 h\<rparr>) as))))))"

section \<open>Modelines\<close>

definition DRM_MODE_TYPE_USERDEF :: "32 word" where "DRM_MODE_TYPE_USERDEF = 0x20"

definition sync_flag :: "string \<Rightarrow> string \<Rightarrow> 32 word \<Rightarrow> 32 word option" where
  "sync_flag name a positive =
     (if str_caseeq a (CHR ''+'' # name) then Some positive
      else if str_caseeq a (CHR ''-'' # name) then Some (push_bit 1 positive) else None)"

definition mode_number :: "string \<Rightarrow> 16 word" where
  "mode_number a = word_of_int (fst (c_strtol a))"

text \<open>
  parse_modeline: Inr when it fails; the total sizes divide the rate, None for a total of zero. The rate
  is a double that is cut to 32 bits. Flags are PHSYNC 1, NHSYNC 2, PVSYNC 4, NVSYNC 8.
\<close>

definition parse_modeline :: "string list \<Rightarrow> drm_mode \<Rightarrow> drm_mode option option" where
  "parse_modeline argv m =
     (let clock = (word_of_int (c_trunc (fst (c_strtof (argv ! 0)) * 1000)) :: 32 word);
          t = map (\<lambda>i. mode_number (argv ! i)) [1..<9]; htotal = t ! 3; vtotal = t ! 7 in
      if htotal = 0 \<or> vtotal = 0 then None
      else
        (let rate = (of_nat (unat clock) * 1000 * 1000 / of_nat (unat htotal) / of_nat (unat vtotal) :: rat);
             vrefresh = (word_of_int (c_trunc rate) :: 32 word) in
         Some (case sync_flag ''hsync'' (argv ! 9) 1 of None \<Rightarrow> None
           | Some h \<Rightarrow>
               (case sync_flag ''vsync'' (argv ! 10) 4 of None \<Rightarrow> None
                | Some v \<Rightarrow>
                    Some \<lparr>dm_type = DRM_MODE_TYPE_USERDEF, dm_clock = clock, dm_timings = t, dm_vrefresh = vrefresh,
                      dm_flags = or (or (dm_flags m) h) v,
                      dm_name = take 31 (show_nat (unat (t ! 0)) @ ''x'' @ show_nat (unat (t ! 4)) @ ''@''
                        @ show_int (sint (word_of_int (uint vrefresh div 1000) :: 32 word)))\<rparr>))))"

text \<open>The words of a modeline must be the last ones of the command.\<close>

definition output_cmd_modeline :: output_handler where
  "output_cmd_modeline X B S oc argv =
     (if argv = [] then fails CMD_INVALID ''Missing modeline argument.'' S
      else if length argv \<noteq> 11 then fails CMD_INVALID ''Invalid modeline'' S
      else
        (case parse_modeline argv (oc_drm_mode oc) of
           None \<Rightarrow> None
         | Some None \<Rightarrow> fails CMD_INVALID ''Invalid modeline'' S
         | Some (Some m) \<Rightarrow> goes_on (oc\<lparr>oc_drm_mode := m\<rparr>) []))"

section \<open>Transforms\<close>

text \<open>The numbers of wl_output_transform: 0 to 3 quarter turns, 4 to 7 the same flipped.\<close>

definition invert_rotation_direction :: "int \<Rightarrow> int" where
  "invert_rotation_direction t = (if t = 1 then 3 else if t = 3 then 1 else if t = 5 then 7 else if t = 7 then 5 else t)"

definition transform_names :: "(string \<times> int) list" where
  "transform_names = [(''normal'', 0), (''0'', 0), (''90'', 1), (''180'', 2), (''270'', 3), (''flipped'', 4),
     (''flipped-90'', 5), (''flipped-180'', 6), (''flipped-270'', 7)]"

definition enabled_output :: "output_server \<Rightarrow> string \<Rightarrow> sway_output option" where
  "enabled_output S n =
     (case output_by_name_or_id (os_tree S) n of None \<Rightarrow> None | Some i \<Rightarrow> List.find (\<lambda>p. so_id p = i) (os_outputs S))"

definition output_cmd_transform :: output_handler where
  "output_cmd_transform X B S oc argv =
     (if argv = [] then fails CMD_INVALID ''Missing transform argument.'' S
      else
        (case map_of transform_names (hd argv) of
           None \<Rightarrow> fails CMD_INVALID ''Invalid output transform.'' S
         | Some t \<Rightarrow>
             (let t = invert_rotation_direction t in
              case tl argv of
                a # as \<Rightarrow>
                  if a \<noteq> ''clockwise'' \<and> a \<noteq> ''anticlockwise'' then goes_on (oc\<lparr>oc_transform := t\<rparr>) (a # as)
                  else if oe_reloading X
                  then fails CMD_INVALID ''Relative transforms cannot be used in the configuration file'' S
                  else if oc_name oc = ''*'' then fails CMD_INVALID ''Cannot apply relative transform to all outputs.'' S
                  else
                    (case enabled_output S (oc_name oc) of
                       None \<Rightarrow> fails CMD_INVALID (''Cannot apply relative transform to unknown output '' @ oc_name oc) S
                     | Some p \<Rightarrow>
                         (let t = (if a = ''anticlockwise'' then invert_rotation_direction t else t) in
                          goes_on (oc\<lparr>oc_transform := oe_compose X (wo_transform (so_wlr p)) t\<rparr>) as))
              | [] \<Rightarrow> goes_on (oc\<lparr>oc_transform := t\<rparr>) [])))"

section \<open>Wallpapers\<close>

definition bg_options :: "string list" where
  "bg_options = [''stretch'', ''center'', ''fill'', ''fit'', ''tile'']"

text \<open>What strtol in base 16 leaves: blanks, a sign and 0x are read as well.\<close>

definition strtol16_rest :: "string \<Rightarrow> string" where
  "strtol16_rest s =
     (let t = dropWhile is_ws s; u = (if t \<noteq> [] \<and> hd t \<in> {CHR ''-'', CHR ''+''} then tl t else t);
          u = (if length u \<ge> 3 \<and> u ! 0 = CHR ''0'' \<and> u ! 1 \<in> {CHR ''x'', CHR ''X''} \<and> is_xdigit (u ! 2) then drop 2 u else u) in
      if takeWhile is_xdigit u = [] then s else dropWhile is_xdigit u)"

definition validate_color :: "string \<Rightarrow> bool" where
  "validate_color c \<longleftrightarrow> length c = 7 \<and> hd c = CHR ''#'' \<and> strtol16_rest (tl c) = []"

text \<open>The first word that is a mode, with the words before it and behind it.\<close>

definition is_bg_mode :: "string \<Rightarrow> bool" where
  "is_bg_mode a \<longleftrightarrow> list_ex (str_caseeq a) bg_options"

definition split_at_mode :: "string list \<Rightarrow> (string list \<times> string \<times> string list) option" where
  "split_at_mode argv =
     (case dropWhile (\<lambda>a. \<not> is_bg_mode a) argv of [] \<Rightarrow> None
      | m # rest \<Rightarrow> Some (takeWhile (\<lambda>a. \<not> is_bg_mode a) argv, m, rest))"

text \<open>A fallback colour may follow; one that is malformed is dropped with a warning.\<close>

definition take_fallback :: "string list \<Rightarrow> string option \<times> string list" where
  "take_fallback rest =
     (case rest of [] \<Rightarrow> (None, [])
      | a # as \<Rightarrow> if a \<noteq> [] \<and> hd a = CHR ''#'' then (if validate_color a then Some a else None, as) else (None, rest))"

definition output_cmd_background :: output_handler where
  "output_cmd_background X B S oc argv =
     (if argv = [] then fails CMD_INVALID ''Missing background file or color specification.'' S
      else if length argv < 2 then fails CMD_INVALID ''Missing background scaling mode or `solid_color`.'' S
      else if str_caseeq (argv ! 1) ''solid_color''
      then
        (if \<not> validate_color (argv ! 0) then fails CMD_INVALID ''Colors should be of the form #RRGGBB'' S
         else goes_on (oc\<lparr>oc_background := Some (argv ! 0), oc_background_option := Some ''solid_color'',
                          oc_background_fallback := None\<rparr>) (drop 2 argv))
      else
        (case split_at_mode argv of
           None \<Rightarrow> fails CMD_INVALID ''Missing background scaling mode.'' S
         | Some ([], m, rest) \<Rightarrow> fails CMD_INVALID ''Missing background file'' S
         | Some (f # fs, m, rest) \<Rightarrow>
             (case expand_path (oe_wordexp X) (the (join_args (f # fs))) of
                (False, src) \<Rightarrow> fails CMD_INVALID (''Invalid syntax ('' @ src @ '')'') S
              | (True, src) \<Rightarrow>
                  (let src = (if oe_reading X \<and> \<not> has_prefix src ''/'' then oe_config_dir X @ ''/'' @ src else src);
                       (fallback, rest) = take_fallback rest in
                   if oe_exists X src
                   then goes_on (oc\<lparr>oc_background := Some src, oc_background_option := Some m,
                                    oc_background_fallback := fallback\<rparr>) rest
                   else
                     (case fallback of
                        None \<Rightarrow> fails CMD_FAILURE (''Unable to access background file '' @ src @ '' and no valid fallback provided'') S
                      | Some c \<Rightarrow>
                          goes_on (oc\<lparr>oc_background := Some c, oc_background_option := Some ''solid_color'',
                                      oc_background_fallback := None\<rparr>) rest)))))"

section \<open>Colour profiles\<close>

definition output_cmd_color_profile :: output_handler where
  "output_cmd_color_profile X B S oc argv =
     (let device = (length argv \<ge> 2 \<and> hd argv = ''--device-primaries''); argv = (if device then tl argv else argv);
          profile = (if device then COLOR_PROFILE_TRANSFORM_WITH_DEVICE_PRIMARIES else COLOR_PROFILE_TRANSFORM) in
      if argv = [] then fails CMD_INVALID ''Missing color_profile first argument.'' S
      else if hd argv = ''gamma22''
      then goes_on (oc\<lparr>oc_color_transform := None, oc_color_profile := profile\<rparr>) (tl argv)
      else if hd argv = ''srgb''
      then goes_on (oc\<lparr>oc_color_transform := oe_srgb X, oc_color_profile := profile\<rparr>) (tl argv)
      else if hd argv = ''icc''
      then
        (if length argv < 2 then fails CMD_INVALID ''Invalid color profile specification: icc type requires a file'' S
         else if device
         then fails CMD_INVALID ''Invalid color profile specification: --device-primaries cannot be used with icc'' S
         else
           (case expand_path (oe_wordexp X) (argv ! 1) of
              (False, path) \<Rightarrow> fails CMD_INVALID ''Invalid color profile specification: invalid file path'' S
            | (True, path) \<Rightarrow>
                (case oe_icc X path of
                   None \<Rightarrow> fails CMD_FAILURE ''Failed to load color profile: could not read ICC file'' S
                 | Some None \<Rightarrow>
                     fails CMD_FAILURE ''Failed to load color profile: failed to initialize transform from ICC'' S
                 | Some (Some t) \<Rightarrow>
                     goes_on (oc\<lparr>oc_color_transform := Some t, oc_color_profile := COLOR_PROFILE_TRANSFORM\<rparr>) (drop 2 argv))))
      else fails CMD_INVALID ''Invalid color profile specification: first argument should be gamma22|icc|srgb'' S)"

section \<open>Unplugging\<close>

definition output_cmd_unplug :: output_handler where
  "output_cmd_unplug X B S oc argv =
     (if oc_name oc = ''*'' then fails CMD_INVALID ''Won't unplug all outputs'' S
      else case all_output_by_name_or_id (os_outputs S) (oc_name oc) of
        None \<Rightarrow> fails CMD_INVALID (''Cannot unplug unknown output '' @ oc_name oc) S
      | Some p \<Rightarrow>
          if \<not> wo_unpluggable (so_wlr p)
          then fails CMD_INVALID ''Can only unplug outputs with headless, wayland or x11 backend'' S
          else Some (Done (cmd_results_new CMD_SUCCESS None) (begin_destroy B (so_id p) S)))"

section \<open>The command\<close>

definition output_handlers :: "(string \<times> output_handler) list" where
  "output_handlers =
     [(''adaptive_sync'', output_cmd_adaptive_sync), (''allow_tearing'', output_cmd_allow_tearing),
      (''background'', output_cmd_background), (''bg'', output_cmd_background), (''color_profile'', output_cmd_color_profile),
      (''disable'', output_cmd_disable), (''dpms'', output_cmd_dpms), (''enable'', output_cmd_enable), (''hdr'', output_cmd_hdr),
      (''max_render_time'', output_cmd_max_render_time), (''mode'', output_cmd_mode), (''modeline'', output_cmd_modeline),
      (''pos'', output_cmd_position), (''position'', output_cmd_position), (''power'', output_cmd_power),
      (''render_bit_depth'', output_cmd_render_bit_depth), (''res'', output_cmd_mode), (''resolution'', output_cmd_mode),
      (''scale'', output_cmd_scale), (''scale_filter'', output_cmd_scale_filter), (''subpixel'', output_cmd_subpixel),
      (''toggle'', output_cmd_toggle), (''transform'', output_cmd_transform), (''unplug'', output_cmd_unplug)]"

text \<open>The loop over the subcommands; each takes at least its name, so the number of words is enough fuel.\<close>

fun output_subcommands :: "nat \<Rightarrow> output_env \<Rightarrow> backend \<Rightarrow> output_server \<Rightarrow> output_config \<Rightarrow> string list \<Rightarrow> step option" where
  "output_subcommands 0 X B S oc argv = goes_on oc argv"
| "output_subcommands (Suc n) X B S oc argv =
     (if argv = [] then goes_on oc []
      else
        (case find_handler (hd argv) output_handlers of
           None \<Rightarrow> fails CMD_INVALID (''Invalid output subcommand: '' @ hd argv @ ''.'') S
         | Some (name, h) \<Rightarrow>
             (case h X B S oc (tl argv) of
                Some (More oc rest) \<Rightarrow> output_subcommands n X B S oc rest
              | r \<Rightarrow> r)))"

text \<open>The name of the configuration: - is the output of the context, -- its identifier.\<close>

definition output_config_name :: "output_env \<Rightarrow> output_server \<Rightarrow> string \<Rightarrow> string + string" where
  "output_config_name X S a =
     (if a \<noteq> ''-'' \<and> a \<noteq> ''--'' then Inl a
      else if oe_reading X then Inr (''Current output alias ('' @ a @ '') cannot be used in the config'')
      else
        (case oe_output X of None \<Rightarrow> Inr ''Unknown output''
         | Some i \<Rightarrow>
             if i = fst (oe_fallback X) then Inr ''Refusing to configure the no op output''
             else case List.find (\<lambda>p. so_id p = i) (os_outputs S) of
               None \<Rightarrow> Inr ''Unknown output''
             | Some p \<Rightarrow> Inl (if a = ''-'' then output_name p else output_id p)))"

definition cmd_output :: "output_env \<Rightarrow> backend \<Rightarrow> string list \<Rightarrow> output_server \<Rightarrow> (cmd_results \<times> output_server) option" where
  "cmd_output X B argv S =
     (case checkarg (int (length argv)) ''output'' EXPECTED_AT_LEAST 1 of Some e \<Rightarrow> Some (e, S)
      | None \<Rightarrow>
          if str_caseeq (hd argv) (snd (oe_fallback X))
          then Some (cmd_results_new CMD_FAILURE (Some ''Refusing to configure the no op output''), S)
          else
            (case output_config_name X S (hd argv) of
               Inr m \<Rightarrow> Some (cmd_results_new CMD_FAILURE (Some m), S)
             | Inl name \<Rightarrow>
                 (case output_subcommands (length argv) X B S (new_output_config name) (tl argv) of
                    None \<Rightarrow> None
                  | Some (Done r S) \<Rightarrow> Some (r, S)
                  | Some (More oc rest) \<Rightarrow>
                      (let S = store_config oc S in
                       if oe_reading X then Some (cmd_results_new CMD_SUCCESS None, S)
                       else
                         (let S = request_modeset S in
                          if oc_background oc = None then Some (cmd_results_new CMD_SUCCESS None, S)
                          else
                            map_option (\<lambda>ok. (if ok then cmd_results_new CMD_SUCCESS None
                                else cmd_results_new CMD_FAILURE (Some ''Failed to apply background configuration''), S))
                              (spawn_swaybg (oe_spawn X) (oe_swaybg X) (os_configs S)))))))"

end
