(* ===== verification/Cmd_Output_Laws.thy ===== *)
theory Cmd_Output_Laws
  imports Cmd_Output Output_Apply_Laws
begin

text \<open>
  The output command: every subcommand takes words or leaves them, keeps the name of the configuration
  and sets a wallpaper together with its mode; a subcommand that fails leaves everything as it was.
\<close>

section \<open>One subcommand\<close>

text \<open>
  How a subcommand may end: with an error and nothing changed, with an output destroyed (unplug), or with
  the words left and a configuration of the same name whose wallpaper, if it has one, comes with its mode.
\<close>

definition ended :: "backend \<Rightarrow> output_server \<Rightarrow> cmd_results \<Rightarrow> output_server \<Rightarrow> bool" where
  "ended B S r S' \<longleftrightarrow>
     (if status r = CMD_SUCCESS then \<exists>p\<in>set (os_outputs S). S' = begin_destroy B (so_id p) S else S' = S)"

definition fine :: "backend \<Rightarrow> output_server \<Rightarrow> output_config \<Rightarrow> nat \<Rightarrow> step option \<Rightarrow> bool" where
  "fine B S oc n r \<longleftrightarrow>
     (case r of None \<Rightarrow> True | Some (Done r S') \<Rightarrow> ended B S r S'
      | Some (More oc' rest) \<Rightarrow> oc_name oc' = oc_name oc \<and> length rest \<le> n \<and> (background_ok oc \<longrightarrow> background_ok oc'))"

definition well_behaved :: "output_handler \<Rightarrow> bool" where
  "well_behaved h \<longleftrightarrow> (\<forall>X B S oc argv. fine B S oc (length argv) (h X B S oc argv))"

lemma well_behavedI: "(\<And>X B S oc argv. fine B S oc (length argv) (h X B S oc argv)) \<Longrightarrow> well_behaved h"
  by (simp add: well_behaved_def)

lemma well_behavedD: "well_behaved h \<Longrightarrow> fine B S oc (length argv) (h X B S oc argv)"
  by (simp add: well_behaved_def)

named_theorems fine_steps

lemma fine_basic [fine_steps]:
  "fine B S oc n None" "st \<noteq> CMD_SUCCESS \<Longrightarrow> fine B S oc n (fails st m S)"
  "fine B S oc n (Some (More oc' rest)) \<longleftrightarrow>
     oc_name oc' = oc_name oc \<and> length rest \<le> n \<and> (background_ok oc \<longrightarrow> background_ok oc')"
  by (simp_all add: fine_def fails_def ended_def cmd_results_new_def)

lemma fine_toggled: "(\<And>p. fine B S oc n (k p)) \<Longrightarrow> fine B S oc n (toggled_output S oc k)"
  by (simp add: toggled_output_def fine_steps split: option.split)

lemma background_other [simp]:
  "background_ok (oc\<lparr>oc_enabled := i\<rparr>) = background_ok oc" "background_ok (oc\<lparr>oc_power := i\<rparr>) = background_ok oc"
  "background_ok (oc\<lparr>oc_width := i\<rparr>) = background_ok oc" "background_ok (oc\<lparr>oc_height := i\<rparr>) = background_ok oc"
  "background_ok (oc\<lparr>oc_refresh_rate := r\<rparr>) = background_ok oc" "background_ok (oc\<lparr>oc_custom_mode := i\<rparr>) = background_ok oc"
  "background_ok (oc\<lparr>oc_drm_mode := d\<rparr>) = background_ok oc" "background_ok (oc\<lparr>oc_x := i\<rparr>) = background_ok oc"
  "background_ok (oc\<lparr>oc_y := i\<rparr>) = background_ok oc" "background_ok (oc\<lparr>oc_scale := r\<rparr>) = background_ok oc"
  "background_ok (oc\<lparr>oc_scale_filter := f\<rparr>) = background_ok oc" "background_ok (oc\<lparr>oc_transform := i\<rparr>) = background_ok oc"
  "background_ok (oc\<lparr>oc_subpixel := p\<rparr>) = background_ok oc" "background_ok (oc\<lparr>oc_max_render_time := i\<rparr>) = background_ok oc"
  "background_ok (oc\<lparr>oc_adaptive_sync := i\<rparr>) = background_ok oc"
  "background_ok (oc\<lparr>oc_render_bit_depth := b\<rparr>) = background_ok oc"
  "background_ok (oc\<lparr>oc_color_profile := q\<rparr>) = background_ok oc"
  "background_ok (oc\<lparr>oc_color_transform := t\<rparr>) = background_ok oc"
  "background_ok (oc\<lparr>oc_allow_tearing := i\<rparr>) = background_ok oc" "background_ok (oc\<lparr>oc_hdr := i\<rparr>) = background_ok oc"
  by (simp_all add: background_ok_def)

lemma tl_words: "tl argv = a # as \<Longrightarrow> Suc (length as) < length argv"
  by (cases argv) auto

lemma adaptive_sync_fine: "well_behaved output_cmd_adaptive_sync"
  by (rule well_behavedI) (simp add: output_cmd_adaptive_sync_def Let_def fine_toggled fine_steps)

lemma allow_tearing_fine: "well_behaved output_cmd_allow_tearing"
  by (rule well_behavedI) (simp add: output_cmd_allow_tearing_def fine_steps)

lemma enable_fine: "well_behaved output_cmd_enable" "well_behaved output_cmd_disable" "well_behaved output_cmd_toggle"
  by (rule well_behavedI, simp add: output_cmd_enable_def output_cmd_disable_def output_cmd_toggle_def fine_toggled fine_steps)+

lemma hdr_fine: "well_behaved output_cmd_hdr"
  by (rule well_behavedI) (simp add: output_cmd_hdr_def Let_def fine_toggled fine_steps)

lemma power_fine: "well_behaved output_cmd_power" "well_behaved output_cmd_dpms"
  by (rule well_behavedI, simp add: output_cmd_power_def output_cmd_dpms_def Let_def fine_toggled fine_steps)+

lemma words_fine: "well_behaved output_cmd_max_render_time" "well_behaved output_cmd_render_bit_depth"
  "well_behaved output_cmd_scale" "well_behaved output_cmd_scale_filter" "well_behaved output_cmd_subpixel"
  by (rule well_behavedI, simp add: output_cmd_max_render_time_def output_cmd_render_bit_depth_def output_cmd_scale_def
      output_cmd_scale_filter_def output_cmd_subpixel_def fine_steps split: option.split prod.split)+

lemma position_fine: "well_behaved output_cmd_position"
  by (rule well_behavedI) (auto simp: output_cmd_position_def fine_steps dest: tl_words split: list.split prod.split)

lemma mode_in_word_keeps:
  "mode_in_word rest oc = Inl oc' \<Longrightarrow> oc_name oc' = oc_name oc \<and> background_ok oc' = background_ok oc"
  by (auto simp: mode_in_word_def Let_def split: if_splits prod.splits)

lemma mode_fine: "well_behaved output_cmd_mode"
  by (rule well_behavedI)
    (auto simp: output_cmd_mode_def Let_def fine_steps dest: mode_in_word_keeps tl_words split: list.split prod.split sum.split)

lemma modeline_fine: "well_behaved output_cmd_modeline"
  by (rule well_behavedI) (simp add: output_cmd_modeline_def fine_steps split: option.split)

lemma transform_fine: "well_behaved output_cmd_transform"
  by (rule well_behavedI)
    (auto simp: output_cmd_transform_def Let_def fine_steps dest: tl_words split: list.split option.split)

lemma take_fallback_length: "take_fallback rest = (c, left) \<Longrightarrow> length left \<le> length rest"
  by (auto simp: take_fallback_def split: list.splits if_splits)

lemma split_at_mode_length: "split_at_mode argv = Some (before, m, rest) \<Longrightarrow> length rest \<le> length argv"
  using length_dropWhile_le[of "\<lambda>a. \<not> is_bg_mode a" argv] by (auto simp: split_at_mode_def split: list.splits)

lemma background_fine: "well_behaved output_cmd_background"
proof (rule well_behavedI)
  fix X B S oc argv
  show "fine B S oc (length argv) (output_cmd_background X B S oc argv)"
    unfolding output_cmd_background_def Let_def
    by (auto simp: fine_steps background_ok_def split: option.splits list.splits prod.splits bool.splits
        dest!: take_fallback_length split_at_mode_length)
qed

lemma color_profile_fine: "well_behaved output_cmd_color_profile"
  by (rule well_behavedI)
    (auto simp: output_cmd_color_profile_def Let_def fine_steps split: option.splits prod.splits bool.splits)

lemma unplug_fine: "well_behaved output_cmd_unplug"
  by (rule well_behavedI)
    (auto simp: output_cmd_unplug_def fine_steps fine_def[of _ _ _ _ "Some (Done _ _)"] ended_def cmd_results_new_def
       all_output_by_name_or_id_def find_Some_iff split: option.split)

lemma handlers_fine: "(name, h) \<in> set output_handlers \<Longrightarrow> well_behaved h"
  unfolding output_handlers_def
  by (auto intro: adaptive_sync_fine allow_tearing_fine enable_fine hdr_fine power_fine words_fine position_fine
      mode_fine modeline_fine transform_fine background_fine color_profile_fine unplug_fine)

section \<open>A whole command\<close>

lemma output_handlers_alphabetized: "alphabetized output_handlers"
  by (rule alphabetized_by_names) (simp add: output_handlers_def, code_simp)

lemma found_fine: "find_handler a output_handlers = Some (name, h) \<Longrightarrow> well_behaved h"
  using handlers_fine[of name h]
  by (metis find_handler_find[OF output_handlers_alphabetized] find_Some_iff nth_mem)

lemma subcommands_fine: "fine B S oc (length argv) (output_subcommands n X B S oc argv)"
proof (induction n arbitrary: oc argv)
  case (Suc n)
  show ?case
  proof (cases "argv = [] \<or> find_handler (hd argv) output_handlers = None")
    case True
    then show ?thesis by (auto simp: fine_steps split: option.split)
  next
    case False
    then obtain name h where h: "argv \<noteq> []" "find_handler (hd argv) output_handlers = Some (name, h)" by fastforce
    have f: "fine B S oc (length (tl argv)) (h X B S oc (tl argv))" by (rule well_behavedD[OF found_fine[OF h(2)]])
    show ?thesis
    proof (cases "\<exists>oc' rest. h X B S oc (tl argv) = Some (More oc' rest)")
      case True
      then obtain oc' rest where "h X B S oc (tl argv) = Some (More oc' rest)" by blast
      then show ?thesis using f Suc.IH[of oc' rest] h
        by (auto simp: fine_def split: option.splits step.splits)
    next
      case False
      then show ?thesis using f h by (auto simp: fine_def split: option.splits step.splits)
    qed
  qed
qed (simp add: fine_steps)

text \<open>The number of words is enough fuel: more rounds change nothing.\<close>

lemma subcommands_fuel:
  "length argv \<le> n \<Longrightarrow> length argv \<le> m \<Longrightarrow> output_subcommands n X B S oc argv = output_subcommands m X B S oc argv"
proof (induction n arbitrary: m oc argv)
  case 0
  then show ?case by (cases m) auto
next
  case (Suc n)
  show ?case
  proof (cases "m = 0 \<or> argv = []")
    case True
    then show ?thesis using Suc.prems by (cases m) auto
  next
    case False
    then obtain k where k: "m = Suc k" by (auto simp: gr0_conv_Suc)
    have "output_subcommands n X B S oc' rest = output_subcommands k X B S oc' rest"
      if "find_handler (hd argv) output_handlers = Some (name, h)" "h X B S oc (tl argv) = Some (More oc' rest)" for name h oc' rest
    proof -
      have "length rest \<le> length (tl argv)"
        using well_behavedD[OF found_fine[OF that(1)], of B S oc "tl argv" X] that(2) by (simp add: fine_def)
      then show ?thesis using Suc.prems k False by (intro Suc.IH) (cases argv; simp)+
    qed
    then show ?thesis using k by (auto split: option.split step.split)
  qed
qed

lemma new_background_ok: "background_ok (new_output_config n)"
  by (simp add: background_ok_def new_output_config_def)

lemma subcommands_more:
  "output_subcommands n X B S (new_output_config name) argv = Some (More oc rest) \<Longrightarrow> oc_name oc = name \<and> background_ok oc"
  using subcommands_fine[of B S "new_output_config name" argv n X] new_background_ok[of name]
  by (simp add: fine_def) (simp add: new_output_config_def)

lemma subcommands_done:
  "output_subcommands n X B S oc argv = Some (Done r S') \<Longrightarrow> ended B S r S'"
  using subcommands_fine[of B S oc argv n X] by (simp add: fine_def)

text \<open>
  Words that are read to their end: each subcommand is one of the table and accepts what it takes, and
  the configuration goes from one to the next. This says nothing of the loop that reads them.
\<close>

inductive accepted :: "output_env \<Rightarrow> backend \<Rightarrow> output_server \<Rightarrow> output_config \<Rightarrow> string list \<Rightarrow> output_config \<Rightarrow> bool"
  for X :: output_env and B :: backend and S :: output_server where
  no_words: "accepted X B S oc [] oc"
| subcommand: "(name, h) \<in> set output_handlers \<Longrightarrow> str_caseeq word name
    \<Longrightarrow> h X B S oc words = Some (More oc' rest) \<Longrightarrow> accepted X B S oc' rest oc''
    \<Longrightarrow> accepted X B S oc (word # words) oc''"

lemma subcommands_accepted:
  "output_subcommands n X B S oc argv = Some (More oc' rest) \<Longrightarrow> length argv \<le> n \<Longrightarrow> rest = [] \<and> accepted X B S oc argv oc'"
proof (induction n arbitrary: oc argv)
  case (Suc n)
  show ?case
  proof (cases argv)
    case (Cons word words)
    then obtain name h oc1 rest1 where h: "find_handler word output_handlers = Some (name, h)"
        "h X B S oc words = Some (More oc1 rest1)" "output_subcommands n X B S oc1 rest1 = Some (More oc' rest)"
      using Suc.prems(1) by (auto simp: fails_def split: option.splits step.splits)
    have "length rest1 \<le> n"
      using well_behavedD[OF found_fine[OF h(1)], of B S oc words X] h(2) Suc.prems(2) Cons by (simp add: fine_def)
    then have "rest = [] \<and> accepted X B S oc1 rest1 oc'" using Suc.IH[OF h(3)] by blast
    moreover have "(name, h) \<in> set output_handlers \<and> str_caseeq word name"
      using h(1) by (auto simp: find_handler_find[OF output_handlers_alphabetized] find_Some_iff) (metis fst_conv)
    ultimately show ?thesis using h(2) unfolding Cons by (blast intro: subcommand)
  qed (use Suc.prems in \<open>auto simp: no_words\<close>)
qed (auto simp: no_words)

text \<open>A command is refused, ended by a subcommand, or stored.\<close>

lemma cmd_output_cases:
  assumes "cmd_output X B argv S = Some (r, S')"
  shows "(S' = S \<and> status r \<noteq> CMD_SUCCESS)
    \<or> (\<exists>name. output_subcommands (length argv) X B S (new_output_config name) (tl argv) = Some (Done r S'))
    \<or> (\<exists>name oc rest. output_config_name X S (hd argv) = Inl name
         \<and> output_subcommands (length argv) X B S (new_output_config name) (tl argv) = Some (More oc rest)
         \<and> S' = (if oe_reading X then store_config oc S else request_modeset (store_config oc S))
         \<and> (status r = CMD_SUCCESS \<or> (\<not> oe_reading X \<and> oc_background oc \<noteq> None
              \<and> spawn_swaybg (oe_spawn X) (oe_swaybg X) (os_configs S') = Some False)))"
proof (cases "\<exists>name. checkarg (int (length argv)) ''output'' EXPECTED_AT_LEAST 1 = None
    \<and> \<not> str_caseeq (hd argv) (snd (oe_fallback X)) \<and> output_config_name X S (hd argv) = Inl name")
  case False
  then show ?thesis using assms
    by (auto simp: cmd_output_def checkarg_def cmd_results_new_def split: option.splits sum.splits if_splits)
next
  case True
  then obtain name where n: "checkarg (int (length argv)) ''output'' EXPECTED_AT_LEAST 1 = None"
    "\<not> str_caseeq (hd argv) (snd (oe_fallback X))" "output_config_name X S (hd argv) = Inl name" by blast
  let ?s = "output_subcommands (length argv) X B S (new_output_config name) (tl argv)"
  show ?thesis
  proof (cases "\<exists>oc rest. ?s = Some (More oc rest)")
    case True
    then obtain oc rest where m: "?s = Some (More oc rest)" by blast
    then have "S' = (if oe_reading X then store_config oc S else request_modeset (store_config oc S))
        \<and> (status r = CMD_SUCCESS \<or> (\<not> oe_reading X \<and> oc_background oc \<noteq> None
              \<and> spawn_swaybg (oe_spawn X) (oe_swaybg X) (os_configs S') = Some False))"
      using assms n by (auto simp: cmd_output_def Let_def cmd_results_new_def split: if_splits)
    then show ?thesis using m n(3) by blast
  next
    case False
    then have "?s = Some (Done r S')"
      using assms n by (simp add: cmd_output_def split: option.splits step.splits)
    then show ?thesis by blast
  qed
qed

text \<open>
  C13. An output command is all or nothing. When it succeeds, either every subcommand was accepted and
  the configuration they build is stored (and applied, unless the configuration is being read), or unplug
  destroyed an output. When it fails, nothing is changed, whichever subcommands came before the one that
  failed; the only other failure is that of swaybg: every subcommand was accepted, a wallpaper is among
  them, the configuration is stored, and swaybg cannot be started on what is stored.
\<close>
theorem output_command_all_or_nothing:
  assumes "cmd_output X B argv S = Some (r, S')"
  shows "if status r = CMD_SUCCESS
    then (\<exists>name oc. output_config_name X S (hd argv) = Inl name \<and> accepted X B S (new_output_config name) (tl argv) oc
            \<and> S' = (if oe_reading X then store_config oc S else request_modeset (store_config oc S)))
      \<or> (\<exists>p\<in>set (os_outputs S). S' = begin_destroy B (so_id p) S)
    else S' = S
      \<or> (\<exists>name oc. output_config_name X S (hd argv) = Inl name \<and> accepted X B S (new_output_config name) (tl argv) oc
            \<and> \<not> oe_reading X \<and> oc_background oc \<noteq> None \<and> S' = request_modeset (store_config oc S)
            \<and> spawn_swaybg (oe_spawn X) (oe_swaybg X) (os_configs S') = Some False)"
  using cmd_output_cases[OF assms]
proof (elim disjE exE conjE)
  fix name
  assume "output_subcommands (length argv) X B S (new_output_config name) (tl argv) = Some (Done r S')"
  then show ?thesis using subcommands_done by (auto simp: ended_def split: if_splits)
next
  fix name oc rest
  assume "output_subcommands (length argv) X B S (new_output_config name) (tl argv) = Some (More oc rest)"
  then have a: "accepted X B S (new_output_config name) (tl argv) oc" using subcommands_accepted by fastforce
  assume "output_config_name X S (hd argv) = Inl name"
    "S' = (if oe_reading X then store_config oc S else request_modeset (store_config oc S))"
  note b = this
  show "status r = CMD_SUCCESS \<Longrightarrow> ?thesis" using a b by auto
  show ?thesis if "\<not> oe_reading X" "oc_background oc \<noteq> None"
      "spawn_swaybg (oe_spawn X) (oe_swaybg X) (os_configs S') = Some False"
    using a b that by auto
qed auto

lemma begin_destroy_configs [simp]: "os_configs (begin_destroy B p S) = os_configs S"
  by (simp add: begin_destroy_def Let_def request_modeset_def)

text \<open>What the commands store keeps wallpapers with modes, so that swaybg gets its arguments.\<close>

lemma store_background_ok:
  "background_ok oc \<Longrightarrow> \<forall>c\<in>set (os_configs S). background_ok c \<Longrightarrow> \<forall>c\<in>set (os_configs (store_config oc S)). background_ok c"
  using background_stored[of oc "os_configs S" "os_outputs S"] unfolding store_config_def by simp

lemma swaybg_gets_arguments:
  "\<forall>c\<in>set (os_configs S). background_ok c \<Longrightarrow> spawn_swaybg run command (os_configs S) \<noteq> None"
  using swaybg_lines_length[of "os_configs S"] by (auto simp: spawn_swaybg_def split: option.split)

text \<open>A null pointer is only read where a subcommand does so.\<close>

lemma cmd_output_none:
  assumes "cmd_output X B argv S = None" "\<forall>c\<in>set (os_configs S). background_ok c"
  shows "\<exists>name. output_subcommands (length argv) X B S (new_output_config name) (tl argv) = None"
proof -
  have "spawn_swaybg (oe_spawn X) (oe_swaybg X) (os_configs (request_modeset (store_config oc S))) \<noteq> None" if "background_ok oc" for oc
    using swaybg_gets_arguments store_background_ok[OF that assms(2)] by (simp add: request_modeset_def)
  then have stored: "spawn_swaybg (oe_spawn X) (oe_swaybg X) (os_configs (request_modeset (store_config oc S))) \<noteq> None"
    if "output_subcommands n X B S (new_output_config name) as = Some (More oc rest)" for n name as oc rest
    using subcommands_more[OF that] by blast
  have "argv \<noteq> []" "\<not> str_caseeq (hd argv) (snd (oe_fallback X))"
    using assms(1) by (auto simp: cmd_output_def checkarg_def split: if_splits)
  moreover then obtain name where n: "output_config_name X S (hd argv) = Inl name"
    using assms(1) by (auto simp: cmd_output_def checkarg_def split: sum.splits if_splits)
  moreover have c: "checkarg (int (length argv)) ''output'' EXPECTED_AT_LEAST 1 = None"
    using \<open>argv \<noteq> []\<close> by (cases argv) (simp_all add: checkarg_def)
  ultimately show ?thesis
  proof (cases "output_subcommands (length argv) X B S (new_output_config name) (tl argv)")
    case (Some r)
    then show ?thesis
      using assms(1) \<open>\<not> str_caseeq _ _\<close> n c stored[of "length argv" name "tl argv"]
      by (cases r) (auto simp: cmd_output_def Let_def split: if_splits)
  qed blast
qed

section \<open>Examples\<close>

definition sample_output_env :: output_env where
  "sample_output_env = \<lparr>oe_reading = False, oe_reloading = False, oe_output = Some 0, oe_fallback = (9, ''FALLBACK''),
     oe_wordexp = (\<lambda>s. Some [s]), oe_config_dir = ''/etc'', oe_exists = (\<lambda>_. True), oe_srgb = None, oe_icc = (\<lambda>_. None),
     oe_compose = (\<lambda>a b. (a + b) mod 4), oe_swaybg = Some ''swaybg'', oe_spawn = (\<lambda>_. True)\<rparr>"

definition sample_output_server :: output_server where
  "sample_output_server = \<lparr>os_tree = sample, os_outputs = [left_output, right_output], os_configs = [], os_layout = [],
     os_modeset = False\<rparr>"

abbreviation run_output :: "string list \<Rightarrow> (cmd_results \<times> output_server) option" where
  "run_output argv \<equiv> cmd_output sample_output_env (sample_backend True) argv sample_output_server"

text \<open>A good subcommand before a bad one sets nothing.\<close>

lemma bad_scale:
  "run_output [''DP-1'', ''transform'', ''90'', ''scale'', ''big'']
     = Some (cmd_results_new CMD_INVALID (Some ''Invalid scale.''), sample_output_server)"
proof -
  have "find_handler ''transform'' output_handlers = Some (''transform'', output_cmd_transform)"
    "find_handler ''scale'' output_handlers = Some (''scale'', output_cmd_scale)"
    unfolding find_handler_find[OF output_handlers_alphabetized]
    by (simp_all add: output_handlers_def str_caseeq_def c_tolower_def)
  moreover have "snd (c_strtof ''big'') = ''big''" by code_simp
  ultimately show ?thesis
    by (simp add: cmd_output_def checkarg_def sample_output_env_def str_caseeq_def c_tolower_def output_config_name_def
        output_cmd_transform_def transform_names_def output_cmd_scale_def fails_def split_beta)
qed

text \<open>Only the first alternative of a failure is left where swaybg starts.\<close>

lemma output_command_all_or_nothing_witness:
  "snd (the (run_output [''DP-1'', ''transform'', ''90'', ''scale'', ''big''])) = sample_output_server"
proof -
  have "spawn_swaybg (oe_spawn sample_output_env) (oe_swaybg sample_output_env) cs \<noteq> Some False" for cs
    by (simp add: sample_output_env_def spawn_swaybg_def split: option.split)
  then show ?thesis
    using output_command_all_or_nothing[OF bad_scale] by (simp add: bad_scale cmd_results_new_def)
qed

text \<open>mode --custom without a size reads the null pointer behind the words.\<close>

lemma custom_without_size: "output_cmd_mode X B S oc [''--custom''] = None"
  by (simp add: output_cmd_mode_def)

text \<open>A sign passes for a digit of a colour.\<close>

lemma signed_color_accepted: "validate_color ''#-12345''"
  by code_simp

text \<open>A modeline is refused when another subcommand follows it.\<close>

lemma modeline_must_be_last:
  "length argv > 11 \<Longrightarrow> output_cmd_modeline X B S oc argv = fails CMD_INVALID ''Invalid modeline'' S"
  by (auto simp: output_cmd_modeline_def)

text \<open>A mode without a rate does not reset the rate of an earlier command.\<close>

lemma rate_stays:
  "oc_refresh_rate v = -1 \<Longrightarrow> oc_refresh_rate (merge_output_config d v) = oc_refresh_rate d"
  by (simp add: merge_output_config_def merged_def)

end
