(* ===== verification/Spec2Isabelle.thy ===== *)
theory Spec2Isabelle
  imports Prelude CList CStr Cmd Keyed Util Gesture Modes Tree_State Tree_Walk Layout Shape Viewport
    Viewport_Laws Floating Focus Arrange Arrange_Laws Title
    Reparent Reparent_Laws Refocus Refocus_Laws Destroy Columns Columns_Laws Tree_Inv Column_Moves Pools Vars Workspaces
    Sample Workspaces_Laws Tree_Calls Splits Splits_Laws Criteria Criteria_Laws
    Resize Handlers Overview Cmd_Window Cmd_Column Cmd_View Cmd_Config Cmd_Workspace Cmd_Focus Cmd_Move Cmd_Resize
    Bsearch Bindings Dispatch Dispatch_Laws Config_Read Keyboard Bindings_Laws Steady Transaction Transaction_Laws
    Output_Config Output_Config_Laws Output_Apply Output_Apply_Laws Cmd_Output Cmd_Output_Laws
begin

text \<open>
  swirl, a fork of the sway Wayland compositor with columns of windows that always fill the screen.

  The program. A tree of outputs, workspaces and containers (src/include/sway/tree, src/sway/tree) is
  changed by commands (src/sway/commands.c, src/sway/commands) that come from key, button, gesture and switch
  bindings, from the configuration file and from clients of the IPC socket. A command works on the
  container the focus stack of a seat (src/sway/input/seat.c) or a criteria (src/sway/criteria.c) names, moves
  containers, focus and sizes, and arranges what it changed (src/sway/tree/arrange.c, viewport.c, layout.c).
  Outputs have configurations of their own, stored by the output command and applied to the backend as a
  whole (src/sway/config/output.c).
  Nodes it touched are marked dirty; a transaction (src/sway/desktop/transaction.c) later gives them to the
  clients. Below are the helpers of src/common: pointer lists, strings, gestures, colours.

  The model. One record, sway of theory Tree_State, is the state the program keeps behind the pointers
  root, config and server: stores of containers, workspaces and outputs indexed by the ids node_init
  hands out, the seats, the configuration, the overview, and the events that would be sent to IPC clients
  and windows. A pointer is an id, NULL is None, a list_t of pointers the list it stands for; theory
  CList shows that list.c implements such lists. Every function of the source is a function from state
  to state with the source's name; what it reads outside the repository (wlroots, xkbcommon, pcre2, the
  clock) is a component of the records env, matcher, symbols, key_event and dispatch, which the theories
  that declare them explain. Doubles are rationals and ints are unbounded except where the source relies
  on the width: flags, key codes and colours are 32 bit words, gaps and resizes wrap as 32 bit ints,
  numbers of arguments are read as strtol reads them. A run that would dereference a null pointer,
  read outside an array or use a value that was never written has the result None.

  The theories, from the bottom.
    Prelude, CList (common/list.c), CStr (common/stringop.c), Util (common/util.c), Gesture
      (common/gesture.c, commands/gesture.c), Keyed (the loops the binding tables share, with the locale
      binding_table of their laws), Modes (the data of bindings).
    Tree_State (the state; node.c), Tree_Walk (walks over the tree), Layout (sizes), Viewport and
      Viewport_Laws (viewport.c: heights of a column, widths of a row), Shape (what geometry leaves alone),
      Floating, Focus (the focus stack), Arrange and Arrange_Laws (arrange.c), Title (titles, pango.c).
    Reparent, Reparent_Laws, Refocus, Refocus_Laws, Destroy, Columns, Columns_Laws, Tree_Inv, Column_Moves,
      Pools, Workspaces, Workspaces_Laws, Splits, Splits_Laws, Tree_Calls: what moves containers,
      workspaces and the focus (container.c, workspace.c, root.c, output.c, seat.c) and the invariant of the tree.
    Criteria, Criteria_Laws (criteria.c), Vars (variables of config.c), Overview (desktop/overview*.c).
    Handlers, Resize and the Cmd theories: the handlers of the commands, one definition per C function.
    Bsearch, Dispatch, Dispatch_Laws (commands.c), Bindings, Bindings_Laws (commands/bind.c), Config_Read
      (reading the configuration), Keyboard (input/keyboard.c).
    Steady (what changes of the tree leave to the transactions), Transaction, Transaction_Laws
      (desktop/transaction.c and view_is_visible): the double buffering between the tree and the clients.
    Output_Config, Output_Config_Laws (the configurations of outputs: storing, merging, the command line of
      swaybg), Output_Apply, Output_Apply_Laws (from the configurations to states the backend accepts), all
      of config/output.c; Cmd_Output, Cmd_Output_Laws (commands/output.c and commands/output).
    Sample holds the facts on a small tree that the witnesses use.

  How they meet. A key event (Keyboard) picks a binding of the current mode (Bindings) and runs its
  commands through execute_command (Dispatch), which finds a handler in the tables by binary search
  (Bsearch) and gives it the context of the focused or matched container (Criteria, Focus). The
  handler (the Cmd theories) calls the operations on the tree. Moving the focus can itself move containers:
  sticky ones follow to the new workspace, which may end a fullscreen state, which may move the focus.
  The function that moves the focus is therefore a component of env, and the locale refocusing of
  Reparent_Laws states what it must keep; Refocus_Laws interprets it for the real function at every depth.
  The rules of the configuration run commands, which run rules: execute_command at depth d + 1 uses depth d.

  The tree holds the pending state of the nodes. Every event of the program ends with
  transaction_commit_dirty, which copies the state of the dirty nodes into a transaction (Transaction);
  a record server puts the tree, the current states, the two transactions and what the clients were told
  together. The laws of the transactions hold for every change of the tree that is steady, and
  theory Steady shows this of arranging, of moving the focus and of destroying containers.

  The outputs. A record output_server holds the tree, the connected outputs, the stored configurations and
  the layout of the outputs. The output command (Cmd_Output) builds a configuration from its subcommands
  and stores it (Output_Config); a modeset looks up what is stored for every output, sorts by priority and
  searches output by output for a mode, format and adaptive sync setting the backend accepts
  (Output_Apply). What the backend accepts, qsort (its comparator is no order), wordexp, the files and
  the start of swaybg are parameters.

  Interfaces. binding_table (Keyed) is interpreted for gesture, key and switch bindings where each is
  defined; refocusing (Reparent_Laws) and steady_focus (Steady) for the focus moves of Refocus; txn
  (Transaction_Laws) for the transactions over those focus moves. Every law about bindings, about
  operations that move the focus and about transactions is proved once inside them.

  What the laws show. The tree stays well formed under every sequence of the calls that create,
  detach, insert, float, tile, destroy, reap, focus and put containers fullscreen (Tree_Calls); the
  child lists after an insertion or a detachment are exactly the expected ones; rows and columns tile
  their parent and respect minima, and a row whose minimum widths fit conserves pixels and is a fixed
  point of arranging; the focus stack has no
  repetition; workspaces are named and ordered as promised; lists and sorts refine sequences; parsers
  read back what the printers write; the tables of commands are sorted, refuse wrong argument counts (but for the commands listed as not checking them),
  and every list of commands is read to its end; bindings stay in the table of their type. Transactions
  keep their counts and pointers sound, never lose or reorder a committed state, end after at most two
  timeouts, and free a node only when nothing refers to it. What is found for a connected output is the
  merge of all that was stored for it, in order; the states chosen for the outputs were accepted by the
  backend, and some are found when outputs may be switched off and all off is accepted; an output command
  that fails leaves everything as it was, unless only swaybg failed.

  Fuel. Walks over the tree carry the number of ids handed out, next_id, plus one: under struct_ok (the
  parent pointers and child lists agree and there is no cycle) no path is longer (Tree_Walk,
  arrange_fuel_enough). The loops of Viewport, CStr and the command loop carry the length of what they
  consume, and lemmas next to them show that more fuel changes nothing; that of execute_command is shown
  equal to its rounds without a bound (next_round, last_round of Dispatch_Laws). Nested focus moves and nested
  rules have a depth given from outside (refocus_depth, execute_command); the laws hold at every depth,
  and what is beyond the depth leaves the state alone.

  Not modelled. Code whose body is calls into wlroots, libwayland, cairo, pango, libinput or the system
  has nothing left once those calls are parameters: the scene graph and rendering (scene_descriptor.c,
  sway_text_node.c, decoration.c, desktop/output.c, common/cairo.c, the title bar part of container.c, the
  arrange_ functions of transaction.c), shells and protocols (xdg_shell.c, xwayland.c, layer_shell.c,
  xdg_decoration.c, xdg_activation_v1.c, idle_inhibit_v1.c, lock.c, tearing, text input), devices (input/libinput.c,
  tablet, switch, cursor images, the input and seat commands and their configuration merging), start and
  shutdown (main.c, server.c, realtime.c, launcher.c), and the other programs of the repository (swaybar,
  swaymsg, swaynag) with the JSON they exchange (ipc-json.c, ipc-client.c). The handlers of seat operations
  with the pointer (seatop_*.c) depend on surfaces under the pointer and are left out with them.
\<close>

end
